(* ===== verification/Prelude.thy ===== *)
theory Prelude
  imports Main
begin

text \<open>
  The part of Python every decoder uses.  A function that may raise returns a value of the
  sum type \<open>'a res\<close>: \<open>Inl\<close> carries the exception, \<open>Inr\<close> the result.  The guard
  \<open>raise_if\<close> is an \<^verbatim>\<open>if condition: raise ValueError(message)\<close> statement followed by
  the rest of the function, and \<open>bind\<close> is a call whose exception propagates.  The
  collection \<open>res_simps\<close> turns a hypothesis "the function returned \<open>x\<close>" into the
  conjunction of the conditions that let it return.
\<close>

named_theorems res_simps \<open>inversion of a successful run\<close>
named_theorems eval_simps \<open>evaluation of decoders on concrete captures\<close>

datatype py_error =
    ValueError string
  | DiagnosticError string
  | IndexError
  | TypeError
  | OverflowError
  | KeyError string
  | StructError
  | CalledProcessError

type_synonym 'a res = "py_error + 'a"
type_synonym bytes = string

definition bind :: "'a res \<Rightarrow> ('a \<Rightarrow> 'b res) \<Rightarrow> 'b res" where
  "bind m f = (case m of Inl e \<Rightarrow> Inl e | Inr x \<Rightarrow> f x)"

definition raise :: "string \<Rightarrow> 'a res" where
  "raise msg = Inl (ValueError msg)"

definition raise_if :: "bool \<Rightarrow> string \<Rightarrow> 'a res \<Rightarrow> 'a res" where
  "raise_if c msg k = (if c then Inl (ValueError msg) else k)"

definition diag_if :: "bool \<Rightarrow> string \<Rightarrow> 'a res \<Rightarrow> 'a res" where
  "diag_if c msg k = (if c then Inl (DiagnosticError msg) else k)"

definition some_or :: "string \<Rightarrow> 'a option \<Rightarrow> 'a res" where
  "some_or msg v = (case v of None \<Rightarrow> Inl (ValueError msg) | Some x \<Rightarrow> Inr x)"

definition some_or_diag :: "string \<Rightarrow> 'a option \<Rightarrow> 'a res" where
  "some_or_diag msg v = (case v of None \<Rightarrow> Inl (DiagnosticError msg) | Some x \<Rightarrow> Inr x)"

lemma bind_Inr [res_simps]: "bind m f = Inr x \<longleftrightarrow> (\<exists>y. m = Inr y \<and> f y = Inr x)"
  by (auto simp: bind_def split: sum.splits)

lemma bind_Inl: "bind m f = Inl e \<longleftrightarrow> m = Inl e \<or> (\<exists>y. m = Inr y \<and> f y = Inl e)"
  by (auto simp: bind_def split: sum.splits)

lemma raise_Inr [res_simps]: "raise msg = Inr x \<longleftrightarrow> False"
  by (simp add: raise_def)

lemma raise_if_Inr [res_simps]: "raise_if c msg k = Inr x \<longleftrightarrow> \<not> c \<and> k = Inr x"
  by (simp add: raise_if_def)

lemma diag_if_Inr [res_simps]: "diag_if c msg k = Inr x \<longleftrightarrow> \<not> c \<and> k = Inr x"
  by (simp add: diag_if_def)

lemma some_or_Inr [res_simps]: "some_or msg v = Inr x \<longleftrightarrow> v = Some x"
  by (auto simp: some_or_def split: option.splits)

lemma some_or_diag_Inr [res_simps]: "some_or_diag msg v = Inr x \<longleftrightarrow> v = Some x"
  by (auto simp: some_or_diag_def split: option.splits)

lemma bind_eval [eval_simps]:
  "bind (Inr x) f = f x"
  "bind (Inl e) f = Inl e"
  by (simp_all add: bind_def)

lemma guard_eval [eval_simps]:
  "raise_if False msg k = k"
  "raise_if True msg k = Inl (ValueError msg)"
  "diag_if False msg k = k"
  "diag_if True msg k = Inl (DiagnosticError msg)"
  "some_or msg (Some x) = Inr x"
  "some_or_diag msg (Some x) = Inr x"
  by (simp_all add: raise_if_def diag_if_def some_or_def some_or_diag_def)

lemma bind_assoc: "bind (bind m f) g = bind m (\<lambda>x. bind (f x) g)"
  by (auto simp: bind_def split: sum.splits)

lemma bind_cong [fundef_cong]:
  "m = m' \<Longrightarrow> (\<And>x. m' = Inr x \<Longrightarrow> f x = g x) \<Longrightarrow> bind m f = bind m' g"
  by (auto simp: bind_def split: sum.splits)

lemma raise_if_cong [fundef_cong]:
  "c = c' \<Longrightarrow> msg = msg' \<Longrightarrow> (\<not> c' \<Longrightarrow> k = k') \<Longrightarrow> raise_if c msg k = raise_if c' msg' k'"
  by (auto simp: raise_if_def)

subsection \<open>Tuple unpacking\<close>

text \<open>
  \<^verbatim>\<open>a, b, c = values\<close> raises \<^verbatim>\<open>ValueError\<close> when the number of values differs.
\<close>

abbreviation unpack_error :: "'a res" where
  "unpack_error \<equiv> Inl (ValueError ''unpack'')"

definition unpack2 :: "'a list \<Rightarrow> ('a \<Rightarrow> 'a \<Rightarrow> 'b res) \<Rightarrow> 'b res" where
  "unpack2 vs f = (case vs of [a, b] \<Rightarrow> f a b | _ \<Rightarrow> unpack_error)"

definition unpack3 :: "'a list \<Rightarrow> ('a \<Rightarrow> 'a \<Rightarrow> 'a \<Rightarrow> 'b res) \<Rightarrow> 'b res" where
  "unpack3 vs f = (case vs of [a, b, c] \<Rightarrow> f a b c | _ \<Rightarrow> unpack_error)"

definition unpack4 :: "'a list \<Rightarrow> ('a \<Rightarrow> 'a \<Rightarrow> 'a \<Rightarrow> 'a \<Rightarrow> 'b res) \<Rightarrow> 'b res" where
  "unpack4 vs f = (case vs of [a, b, c, d] \<Rightarrow> f a b c d | _ \<Rightarrow> unpack_error)"

definition unpack5 :: "'a list \<Rightarrow> ('a \<Rightarrow> 'a \<Rightarrow> 'a \<Rightarrow> 'a \<Rightarrow> 'a \<Rightarrow> 'b res) \<Rightarrow> 'b res" where
  "unpack5 vs f = (case vs of [a, b, c, d, e] \<Rightarrow> f a b c d e | _ \<Rightarrow> unpack_error)"

definition unpack6 :: "'a list \<Rightarrow> ('a \<Rightarrow> 'a \<Rightarrow> 'a \<Rightarrow> 'a \<Rightarrow> 'a \<Rightarrow> 'a \<Rightarrow> 'b res) \<Rightarrow> 'b res" where
  "unpack6 vs f = (case vs of [a, b, c, d, e, g] \<Rightarrow> f a b c d e g | _ \<Rightarrow> unpack_error)"

definition unpack_head :: "'a list \<Rightarrow> ('a \<Rightarrow> 'a list \<Rightarrow> 'b res) \<Rightarrow> 'b res" where
  "unpack_head vs f = (case vs of a # rest \<Rightarrow> f a rest | _ \<Rightarrow> unpack_error)"

lemma unpack_Inr [res_simps]:
  "unpack2 vs f2 = Inr x \<longleftrightarrow> (\<exists>a b. vs = [a, b] \<and> f2 a b = Inr x)"
  "unpack3 vs f3 = Inr x \<longleftrightarrow> (\<exists>a b c. vs = [a, b, c] \<and> f3 a b c = Inr x)"
  "unpack4 vs f4 = Inr x \<longleftrightarrow> (\<exists>a b c d. vs = [a, b, c, d] \<and> f4 a b c d = Inr x)"
  "unpack5 vs f5 = Inr x \<longleftrightarrow> (\<exists>a b c d e. vs = [a, b, c, d, e] \<and> f5 a b c d e = Inr x)"
  "unpack6 vs f6 = Inr x \<longleftrightarrow> (\<exists>a b c d e g. vs = [a, b, c, d, e, g] \<and> f6 a b c d e g = Inr x)"
  "unpack_head vs fh = Inr x \<longleftrightarrow> (\<exists>a rest. vs = a # rest \<and> fh a rest = Inr x)"
  by (auto simp: unpack2_def unpack3_def unpack4_def unpack5_def unpack6_def unpack_head_def
      split: list.splits)

lemma unpack_eval [eval_simps]:
  "unpack2 [a, b] f2 = f2 a b"
  "unpack3 [a, b, c] f3 = f3 a b c"
  "unpack4 [a, b, c, d] f4 = f4 a b c d"
  "unpack5 [a, b, c, d, e] f5 = f5 a b c d e"
  "unpack6 [a, b, c, d, e, g] f6 = f6 a b c d e g"
  "unpack_head (a # rest) fh = fh a rest"
  by (simp_all add: unpack2_def unpack3_def unpack4_def unpack5_def unpack6_def unpack_head_def)

text \<open>The same inversion as elimination rules, for long bodies.\<close>

lemma res_elims:
  "bind m f = Inr x \<Longrightarrow> (\<And>y. m = Inr y \<Longrightarrow> f y = Inr x \<Longrightarrow> P) \<Longrightarrow> P"
  "raise_if c msg k = Inr x \<Longrightarrow> (\<not> c \<Longrightarrow> k = Inr x \<Longrightarrow> P) \<Longrightarrow> P"
  "diag_if c msg k = Inr x \<Longrightarrow> (\<not> c \<Longrightarrow> k = Inr x \<Longrightarrow> P) \<Longrightarrow> P"
  "some_or msg v = Inr z \<Longrightarrow> (v = Some z \<Longrightarrow> P) \<Longrightarrow> P"
  "(case p of (a, b) \<Rightarrow> g a b) = Inr x \<Longrightarrow> (\<And>a b. p = (a, b) \<Longrightarrow> g a b = Inr x \<Longrightarrow> P) \<Longrightarrow> P"
  "unpack2 vs f2 = Inr x \<Longrightarrow> (\<And>a b. vs = [a, b] \<Longrightarrow> f2 a b = Inr x \<Longrightarrow> P) \<Longrightarrow> P"
  "unpack3 vs f3 = Inr x \<Longrightarrow> (\<And>a b c. vs = [a, b, c] \<Longrightarrow> f3 a b c = Inr x \<Longrightarrow> P) \<Longrightarrow> P"
  "unpack4 vs f4 = Inr x \<Longrightarrow> (\<And>a b c d. vs = [a, b, c, d] \<Longrightarrow> f4 a b c d = Inr x \<Longrightarrow> P) \<Longrightarrow> P"
  "unpack5 vs f5 = Inr x \<Longrightarrow> (\<And>a b c d e. vs = [a, b, c, d, e] \<Longrightarrow> f5 a b c d e = Inr x \<Longrightarrow> P) \<Longrightarrow> P"
  "unpack6 vs f6 = Inr x \<Longrightarrow>
     (\<And>a b c d e g. vs = [a, b, c, d, e, g] \<Longrightarrow> f6 a b c d e g = Inr x \<Longrightarrow> P) \<Longrightarrow> P"
  "unpack_head vs fh = Inr x \<Longrightarrow> (\<And>a as. vs = a # as \<Longrightarrow> fh a as = Inr x \<Longrightarrow> P) \<Longrightarrow> P"
  by (auto simp: res_simps split: prod.splits)

subsection \<open>Indexing and enumeration\<close>

definition py_get :: "'a list \<Rightarrow> int \<Rightarrow> 'a res" where
  \<comment> \<open>list indexing: negative indices count from the end, IndexError out of range\<close>
  "py_get xs i =
     (let k = (if i < 0 then int (length xs) + i else i) in
      if k < 0 \<or> int (length xs) \<le> k then Inl IndexError else Inr (xs ! nat k))"

lemma py_get_Inr [res_simps]:
  "py_get xs i = Inr x \<longleftrightarrow>
     (if i < 0 then - int (length xs) \<le> i \<and> x = xs ! nat (int (length xs) + i)
      else i < int (length xs) \<and> x = xs ! nat i)"
  by (auto simp: py_get_def Let_def)

definition indices_where :: "('a \<Rightarrow> bool) \<Rightarrow> 'a list \<Rightarrow> nat list" where
  \<comment> \<open>\<^verbatim>\<open>[i for i, x in enumerate(xs) if p(x)]\<close>\<close>
  "indices_where p xs = filter (\<lambda>i. p (xs ! i)) [0..<length xs]"

lemma indices_where_set: "set (indices_where p xs) = {i. i < length xs \<and> p (xs ! i)}"
  by (auto simp: indices_where_def)

lemma indices_where_empty: "indices_where p xs = [] \<longleftrightarrow> (\<forall>x\<in>set xs. \<not> p x)"
  by (auto simp: indices_where_def filter_empty_conv all_set_conv_all_nth)

lemma indices_where_sorted: "sorted (indices_where p xs)" "distinct (indices_where p xs)"
  by (simp_all add: indices_where_def sorted_wrt_filter)

lemma indices_where_hd:
  assumes "indices_where p xs \<noteq> []"
  shows "hd (indices_where p xs) < length xs" and "p (xs ! hd (indices_where p xs))"
    and "\<And>j. j < hd (indices_where p xs) \<Longrightarrow> \<not> p (xs ! j)"
proof -
  let ?is = "indices_where p xs"
  have h: "hd ?is \<in> set ?is" using assms by simp
  then show "hd ?is < length xs" "p (xs ! hd ?is)" by (auto simp: indices_where_set)
  fix j assume j: "j < hd ?is"
  show "\<not> p (xs ! j)"
  proof
    assume "p (xs ! j)"
    with j h have "j \<in> set ?is" by (auto simp: indices_where_set)
    then have "hd ?is \<le> j"
      using indices_where_sorted(1) [of p xs] assms by (cases ?is) auto
    with j show False by simp
  qed
qed

lemma indices_where_Nil [eval_simps]: "indices_where p [] = []"
  by (simp add: indices_where_def)

lemma indices_where_Cons:
  "indices_where p (x # xs) = (if p x then [0] else []) @ map Suc (indices_where p xs)"
proof -
  have "[0..<length (x # xs)] = 0 # map Suc [0..<length xs]"
    by (simp only: length_Cons map_Suc_upt upt_conv_Cons [of 0 "Suc (length xs)"] zero_less_Suc)
  then show ?thesis by (simp add: indices_where_def filter_map comp_def del: upt_Suc)
qed

lemma indices_where_append:
  "indices_where p (xs @ ys) = indices_where p xs @ map (\<lambda>i. length xs + i) (indices_where p ys)"
  by (induction xs) (simp_all add: indices_where_Cons indices_where_Nil comp_def)

end
