(* ===== verification/Py_Bytes.thy ===== *)
theory Py_Bytes
  imports Prelude
begin

text \<open>
  Python byte strings.  A \<^verbatim>\<open>bytes\<close> object is a list of 8-bit characters, so
  \<^typ>\<open>string\<close> holds it exactly; an ASCII \<^verbatim>\<open>str\<close> is identified with its encoding.
  Modelled here: \<^verbatim>\<open>startswith\<close>, \<^verbatim>\<open>endswith\<close>, \<^verbatim>\<open>splitlines(keepends=True)\<close>,
  \<^verbatim>\<open>find\<close>, \<^verbatim>\<open>count\<close>, \<^verbatim>\<open>replace(a, b, 1)\<close>, \<^verbatim>\<open>split\<close>, \<^verbatim>\<open>strip\<close>,
  \<^verbatim>\<open>int(text)\<close>, \<^verbatim>\<open>str(n)\<close> and \<^verbatim>\<open>bytes.fromhex\<close>.
\<close>

abbreviation LF :: char where "LF \<equiv> CHR 0x0A"
abbreviation CR :: char where "CR \<equiv> CHR 0x0D"

abbreviation NL :: bytes where "NL \<equiv> [LF]"

fun startswith :: "bytes \<Rightarrow> bytes \<Rightarrow> bool" where
  "startswith s [] = True"
| "startswith [] (c # cs) = False"
| "startswith (d # ds) (c # cs) = (d = c \<and> startswith ds cs)"

definition endswith :: "bytes \<Rightarrow> bytes \<Rightarrow> bool" where
  "endswith s t = startswith (rev s) (rev t)"

lemma startswith_iff: "startswith s t \<longleftrightarrow> (\<exists>u. s = t @ u)"
  by (induction s t rule: startswith.induct) auto

lemma startswith_append [simp]: "startswith (t @ u) t"
  by (auto simp: startswith_iff)

lemma startswith_append_same [simp]: "startswith (a @ u) (a @ v) = startswith u v"
  by (induction a) auto

lemma startswith_drop: "startswith s t \<Longrightarrow> s = t @ drop (length t) s"
  by (auto simp: startswith_iff)

lemma endswith_iff: "endswith s t \<longleftrightarrow> (\<exists>u. s = u @ t)"
proof
  assume "endswith s t"
  then obtain u where "rev s = rev t @ u" by (auto simp: endswith_def startswith_iff)
  then have "s = rev u @ t" by (metis rev_append rev_rev_ident)
  then show "\<exists>u. s = u @ t" by blast
qed (auto simp: endswith_def startswith_iff)

lemma endswith_append [simp]: "endswith (u @ t) t"
  by (auto simp: endswith_iff)

subsection \<open>Lines\<close>

text \<open>
  \<^verbatim>\<open>bytes.splitlines(keepends=True)\<close>: a line ends after a line feed, after a carriage
  return, or after the pair of both; a final line may lack its terminator.
\<close>

fun splitlines :: "bytes \<Rightarrow> bytes list" where
  "splitlines [] = []"
| "splitlines (c # cs) =
     (if c = LF \<or> (c = CR \<and> \<not> startswith cs NL) then [c] # splitlines cs
      else (case splitlines cs of [] \<Rightarrow> [[c]] | l # ls \<Rightarrow> (c # l) # ls))"

lemma concat_splitlines [simp]: "concat (splitlines s) = s"
  by (induction s) (auto split: list.splits)

lemma splitlines_nonempty_lines: "l \<in> set (splitlines s) \<Longrightarrow> l \<noteq> []"
  by (induction s arbitrary: l) (fastforce split: if_splits list.splits)+

lemma splitlines_eq_Nil [simp]: "splitlines s = [] \<longleftrightarrow> s = []"
  by (cases s) (auto split: list.splits)

text \<open>A complete line: terminated by a line feed, with no other terminator inside.\<close>

definition complete_line :: "bytes \<Rightarrow> bool" where
  "complete_line l \<longleftrightarrow> l \<noteq> [] \<and> last l = LF \<and> LF \<notin> set (butlast l) \<and> CR \<notin> set (butlast l)"

lemma splitlines_body:
  "LF \<notin> set b \<Longrightarrow> CR \<notin> set b \<Longrightarrow> splitlines (b @ LF # rest) = (b @ NL) # splitlines rest"
  by (induction b) auto

lemma splitlines_complete:
  "complete_line l \<Longrightarrow> splitlines (l @ rest) = l # splitlines rest"
proof -
  assume l: "complete_line l"
  then have "l = butlast l @ NL" by (metis complete_line_def append_butlast_last_id)
  with l show ?thesis
    using splitlines_body [of "butlast l" rest]
    by (metis append.assoc append_Cons append_Nil complete_line_def)
qed

lemma splitlines_concat:
  "\<forall>l\<in>set ls. complete_line l \<Longrightarrow> splitlines (concat ls @ rest) = ls @ splitlines rest"
  by (induction ls) (simp_all add: splitlines_complete)

lemma splitlines_concat_all:
  "\<forall>l\<in>set ls. complete_line l \<Longrightarrow> splitlines (concat ls) = ls"
  using splitlines_concat [of ls "[]"] by simp

lemma complete_line_append:
  "LF \<notin> set b \<Longrightarrow> CR \<notin> set b \<Longrightarrow> complete_line (b @ NL)"
  by (simp add: complete_line_def)

subsection \<open>Searching\<close>

fun bytes_find :: "bytes \<Rightarrow> bytes \<Rightarrow> nat option" where
  \<comment> \<open>\<^verbatim>\<open>find\<close>: \<open>None\<close> stands for the result -1\<close>
  "bytes_find pat [] = (if pat = [] then Some 0 else None)"
| "bytes_find pat (c # cs) =
     (if startswith (c # cs) pat then Some 0 else map_option Suc (bytes_find pat cs))"

abbreviation bytes_in :: "bytes \<Rightarrow> bytes \<Rightarrow> bool" where
  "bytes_in pat s \<equiv> bytes_find pat s \<noteq> None"

lemma bytes_find_Some:
  "bytes_find pat s = Some i \<Longrightarrow> i \<le> length s \<and> startswith (drop i s) pat"
  by (induction s arbitrary: i) (auto split: if_splits)

lemma bytes_find_least:
  "bytes_find pat s = Some i \<Longrightarrow> j < i \<Longrightarrow> \<not> startswith (drop j s) pat"
proof (induction s arbitrary: i j)
  case Nil
  then show ?case by (auto split: if_splits)
next
  case (Cons c cs)
  then show ?case by (cases j) (auto split: if_splits)
qed

lemma all_le_Suc: "(\<forall>i\<le>Suc n. P i) \<longleftrightarrow> P 0 \<and> (\<forall>i\<le>n. P (Suc i))"
  by (metis Suc_le_mono le0 not0_implies_Suc)

lemma bytes_find_None: "bytes_find pat s = None \<longleftrightarrow> (\<forall>i\<le>length s. \<not> startswith (drop i s) pat)"
proof (induction s)
  case Nil
  show ?case by (cases pat) auto
next
  case (Cons c cs)
  then show ?case by (simp add: all_le_Suc)
qed

function bytes_count :: "bytes \<Rightarrow> bytes \<Rightarrow> nat" where
  \<comment> \<open>\<^verbatim>\<open>count\<close> of non-overlapping occurrences of a nonempty pattern\<close>
  "bytes_count pat s =
     (case s of [] \<Rightarrow> 0
      | c # cs \<Rightarrow> if pat \<noteq> [] \<and> startswith s pat then Suc (bytes_count pat (drop (length pat) s))
                 else bytes_count pat cs)"
  by pat_completeness auto
termination
  by (relation "measure (\<lambda>(pat, s). length s)") auto

declare bytes_count.simps [simp del]

definition replace_first :: "bytes \<Rightarrow> bytes \<Rightarrow> bytes \<Rightarrow> bytes" where
  \<comment> \<open>\<^verbatim>\<open>s.replace(old, new, 1)\<close>\<close>
  "replace_first old new s =
     (case bytes_find old s of None \<Rightarrow> s
      | Some i \<Rightarrow> take i s @ new @ drop (i + length old) s)"

fun split_on :: "char \<Rightarrow> bytes \<Rightarrow> bytes list" where
  "split_on d [] = [[]]"
| "split_on d (c # cs) =
     (if c = d then [] # split_on d cs
      else (case split_on d cs of [] \<Rightarrow> [[c]] | p # ps \<Rightarrow> (c # p) # ps))"

lemma split_on_nonempty [simp]: "split_on d s \<noteq> []"
  by (induction s) (auto split: list.splits)

lemma split_on_no_sep: "p \<in> set (split_on d s) \<Longrightarrow> d \<notin> set p"
  by (induction s arbitrary: p) (fastforce split: if_splits list.splits)+

lemma split_on_part: "d \<notin> set p \<Longrightarrow> split_on d (p @ d # rest) = p # split_on d rest"
  by (induction p) auto

lemma split_on_last: "d \<notin> set p \<Longrightarrow> split_on d p = [p]"
  by (induction p) auto

subsection \<open>Decimal text\<close>

definition is_digit :: "char \<Rightarrow> bool" where
  "is_digit c \<longleftrightarrow> 48 \<le> (of_char c :: nat) \<and> (of_char c :: nat) \<le> 57"

definition is_space :: "char \<Rightarrow> bool" where
  "is_space c \<longleftrightarrow> c \<in> set [CHR '' '', CHR 0x09, LF, CHR 0x0B, CHR 0x0C, CR]"

definition strip :: "bytes \<Rightarrow> bytes" where
  "strip s = rev (dropWhile is_space (rev (dropWhile is_space s)))"

definition digit_char :: "nat \<Rightarrow> char" where
  "digit_char n = ''0123456789'' ! n"

definition digit_val :: "char \<Rightarrow> int" where
  "digit_val c = int (of_char c) - 48"

definition dec_value :: "bytes \<Rightarrow> int" where
  "dec_value ds = foldl (\<lambda>n c. 10 * n + digit_val c) 0 ds"

text \<open>
  \<^verbatim>\<open>int(text)\<close>: surrounding white space, one sign and single underscores between digits are
  accepted, a text of more than 4300 digits is refused; every refusal is a
  \<^verbatim>\<open>ValueError\<close>.
\<close>

fun plain_digits :: "bool \<Rightarrow> bytes \<Rightarrow> bytes option" where
  "plain_digits after_digit [] = (if after_digit then Some [] else None)"
| "plain_digits after_digit (c # cs) =
     (if is_digit c then map_option (Cons c) (plain_digits True cs)
      else if c = CHR ''_'' \<and> after_digit then plain_digits False cs else None)"

definition py_int :: "bytes \<Rightarrow> int res" where
  "py_int s =
     (let t = strip s;
          neg = startswith t ''-'';
          u = (if neg \<or> startswith t ''+'' then tl t else t)
      in case plain_digits False u of
           None \<Rightarrow> raise ''int''
         | Some ds \<Rightarrow> raise_if (4300 < length ds) ''int''
             (Inr (if neg then - dec_value ds else dec_value ds)))"

fun py_ints :: "bytes list \<Rightarrow> int list res" where
  "py_ints [] = Inr []"
| "py_ints (g # gs) = bind (py_int g) (\<lambda>v. bind (py_ints gs) (\<lambda>vs. Inr (v # vs)))"

fun decimal :: "nat \<Rightarrow> bytes" where
  \<comment> \<open>\<^verbatim>\<open>str(n)\<close>\<close>
  "decimal n = (if n < 10 then [digit_char n] else decimal (n div 10) @ [digit_char (n mod 10)])"

declare decimal.simps [simp del]

lemma digit_char_table:
  "list_all (\<lambda>n. is_digit (digit_char n) \<and> digit_val (digit_char n) = int n \<and>
     (digit_char n = CHR ''0'' \<longleftrightarrow> n = 0)) [0..<10]"
  by code_simp

lemma digit_char_facts:
  assumes "n < 10"
  shows is_digit_digit_char: "is_digit (digit_char n)"
    and digit_val_digit_char: "digit_val (digit_char n) = int n"
    and digit_char_eq_0: "digit_char n = CHR ''0'' \<longleftrightarrow> n = 0"
  using digit_char_table assms by (simp_all add: list_all_iff)

lemma decimal_nonempty [simp]: "decimal n \<noteq> []"
  by (subst decimal.simps) simp

lemma decimal_digits: "c \<in> set (decimal n) \<Longrightarrow> is_digit c"
proof (induction n rule: decimal.induct)
  case (1 n)
  then show ?case
    by (subst (asm) decimal.simps) (auto simp: is_digit_digit_char split: if_splits)
qed

lemma dec_value_snoc: "dec_value (ds @ [c]) = 10 * dec_value ds + digit_val c"
  by (simp add: dec_value_def)

lemma dec_value_decimal [simp]: "dec_value (decimal n) = int n"
proof (induction n rule: decimal.induct)
  case (1 n)
  show ?case
  proof (cases "n < 10")
    case True
    then show ?thesis by (subst decimal.simps) (simp add: dec_value_def digit_val_digit_char)
  next
    case False
    then have "dec_value (decimal n) = 10 * int (n div 10) + int (n mod 10)"
      using 1 by (subst decimal.simps) (simp add: dec_value_snoc digit_val_digit_char)
    then show ?thesis by (metis mult_div_mod_eq of_nat_add of_nat_mult of_nat_numeral)
  qed
qed

lemma decimal_hd: "0 < n \<Longrightarrow> hd (decimal n) \<noteq> CHR ''0''"
proof (induction n rule: decimal.induct)
  case (1 n)
  then show ?case
    by (subst decimal.simps) (auto simp: digit_char_eq_0)
qed

lemma decimal_length: "n < 10 ^ Suc k \<Longrightarrow> length (decimal n) \<le> Suc k"
proof (induction k arbitrary: n)
  case 0
  then show ?case by (subst decimal.simps) simp
next
  case (Suc k)
  show ?case
  proof (cases "n < 10")
    case True
    then show ?thesis by (subst decimal.simps) simp
  next
    case False
    have "n div 10 < 10 ^ Suc k" using Suc.prems by (simp add: less_mult_imp_div_less)
    with False Suc.IH show ?thesis by (subst decimal.simps) simp
  qed
qed

lemma plain_digits_all: "\<forall>c\<in>set ds. is_digit c \<Longrightarrow> ds \<noteq> [] \<or> b \<Longrightarrow> plain_digits b ds = Some ds"
  by (induction ds arbitrary: b) auto

lemma digit_not_space: "is_digit c \<Longrightarrow> \<not> is_space c"
  by (auto simp: is_digit_def is_space_def)

lemma digit_not_sign: "is_digit c \<Longrightarrow> c \<noteq> CHR ''-'' \<and> c \<noteq> CHR ''+''"
  by (auto simp: is_digit_def)

lemma strip_digits: "\<forall>c\<in>set ds. is_digit c \<Longrightarrow> strip ds = ds"
proof -
  assume d: "\<forall>c\<in>set ds. is_digit c"
  have "dropWhile is_space xs = xs" if "\<forall>c\<in>set xs. is_digit c" for xs
    using that by (cases xs) (auto dest: digit_not_space)
  with d show ?thesis by (simp add: strip_def)
qed

lemma py_int_digits:
  assumes "\<forall>c\<in>set ds. is_digit c" "ds \<noteq> []" "length ds \<le> 4300"
  shows "py_int ds = Inr (dec_value ds)"
proof -
  obtain c cs where ds: "ds = c # cs" using assms(2) by (cases ds) auto
  with assms(1) have "c \<noteq> CHR ''-''" "c \<noteq> CHR ''+''" using digit_not_sign by auto
  with ds assms show ?thesis
    by (simp add: py_int_def Let_def strip_digits plain_digits_all raise_if_def)
qed

lemma py_int_decimal: "length (decimal n) \<le> 4300 \<Longrightarrow> py_int (decimal n) = Inr (int n)"
  by (subst py_int_digits) (auto dest: decimal_digits)

subsection \<open>Hexadecimal text\<close>

definition is_hex :: "char \<Rightarrow> bool" where
  \<comment> \<open>the class \<^verbatim>\<open>[0-9a-f]\<close>\<close>
  "is_hex c \<longleftrightarrow> is_digit c \<or> (97 \<le> (of_char c :: nat) \<and> (of_char c :: nat) \<le> 102)"

definition hex_val :: "char \<Rightarrow> nat" where
  "hex_val c = (if is_digit c then of_char c - 48 else of_char c - 87)"

definition hex_char :: "nat \<Rightarrow> char" where
  "hex_char n = ''0123456789abcdef'' ! n"

fun fromhex :: "bytes \<Rightarrow> bytes" where
  \<comment> \<open>\<^verbatim>\<open>bytes.fromhex\<close> of an even number of lower-case hexadecimal digits\<close>
  "fromhex (a # b # rest) = char_of (16 * hex_val a + hex_val b) # fromhex rest"
| "fromhex _ = []"

definition byte_hex :: "char \<Rightarrow> bytes" where
  "byte_hex c = [hex_char (of_char c div 16), hex_char (of_char c mod 16)]"

definition tohex :: "bytes \<Rightarrow> bytes" where
  \<comment> \<open>\<^verbatim>\<open>data.hex()\<close>\<close>
  "tohex s = concat (map byte_hex s)"

lemma hex_char_table:
  "list_all (\<lambda>n. is_hex (hex_char n) \<and> hex_val (hex_char n) = n \<and>
     of_char (hex_char n) = (if n < 10 then 48 + n else 87 + n)) [0..<16]"
  by code_simp

lemma hex_char_facts:
  assumes "n < 16"
  shows is_hex_hex_char: "is_hex (hex_char n)"
    and hex_val_hex_char: "hex_val (hex_char n) = n"
    and of_char_hex_char: "of_char (hex_char n) = (if n < 10 then 48 + n else 87 + n)"
  using hex_char_table assms by (simp_all add: list_all_iff)

lemma of_char_div_16: "(of_char (c :: char) :: nat) div 16 < 16"
  by (rule less_mult_imp_div_less) simp

lemma fromhex_tohex: "fromhex (tohex s) = s"
proof (induction s)
  case Nil
  show ?case by (simp add: tohex_def)
next
  case (Cons c s)
  have "fromhex (tohex (c # s)) = char_of (of_char c :: nat) # fromhex (tohex s)"
    by (simp add: tohex_def byte_hex_def hex_val_hex_char of_char_div_16)
  with Cons show ?case by simp
qed

lemma length_tohex: "length (tohex s) = 2 * length s"
  by (induction s) (simp_all add: tohex_def byte_hex_def)

lemma length_fromhex: "length (fromhex s) = length s div 2"
  by (induction s rule: fromhex.induct) auto

lemma tohex_hex: "c \<in> set (tohex s) \<Longrightarrow> is_hex c"
  by (auto simp: tohex_def byte_hex_def of_char_div_16 intro!: is_hex_hex_char)

lemma hex_char_hex_val:
  assumes "is_hex c"
  shows "hex_val c < 16" "hex_char (hex_val c) = c"
proof -
  show lt: "hex_val c < 16" using assms by (auto simp: is_hex_def hex_val_def is_digit_def)
  have "(of_char (hex_char (hex_val c)) :: nat) = of_char c"
    using assms of_char_hex_char [OF lt] by (auto simp: is_hex_def hex_val_def is_digit_def)
  then show "hex_char (hex_val c) = c" by simp
qed

lemma byte_hex_join:
  assumes "is_hex a" "is_hex b"
  shows "byte_hex (char_of (16 * hex_val a + hex_val b)) = [a, b]"
proof -
  let ?n = "16 * hex_val a + hex_val b"
  have ab: "hex_val a < 16" "hex_val b < 16" using assms by (simp_all add: hex_char_hex_val)
  then have "?n < 256" by simp
  then have "of_char (char_of ?n :: char) = ?n" by simp
  moreover have "?n div 16 = hex_val a" "?n mod 16 = hex_val b" using ab by simp_all
  ultimately show ?thesis using assms by (simp add: byte_hex_def hex_char_hex_val)
qed

lemma tohex_fromhex: "list_all is_hex g \<Longrightarrow> even (length g) \<Longrightarrow> tohex (fromhex g) = g"
  by (induction g rule: fromhex.induct) (auto simp: tohex_def byte_hex_join)

lemma decimal_of_text:
  assumes "list_all is_digit ds" "ds = ''0'' \<or> (ds \<noteq> [] \<and> hd ds \<noteq> CHR ''0'')"
  shows "decimal (nat (dec_value ds)) = ds"
  using assms
proof (induction ds rule: rev_induct)
  case Nil
  then show ?case by simp
next
  case (snoc c ds)
  obtain k where k: "k < 10" "c = digit_char k"
  proof
    let ?k = "of_char c - 48 :: nat"
    have c: "is_digit c" using snoc.prems by simp
    then show "?k < 10" by (auto simp: is_digit_def)
    then have "(of_char (digit_char ?k) :: nat) = of_char c"
      using digit_val_digit_char [of ?k] c by (auto simp: digit_val_def is_digit_def)
    then show "c = digit_char ?k" by simp
  qed
  show ?case
  proof (cases "ds = []")
    case True
    with k show ?thesis
      by (simp add: dec_value_def digit_val_digit_char) (subst decimal.simps, simp)
  next
    case False
    then have hd: "hd ds \<noteq> CHR ''0''" using snoc.prems(2) by (auto simp: append_eq_Cons_conv)
    then have IH: "decimal (nat (dec_value ds)) = ds" using snoc False by simp
    have "0 \<le> dec_value ds" using snoc.prems(1)
      by (induction ds rule: rev_induct)
        (auto simp: dec_value_def is_digit_def digit_val_def)
    moreover have "dec_value ds \<noteq> 0"
    proof
      assume "dec_value ds = 0"
      with IH have "ds = ''0''" by (simp add: decimal.simps digit_char_def)
      with hd show False by simp
    qed
    ultimately have v: "nat (dec_value (ds @ [c])) = 10 * nat (dec_value ds) + k"
      and "0 < nat (dec_value ds)"
      using k by (simp_all add: dec_value_snoc digit_val_digit_char nat_add_distrib nat_mult_distrib)
    then have "decimal (nat (dec_value (ds @ [c]))) = decimal (nat (dec_value ds)) @ [digit_char k]"
      using k by (subst decimal.simps) simp
    with IH k show ?thesis by simp
  qed
qed

fun hex_digits :: "nat \<Rightarrow> nat \<Rightarrow> bytes" where
  "hex_digits 0 n = []"
| "hex_digits (Suc k) n = hex_digits k (n div 16) @ [hex_char (n mod 16)]"

end
