(* ===== verification/Py_Regex.thy ===== *)
theory Py_Regex
  imports Py_Bytes
begin

text \<open>
  The regular expressions of the record decoders.  Every pattern is a sequence of literal
  texts and capture groups for canonical decimals, comma-separated decimals, single
  characters of a class and hexadecimal runs.  \<open>fullmatch\<close> is the scanner the decoders
  are evaluated with; \<open>pmatch\<close> is the declarative language of a pattern, as the
  regular expression denotes it.  Both agree on delimited patterns, in which a literal that
  starts with a non-digit (or the end) follows each numeric group.
\<close>

datatype item =
    Lit bytes
  | Dec "nat option"            \<comment> \<open>\<^verbatim>\<open>(0|[1-9][0-9]{0,n})\<close>, or \<^verbatim>\<open>(0|[1-9][0-9]*)\<close>\<close>
  | OneOf bytes                 \<comment> \<open>\<^verbatim>\<open>([abc])\<close>\<close>
  | DecList "nat option" nat    \<comment> \<open>\<^verbatim>\<open>(D(?:,D){k})\<close> for a decimal \<^verbatim>\<open>D\<close>\<close>
  | DigitList nat               \<comment> \<open>\<^verbatim>\<open>([0-9]+(?:,[0-9]+){k})\<close>\<close>
  | Hex nat                     \<comment> \<open>\<^verbatim>\<open>([0-9a-f]{n})\<close>\<close>

abbreviation DEC :: item where "DEC \<equiv> Dec (Some 9)"
abbreviation DEC20 :: item where "DEC20 \<equiv> Dec (Some 19)"
abbreviation NUMBER :: item where "NUMBER \<equiv> Dec None"

definition dec_text :: "nat option \<Rightarrow> bytes \<Rightarrow> bool" where
  "dec_text b ds \<longleftrightarrow> list_all is_digit ds \<and>
     (ds = ''0'' \<or> (ds \<noteq> [] \<and> hd ds \<noteq> CHR ''0'' \<and>
        (case b of None \<Rightarrow> True | Some n \<Rightarrow> length ds \<le> Suc n)))"

definition digit_text :: "bytes \<Rightarrow> bool" where
  "digit_text ds \<longleftrightarrow> list_all is_digit ds \<and> ds \<noteq> []"

fun scan_list :: "(bytes \<Rightarrow> bool) \<Rightarrow> nat \<Rightarrow> bytes \<Rightarrow> (bytes \<times> bytes) option" where
  "scan_list ok 0 s =
     (if ok (takeWhile is_digit s) then Some (takeWhile is_digit s, dropWhile is_digit s) else None)"
| "scan_list ok (Suc k) s =
     (if ok (takeWhile is_digit s) then
        (case dropWhile is_digit s of [] \<Rightarrow> None
         | c # r \<Rightarrow> if c = CHR '','' then
             map_option (\<lambda>(t, r'). (takeWhile is_digit s @ CHR '','' # t, r')) (scan_list ok k r)
           else None)
      else None)"

fun scan_item :: "item \<Rightarrow> bytes \<Rightarrow> (bytes \<times> bytes) option" where
  "scan_item (Lit l) s = (if startswith s l then Some (l, drop (length l) s) else None)"
| "scan_item (Dec b) s = scan_list (dec_text b) 0 s"
| "scan_item (OneOf cs) s =
     (case s of [] \<Rightarrow> None | c # r \<Rightarrow> if c \<in> set cs then Some ([c], r) else None)"
| "scan_item (DecList b k) s = scan_list (dec_text b) k s"
| "scan_item (DigitList k) s = scan_list digit_text k s"
| "scan_item (Hex n) s =
     (if n \<le> length s \<and> list_all is_hex (take n s) then Some (take n s, drop n s) else None)"

fun is_lit :: "item \<Rightarrow> bool" where
  "is_lit (Lit l) = True"
| "is_lit _ = False"

fun match_items :: "item list \<Rightarrow> bytes \<Rightarrow> (bytes list \<times> bytes) option" where
  \<comment> \<open>\<^verbatim>\<open>re.match\<close>: the groups and the text after the match\<close>
  "match_items [] s = Some ([], s)"
| "match_items (p # ps) s =
     (case scan_item p s of None \<Rightarrow> None
      | Some (t, r) \<Rightarrow>
          (case match_items ps r of None \<Rightarrow> None
           | Some (gs, r') \<Rightarrow> Some (if is_lit p then gs else t # gs, r')))"

definition fullmatch :: "item list \<Rightarrow> bytes \<Rightarrow> bytes list option" where
  "fullmatch ps s =
     (case match_items ps s of Some (gs, []) \<Rightarrow> Some gs | _ \<Rightarrow> None)"

subsection \<open>The language of a pattern\<close>

definition comma_join :: "bytes list \<Rightarrow> bytes" where
  "comma_join ds = concat (map (\<lambda>d. CHR '','' # d) ds)"

definition list_text :: "(bytes \<Rightarrow> bool) \<Rightarrow> nat \<Rightarrow> bytes \<Rightarrow> bool" where
  "list_text ok k t \<longleftrightarrow>
     (\<exists>d ds. length ds = k \<and> (\<forall>x\<in>set (d # ds). ok x) \<and> t = d @ comma_join ds)"

fun text_ok :: "item \<Rightarrow> bytes \<Rightarrow> bool" where
  "text_ok (Lit l) t = (t = l)"
| "text_ok (Dec b) t = dec_text b t"
| "text_ok (OneOf cs) t = (\<exists>c\<in>set cs. t = [c])"
| "text_ok (DecList b k) t = list_text (dec_text b) k t"
| "text_ok (DigitList k) t = list_text digit_text k t"
| "text_ok (Hex n) t = (length t = n \<and> list_all is_hex t)"

inductive pmatch :: "item list \<Rightarrow> bytes \<Rightarrow> bytes list \<Rightarrow> bool" where
  pm_nil: "pmatch [] [] []"
| pm_lit: "pmatch ps s gs \<Longrightarrow> pmatch (Lit l # ps) (l @ s) gs"
| pm_group: "\<not> is_lit p \<Longrightarrow> text_ok p t \<Longrightarrow> pmatch ps s gs \<Longrightarrow> pmatch (p # ps) (t @ s) (t # gs)"

inductive_cases pmatch_NilE: "pmatch [] s gs"
inductive_cases pmatch_ConsE: "pmatch (p # ps) s gs"

fun numeric :: "item \<Rightarrow> bool" where
  "numeric (Dec b) = True"
| "numeric (DecList b k) = True"
| "numeric (DigitList k) = True"
| "numeric _ = False"

fun stops :: "item list \<Rightarrow> bool" where
  "stops [] = True"
| "stops (Lit (c # l) # ps) = (\<not> is_digit c)"
| "stops _ = False"

fun delimited :: "item list \<Rightarrow> bool" where
  "delimited [] = True"
| "delimited (p # ps) = ((numeric p \<longrightarrow> stops ps) \<and> delimited ps)"

subsection \<open>Scanning agrees with the language\<close>

lemma list_text_0 [simp]: "list_text ok 0 t = ok t"
  by (auto simp: list_text_def comma_join_def)

lemma list_text_Suc:
  "ok d \<Longrightarrow> list_text ok k t \<Longrightarrow> list_text ok (Suc k) (d @ CHR '','' # t)"
proof -
  assume d: "ok d" and "list_text ok k t"
  then obtain e es where "length es = k" "\<forall>x\<in>set (e # es). ok x" "t = e @ comma_join es"
    by (auto simp: list_text_def)
  with d show ?thesis unfolding list_text_def
    by (intro exI [of _ d] exI [of _ "e # es"]) (simp add: comma_join_def)
qed

lemma scan_list_sound:
  "scan_list ok k s = Some (t, r) \<Longrightarrow> s = t @ r \<and> list_text ok k t"
proof (induction k arbitrary: s t r)
  case 0
  then show ?case by (auto split: if_splits)
next
  case (Suc k)
  then obtain q t' where ok: "ok (takeWhile is_digit s)"
    and q: "dropWhile is_digit s = CHR '','' # q" and q': "scan_list ok k q = Some (t', r)"
    and t: "t = takeWhile is_digit s @ CHR '','' # t'"
    by (auto split: if_splits list.splits)
  from Suc.IH [OF q'] have "q = t' @ r" "list_text ok k t'" by auto
  moreover have "s = takeWhile is_digit s @ CHR '','' # q"
    using takeWhile_dropWhile_id [of is_digit s] q by simp
  ultimately show ?case using ok t by (auto intro: list_text_Suc)
qed

lemma scan_item_sound: "scan_item p s = Some (t, r) \<Longrightarrow> s = t @ r \<and> text_ok p t"
proof (cases p)
  case (Dec b)
  assume "scan_item p s = Some (t, r)"
  with Dec scan_list_sound [of "dec_text b" 0 s t r] show ?thesis by simp
qed (auto split: if_splits list.splits dest: scan_list_sound startswith_drop)

lemma match_items_sound:
  "match_items ps s = Some (gs, r) \<Longrightarrow> \<exists>t. s = t @ r \<and> pmatch ps t gs"
proof (induction ps arbitrary: s gs r)
  case Nil
  then show ?case by (auto intro: pm_nil)
next
  case (Cons p ps)
  then obtain t u gs' where t: "scan_item p s = Some (t, u)"
    and m: "match_items ps u = Some (gs', r)" and gs: "gs = (if is_lit p then gs' else t # gs')"
    by (auto split: option.splits)
  from Cons.IH [OF m] obtain v where v: "u = v @ r" "pmatch ps v gs'" by blast
  from scan_item_sound [OF t] have st: "s = t @ u" "text_ok p t" by auto
  have "pmatch (p # ps) (t @ v) gs"
    using st(2) v(2) gs by (cases "is_lit p") (auto elim!: is_lit.elims intro: pm_lit pm_group)
  with st(1) v(1) show ?case by (intro exI [of _ "t @ v"]) simp
qed

lemma takeWhile_digits:
  assumes "list_all is_digit d" "r = [] \<or> \<not> is_digit (hd r)"
  shows "takeWhile is_digit (d @ r) = d" "dropWhile is_digit (d @ r) = r"
  using assms by (induction d) (auto simp: takeWhile_eq_Nil_iff dropWhile_eq_self_iff)

lemma scan_list_complete:
  assumes "length ds = k" "\<forall>x\<in>set (d # ds). ok x \<and> list_all is_digit x"
    and "r = [] \<or> \<not> is_digit (hd r)"
  shows "scan_list ok k (d @ comma_join ds @ r) = Some (d @ comma_join ds, r)"
  using assms
proof (induction k arbitrary: d ds)
  case 0
  then show ?case by (simp add: comma_join_def takeWhile_digits)
next
  case (Suc k)
  then obtain e es where ds: "ds = e # es" by (cases ds) auto
  have comma: "\<not> is_digit (CHR '','')" by (simp add: is_digit_def)
  have "takeWhile is_digit (d @ comma_join ds @ r) = d"
    "dropWhile is_digit (d @ comma_join ds @ r) = CHR '','' # e @ comma_join es @ r"
    using Suc.prems(2) comma takeWhile_digits [of d "comma_join ds @ r"]
    by (simp_all add: ds comma_join_def)
  moreover have "scan_list ok k (e @ comma_join es @ r) = Some (e @ comma_join es, r)"
    using Suc.prems ds by (intro Suc.IH) auto
  ultimately show ?case using Suc.prems(2) by (simp add: ds comma_join_def)
qed

lemma scan_list_complete_text:
  assumes "list_text ok k t"
    and "\<And>x. ok x \<Longrightarrow> list_all is_digit x" "r = [] \<or> \<not> is_digit (hd r)"
  shows "scan_list ok k (t @ r) = Some (t, r)"
proof -
  from assms(1) obtain d ds where "length ds = k" "\<forall>x\<in>set (d # ds). ok x" "t = d @ comma_join ds"
    by (auto simp: list_text_def)
  with assms(2,3) show ?thesis using scan_list_complete [of ds k d ok r] by simp
qed

lemma dec_text_digits: "dec_text b x \<Longrightarrow> list_all is_digit x"
  by (simp add: dec_text_def)

lemma digit_text_digits: "digit_text x \<Longrightarrow> list_all is_digit x"
  by (simp add: digit_text_def)

lemma scan_item_complete:
  assumes "text_ok p t" "numeric p \<Longrightarrow> r = [] \<or> \<not> is_digit (hd r)"
  shows "scan_item p (t @ r) = Some (t, r)"
  using assms scan_list_complete_text [of "dec_text b" 0 for b]
  by (cases p)
    (auto simp del: scan_list.simps intro!: scan_list_complete_text
      dest: dec_text_digits digit_text_digits)

lemma pmatch_stops_rest:
  assumes "pmatch ps s gs" "stops ps" "ps = [] \<Longrightarrow> r = [] \<or> \<not> is_digit (hd r)"
  shows "s @ r = [] \<or> \<not> is_digit (hd (s @ r))"
  using assms by (cases rule: pmatch.cases) (auto elim: stops.elims)

lemma match_items_complete_rest:
  "pmatch ps s gs \<Longrightarrow> delimited ps \<Longrightarrow>
     r = [] \<or> \<not> is_digit (hd r) \<or> ps = [] \<or> is_lit (last ps) \<Longrightarrow>
     match_items ps (s @ r) = Some (gs, r)"
proof (induction rule: pmatch.induct)
  case (pm_lit ps s gs l)
  then show ?case by (cases "ps = []") (auto elim: pmatch_NilE)
next
  case (pm_group p t ps s gs)
  then have "scan_item p (t @ (s @ r)) = Some (t, s @ r)"
    by (intro scan_item_complete) (auto dest!: pmatch_stops_rest [of ps s gs r] split: if_splits)
  with pm_group show ?case by (auto split: if_splits)
qed auto

lemma match_items_complete:
  "pmatch ps s gs \<Longrightarrow> delimited ps \<Longrightarrow> match_items ps s = Some (gs, [])"
  using match_items_complete_rest [of ps s gs "[]"] by simp

theorem fullmatch_language:
  "delimited ps \<Longrightarrow> fullmatch ps s = Some gs \<longleftrightarrow> pmatch ps s gs"
  using match_items_complete [of ps s gs] match_items_sound [of ps s gs "[]"]
  by (auto simp: fullmatch_def split: option.splits list.splits)

end
