(* ===== verification/Records.thy ===== *)
theory Records
  imports Py_Regex
begin

text \<open>
  Reading and writing one record line.  \<open>match_ints\<close> is the idiom of every decoder:
  \<^verbatim>\<open>re.fullmatch\<close>, a \<^verbatim>\<open>ValueError\<close> when it fails, and \<^verbatim>\<open>map(int, match.groups())\<close>.
  \<open>render\<close> writes a line of a pattern from its group texts; decoding a rendered line
  gives the group values back.
\<close>

definition match_ints :: "string \<Rightarrow> item list \<Rightarrow> bytes \<Rightarrow> int list res" where
  "match_ints msg ps line = bind (some_or msg (fullmatch ps line)) py_ints"

fun arity :: "item list \<Rightarrow> nat" where
  "arity [] = 0"
| "arity (p # ps) = (if is_lit p then arity ps else Suc (arity ps))"

fun render :: "item list \<Rightarrow> bytes list \<Rightarrow> bytes" where
  "render [] gs = []"
| "render (Lit l # ps) gs = l @ render ps gs"
| "render (p # ps) [] = []"
| "render (p # ps) (g # gs) = g @ render ps gs"

fun groups_ok :: "item list \<Rightarrow> bytes list \<Rightarrow> bool" where
  "groups_ok [] gs = (gs = [])"
| "groups_ok (Lit l # ps) gs = groups_ok ps gs"
| "groups_ok (p # ps) [] = False"
| "groups_ok (p # ps) (g # gs) = (text_ok p g \<and> groups_ok ps gs)"

lemma pmatch_render: "groups_ok ps gs \<Longrightarrow> pmatch ps (render ps gs) gs"
  by (induction ps gs rule: render.induct) (auto intro: pmatch.intros)

lemma fullmatch_render:
  "delimited ps \<Longrightarrow> groups_ok ps gs \<Longrightarrow> fullmatch ps (render ps gs) = Some gs"
  by (simp add: pmatch_render fullmatch_language)

lemma pmatch_groups: "pmatch ps s gs \<Longrightarrow> groups_ok ps gs \<and> s = render ps gs"
proof (induction rule: pmatch.induct)
  case (pm_group p t ps s gs)
  then show ?case by (cases p) auto
qed auto

lemma fullmatch_groups:
  assumes "fullmatch ps s = Some gs"
  shows "groups_ok ps gs" "s = render ps gs" "length gs = arity ps"
proof -
  from assms obtain t where "s = t" "pmatch ps t gs"
    using match_items_sound [of ps s gs "[]"]
    by (auto simp: fullmatch_def split: option.splits list.splits)
  then show "groups_ok ps gs" "s = render ps gs" by (auto dest: pmatch_groups)
  have "groups_ok ps hs \<Longrightarrow> length hs = arity ps" for hs
    by (induction ps hs rule: groups_ok.induct) auto
  then show "length gs = arity ps" using \<open>groups_ok ps gs\<close> by blast
qed

subsection \<open>Values of decimal groups\<close>

lemma dec_text_decimal: "n < 10 ^ Suc k \<Longrightarrow> dec_text (Some k) (decimal n)"
proof (cases "n = 0")
  case True
  then show ?thesis by (subst decimal.simps) (simp add: dec_text_def digit_char_def is_digit_def)
next
  case False
  assume "n < 10 ^ Suc k"
  then have "length (decimal n) \<le> Suc k" by (rule decimal_length)
  with False show ?thesis
    using decimal_hd [of n] decimal_digits [of _ n] by (auto simp: dec_text_def list_all_iff)
qed

lemma dec_value_bounds:
  "list_all is_digit ds \<Longrightarrow> 0 \<le> dec_value ds \<and> dec_value ds < 10 ^ length ds"
proof (induction ds rule: rev_induct)
  case Nil
  show ?case by (simp add: dec_value_def)
next
  case (snoc c ds)
  then have "0 \<le> digit_val c" "digit_val c \<le> 9" by (auto simp: is_digit_def digit_val_def)
  with snoc show ?case by (auto simp: dec_value_snoc)
qed

lemma py_int_dec_text:
  assumes "dec_text (Some k) t" "k < 4300"
  shows "py_int t = Inr (dec_value t)" "0 \<le> dec_value t" "dec_value t < 10 ^ Suc k"
proof -
  from assms have d: "list_all is_digit t" "t \<noteq> []" "length t \<le> Suc k"
    by (auto simp: dec_text_def)
  with assms(2) show "py_int t = Inr (dec_value t)"
    by (intro py_int_digits) (auto simp: list_all_iff)
  from d(1) show "0 \<le> dec_value t" by (simp add: dec_value_bounds)
  have "dec_value t < 10 ^ length t" using d(1) by (simp add: dec_value_bounds)
  also have "\<dots> \<le> 10 ^ Suc k" using d(3) by (intro power_increasing) auto
  finally show "dec_value t < 10 ^ Suc k" .
qed

text \<open>Patterns whose groups are all bounded decimals, and lines written from numbers.\<close>

fun decimal_pattern :: "item list \<Rightarrow> bool" where
  "decimal_pattern [] = True"
| "decimal_pattern (Lit l # ps) = decimal_pattern ps"
| "decimal_pattern (Dec (Some k) # ps) = (k < 4300 \<and> decimal_pattern ps)"
| "decimal_pattern _ = False"

fun in_range :: "item list \<Rightarrow> nat list \<Rightarrow> bool" where
  "in_range [] ns = (ns = [])"
| "in_range (Dec (Some k) # ps) (n # ns) = (n < 10 ^ Suc k \<and> in_range ps ns)"
| "in_range (Lit l # ps) ns = in_range ps ns"
| "in_range _ _ = False"

definition record_line :: "item list \<Rightarrow> nat list \<Rightarrow> bytes" where
  "record_line ps ns = render ps (map decimal ns)"

lemma groups_ok_decimal: "in_range ps ns \<Longrightarrow> groups_ok ps (map decimal ns)"
  by (induction ps ns rule: in_range.induct) (auto simp: dec_text_decimal)

lemma py_ints_decimal:
  "decimal_pattern ps \<Longrightarrow> in_range ps ns \<Longrightarrow> py_ints (map decimal ns) = Inr (map int ns)"
proof (induction ps ns rule: in_range.induct)
  case (2 k ps n ns)
  then have "py_int (decimal n) = Inr (int n)"
    using py_int_dec_text(1) [of k "decimal n"] dec_text_decimal [of n k] by simp
  with 2 show ?case by (simp add: eval_simps)
qed auto

theorem match_ints_record_line:
  "delimited ps \<Longrightarrow> decimal_pattern ps \<Longrightarrow> in_range ps ns \<Longrightarrow>
     match_ints msg ps (record_line ps ns) = Inr (map int ns)"
  by (simp add: match_ints_def record_line_def fullmatch_render groups_ok_decimal py_ints_decimal
      eval_simps)

text \<open>Every line of a decimal pattern is written from numbers.\<close>

lemma groups_decimal:
  "decimal_pattern ps \<Longrightarrow> groups_ok ps gs \<Longrightarrow> \<exists>ns. gs = map decimal ns \<and> in_range ps ns"
proof (induction ps arbitrary: gs)
  case (Cons p ps)
  show ?case
  proof (cases p)
    case (Dec b)
    with Cons.prems obtain g hs k where gs: "gs = g # hs" and k: "b = Some k" "k < 4300"
      and g: "dec_text (Some k) g" "groups_ok ps hs" "decimal_pattern ps"
      by (cases gs; cases b) auto
    from Cons.IH [OF g(3,2)] obtain ns where ns: "hs = map decimal ns" "in_range ps ns" by blast
    have "decimal (nat (dec_value g)) = g"
      using g(1) by (intro decimal_of_text) (auto simp: dec_text_def)
    moreover have "nat (dec_value g) < 10 ^ Suc k"
      using py_int_dec_text [OF g(1) k(2)] by (simp add: nat_less_iff)
    ultimately show ?thesis
      using ns k gs Dec by (intro exI [of _ "nat (dec_value g) # ns"]) simp
  qed (use Cons in auto)
qed auto

lemma match_items_decimal:
  assumes "match_items ps s = Some (gs, r)" "decimal_pattern ps"
  obtains ns where "gs = map decimal ns" "in_range ps ns" "s = record_line ps ns @ r"
    "py_ints gs = Inr (map int ns)"
proof -
  from match_items_sound [OF assms(1)] obtain t where t: "s = t @ r" "pmatch ps t gs" by blast
  then have "groups_ok ps gs" "t = render ps gs" by (auto dest: pmatch_groups)
  with groups_decimal [OF assms(2)] obtain ns where "gs = map decimal ns" "in_range ps ns"
    by blast
  with that t \<open>t = render ps gs\<close> py_ints_decimal [OF assms(2)] show ?thesis
    by (simp add: record_line_def)
qed

lemma match_ints_decimal:
  assumes "match_ints msg ps line = Inr vs" "decimal_pattern ps"
  obtains ns where "line = record_line ps ns" "in_range ps ns" "vs = map int ns"
proof -
  from assms obtain gs where "fullmatch ps line = Some gs" "py_ints gs = Inr vs"
    by (auto simp: match_ints_def res_simps)
  then have "match_items ps line = Some (gs, [])"
    by (auto simp: fullmatch_def split: option.splits list.splits)
  with assms(2) \<open>py_ints gs = Inr vs\<close> that show ?thesis
    by (auto elim!: match_items_decimal)
qed

text \<open>A decoded line is the line printed from its values: no other text decodes to them.\<close>

lemma match_ints_line:
  assumes "match_ints msg ps line = Inr vs" "decimal_pattern ps"
  shows "line = record_line ps (map nat vs)" "\<forall>v\<in>set vs. 0 \<le> v" "in_range ps (map nat vs)"
proof -
  obtain ns where "line = record_line ps ns" "in_range ps ns" "vs = map int ns"
    using assms by (rule match_ints_decimal)
  then show "line = record_line ps (map nat vs)" "\<forall>v\<in>set vs. 0 \<le> v" "in_range ps (map nat vs)"
    by (auto simp: comp_def)
qed

fun max_width :: "item list \<Rightarrow> nat" where
  "max_width [] = 0"
| "max_width (Lit l # ps) = length l + max_width ps"
| "max_width (Dec (Some k) # ps) = Suc k + max_width ps"
| "max_width (p # ps) = max_width ps"

lemma length_record_line: "in_range ps ns \<Longrightarrow> length (record_line ps ns) \<le> max_width ps"
proof (induction ps ns rule: in_range.induct)
  case (2 k ps n ns)
  then have "length (decimal n) \<le> Suc k" by (intro decimal_length) simp
  with 2 show ?case by (simp add: record_line_def)
qed (auto simp: record_line_def)

lemma py_ints_Inr_length: "py_ints gs = Inr vs \<Longrightarrow> length vs = length gs"
  by (induction gs arbitrary: vs) (auto simp: res_simps)

lemma match_ints_length: "match_ints msg ps line = Inr vs \<Longrightarrow> length vs = arity ps"
  by (auto simp: match_ints_def res_simps dest!: fullmatch_groups(3) py_ints_Inr_length)

lemma py_ints_dec_bounds:
  "decimal_pattern ps \<Longrightarrow> groups_ok ps gs \<Longrightarrow> py_ints gs = Inr vs \<Longrightarrow> v \<in> set vs \<Longrightarrow> 0 \<le> v"
proof (induction ps arbitrary: gs vs)
  case (Cons p ps)
  show ?case
  proof (cases p)
    case (Dec b)
    with Cons.prems obtain g hs k where "gs = g # hs" "b = Some k" "k < 4300" "dec_text (Some k) g"
      by (cases gs; cases b) auto
    with Dec Cons.prems Cons.IH show ?thesis by (auto simp: res_simps py_int_dec_text)
  qed (use Cons in auto)
qed (auto simp: res_simps)

text \<open>A bounded decimal field is never negative and never fails to convert.\<close>

lemma match_ints_nonneg:
  "match_ints msg ps line = Inr vs \<Longrightarrow> decimal_pattern ps \<Longrightarrow> v \<in> set vs \<Longrightarrow> 0 \<le> v"
  by (auto simp: match_ints_def res_simps dest: fullmatch_groups(1) py_ints_dec_bounds)

lemma py_ints_total:
  "decimal_pattern ps \<Longrightarrow> groups_ok ps gs \<Longrightarrow> \<exists>vs. py_ints gs = Inr vs"
proof (induction ps arbitrary: gs)
  case (Cons p ps)
  show ?case
  proof (cases p)
    case (Dec b)
    with Cons.prems obtain g hs k where "gs = g # hs" "b = Some k" "k < 4300" "dec_text (Some k) g"
      by (cases gs; cases b) auto
    with Dec Cons.prems Cons.IH [of hs] show ?thesis by (auto simp: py_int_dec_text eval_simps)
  qed (use Cons in auto)
qed auto

lemma match_ints_fails_iff:
  "decimal_pattern ps \<Longrightarrow> match_ints msg ps line = Inl e \<longleftrightarrow>
     fullmatch ps line = None \<and> e = ValueError msg"
  using py_ints_total [of ps] fullmatch_groups(1) [of ps line]
  by (fastforce simp: match_ints_def bind_def some_or_def split: option.splits sum.splits)

subsection \<open>Lines written by a pattern\<close>

text \<open>A rendered line is complete when its only line feed is the pattern's last literal.\<close>

definition clean :: "bytes \<Rightarrow> bool" where
  "clean s \<longleftrightarrow> LF \<notin> set s \<and> CR \<notin> set s"

lemma clean_simps [eval_simps]:
  "clean []"
  "clean (c # s) \<longleftrightarrow> c \<noteq> LF \<and> c \<noteq> CR \<and> clean s"
  "clean (s @ t) \<longleftrightarrow> clean s \<and> clean t"
  by (auto simp: clean_def)

lemma digits_clean: "list_all is_digit ds \<Longrightarrow> clean ds"
  by (auto simp: clean_def list_all_iff is_digit_def)

lemma decimal_clean [simp]: "clean (decimal n)"
  using decimal_digits by (auto intro!: digits_clean simp: list_all_iff)

lemma complete_line_clean: "clean s \<Longrightarrow> complete_line (s @ NL)"
  by (simp add: clean_def complete_line_append)

end
