(* ===== verification/Py_Struct.thy ===== *)
theory Py_Struct
  imports Py_Bytes "HOL-Library.Word"
begin

text \<open>
  Binary data: \<^verbatim>\<open>struct.unpack_from\<close> of little-endian fields, slices, byte sums, and the
  SHA-256 digest of \<^verbatim>\<open>hashlib\<close> (FIPS 180-4), which the reports carry.
\<close>

unbundle bit_operations_syntax

definition slice :: "nat \<Rightarrow> nat \<Rightarrow> bytes \<Rightarrow> bytes" where
  \<comment> \<open>\<^verbatim>\<open>data[a:b]\<close>\<close>
  "slice a b s = take (b - a) (drop a s)"

definition byte_at :: "bytes \<Rightarrow> nat \<Rightarrow> int" where
  \<comment> \<open>\<^verbatim>\<open>data[i]\<close> of an index in range\<close>
  "byte_at s i = int (of_char (s ! i))"

definition from_le :: "bytes \<Rightarrow> int" where
  \<comment> \<open>\<^verbatim>\<open>int.from_bytes(data, 'little')\<close>\<close>
  "from_le s = foldr (\<lambda>c n. int (of_char c) + 256 * n) s 0"

definition unpack_le :: "nat \<Rightarrow> bytes \<Rightarrow> nat \<Rightarrow> int res" where
  \<comment> \<open>one \<^verbatim>\<open>B\<close>, \<^verbatim>\<open>I\<close> or \<^verbatim>\<open>Q\<close> field of \<^verbatim>\<open>struct.unpack_from('<...', data, offset)\<close>\<close>
  "unpack_le w s off = (if off + w \<le> length s then Inr (from_le (slice off (off + w) s))
     else Inl StructError)"

definition byte_sum :: "bytes \<Rightarrow> int" where
  \<comment> \<open>\<^verbatim>\<open>sum(data)\<close>\<close>
  "byte_sum s = sum_list (map (\<lambda>c. int (of_char c)) s)"

lemma length_slice: "b \<le> length s \<Longrightarrow> length (slice a b s) = b - a"
  by (auto simp: slice_def)

lemma unpack_le_Inr [res_simps]:
  "unpack_le w s off = Inr v \<longleftrightarrow> off + w \<le> length s \<and> v = from_le (slice off (off + w) s)"
  by (auto simp: unpack_le_def)

lemma from_le_bounds: "0 \<le> from_le s \<and> from_le s < 256 ^ length s"
proof (induction s)
  case Nil
  show ?case by (simp add: from_le_def)
next
  case (Cons c s)
  have "of_char c < (256 :: nat)" by simp
  then have c: "int (of_char c) < 256" by (metis of_nat_less_iff of_nat_numeral)
  have "from_le (c # s) = int (of_char c) + 256 * from_le s"
    by (simp add: from_le_def)
  moreover have "int (of_char c) + 256 * from_le s < 256 * 256 ^ length s"
    using c Cons.IH by linarith
  ultimately show ?case using Cons.IH by simp
qed

lemma byte_sum_append: "byte_sum (s @ t) = byte_sum s + byte_sum t"
  by (simp add: byte_sum_def)

subsection \<open>Masks\<close>

lemma and_not_mask_diff: "(x :: int) AND NOT m = x - (x AND m)"
proof -
  have "x - (x AND m) = x AND NOT (x AND m)"
    by (rule disjunctive_diff) (simp add: bit_simps)
  also have "\<dots> = x AND NOT m"
    by (rule bit_eqI) (auto simp: bit_simps)
  finally show ?thesis by simp
qed

lemma and_mask_mod: "(x :: int) AND (2 ^ n - 1) = x mod 2 ^ n"
  by (metis mask_eq_exp_minus_1 take_bit_eq_mask take_bit_eq_mod)

lemma and_7: "(x :: int) AND 7 = x mod 8"
  using and_mask_mod [of x 3] by simp

lemma and_not_7: "(x :: int) AND NOT 7 = x - x mod 8"
  using and_not_mask_diff [of x 7] by (simp add: and_7)

subsection \<open>SHA-256\<close>

type_synonym w32 = "32 word"

definition sha_k :: "w32 list" where
  "sha_k = [
    1116352408, 1899447441, 3049323471, 3921009573, 961987163, 1508970993, 2453635748, 2870763221,
    3624381080, 310598401, 607225278, 1426881987, 1925078388, 2162078206, 2614888103, 3248222580,
    3835390401, 4022224774, 264347078, 604807628, 770255983, 1249150122, 1555081692, 1996064986,
    2554220882, 2821834349, 2952996808, 3210313671, 3336571891, 3584528711, 113926993, 338241895,
    666307205, 773529912, 1294757372, 1396182291, 1695183700, 1986661051, 2177026350, 2456956037,
    2730485921, 2820302411, 3259730800, 3345764771, 3516065817, 3600352804, 4094571909, 275423344,
    430227734, 506948616, 659060556, 883997877, 958139571, 1322822218, 1537002063, 1747873779,
    1955562222, 2024104815, 2227730452, 2361852424, 2428436474, 2756734187, 3204031479,
    3329325298]"

definition sha_init :: "w32 list" where
  "sha_init = [1779033703, 3144134277, 1013904242, 2773480762,
    1359893119, 2600822924, 528734635, 1541459225]"

definition rotr :: "nat \<Rightarrow> w32 \<Rightarrow> w32" where
  "rotr n x = drop_bit n x OR push_bit (32 - n) x"

definition be_word :: "bytes \<Rightarrow> w32" where
  "be_word s = foldl (\<lambda>n c. 256 * n + of_nat (of_char c)) 0 s"

fun be_words :: "nat \<Rightarrow> bytes \<Rightarrow> w32 list" where
  "be_words 0 s = []"
| "be_words (Suc n) s = be_word (take 4 s) # be_words n (drop 4 s)"

definition sha_extend :: "w32 list \<Rightarrow> w32 list" where
  \<comment> \<open>one further word of the message schedule, appended\<close>
  "sha_extend w =
     (let t = length w; a = w ! (t - 15); b = w ! (t - 2);
          s0 = rotr 7 a XOR rotr 18 a XOR drop_bit 3 a;
          s1 = rotr 17 b XOR rotr 19 b XOR drop_bit 10 b
      in w @ [w ! (t - 16) + s0 + w ! (t - 7) + s1])"

definition sha_round :: "w32 list \<Rightarrow> w32 \<times> w32 \<Rightarrow> w32 list" where
  "sha_round st kw =
     (let a = st ! 0; b = st ! 1; c = st ! 2; d = st ! 3;
          e = st ! 4; f = st ! 5; g = st ! 6; h = st ! 7;
          s1 = rotr 6 e XOR rotr 11 e XOR rotr 25 e;
          ch = (e AND f) XOR (NOT e AND g);
          t1 = h + s1 + ch + fst kw + snd kw;
          s0 = rotr 2 a XOR rotr 13 a XOR rotr 22 a;
          maj = (a AND b) XOR (a AND c) XOR (b AND c)
      in [t1 + s0 + maj, a, b, c, d + t1, e, f, g])"

definition sha_block :: "w32 list \<Rightarrow> bytes \<Rightarrow> w32 list" where
  "sha_block st blk =
     (let w = (sha_extend ^^ 48) (be_words 16 blk)
      in map2 (+) st (foldl sha_round st (zip sha_k w)))"

fun sha_blocks :: "nat \<Rightarrow> w32 list \<Rightarrow> bytes \<Rightarrow> w32 list" where
  "sha_blocks 0 st s = st"
| "sha_blocks (Suc n) st s = sha_blocks n (sha_block st (take 64 s)) (drop 64 s)"

fun be_bytes :: "nat \<Rightarrow> nat \<Rightarrow> bytes" where
  "be_bytes 0 n = []"
| "be_bytes (Suc k) n = be_bytes k (n div 256) @ [char_of (n mod 256)]"

definition sha_pad :: "bytes \<Rightarrow> bytes" where
  "sha_pad s = s @ CHR 0x80 # replicate ((119 - length s mod 64) mod 64) (CHR 0x00) @
     be_bytes 8 (8 * length s)"

definition sha256_hex :: "bytes \<Rightarrow> string" where
  \<comment> \<open>\<^verbatim>\<open>hashlib.sha256(data).hexdigest()\<close>\<close>
  "sha256_hex s =
     (let p = sha_pad s
      in concat (map (\<lambda>w. tohex (be_bytes 4 (unat w))) (sha_blocks (length p div 64) sha_init p)))"

lemma length_be_bytes [simp]: "length (be_bytes k n) = k"
  by (induction k arbitrary: n) auto

lemma length_sha_block: "length st = 8 \<Longrightarrow> length (sha_block st blk) = 8"
proof -
  assume st: "length st = 8"
  have "length (foldl sha_round st kws) = 8" for kws
    using st by (induction kws arbitrary: st) (auto simp: sha_round_def Let_def)
  with st show ?thesis by (simp add: sha_block_def Let_def)
qed

lemma length_sha_blocks: "length st = 8 \<Longrightarrow> length (sha_blocks n st s) = 8"
  by (induction n arbitrary: st s) (simp_all add: length_sha_block)

text \<open>A padded message is a whole number of 64-byte blocks, and a digest is 64 characters.\<close>

lemma sha_pad_blocks: "length (sha_pad s) mod 64 = 0"
proof -
  let ?r = "length s mod 64"
  have "(length s + ((119 - ?r) mod 64 + 9)) mod 64 = (?r + ((119 - ?r) + 9)) mod 64"
    by (metis mod_add_left_eq mod_add_right_eq)
  also have "?r + ((119 - ?r) + 9) = 128" by (simp add: less_imp_le_nat)
  finally show ?thesis by (simp add: sha_pad_def ac_simps)
qed

lemma length_sha256_hex: "length (sha256_hex s) = 64"
proof -
  have "length (concat (map (\<lambda>w. tohex (be_bytes 4 (unat w))) ws)) = 8 * length ws"
    for ws :: "w32 list"
    by (induction ws) (simp_all add: length_tohex)
  then show ?thesis
    by (simp add: sha256_hex_def Let_def length_sha_blocks sha_init_def)
qed

end
