(* ===== verification/Transport.thy ===== *)
theory Transport
  imports Records Py_Struct
begin

text \<open>
  The chunked hexadecimal transport that the handoff and the ACPI captures share: a body of
  \<open>len\<close> bytes is printed as lines of at most 64 bytes, each with its offset.
  \<open>read_chunks\<close> is the decoding loop of both decoders, \<open>write_chunks\<close> the text a
  conforming sender prints; decoding inverts printing.
\<close>

definition chunk_pattern :: "bytes \<Rightarrow> nat \<Rightarrow> nat \<Rightarrow> item list" where
  "chunk_pattern label off count =
     [Lit (label @ '' offset=''), Lit (decimal off), Lit '' hex='', Hex (count * 2), Lit NL]"

lemma chunk_match:
  assumes "match_items (chunk_pattern label off count) s = Some (gs, r)"
  obtains g where "gs = [g]" "length g = 2 * count" "list_all is_hex g"
    "s = label @ '' offset='' @ decimal off @ '' hex='' @ g @ NL @ r"
proof -
  from match_items_sound [OF assms] obtain t where
    "s = t @ r" "pmatch (chunk_pattern label off count) t gs" by blast
  then show ?thesis using that
    by (fastforce simp: chunk_pattern_def elim!: pmatch_ConsE pmatch_NilE)
qed

text \<open>
  \<^verbatim>\<open>while len(raw) < length\<close>: the chunk at \<open>position\<close> is searched in the next 192 bytes;
  the result is the position after the last chunk and the bytes.
\<close>

function read_chunks ::
    "string \<Rightarrow> bytes \<Rightarrow> bytes \<Rightarrow> nat \<Rightarrow> nat \<Rightarrow> bytes \<Rightarrow> (nat \<times> bytes) res" where
  "read_chunks msg label data len position raw =
     (if length raw < len then
        (let window = slice position (position + 192) data in
         case match_items (chunk_pattern label (length raw) (min 64 (len - length raw))) window of
           None \<Rightarrow> raise msg
         | Some (gs, rest) \<Rightarrow>
             read_chunks msg label data len (position + (length window - length rest))
               (raw @ fromhex (concat gs)))
      else Inr (position, raw))"
  by pat_completeness auto
termination
  by (relation "measure (\<lambda>(msg, label, data, len, position, raw). len - length raw)")
    (auto simp: length_fromhex elim!: chunk_match)

declare read_chunks.simps [simp del]

definition chunk_line :: "bytes \<Rightarrow> nat \<Rightarrow> bytes \<Rightarrow> bytes" where
  "chunk_line label off chunk =
     label @ '' offset='' @ decimal off @ '' hex='' @ tohex chunk @ NL"

function write_chunks :: "bytes \<Rightarrow> nat \<Rightarrow> bytes \<Rightarrow> bytes" where
  "write_chunks label off rest =
     (if rest = [] then []
      else chunk_line label off (take 64 rest) @ write_chunks label (off + 64) (drop 64 rest))"
  by pat_completeness auto
termination
  by (relation "measure (\<lambda>(label, off, rest). length rest)") auto

declare write_chunks.simps [simp del]

lemma write_chunks_Nil [simp]: "write_chunks label off [] = []"
  by (simp add: write_chunks.simps)

lemma write_chunks_step:
  "rest \<noteq> [] \<Longrightarrow> write_chunks label off rest =
     chunk_line label off (take 64 rest) @ write_chunks label (off + 64) (drop 64 rest)"
  by (subst write_chunks.simps) simp

lemma match_chunk_line:
  assumes "length chunk = count"
  shows "match_items (chunk_pattern label off count) (chunk_line label off chunk @ r) =
    Some ([tohex chunk], r)"
proof -
  have "list_all is_hex (tohex chunk)" by (simp add: list_all_iff tohex_hex)
  moreover have "length (tohex chunk) = count * 2" using assms by (simp add: length_tohex)
  ultimately show ?thesis
    by (simp add: chunk_pattern_def chunk_line_def)
qed

lemma length_chunk_line:
  "length (chunk_line label off chunk) =
     length label + 14 + length (decimal off) + 2 * length chunk"
  by (simp add: chunk_line_def length_tohex)

text \<open>Reading stops: it returns the whole body or the transport's own error.\<close>

lemma read_chunks_total:
  "(\<exists>p body. read_chunks msg label data len position raw = Inr (p, body)) \<or>
   read_chunks msg label data len position raw = Inl (ValueError msg)"
proof (induction msg label data len position raw rule: read_chunks.induct)
  case (1 msg label data len position raw)
  then show ?case
    by (subst (1 2) read_chunks.simps)
      (auto simp: Let_def raise_def split: option.splits prod.splits)
qed

lemma read_chunks_step:
  assumes "length raw < len"
  shows "read_chunks msg label data len position raw = Inr (p, body) \<longleftrightarrow>
    (\<exists>g rest. match_items (chunk_pattern label (length raw) (min 64 (len - length raw)))
        (slice position (position + 192) data) = Some ([g], rest) \<and>
      read_chunks msg label data len
        (position + (length (slice position (position + 192) data) - length rest))
        (raw @ fromhex g) = Inr (p, body))"
  using assms
  by (subst read_chunks.simps)
    (force simp: Let_def raise_def split: option.splits prod.splits elim: chunk_match)

lemma read_chunks_length:
  "read_chunks msg label data len position raw = Inr (p, body) \<Longrightarrow> length raw \<le> len \<Longrightarrow>
     length body = len \<and> position \<le> p"
proof (induction msg label data len position raw rule: read_chunks.induct)
  case (1 msg label data len position raw)
  show ?case
  proof (cases "length raw < len")
    case False
    with "1.prems" show ?thesis by (subst (asm) read_chunks.simps) auto
  next
    case True
    then obtain g rest where m:
      "match_items (chunk_pattern label (length raw) (min 64 (len - length raw)))
        (slice position (position + 192) data) = Some ([g], rest)"
      and r: "read_chunks msg label data len
        (position + (length (slice position (position + 192) data) - length rest))
        (raw @ fromhex g) = Inr (p, body)"
      using "1.prems"(1) by (auto simp: read_chunks_step)
    from m have "length (fromhex g) = min 64 (len - length raw)"
      by (auto simp: length_fromhex elim: chunk_match)
    then show ?thesis using "1.IH" [OF True refl m] r True by fastforce
  qed
qed

lemma slice_prefix:
  "length line \<le> n \<Longrightarrow>
     \<exists>r. slice (length pre) (length pre + n) (pre @ line @ post) = line @ r"
  by (simp add: slice_def)

lemma read_chunks_write:
  assumes "length label \<le> 40" "len \<le> 65536" "length raw + length rest = len"
    and "rest = [] \<or> 64 dvd length raw"
  shows "read_chunks msg label (pre @ write_chunks label (length raw) rest @ post) len
      (length pre) raw =
    Inr (length pre + length (write_chunks label (length raw) rest), raw @ rest)"
  using assms(3,4)
proof (induction "length rest" arbitrary: pre raw rest rule: less_induct)
  case less
  show ?case
  proof (cases "rest = []")
    case True
    with less show ?thesis
      by (subst read_chunks.simps) simp
  next
    case False
    let ?off = "length raw" and ?chunk = "take 64 rest"
    let ?line = "chunk_line label ?off ?chunk"
    let ?tail = "write_chunks label (?off + 64) (drop 64 rest)"
    have split: "write_chunks label ?off rest = ?line @ ?tail"
      using False by (rule write_chunks_step)
    have lt: "?off < len" using False less.prems by auto
    have count: "length ?chunk = min 64 (len - ?off)" using less.prems by auto
    have "length (decimal ?off) \<le> Suc 4" using lt assms(2) by (intro decimal_length) simp
    then have "length ?line \<le> 192" using assms(1) by (simp add: length_chunk_line)
    then obtain r where w: "slice (length pre) (length pre + 192) (pre @ (?line @ ?tail) @ post)
        = ?line @ r"
      using slice_prefix [of ?line 192 pre "?tail @ post"] by auto
    have "drop 64 rest = [] \<or> 64 dvd length (raw @ ?chunk)"
      using less.prems(2) False by (auto simp: min_def)
    moreover have "length (raw @ ?chunk) = ?off + 64" if "drop 64 rest \<noteq> []"
      using that by simp
    ultimately have "read_chunks msg label ((pre @ ?line) @ ?tail @ post) len
        (length (pre @ ?line)) (raw @ ?chunk) =
      Inr (length (pre @ ?line) + length ?tail, (raw @ ?chunk) @ drop 64 rest)"
      using less.hyps [of "drop 64 rest" "raw @ ?chunk" "pre @ ?line"] less.prems False
      by (cases "drop 64 rest = []") simp_all
    then have rec: "read_chunks msg label (pre @ (?line @ ?tail) @ post) len
        (length pre + length ?line) (raw @ ?chunk) =
      Inr (length pre + length (?line @ ?tail), raw @ rest)" by simp
    show ?thesis unfolding split
      using lt w count rec match_chunk_line [of ?chunk "min 64 (len - ?off)" label ?off r]
      by (subst read_chunks.simps) (simp add: Let_def fromhex_tohex)
  qed
qed

text \<open>Conversely, what was read is exactly what a conforming sender prints.\<close>

lemma chunk_match_line:
  assumes "match_items (chunk_pattern label off count) s = Some ([g], r)"
  shows "s = chunk_line label off (fromhex g) @ r" "length (fromhex g) = count"
proof -
  from assms have "length g = 2 * count" "list_all is_hex g"
    "s = label @ '' offset='' @ decimal off @ '' hex='' @ g @ NL @ r"
    by (auto elim!: chunk_match)
  then show "s = chunk_line label off (fromhex g) @ r" "length (fromhex g) = count"
    by (simp_all add: chunk_line_def tohex_fromhex length_fromhex)
qed

lemma slice_drop:
  assumes "slice a (a + n) s = t @ r"
  shows "drop a s = t @ drop (a + length t) s" "t = [] \<or> a + length t \<le> length s"
proof -
  have "drop a s = slice a (a + n) s @ drop n (drop a s)" by (simp add: slice_def del: drop_drop)
  then have d: "drop a s = t @ (r @ drop n (drop a s))" unfolding assms by (simp only: append_assoc)
  then have "drop (length t) (drop a s) = r @ drop n (drop a s)"
    by (metis append_eq_conv_conj)
  with d show "drop a s = t @ drop (a + length t) s" by (metis drop_drop add.commute)
  from d have "length t \<le> length s - a" by (metis length_append length_drop le_add1)
  then show "t = [] \<or> a + length t \<le> length s" by (cases t) auto
qed

lemma read_chunks_inv:
  "read_chunks msg label data len position raw = Inr (p, body) \<Longrightarrow> length raw \<le> len \<Longrightarrow>
     \<exists>rest. body = raw @ rest \<and> drop position data =
       write_chunks label (length raw) rest @ drop p data \<and>
       p = position + length (write_chunks label (length raw) rest)"
proof (induction msg label data len position raw rule: read_chunks.induct)
  case (1 msg label data len position raw)
  show ?case
  proof (cases "length raw < len")
    case False
    with "1.prems" show ?thesis
      by (subst (asm) read_chunks.simps) auto
  next
    case True
    let ?w = "slice position (position + 192) data"
    let ?count = "min 64 (len - length raw)"
    from True "1.prems"(1) obtain g r where
      m: "match_items (chunk_pattern label (length raw) ?count) ?w = Some ([g], r)"
      and rec: "read_chunks msg label data len (position + (length ?w - length r))
        (raw @ fromhex g) = Inr (p, body)"
      by (auto simp: read_chunks_step)
    let ?line = "chunk_line label (length raw) (fromhex g)"
    note line = chunk_match_line [OF m]
    have pos: "position + (length ?w - length r) = position + length ?line"
      using line(1) by simp
    have len: "length (raw @ fromhex g) \<le> len" using line(2) True by simp
    from "1.IH" [OF True refl m refl] rec len obtain rest where rest:
      "body = (raw @ fromhex g) @ rest"
      "drop (position + length ?line) data =
         write_chunks label (length (raw @ fromhex g)) rest @ drop p data"
      "p = position + length ?line + length (write_chunks label (length (raw @ fromhex g)) rest)"
      unfolding pos by auto
    have short: "rest = []" if "length (fromhex g) \<noteq> 64"
    proof -
      have "length (raw @ fromhex g) = len" using that line(2) True by (simp add: min_def split: if_splits)
      moreover have "length body = len" using read_chunks_length [OF rec] len by simp
      moreover have "length body = length (raw @ fromhex g) + length rest" using rest(1) by simp
      ultimately have "length rest = 0" by linarith
      then show ?thesis by simp
    qed
    have "fromhex g \<noteq> []" using line(2) True by auto
    moreover have "take 64 (fromhex g @ rest) = fromhex g \<and> drop 64 (fromhex g @ rest) = rest \<and>
        (rest = [] \<or> length (raw @ fromhex g) = length raw + 64)"
      using short line(2) by (cases "length (fromhex g) = 64") auto
    ultimately have w: "write_chunks label (length raw) (fromhex g @ rest) =
        ?line @ write_chunks label (length (raw @ fromhex g)) rest"
      using write_chunks_step [of "fromhex g @ rest" label "length raw"]
      by (cases "rest = []") auto
    show ?thesis
      using rest w slice_drop(1) [OF line(1)] by (intro exI [of _ "fromhex g @ rest"]) simp
  qed
qed

text \<open>
  C39 (termination). Reading a chunked body ends: every chunk read extends the body, so from the start of
  the body the loop either returns exactly the announced number of bytes, at a position not before the
  first chunk, or stops with its own error.
\<close>

theorem read_chunks_ends:
  "(\<exists>p body. read_chunks msg label data len position [] = Inr (p, body) \<and> length body = len \<and> position \<le> p) \<or>
   read_chunks msg label data len position [] = Inl (ValueError msg)"
  using read_chunks_total [of msg label data len position "[]"] read_chunks_length [of msg label data len position "[]"]
  by fastforce

end
