(* ===== verification/Handoff.thy ===== *)
theory Handoff
  imports Transport
begin

text \<open>
  \<^verbatim>\<open>scripts/check-qotom-handoff-capture.py\<close>: the raw Multiboot2 handoff that the lab
  kernel prints.  \<open>describe_tags\<close> walks the tag chain and reports what it finds without
  repairing it; \<open>parse_prefix\<close> decodes the header line, the chunks and the terminator.
\<close>

unbundle bit_operations_syntax

definition MAX_TRANSPORT :: nat where
  "MAX_TRANSPORT = 196608"

definition u32 :: "bytes \<Rightarrow> nat \<Rightarrow> int" where
  "u32 s off = from_le (slice off (off + 4) s)"

definition u64 :: "bytes \<Rightarrow> nat \<Rightarrow> int" where
  "u64 s off = from_le (slice off (off + 8) s)"

record framebuffer =
  fb_address :: int
  fb_pitch :: int
  fb_width :: int
  fb_height :: int
  fb_bits :: int
  fb_kind :: int

record tag =
  tag_offset :: nat
  tag_type :: int
  tag_size :: nat
  tag_framebuffer :: "framebuffer option"
  tag_memory_map :: "(int \<times> int) option"   \<comment> \<open>entry size and version\<close>

definition advance_of :: "nat \<Rightarrow> nat" where
  \<comment> \<open>\<^verbatim>\<open>(size + 7) & ~7\<close>\<close>
  "advance_of sz = nat ((int sz + 7) AND NOT 7)"

definition tag_at :: "bytes \<Rightarrow> nat \<Rightarrow> int \<Rightarrow> nat \<Rightarrow> tag" where
  "tag_at raw offset kind sz =
     \<lparr>tag_offset = offset, tag_type = kind, tag_size = sz,
      tag_framebuffer = (if kind = 8 \<and> 32 \<le> sz then Some
        \<lparr>fb_address = u64 raw (offset + 8), fb_pitch = u32 raw (offset + 16),
         fb_width = u32 raw (offset + 20), fb_height = u32 raw (offset + 24),
         fb_bits = byte_at raw (offset + 28), fb_kind = byte_at raw (offset + 29)\<rparr> else None),
      tag_memory_map = (if kind = 6 \<and> 16 \<le> sz then
        Some (u32 raw (offset + 8), u32 raw (offset + 12)) else None)\<rparr>"

lemma advance_of_eq: "advance_of sz = (sz + 7) div 8 * 8"
proof -
  have "int sz + 7 = int (sz + 7)" by simp
  then have "(int sz + 7) AND NOT 7 = int ((sz + 7) - (sz + 7) mod 8)"
    by (metis and_not_7 of_nat_diff of_nat_mod of_nat_numeral mod_less_eq_dividend)
  then show ?thesis by (simp add: advance_of_def minus_mod_eq_div_mult)
qed

lemma advance_of_ge: "sz \<le> advance_of sz" "advance_of sz < sz + 8" "8 dvd advance_of sz"
  by (simp_all add: advance_of_eq)

lemma advance_of_pos: "8 \<le> sz \<Longrightarrow> 0 < advance_of sz"
  using advance_of_ge(1) [of sz] by linarith

function describe_from :: "bytes \<Rightarrow> nat \<Rightarrow> tag list \<Rightarrow> bool \<times> tag list" where
  \<comment> \<open>the loop \<^verbatim>\<open>while offset <= len(raw) - 8\<close>, with the tags read so far\<close>
  "describe_from raw offset tags =
     (if offset + 8 \<le> length raw then
        (let kind = u32 raw offset; sz = nat (u32 raw (offset + 4)) in
         if sz < 8 \<or> length raw - offset < sz then (False, tags)
         else if length raw - offset < advance_of sz then (False, tags)
         else (let tags' = tags @ [tag_at raw offset kind sz] in
           if kind = 0 then (sz = 8 \<and> offset + advance_of sz = length raw, tags')
           else describe_from raw (offset + advance_of sz) tags'))
      else (False, tags))"
  by pat_completeness auto
termination
  by (relation "measure (\<lambda>(raw, offset, tags). length raw - offset)")
    (auto intro!: diff_less_mono2 simp: advance_of_pos)

declare describe_from.simps [simp del]

definition describe_tags :: "bytes \<Rightarrow> bool \<times> tag list" where
  "describe_tags raw =
     (if length raw < 16 \<or> u32 raw 0 \<noteq> int (length raw) \<or> u32 raw 4 \<noteq> 0 then (False, [])
      else describe_from raw 8 [])"

record handoff_report =
  h_status :: int
  h_magic :: int
  h_address :: int
  h_length :: int
  h_apic :: int
  h_schema :: string
  h_raw_sha256 :: string
  h_claims :: "(string \<times> bool) list"
  h_tag_chain_valid :: bool
  h_tags :: "tag list"

definition handoff_pattern :: "item list" where
  "handoff_pattern =
     [Lit ''LEANOS-LAB/1 HANDOFF status='', DEC, Lit '' magic='', DEC, Lit '' address='', DEC,
      Lit '' length='', DEC, Lit '' apic='', DEC, Lit NL]"

definition HANDOFF_END :: bytes where
  "HANDOFF_END = ''LEANOS-LAB/1 HANDOFF-END'' @ NL"

definition HANDOFF_DATA :: bytes where
  "HANDOFF_DATA = ''LEANOS-LAB/1 HANDOFF-DATA''"

definition handoff_report_of :: "int \<Rightarrow> int \<Rightarrow> int \<Rightarrow> int \<Rightarrow> int \<Rightarrow> bytes \<Rightarrow> handoff_report" where
  "handoff_report_of status magic address len apic raw =
     \<lparr>h_status = status, h_magic = magic, h_address = address, h_length = len, h_apic = apic,
      h_schema = ''leanos-raw-multiboot2-lab-v1'', h_raw_sha256 = sha256_hex raw,
      h_claims = [(''platform_admitted'', False), (''display_authorized'', False)],
      h_tag_chain_valid = fst (describe_tags raw), h_tags = snd (describe_tags raw)\<rparr>"

definition parse_prefix :: "bytes \<Rightarrow> (nat \<times> bytes \<times> handoff_report) res" where
  "parse_prefix data =
     bind (some_or ''missing or malformed handoff header''
       (match_items handoff_pattern (take 256 data))) (\<lambda>(groups, rest).
     bind (py_ints groups) (\<lambda>values.
     unpack5 values (\<lambda>status magic address len apic.
     raise_if ((\<exists>v\<in>set values. 0xffffffff < v) \<or> 1 < status \<or> 255 < apic)
       ''handoff field width''
     (raise_if (status \<noteq> 0 \<and> len \<noteq> 0) ''rejected handoff publishes bytes''
     (raise_if (status = 0 \<and> (magic \<noteq> 0x36d76289 \<or> address < 4096 \<or> address mod 8 \<noteq> 0 \<or>
         \<not> (16 \<le> len \<and> len \<le> 65536) \<or> len mod 8 \<noteq> 0 \<or> 0x1000000 < address + len))
       ''accepted handoff extent''
     (bind (read_chunks ''missing, unordered, or malformed handoff chunk'' HANDOFF_DATA data
         (nat len) (length (take 256 data) - length rest) []) (\<lambda>(position, raw).
     raise_if (\<not> startswith (drop position data) HANDOFF_END) ''missing handoff terminator''
     (let position' = position + length HANDOFF_END in
     raise_if (MAX_TRANSPORT < position') ''handoff transport exceeds bound''
     (raise_if (len \<noteq> 0 \<and> u32 raw 0 \<noteq> len) ''handoff size changed during observation''
     (Inr (position', raw, handoff_report_of status magic address len apic raw)))))))))))"

subsection \<open>The tag chain\<close>

fun tag_chain :: "bytes \<Rightarrow> nat \<Rightarrow> tag list \<Rightarrow> bool" where
  \<comment> \<open>tags that lie one after the other from \<open>off\<close> and end with the end tag at the last byte\<close>
  "tag_chain raw off [] = False"
| "tag_chain raw off [t] = (t = tag_at raw off 0 8 \<and> u32 raw off = 0 \<and> u32 raw (off + 4) = 8 \<and>
     off + 8 = length raw)"
| "tag_chain raw off (t # ts) =
     (t = tag_at raw off (u32 raw off) (nat (u32 raw (off + 4))) \<and> u32 raw off \<noteq> 0 \<and>
      8 \<le> nat (u32 raw (off + 4)) \<and> tag_chain raw (off + advance_of (nat (u32 raw (off + 4)))) ts)"

lemma tag_chain_Cons:
  "tag_chain raw off (t # us) =
     (if us = [] then t = tag_at raw off 0 8 \<and> u32 raw off = 0 \<and> u32 raw (off + 4) = 8 \<and>
        off + 8 = length raw
      else t = tag_at raw off (u32 raw off) (nat (u32 raw (off + 4))) \<and> u32 raw off \<noteq> 0 \<and>
        8 \<le> nat (u32 raw (off + 4)) \<and>
        tag_chain raw (off + advance_of (nat (u32 raw (off + 4)))) us)"
  by (cases us) auto

declare tag_chain.simps(2,3) [simp del]

lemma tag_chain_bound: "tag_chain raw off ts \<Longrightarrow> off + 8 \<le> length raw"
  by (induction ts arbitrary: off) (fastforce simp: tag_chain_Cons split: if_splits)+

lemma tag_chain_end:
  "u32 raw off = 0 \<Longrightarrow> tag_chain raw off ts \<longleftrightarrow>
     ts = [tag_at raw off 0 8] \<and> u32 raw (off + 4) = 8 \<and> off + 8 = length raw"
  by (cases ts) (auto simp: tag_chain_Cons)

lemma tag_chain_more:
  "u32 raw off \<noteq> 0 \<Longrightarrow> 8 \<le> nat (u32 raw (off + 4)) \<Longrightarrow> tag_chain raw off ts \<longleftrightarrow>
     (\<exists>us. ts = tag_at raw off (u32 raw off) (nat (u32 raw (off + 4))) # us \<and>
       tag_chain raw (off + advance_of (nat (u32 raw (off + 4)))) us)"
  by (cases ts) (auto simp: tag_chain_Cons)

lemma describe_from_step:
  "describe_from raw off acc = (True, tags) \<longleftrightarrow> (\<exists>ts. tags = acc @ ts \<and> tag_chain raw off ts)"
proof (induction raw off acc rule: describe_from.induct)
  case (1 raw off acc)
  let ?k = "u32 raw off" and ?sz = "nat (u32 raw (off + 4))"
  let ?ok = "off + 8 \<le> length raw \<and> \<not> ?sz < 8 \<and> \<not> length raw - off < ?sz \<and>
    \<not> length raw - off < advance_of ?sz"
  have adv8: "advance_of 8 = 8" by (simp add: advance_of_eq)
  have le: "?sz \<le> advance_of ?sz" by (rule advance_of_ge)
  show ?case
  proof (cases "?ok")
    case False
    have "\<not> tag_chain raw off ts" for ts
    proof
      assume c: "tag_chain raw off ts"
      then obtain u us where ts: "ts = u # us" by (cases ts) auto
      then have "us = [] \<and> ?sz = 8 \<and> off + 8 = length raw \<or>
          8 \<le> ?sz \<and> off + advance_of ?sz + 8 \<le> length raw"
        using c by (auto simp: tag_chain_Cons dest: tag_chain_bound split: if_splits)
      then show False using False le adv8 tag_chain_bound [OF c] by auto
    qed
    moreover have "describe_from raw off acc = (False, acc)"
      using False by (subst describe_from.simps) (auto simp: Let_def)
    ultimately show ?thesis by auto
  next
    case ok: True
    show ?thesis
    proof (cases "?k = 0")
      case True
      have "describe_from raw off acc =
          (?sz = 8 \<and> off + advance_of ?sz = length raw, acc @ [tag_at raw off 0 ?sz])"
        using ok True by (subst describe_from.simps) (simp add: Let_def)
      then have "describe_from raw off acc = (True, tags) \<longleftrightarrow>
          ?sz = 8 \<and> off + 8 = length raw \<and> tags = acc @ [tag_at raw off 0 8]"
        using adv8 by (cases "?sz = 8") auto
      moreover have "?sz = 8 \<longleftrightarrow> u32 raw (off + 4) = 8" by linarith
      ultimately show ?thesis by (simp add: tag_chain_end [OF True]) blast
    next
      case False
      have "describe_from raw off acc =
          describe_from raw (off + advance_of ?sz) (acc @ [tag_at raw off ?k ?sz])"
        using ok False by (subst describe_from.simps) (simp add: Let_def)
      moreover have "describe_from raw (off + advance_of ?sz) (acc @ [tag_at raw off ?k ?sz]) =
          (True, tags) \<longleftrightarrow> (\<exists>ts. tags = (acc @ [tag_at raw off ?k ?sz]) @ ts \<and>
            tag_chain raw (off + advance_of ?sz) ts)"
        using 1 [OF _ refl refl _ _ refl False] ok by blast
      moreover have "8 \<le> ?sz" using ok by simp
      ultimately show ?thesis using tag_chain_more [OF False] by simp blast
    qed
  qed
qed

lemma describe_tags_valid:
  "describe_tags raw = (True, tags) \<longleftrightarrow>
     16 \<le> length raw \<and> u32 raw 0 = int (length raw) \<and> u32 raw 4 = 0 \<and> tag_chain raw 8 tags"
  by (auto simp: describe_tags_def describe_from_step)

subsection \<open>The transport\<close>

text \<open>What a conforming kernel prints for a handoff, and which handoffs are well formed.\<close>

definition print_handoff :: "nat list \<Rightarrow> bytes \<Rightarrow> bytes" where
  "print_handoff ns raw =
     record_line handoff_pattern ns @ write_chunks HANDOFF_DATA 0 raw @ HANDOFF_END"

definition handoff_ok :: "nat \<Rightarrow> nat \<Rightarrow> nat \<Rightarrow> nat \<Rightarrow> bytes \<Rightarrow> bool" where
  "handoff_ok status magic address apic raw \<longleftrightarrow>
     status \<le> 1 \<and> magic < 2 ^ 32 \<and> address < 2 ^ 32 \<and> apic \<le> 255 \<and>
     (if status = 0 then magic = 0x36d76289 \<and> 4096 \<le> address \<and> 8 dvd address \<and>
        16 \<le> length raw \<and> length raw \<le> 65536 \<and> 8 dvd length raw \<and>
        address + length raw \<le> 2 ^ 24 \<and> u32 raw 0 = int (length raw)
      else raw = [])"

lemma handoff_pattern_ok:
  "delimited handoff_pattern" "decimal_pattern handoff_pattern" "is_lit (last handoff_pattern)"
  by (simp_all add: handoff_pattern_def is_digit_def)

lemma length_write_chunks:
  "length raw \<le> 65536 \<Longrightarrow> off \<le> 65536 \<Longrightarrow> off + length raw \<le> 65536 \<Longrightarrow>
     length (write_chunks label off raw) \<le> ((length raw + 63) div 64) * (length label + 19) + 2 * length raw"
proof (induction "length raw" arbitrary: off raw rule: less_induct)
  case less
  show ?case
  proof (cases "raw = []")
    case True
    then show ?thesis by simp
  next
    case False
    let ?t = "take 64 raw" and ?d = "drop 64 raw"
    have "length (decimal off) \<le> Suc 4" using less.prems by (intro decimal_length) simp
    then have line: "length (chunk_line label off ?t) \<le> length label + 19 + 2 * length ?t"
      by (simp add: length_chunk_line)
    have tail: "length (write_chunks label (off + 64) ?d) \<le>
        ((length ?d + 63) div 64) * (length label + 19) + 2 * length ?d"
    proof (cases "?d = []")
      case True
      then show ?thesis by simp
    next
      case False
      then have "64 < length raw" by simp
      with less show ?thesis by (intro less.hyps) auto
    qed
    have "(length raw + 63) div 64 = Suc ((length ?d + 63) div 64)"
      using False by (cases "length raw \<le> 64") (auto simp: div_add_self2 le_div_geq Suc_leI)
    moreover have "length ?t + length ?d = length raw" by simp
    moreover have "write_chunks label off raw =
        chunk_line label off ?t @ write_chunks label (off + 64) ?d"
      using False by (rule write_chunks_step)
    ultimately show ?thesis using line tail by simp
  qed
qed

lemma int_mod_8: "8 dvd n \<longleftrightarrow> int n mod 8 = 0"
  by presburger

lemma handoff_header:
  assumes "in_range handoff_pattern ns"
  shows "match_items handoff_pattern (record_line handoff_pattern ns @ r) = Some (map decimal ns, r)"
    and "py_ints (map decimal ns) = Inr (map int ns)"
    and "length (record_line handoff_pattern ns) \<le> 120"
proof -
  show "match_items handoff_pattern (record_line handoff_pattern ns @ r) = Some (map decimal ns, r)"
    unfolding record_line_def using assms handoff_pattern_ok
    by (intro match_items_complete_rest pmatch_render groups_ok_decimal) auto
  show "py_ints (map decimal ns) = Inr (map int ns)"
    using assms handoff_pattern_ok by (intro py_ints_decimal)
  have "max_width handoff_pattern \<le> 120" by (simp add: handoff_pattern_def)
  then show "length (record_line handoff_pattern ns) \<le> 120"
    using length_record_line [OF assms] by simp
qed

lemma handoff_accepts:
  assumes ok: "handoff_ok status magic address apic raw"
    and shown: "shown = print_handoff [status, magic, address, length raw, apic] raw"
  shows "parse_prefix (shown @ rest) = Inr (length shown, raw,
    handoff_report_of (int status) (int magic) (int address) (int (length raw)) (int apic) raw)"
proof -
  let ?ns = "[status, magic, address, length raw, apic]"
  let ?hdr = "record_line handoff_pattern ?ns" and ?body = "write_chunks HANDOFF_DATA 0 raw"
  have small: "length raw \<le> 65536" using ok by (auto simp: handoff_ok_def split: if_splits)
  have "in_range handoff_pattern ?ns"
    using ok small by (auto simp: handoff_ok_def handoff_pattern_def)
  note hdr = handoff_header [OF this]
  have label: "length HANDOFF_DATA = 25" "length HANDOFF_END = 25"
    by (simp_all add: HANDOFF_DATA_def HANDOFF_END_def)
  have data: "shown @ rest = ?hdr @ ?body @ (HANDOFF_END @ rest)"
    by (simp add: shown print_handoff_def)
  obtain r where tk: "take 256 (shown @ rest) = ?hdr @ r"
    unfolding data using hdr(3) by (simp add: take_append)
  have "read_chunks ''missing, unordered, or malformed handoff chunk'' HANDOFF_DATA
      (?hdr @ ?body @ (HANDOFF_END @ rest)) (length raw) (length ?hdr) [] =
    Inr (length ?hdr + length ?body, raw)"
    using read_chunks_write [of HANDOFF_DATA "length raw" "[]" raw _ ?hdr] small label by simp
  note chunks = this [folded data]
  have "length ?body \<le> 176128"
    using length_write_chunks [of raw 0 HANDOFF_DATA] small label
      div_le_mono [of "length raw + 63" 65599 64] by simp
  then have bound: "length ?hdr + length ?body + 25 \<le> MAX_TRANSPORT"
    using hdr(3) by (simp add: MAX_TRANSPORT_def)
  have fin: "startswith (drop (length ?hdr + length ?body) (shown @ rest)) HANDOFF_END"
    by (simp add: data)
  have len: "length shown = length ?hdr + length ?body + 25"
    by (simp add: shown print_handoff_def label)
  define n where "n = length raw"
  have g: "int status \<le> 1" "int magic \<le> 0xffffffff" "int address \<le> 0xffffffff"
    "int n \<le> 0xffffffff" "int apic \<le> 255"
    "\<not> (int status \<noteq> 0 \<and> int n \<noteq> 0)"
    "\<not> (int status = 0 \<and> (int magic \<noteq> 0x36d76289 \<or> int address < 4096 \<or> int address mod 8 \<noteq> 0 \<or>
       \<not> (16 \<le> int n \<and> int n \<le> 65536) \<or> int n mod 8 \<noteq> 0 \<or> 0x1000000 < int address + int n))"
    "\<not> (int n \<noteq> 0 \<and> u32 raw 0 \<noteq> int n)"
    using ok small unfolding n_def by (auto simp: handoff_ok_def int_mod_8 split: if_splits)
  have m: "match_items handoff_pattern (take 256 (shown @ rest)) =
      Some (map decimal [status, magic, address, n, apic], r)"
    unfolding tk n_def by (rule hdr(1))
  have ps: "py_ints (map decimal [status, magic, address, n, apic]) =
      Inr [int status, int magic, int address, int n, int apic]"
    using hdr(2) by (simp add: n_def)
  have pos: "length (take 256 (shown @ rest)) - length r = length ?hdr" unfolding tk by simp
  show ?thesis
    using g(1-5,8) bound fin
    unfolding parse_prefix_def m some_or_def option.case bind_eval case_prod_conv ps unpack_eval pos
      raise_if_def if_not_P [OF g(6)] if_not_P [OF g(7)] nat_int Let_def label len
    by (simp add: n_def chunks bind_eval)
qed

lemma handoff_sound:
  assumes "parse_prefix data = Inr (pos, raw, rep)"
  obtains status magic address apic where "handoff_ok status magic address apic raw"
    "data = print_handoff [status, magic, address, length raw, apic] raw @ drop pos data"
    "pos = length (print_handoff [status, magic, address, length raw, apic] raw)"
    "rep = handoff_report_of (int status) (int magic) (int address) (int (length raw)) (int apic) raw"
proof -
  from assms obtain groups r vals status magic address len apic p where
    m: "match_items handoff_pattern (take 256 data) = Some (groups, r)"
    and v: "py_ints groups = Inr vals" and vs: "vals = [status, magic, address, len, apic]"
    and g: "\<not> ((\<exists>v\<in>set vals. 0xffffffff < v) \<or> 1 < status \<or> 255 < apic)"
      "\<not> (status \<noteq> 0 \<and> len \<noteq> 0)"
      "\<not> (status = 0 \<and> (magic \<noteq> 0x36d76289 \<or> address < 4096 \<or> address mod 8 \<noteq> 0 \<or>
         \<not> (16 \<le> len \<and> len \<le> 65536) \<or> len mod 8 \<noteq> 0 \<or> 0x1000000 < address + len))"
    and c: "read_chunks ''missing, unordered, or malformed handoff chunk'' HANDOFF_DATA data
      (nat len) (length (take 256 data) - length r) [] = Inr (p, raw)"
    and e: "startswith (drop p data) HANDOFF_END" "pos = p + length HANDOFF_END"
      "\<not> (len \<noteq> 0 \<and> u32 raw 0 \<noteq> len)"
      "rep = handoff_report_of status magic address len apic raw"
    unfolding parse_prefix_def Let_def
    by (elim res_elims) (rule that, (assumption | (drule Inr_inject, simp) | simp only: not_not prod.inject)+)
  obtain ns where "py_ints groups = Inr (map int ns)"
    and hdr: "take 256 data = record_line handoff_pattern ns @ r"
    using match_items_decimal [OF m handoff_pattern_ok(2)] by metis
  with v have ns: "vals = map int ns" "take 256 data = record_line handoff_pattern ns @ r"
    by simp_all
  then obtain s' m' a' l' p' where nl: "ns = [s', m', a', l', p']"
    and eq: "status = int s'" "magic = int m'" "address = int a'" "len = int l'" "apic = int p'"
    using vs by auto
  let ?hdr = "record_line handoff_pattern ns"
  have "length raw = l'" using read_chunks_length [OF c] eq by simp
  note eq = eq [folded this] and nl = nl [folded this]
  have "handoff_ok s' m' a' p' raw"
    using g e(3) vs eq by (auto simp: handoff_ok_def int_mod_8)
  moreover have d: "drop (length ?hdr) data = write_chunks HANDOFF_DATA 0 raw @ drop p data"
      "p = length ?hdr + length (write_chunks HANDOFF_DATA 0 raw)"
    using read_chunks_inv [OF c] ns(2) by auto
  moreover have "drop p data = HANDOFF_END @ drop pos data"
    using startswith_drop [OF e(1)] e(2) by (metis drop_drop add.commute)
  moreover have "take (length ?hdr) data = ?hdr"
  proof -
    have "data = take 256 data @ drop 256 data" by simp
    then show ?thesis unfolding ns(2) by (metis append.assoc append_eq_conv_conj)
  qed
  ultimately have "data = print_handoff ns raw @ drop pos data"
    by (metis append.assoc append_take_drop_id print_handoff_def)
  moreover have "pos = length (print_handoff ns raw)"
    by (simp add: d(2) e(2) print_handoff_def)
  ultimately show ?thesis using that \<open>handoff_ok s' m' a' p' raw\<close> e(4) eq nl by auto
qed

text \<open>
  C4.  The handoff decoder accepts exactly the canonical transport text.  A capture is decoded
  to the body \<open>raw\<close> at position \<open>pos\<close> if and only if it starts with the text a conforming
  kernel prints for a well-formed handoff with that body; \<open>pos\<close> is the length of that text
  and the report states the printed values.  In particular decoding inverts printing, and
  nothing else (reordered chunks, other digits, missing terminator) is accepted.
\<close>

theorem parse_prefix_exact:
  "parse_prefix data = Inr (pos, raw, rep) \<longleftrightarrow>
     (\<exists>status magic address apic rest.
        handoff_ok status magic address apic raw \<and>
        data = print_handoff [status, magic, address, length raw, apic] raw @ rest \<and>
        pos = length (print_handoff [status, magic, address, length raw, apic] raw) \<and>
        rep = handoff_report_of (int status) (int magic) (int address) (int (length raw)) (int apic) raw)"
  by (blast elim: handoff_sound intro: handoff_accepts)

text \<open>
  C34 (equivalence). The tag walk reports a valid chain exactly when the handoff is a sequence of tags: its
  size word is its length, its reserved word is zero, and the tags lie one after the other from offset 8,
  each of at least eight bytes, each start the previous one's end rounded up to eight, with the only end
  tag in the last eight bytes; the tags reported are those of the sequence.
\<close>

theorem tag_walk_exact:
  "describe_tags raw = (True, tags) \<longleftrightarrow>
     16 \<le> length raw \<and> u32 raw 0 = int (length raw) \<and> u32 raw 4 = 0 \<and> tag_chain raw 8 tags"
  by (rule describe_tags_valid)

lemma describe_from_length:
  "off \<le> length raw \<Longrightarrow> 8 * length (snd (describe_from raw off acc)) \<le> 8 * length acc + (length raw - off)"
proof (induction raw off acc rule: describe_from.induct)
  case (1 raw off acc)
  let ?k = "u32 raw off" and ?sz = "nat (u32 raw (off + 4))"
  show ?case
  proof (cases "off + 8 \<le> length raw \<and> \<not> ?sz < 8 \<and> \<not> length raw - off < ?sz \<and> \<not> length raw - off < advance_of ?sz")
    case False
    then show ?thesis by (subst describe_from.simps) (auto simp: Let_def)
  next
    case ok: True
    have a: "8 \<le> advance_of ?sz" using ok advance_of_ge(1) [of ?sz] by linarith
    show ?thesis
    proof (cases "?k = 0")
      case True
      then show ?thesis using ok by (subst describe_from.simps) (simp add: Let_def, arith)
    next
      case False
      have "8 * length (snd (describe_from raw (off + advance_of ?sz) (acc @ [tag_at raw off ?k ?sz]))) \<le>
          8 * length (acc @ [tag_at raw off ?k ?sz]) + (length raw - (off + advance_of ?sz))"
        using "1.IH" [OF _ refl refl _ _ refl False] ok by auto
      then show ?thesis using ok a False by (subst describe_from.simps) (simp add: Let_def, arith)
    qed
  qed
qed

text \<open>
  A decoded handoff consumes no more than the transport bound, its body is at most 65536
  bytes and exactly as long as it announces, and the walk over it reports at most one tag for every eight
  bytes.
\<close>

theorem handoff_bounds:
  assumes "parse_prefix data = Inr (pos, raw, rep)"
  shows "pos \<le> length data \<and> pos \<le> MAX_TRANSPORT \<and> length raw \<le> 65536 \<and> h_length rep = int (length raw) \<and>
    8 * length (h_tags rep) \<le> length raw"
proof -
  from assms have p: "pos \<le> MAX_TRANSPORT"
    unfolding parse_prefix_def Let_def by (elim res_elims) auto
  from assms obtain status magic address apic where ok: "handoff_ok status magic address apic raw"
    and d: "data = print_handoff [status, magic, address, length raw, apic] raw @ drop pos data"
      "pos = length (print_handoff [status, magic, address, length raw, apic] raw)"
      "rep = handoff_report_of (int status) (int magic) (int address) (int (length raw)) (int apic) raw"
    by (rule handoff_sound)
  from d(1,2) have "length data = pos + (length data - pos)" by (metis length_append length_drop)
  then have "pos \<le> length data" by simp
  moreover have "length raw \<le> 65536" using ok by (auto simp: handoff_ok_def split: if_splits)
  moreover have "8 * length (snd (describe_tags raw)) \<le> length raw"
    using describe_from_length [of 8 raw "[]"] by (auto simp: describe_tags_def)
  ultimately show ?thesis using p by (simp add: d(3) handoff_report_of_def)
qed

end
