(* ===== verification/Acpi.thy ===== *)
theory Acpi
  imports Handoff
begin

text \<open>
  The ACPI capture (\<^verbatim>\<open>scripts/check-qotom-acpi-capture.py\<close>): the root pointer selected from
  the firmware handoff, the tables that follow the root table's own list, and the DSDT that the
  FADT selects.
\<close>

unbundle bit_operations_syntax

definition ACPI_BEGIN :: bytes where "ACPI_BEGIN = ''LEANOS-LAB/1 ACPI-BEGIN ''"
definition ACPI_END :: bytes where "ACPI_END = ''LEANOS-LAB/1 ACPI-END'' @ NL"
definition ACPI_DATA :: bytes where "ACPI_DATA = ''LEANOS-LAB/1 ACPI-DATA''"

definition tags_of :: "int \<Rightarrow> tag list \<Rightarrow> tag list" where
  "tags_of kind tags = filter (\<lambda>t. tag_type t = kind) tags"

definition rsdp_of :: "bytes \<Rightarrow> tag \<Rightarrow> bytes" where
  "rsdp_of info t = slice (tag_offset t + 8) (tag_offset t + tag_size t) info"

definition selected_root :: "bytes \<Rightarrow> (int \<times> int) res" where
  \<comment> \<open>the kind of the root table (1 for RSDT, 2 for XSDT) and its address\<close>
  "selected_root info =
     (let (valid, tags) = describe_tags info;
          modern = tags_of 15 tags; legacy = tags_of 14 tags in
      raise_if (\<not> valid) ''ACPI capture requires valid handoff tag chain''
      (raise_if (1 < length modern \<or> 1 < length legacy \<or> modern @ legacy = []) ''ambiguous or absent RSDP''
      (let rsdp = rsdp_of info (hd (if modern \<noteq> [] then modern else legacy)) in
       raise_if (length rsdp < 20 \<or> take 8 rsdp \<noteq> ''RSD PTR '' \<or> byte_sum (take 20 rsdp) mod 256 \<noteq> 0)
         ''RSDP legacy checksum or signature''
       (if modern \<noteq> [] then
          raise_if (length rsdp < 36 \<or> byte_at rsdp 15 < 2 \<or> u32 rsdp 20 \<noteq> int (length rsdp) \<or>
              byte_sum rsdp mod 256 \<noteq> 0) ''RSDP extended envelope''
          (if u64 rsdp 24 \<noteq> 0 then Inr (2, u64 rsdp 24) else Inr (1, u32 rsdp 16))
        else Inr (1, u32 rsdp 16)))))"

definition fadt_dsdt_address :: "bytes \<Rightarrow> int res" where
  "fadt_dsdt_address raw =
     raise_if (length raw < 116 \<or> 65536 < length raw \<or> take 4 raw \<noteq> ''FACP'' \<or>
         u32 raw 4 \<noteq> int (length raw) \<or> (byte_at raw 8 \<noteq> 1 \<and> byte_at raw 8 < 3))
       ''unsupported FADT envelope/revision''
     (bind (if 3 \<le> byte_at raw 8 then
              raise_if (length raw < 148) ''truncated extended FADT''
                (Inr (if u64 raw 140 \<noteq> 0 then u64 raw 140 else u32 raw 40))
            else Inr (u32 raw 40)) (\<lambda>address.
      raise_if (\<not> (0 < address \<and> address \<le> 2 ^ 32 - 36)) ''unsupported DSDT address'' (Inr address)))"

record acpi_table =
  at_index :: nat
  at_address :: int
  at_length :: int
  at_signature :: bytes   \<comment> \<open>\<^verbatim>\<open>signature_hex\<close>\<close>
  at_sha256 :: string

type_synonym table_files = "(string \<times> bytes) list"

definition table_name :: "int \<Rightarrow> string" where
  \<comment> \<open>\<^verbatim>\<open>f'{physical:016x}.bin'\<close>\<close>
  "table_name physical = hex_digits 16 (nat physical) @ ''.bin''"

definition file_of :: "table_files \<Rightarrow> int \<Rightarrow> bytes res" where
  "file_of files physical =
     (case map_of files (table_name physical) of
        None \<Rightarrow> Inl (KeyError (table_name physical)) | Some raw \<Rightarrow> Inr raw)"

definition acpi_header_pattern :: "bool \<Rightarrow> item list" where
  "acpi_header_pattern dsdt =
     [Lit (ACPI_BEGIN @ ''root-kind=''), OneOf ''12'', Lit '' root-address='', DEC, Lit '' tables='', DEC,
      Lit ((if dsdt then '' dsdt=1'' else []) @ NL)]"

definition table_pattern :: "nat \<Rightarrow> item list" where
  "table_pattern index =
     [Lit (''LEANOS-LAB/1 ACPI-TABLE index='' @ decimal index @ '' address=''), DEC, Lit '' length='', DEC, Lit NL]"

definition overlaps :: "acpi_table \<Rightarrow> acpi_table \<Rightarrow> bool" where
  "overlaps a b \<longleftrightarrow> at_address a < at_address b + at_length b \<and> at_address b < at_address a + at_length a"

definition read_table ::
  "bytes \<Rightarrow> nat \<Rightarrow> nat \<Rightarrow> int \<Rightarrow> int list \<Rightarrow> (nat \<times> int \<times> bytes) res" where
  \<comment> \<open>the body of the loop over the tables: the position after the table, its address and its bytes\<close>
  "read_table block index position budget addresses =
     (let window = slice position (position + 128) block in
      case match_items (table_pattern index) window of
        None \<Rightarrow> raise ''missing or unordered ACPI table''
      | Some (gs, rest) \<Rightarrow>
          bind (py_ints gs) (\<lambda>vs. unpack2 vs (\<lambda>physical len.
          raise_if (\<not> (0 < physical \<and> physical < 2 ^ 32) \<or> \<not> (36 \<le> len \<and> len \<le> budget) \<or>
              2 ^ 32 < physical + len \<or> physical \<in> set addresses)
            ''ACPI table extent, budget, or duplicate''
          (bind (read_chunks ''missing or malformed ACPI chunk'' ACPI_DATA block (nat len)
             (position + (length window - length rest)) []) (\<lambda>(position', raw).
          raise_if (u32 raw 4 \<noteq> len \<or> byte_sum raw mod 256 \<noteq> 0) ''ACPI table length or checksum''
          (Inr (position', physical, raw)))))))"

definition table_entry :: "nat \<Rightarrow> int \<Rightarrow> bytes \<Rightarrow> acpi_table" where
  "table_entry index physical raw =
     \<lparr>at_index = index, at_address = physical, at_length = int (length raw),
      at_signature = tohex (take 4 raw), at_sha256 = sha256_hex raw\<rparr>"

fun read_tables ::
  "bytes \<Rightarrow> nat \<Rightarrow> nat \<Rightarrow> nat \<Rightarrow> int \<Rightarrow> acpi_table list \<Rightarrow> table_files \<Rightarrow>
   (nat \<times> acpi_table list \<times> table_files) res" where
  "read_tables block 0 index position budget tables files = Inr (position, tables, files)"
| "read_tables block (Suc left) index position budget tables files =
     bind (read_table block index position budget (map at_address tables)) (\<lambda>(position', physical, raw).
     read_tables block left (Suc index) position' (budget - int (length raw))
       (tables @ [table_entry index physical raw]) (files @ [(table_name physical, raw)]))"

record acpi_report =
  ar_schema :: string
  ar_kind :: int
  ar_address :: int
  ar_tables :: "acpi_table list"
  ar_handoff_sha256 :: string
  ar_claims :: "(string \<times> bool) list"
  ar_dsdt :: "(int \<times> int) option"   \<comment> \<open>addresses of the FADT and of the DSDT\<close>

definition root_entries :: "nat \<Rightarrow> bytes \<Rightarrow> int list" where
  \<comment> \<open>\<^verbatim>\<open>[int.from_bytes(root[i:i + width], 'little') for i in range(36, len(root), width)]\<close>\<close>
  "root_entries width root =
     map (\<lambda>k. from_le (slice (36 + k * width) (36 + k * width + width) root))
       [0..<(length root - 36 + width - 1) div width]"

definition check_root :: "int \<Rightarrow> int \<Rightarrow> nat \<Rightarrow> acpi_table list \<Rightarrow> table_files \<Rightarrow> unit res" where
  "check_root kind address count tables files =
     (let addresses = map at_address tables; width = (if kind = 1 then 4 else 8) in
      bind (py_get addresses 0) (\<lambda>first.
      bind (file_of files first) (\<lambda>root.
      raise_if (first \<noteq> address \<or> take 4 root \<noteq> (if kind = 1 then ''RSDT'' else ''XSDT'') \<or>
          length root \<noteq> 36 + count * width) ''ACPI root shape or address''
      (raise_if (take count (drop 1 addresses) \<noteq> root_entries width root)
        ''ACPI children differ from complete ordered root list'' (Inr ())))))"

definition check_dsdt :: "nat \<Rightarrow> acpi_table list \<Rightarrow> table_files \<Rightarrow> (int \<times> int) res" where
  "check_dsdt count tables files =
     (case filter (\<lambda>t. at_signature t = tohex ''FACP'') (take count (drop 1 tables)) of
        [fadt] \<Rightarrow>
          bind (file_of files (at_address fadt)) (\<lambda>raw.
          bind (fadt_dsdt_address raw) (\<lambda>selected.
          raise_if (at_address (last tables) \<noteq> selected \<or> at_signature (last tables) \<noteq> tohex ''DSDT'')
            ''DSDT differs from FADT selection''
          (raise_if (list_ex (overlaps (last tables)) (butlast tables)) ''DSDT overlaps root-selected table''
          (Inr (at_address fadt, selected)))))
      | _ \<Rightarrow> raise ''DSDT requires unique root-selected FADT'')"

definition extract_acpi :: "bytes \<Rightarrow> bytes \<Rightarrow> bool \<Rightarrow> (bytes \<times> acpi_report option \<times> table_files) res" where
  "extract_acpi data handoff dsdt =
     (case bytes_find ACPI_BEGIN data of
        None \<Rightarrow>
          raise_if (bytes_in (''FINAL status=FAIL reason=qotom-platform-pending'' @ NL) data)
            ''successful diagnostic lacks requested ACPI capture'' (Inr (data, None, []))
      | Some start \<Rightarrow>
          raise_if (bytes_count ACPI_BEGIN data \<noteq> 1) ''repeated ACPI capture''
          (let block = drop start data in
           case match_items (acpi_header_pattern dsdt) block of
             None \<Rightarrow> raise ''invalid ACPI header''
           | Some (gs, rest) \<Rightarrow>
               bind (py_ints gs) (\<lambda>vs. unpack3 vs (\<lambda>kind address count.
               raise_if (\<not> (1 \<le> count \<and> count \<le> 256)) ''ACPI root selection or count mismatch''
               (bind (selected_root handoff) (\<lambda>root.
               raise_if ((kind, address) \<noteq> root) ''ACPI root selection or count mismatch''
               (bind (read_tables block (nat count + 1 + (if dsdt then 1 else 0)) 0 (length block - length rest)
                  (65536 - int (length handoff)) [] []) (\<lambda>(position, tables, files).
               raise_if (\<not> startswith (drop position block) ACPI_END) ''missing ACPI end''
               (bind (check_root kind address (nat count) tables files) (\<lambda>_.
               bind (if dsdt then bind (check_dsdt (nat count) tables files) (Inr \<circ> Some) else Inr None) (\<lambda>ds.
               Inr (take start data @ drop (position + length ACPI_END) block,
                    Some \<lparr>ar_schema = (if dsdt then ''leanos-native-acpi-dsdt-lab-v1'' else ''leanos-native-acpi-lab-v1''),
                      ar_kind = kind, ar_address = address, ar_tables = tables,
                      ar_handoff_sha256 = sha256_hex handoff,
                      ar_claims = (''platform_admitted'', False) # (if dsdt then [(''aml_executed'', False)] else []),
                      ar_dsdt = ds\<rparr>, files))))))))))))"

section \<open>Properties\<close>

subsection \<open>Tables\<close>

definition print_table :: "nat \<Rightarrow> int \<Rightarrow> bytes \<Rightarrow> bytes" where
  "print_table index physical raw =
     record_line (table_pattern index) [nat physical, length raw] @ write_chunks ACPI_DATA 0 raw"

definition table_valid :: "int \<Rightarrow> bytes \<Rightarrow> bool" where
  \<comment> \<open>inside the first four gigabytes, with the length field and the checksum of its header\<close>
  "table_valid physical raw \<longleftrightarrow> 0 < physical \<and> physical + int (length raw) \<le> 2 ^ 32 \<and> 36 \<le> length raw \<and>
     u32 raw 4 = int (length raw) \<and> byte_sum raw mod 256 = 0"

lemma table_pattern_ok: "decimal_pattern (table_pattern index)"
  by (simp add: table_pattern_def)

lemma window_drop:
  assumes "slice a (a + n) s = t @ r"
  shows "drop a s = t @ drop (a + (length (slice a (a + n) s) - length r)) s"
  using slice_drop(1) [OF assms] assms by simp

lemma read_table_sound:
  assumes "read_table block index position budget addresses = Inr (position', physical, raw)"
  shows "drop position block = print_table index physical raw @ drop position' block"
    "table_valid physical raw" "int (length raw) \<le> budget" "physical \<notin> set addresses"
proof -
  let ?w = "slice position (position + 128) block"
  from assms obtain gs r p len where m: "match_items (table_pattern index) ?w = Some (gs, r)"
    and vs: "py_ints gs = Inr [p, len]"
    and ok: "0 < p" "p < 2 ^ 32" "36 \<le> len" "len \<le> budget" "p + len \<le> 2 ^ 32" "p \<notin> set addresses"
    and c: "read_chunks ''missing or malformed ACPI chunk'' ACPI_DATA block (nat len)
        (position + (length ?w - length r)) [] = Inr (position', raw)"
    and chk: "u32 raw 4 = len" "byte_sum raw mod 256 = 0" and eq: "physical = p"
    unfolding read_table_def Let_def
    by (auto split: option.splits simp: res_simps not_less not_le)
  from m table_pattern_ok obtain ns where ns: "gs = map decimal ns"
    "?w = record_line (table_pattern index) ns @ r" "py_ints gs = Inr (map int ns)"
    by (rule match_items_decimal)
  from read_chunks_length [OF c] have len: "length raw = nat len" by simp
  with ok(3) ns(3) vs have nsv: "ns = [nat physical, length raw]" by (auto simp: eq)
  from read_chunks_inv [OF c] have
    "drop (position + (length ?w - length r)) block = write_chunks ACPI_DATA 0 raw @ drop position' block"
    by auto
  with window_drop [OF ns(2)] nsv show "drop position block = print_table index physical raw @ drop position' block"
    by (simp add: print_table_def)
  show "table_valid physical raw" "int (length raw) \<le> budget" "physical \<notin> set addresses"
    using ok chk eq len by (auto simp: table_valid_def)
qed

definition print_tables :: "nat \<Rightarrow> (int \<times> bytes) list \<Rightarrow> bytes" where
  "print_tables index new = concat (map (\<lambda>(i, a, raw). print_table i a raw) (enumerate index new))"

definition table_entries :: "nat \<Rightarrow> (int \<times> bytes) list \<Rightarrow> acpi_table list" where
  "table_entries index new = map (\<lambda>(i, a, raw). table_entry i a raw) (enumerate index new)"

definition named_files :: "(int \<times> bytes) list \<Rightarrow> table_files" where
  "named_files new = map (\<lambda>(a, raw). (table_name a, raw)) new"

definition total_length :: "(int \<times> bytes) list \<Rightarrow> int" where
  "total_length new = sum_list (map (int \<circ> length \<circ> snd) new)"

lemma table_lists_simps [simp]:
  "print_tables index [] = []" "table_entries index [] = []" "named_files [] = []" "total_length [] = 0"
  "print_tables index ((a, raw) # new) = print_table index a raw @ print_tables (Suc index) new"
  "table_entries index ((a, raw) # new) = table_entry index a raw # table_entries (Suc index) new"
  "named_files ((a, raw) # new) = (table_name a, raw) # named_files new"
  "total_length ((a, raw) # new) = int (length raw) + total_length new"
  by (simp_all add: print_tables_def table_entries_def named_files_def total_length_def)

lemma table_entries_addresses: "map at_address (table_entries index new) = map fst new"
  by (induction new arbitrary: index) (auto simp: table_entry_def)

lemma read_tables_sound:
  assumes "read_tables block left index position budget tables files = Inr (p, ts, fs)"
    and "distinct (map at_address tables)"
  shows "\<exists>new. length new = left \<and> ts = tables @ table_entries index new \<and> fs = files @ named_files new \<and>
    drop position block = print_tables index new @ drop p block \<and>
    (\<forall>(a, raw)\<in>set new. table_valid a raw) \<and> distinct (map at_address ts) \<and>
    (left = 0 \<or> total_length new \<le> budget)"
  using assms
proof (induction left arbitrary: index position budget tables files)
  case 0
  then show ?case by auto
next
  case (Suc left)
  from Suc.prems(1) obtain position' physical raw where
    t: "read_table block index position budget (map at_address tables) = Inr (position', physical, raw)"
    and rest: "read_tables block left (Suc index) position' (budget - int (length raw))
       (tables @ [table_entry index physical raw]) (files @ [(table_name physical, raw)]) = Inr (p, ts, fs)"
    by (auto simp: res_simps)
  note s = read_table_sound [OF t]
  have "distinct (map at_address (tables @ [table_entry index physical raw]))"
    using Suc.prems(2) s(4) by (simp add: table_entry_def)
  from Suc.IH [OF rest this] obtain new where new: "length new = left"
    "ts = (tables @ [table_entry index physical raw]) @ table_entries (Suc index) new"
    "fs = (files @ [(table_name physical, raw)]) @ named_files new"
    "drop position' block = print_tables (Suc index) new @ drop p block"
    "\<forall>(a, raw)\<in>set new. table_valid a raw" "distinct (map at_address ts)"
    "left = 0 \<or> total_length new \<le> budget - int (length raw)" by blast
  then show ?case using s
    by (intro exI [of _ "(physical, raw) # new"]) auto
qed

subsection \<open>The whole capture\<close>

definition print_acpi :: "bool \<Rightarrow> nat \<Rightarrow> nat \<Rightarrow> nat \<Rightarrow> (int \<times> bytes) list \<Rightarrow> bytes" where
  "print_acpi dsdt kind address count new =
     ACPI_BEGIN @ ''root-kind='' @ decimal kind @ '' root-address='' @ decimal address @ '' tables='' @
     decimal count @ (if dsdt then '' dsdt=1'' else []) @ NL @ print_tables 0 new @ ACPI_END"

lemma acpi_header_sound:
  assumes "match_items (acpi_header_pattern dsdt) block = Some (gs, rest)" "py_ints gs = Inr [kind, address, count]"
  shows "block = (ACPI_BEGIN @ ''root-kind='' @ decimal (nat kind) @ '' root-address='' @ decimal (nat address) @
    '' tables='' @ decimal (nat count) @ (if dsdt then '' dsdt=1'' else []) @ NL) @ rest" "kind \<in> {1, 2}"
proof -
  from match_items_sound [OF assms(1)] obtain t where t: "block = t @ rest"
    "pmatch (acpi_header_pattern dsdt) t gs" by blast
  then have g: "groups_ok (acpi_header_pattern dsdt) gs" "t = render (acpi_header_pattern dsdt) gs"
    by (auto dest: pmatch_groups)
  from g(1) obtain k a c where gs: "gs = [k, a, c]" "k = ''1'' \<or> k = ''2''" "dec_text (Some 9) a" "dec_text (Some 9) c"
    by (auto simp: acpi_header_pattern_def elim!: groups_ok.elims)
  have val: "u = decimal (nat v)" if "dec_text (Some 9) u" "py_int u = Inr v" for u v
    using that py_int_dec_text [OF that(1)] decimal_of_text [of u] by (auto simp: dec_text_def)
  have k: "dec_text (Some 9) k" "k = ''1'' \<longrightarrow> dec_value k = 1" "k = ''2'' \<longrightarrow> dec_value k = 2"
    using gs(2) by (auto simp: dec_text_def is_digit_def dec_value_def digit_val_def)
  from assms(2) gs(1) have v: "py_int k = Inr kind" "py_int a = Inr address" "py_int c = Inr count"
    by (auto simp: res_simps)
  have "k = decimal (nat kind)" "a = decimal (nat address)" "c = decimal (nat count)"
    using val gs(3,4) k(1) v by blast+
  with t(1) g(2) gs(1) show "block = (ACPI_BEGIN @ ''root-kind='' @ decimal (nat kind) @ '' root-address='' @
      decimal (nat address) @ '' tables='' @ decimal (nat count) @ (if dsdt then '' dsdt=1'' else []) @ NL) @ rest"
    by (simp add: acpi_header_pattern_def)
  show "kind \<in> {1, 2}" using v(1) k gs(2) py_int_dec_text(1) [OF k(1)] by auto
qed

lemma suffix_drop: "s = h @ t \<Longrightarrow> t = drop (length s - length t) s"
  by simp

lemma extract_acpi_inv:
  assumes "extract_acpi data handoff dsdt = Inr (rest, Some rep, files)"
  obtains start gs tail count position ds where
    "bytes_find ACPI_BEGIN data = Some start"
    "match_items (acpi_header_pattern dsdt) (drop start data) = Some (gs, tail)"
    "py_ints gs = Inr [ar_kind rep, ar_address rep, count]" "1 \<le> count" "count \<le> 256"
    "selected_root handoff = Inr (ar_kind rep, ar_address rep)"
    "read_tables (drop start data) (nat count + 1 + (if dsdt then 1 else 0)) 0
       (length (drop start data) - length tail) (65536 - int (length handoff)) [] [] =
     Inr (position, ar_tables rep, files)"
    "startswith (drop position (drop start data)) ACPI_END"
    "check_root (ar_kind rep) (ar_address rep) (nat count) (ar_tables rep) files = Inr ()"
    "(if dsdt then bind (check_dsdt (nat count) (ar_tables rep) files) (Inr \<circ> Some) else Inr None) = Inr (ar_dsdt rep)"
    "rest = take start data @ drop (position + length ACPI_END) (drop start data)"
    "ar_handoff_sha256 rep = sha256_hex handoff"
proof (cases "bytes_find ACPI_BEGIN data")
  case None
  with assms show ?thesis by (simp add: extract_acpi_def res_simps)
next
  case (Some start)
  show ?thesis
  proof (cases "match_items (acpi_header_pattern dsdt) (drop start data)")
    case None
    with Some assms show ?thesis by (simp add: extract_acpi_def res_simps)
  next
    fix m assume "match_items (acpi_header_pattern dsdt) (drop start data) = Some m"
    then obtain gs tail where m: "match_items (acpi_header_pattern dsdt) (drop start data) = Some (gs, tail)"
      by (cases m) auto
    show ?thesis
      using assms unfolding extract_acpi_def Some option.case Let_def m prod.case
      by (elim res_elims) (rule that [OF Some m], auto simp: not_less)
  qed
qed

lemma extract_acpi_tables:
  assumes "extract_acpi data handoff dsdt = Inr (rest, Some rep, files)"
  obtains pre post count new where
    "data = pre @ print_acpi dsdt (nat (ar_kind rep)) (nat (ar_address rep)) count new @ post" "rest = pre @ post"
    "1 \<le> count" "count \<le> 256" "length new = count + 1 + (if dsdt then 1 else 0)"
    "ar_tables rep = table_entries 0 new" "files = named_files new"
    "\<forall>(a, raw)\<in>set new. table_valid a raw" "distinct (map fst new)"
    "total_length new \<le> 65536 - int (length handoff)"
    "selected_root handoff = Inr (ar_kind rep, ar_address rep)"
    "check_root (ar_kind rep) (ar_address rep) count (ar_tables rep) files = Inr ()"
    "(if dsdt then bind (check_dsdt count (ar_tables rep) files) (Inr \<circ> Some) else Inr None) = Inr (ar_dsdt rep)"
  using assms
proof (rule extract_acpi_inv)
  fix start gs tail count position
  let ?block = "drop start data"
  let ?head = "ACPI_BEGIN @ ''root-kind='' @ decimal (nat (ar_kind rep)) @ '' root-address='' @
    decimal (nat (ar_address rep)) @ '' tables='' @ decimal (nat count) @ (if dsdt then '' dsdt=1'' else []) @ NL"
  assume m: "match_items (acpi_header_pattern dsdt) ?block = Some (gs, tail)"
    "py_ints gs = Inr [ar_kind rep, ar_address rep, count]"
    and n: "1 \<le> count" "count \<le> 256" and root: "selected_root handoff = Inr (ar_kind rep, ar_address rep)"
    and r: "read_tables ?block (nat count + 1 + (if dsdt then 1 else 0)) 0 (length ?block - length tail)
       (65536 - int (length handoff)) [] [] = Inr (position, ar_tables rep, files)"
    and e: "startswith (drop position ?block) ACPI_END"
    and c: "check_root (ar_kind rep) (ar_address rep) (nat count) (ar_tables rep) files = Inr ()"
      "(if dsdt then bind (check_dsdt (nat count) (ar_tables rep) files) (Inr \<circ> Some) else Inr None) = Inr (ar_dsdt rep)"
    and rest: "rest = take start data @ drop (position + length ACPI_END) ?block"
  from acpi_header_sound(1) [OF m] have b: "?block = ?head @ tail" .
  then have tail: "tail = drop (length ?block - length tail) ?block"
    by (rule suffix_drop)
  from read_tables_sound [OF r] obtain new where new:
    "length new = nat count + 1 + (if dsdt then 1 else 0)" "ar_tables rep = table_entries 0 new"
    "files = named_files new" "drop (length ?block - length tail) ?block = print_tables 0 new @ drop position ?block"
    "\<forall>(a, raw)\<in>set new. table_valid a raw" "distinct (map at_address (ar_tables rep))"
    "total_length new \<le> 65536 - int (length handoff)" by fastforce
  from startswith_drop [OF e] have "drop position ?block = ACPI_END @ drop (position + length ACPI_END) ?block"
    by (metis drop_drop add.commute)
  with b tail new(4) have "?block = print_acpi dsdt (nat (ar_kind rep)) (nat (ar_address rep)) (nat count) new @
      drop (position + length ACPI_END) ?block"
    by (simp add: print_acpi_def)
  then have "data = take start data @ print_acpi dsdt (nat (ar_kind rep)) (nat (ar_address rep)) (nat count) new @
      drop (position + length ACPI_END) ?block" by (metis append_take_drop_id)
  then show thesis
    using that [of "take start data" "nat count" new] rest n new root c
    by (simp add: table_entries_addresses nat_le_iff)
qed

text \<open>
  C22 (roundtrip). What an accepted ACPI capture removes from the stream is exactly the canonical
  printing of the reported root and tables, and nothing else of the stream changes; every table lies
  in the first four gigabytes with a correct length field and checksum, no address is listed twice,
  and handoff and tables together fit the 65536-byte budget.
\<close>

theorem acpi_capture_exact:
  assumes "extract_acpi data handoff dsdt = Inr (rest, Some rep, files)"
  shows "\<exists>pre post count new.
    data = pre @ print_acpi dsdt (nat (ar_kind rep)) (nat (ar_address rep)) count new @ post \<and> rest = pre @ post \<and>
    ar_tables rep = table_entries 0 new \<and> files = named_files new \<and>
    (\<forall>(a, raw)\<in>set new. table_valid a raw) \<and> distinct (map fst new) \<and>
    int (length handoff) + total_length new \<le> 65536"
  using assms by (rule extract_acpi_tables) (intro exI conjI, assumption+, linarith)

text \<open>The root's list and the table after it, in a capture that was accepted.\<close>

lemma check_root_sound:
  assumes "check_root kind address count (table_entries 0 new) (named_files new) = Inr ()"
    "length new = count + 1 + k"
  obtains root children extra where "new = (address, root) # children @ extra" "length children = count" "length extra = k"
    "take 4 root = (if kind = 1 then ''RSDT'' else ''XSDT'')" "length root = 36 + count * (if kind = 1 then 4 else 8)"
    "root_entries (if kind = 1 then 4 else 8) root = map fst children"
    "file_of (named_files new) address = Inr root"
proof -
  obtain a raw more where new: "new = (a, raw) # more" using assms(2) by (cases new) auto
  have g: "py_get (map at_address (table_entries 0 new)) 0 = Inr a" "file_of (named_files new) a = Inr raw"
    by (simp_all add: new py_get_def table_entry_def file_of_def)
  moreover have "drop 1 (map at_address (table_entries 0 new)) = map fst more"
    using table_entries_addresses [of 0 new] by (simp add: new)
  ultimately have "a = address \<and> take 4 raw = (if kind = 1 then ''RSDT'' else ''XSDT'') \<and>
      length raw = 36 + count * (if kind = 1 then 4 else 8) \<and>
      map fst (take count more) = root_entries (if kind = 1 then 4 else 8) raw"
    using assms(1) unfolding check_root_def Let_def
    by (simp add: eval_simps res_simps new take_map)
  then show ?thesis
    using assms(2) new g(2) by (intro that [of raw "take count more" "drop count more"]) simp_all
qed

lemma check_dsdt_sound:
  assumes "check_dsdt count tables files = Inr (f, selected)"
  obtains fadt raw where "filter (\<lambda>t. at_signature t = tohex ''FACP'') (take count (drop 1 tables)) = [fadt]"
    "f = at_address fadt" "file_of files (at_address fadt) = Inr raw" "fadt_dsdt_address raw = Inr selected"
    "at_address (last tables) = selected" "at_signature (last tables) = tohex ''DSDT''"
    "\<forall>t\<in>set (butlast tables). \<not> overlaps (last tables) t"
proof -
  from assms obtain fadt where u: "filter (\<lambda>t. at_signature t = tohex ''FACP'') (take count (drop 1 tables)) = [fadt]"
    unfolding check_dsdt_def by (auto simp: res_simps split: list.splits)
  show ?thesis
    using assms that [OF u] unfolding check_dsdt_def u by (auto simp: res_simps list_ex_iff)
qed

text \<open>
  C23 (functional). The tables of an accepted capture are the root table that the firmware handoff
  selects, an RSDT or an XSDT, then exactly the entries of that root table, in its order and without
  omission, then, in a capture with the DSDT and only there, the DSDT; the root table holds
  that many entries and no more.
\<close>

theorem acpi_children_complete:
  assumes "extract_acpi data handoff dsdt = Inr (rest, Some rep, files)"
  shows "\<exists>root. let width = (if ar_kind rep = 1 then 4 else 8); children = root_entries width root in
    selected_root handoff = Inr (ar_kind rep, ar_address rep) \<and> file_of files (ar_address rep) = Inr root \<and>
    take 4 root = (if ar_kind rep = 1 then ''RSDT'' else ''XSDT'') \<and> length root = 36 + length children * width \<and>
    map at_address (ar_tables rep) =
      ar_address rep # children @ (case ar_dsdt rep of None \<Rightarrow> [] | Some (_, address) \<Rightarrow> [address]) \<and>
    (ar_dsdt rep \<noteq> None \<longleftrightarrow> dsdt)"
  using assms
proof (rule extract_acpi_tables)
  fix count new
  assume new: "length new = count + 1 + (if dsdt then 1 else 0)" "ar_tables rep = table_entries 0 new"
    "files = named_files new" and root: "selected_root handoff = Inr (ar_kind rep, ar_address rep)"
    and c: "check_root (ar_kind rep) (ar_address rep) count (ar_tables rep) files = Inr ()"
    and d: "(if dsdt then bind (check_dsdt count (ar_tables rep) files) (Inr \<circ> Some) else Inr None) = Inr (ar_dsdt rep)"
  from c have "check_root (ar_kind rep) (ar_address rep) count (table_entries 0 new) (named_files new) = Inr ()"
    by (simp add: new)
  from check_root_sound [OF this new(1)] obtain raw children extra where t: "new = (ar_address rep, raw) # children @ extra"
    "length children = count" "length extra = (if dsdt then 1 else 0)"
    "take 4 raw = (if ar_kind rep = 1 then ''RSDT'' else ''XSDT'')" "length raw = 36 + count * (if ar_kind rep = 1 then 4 else 8)"
    "root_entries (if ar_kind rep = 1 then 4 else 8) raw = map fst children"
    "file_of (named_files new) (ar_address rep) = Inr raw" .
  have addresses: "map at_address (ar_tables rep) = ar_address rep # map fst children @ map fst extra"
    unfolding new(2) table_entries_addresses by (simp add: t(1))
  have "map fst extra = (case ar_dsdt rep of None \<Rightarrow> [] | Some (_, address) \<Rightarrow> [address]) \<and> (ar_dsdt rep \<noteq> None \<longleftrightarrow> dsdt)"
  proof (cases dsdt)
    case True
    then obtain f selected where s: "ar_dsdt rep = Some (f, selected)" "check_dsdt count (ar_tables rep) files = Inr (f, selected)"
      using d by (cases "ar_dsdt rep") (auto simp: res_simps)
    from s(2) have "at_address (last (ar_tables rep)) = selected" by (rule check_dsdt_sound)
    moreover obtain x where "extra = [x]" using t(3) True by (cases extra) auto
    moreover have "ar_tables rep \<noteq> []" using addresses by auto
    ultimately show ?thesis using s(1) True addresses last_map [of "ar_tables rep" at_address] by simp
  qed (use t(3) d in simp)
  then show ?thesis using t root addresses by (intro exI [of _ raw]) (simp add: Let_def new(3))
qed

text \<open>
  C25 (safety). When the DSDT is requested, the capture is the root table, its children and one further
  table; exactly one of the children is a FADT, and the further table is a DSDT at the address that
  this FADT's bytes select, and overlaps none of the others.
\<close>

theorem acpi_dsdt_disjoint:
  assumes "extract_acpi data handoff True = Inr (rest, Some rep, files)"
  shows "\<exists>root children dsdt fadt raw. ar_tables rep = root # children @ [dsdt] \<and>
    filter (\<lambda>t. at_signature t = tohex ''FACP'') children = [fadt] \<and>
    file_of files (at_address fadt) = Inr raw \<and> fadt_dsdt_address raw = Inr (at_address dsdt) \<and>
    at_signature dsdt = tohex ''DSDT'' \<and> ar_dsdt rep = Some (at_address fadt, at_address dsdt) \<and>
    (\<forall>t\<in>set (root # children). \<not> overlaps dsdt t)"
  using assms
proof (rule extract_acpi_tables)
  fix count new
  assume new: "length new = count + 1 + (if True then 1 else 0)" "ar_tables rep = table_entries 0 new"
    and "(if True then bind (check_dsdt count (ar_tables rep) files) (Inr \<circ> Some) else Inr None) = Inr (ar_dsdt rep)"
  then obtain f selected where d: "ar_dsdt rep = Some (f, selected)"
    "check_dsdt count (ar_tables rep) files = Inr (f, selected)"
    by (cases "ar_dsdt rep") (auto simp: res_simps)
  have "length (ar_tables rep) = count + 2" using new by (simp add: table_entries_def)
  then obtain root more where "ar_tables rep = root # more" "length more = count + 1" by (cases "ar_tables rep") auto
  moreover from this(2) obtain children dsdt where "more = children @ [dsdt]" "length children = count"
    by (cases more rule: rev_cases) auto
  ultimately have t: "ar_tables rep = root # children @ [dsdt]" "length children = count" by simp_all
  from d(2) show ?thesis
  proof (rule check_dsdt_sound)
    fix fadt raw
    assume u: "filter (\<lambda>t. at_signature t = tohex ''FACP'') (take count (drop 1 (ar_tables rep))) = [fadt]"
      "f = at_address fadt" "file_of files (at_address fadt) = Inr raw" "fadt_dsdt_address raw = Inr selected"
      "at_address (last (ar_tables rep)) = selected" "at_signature (last (ar_tables rep)) = tohex ''DSDT''"
      "\<forall>t\<in>set (butlast (ar_tables rep)). \<not> overlaps (last (ar_tables rep)) t"
    have "take count (drop 1 (ar_tables rep)) = children" "last (ar_tables rep) = dsdt" "butlast (ar_tables rep) = root # children"
      using t(2) by (simp_all add: t(1) butlast_append)
    note parts = u [unfolded this]
    show ?thesis
      by (rule exI [of _ root], rule exI [of _ children], rule exI [of _ dsdt], rule exI [of _ fadt], rule exI [of _ raw])
        (use parts d(1) t(1) in simp)
  qed
qed

subsection \<open>Printed captures are accepted\<close>

text \<open>
  The other direction: the printed tables of a capture are read back, whatever follows them.
\<close>

lemma read_table_accepts:
  assumes valid: "table_valid physical raw" and budget: "int (length raw) \<le> budget" "budget \<le> 65536"
    and new: "physical \<notin> set addresses" and index: "index < 1000"
  shows "read_table (pre @ print_table index physical raw @ post) index (length pre) budget addresses =
    Inr (length pre + length (print_table index physical raw), physical, raw)"
proof -
  let ?ns = "[nat physical, length raw]"
  let ?hdr = "record_line (table_pattern index) ?ns" and ?body = "write_chunks ACPI_DATA 0 raw"
  let ?block = "pre @ print_table index physical raw @ post"
  have v: "0 < physical" "physical < 2 ^ 32" "36 \<le> length raw" "physical + int (length raw) \<le> 2 ^ 32"
    "u32 raw 4 = int (length raw)" "byte_sum raw mod 256 = 0" using valid by (auto simp: table_valid_def)
  have range: "in_range (table_pattern index) ?ns"
    using v budget by (simp add: table_pattern_def nat_less_iff)
  have block: "?block = pre @ ?hdr @ (?body @ post)" by (simp add: print_table_def)
  have "length (decimal index) \<le> Suc 2" using index by (intro decimal_length) simp
  then have "max_width (table_pattern index) \<le> 128" by (simp add: table_pattern_def)
  with length_record_line [OF range] have "length ?hdr \<le> 128" by simp
  then obtain r where w: "slice (length pre) (length pre + 128) ?block = ?hdr @ r"
    unfolding block by (blast dest: slice_prefix)
  have m: "match_items (table_pattern index) (?hdr @ r) = Some (map decimal ?ns, r)"
    unfolding record_line_def using range
    by (intro match_items_complete_rest pmatch_render groups_ok_decimal) (simp_all add: table_pattern_def is_digit_def)
  have p: "py_ints (map decimal ?ns) = Inr (map int ?ns)" using table_pattern_ok range by (rule py_ints_decimal)
  have "read_chunks ''missing or malformed ACPI chunk'' ACPI_DATA ((pre @ ?hdr) @ ?body @ post) (length raw)
      (length (pre @ ?hdr)) [] = Inr (length (pre @ ?hdr) + length ?body, raw)"
    using read_chunks_write [of ACPI_DATA "length raw" "[]" raw _ "pre @ ?hdr"] v budget
    by (simp add: ACPI_DATA_def)
  then have c: "read_chunks ''missing or malformed ACPI chunk'' ACPI_DATA ?block (length raw)
      (length pre + (length (?hdr @ r) - length r)) [] = Inr (length pre + length (print_table index physical raw), raw)"
    by (simp add: print_table_def add.assoc)
  show ?thesis
    unfolding read_table_def Let_def w m option.case prod.case p bind_eval
    using v budget new by (simp add: unpack_eval c [simplified] eval_simps)
qed

lemma read_tables_accepts:
  assumes "\<forall>(a, raw)\<in>set new. table_valid a raw" "total_length new \<le> budget" "budget \<le> 65536"
    and "distinct (map at_address tables @ map fst new)" "index + length new \<le> 1000"
  shows "read_tables (pre @ print_tables index new @ post) (length new) index (length pre) budget tables files =
    Inr (length pre + length (print_tables index new), tables @ table_entries index new, files @ named_files new)"
  using assms
proof (induction new arbitrary: index pre budget tables files)
  case Nil
  then show ?case by simp
next
  case (Cons x new)
  obtain a raw where x: "x = (a, raw)" by (cases x)
  have "0 \<le> total_length new" by (induction new) (auto simp: total_length_def)
  then have "read_table (pre @ print_table index a raw @ (print_tables (Suc index) new @ post)) index (length pre)
      budget (map at_address tables) = Inr (length pre + length (print_table index a raw), a, raw)"
    using Cons.prems by (intro read_table_accepts) (auto simp: x)
  moreover have "read_tables ((pre @ print_table index a raw) @ print_tables (Suc index) new @ post) (length new)
      (Suc index) (length (pre @ print_table index a raw)) (budget - int (length raw))
      (tables @ [table_entry index a raw]) (files @ [(table_name a, raw)]) =
    Inr (length (pre @ print_table index a raw) + length (print_tables (Suc index) new),
      (tables @ [table_entry index a raw]) @ table_entries (Suc index) new,
      (files @ [(table_name a, raw)]) @ named_files new)"
    using Cons.prems by (intro Cons.IH) (auto simp: x table_entry_def)
  ultimately show ?case by (simp add: x bind_eval add.assoc)
qed

lemma acpi_header_accepts:
  assumes "kind \<in> {1, 2}" "address < 2 ^ 32" "count \<le> 256"
  shows "match_items (acpi_header_pattern dsdt) (ACPI_BEGIN @ ''root-kind='' @ decimal kind @ '' root-address='' @
      decimal address @ '' tables='' @ decimal count @ (if dsdt then '' dsdt=1'' else []) @ NL @ rest) =
    Some ([decimal kind, decimal address, decimal count], rest)"
    "py_ints [decimal kind, decimal address, decimal count] = Inr [int kind, int address, int count]"
proof -
  have d: "dec_text (Some 9) (decimal address)" "dec_text (Some 9) (decimal count)"
    using assms by (simp_all add: dec_text_decimal)
  have k: "decimal kind = ''1'' \<or> decimal kind = ''2''" using assms(1) by (auto simp: decimal.simps digit_char_def)
  let ?gs = "[decimal kind, decimal address, decimal count]"
  have "pmatch (acpi_header_pattern dsdt) (render (acpi_header_pattern dsdt) ?gs) ?gs"
    using d k by (intro pmatch_render) (auto simp: acpi_header_pattern_def)
  then have "match_items (acpi_header_pattern dsdt) (render (acpi_header_pattern dsdt) ?gs @ rest) = Some (?gs, rest)"
    by (rule match_items_complete_rest) (simp_all add: acpi_header_pattern_def is_digit_def)
  then show "match_items (acpi_header_pattern dsdt) (ACPI_BEGIN @ ''root-kind='' @ decimal kind @ '' root-address='' @
      decimal address @ '' tables='' @ decimal count @ (if dsdt then '' dsdt=1'' else []) @ NL @ rest) = Some (?gs, rest)"
    by (simp add: acpi_header_pattern_def)
  have "length (decimal kind) \<le> 4300" "length (decimal address) \<le> 4300" "length (decimal count) \<le> 4300"
    using assms decimal_length [of kind 0] decimal_length [of address 9] decimal_length [of count 9] by auto
  then show "py_ints ?gs = Inr [int kind, int address, int count]" by (simp add: py_int_decimal bind_eval)
qed

lemma extract_acpi_accepts:
  assumes data: "data = pre @ print_acpi dsdt kind address count new @ post"
      "bytes_find ACPI_BEGIN data = Some (length pre)" "bytes_count ACPI_BEGIN data = 1"
    and head: "kind \<in> {1, 2}" "address < 2 ^ 32" "1 \<le> count" "count \<le> 256"
    and new: "length new = count + 1 + (if dsdt then 1 else 0)" "\<forall>(a, raw)\<in>set new. table_valid a raw"
      "distinct (map fst new)" "total_length new \<le> 65536 - int (length handoff)"
    and root: "selected_root handoff = Inr (int kind, int address)"
      "check_root (int kind) (int address) count (table_entries 0 new) (named_files new) = Inr ()"
    and ds: "(if dsdt then bind (check_dsdt count (table_entries 0 new) (named_files new)) (Inr \<circ> Some) else Inr None) = Inr found"
  shows "\<exists>rep. extract_acpi data handoff dsdt = Inr (pre @ post, Some rep, named_files new) \<and>
    ar_kind rep = int kind \<and> ar_address rep = int address \<and> ar_tables rep = table_entries 0 new \<and> ar_dsdt rep = found"
proof -
  define block where "block = drop (length pre) data"
  define h where "h = ACPI_BEGIN @ ''root-kind='' @ decimal kind @ '' root-address='' @ decimal address @ '' tables='' @
    decimal count @ (if dsdt then '' dsdt=1'' else []) @ NL"
  define tail where "tail = print_tables 0 new @ ACPI_END @ post"
  have b: "block = h @ tail" by (simp add: data(1) print_acpi_def tail_def h_def block_def)
  have m: "match_items (acpi_header_pattern dsdt) block = Some ([decimal kind, decimal address, decimal count], tail)"
    using acpi_header_accepts(1) [OF head(1,2,4), of dsdt tail] by (simp add: b h_def)
  note p = acpi_header_accepts(2) [OF head(1,2,4)]
  define n where "n = length h + length (print_tables 0 new)"
  define k where "k = count + 1 + (if dsdt then 1 else (0::nat))"
  have "read_tables (h @ print_tables 0 new @ (ACPI_END @ post)) (length new) 0 (length h)
      (65536 - int (length handoff)) [] [] =
    Inr (length h + length (print_tables 0 new), [] @ table_entries 0 new, [] @ named_files new)"
    using new head by (intro read_tables_accepts) auto
  then have r: "read_tables block k 0 (length block - length tail) (65536 - int (length handoff)) [] [] =
    Inr (n, table_entries 0 new, named_files new)"
    unfolding new(1) [folded k_def] by (simp add: b tail_def n_def)
  have e: "drop n block = ACPI_END @ post" by (simp add: b tail_def n_def)
  then have rest: "drop (n + length ACPI_END) block = post"
    by (metis append_eq_conv_conj drop_drop add.commute)
  have pre: "take (length pre) data = pre" by (simp add: data(1))
  show ?thesis
  proof (cases dsdt)
    case True
    then obtain d where d: "check_dsdt count (table_entries 0 new) (named_files new) = Inr d" "found = Some d"
      using ds by (auto simp: res_simps)
    show ?thesis
      unfolding extract_acpi_def data(2) option.case block_def [symmetric] Let_def m prod.case p bind_eval
        unpack_eval nat_int root k_def [symmetric] r rest pre e
      using head(3,4) data(3) True d by (simp add: eval_simps root)
  next
    case False
    show ?thesis
      unfolding extract_acpi_def data(2) option.case block_def [symmetric] Let_def m prod.case p bind_eval
        unpack_eval nat_int root k_def [symmetric] r rest pre e
      using head(3,4) data(3) False ds by (simp add: eval_simps root)
  qed
qed

text \<open>The file names of distinct addresses below 4 GiB are distinct, and so are the signatures in hexadecimal.\<close>

lemma tohex_inject [simp]: "tohex s = tohex t \<longleftrightarrow> s = t"
  by (metis fromhex_tohex)

lemma hex_digits_inject: "hex_digits k m = hex_digits k n \<Longrightarrow> m mod 16 ^ k = n mod 16 ^ k"
proof (induction k arbitrary: m n)
  case (Suc k)
  then have "hex_val (hex_char (m mod 16)) = hex_val (hex_char (n mod 16))" by simp
  then have "m mod 16 = n mod 16" by (simp add: hex_val_hex_char)
  moreover have "m div 16 mod 16 ^ k = n div 16 mod 16 ^ k" using Suc.prems by (intro Suc.IH) simp
  ultimately show ?case unfolding power_Suc mod_mult2_eq by (rule arg_cong2)
qed simp

lemma table_name_inject:
  assumes "table_name a = table_name b" "0 < a" "a < 2 ^ 32" "0 < b" "b < 2 ^ 32"
  shows "a = b"
proof -
  have "hex_digits 16 (nat a) = hex_digits 16 (nat b)"
    using assms(1) by (simp only: table_name_def append_same_eq)
  then have "nat a mod 16 ^ 16 = nat b mod 16 ^ 16" by (rule hex_digits_inject)
  moreover have "nat a < 16 ^ 16" "nat b < 16 ^ 16" using assms by (simp_all add: nat_less_iff)
  ultimately show ?thesis using assms by simp
qed

lemma file_of_named:
  assumes "(a, raw) \<in> set new" "\<forall>(a, raw)\<in>set new. table_valid a raw" "distinct (map fst new)"
  shows "file_of (named_files new) a = Inr raw"
proof -
  have range: "0 < fst x \<and> fst x < 2 ^ 32" if "x \<in> set new" for x
    using that assms(2) by (auto simp: table_valid_def)
  have "inj_on table_name (set (map fst new))"
    using range by (intro inj_onI table_name_inject) auto
  then have "distinct (map table_name (map fst new))" using assms(3) by (subst distinct_map) blast
  moreover have "map fst (named_files new) = map table_name (map fst new)"
    by (simp add: named_files_def comp_def case_prod_beta)
  moreover have "(table_name a, raw) \<in> set (named_files new)" using assms(1) by (force simp: named_files_def)
  ultimately have "map_of (named_files new) (table_name a) = Some raw" by (intro map_of_is_SomeI) metis
  then show ?thesis by (simp add: file_of_def)
qed

text \<open>A list of tables that a capture may hold: the root, the tables it lists, and the DSDT if it is asked for.\<close>

definition lists_children :: "nat \<Rightarrow> bytes \<Rightarrow> (int \<times> bytes) list \<Rightarrow> bool" where
  "lists_children kind root children \<longleftrightarrow>
     take 4 root = (if kind = 1 then ''RSDT'' else ''XSDT'') \<and>
     length root = 36 + length children * (if kind = 1 then 4 else 8) \<and>
     root_entries (if kind = 1 then 4 else 8) root = map fst children"

definition disjoint_tables :: "int \<times> bytes \<Rightarrow> int \<times> bytes \<Rightarrow> bool" where
  "disjoint_tables x y \<longleftrightarrow> fst x + int (length (snd x)) \<le> fst y \<or> fst y + int (length (snd y)) \<le> fst x"

definition selects_dsdt :: "(int \<times> bytes) list \<Rightarrow> int \<times> bytes \<Rightarrow> (int \<times> bytes) list \<Rightarrow> bool" where
  \<comment> \<open>the only FADT of the children selects the table, which is a DSDT apart from the listed tables\<close>
  "selects_dsdt children dsdt listed \<longleftrightarrow>
     (\<exists>fadt. filter (\<lambda>t. take 4 (snd t) = ''FACP'') children = [fadt] \<and> fadt_dsdt_address (snd fadt) = Inr (fst dsdt)) \<and>
     take 4 (snd dsdt) = ''DSDT'' \<and> (\<forall>t\<in>set listed. disjoint_tables dsdt t)"

lemma check_root_accepts:
  assumes "lists_children kind root children"
  shows "check_root (int kind) address (length children) (table_entries 0 ((address, root) # children @ extra))
    (named_files ((address, root) # children @ extra)) = Inr ()"
  using assms unfolding check_root_def Let_def table_entries_addresses
  by (simp add: lists_children_def py_get_def file_of_def eval_simps)

lemma table_entries_append: "table_entries i (xs @ ys) = table_entries i xs @ table_entries (i + length xs) ys"
  by (induction xs arbitrary: i) auto

lemma filter_entries:
  "filter (\<lambda>t. at_signature t = tohex ''FACP'') (table_entries i xs) = es \<Longrightarrow>
     map at_address es = map fst (filter (\<lambda>t. take 4 (snd t) = ''FACP'') xs)"
  by (induction xs arbitrary: i es) (auto simp: table_entry_def)

lemma table_entries_from:
  "t \<in> set (table_entries i xs) \<Longrightarrow> \<exists>x\<in>set xs. at_address t = fst x \<and> at_length t = int (length (snd x))"
proof (induction xs arbitrary: i)
  case (Cons x xs)
  then show ?case by (cases x) (auto simp: table_entry_def)
qed simp

lemma check_dsdt_accepts:
  assumes sel: "selects_dsdt children dsdt (root # children)"
    and valid: "\<forall>(a, raw)\<in>set (root # children @ [dsdt]). table_valid a raw" "distinct (map fst (root # children @ [dsdt]))"
  shows "\<exists>fadt. check_dsdt (length children) (table_entries 0 (root # children @ [dsdt])) (named_files (root # children @ [dsdt])) =
    Inr (fadt, fst dsdt)"
proof -
  let ?new = "root # children @ [dsdt]"
  from sel obtain f where f: "filter (\<lambda>t. take 4 (snd t) = ''FACP'') children = [f]"
    "fadt_dsdt_address (snd f) = Inr (fst dsdt)" by (auto simp: selects_dsdt_def)
  define entry where "entry = table_entry (Suc (length children)) (fst dsdt) (snd dsdt)"
  define first where "first = table_entry 0 (fst root) (snd root)"
  have entries: "table_entries 0 ?new = first # table_entries 1 children @ [entry]"
    by (cases root; cases dsdt) (simp add: entry_def first_def table_entries_append)
  have n: "length (table_entries 1 children) = length children" by (simp add: table_entries_def)
  obtain e where e: "filter (\<lambda>t. at_signature t = tohex ''FACP'') (table_entries 1 children) = [e]" "at_address e = fst f"
    using filter_entries [OF refl, of 1 children] unfolding f(1)
    by (cases "filter (\<lambda>t. at_signature t = tohex ''FACP'') (table_entries 1 children)") auto
  from f(1) have "f \<in> set (filter (\<lambda>t. take 4 (snd t) = ''FACP'') children)" by simp
  then have found: "file_of (named_files ?new) (fst f) = Inr (snd f)"
    using valid by (intro file_of_named) auto
  have signature: "at_address entry = fst dsdt" "at_signature entry = tohex ''DSDT''"
    using sel by (simp_all add: entry_def table_entry_def selects_dsdt_def)
  have "\<not> overlaps entry t" if "t \<in> set (first # table_entries 1 children)" for t
  proof -
    have "\<exists>x\<in>set (root # children). at_address t = fst x \<and> at_length t = int (length (snd x))"
    proof (cases "t = first")
      case True
      then show ?thesis by (simp add: first_def table_entry_def)
    next
      case False
      with that table_entries_from [of t 1 children] show ?thesis by (metis list.set_intros(2) set_ConsD)
    qed
    then obtain x where "x \<in> set (root # children)" "at_address t = fst x" "at_length t = int (length (snd x))" by blast
    with sel show ?thesis by (auto simp: selects_dsdt_def disjoint_tables_def overlaps_def entry_def table_entry_def)
  qed
  then have "\<not> list_ex (overlaps entry) (first # table_entries 1 children)" by (auto simp: list_ex_iff)
  moreover have "take (length children) (drop 1 (first # es @ [entry])) = es" "last (first # es @ [entry]) = entry"
    "butlast (first # es @ [entry]) = first # es" if "length es = length children" for es
    using that by (simp_all add: butlast_append)
  note parts = this [OF n]
  ultimately show ?thesis
    using e(2) found f(2) signature unfolding check_dsdt_def entries parts e(1) by (simp add: eval_simps)
qed

text \<open>
  C24 (roundtrip). The printed capture of a firmware is accepted and removed from the stream: a root table
  at the address that the handoff selects, which lists the addresses of the other tables in order and
  nothing else, and, when it is asked for, the DSDT that the only FADT among them selects, apart from
  all of them.  The tables have correct length fields and checksums and distinct addresses below 4 GiB,
  they and the handoff fit the budget, and the stream around the capture holds no second header line.
\<close>

theorem acpi_print_accepted:
  assumes "data = pre @ print_acpi dsdt kind address (length children) new @ post"
      "bytes_find ACPI_BEGIN data = Some (length pre)" "bytes_count ACPI_BEGIN data = 1"
    and "selected_root handoff = Inr (int kind, int address)" "kind \<in> {1, 2}" "address < 2 ^ 32"
      "1 \<le> length children" "length children \<le> 256"
    and "new = (int address, root) # children @ extra" "lists_children kind root children"
      "if dsdt then \<exists>t. extra = [t] \<and> selects_dsdt children t ((int address, root) # children) else extra = []"
    and "\<forall>(a, raw)\<in>set new. table_valid a raw" "distinct (map fst new)"
      "total_length new \<le> 65536 - int (length handoff)"
  shows "\<exists>rep. extract_acpi data handoff dsdt = Inr (pre @ post, Some rep, named_files new) \<and>
    ar_kind rep = int kind \<and> ar_address rep = int address \<and> ar_tables rep = table_entries 0 new \<and>
    map_option snd (ar_dsdt rep) = (if dsdt then Some (fst (last new)) else None)"
proof -
  have root: "check_root (int kind) (int address) (length children) (table_entries 0 new) (named_files new) = Inr ()"
    unfolding assms(9) using assms(10) by (rule check_root_accepts)
  have n: "length new = length children + 1 + (if dsdt then 1 else 0)" using assms(9,11) by (auto split: if_splits)
  obtain found where found: "(if dsdt then bind (check_dsdt (length children) (table_entries 0 new) (named_files new)) (Inr \<circ> Some)
      else Inr None) = Inr found" "map_option snd found = (if dsdt then Some (fst (last new)) else None)"
  proof (cases dsdt)
    case True
    with assms(11) obtain t where t: "extra = [t]" "selects_dsdt children t ((int address, root) # children)" by auto
    then obtain f where "check_dsdt (length children) (table_entries 0 new) (named_files new) = Inr (f, fst t)"
      using check_dsdt_accepts [OF t(2)] assms(12,13) unfolding assms(9) by auto
    with True t(1) show ?thesis by (intro that [of "Some (f, fst t)"]) (simp_all add: eval_simps assms(9))
  qed (use that in simp)
  from extract_acpi_accepts [OF assms(1-3,5-8) n assms(12-14,4) root found(1)] found(2) show ?thesis by metis
qed

end
