(* ===== verification/Reference_Firmware.thy ===== *)
theory Reference_Firmware
  imports Acpi
begin

text \<open>
  A small firmware: a handoff with one RSDP tag, an RSDT that lists one FADT, and the DSDT the FADT
  names.  Its printed capture, with and without the DSDT, is accepted; the ACPI properties are applied
  to it.
\<close>

definition bytes_of :: "nat list \<Rightarrow> bytes" where
  "bytes_of = map char_of"

definition firmware_handoff :: bytes where
  "firmware_handoff = bytes_of [48, 0, 0, 0, 0, 0, 0, 0, 14, 0, 0, 0, 28, 0, 0, 0] @ ''RSD PTR '' @
     bytes_of [209, 0, 0, 0, 0, 0, 0, 0, 0, 16, 0, 0, 0, 0, 0, 0, 0, 0, 0, 0, 8, 0, 0, 0]"

definition firmware_rsdt :: bytes where
  "firmware_rsdt = ''RSDT'' @ bytes_of ([40, 0, 0, 0, 0, 123] @ replicate 26 0 @ [0, 32, 0, 0])"

definition firmware_fadt :: bytes where
  "firmware_fadt = ''FACP'' @ bytes_of ([116, 0, 0, 0, 1, 65] @ replicate 30 0 @ [0, 48, 0, 0] @ replicate 72 0)"

definition firmware_dsdt :: bytes where
  "firmware_dsdt = ''DSDT'' @ bytes_of ([36, 0, 0, 0, 0, 173] @ replicate 26 0)"

definition firmware_tables :: "(int \<times> bytes) list" where
  "firmware_tables = [(0x1000, firmware_rsdt), (0x2000, firmware_fadt)]"

definition dsdt_tables :: "(int \<times> bytes) list" where
  "dsdt_tables = firmware_tables @ [(0x3000, firmware_dsdt)]"

definition firmware_capture :: "bool \<Rightarrow> bytes" where
  "firmware_capture dsdt = ''boot'' @ NL @
     print_acpi dsdt 1 0x1000 1 (if dsdt then dsdt_tables else firmware_tables) @ ''rest'' @ NL"

lemma firmware_root: "selected_root firmware_handoff = Inr (1, 0x1000)"
  by code_simp

lemma firmware_valid: "\<forall>(a, raw)\<in>set dsdt_tables. table_valid a raw"
  by code_simp

lemma firmware_lengths: "length firmware_rsdt = 40" "length firmware_fadt = 116" "length firmware_dsdt = 36"
  by (simp_all add: firmware_rsdt_def firmware_fadt_def firmware_dsdt_def bytes_of_def)

lemma replicate_step: "replicate (numeral k) x = x # replicate (pred_numeral k) x"
  by (simp add: numeral_eq_Suc)

lemma firmware_chunks:
  "write_chunks ACPI_DATA 0 firmware_rsdt = ACPI_DATA @ '' offset=0 hex=5253445428000000007b000000000000000000000000000000000000000000000000000000200000'' @ NL"
  "write_chunks ACPI_DATA 0 firmware_fadt = ACPI_DATA @ '' offset=0 hex=46414350740000000141000000000000000000000000000000000000000000000000000000000000003000000000000000000000000000000000000000000000'' @ NL @
     ACPI_DATA @ '' offset=64 hex=00000000000000000000000000000000000000000000000000000000000000000000000000000000000000000000000000000000'' @ NL"
  "write_chunks ACPI_DATA 0 firmware_dsdt = ACPI_DATA @ '' offset=0 hex=445344542400000000ad0000000000000000000000000000000000000000000000000000'' @ NL"
  by (simp_all add: firmware_rsdt_def firmware_fadt_def firmware_dsdt_def bytes_of_def replicate_step write_chunks_step chunk_line_def
      tohex_def byte_hex_def hex_char_def decimal.simps digit_char_def)

lemma firmware_text:
  "firmware_capture False = ''boot'' @ NL @ ACPI_BEGIN @ ''root-kind=1 root-address=4096 tables=1'' @ NL @
     ''LEANOS-LAB/1 ACPI-TABLE index=0 address=4096 length=40'' @ NL @ write_chunks ACPI_DATA 0 firmware_rsdt @
     ''LEANOS-LAB/1 ACPI-TABLE index=1 address=8192 length=116'' @ NL @ write_chunks ACPI_DATA 0 firmware_fadt @
     ACPI_END @ ''rest'' @ NL"
  "firmware_capture True = ''boot'' @ NL @ ACPI_BEGIN @ ''root-kind=1 root-address=4096 tables=1 dsdt=1'' @ NL @
     ''LEANOS-LAB/1 ACPI-TABLE index=0 address=4096 length=40'' @ NL @ write_chunks ACPI_DATA 0 firmware_rsdt @
     ''LEANOS-LAB/1 ACPI-TABLE index=1 address=8192 length=116'' @ NL @ write_chunks ACPI_DATA 0 firmware_fadt @
     ''LEANOS-LAB/1 ACPI-TABLE index=2 address=12288 length=36'' @ NL @ write_chunks ACPI_DATA 0 firmware_dsdt @
     ACPI_END @ ''rest'' @ NL"
  by (simp_all add: firmware_capture_def print_acpi_def firmware_tables_def dsdt_tables_def print_table_def
      record_line_def table_pattern_def firmware_lengths decimal.simps digit_char_def)

fun clear_of :: "bytes \<Rightarrow> bytes \<Rightarrow> bool" where
  "clear_of pat [] = True"
| "clear_of pat (c # cs) = (\<not> startswith (c # cs) pat \<and> \<not> startswith pat (c # cs) \<and> clear_of pat cs)"

lemma startswith_split: "startswith (a @ s) pat \<Longrightarrow> startswith a pat \<or> startswith pat a"
  by (auto simp: startswith_iff append_eq_append_conv2)

lemma bytes_count_clear: "clear_of pat a \<Longrightarrow> bytes_count pat (a @ s) = bytes_count pat s"
proof (induction a)
  case (Cons c a)
  then have "\<not> startswith (c # a @ s) pat" using startswith_split [of "c # a" s pat] by auto
  with Cons show ?case by (simp add: bytes_count.simps [of pat "c # a @ s"])
qed simp

lemma bytes_find_clear: "clear_of pat a \<Longrightarrow> bytes_find pat (a @ s) = map_option (\<lambda>i. length a + i) (bytes_find pat s)"
proof (induction a)
  case Nil
  then show ?case by (simp add: option.map_ident)
next
  case (Cons c a)
  then have "\<not> startswith (c # a @ s) pat" using startswith_split [of "c # a" s pat] by auto
  with Cons show ?case by (simp add: option.map_comp comp_def)
qed

lemma bytes_count_Nil: "bytes_count pat [] = 0"
  by (subst bytes_count.simps) simp

lemma bytes_found:
  assumes "pat \<noteq> []"
  shows "bytes_count pat (pat @ s) = Suc (bytes_count pat s)" "bytes_find pat (pat @ s) = Some 0"
proof -
  obtain c cs where p: "pat = c # cs" using assms by (cases pat) auto
  have "startswith (c # cs @ s) (c # cs)" using startswith_append [of "c # cs" s] by simp
  then show "bytes_count pat (pat @ s) = Suc (bytes_count pat s)" "bytes_find pat (pat @ s) = Some 0"
    unfolding p by (subst bytes_count.simps, simp)+ simp
qed

lemma bytes_once:
  assumes "data = a @ pat @ concat ps" "pat \<noteq> []" "clear_of pat a" "\<forall>p\<in>set ps. clear_of pat p"
  shows "bytes_find pat data = Some (length a)" "bytes_count pat data = 1"
proof -
  have "bytes_count pat (concat ps) = 0"
    using assms(4) by (induction ps) (auto simp: bytes_count_Nil bytes_count_clear)
  then show "bytes_find pat data = Some (length a)" "bytes_count pat data = 1"
    unfolding assms(1) by (simp_all only: bytes_count_clear [OF assms(3)] bytes_find_clear [OF assms(3)]
        bytes_found [OF assms(2)]) simp_all
qed

definition firmware_pieces :: "bool \<Rightarrow> bytes list" where
  "firmware_pieces dsdt =
     [(if dsdt then ''root-kind=1 root-address=4096 tables=1 dsdt=1'' else ''root-kind=1 root-address=4096 tables=1'') @ NL,
      ''LEANOS-LAB/1 ACPI-TABLE index=0 address=4096 length=40'' @ NL, write_chunks ACPI_DATA 0 firmware_rsdt,
      ''LEANOS-LAB/1 ACPI-TABLE index=1 address=8192 length=116'' @ NL, write_chunks ACPI_DATA 0 firmware_fadt] @
     (if dsdt then [''LEANOS-LAB/1 ACPI-TABLE index=2 address=12288 length=36'' @ NL, write_chunks ACPI_DATA 0 firmware_dsdt]
      else []) @ [ACPI_END @ ''rest'' @ NL]"

lemma firmware_clear: "\<forall>p\<in>set (firmware_pieces dsdt). clear_of ACPI_BEGIN p"
proof -
  have "clear_of ACPI_BEGIN (''root-kind=1 root-address=4096 tables=1 dsdt=1'' @ NL)" 
    "clear_of ACPI_BEGIN (''root-kind=1 root-address=4096 tables=1'' @ NL)" 
    "clear_of ACPI_BEGIN (''LEANOS-LAB/1 ACPI-TABLE index=0 address=4096 length=40'' @ NL)"
    "clear_of ACPI_BEGIN (''LEANOS-LAB/1 ACPI-TABLE index=1 address=8192 length=116'' @ NL)"
    "clear_of ACPI_BEGIN (''LEANOS-LAB/1 ACPI-TABLE index=2 address=12288 length=36'' @ NL)"
    "clear_of ACPI_BEGIN (ACPI_END @ ''rest'' @ NL)" by (simp_all add: ACPI_BEGIN_def ACPI_END_def)
  moreover have "clear_of ACPI_BEGIN (write_chunks ACPI_DATA 0 firmware_rsdt)"
    unfolding firmware_chunks by (simp add: ACPI_BEGIN_def ACPI_DATA_def)
  moreover have "clear_of ACPI_BEGIN (write_chunks ACPI_DATA 0 firmware_fadt)"
    unfolding firmware_chunks by (simp add: ACPI_BEGIN_def ACPI_DATA_def)
  moreover have "clear_of ACPI_BEGIN (write_chunks ACPI_DATA 0 firmware_dsdt)"
    unfolding firmware_chunks by (simp add: ACPI_BEGIN_def ACPI_DATA_def)
  ultimately show ?thesis by (simp only: firmware_pieces_def) auto
qed

lemma firmware_found:
  "bytes_find ACPI_BEGIN (firmware_capture dsdt) = Some 5" "bytes_count ACPI_BEGIN (firmware_capture dsdt) = 1"
proof -
  have t: "firmware_capture dsdt = (''boot'' @ NL) @ ACPI_BEGIN @ concat (firmware_pieces dsdt)"
    by (cases dsdt; simp only: firmware_text firmware_pieces_def append_assoc concat.simps concat_append append_Nil append_Nil2 if_True if_False simp_thms)
  have e: "ACPI_BEGIN \<noteq> []" "clear_of ACPI_BEGIN (''boot'' @ NL)" by (simp_all add: ACPI_BEGIN_def)
  show "bytes_find ACPI_BEGIN (firmware_capture dsdt) = Some 5" "bytes_count ACPI_BEGIN (firmware_capture dsdt) = 1"
    using bytes_once(1) [OF t e firmware_clear] bytes_once(2) [OF t e firmware_clear] by simp_all
qed

lemma hex_digits_numeral:
  "hex_digits (numeral k) n = hex_digits (pred_numeral k) (n div 16) @ [hex_char (n mod 16)]"
  unfolding numeral_eq_Suc [of k] by simp

lemma firmware_names:
  "table_name 4096 = ''0000000000001000.bin''" "table_name 8192 = ''0000000000002000.bin''"
  "table_name 12288 = ''0000000000003000.bin''"
  by (simp_all add: table_name_def hex_digits_numeral hex_char_def)

lemma firmware_files:
  "file_of (named_files dsdt_tables) 4096 = Inr firmware_rsdt" "file_of (named_files dsdt_tables) 8192 = Inr firmware_fadt"
  "file_of (named_files firmware_tables) 4096 = Inr firmware_rsdt"
  by (simp_all add: file_of_def dsdt_tables_def firmware_tables_def firmware_names)

lemma firmware_rsdt_root:
  "take 4 firmware_rsdt = ''RSDT''" "length firmware_rsdt = 40" "root_entries 4 firmware_rsdt = [0x2000]"
  by code_simp+

lemma firmware_check:
  "check_root 1 4096 1 (table_entries 0 firmware_tables) (named_files firmware_tables) = Inr ()"
  "check_root 1 4096 1 (table_entries 0 dsdt_tables) (named_files dsdt_tables) = Inr ()"
  unfolding check_root_def Let_def table_entries_addresses
  by (simp_all add: dsdt_tables_def firmware_tables_def py_get_def eval_simps file_of_def firmware_rsdt_root)

lemma firmware_fadt_dsdt: "fadt_dsdt_address firmware_fadt = Inr 12288"
  unfolding fadt_dsdt_address_def by code_simp

lemma firmware_signatures:
  "tohex (take 4 firmware_rsdt) = ''52534454''" "tohex (take 4 firmware_fadt) = tohex ''FACP''"
  "tohex (take 4 firmware_dsdt) = tohex ''DSDT''" "tohex ''FACP'' = ''46414350''" "tohex ''DSDT'' = ''44534454''"
  by code_simp+

lemma firmware_dsdt_check:
  "check_dsdt 1 (table_entries 0 dsdt_tables) (named_files dsdt_tables) = Inr (8192, 12288)"
  unfolding check_dsdt_def
  by (simp add: dsdt_tables_def firmware_tables_def table_entry_def firmware_signatures file_of_def firmware_names
      firmware_fadt_dsdt eval_simps overlaps_def firmware_lengths)

lemma firmware_budget:
  "total_length firmware_tables \<le> 65536 - int (length firmware_handoff)"
  "total_length dsdt_tables \<le> 65536 - int (length firmware_handoff)"
  by (simp_all add: dsdt_tables_def firmware_tables_def firmware_lengths firmware_handoff_def bytes_of_def)

lemma firmware_lists:
  "lists_children 1 firmware_rsdt [(0x2000, firmware_fadt)]"
  "selects_dsdt [(0x2000, firmware_fadt)] (0x3000, firmware_dsdt) [(0x1000, firmware_rsdt), (0x2000, firmware_fadt)]"
proof -
  have "take 4 firmware_fadt = ''FACP''" "take 4 firmware_dsdt = ''DSDT''" by code_simp+
  then show "lists_children 1 firmware_rsdt [(0x2000, firmware_fadt)]"
    "selects_dsdt [(0x2000, firmware_fadt)] (0x3000, firmware_dsdt) [(0x1000, firmware_rsdt), (0x2000, firmware_fadt)]"
    by (simp_all add: lists_children_def firmware_rsdt_root selects_dsdt_def firmware_fadt_dsdt disjoint_tables_def firmware_lengths)
qed

lemma firmware_accepted:
  "\<exists>rep. extract_acpi (firmware_capture False) firmware_handoff False =
     Inr (''boot'' @ NL @ ''rest'' @ NL, Some rep, named_files firmware_tables)"
  "\<exists>rep. extract_acpi (firmware_capture True) firmware_handoff True =
     Inr (''boot'' @ NL @ ''rest'' @ NL, Some rep, named_files dsdt_tables) \<and> ar_tables rep = table_entries 0 dsdt_tables"
proof -
  have f: "\<forall>(a, raw)\<in>set firmware_tables. table_valid a raw"
    using firmware_valid by (simp add: dsdt_tables_def)
  have d: "firmware_capture False = (''boot'' @ NL) @ print_acpi False 1 4096 1 firmware_tables @ ''rest'' @ NL"
    "firmware_capture True = (''boot'' @ NL) @ print_acpi True 1 4096 1 dsdt_tables @ ''rest'' @ NL"
    by (simp_all add: firmware_capture_def)
  have "\<exists>rep. extract_acpi (firmware_capture False) firmware_handoff False =
     Inr ((''boot'' @ NL) @ ''rest'' @ NL, Some rep, named_files firmware_tables) \<and>
    ar_kind rep = int 1 \<and> ar_address rep = int 4096 \<and> ar_tables rep = table_entries 0 firmware_tables \<and> ar_dsdt rep = None"
    using firmware_root firmware_check f firmware_budget
    by (intro extract_acpi_accepts [OF d(1)]) (simp_all add: firmware_found, simp_all add: firmware_tables_def)
  then show "\<exists>rep. extract_acpi (firmware_capture False) firmware_handoff False =
     Inr (''boot'' @ NL @ ''rest'' @ NL, Some rep, named_files firmware_tables)" by auto
  have "\<exists>rep. extract_acpi (firmware_capture True) firmware_handoff True =
     Inr ((''boot'' @ NL) @ ''rest'' @ NL, Some rep, named_files dsdt_tables) \<and>
    ar_kind rep = int 1 \<and> ar_address rep = int 4096 \<and> ar_tables rep = table_entries 0 dsdt_tables \<and>
    ar_dsdt rep = Some (8192, 12288)"
    using firmware_root firmware_check firmware_valid firmware_budget
    by (intro extract_acpi_accepts [OF d(2)])
      (simp_all add: firmware_found firmware_dsdt_check eval_simps del: One_nat_def, simp_all add: dsdt_tables_def firmware_tables_def)
  then show "\<exists>rep. extract_acpi (firmware_capture True) firmware_handoff True =
     Inr (''boot'' @ NL @ ''rest'' @ NL, Some rep, named_files dsdt_tables) \<and> ar_tables rep = table_entries 0 dsdt_tables" by auto
qed

theorem acpi_capture_exact_witness:
  "\<exists>rep pre post count new. extract_acpi (firmware_capture True) firmware_handoff True =
     Inr (pre @ post, Some rep, named_files new) \<and>
     firmware_capture True = pre @ print_acpi True (nat (ar_kind rep)) (nat (ar_address rep)) count new @ post \<and>
     ar_tables rep = table_entries 0 new \<and> (\<forall>(a, raw)\<in>set new. table_valid a raw) \<and> distinct (map fst new)"
proof -
  obtain rep where r: "extract_acpi (firmware_capture True) firmware_handoff True =
     Inr (''boot'' @ NL @ ''rest'' @ NL, Some rep, named_files dsdt_tables)" using firmware_accepted(2) by blast
  from r acpi_capture_exact [OF r] show ?thesis by metis
qed

theorem acpi_children_complete_witness:
  "\<exists>rep root. extract_acpi (firmware_capture True) firmware_handoff True =
     Inr (''boot'' @ NL @ ''rest'' @ NL, Some rep, named_files dsdt_tables) \<and>
     file_of (named_files dsdt_tables) (ar_address rep) = Inr root \<and>
     map at_address (ar_tables rep) = ar_address rep # root_entries (if ar_kind rep = 1 then 4 else 8) root @
       (case ar_dsdt rep of None \<Rightarrow> [] | Some (_, address) \<Rightarrow> [address]) \<and> ar_dsdt rep \<noteq> None"
proof -
  obtain rep where r: "extract_acpi (firmware_capture True) firmware_handoff True =
     Inr (''boot'' @ NL @ ''rest'' @ NL, Some rep, named_files dsdt_tables)" using firmware_accepted(2) by blast
  from acpi_children_complete [OF r] obtain root where "file_of (named_files dsdt_tables) (ar_address rep) = Inr root"
    "map at_address (ar_tables rep) = ar_address rep # root_entries (if ar_kind rep = 1 then 4 else 8) root @
      (case ar_dsdt rep of None \<Rightarrow> [] | Some (_, address) \<Rightarrow> [address])" "ar_dsdt rep \<noteq> None"
    unfolding Let_def by auto
  with r show ?thesis by (intro exI conjI)
qed

theorem acpi_dsdt_disjoint_witness:
  "\<exists>rep root children dsdt fadt. extract_acpi (firmware_capture True) firmware_handoff True =
     Inr (''boot'' @ NL @ ''rest'' @ NL, Some rep, named_files dsdt_tables) \<and>
     ar_tables rep = root # children @ [dsdt] \<and> filter (\<lambda>t. at_signature t = tohex ''FACP'') children = [fadt] \<and>
     at_signature dsdt = tohex ''DSDT'' \<and> ar_dsdt rep = Some (at_address fadt, at_address dsdt) \<and>
     (\<forall>t\<in>set (root # children). \<not> overlaps dsdt t)"
proof -
  obtain rep where r: "extract_acpi (firmware_capture True) firmware_handoff True =
     Inr (''boot'' @ NL @ ''rest'' @ NL, Some rep, named_files dsdt_tables)" using firmware_accepted(2) by blast
  from r acpi_dsdt_disjoint [OF r] show ?thesis by metis
qed

theorem acpi_print_accepted_witness:
  "\<exists>rep. extract_acpi (firmware_capture True) firmware_handoff True =
     Inr ((''boot'' @ NL) @ ''rest'' @ NL, Some rep, named_files dsdt_tables) \<and> ar_address rep = 4096 \<and>
     map_option snd (ar_dsdt rep) = Some 0x3000"
proof -
  have d: "firmware_capture True = (''boot'' @ NL) @ print_acpi True 1 4096 (length [(0x2000 :: int, firmware_fadt)]) dsdt_tables @ ''rest'' @ NL"
    by (simp add: firmware_capture_def)
  have "\<exists>rep. extract_acpi (firmware_capture True) firmware_handoff True =
     Inr ((''boot'' @ NL) @ ''rest'' @ NL, Some rep, named_files dsdt_tables) \<and>
    ar_kind rep = int 1 \<and> ar_address rep = int 4096 \<and> ar_tables rep = table_entries 0 dsdt_tables \<and>
    map_option snd (ar_dsdt rep) = (if True then Some (fst (last dsdt_tables)) else None)"
  proof (rule acpi_print_accepted [OF d])
    show "dsdt_tables = (int 4096, firmware_rsdt) # [(0x2000, firmware_fadt)] @ [(0x3000, firmware_dsdt)]"
      by (simp add: dsdt_tables_def firmware_tables_def)
    show "distinct (map fst dsdt_tables)" by (simp add: dsdt_tables_def firmware_tables_def)
  qed (use firmware_lists firmware_root firmware_valid firmware_budget in \<open>simp_all add: firmware_found\<close>)
  then show ?thesis by (auto simp: dsdt_tables_def)
qed

end
