(* ===== verification/Decoder.thy ===== *)
theory Decoder
  imports Records
begin

text \<open>
  The common skeleton of the capture decoders \<^verbatim>\<open>scripts/check-qotom-*-capture.py\<close>.  Every
  decoder exports \<^verbatim>\<open>extract(raw, protocol)\<close>: it checks the bounds of the capture, finds the
  lines of its own record, runs the decoder of the preceding stage on the capture without
  them (the projection), and validates the records against the terminal line and against what
  the preceding stage reported.  \<open>run_decoder\<close> is that function; a \<open>decoder\<close> holds what
  the individual files fill in.  The locale \<open>capture_stage\<close> states what a stage promises to
  the stage that calls it.
\<close>

text \<open>
  The generated protocol identities (\<^verbatim>\<open>build/boot/serial-protocol.tsv\<close>).  The decoders read
  the entries of the dict that \<^verbatim>\<open>load_protocol\<close> returns, which always holds all fourteen keys.
\<close>

record protocol =
  pr_boot :: bytes
  pr_cpu :: bytes
  pr_control :: bytes
  pr_pci_scan :: bytes
  pr_pci_header :: bytes
  pr_final :: bytes
  pr_port_control :: bytes
  pr_entry_manifest :: bytes
  pr_copy :: bytes
  pr_paging :: bytes
  pr_capreuse :: bytes
  pr_ipc :: bytes
  pr_ipc_final :: bytes
  pr_user_fault :: bytes

definition final_line :: "protocol \<Rightarrow> bytes \<Rightarrow> bytes" where
  \<comment> \<open>\<^verbatim>\<open>protocol['FINAL'].encode() + b' status=FAIL reason=...\n'\<close>\<close>
  "final_line P reason = pr_final P @ '' status=FAIL reason='' @ reason @ NL"

abbreviation PENDING :: bytes where "PENDING \<equiv> ''qotom-platform-pending''"

definition pending_line :: "protocol \<Rightarrow> bytes" where
  "pending_line P = final_line P PENDING"

definition MAX_LAB_CAPTURE :: nat where
  "MAX_LAB_CAPTURE = 131072"

text \<open>The entries every report has.  \<open>rep_claims\<close> are the boolean entries that are constant.\<close>

record observation =
  rep_schema :: string
  rep_reason :: bytes
  rep_claims :: "(string \<times> bool) list"

record status_report = observation +
  rep_status :: int

abbreviation reason_if :: "bool \<Rightarrow> bytes \<Rightarrow> bytes" where
  "reason_if failed reason \<equiv> (if failed then reason else PENDING)"

definition terminal :: "protocol \<Rightarrow> bytes \<Rightarrow> bool \<Rightarrow> bytes list \<Rightarrow> bool" where
  \<comment> \<open>\<^verbatim>\<open>lines[-1] == (failure if failed else pending)\<close>\<close>
  "terminal P reason failed lines \<longleftrightarrow> last lines = final_line P (reason_if failed reason)"

subsection \<open>PCI header records\<close>

definition header_prefix :: "protocol \<Rightarrow> nat \<Rightarrow> bytes" where
  "header_prefix P index =
     pr_pci_header P @ '' codec=1 index='' @ decimal index @ '' width=19 words=''"

definition header_lines :: "protocol \<Rightarrow> nat \<Rightarrow> bytes list \<Rightarrow> bytes list" where
  "header_lines P index lines = filter (\<lambda>line. startswith line (header_prefix P index)) lines"

definition header_words :: "protocol \<Rightarrow> nat \<Rightarrow> bytes \<Rightarrow> int list res" where
  "header_words P index line =
     py_ints (split_on CHR '','' (strip (drop (length (header_prefix P index)) line)))"

definition header_command :: "protocol \<Rightarrow> nat \<Rightarrow> bytes \<Rightarrow> int res" where
  \<comment> \<open>\<^verbatim>\<open>int(headers[0][len(prefix):].split(b',')[4])\<close>\<close>
  "header_command P index line =
     bind (py_get (split_on CHR '','' (drop (length (header_prefix P index)) line)) 4) py_int"

subsection \<open>Decoders\<close>

record ('p, 's, 'r) decoder =
  d_bounds :: string
  d_prefix :: bytes
  d_absent :: "protocol \<Rightarrow> bytes list \<Rightarrow> 'p option \<Rightarrow> unit res"
    \<comment> \<open>the check when the capture has no record of this stage\<close>
  d_placed :: "nat \<Rightarrow> nat list \<Rightarrow> bool"
    \<comment> \<open>the records' positions, for the number of lines\<close>
  d_order :: string
  d_scan :: "bytes list \<Rightarrow> nat list \<Rightarrow> 's res"
    \<comment> \<open>what is decoded before the preceding stage runs\<close>
  d_prev :: "bytes \<Rightarrow> protocol \<Rightarrow> (bytes \<times> 'p option) res"
  d_ready :: "'p \<Rightarrow> bool"
  d_without :: string
  d_judge :: "protocol \<Rightarrow> bytes list \<Rightarrow> nat list \<Rightarrow> 's \<Rightarrow> bytes \<Rightarrow> bytes \<Rightarrow> 'p \<Rightarrow> 'r res"
    \<comment> \<open>the rest of the function: lines, positions, scan, projection, projection of the
      preceding stage and its report\<close>

definition run_decoder :: "('p, 's, 'r) decoder \<Rightarrow> bytes \<Rightarrow> protocol \<Rightarrow> (bytes \<times> 'r option) res" where
  "run_decoder d raw P =
     raise_if (MAX_LAB_CAPTURE < length raw \<or> \<not> endswith raw NL) (d_bounds d)
     (let lines = splitlines raw;
          indices = indices_where (\<lambda>line. startswith line (d_prefix d)) lines in
      if indices = [] then
        bind (d_prev d raw P) (\<lambda>(_, previous).
        bind (d_absent d P lines previous) (\<lambda>_. Inr (raw, None)))
      else
        raise_if (\<not> d_placed d (length lines) indices) (d_order d)
        (bind (d_scan d lines indices) (\<lambda>s.
         let projection = concat (take (hd indices) lines) @ pending_line P in
         bind (d_prev d projection P) (\<lambda>(prior, previous).
         bind (some_or (d_without d) previous) (\<lambda>p.
         raise_if (\<not> d_ready d p) (d_without d)
         (bind (d_judge d P lines indices s projection prior p) (\<lambda>r.
         Inr (projection, Some r))))))))"

text \<open>The variants of the components.\<close>

definition no_scan :: "bytes list \<Rightarrow> nat list \<Rightarrow> unit res" where
  "no_scan lines indices = Inr ()"

definition one_before_last :: "nat \<Rightarrow> nat list \<Rightarrow> bool" where
  \<comment> \<open>\<^verbatim>\<open>indices == [len(lines)-2]\<close>\<close>
  "one_before_last n indices \<longleftrightarrow> (case indices of [i] \<Rightarrow> i + 2 = n | _ \<Rightarrow> False)"

definition run_before_last :: "nat \<Rightarrow> nat \<Rightarrow> nat list \<Rightarrow> bool" where
  \<comment> \<open>at most \<open>most\<close> records, \<^verbatim>\<open>indices == list(range(len(lines)-len(indices)-1, len(lines)-1))\<close>\<close>
  "run_before_last most n indices \<longleftrightarrow> length indices \<le> most \<and>
     indices = [n - length indices - 1..<n - 1]"

definition single :: "nat \<Rightarrow> nat list \<Rightarrow> bool" where
  "single n indices \<longleftrightarrow> length indices = 1"

definition anywhere :: "nat \<Rightarrow> nat list \<Rightarrow> bool" where
  "anywhere n indices \<longleftrightarrow> True"

definition missing_if ::
  "('p \<Rightarrow> bool) \<Rightarrow> bytes \<Rightarrow> string \<Rightarrow> protocol \<Rightarrow> bytes list \<Rightarrow> 'p option \<Rightarrow> unit res" where
  \<comment> \<open>\<^verbatim>\<open>if (previous is not None and complete(previous)) or lines[-1] == failure: raise\<close>\<close>
  "missing_if complete reason msg P lines previous =
     raise_if ((case previous of None \<Rightarrow> False | Some p \<Rightarrow> complete p) \<or>
       last lines = final_line P reason) msg (Inr ())"

definition status_zero :: "'a status_report_scheme \<Rightarrow> bool" where
  "status_zero r \<longleftrightarrow> rep_status r = 0"

definition reason_pending :: "'a observation_scheme \<Rightarrow> bool" where
  "reason_pending r \<longleftrightarrow> rep_reason r = PENDING"

subsection \<open>What a stage promises\<close>

lemma final_line_inject [simp]: "final_line P a = final_line P b \<longleftrightarrow> a = b"
  by (simp add: final_line_def)

text \<open>A capture cut before some record and closed with the pending terminal line.\<close>

definition truncation :: "protocol \<Rightarrow> bytes \<Rightarrow> bytes \<Rightarrow> bool" where
  "truncation P raw c \<longleftrightarrow> (\<exists>kept rest. raw = kept @ rest \<and> c = kept @ pending_line P)"

text \<open>A decoder accepts some truncation of the capture with a report that satisfies \<open>good\<close>.\<close>

definition reached ::
  "(bytes \<Rightarrow> protocol \<Rightarrow> (bytes \<times> 'r option) res) \<Rightarrow> ('r \<Rightarrow> bool) \<Rightarrow> protocol \<Rightarrow> bytes \<Rightarrow> bool" where
  "reached decode good P raw \<longleftrightarrow>
     (\<exists>c proj r. truncation P raw c \<and> decode c P = Inr (proj, Some r) \<and> good r)"

lemma reached_mono:
  assumes "reached decode good P raw"
    and "\<And>c proj r. decode c P = Inr (proj, Some r) \<Longrightarrow> good r \<Longrightarrow> good' r"
  shows "reached decode good' P raw"
  using assms unfolding reached_def by blast

text \<open>
  \<open>capture_source\<close> is the contract of any decoder: \<open>own\<close> recognises its records,
  \<open>ok\<close> its successful reports and \<open>reason\<close> is the terminal reason of its failures.
  \<open>capture_stage\<close> adds the stage below it.
\<close>

locale capture_source =
  fixes decode :: "bytes \<Rightarrow> protocol \<Rightarrow> (bytes \<times> 'r observation_scheme option) res"
    and own :: "bytes \<Rightarrow> bool"
    and ok :: "'r observation_scheme \<Rightarrow> bool"
    and reason :: bytes
  assumes bounded: "decode raw P = Inr x \<Longrightarrow> length raw \<le> MAX_LAB_CAPTURE \<and> endswith raw NL"
    and absent: "decode raw P = Inr (proj, None) \<Longrightarrow>
      proj = raw \<and> (\<forall>l\<in>set (splitlines raw). \<not> own l)"
    and present: "decode raw P = Inr (proj, Some r) \<Longrightarrow>
      \<exists>k. Suc k < length (splitlines raw) \<and> own (splitlines raw ! k) \<and>
        (\<forall>j<k. \<not> own (splitlines raw ! j)) \<and>
        proj = concat (take k (splitlines raw)) @ pending_line P"
    and closing: "decode raw P = Inr (proj, Some r) \<Longrightarrow>
      last (splitlines raw) = final_line P (rep_reason r) \<and>
      rep_reason r = (if ok r then PENDING else reason)"
    and own_reason: "reason \<noteq> PENDING"
begin

lemma ok_iff_reason: "decode raw P = Inr (proj, Some r) \<Longrightarrow> ok r \<longleftrightarrow> rep_reason r = PENDING"
  using closing own_reason by simp

lemma ok_iff_terminal:
  "decode raw P = Inr (proj, Some r) \<Longrightarrow> ok r \<longleftrightarrow> last (splitlines raw) = pending_line P"
  using closing [of raw P proj r] own_reason by (cases "ok r") (simp_all add: pending_line_def)

lemma kept:
  assumes "decode raw P = Inr (proj, Some r)"
  obtains kept line after where "raw = kept @ line @ after @ final_line P (rep_reason r)"
    "proj = kept @ pending_line P" "own line" "line \<in> set (splitlines raw)"
proof -
  let ?ls = "splitlines raw"
  from present [OF assms] obtain k where k: "Suc k < length ?ls" "own (?ls ! k)"
    "proj = concat (take k ?ls) @ pending_line P" by blast
  have fin: "last ?ls = final_line P (rep_reason r)" using closing [OF assms] by blast
  have "?ls = take k ?ls @ ?ls ! k # drop (Suc k) ?ls"
    using k(1) by (intro id_take_nth_drop) simp
  also have "drop (Suc k) ?ls = butlast (drop (Suc k) ?ls) @ [last ?ls]"
    using k(1) append_butlast_last_id [of "drop (Suc k) ?ls"] by (simp add: last_drop)
  finally have "concat ?ls = concat (take k ?ls @ ?ls ! k # butlast (drop (Suc k) ?ls) @ [last ?ls])"
    by (rule arg_cong)
  then have "raw = concat (take k ?ls) @ ?ls ! k @ concat (butlast (drop (Suc k) ?ls)) @ last ?ls"
    by simp
  moreover have "?ls ! k \<in> set ?ls" using k(1) by simp
  ultimately show ?thesis using that k fin by metis
qed

lemma truncates: "decode raw P = Inr (proj, Some r) \<Longrightarrow> truncation P raw proj"
  unfolding truncation_def by (elim kept) blast

lemma truncates_further:
  assumes "truncation P raw c" "decode c P = Inr (proj, Some r)" "ok r"
  shows "truncation P raw proj"
proof -
  from assms(1) obtain k rest where k: "raw = k @ rest" "c = k @ pending_line P"
    by (auto simp: truncation_def)
  obtain k' line after where k': "c = k' @ line @ after @ final_line P (rep_reason r)"
    "proj = k' @ pending_line P" by (rule kept [OF assms(2)])
  have "final_line P (rep_reason r) = pending_line P"
    using ok_iff_reason [OF assms(2)] assms(3) by (simp add: pending_line_def)
  with k k' have "k = k' @ line @ after" by simp
  with k k' show ?thesis by (auto simp: truncation_def)
qed

lemma decode_cases:
  assumes "decode raw P = Inr x"
  obtains (passed) "x = (raw, None)" | (decoded) proj r where "x = (proj, Some r)"
proof (cases x)
  case (Pair proj rr)
  with assms that absent [of raw P proj] show ?thesis by (cases rr) auto
qed

end

locale capture_stage = capture_source +
  fixes prev :: "bytes \<Rightarrow> protocol \<Rightarrow> (bytes \<times> 'p option) res"
    and ready :: "'p \<Rightarrow> bool"
  assumes skipped: "decode raw P = Inr (proj, None) \<Longrightarrow> \<exists>x. prev raw P = Inr x"
    and previous: "decode raw P = Inr (proj, Some r) \<Longrightarrow>
      \<exists>prior p. prev proj P = Inr (prior, Some p) \<and> ready p"
begin

lemma descend:
  assumes "truncation P raw c" "decode c P = Inr (proj, Some r)" "ok r"
  obtains prior p where "prev proj P = Inr (prior, Some p)" "ready p" "truncation P raw proj"
  using previous [OF assms(2)] truncates_further [OF assms] by blast

lemma reach: "reached decode ok P raw \<Longrightarrow> reached prev ready P raw"
  unfolding reached_def by (elim exE conjE, rule descend) blast+

lemma prev_total: "decode raw P = Inr (proj, rr) \<Longrightarrow> \<exists>x. prev proj P = Inr x"
  using absent skipped previous by (cases rr) fastforce+

end

lemma indices_where_first:
  assumes "indices_where p xs \<noteq> []"
  shows "\<exists>k<length xs. k = hd (indices_where p xs) \<and> p (xs ! k) \<and> (\<forall>j<k. \<not> p (xs ! j))"
  using indices_where_hd [OF assms] by blast

lemma run_decoder_SomeE:
  assumes "run_decoder d raw P = Inr (proj, Some r)"
  obtains s prior p indices where "indices = indices_where (\<lambda>l. startswith l (d_prefix d)) (splitlines raw)"
    "indices \<noteq> []" "d_placed d (length (splitlines raw)) indices"
    "length raw \<le> MAX_LAB_CAPTURE" "endswith raw NL"
    "d_scan d (splitlines raw) indices = Inr s"
    "proj = concat (take (hd indices) (splitlines raw)) @ pending_line P"
    "d_prev d proj P = Inr (prior, Some p)" "d_ready d p"
    "d_judge d P (splitlines raw) indices s proj prior p = Inr r"
  using assms unfolding run_decoder_def Let_def
  by (auto simp: res_simps split: if_splits prod.splits)

lemma run_decoder_NoneE:
  assumes "run_decoder d raw P = Inr (proj, None)"
  obtains prior previous where "proj = raw" "\<forall>l\<in>set (splitlines raw). \<not> startswith l (d_prefix d)"
    "length raw \<le> MAX_LAB_CAPTURE" "endswith raw NL"
    "d_prev d raw P = Inr (prior, previous)" "d_absent d P (splitlines raw) previous = Inr ()"
  using assms unfolding run_decoder_def Let_def
  by (auto simp: res_simps indices_where_empty split: if_splits prod.splits)

text \<open>Positions before the last line.\<close>

definition inside :: "nat \<Rightarrow> nat list \<Rightarrow> bool" where
  "inside n indices \<longleftrightarrow> (indices \<noteq> [] \<longrightarrow> Suc (hd indices) < n)"

lemma one_before_last_inside: "one_before_last n indices \<Longrightarrow> inside n indices"
  by (auto simp: one_before_last_def inside_def split: list.splits)

lemma run_before_last_inside: "run_before_last m n indices \<Longrightarrow> inside n indices"
  unfolding run_before_last_def inside_def
proof
  assume r: "length indices \<le> m \<and> indices = [n - length indices - 1..<n - 1]" and "indices \<noteq> []"
  from r have i: "indices = [n - length indices - 1..<n - 1]" by blast
  with \<open>indices \<noteq> []\<close> have "n - length indices - 1 < n - 1" by (metis upt_eq_Nil_conv not_le_imp_less)
  with i have "hd indices = n - length indices - 1" by (metis hd_upt)
  with \<open>n - length indices - 1 < n - 1\<close> show "Suc (hd indices) < n" by linarith
qed

lemma run_decoder_stage:
  assumes judge: "\<And>P lines indices s proj prior p r.
      d_judge d P lines indices s proj prior p = Inr r \<Longrightarrow> d_prev d proj P = Inr (prior, Some p) \<Longrightarrow>
      d_ready d p \<Longrightarrow> d_placed d (length lines) indices \<Longrightarrow> indices \<noteq> [] \<Longrightarrow>
      inside (length lines) indices \<and> last lines = final_line P (rep_reason r) \<and> rep_reason r = (if ok r then PENDING else reason)"
    and "reason \<noteq> PENDING"
  shows "capture_stage (run_decoder d) (\<lambda>l. startswith l (d_prefix d)) ok reason (d_prev d) (d_ready d)"
proof
  fix raw P x assume "run_decoder d raw P = Inr x"
  then show "length raw \<le> MAX_LAB_CAPTURE \<and> endswith raw NL"
    by (simp add: run_decoder_def res_simps)
next
  fix raw P proj assume "run_decoder d raw P = Inr (proj, None)"
  then show "proj = raw \<and> (\<forall>l\<in>set (splitlines raw). \<not> startswith l (d_prefix d))"
    and "\<exists>x. d_prev d raw P = Inr x"
    by (auto elim: run_decoder_NoneE)
next
  fix raw P proj r assume run: "run_decoder d raw P = Inr (proj, Some r)"
  then obtain indices where
    idx: "indices = indices_where (\<lambda>l. startswith l (d_prefix d)) (splitlines raw)" "indices \<noteq> []"
    and proj: "proj = concat (take (hd indices) (splitlines raw)) @ pending_line P"
    and j: "inside (length (splitlines raw)) indices \<and> last (splitlines raw) = final_line P (rep_reason r) \<and>
      rep_reason r = (if ok r then PENDING else reason)"
  proof (rule run_decoder_SomeE)
    fix s prior p indices
    assume a: "indices = indices_where (\<lambda>l. startswith l (d_prefix d)) (splitlines raw)" "indices \<noteq> []"
      "d_placed d (length (splitlines raw)) indices"
      "proj = concat (take (hd indices) (splitlines raw)) @ pending_line P"
      "d_prev d proj P = Inr (prior, Some p)" "d_ready d p"
      "d_judge d P (splitlines raw) indices s proj prior p = Inr r"
    show thesis by (rule that [OF a(1,2,4) judge [OF a(7,5,6,3,2)]])
  qed
  let ?k = "hd indices"
  have "startswith (splitlines raw ! ?k) (d_prefix d)" "\<forall>j<?k. \<not> startswith (splitlines raw ! j) (d_prefix d)"
    using indices_where_first [OF idx(2) [unfolded idx(1)]] idx(1) by blast+
  with idx proj j show "\<exists>k. Suc k < length (splitlines raw) \<and> startswith (splitlines raw ! k) (d_prefix d) \<and>
      (\<forall>j<k. \<not> startswith (splitlines raw ! j) (d_prefix d)) \<and>
      proj = concat (take k (splitlines raw)) @ pending_line P"
    by (auto simp: inside_def)
  from j show "last (splitlines raw) = final_line P (rep_reason r) \<and>
      rep_reason r = (if ok r then PENDING else reason)" by blast
  from run show "\<exists>prior p. d_prev d proj P = Inr (prior, Some p) \<and> d_ready d p"
    by (auto elim: run_decoder_SomeE)
qed (rule assms(2))

subsection \<open>Accepting a transcript\<close>

text \<open>
  A transcript is a list of complete lines.  When the lines before the records are the
  transcript that the preceding stage accepts, the records are placed and the judge accepts
  them, the stage accepts the transcript.
\<close>

definition transcript :: "protocol \<Rightarrow> bytes list \<Rightarrow> bytes list \<Rightarrow> bytes \<Rightarrow> bytes" where
  "transcript P before records reason = concat (before @ records @ [final_line P reason])"

lemma transcript_projection:
  "concat before @ pending_line P = transcript P before [] PENDING"
  by (simp add: transcript_def pending_line_def)

lemma splitlines_transcript:
  assumes "\<forall>l\<in>set (before @ records). complete_line l" "clean (pr_final P)" "clean reason"
  shows "splitlines (transcript P before records reason) = before @ records @ [final_line P reason]"
proof -
  have "complete_line (final_line P reason)"
    using assms(2,3) complete_line_clean [of "pr_final P @ '' status=FAIL reason='' @ reason"]
    by (simp add: final_line_def eval_simps)
  with assms(1) show ?thesis
    unfolding transcript_def by (intro splitlines_concat_all) auto
qed

lemma indices_where_block:
  assumes "\<forall>x\<in>set xs. \<not> p x" "\<forall>x\<in>set ys. p x" "\<not> p z"
  shows "indices_where p (xs @ ys @ [z]) = [length xs..<length xs + length ys]"
proof -
  have "indices_where p xs = []" using assms(1) by (simp add: indices_where_empty)
  moreover have "indices_where p ys = [0..<length ys]"
    using assms(2) unfolding indices_where_def by (intro filter_True) auto
  moreover have "indices_where p [z] = []" using assms(3) by (simp add: indices_where_empty)
  ultimately show ?thesis
    by (simp add: indices_where_append add.commute [of "length xs"] map_add_upt)
qed

lemma run_decoder_accepts:
  fixes before records P reason
  defines "lines \<equiv> before @ records @ [final_line P reason]"
    and "indices \<equiv> [length before..<length before + length records]"
  assumes whole: "\<forall>l\<in>set (before @ records). complete_line l" "clean (pr_final P)" "clean reason"
    and small: "length (transcript P before records reason) \<le> MAX_LAB_CAPTURE"
    and own: "\<forall>l\<in>set before. \<not> startswith l (d_prefix d)"
      "\<forall>l\<in>set records. startswith l (d_prefix d)" "\<not> startswith (final_line P reason) (d_prefix d)"
      "records \<noteq> []"
    and placed: "d_placed d (length lines) indices"
    and scan: "d_scan d lines indices = Inr s"
    and prev: "d_prev d (transcript P before [] PENDING) P = Inr (prior, Some p)" "d_ready d p"
    and judge: "d_judge d P lines indices s (transcript P before [] PENDING) prior p = Inr r"
  shows "run_decoder d (transcript P before records reason) P =
    Inr (transcript P before [] PENDING, Some r)"
proof -
  have lines: "splitlines (transcript P before records reason) = lines"
    unfolding lines_def using whole by (rule splitlines_transcript)
  have idx: "indices_where (\<lambda>l. startswith l (d_prefix d)) lines = indices"
    unfolding lines_def indices_def using own by (intro indices_where_block) auto
  have "indices \<noteq> []" "hd indices = length before"
    using own(4) by (auto simp: indices_def)
  moreover have "take (length before) lines = before" by (simp add: lines_def)
  moreover have "endswith (transcript P before records reason) NL"
    by (simp add: transcript_def final_line_def endswith_iff)
  ultimately show ?thesis
    using small placed scan prev judge
    by (simp add: run_decoder_def Let_def lines idx transcript_projection eval_simps)
qed

subsection \<open>Stages with one status record\<close>

text \<open>
  Most stages print one record before the terminal line, follow a stage whose report has a
  status, and are complete when their own status is zero.
\<close>

definition status_stage ::
  "string \<Rightarrow> bytes \<Rightarrow> bytes \<Rightarrow> string \<Rightarrow> string \<Rightarrow>
   (bytes \<Rightarrow> protocol \<Rightarrow> (bytes \<times> 'p status_report_scheme option) res) \<Rightarrow> string \<Rightarrow>
   (protocol \<Rightarrow> bytes list \<Rightarrow> nat list \<Rightarrow> unit \<Rightarrow> bytes \<Rightarrow> bytes \<Rightarrow> 'p status_report_scheme \<Rightarrow> 'r res) \<Rightarrow>
   ('p status_report_scheme, unit, 'r) decoder" where
  "status_stage bounds prefix reason missing order prev without judge =
     \<lparr>d_bounds = bounds, d_prefix = prefix, d_absent = missing_if status_zero reason missing,
      d_placed = one_before_last, d_order = order, d_scan = no_scan, d_prev = prev,
      d_ready = status_zero, d_without = without, d_judge = judge\<rparr>"

definition closes :: "protocol \<Rightarrow> bytes \<Rightarrow> bytes list \<Rightarrow> 'r status_report_scheme \<Rightarrow> bool" where
  \<comment> \<open>the report's reason and the terminal line are those of its status\<close>
  "closes P reason lines r \<longleftrightarrow> terminal P reason (rep_status r \<noteq> 0) lines \<and>
     rep_reason r = reason_if (rep_status r \<noteq> 0) reason"

lemma status_decoder_stage:
  assumes "\<And>P lines indices s proj prior p r.
      d_judge d P lines indices s proj prior p = Inr r \<Longrightarrow> closes P reason lines r"
    and "\<And>P lines indices s proj prior p r.
      d_judge d P lines indices s proj prior p = Inr r \<Longrightarrow> d_placed d (length lines) indices \<Longrightarrow>
      inside (length lines) indices"
    and "reason \<noteq> PENDING"
  shows "capture_stage (run_decoder d) (\<lambda>l. startswith l (d_prefix d)) status_zero reason
    (d_prev d) (d_ready d)"
  using assms by (intro run_decoder_stage) (fastforce simp: closes_def terminal_def status_zero_def)+

lemma status_stage_simps [simp]:
  "d_prefix (status_stage bounds prefix reason missing order prev without judge) = prefix"
  "d_prev (status_stage bounds prefix reason missing order prev without judge) = prev"
  "d_ready (status_stage bounds prefix reason missing order prev without judge) = status_zero"
  "d_judge (status_stage bounds prefix reason missing order prev without judge) = judge"
  "d_placed (status_stage bounds prefix reason missing order prev without judge) = one_before_last"
  "d_scan (status_stage bounds prefix reason missing order prev without judge) = no_scan"
  by (simp_all add: status_stage_def)

lemma status_stage_interface:
  assumes "\<And>P lines indices s proj prior p r.
      judge P lines indices s proj prior p = Inr r \<Longrightarrow> closes P reason lines r"
    and "reason \<noteq> PENDING"
  shows "capture_stage (run_decoder (status_stage bounds prefix reason missing order prev without judge))
    (\<lambda>l. startswith l prefix) status_zero reason prev status_zero"
  using status_decoder_stage
    [of "status_stage bounds prefix reason missing order prev without judge" reason]
    assms one_before_last_inside by simp

text \<open>The record, its predecessor's report and the judgement behind an accepted capture.\<close>

lemma status_stage_SomeE:
  assumes "run_decoder (status_stage bounds prefix reason missing order prev without judge) raw P =
    Inr (proj, Some r)"
  obtains prior p indices where "prev proj P = Inr (prior, Some p)" "rep_status p = 0"
    "judge P (splitlines raw) indices () proj prior p = Inr r"
    "indices = [length (splitlines raw) - 2]" "2 \<le> length (splitlines raw)"
  using assms
proof (rule run_decoder_SomeE, unfold status_stage_simps)
  fix s prior p indices
  assume "prev proj P = Inr (prior, Some p)" "status_zero p" "one_before_last (length (splitlines raw)) indices"
    "judge P (splitlines raw) indices s proj prior p = Inr r"
  moreover from this(3) have "indices = [length (splitlines raw) - 2]" "2 \<le> length (splitlines raw)"
    by (auto simp: one_before_last_def split: list.splits)
  ultimately show thesis using that by (simp add: status_zero_def)
qed

lemma status_stage_accepts:
  assumes "\<forall>l\<in>set (line # before). complete_line l" "clean (pr_final P)" "clean closing_reason"
    and "length (transcript P before [line] closing_reason) \<le> MAX_LAB_CAPTURE"
    and "\<forall>l\<in>set before. \<not> startswith l prefix" "startswith line prefix"
      "\<not> startswith (final_line P closing_reason) prefix"
    and "prev (transcript P before [] PENDING) P = Inr (prior, Some p)" "rep_status p = 0"
    and "judge P (before @ [line, final_line P closing_reason]) [length before] ()
      (transcript P before [] PENDING) prior p = Inr r"
  shows "run_decoder (status_stage bounds prefix reason missing order prev without judge)
      (transcript P before [line] closing_reason) P = Inr (transcript P before [] PENDING, Some r)"
  using assms
  by (intro run_decoder_accepts [where records = "[line]" and prior = prior and p = p and s = "()"])
    (simp_all add: one_before_last_def no_scan_def status_zero_def)

end
