(* ===== verification/Pci_Caps.thy ===== *)
theory Pci_Caps
  imports Decoder Py_Struct
begin

text \<open>
  \<^verbatim>\<open>scripts/check-qotom-pci-capabilities-capture.py\<close>: the conventional capability lists of the
  sixteen functions of the native inventory.  This is the first decoder of the chain; it reads
  the PCI header records of the capture and follows each function's list from the header's
  pointer.
\<close>

unbundle bit_operations_syntax

record cap_entry =
  ce_offset :: int
  ce_raw :: int

record cap_function =
  cf_index :: nat
  cf_address :: "int list"
  cf_status :: int
  cf_offset :: int
  cf_headers :: "cap_entry list"

record caps_report = observation +
  caps_sha256 :: string
  caps_functions :: "cap_function list"

definition CAPS_SUMMARY :: bytes where "CAPS_SUMMARY = ''LEANOS-LAB/1 PCI-CAPS ''"
definition CAPS_ENTRY :: bytes where "CAPS_ENTRY = ''LEANOS-LAB/1 PCI-CAP ''"

definition NATIVE :: bytes where
  "NATIVE = ''LEANOS-LAB/1 NATIVE-PCI profile=qotom-native-ecam-v1 status=0 index=0 count=16'' @ NL"

definition word_limits :: "int list" where
  "word_limits = [255, 31, 7] @ replicate 16 0xffffffff"

definition exceeds :: "int list \<Rightarrow> int list \<Rightarrow> bool" where
  \<comment> \<open>\<^verbatim>\<open>any(x > limit for x, limit in zip(words, limits))\<close>\<close>
  "exceeds words limits \<longleftrightarrow> list_ex (\<lambda>(x, limit). limit < x) (zip words limits)"

definition source_header_pattern :: "protocol \<Rightarrow> item list" where
  "source_header_pattern P =
     [Lit (pr_pci_header P @ '' codec=1 index=''), DEC, Lit '' width=19 words='',
      DecList (Some 9) 18, Lit NL]"

fun source_headers :: "protocol \<Rightarrow> bytes list \<Rightarrow> int list list \<Rightarrow> int list list res" where
  \<comment> \<open>the loop over \<^verbatim>\<open>lines[:start]\<close> with the headers read so far\<close>
  "source_headers P [] headers = Inr headers"
| "source_headers P (line # rest) headers =
     (if startswith line (pr_pci_header P) then
        bind (some_or ''capability source header order or framing''
          (fullmatch (source_header_pattern P) line)) (\<lambda>groups.
        unpack2 groups (\<lambda>index ws.
        bind (py_int index) (\<lambda>i.
        raise_if (i \<noteq> int (length headers)) ''capability source header order or framing''
        (bind (py_ints (split_on CHR '','' ws)) (\<lambda>words.
        raise_if (exceeds words word_limits) ''capability source header width''
        (source_headers P rest (headers @ [words])))))))
      else source_headers P rest headers)"

definition summary_pattern :: "nat \<Rightarrow> item list" where
  "summary_pattern index =
     [Lit (CAPS_SUMMARY @ ''profile=conventional-v1 index='' @ decimal index @ '' status=''), DEC,
      Lit '' offset='', DEC, Lit '' count='', DEC, Lit NL]"

definition entry_pattern :: "nat \<Rightarrow> nat \<Rightarrow> item list" where
  "entry_pattern index slot =
     [Lit (CAPS_ENTRY @ ''index='' @ decimal index @ '' slot='' @ decimal slot @ '' offset=''), DEC,
      Lit '' raw='', DEC, Lit NL]"

definition traversal_offset :: "int \<Rightarrow> bool" where
  "traversal_offset offset \<longleftrightarrow> 64 \<le> offset \<and> offset \<le> 252 \<and> offset mod 4 = 0"

definition check_failure :: "int \<Rightarrow> int \<Rightarrow> int \<Rightarrow> unit res" where
  \<comment> \<open>a failure status and what may be published with it\<close>
  "check_failure status offset count =
     raise_if (status = 1 \<or> count \<noteq> 0) ''invalid capability failure publication''
     (raise_if (status = 3 \<and> offset \<notin> {0, 4, 12, 52}) ''invalid initial drift offset''
     (raise_if (status = 2 \<and> offset \<notin> {0, 4, 12, 52} \<and> \<not> traversal_offset offset)
       ''invalid read failure offset''
     (raise_if (status = 4 \<and> (offset = 0 \<or> (64 \<le> offset \<and> offset mod 4 = 0)))
       ''invalid pointer failure offset''
     (raise_if (status \<in> {5, 6} \<and> \<not> traversal_offset offset) ''invalid traversal failure offset''
     (Inr ())))))"

fun read_list :: "bytes list \<Rightarrow> nat \<Rightarrow> nat \<Rightarrow> nat \<Rightarrow> nat \<Rightarrow> int \<Rightarrow> cap_entry list \<Rightarrow>
    (nat \<times> int \<times> cap_entry list) res" where
  \<comment> \<open>\<^verbatim>\<open>for slot in range(count)\<close>: slots left, next slot, cursor, expected link, entries so far;
    the addresses in \<^verbatim>\<open>seen\<close> are the offsets of the entries\<close>
  "read_list lines index 0 slot cursor expected entries = Inr (cursor, expected, entries)"
| "read_list lines index (Suc left) slot cursor expected entries =
     raise_if (length lines \<le> cursor) ''truncated capability list''
     (bind (match_ints ''capability entry order or framing'' (entry_pattern index slot)
       (lines ! cursor)) (\<lambda>vs.
     unpack2 vs (\<lambda>address value.
     raise_if (address \<noteq> expected \<or> address < 64 \<or> 252 < address \<or> address mod 4 \<noteq> 0 \<or>
         address \<in> set (map ce_offset entries) \<or> 0xffffffff < value \<or> value AND 255 = 255)
       ''capability link, bounds, cycle or absent ID''
     (read_list lines index left (Suc slot) (Suc cursor) (drop_bit 8 value AND 255)
       (entries @ [\<lparr>ce_offset = address, ce_raw = value\<rparr>])))))"

definition first_pointer :: "int list \<Rightarrow> int" where
  "first_pointer words = (if words ! 4 AND 0x100000 \<noteq> 0 then words ! 16 AND 255 else 0)"

definition read_function :: "bytes list \<Rightarrow> nat \<Rightarrow> int list \<Rightarrow> nat \<Rightarrow> (nat \<times> cap_function) res" where
  \<comment> \<open>one iteration of \<^verbatim>\<open>for index, words in enumerate(headers)\<close>\<close>
  "read_function lines index words cursor =
     raise_if (length lines \<le> cursor) ''truncated capability summary''
     (bind (match_ints ''capability summary order or framing'' (summary_pattern index) (lines ! cursor)) (\<lambda>vs.
     unpack3 vs (\<lambda>status offset count.
     raise_if (6 < status \<or> 48 < count \<or> 255 < offset) ''capability summary bounds''
     (bind (if status \<noteq> 0 then
              bind (check_failure status offset count) (\<lambda>_. Inr (Suc cursor, []))
            else
              raise_if (offset \<noteq> 0) ''successful list has failure offset''
              (bind (read_list lines index (nat count) 0 (Suc cursor) (first_pointer words) [])
                (\<lambda>(cursor', expected, entries).
              raise_if (expected \<noteq> 0) ''unterminated capability list''
              (Inr (cursor', entries))))) (\<lambda>(cursor', entries).
     Inr (cursor', \<lparr>cf_index = index, cf_address = take 3 words, cf_status = status,
       cf_offset = offset, cf_headers = entries\<rparr>))))))"

fun read_functions :: "bytes list \<Rightarrow> int list list \<Rightarrow> nat \<Rightarrow> nat \<Rightarrow> cap_function list \<Rightarrow>
    (nat \<times> cap_function list \<times> bool) res" where
  \<comment> \<open>the whole loop: headers left, next index, cursor, functions so far; stops at a rejection\<close>
  "read_functions lines [] index cursor functions = Inr (cursor, functions, False)"
| "read_functions lines (words # headers) index cursor functions =
     bind (read_function lines index words cursor) (\<lambda>(cursor', f).
     if cf_status f \<noteq> 0 then Inr (cursor', functions @ [f], True)
     else read_functions lines headers (Suc index) cursor' (functions @ [f]))"

definition caps_record :: "bytes \<Rightarrow> bool" where
  "caps_record line \<longleftrightarrow> startswith line CAPS_SUMMARY \<or> startswith line CAPS_ENTRY"

abbreviation CAPS_REASON :: bytes where "CAPS_REASON \<equiv> ''qotom-pci-capabilities''"

definition extract_pci_caps :: "bytes \<Rightarrow> protocol \<Rightarrow> (bytes \<times> caps_report option) res" where
  "extract_pci_caps raw P =
     raise_if (MAX_LAB_CAPTURE < length raw \<or> \<not> endswith raw NL) ''capability capture bounds''
     (let lines = splitlines raw;
          candidates = indices_where caps_record lines;
          accepted = indices_where (\<lambda>line. line = NATIVE) lines in
      if accepted = [] then
        raise_if (candidates \<noteq> [] \<or> last lines = final_line P CAPS_REASON)
          ''capabilities without accepted native inventory''
        (Inr (raw, None))
      else
        raise_if (length accepted \<noteq> 1 \<or> candidates = [] \<or> hd candidates \<noteq> hd accepted + 1)
          ''missing or misplaced capability records''
        (let start = hd accepted in
        bind (source_headers P (take start lines) []) (\<lambda>headers.
        raise_if (length headers \<noteq> 16) ''capability source inventory count''
        (bind (read_functions lines headers 0 (start + 1) []) (\<lambda>(cursor, functions, rejected).
        raise_if (cursor + 1 \<noteq> length lines \<or> \<not> terminal P CAPS_REASON rejected lines)
          ''capability terminal or trailing records''
        (Inr (concat (take (start + 1) lines) @ pending_line P,
          Some \<lparr>rep_schema = ''leanos-pci-capability-capture-v1'',
            rep_reason = reason_if rejected CAPS_REASON,
            rep_claims = [(''failed_reads_replayed'', False), (''platform_admitted'', False),
              (''dma_quarantine_established'', False)],
            caps_sha256 = sha256_hex raw, caps_functions = functions\<rparr>)))))))"

subsection \<open>Capability lists\<close>

definition next_link :: "cap_entry \<Rightarrow> int" where
  "next_link e = drop_bit 8 (ce_raw e) AND 255"

fun link_path :: "int \<Rightarrow> cap_entry list \<Rightarrow> int \<Rightarrow> bool" where
  "link_path a [] b = (a = b)"
| "link_path a (e # es) b = (ce_offset e = a \<and> link_path (next_link e) es b)"

lemma link_path_snoc: "link_path a (es @ [e]) b \<longleftrightarrow> link_path a es (ce_offset e) \<and> b = next_link e"
  by (induction es arbitrary: a) auto

definition entry_ok :: "cap_entry \<Rightarrow> bool" where
  "entry_ok e \<longleftrightarrow> 64 \<le> ce_offset e \<and> ce_offset e \<le> 252 \<and> ce_offset e mod 4 = 0 \<and>
     0 \<le> ce_raw e \<and> ce_raw e \<le> 0xffffffff \<and> ce_raw e AND 255 \<noteq> 255"

definition cap_list_ok :: "int \<Rightarrow> cap_entry list \<Rightarrow> bool" where
  \<comment> \<open>a terminated, acyclic list of aligned structures that starts at the pointer\<close>
  "cap_list_ok first es \<longleftrightarrow> link_path first es 0 \<and> distinct (map ce_offset es) \<and> (\<forall>e\<in>set es. entry_ok e)"

definition print_entry :: "nat \<Rightarrow> nat \<Rightarrow> cap_entry \<Rightarrow> bytes" where
  "print_entry index slot e =
     record_line (entry_pattern index slot) [nat (ce_offset e), nat (ce_raw e)]"

fun print_entries :: "nat \<Rightarrow> nat \<Rightarrow> cap_entry list \<Rightarrow> bytes list" where
  "print_entries index slot [] = []"
| "print_entries index slot (e # es) = print_entry index slot e # print_entries index (Suc slot) es"

definition print_function :: "cap_function \<Rightarrow> bytes list" where
  "print_function f =
     record_line (summary_pattern (cf_index f))
       [nat (cf_status f), nat (cf_offset f), length (cf_headers f)]
     # print_entries (cf_index f) 0 (cf_headers f)"

lemma entry_pattern_ok: "decimal_pattern (entry_pattern index slot)" "delimited (entry_pattern index slot)"
  by (simp_all add: entry_pattern_def is_digit_def)

lemma summary_pattern_ok: "decimal_pattern (summary_pattern index)" "delimited (summary_pattern index)"
  by (simp_all add: summary_pattern_def is_digit_def)

lemma read_list_sound:
  assumes "read_list lines index left slot cursor expected acc = Inr (cursor', expected', entries)"
    and "distinct (map ce_offset acc)"
  shows "\<exists>new. entries = acc @ new \<and> length new = left \<and> cursor' = cursor + left \<and>
    link_path expected new expected' \<and> distinct (map ce_offset entries) \<and>
    (\<forall>e\<in>set new. entry_ok e) \<and>
    (cursor \<le> length lines \<longrightarrow> cursor' \<le> length lines) \<and>
    take left (drop cursor lines) = print_entries index slot new"
  using assms
proof (induction left arbitrary: slot cursor expected acc)
  case 0
  then show ?case by auto
next
  case (Suc left)
  from Suc.prems obtain address v where
    c: "cursor < length lines"
    and f: "match_ints ''capability entry order or framing'' (entry_pattern index slot) (lines ! cursor) =
      Inr [address, v]"
    and g: "address = expected" "64 \<le> address" "address \<le> 252" "address mod 4 = 0"
      "address \<notin> set (map ce_offset acc)" "v \<le> 0xffffffff" "v AND 255 \<noteq> 255"
    and r: "read_list lines index left (Suc slot) (Suc cursor) (drop_bit 8 v AND 255)
      (acc @ [\<lparr>ce_offset = address, ce_raw = v\<rparr>]) = Inr (cursor', expected', entries)"
    by (auto simp: res_simps)
  let ?e = "\<lparr>ce_offset = address, ce_raw = v\<rparr>"
  have line: "lines ! cursor = print_entry index slot ?e" and "0 \<le> v"
    using match_ints_line [OF f entry_pattern_ok(1)] by (simp_all add: print_entry_def)
  have "distinct (map ce_offset (acc @ [?e]))" using Suc.prems(2) g(5) by simp
  from Suc.IH [OF r this] obtain new where new: "entries = (acc @ [?e]) @ new" "length new = left"
    "cursor' = Suc cursor + left" "link_path (drop_bit 8 v AND 255) new expected'"
    "distinct (map ce_offset entries)" "\<forall>e\<in>set new. entry_ok e"
    "Suc cursor \<le> length lines \<longrightarrow> cursor' \<le> length lines"
    "take left (drop (Suc cursor) lines) = print_entries index (Suc slot) new" by blast
  have "take (Suc left) (drop cursor lines) = lines ! cursor # take left (drop (Suc cursor) lines)"
    using c by (metis Cons_nth_drop_Suc take_Suc_Cons)
  moreover have "entry_ok ?e" using g \<open>0 \<le> v\<close> by (simp add: entry_ok_def)
  ultimately show ?case
    using new line c g(1)
    by (intro exI [of _ "?e # new"]) (simp add: next_link_def)
qed

text \<open>What one function's record says, when it is decoded.\<close>

definition function_ok :: "int list \<Rightarrow> cap_function \<Rightarrow> bool" where
  "function_ok words f \<longleftrightarrow> cf_address f = take 3 words \<and> 0 \<le> cf_status f \<and> cf_status f \<le> 6 \<and>
     length (cf_headers f) \<le> 48 \<and>
     (if cf_status f = 0 then cf_offset f = 0 \<and> cap_list_ok (first_pointer words) (cf_headers f)
      else cf_headers f = [] \<and> cf_status f \<noteq> 1)"

lemma read_function_sound:
  assumes "read_function lines index words cursor = Inr (cursor', f)"
  shows "cf_index f = index" "function_ok words f" "cursor' = cursor + length (print_function f)"
    "cursor' \<le> length lines" "take (length (print_function f)) (drop cursor lines) = print_function f"
proof -
  from assms obtain status offset count entries where c: "cursor < length lines"
    and m: "match_ints ''capability summary order or framing'' (summary_pattern index) (lines ! cursor) =
      Inr [status, offset, count]"
    and b: "status \<le> 6" "count \<le> 48" "offset \<le> 255"
    and body: "(if status \<noteq> 0 then
              bind (check_failure status offset count) (\<lambda>_. Inr (Suc cursor, []))
            else
              raise_if (offset \<noteq> 0) ''successful list has failure offset''
              (bind (read_list lines index (nat count) 0 (Suc cursor) (first_pointer words) [])
                (\<lambda>(cursor', expected, entries).
              raise_if (expected \<noteq> 0) ''unterminated capability list''
              (Inr (cursor', entries))))) = Inr (cursor', entries)"
    and f: "f = \<lparr>cf_index = index, cf_address = take 3 words, cf_status = status,
       cf_offset = offset, cf_headers = entries\<rparr>"
    unfolding read_function_def by (elim res_elims) (auto simp: res_simps simp del: if_not_P split del: if_split)
  show "cf_index f = index" by (simp add: f)
  have l: "lines ! cursor = record_line (summary_pattern index) [nat status, nat offset, nat count]"
    "0 \<le> status" "0 \<le> offset" "0 \<le> count"
    using match_ints_line [OF m summary_pattern_ok(1)] by simp_all
  define n where "n = nat count"
  have take1: "take (Suc k) (drop cursor lines) = lines ! cursor # take k (drop (Suc cursor) lines)" for k
    using c by (metis Cons_nth_drop_Suc take_Suc_Cons)
  have "function_ok words f \<and> cursor' = cursor + length (print_function f) \<and> cursor' \<le> length lines \<and>
    take (length (print_function f)) (drop cursor lines) = print_function f"
  proof (cases "status = 0")
    case True
    with body have r: "read_list lines index n 0 (Suc cursor) (first_pointer words) [] =
        Inr (cursor', 0, entries)" and "offset = 0"
      by (auto simp: res_simps n_def)
    from read_list_sound [OF r] c have es: "length entries = n" "cursor' = Suc cursor + n"
      "link_path (first_pointer words) entries 0" "distinct (map ce_offset entries)"
      "\<forall>e\<in>set entries. entry_ok e" "cursor' \<le> length lines"
      "take n (drop (Suc cursor) lines) = print_entries index 0 entries" by auto
    have "length (print_entries index k es) = length es" for k es
      by (induction es arbitrary: k) auto
    with es True l b \<open>offset = 0\<close> show ?thesis
      by (simp add: f function_ok_def cap_list_ok_def print_function_def take1 n_def)
  next
    case False
    with body have "cursor' = Suc cursor" "entries = []" "count = 0" "status \<noteq> 1"
      by (auto simp: res_simps check_failure_def)
    with False l b c show ?thesis
      using take1 [of 0] by (simp add: f function_ok_def print_function_def)
  qed
  then show "function_ok words f" "cursor' = cursor + length (print_function f)"
    "cursor' \<le> length lines" "take (length (print_function f)) (drop cursor lines) = print_function f"
    by blast+
qed

lemma read_functions_sound:
  assumes "read_functions lines headers index cursor acc = Inr (cursor', fs, rejected)"
    and "cursor \<le> length lines"
  shows "\<exists>new. fs = acc @ new \<and> length new \<le> length headers \<and>
    map cf_index new = [index..<index + length new] \<and>
    list_all2 function_ok (take (length new) headers) new \<and>
    (\<forall>f\<in>set (butlast new). cf_status f = 0) \<and>
    (rejected \<longleftrightarrow> new \<noteq> [] \<and> cf_status (last new) \<noteq> 0) \<and>
    (\<not> rejected \<longrightarrow> length new = length headers) \<and> cursor' \<le> length lines \<and>
    cursor' = cursor + length (concat (map print_function new)) \<and>
    take (cursor' - cursor) (drop cursor lines) = concat (map print_function new)"
  using assms
proof (induction headers arbitrary: index cursor acc)
  case Nil
  then show ?case by auto
next
  case (Cons words headers)
  from Cons.prems(1) obtain c f where rf: "read_function lines index words cursor = Inr (c, f)"
    and rest: "(if cf_status f \<noteq> 0 then Inr (c, acc @ [f], True)
      else read_functions lines headers (Suc index) c (acc @ [f])) = Inr (cursor', fs, rejected)"
    by (auto simp: res_simps)
  note f = read_function_sound [OF rf]
  show ?case
  proof (cases "cf_status f = 0")
    case False
    with rest f show ?thesis by (intro exI [of _ "[f]"]) auto
  next
    case True
    with rest have "read_functions lines headers (Suc index) c (acc @ [f]) = Inr (cursor', fs, rejected)"
      by simp
    from Cons.IH [OF this f(4)] obtain new where
      new: "fs = (acc @ [f]) @ new" "length new \<le> length headers"
        "map cf_index new = [Suc index..<Suc index + length new]"
        "list_all2 function_ok (take (length new) headers) new"
        "\<forall>f\<in>set (butlast new). cf_status f = 0"
        "rejected \<longleftrightarrow> new \<noteq> [] \<and> cf_status (last new) \<noteq> 0"
        "\<not> rejected \<longrightarrow> length new = length headers" "cursor' \<le> length lines"
        "cursor' = c + length (concat (map print_function new))"
        "take (cursor' - c) (drop c lines) = concat (map print_function new)" by blast
    let ?n = "length (print_function f)"
    have "take (cursor' - cursor) (drop cursor lines) =
        take ?n (drop cursor lines) @ take (cursor' - c) (drop c lines)"
      using f(3) new(9) by (simp add: take_add add.commute drop_drop)
    moreover have "[index..<index + Suc (length new)] = index # [Suc index..<Suc index + length new]"
      by (metis add_Suc_shift less_add_same_cancel1 upt_conv_Cons zero_less_Suc)
    ultimately show ?thesis
      using new f True by (intro exI [of _ "f # new"]) (auto simp del: upt_Suc)
  qed
qed

lemma extract_pci_caps_SomeE:
  assumes "extract_pci_caps raw P = Inr (proj, Some r)"
  obtains start headers rejected cursor where
    "length raw \<le> MAX_LAB_CAPTURE" "endswith raw NL"
    "indices_where (\<lambda>line. line = NATIVE) (splitlines raw) = [start]"
    "indices_where caps_record (splitlines raw) \<noteq> []"
    "hd (indices_where caps_record (splitlines raw)) = start + 1"
    "source_headers P (take start (splitlines raw)) [] = Inr headers" "length headers = 16"
    "read_functions (splitlines raw) headers 0 (start + 1) [] =
      Inr (cursor, caps_functions r, rejected)" "Suc cursor = length (splitlines raw)"
    "terminal P CAPS_REASON rejected (splitlines raw)"
    "rep_reason r = reason_if rejected CAPS_REASON"
    "proj = concat (take (start + 1) (splitlines raw)) @ pending_line P"
  using assms unfolding extract_pci_caps_def Let_def
  by (auto simp: res_simps length_Suc_conv split: if_splits prod.splits)

lemma extract_pci_caps_NoneE:
  assumes "extract_pci_caps raw P = Inr (proj, None)"
  shows "proj = raw" "\<forall>l\<in>set (splitlines raw). \<not> caps_record l" "NATIVE \<notin> set (splitlines raw)"
  using assms unfolding extract_pci_caps_def Let_def
  by (auto simp: res_simps indices_where_empty split: if_splits prod.splits)

text \<open>The functions fill at least one line between the native inventory and the terminal line.\<close>

lemma accepted_functions_nonempty:
  assumes "read_functions lines headers 0 cursor [] = Inr (cursor', fs, rejected)" "headers \<noteq> []"
    and "cursor \<le> length lines"
  shows "fs \<noteq> []" "cursor < cursor'"
proof -
  note sound = read_functions_sound [OF assms(1,3), unfolded append_Nil]
  then show "fs \<noteq> []" using assms(2) by auto
  then have "concat (map print_function fs) \<noteq> []" by (cases fs) (simp_all add: print_function_def)
  with sound show "cursor < cursor'" by auto
qed

lemma extract_pci_caps_first:
  assumes "extract_pci_caps raw P = Inr (proj, Some r)"
  shows "\<exists>k. Suc k < length (splitlines raw) \<and> caps_record (splitlines raw ! k) \<and>
      (\<forall>j<k. \<not> caps_record (splitlines raw ! j)) \<and>
      proj = concat (take k (splitlines raw)) @ pending_line P"
  using assms
proof (rule extract_pci_caps_SomeE)
  fix start headers rejected cursor
  let ?is = "indices_where caps_record (splitlines raw)"
  assume c: "?is \<noteq> []" "hd ?is = start + 1" "length headers = 16"
    and rd: "read_functions (splitlines raw) headers 0 (start + 1) [] =
      Inr (cursor, caps_functions r, rejected)" "Suc cursor = length (splitlines raw)"
    and proj: "proj = concat (take (start + 1) (splitlines raw)) @ pending_line P"
  note first = indices_where_first [OF c(1)]
  then have "start + 1 < length (splitlines raw)" using c(2) by auto
  then have "start + 1 < cursor" using accepted_functions_nonempty(2) [OF rd(1)] c(3) by fastforce
  then show ?thesis using first c(2) rd(2) proj by (intro exI [of _ "start + 1"]) auto
qed

lemma caps_functions_nonempty:
  assumes "extract_pci_caps raw P = Inr (proj, Some r)"
  shows "caps_functions r \<noteq> []"
  using assms
proof (rule extract_pci_caps_SomeE)
  fix start headers rejected cursor
  assume "indices_where caps_record (splitlines raw) \<noteq> []"
    "hd (indices_where caps_record (splitlines raw)) = start + 1" "length headers = 16"
    "read_functions (splitlines raw) headers 0 (start + 1) [] = Inr (cursor, caps_functions r, rejected)"
  then show ?thesis
    using indices_where_first [of caps_record "splitlines raw"]
      accepted_functions_nonempty(1) [of "splitlines raw" headers "start + 1"] by fastforce
qed

interpretation pci_caps: capture_source extract_pci_caps caps_record reason_pending CAPS_REASON
proof
  fix raw P x assume "extract_pci_caps raw P = Inr x"
  then show "length raw \<le> MAX_LAB_CAPTURE \<and> endswith raw NL"
    by (simp add: extract_pci_caps_def res_simps)
next
  fix raw P proj assume "extract_pci_caps raw P = Inr (proj, None)"
  from extract_pci_caps_NoneE [OF this]
  show "proj = raw \<and> (\<forall>l\<in>set (splitlines raw). \<not> caps_record l)" by blast
next
  fix raw P proj r assume run: "extract_pci_caps raw P = Inr (proj, Some r)"
  then show "\<exists>k. Suc k < length (splitlines raw) \<and> caps_record (splitlines raw ! k) \<and>
      (\<forall>j<k. \<not> caps_record (splitlines raw ! j)) \<and>
      proj = concat (take k (splitlines raw)) @ pending_line P"
    by (rule extract_pci_caps_first)
  from run show "last (splitlines raw) = final_line P (rep_reason r) \<and>
      rep_reason r = (if reason_pending r then PENDING else CAPS_REASON)"
    by (elim extract_pci_caps_SomeE) (auto simp: terminal_def reason_pending_def)
qed simp

subsection \<open>Printed functions are accepted\<close>

lemma length_print_entries [simp]: "length (print_entries index slot es) = length es"
  by (induction es arbitrary: slot) auto

lemma read_list_accepts:
  assumes "link_path expected es stop" "\<forall>e\<in>set es. entry_ok e" "distinct (map ce_offset (acc @ es))"
  shows "read_list (before @ print_entries index slot es @ rest) index (length es) slot (length before) expected acc =
    Inr (length before + length es, stop, acc @ es)"
  using assms
proof (induction es arbitrary: before slot expected acc)
  case (Cons e es)
  let ?line = "print_entry index slot e"
  from Cons.prems have e: "entry_ok e" "ce_offset e = expected" "ce_offset e \<notin> set (map ce_offset acc)" by auto
  have m: "match_ints ''capability entry order or framing'' (entry_pattern index slot) ?line =
      Inr [ce_offset e, ce_raw e]"
    using e(1) match_ints_record_line [OF entry_pattern_ok(2,1), of index slot "[nat (ce_offset e), nat (ce_raw e)]"]
    by (simp add: print_entry_def entry_ok_def entry_pattern_def nat_less_iff)
  have IH: "read_list ((before @ [?line]) @ print_entries index (Suc slot) es @ rest) index (length es) (Suc slot)
      (length (before @ [?line])) (next_link e) (acc @ [e]) =
    Inr (length (before @ [?line]) + length es, stop, (acc @ [e]) @ es)"
    using Cons.prems by (intro Cons.IH) auto
  obtain v where v: "e = \<lparr>ce_offset = expected, ce_raw = v\<rparr>" using e(2) by (cases e) simp
  show ?case using IH e m unfolding v by (simp add: eval_simps next_link_def entry_ok_def)
qed auto

lemma read_functions_accepts:
  assumes "list_all2 (\<lambda>ws f. function_ok ws f \<and> cf_status f = 0) headers fs"
    and "map cf_index fs = [index..<index + length fs]"
  shows "read_functions (before @ concat (map print_function fs) @ rest) headers index (length before) acc =
    Inr (length before + length (concat (map print_function fs)), acc @ fs, False)"
  using assms
proof (induction headers fs arbitrary: before index acc rule: list_all2_induct)
  case (Cons ws headers f fs)
  have "[index..<index + length (f # fs)] = index # [Suc index..<Suc index + length fs]"
    by (simp add: upt_conv_Cons del: upt_Suc)
  with Cons.prems have idx: "cf_index f = index" "map cf_index fs = [Suc index..<Suc index + length fs]"
    by (simp_all del: upt_Suc)
  from Cons.hyps(1) have f: "cf_address f = take 3 ws" "cf_status f = 0" "cf_offset f = 0" "length (cf_headers f) \<le> 48"
    "link_path (first_pointer ws) (cf_headers f) 0" "distinct (map ce_offset (cf_headers f))"
    "\<forall>e\<in>set (cf_headers f). entry_ok e" by (auto simp: function_ok_def cap_list_ok_def)
  let ?sum = "record_line (summary_pattern index) [0, 0, length (cf_headers f)]"
  have p: "print_function f = ?sum # print_entries index 0 (cf_headers f)"
    by (simp add: print_function_def idx f)
  have m: "match_ints ''capability summary order or framing'' (summary_pattern index) ?sum =
      Inr [0, 0, int (length (cf_headers f))]"
    using f(4) match_ints_record_line [OF summary_pattern_ok(2,1), of index "[0, 0, length (cf_headers f)]"]
    by (simp add: summary_pattern_def)
  let ?tail = "concat (map print_function fs) @ rest"
  have l: "read_list ((before @ [?sum]) @ print_entries index 0 (cf_headers f) @ ?tail) index (length (cf_headers f)) 0
      (length (before @ [?sum])) (first_pointer ws) [] =
    Inr (length (before @ [?sum]) + length (cf_headers f), 0, [] @ cf_headers f)"
    using f by (intro read_list_accepts) auto
  have "read_function (before @ print_function f @ ?tail) index ws (length before) =
      Inr (length before + length (print_function f), f)"
  proof -
    obtain hs where "f = \<lparr>cf_index = index, cf_address = take 3 ws, cf_status = 0, cf_offset = 0, cf_headers = hs\<rparr>"
      using f(1-3) idx(1) by (cases f) simp
    with l m f(4) p show ?thesis by (simp add: read_function_def eval_simps)
  qed
  moreover have "read_functions ((before @ print_function f) @ concat (map print_function fs) @ rest) headers (Suc index)
      (length (before @ print_function f)) (acc @ [f]) =
    Inr (length (before @ print_function f) + length (concat (map print_function fs)), (acc @ [f]) @ fs, False)"
    using idx(2) by (rule Cons.IH)
  ultimately show ?case by (simp add: eval_simps f(2))
qed simp

text \<open>
  C3.  An accepted capability capture decodes losslessly and its lists are well formed.  The
  capture is the projected part, then exactly the lines printed from the reported functions,
  then the terminal line of the reported reason.  The functions are numbered from zero in the
  order of the sixteen captured headers; each reported list starts at the pointer of its
  header, follows the next links, is terminated and acyclic, and every structure is aligned
  and inside 64..252.  All functions but the last have status zero, and all sixteen are present
  unless the last one reports a failure.
\<close>

theorem pci_caps_exact:
  assumes "extract_pci_caps raw P = Inr (proj, Some r)"
  shows "\<exists>kept headers. let fs = caps_functions r in
    raw = kept @ concat (concat (map print_function fs)) @ final_line P (rep_reason r) \<and>
    proj = kept @ pending_line P \<and> length headers = 16 \<and>
    (\<exists>n. source_headers P (take n (splitlines raw)) [] = Inr headers) \<and>
    fs \<noteq> [] \<and> map cf_index fs = [0..<length fs] \<and>
    list_all2 function_ok (take (length fs) headers) fs \<and>
    (\<forall>f\<in>set (butlast fs). cf_status f = 0) \<and>
    (if cf_status (last fs) = 0 then length fs = 16 \<and> rep_reason r = PENDING
     else rep_reason r = CAPS_REASON)"
  using assms
proof (rule extract_pci_caps_SomeE)
  fix start headers rejected cursor
  let ?ls = "splitlines raw" and ?fs = "caps_functions r"
  let ?kept = "take (start + 1) ?ls" and ?print = "concat (map print_function ?fs)"
  assume src: "source_headers P (take start ?ls) [] = Inr headers" "length headers = 16"
    and rd: "read_functions ?ls headers 0 (start + 1) [] = Inr (cursor, ?fs, rejected)"
      "Suc cursor = length ?ls"
    and t: "terminal P CAPS_REASON rejected ?ls" "rep_reason r = reason_if rejected CAPS_REASON"
    and proj: "proj = concat ?kept @ pending_line P"
    and native: "indices_where (\<lambda>line. line = NATIVE) ?ls = [start]"
  have "start \<in> set (indices_where (\<lambda>line. line = NATIVE) ?ls)" by (simp add: native)
  then have "start + 1 \<le> length ?ls" by (simp add: indices_where_set)
  from read_functions_sound [OF rd(1) this, unfolded append_Nil src(2)] have
    fs: "length ?fs \<le> 16" "map cf_index ?fs = [0..<length ?fs]"
      "list_all2 function_ok (take (length ?fs) headers) ?fs" "\<forall>f\<in>set (butlast ?fs). cf_status f = 0"
      "rejected \<longleftrightarrow> ?fs \<noteq> [] \<and> cf_status (last ?fs) \<noteq> 0" "\<not> rejected \<longrightarrow> length ?fs = 16"
    and c: "cursor = start + 1 + length ?print"
      "take (cursor - (start + 1)) (drop (start + 1) ?ls) = ?print"
    by auto
  have split: "?ls = ?kept @ ?print @ [last ?ls]"
  proof -
    have "take cursor ?ls = ?kept @ ?print"
      using c by (metis take_add add_diff_cancel_left')
    moreover have "?ls \<noteq> []" "take cursor ?ls = butlast ?ls"
      using rd(2) by (auto simp: butlast_conv_take dest: arg_cong [of _ _ "\<lambda>n. n - 1"])
    ultimately show ?thesis by (metis append.assoc append_butlast_last_id)
  qed
  have "raw = concat ?kept @ concat ?print @ final_line P (rep_reason r)"
    using arg_cong [OF split, of concat] t by (simp add: terminal_def)
  moreover have "?fs \<noteq> []" using fs(5,6) by auto
  ultimately show ?thesis using fs src proj t(2) unfolding Let_def
    by (intro exI [of _ "concat ?kept"] exI [of _ headers]) auto
qed

end
