(* ===== verification/Pci_AF.thy ===== *)
theory Pci_AF
  imports Pci_Caps
begin

text \<open>
  \<^verbatim>\<open>scripts/check-qotom-af-capture.py\<close>: the Advanced Features record of every function,
  checked against the capability lists of the preceding stage.
\<close>

unbundle bit_operations_syntax

record af_observation =
  ao_index :: nat
  ao_status :: int
  ao_offset :: int
  ao_raw :: int

record af_report = observation +
  af_functions :: "af_observation list"

definition AF_PREFIX :: bytes where "AF_PREFIX = ''LEANOS-LAB/1 PCI-AF ''"
abbreviation AF_REASON :: bytes where "AF_REASON \<equiv> ''qotom-pci-af''"

definition af_pattern :: "nat \<Rightarrow> item list" where
  "af_pattern i =
     [Lit (AF_PREFIX @ ''profile=af-observation-v1 index='' @ decimal i @ '' status=''), Dec (Some 1),
      Lit '' offset='', Dec (Some 2), Lit '' raw='', DEC, Lit NL]"

definition af_entries :: "cap_function \<Rightarrow> cap_entry list" where
  "af_entries f = filter (\<lambda>e. ce_raw e AND 255 = 0x13) (cf_headers f)"

definition overlapped :: "cap_function \<Rightarrow> int \<Rightarrow> bool" where
  "overlapped f offset \<longleftrightarrow> list_ex (\<lambda>e. ce_offset e = offset) (cf_headers f)"

definition af_malformed :: "cap_function \<Rightarrow> cap_entry \<Rightarrow> bool" where
  "af_malformed f af \<longleftrightarrow> drop_bit 16 (ce_raw af) \<noteq> 0x0306 \<or> 248 < ce_offset af \<or>
     overlapped f (ce_offset af + 4)"

definition af_success_check :: "cap_function \<Rightarrow> int \<Rightarrow> int \<Rightarrow> unit res" where
  "af_success_check f offset v =
     (case af_entries f of
        [af] \<Rightarrow> raise_if (drop_bit 16 (ce_raw af) \<noteq> 0x0306 \<or> 248 < ce_offset af \<or>
            offset \<noteq> ce_offset af \<or> v = 0xffffffff \<or> overlapped f (offset + 4))
          ''AF successful shape or payload mismatch'' (Inr ())
      | _ \<Rightarrow> raise ''AF success requires unique advertised structure'')"

definition af_failure_check :: "cap_function \<Rightarrow> int \<Rightarrow> int \<Rightarrow> int \<Rightarrow> unit res" where
  "af_failure_check f status offset v =
     raise_if (offset \<noteq> 0 \<or> v \<noteq> 0) ''AF failure publishes payload''
     (raise_if (status = 1 \<and> af_entries f \<noteq> []) ''AF absence contradicts preceding list''
     (bind (if status \<in> {5, 7} then
              (case af_entries f of
                 [af] \<Rightarrow> raise_if (af_malformed f af) ''AF payload failure before valid structure'' (Inr ())
               | _ \<Rightarrow> raise ''AF payload failure without unique AF'')
            else Inr ()) (\<lambda>_.
     raise_if (status = 6 \<and> \<not> (1 < length (af_entries f) \<or> list_ex (af_malformed f) (af_entries f)))
       ''AF shape failure without malformed advertised structure''
     (Inr ()))))"

fun read_af :: "bytes list \<Rightarrow> cap_function list \<Rightarrow> nat \<Rightarrow> af_observation list \<Rightarrow>
    (nat \<times> af_observation list \<times> bool) res" where
  \<comment> \<open>\<^verbatim>\<open>for function in caps['functions']\<close>: cursor, observations so far\<close>
  "read_af lines [] cursor obs = Inr (cursor, obs, False)"
| "read_af lines (f # fs) cursor obs =
     raise_if (length lines \<le> cursor) ''truncated AF record''
     (bind (match_ints ''AF record order or framing'' (af_pattern (cf_index f)) (lines ! cursor)) (\<lambda>vs.
     unpack3 vs (\<lambda>status offset v.
     raise_if (7 < status \<or> status = 2 \<or> 255 < offset \<or> 0xffffffff < v)
       ''AF result bounds or impossible argument failure''
     (bind (if status = 0 then af_success_check f offset v
            else af_failure_check f status offset v) (\<lambda>_.
     let obs' = obs @ [\<lparr>ao_index = cf_index f, ao_status = status, ao_offset = offset, ao_raw = v\<rparr>] in
     if status \<noteq> 0 \<and> status \<noteq> 1 then Inr (Suc cursor, obs', True)
     else read_af lines fs (Suc cursor) obs')))))"

definition af_judge ::
  "protocol \<Rightarrow> bytes list \<Rightarrow> nat list \<Rightarrow> unit \<Rightarrow> bytes \<Rightarrow> bytes \<Rightarrow> caps_report \<Rightarrow> af_report res" where
  "af_judge P lines indices s projection prior caps =
     bind (read_af lines (caps_functions caps) (hd indices) []) (\<lambda>(cursor, obs, rejected).
     raise_if (cursor + 1 \<noteq> length lines \<or> \<not> terminal P AF_REASON rejected lines)
       ''AF terminal or trailing records''
     (Inr \<lparr>rep_schema = ''leanos-pci-af-observation-v1'', rep_reason = reason_if rejected AF_REASON,
        rep_claims = [(''failed_reads_replayed'', False), (''reset_performed'', False),
          (''dma_quarantine_established'', False)],
        af_functions = obs\<rparr>))"

definition af_decoder :: "(caps_report, unit, af_report) decoder" where
  "af_decoder =
     \<lparr>d_bounds = ''AF capture bounds'', d_prefix = AF_PREFIX,
      d_absent = missing_if reason_pending AF_REASON ''missing AF records'',
      d_placed = anywhere, d_order = '''', d_scan = no_scan,
      d_prev = extract_pci_caps, d_ready = reason_pending,
      d_without = ''AF without complete capability capture'', d_judge = af_judge\<rparr>"

definition extract_af :: "bytes \<Rightarrow> protocol \<Rightarrow> (bytes \<times> af_report option) res" where
  "extract_af = run_decoder af_decoder"

lemma af_decoder_simps [simp]:
  "d_prefix af_decoder = AF_PREFIX" "d_prev af_decoder = extract_pci_caps"
  "d_ready af_decoder = reason_pending" "d_judge af_decoder = af_judge"
  by (simp_all add: af_decoder_def)

lemma read_af_cursor:
  assumes "read_af lines fs cursor obs = Inr (cursor', obs', rejected)"
  shows "cursor \<le> cursor'" "fs \<noteq> [] \<Longrightarrow> cursor < cursor'"
  using assms
  by (induction fs arbitrary: cursor obs)
    (fastforce simp: res_simps Let_def split: if_splits)+

interpretation pci_af: capture_stage extract_af "\<lambda>l. startswith l AF_PREFIX" reason_pending AF_REASON
  extract_pci_caps reason_pending
  unfolding extract_af_def af_decoder_simps(1-3) [symmetric]
proof (rule run_decoder_stage)
  fix P lines indices s proj prior p r
  assume j: "d_judge af_decoder P lines indices s proj prior p = Inr r" and i: "indices \<noteq> []"
    and "d_prev af_decoder proj P = Inr (prior, Some p)"
  then have "caps_functions p \<noteq> []" by (simp add: caps_functions_nonempty)
  from j obtain cursor obs rejected where
    rd: "read_af lines (caps_functions p) (hd indices) [] = Inr (cursor, obs, rejected)"
    and "cursor + 1 = length lines" "terminal P AF_REASON rejected lines"
    and "rep_reason r = reason_if rejected AF_REASON"
    by (auto simp: af_judge_def res_simps)
  moreover have "hd indices < cursor"
    using read_af_cursor [OF rd] \<open>caps_functions p \<noteq> []\<close> by blast
  ultimately show "inside (length lines) indices \<and> last lines = final_line P (rep_reason r) \<and>
      rep_reason r = (if reason_pending r then PENDING else AF_REASON)"
    by (auto simp: inside_def terminal_def reason_pending_def)
qed simp

subsection \<open>What the observations say\<close>

definition af_agrees :: "cap_function \<Rightarrow> af_observation \<Rightarrow> bool" where
  "af_agrees f ob \<longleftrightarrow> ao_index ob = cf_index f \<and>
     (if ao_status ob = 0 then
        \<exists>af. af_entries f = [af] \<and> ao_offset ob = ce_offset af \<and> \<not> af_malformed f af \<and>
          0 \<le> ao_raw ob \<and> ao_raw ob < 0xffffffff
      else ao_offset ob = 0 \<and> ao_raw ob = 0 \<and> (ao_status ob = 1 \<longrightarrow> af_entries f = []))"

lemma af_pattern_ok: "decimal_pattern (af_pattern i)"
  by (simp add: af_pattern_def)

lemma af_check_agrees:
  assumes "(if status = 0 then af_success_check f offset v else af_failure_check f status offset v) = Inr ()"
    and "0 \<le> v" "v \<le> 0xffffffff"
  shows "af_agrees f \<lparr>ao_index = cf_index f, ao_status = status, ao_offset = offset, ao_raw = v\<rparr>"
  using assms
  by (auto simp: af_agrees_def af_success_check_def af_failure_check_def af_malformed_def res_simps
      split: if_splits list.splits)

lemma read_af_sound:
  assumes "read_af lines fs cursor acc = Inr (cursor', obs, rejected)"
  shows "\<exists>new. obs = acc @ new \<and> length new \<le> length fs \<and>
    list_all2 af_agrees (take (length new) fs) new \<and>
    (\<forall>ob\<in>set (butlast new). ao_status ob \<in> {0, 1}) \<and>
    (rejected \<longleftrightarrow> new \<noteq> [] \<and> ao_status (last new) \<notin> {0, 1}) \<and>
    (\<not> rejected \<longrightarrow> length new = length fs)"
  using assms
proof (induction fs arbitrary: cursor acc)
  case Nil
  then show ?case by auto
next
  case (Cons f fs)
  from Cons.prems obtain status offset v where
    m: "match_ints ''AF record order or framing'' (af_pattern (cf_index f)) (lines ! cursor) =
      Inr [status, offset, v]"
    and "v \<le> 0xffffffff"
    and chk: "(if status = 0 then af_success_check f offset v else af_failure_check f status offset v) = Inr ()"
    and rest: "(let obs' = acc @ [\<lparr>ao_index = cf_index f, ao_status = status, ao_offset = offset, ao_raw = v\<rparr>] in
       if status \<noteq> 0 \<and> status \<noteq> 1 then Inr (Suc cursor, obs', True)
       else read_af lines fs (Suc cursor) obs') = Inr (cursor', obs, rejected)"
    by (auto simp: res_simps simp del: split_paired_Ex)
  let ?ob = "\<lparr>ao_index = cf_index f, ao_status = status, ao_offset = offset, ao_raw = v\<rparr>"
  have "af_agrees f ?ob"
    using af_check_agrees [OF chk] match_ints_line(2) [OF m af_pattern_ok] \<open>v \<le> 0xffffffff\<close> by simp
  show ?case
  proof (cases "status \<in> {0, 1}")
    case False
    with rest \<open>af_agrees f ?ob\<close> show ?thesis by (intro exI [of _ "[?ob]"]) (auto simp: Let_def)
  next
    case True
    with rest have "read_af lines fs (Suc cursor) (acc @ [?ob]) = Inr (cursor', obs, rejected)"
      by (auto simp: Let_def split: if_splits)
    from Cons.IH [OF this] obtain new where
      new: "obs = (acc @ [?ob]) @ new" "length new \<le> length fs"
        "list_all2 af_agrees (take (length new) fs) new" "\<forall>ob\<in>set (butlast new). ao_status ob \<in> {0, 1}"
        "rejected \<longleftrightarrow> new \<noteq> [] \<and> ao_status (last new) \<notin> {0, 1}"
        "\<not> rejected \<longrightarrow> length new = length fs" by blast
    then show ?thesis using True \<open>af_agrees f ?ob\<close> by (intro exI [of _ "?ob # new"]) auto
  qed
qed

lemma extract_af_SomeE:
  assumes "extract_af raw P = Inr (proj, Some r)"
  obtains prior caps cursor rejected k where "extract_pci_caps proj P = Inr (prior, Some caps)"
    "reason_pending caps"
    "read_af (splitlines raw) (caps_functions caps) k [] = Inr (cursor, af_functions r, rejected)"
    "rep_reason r = reason_if rejected AF_REASON"
  using assms unfolding extract_af_def
  by (elim run_decoder_SomeE) (auto simp: af_judge_def res_simps split: if_splits)

text \<open>
  C8.  A complete AF capture agrees with the capability lists it follows: the preceding stage
  accepts the projection with all sixteen lists, there is one observation per function in the
  same order, an observation with status 0 names the function's only, well-formed AF structure
  and one with status 1 belongs to a function that advertises none.
\<close>

theorem af_matches_capabilities:
  assumes "extract_af raw P = Inr (proj, Some r)" and "rep_reason r = PENDING"
  shows "\<exists>prior caps. extract_pci_caps proj P = Inr (prior, Some caps) \<and>
    list_all2 af_agrees (caps_functions caps) (af_functions r) \<and>
    (\<forall>ob\<in>set (af_functions r). ao_status ob \<in> {0, 1})"
  using assms(1)
proof (rule extract_af_SomeE)
  fix prior caps cursor rejected k
  assume prev: "extract_pci_caps proj P = Inr (prior, Some caps)"
    and rd: "read_af (splitlines raw) (caps_functions caps) k [] = Inr (cursor, af_functions r, rejected)"
    and "rep_reason r = reason_if rejected AF_REASON"
  then have "\<not> rejected" using assms(2) by auto
  from read_af_sound [OF rd] this
  have "list_all2 af_agrees (caps_functions caps) (af_functions r)"
    and st: "\<forall>ob\<in>set (butlast (af_functions r)). ao_status ob \<in> {0, 1}"
      "af_functions r \<noteq> [] \<longrightarrow> ao_status (last (af_functions r)) \<in> {0, 1}" by auto
  moreover have "\<forall>ob\<in>set (af_functions r). ao_status ob \<in> {0, 1}"
    using st by (cases "af_functions r" rule: rev_cases) auto
  ultimately show ?thesis using prev by blast
qed

end
