(* ===== verification/Stage_Shapes.thy ===== *)
theory Stage_Shapes
  imports Pci_Caps
begin

text \<open>
  Code that several decoder files repeat with other constants: the extended capability list of
  the two USB controllers, the ownership handoff, the SMI disable, and the clearing of the Bus
  Master Enable bit.  The decoders instantiate these definitions with the constants of their
  own file.
\<close>

unbundle bit_operations_syntax

abbreviation U32 :: int where "U32 \<equiv> 0xffffffff"

record legacy_report = status_report +
  leg_headers :: "cap_entry list"
  leg_offset :: int
  leg_control :: int

record handoff_observation = status_report +
  ho_attempted :: int
  ho_polls :: int
  ho_support :: int
  ho_control :: int

record control_report = status_report +
  ctl_attempted :: int
  ctl_before :: int
  ctl_after :: int

record bme_report = status_report +
  bme_attempted :: int
  bme_before :: int
  bme_after :: int

subsection \<open>Extended capability lists\<close>

record ext_limits =
  ext_low :: int
  ext_high :: int
  ext_legacy_high :: int
  ext_next :: "int \<Rightarrow> int \<Rightarrow> int"   \<comment> \<open>the link after an entry at an address\<close>

definition ext_pattern :: "bytes \<Rightarrow> nat \<Rightarrow> item list" where
  "ext_pattern ENTRY i =
     [Lit (ENTRY @ ''index='' @ decimal i @ '' offset=''), DEC, Lit '' raw='', DEC, Lit NL]"

fun read_ext :: "ext_limits \<Rightarrow> bytes \<Rightarrow> bytes list \<Rightarrow> nat \<Rightarrow> nat \<Rightarrow> nat \<Rightarrow> int \<Rightarrow> cap_entry list \<Rightarrow> int \<Rightarrow>
    (int \<times> cap_entry list \<times> int) res" where
  \<comment> \<open>\<^verbatim>\<open>for i in range(count)\<close>: entries left, next index, next line, expected link, entries so far
    and the offset of the legacy structure (0 while there is none)\<close>
  "read_ext lim ENTRY lines 0 i cursor expected entries legacy = Inr (expected, entries, legacy)"
| "read_ext lim ENTRY lines (Suc left) i cursor expected entries legacy =
     raise_if (length lines \<le> cursor) ''truncated legacy list''
     (bind (match_ints ''extended header order or framing'' (ext_pattern ENTRY i) (lines ! cursor)) (\<lambda>vs.
     unpack2 vs (\<lambda>address v.
     raise_if (address \<noteq> expected \<or> address < ext_low lim \<or> ext_high lim < address \<or>
         address AND 3 \<noteq> 0 \<or> address \<in> set (map ce_offset entries) \<or> U32 < v \<or>
         v AND 255 \<in> {0, 255})
       ''extended link bounds, cycle or ID''
     (raise_if (v AND 255 = 1 \<and> (legacy \<noteq> 0 \<or> ext_legacy_high lim < address))
       ''duplicate or out-of-bounds legacy structure''
     (read_ext lim ENTRY lines left (Suc i) (Suc cursor) (ext_next lim address v)
       (entries @ [\<lparr>ce_offset = address, ce_raw = v\<rparr>])
       (if v AND 255 = 1 then address else legacy))))))"

definition legacy_list :: "ext_limits \<Rightarrow> bytes \<Rightarrow> bytes list \<Rightarrow> nat \<Rightarrow> int \<Rightarrow> int \<Rightarrow> int \<Rightarrow> int \<Rightarrow> cap_entry list res" where
  \<comment> \<open>the branch \<^verbatim>\<open>status == 0\<close>: from the line after the summary at \<open>start\<close>\<close>
  "legacy_list lim ENTRY lines start first count offset control =
     bind (read_ext lim ENTRY lines (nat count) 0 (start + 1) first [] 0) (\<lambda>(expected, entries, legacy).
     raise_if (expected \<noteq> 0 \<or> offset \<noteq> legacy \<or>
         (legacy \<noteq> 0 \<and> legacy + 4 \<in> set (map ce_offset entries)))
       ''extended termination, selected legacy or overlap''
     (raise_if ((legacy = 0 \<and> control \<noteq> 0) \<or> control = U32)
       ''legacy control without structure or absent read''
     (Inr entries)))"

definition legacy_absent ::
  "bytes \<Rightarrow> bytes \<Rightarrow> protocol \<Rightarrow> bytes list \<Rightarrow> 'p status_report_scheme option \<Rightarrow> unit res" where
  "legacy_absent ENTRY reason P lines caps =
     raise_if (case caps of None \<Rightarrow> False | Some c \<Rightarrow> rep_status c = 0) ''missing legacy list''
     (raise_if (list_ex (\<lambda>l. startswith l ENTRY) lines \<or> last lines = final_line P reason)
       ''legacy entries without summary''
     (Inr ()))"

subsection \<open>Ownership handoff\<close>

definition handoff_valid :: "int list \<Rightarrow> int \<Rightarrow> int \<Rightarrow> int \<Rightarrow> int \<Rightarrow> int \<Rightarrow> int \<Rightarrow> bool" where
  \<comment> \<open>\<open>bare\<close> is the support register without owner bits; 0x10000 is the firmware's semaphore
    and 0x1000000 the system's\<close>
  "handoff_valid untouched bare status attempted polls support control \<longleftrightarrow>
     (if status \<in> set untouched then (attempted, polls, support, control) = (0, 0, 0, 0)
      else if status = 0 then
        attempted = 1 \<and> 1 \<le> polls \<and> support = bare + 0x1000000 \<and> control \<noteq> U32
      else if status = 5 then (attempted, polls, support, control) = (1, 0, bare + 0x10000, 0)
      else if status = 6 then
        attempted = 1 \<and> polls < 100 \<and> control = 0 \<and>
        support = (if polls = 0 then bare + 0x10000 else bare + 0x1010000)
      else if status = 7 then
        attempted = 1 \<and> 1 \<le> polls \<and> control = 0 \<and>
        support = (if polls = 1 then bare + 0x10000 else bare + 0x1010000)
      else if status = 8 then
        attempted = 1 \<and> 1 \<le> polls \<and> control = 0 \<and>
        (support AND NOT 0x1010000 \<noteq> bare \<or> support AND 0x1000000 = 0)
      else if status = 9 then (attempted, polls, support, control) = (1, 100, bare + 0x1010000, 0)
      else
        attempted = 1 \<and> 1 \<le> polls \<and> control = 0 \<and>
        support \<in> {bare, bare + 0x10000, bare + 0x1000000, bare + 0x1010000})"

subsection \<open>SMI disable\<close>

definition smi_valid :: "int list \<Rightarrow> int \<Rightarrow> int \<Rightarrow> int \<Rightarrow> int \<Rightarrow> int \<Rightarrow> int \<Rightarrow> int \<Rightarrow> bool" where
  "smi_valid untouched ENABLE STATUS control status attempted before after \<longleftrightarrow>
     (if status \<in> set untouched then (attempted, before, after) = (0, 0, 0)
      else attempted = 1 \<and> before AND NOT (ENABLE OR STATUS) = 0 \<and> (before XOR control) AND ENABLE = 0 \<and>
        (if status = 0 then after AND NOT STATUS = 0
         else if status \<in> {5, 6} then after = 0
         else after \<noteq> U32 \<and> after AND NOT STATUS \<noteq> 0))"

definition control_pattern :: "bytes \<Rightarrow> item list" where
  \<comment> \<open>status, attempted, before and after\<close>
  "control_pattern head =
     [Lit (head @ '' status=''), DEC, Lit '' attempted='', DEC, Lit '' before='', DEC,
      Lit '' after='', DEC, Lit NL]"

definition smi_judge ::
  "bytes \<Rightarrow> int \<Rightarrow> (int \<Rightarrow> bool) \<Rightarrow> int list \<Rightarrow> int \<Rightarrow> int \<Rightarrow> string \<Rightarrow> bytes \<Rightarrow>
   protocol \<Rightarrow> bytes list \<Rightarrow> nat list \<Rightarrow> unit \<Rightarrow> bytes \<Rightarrow> bytes \<Rightarrow> 'h handoff_observation_scheme \<Rightarrow>
   control_report res" where
  "smi_judge head max_status armed untouched ENABLE STATUS schema reason P lines indices s
      projection prior handoff =
     bind (match_ints ''SMI record framing'' (control_pattern head) (lines ! hd indices)) (\<lambda>vs.
     unpack4 vs (\<lambda>status attempted before after.
     raise_if (max_status < status \<or> status \<in> {1, 2} \<or> 1 < attempted \<or> U32 < max before after)
       ''SMI bounds or impossible native status''
     (raise_if (status < 8 \<and> \<not> armed (ho_control handoff)) ''SMI writer armed with reserved control bits''
     (raise_if (\<not> smi_valid untouched ENABLE STATUS (ho_control handoff) status attempted before after \<or>
         \<not> terminal P reason (status \<noteq> 0) lines) ''SMI result/terminal contradiction''
     (Inr \<lparr>rep_schema = schema, rep_reason = reason_if (status \<noteq> 0) reason,
        rep_claims = [(''hardware_operations_replayed'', False),
          (''firmware_exclusion_established'', False), (''dma_quarantine_established'', False)],
        rep_status = status, ctl_attempted = attempted, ctl_before = before, ctl_after = after\<rparr>)))))"

subsection \<open>Clearing Bus Master Enable\<close>

definition bme_valid :: "int list \<Rightarrow> int \<Rightarrow> int \<Rightarrow> int \<Rightarrow> int \<Rightarrow> int \<Rightarrow> int \<Rightarrow> bool" where
  \<comment> \<open>\<open>on\<close> is the Command register before the write and \<open>off\<close> the one expected after it\<close>
  "bme_valid untouched on off status attempted before after \<longleftrightarrow>
     (if status \<in> set untouched then (attempted, before, after) = (0, 0, 0)
      else attempted = 1 \<and> before = on \<and>
        (if status = 0 then after = off
         else if status = 6 then after = 0
         else if status = 7 then after \<noteq> off
         else True))"

definition command_bound :: "protocol \<Rightarrow> nat \<Rightarrow> bytes list \<Rightarrow> int \<Rightarrow> unit res" where
  \<comment> \<open>the captured header holds the Command register the write starts from\<close>
  "command_bound P index lines on =
     (case header_lines P index lines of
        [line] \<Rightarrow> bind (header_command P index line) (\<lambda>c.
          raise_if (c AND 0xffff \<noteq> on) ''BME write authority without captured Command'' (Inr ()))
      | _ \<Rightarrow> raise ''BME write authority without captured Command'')"

definition bme_judge ::
  "bytes \<Rightarrow> nat \<Rightarrow> int \<Rightarrow> ('p \<Rightarrow> bool) \<Rightarrow> string \<Rightarrow> int list \<Rightarrow> int \<Rightarrow> int \<Rightarrow> string \<Rightarrow> bytes \<Rightarrow>
   protocol \<Rightarrow> bytes list \<Rightarrow> nat list \<Rightarrow> unit \<Rightarrow> bytes \<Rightarrow> bytes \<Rightarrow> 'p \<Rightarrow> bme_report res" where
  "bme_judge head index max_status stopped unstopped untouched on off schema reason P lines indices s
      projection prior previous =
     bind (match_ints ''BME framing'' (control_pattern head) (lines ! hd indices)) (\<lambda>vs.
     unpack4 vs (\<lambda>status attempted before after.
     raise_if (max_status < status \<or> status \<in> {1, 2} \<or> 1 < attempted \<or> 65535 < max before after)
       ''BME scalar bounds or impossible native status''
     (bind (if status < 9 then
              raise_if (\<not> stopped previous) unstopped (command_bound P index lines on)
            else Inr ()) (\<lambda>_.
     raise_if (\<not> bme_valid untouched on off status attempted before after \<or>
         \<not> terminal P reason (status \<noteq> 0) lines) ''BME result/terminal contradiction''
     (Inr \<lparr>rep_schema = schema, rep_reason = reason_if (status \<noteq> 0) reason,
        rep_claims = [(''hardware_operations_replayed'', False),
          (''firmware_exclusion_established'', False), (''dma_quarantine_established'', False)],
        rep_status = status, bme_attempted = attempted, bme_before = before, bme_after = after\<rparr>)))))"

subsection \<open>Lemmas\<close>

lemma control_pattern_ok: "decimal_pattern (control_pattern head)" "delimited (control_pattern head)"
  by (simp_all add: control_pattern_def is_digit_def)

lemma smi_judge_closes:
  "smi_judge head mx armed untouched en st schema reason P lines indices s proj prior p = Inr r \<Longrightarrow>
     closes P reason lines r"
  by (auto simp: smi_judge_def res_simps closes_def)

lemma bme_judge_closes:
  "bme_judge head index mx stopped msg untouched on off schema reason P lines indices s proj prior p = Inr r \<Longrightarrow>
     closes P reason lines r"
  by (auto simp: bme_judge_def res_simps closes_def)

text \<open>A completed clear starts from the expected Command, ends in the expected one, and is bound
  to the state of the stage before it and to the captured header.\<close>

lemma bme_judge_cleared:
  assumes "bme_judge head index mx stopped msg untouched on off schema reason P lines indices s proj prior p = Inr r"
    and "rep_status r = 0" "0 \<notin> set untouched"
  shows "bme_attempted r = 1" "bme_before r = on" "bme_after r = off" "stopped p"
    "\<exists>line c. header_lines P index lines = [line] \<and> header_command P index line = Inr c \<and> c AND 0xffff = on"
proof -
  from assms(1) obtain status attempted before after where
    b: "(if status < 9 then raise_if (\<not> stopped p) msg (command_bound P index lines on) else Inr ()) = Inr ()"
    and v: "bme_valid untouched on off status attempted before after"
    and r: "rep_status r = status" "bme_attempted r = attempted" "bme_before r = before" "bme_after r = after"
    unfolding bme_judge_def by (elim res_elims) (rule that, (assumption | force)+)
  have "status = 0" using assms(2) r by simp
  with v assms(3) r show "bme_attempted r = 1" "bme_before r = on" "bme_after r = off"
    by (simp_all add: bme_valid_def)
  from b \<open>status = 0\<close> have "stopped p" "command_bound P index lines on = Inr ()"
    by (simp_all add: res_simps)
  then show "stopped p"
    "\<exists>line c. header_lines P index lines = [line] \<and> header_command P index line = Inr c \<and> c AND 0xffff = on"
    by (auto simp: command_bound_def res_simps split: list.splits)
qed

lemma smi_judge_disabled:
  assumes "smi_judge head mx armed untouched en st schema reason P lines indices s proj prior p = Inr r"
    and "rep_status r = 0" "0 \<notin> set untouched"
  shows "ctl_attempted r = 1" "ctl_before r AND NOT (en OR st) = 0"
    "(ctl_before r XOR ho_control p) AND en = 0" "ctl_after r AND NOT st = 0" "armed (ho_control p)"
proof -
  from assms(1) obtain status attempted before after where
    a: "\<not> (status < 8 \<and> \<not> armed (ho_control p))"
    and v: "smi_valid untouched en st (ho_control p) status attempted before after"
    and r: "rep_status r = status" "ctl_attempted r = attempted" "ctl_before r = before" "ctl_after r = after"
    unfolding smi_judge_def by (elim res_elims) (rule that, (assumption | force)+)
  have "status = 0" using assms(2) r by simp
  with v assms(3) r show "ctl_attempted r = 1" "ctl_before r AND NOT (en OR st) = 0"
    "(ctl_before r XOR ho_control p) AND en = 0" "ctl_after r AND NOT st = 0"
    unfolding smi_valid_def by (simp_all only: if_True if_False simp_thms)
  show "armed (ho_control p)" using a \<open>status = 0\<close> by simp
qed

text \<open>The links of an accepted list.\<close>

fun ext_path :: "ext_limits \<Rightarrow> int \<Rightarrow> cap_entry list \<Rightarrow> int \<Rightarrow> bool" where
  "ext_path lim a [] b = (a = b)"
| "ext_path lim a (e # es) b = (ce_offset e = a \<and> ext_path lim (ext_next lim (ce_offset e) (ce_raw e)) es b)"

definition ext_entry_ok :: "ext_limits \<Rightarrow> cap_entry \<Rightarrow> bool" where
  "ext_entry_ok lim e \<longleftrightarrow> ext_low lim \<le> ce_offset e \<and> ce_offset e \<le> ext_high lim \<and>
     4 dvd ce_offset e \<and> 0 \<le> ce_raw e \<and> ce_raw e \<le> U32 \<and> ce_raw e AND 255 \<notin> {0, 255}"

definition legacy_entries :: "cap_entry list \<Rightarrow> cap_entry list" where
  "legacy_entries es = filter (\<lambda>e. ce_raw e AND 255 = 1) es"

definition legacy_of :: "cap_entry list \<Rightarrow> int" where
  "legacy_of es = (case legacy_entries es of [] \<Rightarrow> 0 | e # _ \<Rightarrow> ce_offset e)"

lemma ext_pattern_ok: "decimal_pattern (ext_pattern ENTRY i)" "delimited (ext_pattern ENTRY i)"
  by (simp_all add: ext_pattern_def is_digit_def)

lemma and_3_dvd: "x AND 3 = 0 \<longleftrightarrow> 4 dvd (x :: int)"
  using and_mask_mod [of x 2] by (simp add: mod_eq_0_iff_dvd mask_eq_exp_minus_1)

definition legacy_state :: "cap_entry list \<Rightarrow> int \<Rightarrow> bool" where
  \<comment> \<open>at most one legacy structure, at the recorded offset\<close>
  "legacy_state es legacy \<longleftrightarrow> legacy_of es = legacy \<and> length (legacy_entries es) \<le> 1 \<and>
     (legacy = 0 \<longleftrightarrow> legacy_entries es = [])"

lemma legacy_state_snoc:
  assumes "legacy_state es legacy" "v AND 255 = 1 \<longrightarrow> legacy = 0" "a \<noteq> 0"
  shows "legacy_state (es @ [\<lparr>ce_offset = a, ce_raw = v\<rparr>]) (if v AND 255 = 1 then a else legacy)"
  using assms by (auto simp: legacy_state_def legacy_of_def legacy_entries_def split: list.splits)

lemma read_ext_sound:
  assumes "read_ext lim ENTRY lines left i cursor expected acc legacy = Inr (expected', entries, legacy')"
    and "distinct (map ce_offset acc)" "legacy_state acc legacy" "0 < ext_low lim"
  shows "\<exists>new. entries = acc @ new \<and> length new = left \<and> ext_path lim expected new expected' \<and>
    distinct (map ce_offset entries) \<and> (\<forall>e\<in>set new. ext_entry_ok lim e) \<and> legacy_state entries legacy'"
  using assms(1-3)
proof (induction left arbitrary: i cursor expected acc legacy)
  case 0
  then show ?case by auto
next
  case (Suc left)
  from Suc.prems(1) obtain address v where
    f: "match_ints ''extended header order or framing'' (ext_pattern ENTRY i) (lines ! cursor) = Inr [address, v]"
    and g: "address = expected" "ext_low lim \<le> address" "address \<le> ext_high lim" "4 dvd address"
      "address \<notin> set (map ce_offset acc)" "v \<le> U32" "v AND 255 \<notin> {0, 255}"
    and l: "v AND 255 = 1 \<longrightarrow> legacy = 0"
    and r: "read_ext lim ENTRY lines left (Suc i) (Suc cursor) (ext_next lim address v)
      (acc @ [\<lparr>ce_offset = address, ce_raw = v\<rparr>]) (if v AND 255 = 1 then address else legacy) =
      Inr (expected', entries, legacy')"
    unfolding read_ext.simps
    by (elim res_elims) (rule that, (assumption | force simp: and_3_dvd)+)
  let ?e = "\<lparr>ce_offset = address, ce_raw = v\<rparr>"
  have "0 \<le> v" using match_ints_line(2) [OF f ext_pattern_ok(1)] by simp
  have "address \<noteq> 0" using g(2) assms(4) by simp
  have "distinct (map ce_offset (acc @ [?e]))" using Suc.prems(2) g(5) by simp
  from Suc.IH [OF r this legacy_state_snoc [OF Suc.prems(3) l \<open>address \<noteq> 0\<close>]] obtain new where
    "entries = (acc @ [?e]) @ new" "length new = left" "ext_path lim (ext_next lim address v) new expected'"
    "distinct (map ce_offset entries)" "\<forall>e\<in>set new. ext_entry_ok lim e" "legacy_state entries legacy'"
    by blast
  moreover have "ext_entry_ok lim ?e" using g \<open>0 \<le> v\<close> by (simp add: ext_entry_ok_def)
  ultimately show ?case using g(1) by (intro exI [of _ "?e # new"]) simp
qed

text \<open>A terminated, acyclic list inside its window, with its legacy structure.\<close>

definition ext_list_ok :: "ext_limits \<Rightarrow> int \<Rightarrow> cap_entry list \<Rightarrow> int \<Rightarrow> bool" where
  "ext_list_ok lim first es legacy \<longleftrightarrow> ext_path lim first es 0 \<and> distinct (map ce_offset es) \<and>
     (\<forall>e\<in>set es. ext_entry_ok lim e) \<and> legacy_of es = legacy \<and> length (legacy_entries es) \<le> 1 \<and>
     (legacy \<noteq> 0 \<longrightarrow> legacy + 4 \<notin> set (map ce_offset es))"

lemma legacy_list_sound:
  assumes "legacy_list lim ENTRY lines start first count offset control = Inr es" "0 < ext_low lim"
  shows "ext_list_ok lim first es offset" "length es = nat count" "control \<noteq> U32"
proof -
  from assms(1) obtain expected legacy where
    r: "read_ext lim ENTRY lines (nat count) 0 (start + 1) first [] 0 = Inr (expected, es, legacy)"
    and "expected = 0" "offset = legacy" "legacy \<noteq> 0 \<longrightarrow> legacy + 4 \<notin> set (map ce_offset es)" "control \<noteq> U32"
    unfolding legacy_list_def by (elim res_elims) (rule that, (assumption | force)+)
  moreover have "legacy_state [] 0" by (simp add: legacy_state_def legacy_of_def legacy_entries_def)
  ultimately show "ext_list_ok lim first es offset" "length es = nat count" "control \<noteq> U32"
    using read_ext_sound [OF r _ _ assms(2)] by (auto simp: ext_list_ok_def legacy_state_def)
qed

end
