(* ===== verification/Ehci.thy ===== *)
theory Ehci
  imports Pci_AF Stage_Shapes
begin

text \<open>
  The six EHCI stages: \<^verbatim>\<open>check-qotom-ehci-capture.py\<close> (capability registers),
  \<^verbatim>\<open>-legacy-\<close> (extended list), \<^verbatim>\<open>-handoff-\<close> (ownership), \<^verbatim>\<open>-smi-\<close> (SMI disable),
  \<^verbatim>\<open>-operational-\<close> (stopped sample) and \<^verbatim>\<open>-bme-\<close> (Bus Master Enable).  Each calls the one
  before it; the first calls the AF decoder.
\<close>

unbundle bit_operations_syntax

subsection \<open>Capability registers\<close>

record ehci_caps_report = status_report +
  ehci_capbase :: int
  ehci_structural :: int
  ehci_capability :: int

definition EHCI_CAPS :: bytes where "EHCI_CAPS = ''LEANOS-LAB/1 EHCI-CAPS ''"
abbreviation EHCI_CAPS_REASON :: bytes where "EHCI_CAPS_REASON \<equiv> ''qotom-ehci-capabilities''"

definition ehci_caps_pattern :: "item list" where
  "ehci_caps_pattern =
     [Lit (EHCI_CAPS @ ''profile=qotom-ehci-v1 index=10 status=''), DEC, Lit '' capbase='', DEC,
      Lit '' structural='', DEC, Lit '' capability='', DEC, Lit NL]"

definition ehci_caps_absent :: "protocol \<Rightarrow> bytes list \<Rightarrow> af_report option \<Rightarrow> unit res" where
  "ehci_caps_absent P lines af =
     raise_if (case af of None \<Rightarrow> False | Some a \<Rightarrow> reason_pending a) ''missing EHCI capability record''
     (raise_if (last lines = final_line P EHCI_CAPS_REASON) ''EHCI fault without complete observation''
     (Inr ()))"

definition ehci_caps_judge ::
  "protocol \<Rightarrow> bytes list \<Rightarrow> nat list \<Rightarrow> unit \<Rightarrow> bytes \<Rightarrow> bytes \<Rightarrow> af_report \<Rightarrow> ehci_caps_report res" where
  "ehci_caps_judge P lines indices s projection prior af =
     bind (match_ints ''EHCI record framing'' ehci_caps_pattern (lines ! hd indices)) (\<lambda>vs.
     unpack4 vs (\<lambda>status capbase structural capability.
     raise_if (8 < status \<or> status \<in> {1, 2} \<or> U32 < capbase \<or> U32 < structural \<or> U32 < capability)
       ''EHCI status or scalar bounds''
     (raise_if (status = 0 \<and> (drop_bit 16 capbase \<noteq> 0x100 \<or> capbase AND 0xff00 \<noteq> 0 \<or>
         capbase AND 255 < 16 \<or> (capbase AND 255) AND 3 \<noteq> 0 \<or> structural AND 15 = 0 \<or>
         U32 \<in> {capbase, structural, capability})) ''EHCI capability format''
     (raise_if (status \<noteq> 0 \<and> (capbase \<noteq> 0 \<or> structural \<noteq> 0 \<or> capability \<noteq> 0))
       ''EHCI failure publishes partial sample''
     (raise_if (\<not> terminal P EHCI_CAPS_REASON (status \<noteq> 0) lines) ''EHCI terminal mismatch''
     (Inr \<lparr>rep_schema = ''leanos-qotom-ehci-capability-observation-v1'',
        rep_reason = reason_if (status \<noteq> 0) EHCI_CAPS_REASON,
        rep_claims = [(''failed_reads_replayed'', False), (''ownership_established'', False),
          (''dma_quarantine_established'', False)],
        rep_status = status, ehci_capbase = capbase, ehci_structural = structural,
        ehci_capability = capability\<rparr>))))))"

definition ehci_caps_decoder :: "(af_report, unit, ehci_caps_report) decoder" where
  "ehci_caps_decoder =
     \<lparr>d_bounds = ''EHCI capture bounds'', d_prefix = EHCI_CAPS, d_absent = ehci_caps_absent,
      d_placed = one_before_last, d_order = ''EHCI record order or count'', d_scan = no_scan,
      d_prev = extract_af, d_ready = reason_pending,
      d_without = ''EHCI capture before complete AF observation'', d_judge = ehci_caps_judge\<rparr>"

definition extract_ehci_caps :: "bytes \<Rightarrow> protocol \<Rightarrow> (bytes \<times> ehci_caps_report option) res" where
  "extract_ehci_caps = run_decoder ehci_caps_decoder"

subsection \<open>Extended list\<close>

definition EHCI_LEGACY :: bytes where "EHCI_LEGACY = ''LEANOS-LAB/1 EHCI-LEGACY ''"
definition EHCI_EXT :: bytes where "EHCI_EXT = ''LEANOS-LAB/1 EHCI-EXT ''"
abbreviation EHCI_LEGACY_REASON :: bytes where "EHCI_LEGACY_REASON \<equiv> ''qotom-ehci-legacy''"

definition ehci_legacy_pattern :: "item list" where
  "ehci_legacy_pattern =
     [Lit (EHCI_LEGACY @ ''profile=qotom-legacy-v1 index=10 status=''), DEC, Lit '' count='', DEC,
      Lit '' offset='', DEC, Lit '' control='', DEC, Lit NL]"

definition ehci_ext_limits :: ext_limits where
  "ehci_ext_limits =
     \<lparr>ext_low = 64, ext_high = 252, ext_legacy_high = 248,
      ext_next = (\<lambda>address v. drop_bit 8 v AND 255)\<rparr>"

definition ehci_legacy_judge ::
  "protocol \<Rightarrow> bytes list \<Rightarrow> nat list \<Rightarrow> unit \<Rightarrow> bytes \<Rightarrow> bytes \<Rightarrow> ehci_caps_report \<Rightarrow> legacy_report res" where
  "ehci_legacy_judge P lines indices s projection prior caps =
     (let start = hd indices in
     bind (match_ints ''legacy summary framing'' ehci_legacy_pattern (lines ! start)) (\<lambda>vs.
     unpack4 vs (\<lambda>status count offset control.
     raise_if (11 < status \<or> status = 1 \<or> 48 < count \<or> 255 < offset \<or> U32 < control)
       ''legacy scalar bounds''
     (bind (if status \<noteq> 0 then
              raise_if (count \<noteq> 0 \<or> offset \<noteq> 0 \<or> control \<noteq> 0)
                ''legacy rejection publishes partial observation'' (Inr [])
            else legacy_list ehci_ext_limits EHCI_EXT lines start
              (drop_bit 8 (ehci_capability caps) AND 255) count offset control) (\<lambda>headers.
     raise_if (start + 1 + nat count + 1 \<noteq> length lines \<or> \<not> terminal P EHCI_LEGACY_REASON (status \<noteq> 0) lines)
       ''legacy terminal or trailing data''
     (Inr \<lparr>rep_schema = ''leanos-qotom-ehci-legacy-observation-v1'',
        rep_reason = reason_if (status \<noteq> 0) EHCI_LEGACY_REASON,
        rep_claims = [(''failed_reads_replayed'', False), (''ownership_established'', False),
          (''dma_quarantine_established'', False)],
        rep_status = status, leg_headers = headers, leg_offset = offset, leg_control = control\<rparr>))))))"

definition ehci_legacy_decoder :: "(ehci_caps_report, unit, legacy_report) decoder" where
  "ehci_legacy_decoder =
     \<lparr>d_bounds = ''EHCI legacy capture bounds'', d_prefix = EHCI_LEGACY,
      d_absent = legacy_absent EHCI_EXT EHCI_LEGACY_REASON,
      d_placed = single, d_order = ''duplicate legacy summary'', d_scan = no_scan,
      d_prev = extract_ehci_caps, d_ready = status_zero,
      d_without = ''legacy list without complete EHCI capability observation'',
      d_judge = ehci_legacy_judge\<rparr>"

definition extract_ehci_legacy :: "bytes \<Rightarrow> protocol \<Rightarrow> (bytes \<times> legacy_report option) res" where
  "extract_ehci_legacy = run_decoder ehci_legacy_decoder"

subsection \<open>Ownership handoff\<close>

definition EHCI_HANDOFF :: bytes where "EHCI_HANDOFF = ''LEANOS-LAB/1 EHCI-HANDOFF ''"
abbreviation EHCI_HANDOFF_REASON :: bytes where "EHCI_HANDOFF_REASON \<equiv> ''qotom-ehci-handoff''"

definition ehci_handoff_pattern :: "item list" where
  "ehci_handoff_pattern =
     [Lit (EHCI_HANDOFF @ ''profile=qotom-handoff-v1 index=10 status=''), DEC, Lit '' attempted='', DEC,
      Lit '' polls='', DEC, Lit '' support='', DEC, Lit '' control='', DEC, Lit NL]"

definition ehci_writer_binding :: "legacy_report \<Rightarrow> ehci_caps_report option \<Rightarrow> unit res" where
  \<comment> \<open>the writer is bound to one list and one set of capability registers; subscripting a
    missing report raises TypeError\<close>
  "ehci_writer_binding legacy caps =
     raise_if (leg_headers legacy \<noteq> [\<lparr>ce_offset = 104, ce_raw = 65537\<rparr>] \<or>
         leg_offset legacy \<noteq> 104 \<or> leg_control legacy \<noteq> 0x82005)
       ''handoff without exact writer binding''
     (case caps of None \<Rightarrow> Inl TypeError
      | Some c \<Rightarrow>
         raise_if (ehci_capbase c \<noteq> 0x1000020 \<or> ehci_structural c \<noteq> 0x200008 \<or>
             ehci_capability c \<noteq> 0x36881)
           ''handoff without exact writer binding'' (Inr ()))"

definition ehci_handoff_judge ::
  "protocol \<Rightarrow> bytes list \<Rightarrow> nat list \<Rightarrow> unit \<Rightarrow> bytes \<Rightarrow> bytes \<Rightarrow> legacy_report \<Rightarrow> handoff_observation res" where
  "ehci_handoff_judge P lines indices s projection cap_projection legacy =
     bind (extract_ehci_caps cap_projection P) (\<lambda>(_, caps).
     bind (match_ints ''handoff framing'' ehci_handoff_pattern (lines ! hd indices)) (\<lambda>vs.
     unpack5 vs (\<lambda>status attempted polls support control.
     raise_if (13 < status \<or> status \<in> {1, 4} \<or> 1 < attempted \<or> 100 < polls \<or> U32 < support \<or> U32 < control)
       ''handoff scalar bounds or impossible native status''
     (bind (if status < 11 then ehci_writer_binding legacy caps else Inr ()) (\<lambda>_.
     raise_if (\<not> handoff_valid [2, 3, 11, 12, 13] 1 status attempted polls support control \<or>
         \<not> terminal P EHCI_HANDOFF_REASON (status \<noteq> 0) lines)
       ''handoff result/terminal contradiction''
     (Inr \<lparr>rep_schema = ''leanos-qotom-ehci-handoff-observation-v1'',
        rep_reason = reason_if (status \<noteq> 0) EHCI_HANDOFF_REASON,
        rep_claims = [(''hardware_operations_replayed'', False),
          (''firmware_exclusion_established'', False), (''dma_quarantine_established'', False)],
        rep_status = status, ho_attempted = attempted, ho_polls = polls, ho_support = support,
        ho_control = control\<rparr>))))))"

definition extract_ehci_handoff :: "bytes \<Rightarrow> protocol \<Rightarrow> (bytes \<times> handoff_observation option) res" where
  "extract_ehci_handoff = run_decoder (status_stage ''handoff capture bounds'' EHCI_HANDOFF
     EHCI_HANDOFF_REASON ''missing handoff observation'' ''handoff record order or duplicates''
     extract_ehci_legacy ''handoff without successful legacy capture'' ehci_handoff_judge)"

subsection \<open>SMI disable\<close>

definition EHCI_SMI :: bytes where "EHCI_SMI = ''LEANOS-LAB/1 EHCI-SMI ''"
abbreviation EHCI_SMI_REASON :: bytes where "EHCI_SMI_REASON \<equiv> ''qotom-ehci-smi''"
definition EHCI_ENABLE :: int where "EHCI_ENABLE = 0xe03f"
definition EHCI_STATUS :: int where "EHCI_STATUS = 0xe03f0000"

definition extract_ehci_smi :: "bytes \<Rightarrow> protocol \<Rightarrow> (bytes \<times> control_report option) res" where
  "extract_ehci_smi = run_decoder (status_stage ''SMI capture bounds'' EHCI_SMI EHCI_SMI_REASON
     ''missing SMI observation'' ''SMI record order or duplicates''
     extract_ehci_handoff ''SMI write without successful handoff observation''
     (smi_judge (EHCI_SMI @ ''profile=qotom-smi-v1 index=10'') 9
       (\<lambda>control. control AND NOT (EHCI_ENABLE OR EHCI_STATUS) = 0) [3, 4, 8, 9]
       EHCI_ENABLE EHCI_STATUS ''leanos-qotom-ehci-smi-observation-v1'' EHCI_SMI_REASON))"

subsection \<open>Operational sample\<close>

record ehci_operational_report = status_report +
  ehci_command :: int
  ehci_status_register :: int
  ehci_interrupt_enable :: int
  ehci_configured :: int

definition EHCI_OPERATIONAL :: bytes where "EHCI_OPERATIONAL = ''LEANOS-LAB/1 EHCI-OPERATIONAL ''"
abbreviation EHCI_OPERATIONAL_REASON :: bytes where "EHCI_OPERATIONAL_REASON \<equiv> ''qotom-ehci-operational''"

definition ehci_operational_pattern :: "item list" where
  "ehci_operational_pattern =
     [Lit (EHCI_OPERATIONAL @ ''profile=qotom-operational-v1 index=10 status=''), DEC, Lit '' command='', DEC,
      Lit '' status_register='', DEC, Lit '' interrupt_enable='', DEC, Lit '' configured='', DEC, Lit NL]"

definition ehci_operational_judge ::
  "protocol \<Rightarrow> bytes list \<Rightarrow> nat list \<Rightarrow> unit \<Rightarrow> bytes \<Rightarrow> bytes \<Rightarrow> control_report \<Rightarrow>
   ehci_operational_report res" where
  "ehci_operational_judge P lines indices s projection prior smi =
     bind (match_ints ''operational framing'' ehci_operational_pattern (lines ! hd indices)) (\<lambda>vs.
     unpack5 vs (\<lambda>status command sampled interrupts configured.
     let vals = [command, sampled, interrupts, configured] in
     raise_if (9 < status \<or> status \<in> {1, 2} \<or> list_ex (\<lambda>v. U32 < v) vals)
       ''operational scalar bounds or impossible native status''
     (raise_if ((status \<noteq> 0 \<and> list_ex (\<lambda>v. v \<noteq> 0) vals) \<or> (status = 0 \<and> U32 \<in> set vals))
       ''operational failed publication or absent device''
     (raise_if (\<not> terminal P EHCI_OPERATIONAL_REASON (status \<noteq> 0) lines)
       ''operational terminal contradiction''
     (Inr \<lparr>rep_schema = ''leanos-qotom-ehci-operational-observation-v1'',
        rep_reason = reason_if (status \<noteq> 0) EHCI_OPERATIONAL_REASON,
        rep_claims = [(''hardware_operations_replayed'', False), (''atomic_snapshot'', False),
          (''dma_quarantine_established'', False), (''firmware_exclusion_established'', False)],
        rep_status = status, ehci_command = command, ehci_status_register = sampled,
        ehci_interrupt_enable = interrupts, ehci_configured = configured\<rparr>)))))"

definition extract_ehci_operational ::
  "bytes \<Rightarrow> protocol \<Rightarrow> (bytes \<times> ehci_operational_report option) res" where
  "extract_ehci_operational = run_decoder (status_stage ''operational capture bounds'' EHCI_OPERATIONAL
     EHCI_OPERATIONAL_REASON ''missing operational observation'' ''operational order or duplicates''
     extract_ehci_smi ''operational samples without successful SMI disable'' ehci_operational_judge)"

subsection \<open>Bus Master Enable\<close>

definition EHCI_BME :: bytes where "EHCI_BME = ''LEANOS-LAB/1 EHCI-BME ''"
abbreviation EHCI_BME_REASON :: bytes where "EHCI_BME_REASON \<equiv> ''qotom-ehci-bme''"

definition ehci_stopped :: "ehci_operational_report \<Rightarrow> bool" where
  "ehci_stopped p \<longleftrightarrow> (ehci_command p, ehci_status_register p, ehci_interrupt_enable p, ehci_configured p) =
     (0x80000, 0x1000, 0, 0)"

definition extract_ehci_bme :: "bytes \<Rightarrow> protocol \<Rightarrow> (bytes \<times> bme_report option) res" where
  "extract_ehci_bme = run_decoder (status_stage ''BME capture bounds'' EHCI_BME EHCI_BME_REASON
     ''missing BME observation'' ''BME order or duplicates''
     extract_ehci_operational ''BME without successful operational observation''
     (bme_judge (EHCI_BME @ ''profile=qotom-bme-v1 index=10'') 10 11 ehci_stopped
       ''BME write authority without stopped sample'' [3, 4, 5, 9, 10, 11] 0x406 0x402
       ''leanos-qotom-ehci-bme-observation-v1'' EHCI_BME_REASON))"

subsection \<open>The stages keep their contract\<close>

lemma ehci_caps_judge_closes:
  "ehci_caps_judge P lines indices s proj prior p = Inr r \<Longrightarrow> closes P EHCI_CAPS_REASON lines r"
  unfolding ehci_caps_judge_def by (elim res_elims) (auto simp: closes_def)

lemma ehci_legacy_judge_closes:
  "ehci_legacy_judge P lines indices s proj prior p = Inr r \<Longrightarrow> closes P EHCI_LEGACY_REASON lines r"
  unfolding ehci_legacy_judge_def Let_def by (elim res_elims) (auto simp: closes_def)

lemma ehci_handoff_judge_closes:
  "ehci_handoff_judge P lines indices s proj prior p = Inr r \<Longrightarrow> closes P EHCI_HANDOFF_REASON lines r"
  unfolding ehci_handoff_judge_def by (elim res_elims) (auto simp: closes_def)

lemma ehci_operational_judge_closes:
  "ehci_operational_judge P lines indices s proj prior p = Inr r \<Longrightarrow>
     closes P EHCI_OPERATIONAL_REASON lines r"
  unfolding ehci_operational_judge_def Let_def by (elim res_elims) (auto simp: closes_def)

lemma ehci_caps_decoder_simps [simp]:
  "d_prefix ehci_caps_decoder = EHCI_CAPS" "d_prev ehci_caps_decoder = extract_af"
  "d_ready ehci_caps_decoder = reason_pending" "d_judge ehci_caps_decoder = ehci_caps_judge"
  "d_placed ehci_caps_decoder = one_before_last" "d_scan ehci_caps_decoder = no_scan"
  by (simp_all add: ehci_caps_decoder_def)

lemma ehci_legacy_judge_inside:
  "ehci_legacy_judge P lines indices s proj prior p = Inr r \<Longrightarrow> inside (length lines) indices"
  unfolding ehci_legacy_judge_def Let_def by (elim res_elims) (auto simp: inside_def)

lemma ehci_legacy_decoder_simps [simp]:
  "d_prefix ehci_legacy_decoder = EHCI_LEGACY" "d_prev ehci_legacy_decoder = extract_ehci_caps"
  "d_ready ehci_legacy_decoder = status_zero" "d_judge ehci_legacy_decoder = ehci_legacy_judge"
  "d_placed ehci_legacy_decoder = single" "d_scan ehci_legacy_decoder = no_scan"
  by (simp_all add: ehci_legacy_decoder_def)

interpretation ehci_caps: capture_stage extract_ehci_caps "\<lambda>l. startswith l EHCI_CAPS" status_zero
  EHCI_CAPS_REASON extract_af reason_pending
  unfolding extract_ehci_caps_def ehci_caps_decoder_simps(1-3) [symmetric]
  by (rule status_decoder_stage) (simp_all add: ehci_caps_judge_closes one_before_last_inside)

interpretation ehci_legacy: capture_stage extract_ehci_legacy "\<lambda>l. startswith l EHCI_LEGACY" status_zero
  EHCI_LEGACY_REASON extract_ehci_caps status_zero
  unfolding extract_ehci_legacy_def ehci_legacy_decoder_simps(1-3) [symmetric]
  by (rule status_decoder_stage) (simp_all add: ehci_legacy_judge_closes ehci_legacy_judge_inside)

interpretation ehci_handoff: capture_stage extract_ehci_handoff "\<lambda>l. startswith l EHCI_HANDOFF" status_zero
  EHCI_HANDOFF_REASON extract_ehci_legacy status_zero
  unfolding extract_ehci_handoff_def
  by (rule status_stage_interface) (simp_all add: ehci_handoff_judge_closes)

interpretation ehci_smi: capture_stage extract_ehci_smi "\<lambda>l. startswith l EHCI_SMI" status_zero
  EHCI_SMI_REASON extract_ehci_handoff status_zero
  unfolding extract_ehci_smi_def by (rule status_stage_interface) (rule smi_judge_closes, assumption, simp)

interpretation ehci_operational: capture_stage extract_ehci_operational
  "\<lambda>l. startswith l EHCI_OPERATIONAL" status_zero EHCI_OPERATIONAL_REASON extract_ehci_smi status_zero
  unfolding extract_ehci_operational_def
  by (rule status_stage_interface) (simp_all add: ehci_operational_judge_closes)

interpretation ehci_bme: capture_stage extract_ehci_bme "\<lambda>l. startswith l EHCI_BME" status_zero
  EHCI_BME_REASON extract_ehci_operational status_zero
  unfolding extract_ehci_bme_def by (rule status_stage_interface) (rule bme_judge_closes, assumption, simp)

text \<open>
  C31 (safety). A successful SMI write left the handed-over control register with every SMI enable bit
  clear: the value it read back holds status bits only, and before it the enable bits were those the
  handoff stage of the same capture had reported.
\<close>

theorem ehci_smi_disabled:
  assumes "extract_ehci_smi raw P = Inr (proj, Some r)" "rep_status r = 0"
  shows "ctl_attempted r = 1 \<and> ctl_after r AND EHCI_ENABLE = 0 \<and>
    (\<exists>prior h. extract_ehci_handoff proj P = Inr (prior, Some h) \<and> rep_status h = 0 \<and>
      ctl_before r AND EHCI_ENABLE = ho_control h AND EHCI_ENABLE)"
proof -
  obtain prior p indices where
    p: "extract_ehci_handoff proj P = Inr (prior, Some p)" "rep_status p = 0"
    and j: "smi_judge (EHCI_SMI @ ''profile=qotom-smi-v1 index=10'') 9
       (\<lambda>control. control AND NOT (EHCI_ENABLE OR EHCI_STATUS) = 0) [3, 4, 8, 9]
       EHCI_ENABLE EHCI_STATUS ''leanos-qotom-ehci-smi-observation-v1'' EHCI_SMI_REASON P (splitlines raw) indices ()
      proj prior p = Inr r"
    using assms(1) unfolding extract_ehci_smi_def by (rule status_stage_SomeE)
  from smi_judge_disabled [OF j assms(2)] have s: "ctl_attempted r = 1"
    "(ctl_before r XOR ho_control p) AND EHCI_ENABLE = 0" "ctl_after r AND NOT EHCI_STATUS = 0" by simp_all
  have e: "EHCI_ENABLE = EHCI_ENABLE AND NOT EHCI_STATUS" by (simp add: EHCI_ENABLE_def EHCI_STATUS_def)
  have "ctl_after r AND EHCI_ENABLE = (ctl_after r AND NOT EHCI_STATUS) AND EHCI_ENABLE"
    by (subst e) (simp add: ac_simps)
  then have "ctl_after r AND EHCI_ENABLE = 0" using s(3) by simp
  moreover have "ctl_before r AND EHCI_ENABLE = ho_control p AND EHCI_ENABLE"
    using s(2) by (auto simp: bit_eq_iff bit_simps)
  ultimately show ?thesis using p s(1) by blast
qed

end
