(* ===== verification/Xhci.thy ===== *)
theory Xhci
  imports Ehci
begin

text \<open>
  The six xHCI stages, \<^verbatim>\<open>check-qotom-xhci-capture.py\<close> and its \<^verbatim>\<open>-legacy-\<close>, \<^verbatim>\<open>-handoff-\<close>,
  \<^verbatim>\<open>-smi-\<close>, \<^verbatim>\<open>-operational-\<close> and \<^verbatim>\<open>-bme-\<close> successors.  The first follows the EHCI
  BME stage.  The handoff record has two versions; version 2 carries verification details.
\<close>

unbundle bit_operations_syntax

subsection \<open>Capability registers\<close>

record xhci_caps_report = status_report +
  xhci_words :: "int list"

definition XHCI_CAPS :: bytes where "XHCI_CAPS = ''LEANOS-LAB/1 XHCI-CAPS ''"
abbreviation XHCI_CAPS_REASON :: bytes where "XHCI_CAPS_REASON \<equiv> ''qotom-xhci-capabilities''"

definition xhci_caps_pattern :: "item list" where
  "xhci_caps_pattern =
     [Lit (XHCI_CAPS @ ''profile=qotom-xhci-v1 index=3 status=''), DEC, Lit '' words='', DEC,
      Lit '','', DEC, Lit '','', DEC, Lit '','', DEC, Lit '','', DEC, Lit '','', DEC, Lit '','', DEC, Lit NL]"

definition xhci_bar_binding :: "int list \<Rightarrow> unit res" where
  \<comment> \<open>the conditions in the order they are evaluated; an index past the end raises IndexError\<close>
  "xhci_bar_binding header =
     (let msg = ''xHCI without captured BAR-pair binding'' in
     raise_if (take 4 header \<noteq> [0, 20, 0, 0x0f358086]) msg
     (bind (py_get header 4) (\<lambda>w4. raise_if (w4 AND 2 = 0) msg
     (bind (py_get header 5) (\<lambda>w5. raise_if (w5 \<noteq> 0x0c03300e) msg
     (bind (py_get header 6) (\<lambda>w6. raise_if (w6 AND 0xff0000 \<noteq> 0) msg
     (raise_if (take 2 (drop 7 header) \<noteq> [0xd0900004, 0]) msg (Inr ())))))))))"

definition xhci_caps_judge ::
  "protocol \<Rightarrow> bytes list \<Rightarrow> nat list \<Rightarrow> unit \<Rightarrow> bytes \<Rightarrow> bytes \<Rightarrow> bme_report \<Rightarrow> xhci_caps_report res" where
  "xhci_caps_judge P lines indices s projection prior previous =
     bind (match_ints ''xHCI framing'' xhci_caps_pattern (lines ! hd indices)) (\<lambda>vs.
     unpack_head vs (\<lambda>status words.
     raise_if (8 < status \<or> status \<in> {1, 2} \<or> list_ex (\<lambda>w. U32 < w) words)
       ''xHCI scalar bounds or impossible native status''
     (raise_if (\<not> (if status \<noteq> 0 then list_all (\<lambda>w. w = 0) words
                  else hd words = 0x1000080 \<and> U32 \<notin> set words) \<or>
         \<not> terminal P XHCI_CAPS_REASON (status \<noteq> 0) lines)
       ''xHCI result/terminal contradiction''
     (case header_lines P 3 lines of
        [line] \<Rightarrow>
          bind (header_words P 3 line) (\<lambda>header.
          bind (if status \<noteq> 8 then xhci_bar_binding header else Inr ()) (\<lambda>_.
          Inr \<lparr>rep_schema = ''leanos-qotom-xhci-capability-observation-v1'',
            rep_reason = reason_if (status \<noteq> 0) XHCI_CAPS_REASON,
            rep_claims = [(''hardware_operations_replayed'', False), (''ownership_established'', False),
              (''dma_quarantine_established'', False)],
            rep_status = status, xhci_words = words\<rparr>))
      | _ \<Rightarrow> raise ''xHCI missing captured header''))))"

definition extract_xhci_caps :: "bytes \<Rightarrow> protocol \<Rightarrow> (bytes \<times> xhci_caps_report option) res" where
  "extract_xhci_caps = run_decoder (status_stage ''xHCI capture bounds'' XHCI_CAPS XHCI_CAPS_REASON
     ''missing xHCI observation'' ''xHCI order or duplicates''
     extract_ehci_bme ''xHCI without successful EHCI BME prefix'' xhci_caps_judge)"

subsection \<open>Extended list\<close>

definition XHCI_LEGACY :: bytes where "XHCI_LEGACY = ''LEANOS-LAB/1 XHCI-LEGACY ''"
definition XHCI_EXT :: bytes where "XHCI_EXT = ''LEANOS-LAB/1 XHCI-EXT ''"
abbreviation XHCI_LEGACY_REASON :: bytes where "XHCI_LEGACY_REASON \<equiv> ''qotom-xhci-legacy''"

definition xhci_legacy_pattern :: "item list" where
  "xhci_legacy_pattern =
     [Lit (XHCI_LEGACY @ ''profile=qotom-xhci-legacy-v1 index=3 status=''), DEC, Lit '' count='', DEC,
      Lit '' offset='', DEC, Lit '' control='', DEC, Lit NL]"

definition xhci_profile_words :: "int list" where
  "xhci_profile_words =
     [0x01000080, 0x07000820, 0x84000054, 0x0200000a, 0x200077c1, 0x3000, 0x2000]"

definition xhci_ext_limits :: ext_limits where
  "xhci_ext_limits =
     \<lparr>ext_low = 0x8000, ext_high = 0xfffc, ext_legacy_high = 0xfff8,
      ext_next = (\<lambda>address v. let n = drop_bit 8 v AND 255 in if n \<noteq> 0 then address + n * 4 else 0)\<rparr>"

definition xhci_legacy_judge ::
  "protocol \<Rightarrow> bytes list \<Rightarrow> nat list \<Rightarrow> unit \<Rightarrow> bytes \<Rightarrow> bytes \<Rightarrow> xhci_caps_report \<Rightarrow> legacy_report res" where
  "xhci_legacy_judge P lines indices s projection prior caps =
     (let start = hd indices in
     bind (match_ints ''legacy summary framing'' xhci_legacy_pattern (lines ! start)) (\<lambda>vs.
     unpack4 vs (\<lambda>status count offset control.
     raise_if (12 < status \<or> status = 1 \<or> 48 < count \<or> 0xffff < offset \<or> U32 < control)
       ''legacy scalar bounds''
     (raise_if (status \<le> 10 \<and> xhci_words caps \<noteq> xhci_profile_words)
       ''legacy collector without captured capability binding''
     (bind (if status \<noteq> 0 then
              raise_if (count \<noteq> 0 \<or> offset \<noteq> 0 \<or> control \<noteq> 0)
                ''legacy rejection publishes partial observation'' (Inr [])
            else bind (py_get (xhci_words caps) 4) (\<lambda>w4.
              legacy_list xhci_ext_limits XHCI_EXT lines start (drop_bit 16 w4 * 4) count offset control))
       (\<lambda>headers.
     raise_if (start + 1 + nat count + 1 \<noteq> length lines \<or> \<not> terminal P XHCI_LEGACY_REASON (status \<noteq> 0) lines)
       ''legacy terminal or trailing data''
     (Inr \<lparr>rep_schema = ''leanos-qotom-xhci-legacy-observation-v1'',
        rep_reason = reason_if (status \<noteq> 0) XHCI_LEGACY_REASON,
        rep_claims = [(''hardware_operations_replayed'', False), (''ownership_established'', False),
          (''dma_quarantine_established'', False)],
        rep_status = status, leg_headers = headers, leg_offset = offset, leg_control = control\<rparr>)))))))"

definition xhci_legacy_decoder :: "(xhci_caps_report, unit, legacy_report) decoder" where
  "xhci_legacy_decoder =
     \<lparr>d_bounds = ''xHCI legacy capture bounds'', d_prefix = XHCI_LEGACY,
      d_absent = legacy_absent XHCI_EXT XHCI_LEGACY_REASON,
      d_placed = single, d_order = ''duplicate legacy summary'', d_scan = no_scan,
      d_prev = extract_xhci_caps, d_ready = status_zero,
      d_without = ''legacy list without complete xHCI capability observation'',
      d_judge = xhci_legacy_judge\<rparr>"

definition extract_xhci_legacy :: "bytes \<Rightarrow> protocol \<Rightarrow> (bytes \<times> legacy_report option) res" where
  "extract_xhci_legacy = run_decoder xhci_legacy_decoder"

subsection \<open>Ownership handoff\<close>

record verification_detail =
  vd_kind :: int
  vd_index :: int
  vd_expected :: int
  vd_observed :: int

record xhci_handoff_report = handoff_observation +
  xh_verification :: "verification_detail option"

definition XHCI_HANDOFF :: bytes where "XHCI_HANDOFF = ''LEANOS-LAB/1 XHCI-HANDOFF ''"
abbreviation XHCI_HANDOFF_REASON :: bytes where "XHCI_HANDOFF_REASON \<equiv> ''qotom-xhci-handoff''"

definition xhci_handoff_head :: "item list" where
  "xhci_handoff_head =
     [Lit (XHCI_HANDOFF @ ''profile=qotom-xhci-handoff-v''), OneOf ''12'', Lit '' index=3 status='', DEC,
      Lit '' attempted='', DEC, Lit '' polls='', DEC, Lit '' support='', DEC, Lit '' control='', DEC]"

definition xhci_handoff_detail :: "item list" where
  "xhci_handoff_detail =
     [Lit '' verify='', DEC, Lit '' verify-index='', DEC, Lit '' expected='', DEC, Lit '' observed='', DEC]"

definition xhci_handoff_match :: "bytes \<Rightarrow> (bytes list \<times> bytes list option) option" where
  \<comment> \<open>the pattern with the optional detail group: the six groups and the four of the detail\<close>
  "xhci_handoff_match line =
     (case fullmatch (xhci_handoff_head @ xhci_handoff_detail @ [Lit NL]) line of
        Some gs \<Rightarrow> Some (take 6 gs, Some (drop 6 gs))
      | None \<Rightarrow> map_option (\<lambda>gs. (gs, None)) (fullmatch (xhci_handoff_head @ [Lit NL]) line))"

definition xhci_writer_list :: "cap_entry list" where
  "xhci_writer_list = map (\<lambda>(a, v). \<lparr>ce_offset = a, ce_raw = v\<rparr>)
     [(0x8000, 0x02000802), (0x8020, 0x03000802), (0x8040, 0x00010cc1),
      (0x8070, 0x0000fcc0), (0x8460, 0x00010801), (0x8480, 0x0005000a)]"

definition xhci_writer_binding :: "legacy_report \<Rightarrow> xhci_caps_report option \<Rightarrow> unit res" where
  "xhci_writer_binding legacy caps =
     raise_if (leg_headers legacy \<noteq> xhci_writer_list \<or> leg_offset legacy \<noteq> 0x8460 \<or>
         leg_control legacy \<noteq> 0x2001) ''handoff without exact writer binding''
     (case caps of None \<Rightarrow> Inl TypeError
      | Some c \<Rightarrow> raise_if (xhci_words c \<noteq> xhci_profile_words)
          ''handoff without exact writer binding'' (Inr ()))"

definition entry_change_valid :: "legacy_report \<Rightarrow> cap_entry \<Rightarrow> int \<Rightarrow> int \<Rightarrow> bool" where
  \<comment> \<open>kind 5: the raw value of an entry changed outside the semaphore bits\<close>
  "entry_change_valid legacy e before after \<longleftrightarrow>
     (let mask = (if ce_offset e = leg_offset legacy then 0x01010000 else 0) in
      before = ce_raw e \<and> (before XOR after) AND NOT mask \<noteq> 0 \<and> after AND 255 \<notin> {0, 255} \<and>
      (if ce_offset e = leg_offset legacy then after AND 255 = 1 \<and> drop_bit 8 after AND 255 \<noteq> 1
       else after AND 255 \<noteq> 1))"

definition detail_valid :: "legacy_report \<Rightarrow> int \<Rightarrow> int \<Rightarrow> int \<Rightarrow> int \<Rightarrow> int \<Rightarrow> int \<Rightarrow> bool" where
  "detail_valid legacy status support kind index before after \<longleftrightarrow>
     (let n = int (length (leg_headers legacy)); e = leg_headers legacy ! nat index in
      (if status \<noteq> 10 then (kind, index, before, after) = (0, 0, 0, 0)
       else if kind = 1 then index = 0 \<and> before = 0 \<and> 2 \<le> after \<and> after \<le> 10
       else if kind = 2 then index = 0 \<and> before = n \<and> 1 \<le> after \<and> after \<le> 48 \<and> after \<noteq> before
       else if kind = 3 then index = 0 \<and> before = leg_offset legacy \<and> after \<noteq> before \<and>
         (after = 0 \<or> (0x8000 \<le> after \<and> after \<le> 0xfff8 \<and> after AND 3 = 0))
       else if kind = 4 then index < n \<and> before = ce_offset e \<and> 0x8000 \<le> after \<and> after \<le> 0xfffc \<and>
         after AND 3 = 0 \<and> before \<noteq> after
       else if kind = 5 then index < n \<and> entry_change_valid legacy e before after
       else if kind = 6 then index < n \<and> ce_offset e = leg_offset legacy \<and> before = 0x01000801 \<and>
         after = support \<and> after \<in> {0x801, 0x10801, 0x1010801}
       else False) \<and>
      \<not> (status = 10 \<and> kind \<noteq> 6 \<and> support \<noteq> 0x01000801))"

definition xhci_handoff_detail_check ::
  "legacy_report \<Rightarrow> int \<Rightarrow> int \<Rightarrow> bytes list option \<Rightarrow> verification_detail option res" where
  "xhci_handoff_detail_check legacy status support details =
     (case details of None \<Rightarrow> Inr None
      | Some gs \<Rightarrow>
         bind (py_ints gs) (\<lambda>vs.
         unpack4 vs (\<lambda>kind index before after.
         raise_if (U32 < max (max kind index) (max before after)) ''verification scalar bounds''
         (raise_if (\<not> detail_valid legacy status support kind index before after)
           ''verification detail contradicts handoff or prior list''
         (Inr (Some \<lparr>vd_kind = kind, vd_index = index, vd_expected = before, vd_observed = after\<rparr>))))))"

definition xhci_handoff_judge ::
  "protocol \<Rightarrow> bytes list \<Rightarrow> nat list \<Rightarrow> unit \<Rightarrow> bytes \<Rightarrow> bytes \<Rightarrow> legacy_report \<Rightarrow> xhci_handoff_report res" where
  "xhci_handoff_judge P lines indices s projection cap_projection legacy =
     bind (extract_xhci_caps cap_projection P) (\<lambda>(_, caps).
     bind (some_or ''handoff framing'' (xhci_handoff_match (lines ! hd indices))) (\<lambda>(groups, details).
     bind (py_ints groups) (\<lambda>vs.
     unpack6 vs (\<lambda>version status attempted polls support control.
     raise_if ((version = 1 \<and> details \<noteq> None) \<or> (version = 2 \<and> details = None))
       ''handoff version/detail mismatch''
     (raise_if (14 < status \<or> status \<in> {1, 4} \<or> 1 < attempted \<or> 100 < polls \<or> U32 < support \<or> U32 < control)
       ''handoff scalar bounds or impossible native status''
     (bind (if status < 11 then xhci_writer_binding legacy caps else Inr ()) (\<lambda>_.
     raise_if (\<not> handoff_valid [2, 3, 11, 12, 13, 14] 0x801 status attempted polls support control \<or>
         \<not> terminal P XHCI_HANDOFF_REASON (status \<noteq> 0) lines)
       ''handoff result/terminal contradiction''
     (bind (xhci_handoff_detail_check legacy status support details) (\<lambda>verification.
     Inr \<lparr>rep_schema = ''leanos-qotom-xhci-handoff-observation-v'' @ decimal (nat version),
        rep_reason = reason_if (status \<noteq> 0) XHCI_HANDOFF_REASON,
        rep_claims = [(''hardware_operations_replayed'', False),
          (''firmware_exclusion_established'', False), (''dma_quarantine_established'', False)],
        rep_status = status, ho_attempted = attempted, ho_polls = polls, ho_support = support,
        ho_control = control, xh_verification = verification\<rparr>)))))))))"

definition extract_xhci_handoff :: "bytes \<Rightarrow> protocol \<Rightarrow> (bytes \<times> xhci_handoff_report option) res" where
  "extract_xhci_handoff = run_decoder (status_stage ''handoff capture bounds'' XHCI_HANDOFF
     XHCI_HANDOFF_REASON ''missing handoff observation'' ''handoff record order or duplicates''
     extract_xhci_legacy ''handoff without successful legacy capture'' xhci_handoff_judge)"

subsection \<open>SMI disable\<close>

definition XHCI_SMI :: bytes where "XHCI_SMI = ''LEANOS-LAB/1 XHCI-SMI ''"
abbreviation XHCI_SMI_REASON :: bytes where "XHCI_SMI_REASON \<equiv> ''qotom-xhci-smi''"
definition XHCI_ENABLE :: int where "XHCI_ENABLE = 0xe011"
definition XHCI_STATUS :: int where "XHCI_STATUS = 0xe0110000"

definition extract_xhci_smi :: "bytes \<Rightarrow> protocol \<Rightarrow> (bytes \<times> control_report option) res" where
  "extract_xhci_smi = run_decoder (status_stage ''SMI capture bounds'' XHCI_SMI XHCI_SMI_REASON
     ''missing SMI observation'' ''SMI record order or duplicates''
     extract_xhci_handoff ''SMI write without successful handoff observation''
     (smi_judge (XHCI_SMI @ ''profile=qotom-xhci-smi-v1 index=3'') 10
       (\<lambda>control. control = 0x2000) [3, 4, 8, 9, 10]
       XHCI_ENABLE XHCI_STATUS ''leanos-qotom-xhci-smi-observation-v1'' XHCI_SMI_REASON))"

subsection \<open>Operational sample\<close>

record xhci_operational_report = status_report +
  xhci_status_before :: int
  xhci_command :: int
  xhci_status_after :: int

definition XHCI_OPERATIONAL :: bytes where "XHCI_OPERATIONAL = ''LEANOS-LAB/1 XHCI-OPERATIONAL ''"
abbreviation XHCI_OPERATIONAL_REASON :: bytes where "XHCI_OPERATIONAL_REASON \<equiv> ''qotom-xhci-operational''"

definition xhci_operational_pattern :: "item list" where
  "xhci_operational_pattern =
     [Lit (XHCI_OPERATIONAL @ ''profile=qotom-xhci-operational-v1 index=3 status=''), DEC,
      Lit '' sampled='', DEC, Lit '' command='', DEC, Lit '' final='', DEC, Lit NL]"

definition xhci_operational_valid :: "int \<Rightarrow> int \<Rightarrow> int \<Rightarrow> int \<Rightarrow> bool" where
  "xhci_operational_valid status before command after \<longleftrightarrow>
     (if status \<noteq> 0 then (before, command, after) = (0, 0, 0)
      else max (max before command) after \<noteq> U32 \<and> (before OR after) AND 0x800 = 0)"

definition xhci_operational_judge ::
  "protocol \<Rightarrow> bytes list \<Rightarrow> nat list \<Rightarrow> unit \<Rightarrow> bytes \<Rightarrow> bytes \<Rightarrow> control_report \<Rightarrow>
   xhci_operational_report res" where
  "xhci_operational_judge P lines indices s projection prior smi =
     bind (match_ints ''operational framing'' xhci_operational_pattern (lines ! hd indices)) (\<lambda>vs.
     unpack4 vs (\<lambda>status before command after.
     raise_if (11 < status \<or> status \<in> {1, 2} \<or> U32 < max (max before command) after)
       ''operational bounds or impossible native status''
     (raise_if (status < 9 \<and> (ctl_before smi, ctl_after smi) \<noteq> (0x2000, 0))
       ''operational reader without exact SMI binding''
     (raise_if (\<not> xhci_operational_valid status before command after \<or>
         \<not> terminal P XHCI_OPERATIONAL_REASON (status \<noteq> 0) lines)
       ''operational result/terminal contradiction''
     (Inr \<lparr>rep_schema = ''leanos-qotom-xhci-operational-observation-v1'',
        rep_reason = reason_if (status \<noteq> 0) XHCI_OPERATIONAL_REASON,
        rep_claims = [(''atomic_snapshot'', False), (''hardware_operations_replayed'', False),
          (''firmware_exclusion_established'', False), (''dma_quarantine_established'', False)],
        rep_status = status, xhci_status_before = before, xhci_command = command,
        xhci_status_after = after\<rparr>)))))"

definition extract_xhci_operational ::
  "bytes \<Rightarrow> protocol \<Rightarrow> (bytes \<times> xhci_operational_report option) res" where
  "extract_xhci_operational = run_decoder (status_stage ''operational capture bounds'' XHCI_OPERATIONAL
     XHCI_OPERATIONAL_REASON ''missing operational observation'' ''operational record order or duplicates''
     extract_xhci_smi ''operational sample without successful SMI observation'' xhci_operational_judge)"

subsection \<open>Bus Master Enable\<close>

definition XHCI_BME :: bytes where "XHCI_BME = ''LEANOS-LAB/1 XHCI-BME ''"
abbreviation XHCI_BME_REASON :: bytes where "XHCI_BME_REASON \<equiv> ''qotom-xhci-bme''"

definition xhci_stopped :: "xhci_operational_report \<Rightarrow> bool" where
  "xhci_stopped p \<longleftrightarrow> (xhci_status_before p, xhci_command p, xhci_status_after p) = (1, 0, 1)"

definition extract_xhci_bme :: "bytes \<Rightarrow> protocol \<Rightarrow> (bytes \<times> bme_report option) res" where
  "extract_xhci_bme = run_decoder (status_stage ''BME capture bounds'' XHCI_BME XHCI_BME_REASON
     ''missing BME observation'' ''BME order or duplicates''
     extract_xhci_operational ''BME without successful operational observation''
     (bme_judge (XHCI_BME @ ''profile=qotom-xhci-bme-v1 index=3'') 3 12 xhci_stopped
       ''BME write authority without stopped sample'' [3, 4, 5, 9, 10, 11, 12] 0x6 0x2
       ''leanos-qotom-xhci-bme-observation-v1'' XHCI_BME_REASON))"

subsection \<open>The stages keep their contract\<close>

lemma xhci_caps_judge_closes:
  "xhci_caps_judge P lines indices s proj prior p = Inr r \<Longrightarrow> closes P XHCI_CAPS_REASON lines r"
  unfolding xhci_caps_judge_def
  by (elim res_elims) (auto simp: closes_def res_simps split: list.splits)

lemma xhci_legacy_judge_closes:
  "xhci_legacy_judge P lines indices s proj prior p = Inr r \<Longrightarrow> closes P XHCI_LEGACY_REASON lines r"
  unfolding xhci_legacy_judge_def Let_def by (elim res_elims) (auto simp: closes_def)

lemma xhci_handoff_judge_closes:
  "xhci_handoff_judge P lines indices s proj prior p = Inr r \<Longrightarrow> closes P XHCI_HANDOFF_REASON lines r"
  unfolding xhci_handoff_judge_def by (elim res_elims) (auto simp: closes_def)

lemma xhci_operational_judge_closes:
  "xhci_operational_judge P lines indices s proj prior p = Inr r \<Longrightarrow>
     closes P XHCI_OPERATIONAL_REASON lines r"
  unfolding xhci_operational_judge_def by (elim res_elims) (auto simp: closes_def)

lemma xhci_legacy_judge_inside:
  "xhci_legacy_judge P lines indices s proj prior p = Inr r \<Longrightarrow> inside (length lines) indices"
  unfolding xhci_legacy_judge_def Let_def by (elim res_elims) (auto simp: inside_def)

lemma xhci_legacy_decoder_simps [simp]:
  "d_prefix xhci_legacy_decoder = XHCI_LEGACY" "d_prev xhci_legacy_decoder = extract_xhci_caps"
  "d_ready xhci_legacy_decoder = status_zero" "d_judge xhci_legacy_decoder = xhci_legacy_judge"
  "d_placed xhci_legacy_decoder = single" "d_scan xhci_legacy_decoder = no_scan"
  by (simp_all add: xhci_legacy_decoder_def)

interpretation xhci_caps: capture_stage extract_xhci_caps "\<lambda>l. startswith l XHCI_CAPS" status_zero
  XHCI_CAPS_REASON extract_ehci_bme status_zero
  unfolding extract_xhci_caps_def
  by (rule status_stage_interface) (simp_all add: xhci_caps_judge_closes)

interpretation xhci_legacy: capture_stage extract_xhci_legacy "\<lambda>l. startswith l XHCI_LEGACY" status_zero
  XHCI_LEGACY_REASON extract_xhci_caps status_zero
  unfolding extract_xhci_legacy_def xhci_legacy_decoder_simps(1-3) [symmetric]
  by (rule status_decoder_stage) (simp_all add: xhci_legacy_judge_closes xhci_legacy_judge_inside)

interpretation xhci_handoff: capture_stage extract_xhci_handoff "\<lambda>l. startswith l XHCI_HANDOFF" status_zero
  XHCI_HANDOFF_REASON extract_xhci_legacy status_zero
  unfolding extract_xhci_handoff_def
  by (rule status_stage_interface) (simp_all add: xhci_handoff_judge_closes)

interpretation xhci_smi: capture_stage extract_xhci_smi "\<lambda>l. startswith l XHCI_SMI" status_zero
  XHCI_SMI_REASON extract_xhci_handoff status_zero
  unfolding extract_xhci_smi_def by (rule status_stage_interface) (rule smi_judge_closes, assumption, simp)

interpretation xhci_operational: capture_stage extract_xhci_operational
  "\<lambda>l. startswith l XHCI_OPERATIONAL" status_zero XHCI_OPERATIONAL_REASON extract_xhci_smi status_zero
  unfolding extract_xhci_operational_def
  by (rule status_stage_interface) (simp_all add: xhci_operational_judge_closes)

interpretation xhci_bme: capture_stage extract_xhci_bme "\<lambda>l. startswith l XHCI_BME" status_zero
  XHCI_BME_REASON extract_xhci_operational status_zero
  unfolding extract_xhci_bme_def by (rule status_stage_interface) (rule bme_judge_closes, assumption, simp)

text \<open>
  C30 (invariant). A successful legacy list of the xHCI controller is a terminated walk from the extended
  capability pointer of its capability registers: offsets are aligned, in the capability window and
  pairwise different, every link leads to the next structure and the last to zero, and at most one
  structure is the legacy one.
\<close>

theorem xhci_legacy_walk:
  assumes "extract_xhci_legacy raw P = Inr (proj, Some r)" "rep_status r = 0"
  shows "\<exists>prior caps. extract_xhci_caps proj P = Inr (prior, Some caps) \<and>
    ext_path xhci_ext_limits (drop_bit 16 (xhci_words caps ! 4) * 4) (leg_headers r) 0 \<and>
    distinct (map ce_offset (leg_headers r)) \<and>
    (\<forall>e\<in>set (leg_headers r). ext_entry_ok xhci_ext_limits e) \<and> legacy_of (leg_headers r) = leg_offset r \<and>
    length (legacy_entries (leg_headers r)) \<le> 1 \<and> length (leg_headers r) \<le> 48"
proof -
  obtain s prior p indices where c: "extract_xhci_caps proj P = Inr (prior, Some p)"
    and j: "xhci_legacy_judge P (splitlines raw) indices s proj prior p = Inr r"
    using assms(1) unfolding extract_xhci_legacy_def by (rule run_decoder_SomeE) simp
  obtain w4 start count control where w: "py_get (xhci_words p) 4 = Inr w4"
    and l: "legacy_list xhci_ext_limits XHCI_EXT (splitlines raw) start (drop_bit 16 w4 * 4) count (leg_offset r) control =
      Inr (leg_headers r)" and n: "count \<le> 48"
    using j assms(2) unfolding xhci_legacy_judge_def Let_def
    by (auto simp: res_simps not_less split: if_splits)
  have "0 < ext_low xhci_ext_limits" by (simp add: xhci_ext_limits_def)
  note ok = legacy_list_sound [OF l this]
  from w have "w4 = xhci_words p ! 4" by (auto simp: py_get_def split: if_splits)
  with c ok n show ?thesis unfolding ext_list_ok_def by (intro exI [of _ prior] exI [of _ p]) simp
qed

end
