(* ===== verification/Pcie_Device.thy ===== *)
theory Pcie_Device
  imports Xhci
begin

text \<open>
  \<^verbatim>\<open>scripts/check-qotom-pcie-device-capture.py\<close>: one PCI Express Device record per function
  after the xHCI BME stage.  The decoder recovers the capability lists by cutting the projection
  before the first AF record and running the capability decoder on what is left.
\<close>

unbundle bit_operations_syntax

record pcie_observation =
  po_index :: nat
  po_status :: int
  po_offset :: int
  po_capabilities :: int
  po_control_status :: int

record pcie_report = observation +
  pcie_functions :: "pcie_observation list"

definition PCIE_DEVICE :: bytes where "PCIE_DEVICE = ''LEANOS-LAB/1 PCIE-DEVICE ''"
abbreviation PCIE_DEVICE_REASON :: bytes where "PCIE_DEVICE_REASON \<equiv> ''qotom-pcie-device''"

definition pcie_pattern :: "nat \<Rightarrow> item list" where
  "pcie_pattern i =
     [Lit (PCIE_DEVICE @ ''profile=qotom-pcie-device-v1 index='' @ decimal i @ '' status=''), DEC,
      Lit '' offset='', DEC, Lit '' capability='', DEC, Lit '' control-status='', DEC, Lit NL]"

definition pcie_entries :: "cap_function \<Rightarrow> cap_entry list" where
  "pcie_entries f = filter (\<lambda>e. ce_raw e AND 255 = 0x10) (cf_headers f)"

definition pcie_shape :: "cap_function \<Rightarrow> int \<Rightarrow> cap_entry \<Rightarrow> bool" where
  \<comment> \<open>the structure fits the header layout: an endpoint (0, 1) or a root port (4)\<close>
  "pcie_shape f layout cap \<longleftrightarrow>
     (let flags = drop_bit 16 (ce_raw cap); version = flags AND 15; kind = drop_bit 4 flags AND 15 in
      version \<in> {1, 2} \<and> flags AND 0xc000 = 0 \<and> ce_offset cap \<le> 244 \<and>
      ((layout = 0 \<and> kind \<in> {0, 1} \<and> flags AND 0x100 = 0) \<or> (layout = 1 \<and> kind = 4)) \<and>
      \<not> list_ex (\<lambda>e. ce_offset e \<in> {ce_offset cap + 4, ce_offset cap + 8}) (cf_headers f))"

definition pcie_valid :: "cap_function \<Rightarrow> int \<Rightarrow> bool" where
  "pcie_valid f layout \<longleftrightarrow> (case pcie_entries f of [cap] \<Rightarrow> pcie_shape f layout cap | _ \<Rightarrow> False)"

definition pcie_check :: "cap_function \<Rightarrow> int \<Rightarrow> int \<Rightarrow> int \<Rightarrow> int \<Rightarrow> int \<Rightarrow> unit res" where
  "pcie_check f layout status offset capability control =
     (if status = 0 then
        raise_if (\<not> pcie_valid f layout \<or> offset \<noteq> ce_offset (hd (pcie_entries f)) \<or>
            U32 \<in> {capability, control}) ''PCIe Device success shape or payload'' (Inr ())
      else
        raise_if (offset \<noteq> 0 \<or> capability \<noteq> 0 \<or> control \<noteq> 0) ''PCIe Device failure publishes payload''
        (raise_if (status = 1 \<and> pcie_entries f \<noteq> []) ''PCIe Device absence contradicts list''
        (raise_if (status = 5 \<and> (pcie_entries f = [] \<or> pcie_valid f layout))
          ''PCIe Device shape failure without malformed structure''
        (raise_if (status \<in> {6, 7, 8} \<and> \<not> pcie_valid f layout)
          ''PCIe Device payload/final failure before valid structure''
        (Inr ())))))"

definition pcie_layout :: "protocol \<Rightarrow> nat \<Rightarrow> bytes list \<Rightarrow> int res" where
  \<comment> \<open>the header type of the captured header of function \<open>i\<close>\<close>
  "pcie_layout P i lines =
     (case header_lines P i lines of
        [line] \<Rightarrow> bind (header_words P i line) (\<lambda>words.
          raise_if (length words \<noteq> 19) ''PCI header width''
          (Inr (drop_bit 16 (words ! 6) AND 0x7f)))
      | _ \<Rightarrow> raise ''missing PCI header for PCIe Device'')"

fun read_pcie :: "protocol \<Rightarrow> bytes list \<Rightarrow> nat \<Rightarrow> cap_function list \<Rightarrow> nat \<Rightarrow> pcie_observation list \<Rightarrow>
    (nat \<times> pcie_observation list \<times> bool) res" where
  "read_pcie P lines first [] cursor obs = Inr (cursor, obs, False)"
| "read_pcie P lines first (f # fs) cursor obs =
     raise_if (length lines \<le> cursor) ''truncated PCIe Device record''
     (bind (match_ints ''PCIe Device framing or order'' (pcie_pattern (cf_index f)) (lines ! cursor)) (\<lambda>vs.
     unpack4 vs (\<lambda>status offset capability control.
     raise_if (8 < status \<or> status = 2 \<or> 255 < offset \<or> U32 < max capability control)
       ''PCIe Device bounds or impossible argument failure''
     (bind (pcie_layout P (cf_index f) (take first lines)) (\<lambda>layout.
     bind (pcie_check f layout status offset capability control) (\<lambda>_.
     let obs' = obs @ [\<lparr>po_index = cf_index f, po_status = status, po_offset = offset,
       po_capabilities = capability, po_control_status = control\<rparr>] in
     if status \<notin> {0, 1} then Inr (Suc cursor, obs', True)
     else read_pcie P lines first fs (Suc cursor) obs'))))))"

definition capability_lists :: "protocol \<Rightarrow> bytes \<Rightarrow> caps_report res" where
  \<comment> \<open>\<^verbatim>\<open>projection.index(...)\<close> raises ValueError when there is no AF record\<close>
  "capability_lists P projection =
     bind (some_or ''subsection not found'' (bytes_find AF_PREFIX projection)) (\<lambda>af.
     bind (extract_pci_caps (take af projection @ pending_line P) P) (\<lambda>(_, caps).
     bind (some_or ''PCIe Device without complete capability lists'' caps) (\<lambda>c.
     raise_if (\<not> reason_pending c) ''PCIe Device without complete capability lists'' (Inr c))))"

definition pcie_judge ::
  "protocol \<Rightarrow> bytes list \<Rightarrow> nat list \<Rightarrow> unit \<Rightarrow> bytes \<Rightarrow> bytes \<Rightarrow> bme_report \<Rightarrow> pcie_report res" where
  "pcie_judge P lines indices s projection prior previous =
     bind (capability_lists P projection) (\<lambda>caps.
     bind (read_pcie P lines (hd indices) (caps_functions caps) (hd indices) [])
       (\<lambda>(cursor, obs, rejected).
     raise_if (cursor + 1 \<noteq> length lines \<or> \<not> terminal P PCIE_DEVICE_REASON rejected lines)
       ''PCIe Device terminal or trailing records''
     (Inr \<lparr>rep_schema = ''leanos-qotom-pcie-device-observation-v1'',
        rep_reason = reason_if rejected PCIE_DEVICE_REASON,
        rep_claims = [(''hardware_operations_replayed'', False), (''reset_performed'', False),
          (''dma_quarantine_established'', False)],
        pcie_functions = obs\<rparr>)))"

definition pcie_decoder :: "(bme_report, unit, pcie_report) decoder" where
  "pcie_decoder =
     \<lparr>d_bounds = ''PCIe Device capture bounds'', d_prefix = PCIE_DEVICE,
      d_absent = missing_if status_zero PCIE_DEVICE_REASON ''missing PCIe Device records'',
      d_placed = anywhere, d_order = '''', d_scan = no_scan,
      d_prev = extract_xhci_bme, d_ready = status_zero,
      d_without = ''PCIe Device without successful xHCI BME'', d_judge = pcie_judge\<rparr>"

definition extract_pcie_device :: "bytes \<Rightarrow> protocol \<Rightarrow> (bytes \<times> pcie_report option) res" where
  "extract_pcie_device = run_decoder pcie_decoder"

lemma pcie_decoder_simps [simp]:
  "d_prefix pcie_decoder = PCIE_DEVICE" "d_prev pcie_decoder = extract_xhci_bme"
  "d_ready pcie_decoder = status_zero" "d_judge pcie_decoder = pcie_judge"
  "d_placed pcie_decoder = anywhere" "d_scan pcie_decoder = no_scan"
  by (simp_all add: pcie_decoder_def)

lemma read_pcie_cursor:
  assumes "read_pcie P lines first fs cursor obs = Inr (cursor', obs', rejected)"
  shows "cursor \<le> cursor'" "fs \<noteq> [] \<Longrightarrow> cursor < cursor'"
  using assms
  by (induction fs arbitrary: cursor obs)
    (fastforce simp: res_simps Let_def split: if_splits)+

interpretation pcie_device: capture_stage extract_pcie_device "\<lambda>l. startswith l PCIE_DEVICE" reason_pending
  PCIE_DEVICE_REASON extract_xhci_bme status_zero
  unfolding extract_pcie_device_def pcie_decoder_simps(1-3) [symmetric]
proof (rule run_decoder_stage)
  fix P lines indices s proj prior p r
  assume j: "d_judge pcie_decoder P lines indices s proj prior p = Inr r" and i: "indices \<noteq> []"
  from j obtain caps cursor obs rejected where c: "capability_lists P proj = Inr caps"
    and rd: "read_pcie P lines (hd indices) (caps_functions caps) (hd indices) [] = Inr (cursor, obs, rejected)"
    and "cursor + 1 = length lines" "terminal P PCIE_DEVICE_REASON rejected lines"
    and "rep_reason r = reason_if rejected PCIE_DEVICE_REASON"
    by (auto simp: pcie_judge_def res_simps)
  moreover have "caps_functions caps \<noteq> []"
    using c by (auto simp: capability_lists_def res_simps caps_functions_nonempty)
  then have "hd indices < cursor" using read_pcie_cursor [OF rd] by blast
  ultimately show "inside (length lines) indices \<and> last lines = final_line P (rep_reason r) \<and>
      rep_reason r = (if reason_pending r then PENDING else PCIE_DEVICE_REASON)"
    by (auto simp: inside_def terminal_def reason_pending_def)
qed simp

subsection \<open>What the observations say\<close>

definition pcie_agrees :: "cap_function \<Rightarrow> pcie_observation \<Rightarrow> bool" where
  "pcie_agrees f ob \<longleftrightarrow> po_index ob = cf_index f \<and>
     (if po_status ob = 0 then
        \<exists>cap layout. pcie_entries f = [cap] \<and> pcie_shape f layout cap \<and> po_offset ob = ce_offset cap
      else po_offset ob = 0 \<and> po_capabilities ob = 0 \<and> po_control_status ob = 0 \<and>
        (po_status ob = 1 \<longrightarrow> pcie_entries f = []))"

lemma pcie_check_agrees:
  "pcie_check f layout status offset capability control = Inr u \<Longrightarrow>
     pcie_agrees f \<lparr>po_index = cf_index f, po_status = status, po_offset = offset,
       po_capabilities = capability, po_control_status = control\<rparr>"
  by (auto simp: pcie_agrees_def pcie_check_def pcie_valid_def res_simps split: if_splits list.splits)

lemma read_pcie_sound:
  assumes "read_pcie P lines first fs cursor acc = Inr (cursor', obs, rejected)"
  shows "\<exists>new. obs = acc @ new \<and> length new \<le> length fs \<and>
    list_all2 pcie_agrees (take (length new) fs) new \<and>
    (\<forall>ob\<in>set (butlast new). po_status ob \<in> {0, 1}) \<and>
    (rejected \<longleftrightarrow> new \<noteq> [] \<and> po_status (last new) \<notin> {0, 1}) \<and>
    (\<not> rejected \<longrightarrow> length new = length fs)"
  using assms
proof (induction fs arbitrary: cursor acc)
  case Nil
  then show ?case by auto
next
  case (Cons f fs)
  from Cons.prems obtain status offset capability control layout u where
    chk: "pcie_check f layout status offset capability control = Inr u"
    and rest: "(let obs' = acc @ [\<lparr>po_index = cf_index f, po_status = status, po_offset = offset,
       po_capabilities = capability, po_control_status = control\<rparr>] in
       if status \<notin> {0, 1} then Inr (Suc cursor, obs', True)
       else read_pcie P lines first fs (Suc cursor) obs') = Inr (cursor', obs, rejected)"
    unfolding read_pcie.simps by (elim res_elims) (rule that)
  let ?ob = "\<lparr>po_index = cf_index f, po_status = status, po_offset = offset,
       po_capabilities = capability, po_control_status = control\<rparr>"
  have ob: "pcie_agrees f ?ob" using chk by (rule pcie_check_agrees)
  show ?case
  proof (cases "status \<in> {0, 1}")
    case False
    with rest ob show ?thesis by (intro exI [of _ "[?ob]"]) (auto simp: Let_def)
  next
    case True
    with rest have "read_pcie P lines first fs (Suc cursor) (acc @ [?ob]) = Inr (cursor', obs, rejected)"
      by (auto simp: Let_def split: if_splits)
    from Cons.IH [OF this] obtain new where
      new: "obs = (acc @ [?ob]) @ new" "length new \<le> length fs"
        "list_all2 pcie_agrees (take (length new) fs) new" "\<forall>ob\<in>set (butlast new). po_status ob \<in> {0, 1}"
        "rejected \<longleftrightarrow> new \<noteq> [] \<and> po_status (last new) \<notin> {0, 1}"
        "\<not> rejected \<longrightarrow> length new = length fs" by blast
    then show ?thesis using True ob by (intro exI [of _ "?ob # new"]) auto
  qed
qed

end
