(* ===== verification/Ahci.thy ===== *)
theory Ahci
  imports Pcie_Device
begin

text \<open>
  The four SATA stages: \<^verbatim>\<open>check-qotom-ahci-capture.py\<close> (host registers), \<^verbatim>\<open>-port-\<close>
  (port 1 sample), \<^verbatim>\<open>-interrupt-\<close> (global interrupt mask) and \<^verbatim>\<open>-bme-\<close>.
\<close>

unbundle bit_operations_syntax

subsection \<open>Host registers\<close>

record ahci_caps_report = status_report +
  ahci_capability :: int
  ahci_control :: int
  ahci_ports :: int
  ahci_version :: int
  ahci_extended :: int

definition AHCI_CAPS :: bytes where "AHCI_CAPS = ''LEANOS-LAB/1 AHCI-CAPS ''"
abbreviation AHCI_CAPS_REASON :: bytes where "AHCI_CAPS_REASON \<equiv> ''qotom-ahci-capabilities''"

definition ahci_caps_pattern :: "item list" where
  "ahci_caps_pattern =
     [Lit (AHCI_CAPS @ ''profile=qotom-ahci-v1 index=2 status=''), DEC, Lit '' capability='', DEC,
      Lit '' control='', DEC, Lit '' ports='', DEC, Lit '' version='', DEC, Lit '' extended='', DEC, Lit NL]"

definition ahci_header_binding :: "protocol \<Rightarrow> bytes list \<Rightarrow> unit res" where
  "ahci_header_binding P lines =
     (case header_lines P 2 lines of
        [line] \<Rightarrow> bind (header_words P 2 line) (\<lambda>words.
          raise_if (length words \<noteq> 19 \<or> take 3 words \<noteq> [0, 19, 0] \<or> words ! 3 \<noteq> 0x0f238086 \<or>
              words ! 5 \<noteq> 0x0106010e \<or> words ! 6 AND 0x00ff0000 \<noteq> 0 \<or> words ! 4 AND 2 = 0 \<or>
              words ! 12 \<noteq> 0xd0916000)
            ''AHCI helper without bound header'' (Inr ()))
      | _ \<Rightarrow> raise ''AHCI missing PCI header'')"

definition ahci_caps_judge ::
  "protocol \<Rightarrow> bytes list \<Rightarrow> nat list \<Rightarrow> unit \<Rightarrow> bytes \<Rightarrow> bytes \<Rightarrow> pcie_report \<Rightarrow> ahci_caps_report res" where
  "ahci_caps_judge P lines indices s projection prior previous =
     bind (match_ints ''AHCI framing'' ahci_caps_pattern (lines ! hd indices)) (\<lambda>vs.
     unpack6 vs (\<lambda>status capability control ports version extended.
     let vals = [capability, control, ports, version, extended] in
     raise_if (7 < status \<or> status \<in> {1, 2} \<or> list_ex (\<lambda>v. U32 < v) vals)
       ''AHCI bounds or impossible native argument/header failure''
     (raise_if (status \<noteq> 0 \<and> list_ex (\<lambda>v. v \<noteq> 0) vals) ''AHCI failed observation publishes payload''
     (raise_if (status = 0 \<and> U32 \<in> set vals) ''AHCI all-ones payload''
     (bind (if status \<noteq> 7 then ahci_header_binding P lines else Inr ()) (\<lambda>_.
     raise_if (\<not> terminal P AHCI_CAPS_REASON (status \<noteq> 0) lines) ''AHCI terminal contradiction''
     (Inr \<lparr>rep_schema = ''leanos-qotom-ahci-capability-observation-v1'',
        rep_reason = reason_if (status \<noteq> 0) AHCI_CAPS_REASON,
        rep_claims = [(''hardware_operations_replayed'', False), (''dma_quarantine_established'', False)],
        rep_status = status, ahci_capability = capability, ahci_control = control, ahci_ports = ports,
        ahci_version = version, ahci_extended = extended\<rparr>)))))))"

definition ahci_caps_decoder :: "(pcie_report, unit, ahci_caps_report) decoder" where
  "ahci_caps_decoder =
     \<lparr>d_bounds = ''AHCI capture bounds'', d_prefix = AHCI_CAPS,
      d_absent = missing_if reason_pending AHCI_CAPS_REASON ''missing AHCI observation'',
      d_placed = one_before_last, d_order = ''AHCI order or duplicates'', d_scan = no_scan,
      d_prev = extract_pcie_device, d_ready = reason_pending,
      d_without = ''AHCI without successful PCIe capture'', d_judge = ahci_caps_judge\<rparr>"

definition extract_ahci_caps :: "bytes \<Rightarrow> protocol \<Rightarrow> (bytes \<times> ahci_caps_report option) res" where
  "extract_ahci_caps = run_decoder ahci_caps_decoder"

subsection \<open>Port sample\<close>

record ahci_port_report = status_report +
  port_command_before :: int
  port_interrupt :: int
  port_task_file :: int
  port_sata_status :: int
  port_active :: int
  port_issued :: int
  port_command_after :: int

definition AHCI_PORT :: bytes where "AHCI_PORT = ''LEANOS-LAB/1 AHCI-PORT ''"
abbreviation AHCI_PORT_REASON :: bytes where "AHCI_PORT_REASON \<equiv> ''qotom-ahci-port''"

definition ahci_port_pattern :: "item list" where
  "ahci_port_pattern =
     [Lit (AHCI_PORT @ ''profile=qotom-ahci-port-v1 index=2 port=1 status=''), DEC,
      Lit '' command-before='', DEC, Lit '' interrupt='', DEC, Lit '' task-file='', DEC,
      Lit '' sata-status='', DEC, Lit '' active='', DEC, Lit '' issued='', DEC,
      Lit '' command-after='', DEC, Lit NL]"

definition ahci_global_profile :: "ahci_caps_report \<Rightarrow> bool" where
  "ahci_global_profile p \<longleftrightarrow>
     (ahci_capability p, ahci_ports p, ahci_version p, ahci_extended p) = (0xc720ff01, 2, 0x10300, 0x38) \<and>
     ahci_control p \<in> {0x80000000, 0x80000002}"

definition port_report_of :: "int \<Rightarrow> int list \<Rightarrow> ahci_port_report" where
  "port_report_of status vals =
     \<lparr>rep_schema = ''leanos-qotom-ahci-port-observation-v1'',
      rep_reason = reason_if (status \<noteq> 0) AHCI_PORT_REASON,
      rep_claims = [(''atomic_snapshot'', False), (''hardware_operations_replayed'', False),
        (''dma_quarantine_established'', False)],
      rep_status = status, port_command_before = vals ! 0, port_interrupt = vals ! 1,
      port_task_file = vals ! 2, port_sata_status = vals ! 3, port_active = vals ! 4,
      port_issued = vals ! 5, port_command_after = vals ! 6\<rparr>"

definition ahci_port_judge ::
  "protocol \<Rightarrow> bytes list \<Rightarrow> nat list \<Rightarrow> unit \<Rightarrow> bytes \<Rightarrow> bytes \<Rightarrow> ahci_caps_report \<Rightarrow> ahci_port_report res" where
  "ahci_port_judge P lines indices s projection prior_projection prior =
     bind (match_ints ''AHCI port framing'' ahci_port_pattern (lines ! hd indices)) (\<lambda>vs.
     unpack_head vs (\<lambda>status vals.
     raise_if (9 < status \<or> status \<in> {1, 2} \<or> list_ex (\<lambda>v. U32 < v) vals)
       ''AHCI port bounds or impossible native status''
     (raise_if (status < 8 \<and> \<not> ahci_global_profile prior)
       ''AHCI port helper without bound global profile''
     (raise_if ((status \<noteq> 0 \<and> list_ex (\<lambda>v. v \<noteq> 0) vals) \<or> (status = 0 \<and> U32 \<in> set vals))
       ''AHCI port payload contradiction''
     (raise_if (\<not> terminal P AHCI_PORT_REASON (status \<noteq> 0) lines) ''AHCI port terminal contradiction''
     (Inr (port_report_of status vals)))))))"

definition extract_ahci_port :: "bytes \<Rightarrow> protocol \<Rightarrow> (bytes \<times> ahci_port_report option) res" where
  "extract_ahci_port = run_decoder (status_stage ''AHCI port bounds'' AHCI_PORT AHCI_PORT_REASON
     ''missing AHCI port observation'' ''AHCI port order or duplicates''
     extract_ahci_caps ''AHCI port without accepted global observation'' ahci_port_judge)"

subsection \<open>Global interrupt mask\<close>

definition AHCI_INTERRUPTS :: bytes where "AHCI_INTERRUPTS = ''LEANOS-LAB/1 AHCI-INTERRUPTS ''"
abbreviation AHCI_INTERRUPTS_REASON :: bytes where "AHCI_INTERRUPTS_REASON \<equiv> ''qotom-ahci-interrupts''"

definition port_stopped :: "ahci_port_report \<Rightarrow> bool" where
  "port_stopped p \<longleftrightarrow>
     (port_command_before p, port_interrupt p, port_task_file p, port_sata_status p,
      port_active p, port_issued p, port_command_after p) = (6, 0, 0x50, 0x123, 0, 0, 6)"

definition interrupt_valid :: "int \<Rightarrow> int \<Rightarrow> int \<Rightarrow> int \<Rightarrow> bool" where
  "interrupt_valid status attempted before after \<longleftrightarrow>
     (if status \<in> {3, 4, 9, 10, 11} then (attempted, before, after) = (0, 0, 0)
      else attempted = 1 \<and> before = 0x80000002 \<and>
        (if status \<in> {0, 8} then after = 0x80000000
         else if status \<in> {5, 6} then after = 0
         else after \<noteq> 0x80000000))"

definition interrupt_binding :: "int \<Rightarrow> ahci_port_report \<Rightarrow> ahci_caps_report option \<Rightarrow> unit res" where
  "interrupt_binding status prior caps =
     (if status < 9 then
        (case caps of None \<Rightarrow> Inl TypeError
         | Some c \<Rightarrow> raise_if (ahci_control c \<noteq> 0x80000002 \<or> \<not> port_stopped prior)
             ''AHCI interrupt helper without bound stopped profile'' (Inr ()))
      else Inr ())"

definition ahci_interrupt_judge ::
  "protocol \<Rightarrow> bytes list \<Rightarrow> nat list \<Rightarrow> unit \<Rightarrow> bytes \<Rightarrow> bytes \<Rightarrow> ahci_port_report \<Rightarrow> control_report res" where
  "ahci_interrupt_judge P lines indices s projection without_port prior =
     bind (extract_ahci_caps without_port P) (\<lambda>(_, caps).
     bind (match_ints ''AHCI interrupt framing''
       (control_pattern (AHCI_INTERRUPTS @ ''profile=qotom-ahci-interrupts-v1 index=2'')) (lines ! hd indices)) (\<lambda>vs.
     unpack4 vs (\<lambda>status attempted before after.
     raise_if (11 < status \<or> status \<in> {1, 2} \<or> 1 < attempted \<or> U32 < max before after)
       ''AHCI interrupt bounds or impossible native status''
     (bind (interrupt_binding status prior caps) (\<lambda>_.
     raise_if (\<not> interrupt_valid status attempted before after \<or>
         \<not> terminal P AHCI_INTERRUPTS_REASON (status \<noteq> 0) lines)
       ''AHCI interrupt payload or terminal contradiction''
     (Inr \<lparr>rep_schema = ''leanos-qotom-ahci-interrupt-observation-v1'',
        rep_reason = reason_if (status \<noteq> 0) AHCI_INTERRUPTS_REASON,
        rep_claims = [(''hardware_operations_replayed'', False),
          (''firmware_exclusion_established'', False), (''dma_quarantine_established'', False)],
        rep_status = status, ctl_attempted = attempted, ctl_before = before, ctl_after = after\<rparr>))))))"

definition extract_ahci_interrupt :: "bytes \<Rightarrow> protocol \<Rightarrow> (bytes \<times> control_report option) res" where
  "extract_ahci_interrupt = run_decoder (status_stage ''AHCI interrupt bounds'' AHCI_INTERRUPTS
     AHCI_INTERRUPTS_REASON ''missing AHCI interrupt observation'' ''AHCI interrupt order or duplicates''
     extract_ahci_port ''AHCI interrupt without successful port observation'' ahci_interrupt_judge)"

subsection \<open>Bus Master Enable\<close>

definition AHCI_BME :: bytes where "AHCI_BME = ''LEANOS-LAB/1 AHCI-BME ''"
abbreviation AHCI_BME_REASON :: bytes where "AHCI_BME_REASON \<equiv> ''qotom-ahci-bme''"

definition interrupts_masked :: "control_report \<Rightarrow> bool" where
  "interrupts_masked p \<longleftrightarrow> (ctl_attempted p, ctl_before p, ctl_after p) = (1, 0x80000002, 0x80000000)"

definition extract_ahci_bme :: "bytes \<Rightarrow> protocol \<Rightarrow> (bytes \<times> bme_report option) res" where
  "extract_ahci_bme = run_decoder (status_stage ''BME capture bounds'' AHCI_BME AHCI_BME_REASON
     ''missing BME observation'' ''BME order or duplicates''
     extract_ahci_interrupt ''BME without successful interrupt-disable observation''
     (bme_judge (AHCI_BME @ ''profile=qotom-ahci-bme-v1 index=2'') 2 11 interrupts_masked
       ''BME write authority without accepted interrupt disable'' [3, 4, 5, 9, 10, 11] 0x7 0x3
       ''leanos-qotom-ahci-bme-observation-v1'' AHCI_BME_REASON))"

subsection \<open>The stages keep their contract\<close>

lemma ahci_caps_judge_closes:
  "ahci_caps_judge P lines indices s proj prior p = Inr r \<Longrightarrow> closes P AHCI_CAPS_REASON lines r"
  unfolding ahci_caps_judge_def Let_def by (elim res_elims) (auto simp: closes_def)

lemma ahci_port_judge_closes:
  "ahci_port_judge P lines indices s proj prior p = Inr r \<Longrightarrow> closes P AHCI_PORT_REASON lines r"
  unfolding ahci_port_judge_def by (elim res_elims) (auto simp: closes_def port_report_of_def)

lemma ahci_interrupt_judge_closes:
  "ahci_interrupt_judge P lines indices s proj prior p = Inr r \<Longrightarrow> closes P AHCI_INTERRUPTS_REASON lines r"
  unfolding ahci_interrupt_judge_def by (elim res_elims) (auto simp: closes_def)

lemma ahci_caps_decoder_simps [simp]:
  "d_prefix ahci_caps_decoder = AHCI_CAPS" "d_prev ahci_caps_decoder = extract_pcie_device"
  "d_ready ahci_caps_decoder = reason_pending" "d_judge ahci_caps_decoder = ahci_caps_judge"
  "d_placed ahci_caps_decoder = one_before_last" "d_scan ahci_caps_decoder = no_scan"
  by (simp_all add: ahci_caps_decoder_def)

interpretation ahci_caps: capture_stage extract_ahci_caps "\<lambda>l. startswith l AHCI_CAPS" status_zero
  AHCI_CAPS_REASON extract_pcie_device reason_pending
  unfolding extract_ahci_caps_def ahci_caps_decoder_simps(1-3) [symmetric]
  by (rule status_decoder_stage) (simp_all add: ahci_caps_judge_closes one_before_last_inside)

interpretation ahci_port: capture_stage extract_ahci_port "\<lambda>l. startswith l AHCI_PORT" status_zero
  AHCI_PORT_REASON extract_ahci_caps status_zero
  unfolding extract_ahci_port_def
  by (rule status_stage_interface) (simp_all add: ahci_port_judge_closes)

interpretation ahci_interrupt: capture_stage extract_ahci_interrupt "\<lambda>l. startswith l AHCI_INTERRUPTS"
  status_zero AHCI_INTERRUPTS_REASON extract_ahci_port status_zero
  unfolding extract_ahci_interrupt_def
  by (rule status_stage_interface) (simp_all add: ahci_interrupt_judge_closes)

interpretation ahci_bme: capture_stage extract_ahci_bme "\<lambda>l. startswith l AHCI_BME" status_zero
  AHCI_BME_REASON extract_ahci_interrupt status_zero
  unfolding extract_ahci_bme_def by (rule status_stage_interface) (rule bme_judge_closes, assumption, simp)

end
