(* ===== verification/Hda.thy ===== *)
theory Hda
  imports Ahci
begin

text \<open>
  The audio controller stages \<^verbatim>\<open>check-qotom-hda-capture.py\<close> (global registers),
  \<^verbatim>\<open>-state-\<close> (rings and streams) and \<^verbatim>\<open>-bme-\<close>, and the firmware status of the trusted
  execution engine, \<^verbatim>\<open>check-qotom-txe-status-capture.py\<close>.
\<close>

unbundle bit_operations_syntax

subsection \<open>Global registers\<close>

record hda_report = status_report +
  hda_control_before :: int
  hda_capability :: int
  hda_minor :: int
  hda_major :: int
  hda_interrupt :: int
  hda_control_after :: int

definition HDA :: bytes where "HDA = ''LEANOS-LAB/1 HDA ''"
abbreviation HDA_REASON :: bytes where "HDA_REASON \<equiv> ''qotom-hda''"

definition hda_pattern :: "item list" where
  "hda_pattern =
     [Lit (HDA @ ''profile=qotom-hda-v1 index=5 status=''), DEC, Lit '' before='', DEC,
      Lit '' capability='', DEC, Lit '' minor='', DEC, Lit '' major='', DEC, Lit '' interrupt='', DEC,
      Lit '' after='', DEC, Lit NL]"

definition hda_valid :: "int \<Rightarrow> hda_report \<Rightarrow> bool" where
  "hda_valid status r \<longleftrightarrow>
     (if status \<noteq> 0 then
        (hda_control_before r, hda_capability r, hda_minor r, hda_major r, hda_interrupt r,
         hda_control_after r) = (0, 0, 0, 0, 0, 0)
      else hda_control_before r AND 1 \<noteq> 0 \<and> hda_control_after r AND 1 \<noteq> 0 \<and>
        hda_control_before r \<noteq> U32 \<and> hda_control_after r \<noteq> U32 \<and> hda_capability r < 65535 \<and>
        hda_minor r < 255 \<and> hda_major r < 255 \<and> hda_interrupt r \<noteq> U32)"

definition hda_report_of :: "int \<Rightarrow> int list \<Rightarrow> hda_report" where
  "hda_report_of status vals =
     \<lparr>rep_schema = ''leanos-qotom-hda-observation-v1'', rep_reason = reason_if (status \<noteq> 0) HDA_REASON,
      rep_claims = [(''hardware_operations_replayed'', False), (''atomic_snapshot'', False),
        (''dma_quarantine_established'', False)],
      rep_status = status, hda_control_before = vals ! 0, hda_capability = vals ! 1,
      hda_minor = vals ! 2, hda_major = vals ! 3, hda_interrupt = vals ! 4, hda_control_after = vals ! 5\<rparr>"

definition hda_judge ::
  "protocol \<Rightarrow> bytes list \<Rightarrow> nat list \<Rightarrow> unit \<Rightarrow> bytes \<Rightarrow> bytes \<Rightarrow> bme_report \<Rightarrow> hda_report res" where
  "hda_judge P lines indices s projection prior previous =
     bind (match_ints ''HDA framing'' hda_pattern (lines ! hd indices)) (\<lambda>vs.
     unpack_head vs (\<lambda>status vals.
     raise_if (9 < status \<or> status \<in> {1, 2} \<or> list_ex (\<lambda>v. U32 < v) vals)
       ''HDA scalar bounds or impossible native status''
     (let r = hda_report_of status vals in
     raise_if (\<not> hda_valid status r \<or> \<not> terminal P HDA_REASON (status \<noteq> 0) lines)
       ''HDA result/terminal contradiction''
     (Inr r))))"

definition extract_hda :: "bytes \<Rightarrow> protocol \<Rightarrow> (bytes \<times> hda_report option) res" where
  "extract_hda = run_decoder (status_stage ''HDA capture bounds'' HDA HDA_REASON
     ''missing HDA observation'' ''HDA order or duplicates''
     extract_ahci_bme ''HDA without successful SATA BME observation'' hda_judge)"

subsection \<open>Rings and streams\<close>

record hda_state_report = status_report +
  hda_corb :: int
  hda_rirb :: int
  hda_position :: int
  hda_streams :: "int list"

definition HDA_STATE :: bytes where "HDA_STATE = ''LEANOS-LAB/1 HDA-STATE ''"
abbreviation HDA_STATE_REASON :: bytes where "HDA_STATE_REASON \<equiv> ''qotom-hda-state''"

definition hda_state_keys :: "bytes list" where
  "hda_state_keys = [''corb'', ''rirb'', ''position''] @ map (\<lambda>i. ''stream'' @ decimal i) [0..<8]"

definition hda_state_pattern :: "item list" where
  "hda_state_pattern =
     [Lit (HDA_STATE @ ''profile=qotom-hda-state-v1 index=5 status=''), DEC] @
     concat (map (\<lambda>key. [Lit ('' '' @ key @ ''=''), DEC]) hda_state_keys) @ [Lit NL]"

definition hda_globals_bound :: "hda_report \<Rightarrow> bool" where
  "hda_globals_bound p \<longleftrightarrow>
     (hda_control_before p, hda_capability p, hda_minor p, hda_major p, hda_interrupt p, hda_control_after p) =
     (1, 0x4401, 0, 1, 0, 1)"

definition hda_state_valid :: "int \<Rightarrow> int list \<Rightarrow> bool" where
  "hda_state_valid status vals \<longleftrightarrow>
     (if status \<noteq> 0 then list_all (\<lambda>v. v = 0) vals
      else list_all (\<lambda>v. v < 255) (take 2 vals) \<and> list_all (\<lambda>v. v < U32) (drop 2 vals))"

definition hda_state_judge ::
  "protocol \<Rightarrow> bytes list \<Rightarrow> nat list \<Rightarrow> unit \<Rightarrow> bytes \<Rightarrow> bytes \<Rightarrow> hda_report \<Rightarrow> hda_state_report res" where
  "hda_state_judge P lines indices s projection prior previous =
     bind (match_ints ''HDA state framing'' hda_state_pattern (lines ! hd indices)) (\<lambda>vs.
     unpack_head vs (\<lambda>status vals.
     raise_if (10 < status \<or> status \<in> {1, 2} \<or> list_ex (\<lambda>v. U32 < v) vals)
       ''HDA state scalar bounds or impossible native status''
     (raise_if (status < 9 \<and> \<not> hda_globals_bound previous) ''HDA state without bound global profile''
     (raise_if (\<not> hda_state_valid status vals \<or> \<not> terminal P HDA_STATE_REASON (status \<noteq> 0) lines)
       ''HDA state result/terminal contradiction''
     (Inr \<lparr>rep_schema = ''leanos-qotom-hda-state-observation-v1'',
        rep_reason = reason_if (status \<noteq> 0) HDA_STATE_REASON,
        rep_claims = [(''hardware_operations_replayed'', False), (''atomic_snapshot'', False),
          (''dma_quarantine_established'', False)],
        rep_status = status, hda_corb = vals ! 0, hda_rirb = vals ! 1, hda_position = vals ! 2,
        hda_streams = drop 3 vals\<rparr>)))))"

definition extract_hda_state :: "bytes \<Rightarrow> protocol \<Rightarrow> (bytes \<times> hda_state_report option) res" where
  "extract_hda_state = run_decoder (status_stage ''HDA state capture bounds'' HDA_STATE HDA_STATE_REASON
     ''missing HDA state observation'' ''HDA state order or duplicates''
     extract_hda ''HDA state without successful globals'' hda_state_judge)"

subsection \<open>Bus Master Enable\<close>

definition HDA_BME :: bytes where "HDA_BME = ''LEANOS-LAB/1 HDA-BME ''"
abbreviation HDA_BME_REASON :: bytes where "HDA_BME_REASON \<equiv> ''qotom-hda-bme''"

definition hda_stopped :: "hda_state_report \<Rightarrow> bool" where
  "hda_stopped p \<longleftrightarrow> (hda_corb p, hda_rirb p, hda_position p) = (0, 0, 0) \<and>
     hda_streams p = replicate 8 0x40000"

definition extract_hda_bme :: "bytes \<Rightarrow> protocol \<Rightarrow> (bytes \<times> bme_report option) res" where
  "extract_hda_bme = run_decoder (status_stage ''BME capture bounds'' HDA_BME HDA_BME_REASON
     ''missing BME observation'' ''BME order or duplicates''
     extract_hda_state ''BME without successful HDA state observation''
     (bme_judge (HDA_BME @ ''profile=qotom-hda-bme-v1 index=5'') 5 11 hda_stopped
       ''BME write authority without stopped HDA state'' [3, 4, 5, 9, 10, 11] 0x6 0x2
       ''leanos-qotom-hda-bme-observation-v1'' HDA_BME_REASON))"

subsection \<open>Firmware status\<close>

record txe_status_report = status_report +
  txe_firmware0 :: int
  txe_firmware1 :: int

definition TXE_STATUS :: bytes where "TXE_STATUS = ''LEANOS-LAB/1 TXE-STATUS ''"
abbreviation TXE_STATUS_REASON :: bytes where "TXE_STATUS_REASON \<equiv> ''qotom-txe-status''"

definition txe_status_pattern :: "item list" where
  "txe_status_pattern =
     [Lit (TXE_STATUS @ ''profile=qotom-txe-status-v1 index=4 status=''), DEC, Lit '' firmware0='', DEC,
      Lit '' firmware1='', DEC, Lit NL]"

definition txe_header_binding :: "protocol \<Rightarrow> bytes list \<Rightarrow> unit res" where
  "txe_header_binding P lines =
     (case header_lines P 4 lines of
        [line] \<Rightarrow> bind (header_words P 4 line) (\<lambda>words.
          raise_if (length words \<noteq> 19 \<or> take 3 words \<noteq> [0, 26, 0] \<or> words ! 3 \<noteq> 0x0f188086 \<or>
              words ! 4 AND 0xffff \<noteq> 0x0106 \<or> words ! 5 \<noteq> 0x1080000e \<or> words ! 6 AND 0xff0000 \<noteq> 0)
            ''TXE status without captured native binding'' (Inr ()))
      | _ \<Rightarrow> raise ''TXE status missing bound header'')"

definition txe_status_judge ::
  "protocol \<Rightarrow> bytes list \<Rightarrow> nat list \<Rightarrow> unit \<Rightarrow> bytes \<Rightarrow> bytes \<Rightarrow> bme_report \<Rightarrow> txe_status_report res" where
  "txe_status_judge P lines indices s projection prior previous =
     bind (match_ints ''TXE status framing'' txe_status_pattern (lines ! hd indices)) (\<lambda>vs.
     unpack3 vs (\<lambda>status firmware0 firmware1.
     raise_if (7 < status \<or> status = 1 \<or> U32 \<le> max firmware0 firmware1) ''TXE status scalar bounds''
     (bind (if status \<notin> {2, 7} then txe_header_binding P lines else Inr ()) (\<lambda>_.
     raise_if (status \<noteq> 0 \<and> (firmware0 \<noteq> 0 \<or> firmware1 \<noteq> 0)) ''failed TXE status must publish zero''
     (raise_if (\<not> terminal P TXE_STATUS_REASON (status \<noteq> 0) lines) ''TXE status terminal contradiction''
     (Inr \<lparr>rep_schema = ''leanos-qotom-txe-status-observation-v1'',
        rep_reason = reason_if (status \<noteq> 0) TXE_STATUS_REASON,
        rep_claims = [(''hardware_operations_replayed'', False), (''firmware_exclusion_established'', False),
          (''dma_quarantine_established'', False), (''atomic_snapshot'', False)],
        rep_status = status, txe_firmware0 = firmware0, txe_firmware1 = firmware1\<rparr>))))))"

definition extract_txe_status :: "bytes \<Rightarrow> protocol \<Rightarrow> (bytes \<times> txe_status_report option) res" where
  "extract_txe_status = run_decoder (status_stage ''TXE status capture bounds'' TXE_STATUS TXE_STATUS_REASON
     ''missing TXE status observation'' ''TXE status order or duplicates''
     extract_hda_bme ''TXE status without successful HDA BME observation'' txe_status_judge)"

subsection \<open>The stages keep their contract\<close>

lemma hda_judge_closes:
  "hda_judge P lines indices s proj prior p = Inr r \<Longrightarrow> closes P HDA_REASON lines r"
  unfolding hda_judge_def Let_def by (elim res_elims) (auto simp: closes_def hda_report_of_def)

lemma hda_state_judge_closes:
  "hda_state_judge P lines indices s proj prior p = Inr r \<Longrightarrow> closes P HDA_STATE_REASON lines r"
  unfolding hda_state_judge_def by (elim res_elims) (auto simp: closes_def)

lemma txe_status_judge_closes:
  "txe_status_judge P lines indices s proj prior p = Inr r \<Longrightarrow> closes P TXE_STATUS_REASON lines r"
  unfolding txe_status_judge_def by (elim res_elims) (auto simp: closes_def)

interpretation hda: capture_stage extract_hda "\<lambda>l. startswith l HDA" status_zero
  HDA_REASON extract_ahci_bme status_zero
  unfolding extract_hda_def by (rule status_stage_interface) (simp_all add: hda_judge_closes)

interpretation hda_state: capture_stage extract_hda_state "\<lambda>l. startswith l HDA_STATE" status_zero
  HDA_STATE_REASON extract_hda status_zero
  unfolding extract_hda_state_def by (rule status_stage_interface) (simp_all add: hda_state_judge_closes)

interpretation hda_bme: capture_stage extract_hda_bme "\<lambda>l. startswith l HDA_BME" status_zero
  HDA_BME_REASON extract_hda_state status_zero
  unfolding extract_hda_bme_def by (rule status_stage_interface) (rule bme_judge_closes, assumption, simp)

interpretation txe_status: capture_stage extract_txe_status "\<lambda>l. startswith l TXE_STATUS" status_zero
  TXE_STATUS_REASON extract_hda_bme status_zero
  unfolding extract_txe_status_def by (rule status_stage_interface) (simp_all add: txe_status_judge_closes)

end
