(* ===== verification/Ports.thy ===== *)
theory Ports
  imports Hda
begin

text \<open>
  The stages that print several records: root ports (\<^verbatim>\<open>check-qotom-rootport-bme-capture.py\<close>),
  the two Realtek controllers (\<^verbatim>\<open>-realtek-state-\<close>, \<^verbatim>\<open>-realtek-bme-\<close>) and the
  Transactions Pending polls (\<^verbatim>\<open>-pcie-pending-\<close>).  The records stand directly before the
  terminal line, in order, and nothing follows a failed one.
\<close>

unbundle bit_operations_syntax

record port_bme =
  pb_index :: int
  pb_status :: int
  pb_attempted :: int
  pb_before :: int
  pb_after :: int

record ports_report = observation +
  ports_functions :: "port_bme list"

definition port_bme_pattern :: "bytes \<Rightarrow> item list" where
  "port_bme_pattern head =
     [Lit (head @ '' index=''), DEC, Lit '' status='', DEC, Lit '' attempted='', DEC, Lit '' before='', DEC,
      Lit '' after='', DEC, Lit NL]"

subsection \<open>Root ports\<close>

definition ROOTPORT_BME :: bytes where "ROOTPORT_BME = ''LEANOS-LAB/1 ROOTPORT-BME ''"
abbreviation ROOTPORT_REASON :: bytes where "ROOTPORT_REASON \<equiv> ''qotom-rootport-bme''"

definition rootport_header :: "protocol \<Rightarrow> nat \<Rightarrow> nat \<Rightarrow> bytes list \<Rightarrow> unit res" where
  "rootport_header P index slot lines =
     (case header_lines P index lines of
        [line] \<Rightarrow> bind (header_words P index line) (\<lambda>words.
          raise_if (length words \<noteq> 19 \<or> take 3 words \<noteq> [0, 28, int slot] \<or>
              words ! 3 \<noteq> 0x0f488086 + int slot * 0x20000 \<or> words ! 4 AND 0xffff \<noteq> 7 \<or>
              words ! 5 \<noteq> 0x0604000e \<or> words ! 6 AND 0xff0000 \<noteq> 0x810000)
            ''root-port header binding'' (Inr ()))
      | _ \<Rightarrow> raise ''missing root-port header'')"

definition pcie_sample_prefix :: "nat \<Rightarrow> bytes" where
  "pcie_sample_prefix index =
     ''LEANOS-LAB/1 PCIE-DEVICE profile=qotom-pcie-device-v1 index='' @ decimal index @ '' ''"

definition pcie_sample_pattern :: "nat \<Rightarrow> item list" where
  "pcie_sample_pattern index =
     [Lit (pcie_sample_prefix index @ ''status=0 offset=64 capability=32768 control-status=''), DEC, Lit NL]"

definition rootport_sample :: "nat \<Rightarrow> bytes list \<Rightarrow> unit res" where
  \<comment> \<open>the port's PCIe Device record from the earlier stage\<close>
  "rootport_sample index lines =
     (case filter (\<lambda>line. startswith line (pcie_sample_prefix index)) lines of
        [line] \<Rightarrow> bind (match_ints ''root-port prior PCIe binding'' (pcie_sample_pattern index) line) (\<lambda>vs.
          unpack_head vs (\<lambda>control _.
          raise_if (control AND NOT 0x1f0000 \<noteq> 0) ''root-port prior PCIe binding'' (Inr ())))
      | _ \<Rightarrow> raise ''root-port prior PCIe binding'')"

definition rootport_valid :: "int \<Rightarrow> int \<Rightarrow> int \<Rightarrow> int \<Rightarrow> bool" where
  "rootport_valid status attempted before after \<longleftrightarrow>
     (if status \<in> {3, 4, 8} then (attempted, before, after) = (0, 0, 0)
      else attempted = 1 \<and> before = 7 \<and>
        (if status = 0 then after = 3 else if status = 5 then after = 0
         else if status = 6 then after \<noteq> 3 else True))"

fun read_rootports :: "protocol \<Rightarrow> bytes list \<Rightarrow> nat \<Rightarrow> nat list \<Rightarrow> port_bme list res" where
  \<comment> \<open>\<^verbatim>\<open>for slot, position in enumerate(indices)\<close>; \<open>rest = []\<close> is \<^verbatim>\<open>slot == len(indices)-1\<close>\<close>
  "read_rootports P lines slot [] = Inr []"
| "read_rootports P lines slot (position # rest) =
     bind (match_ints ''root-port framing''
       (port_bme_pattern (ROOTPORT_BME @ ''profile=qotom-rootport-bme-v1'')) (lines ! position)) (\<lambda>vs.
     unpack5 vs (\<lambda>index status attempted before after.
     raise_if (index \<noteq> 6 + int slot \<or> 8 < status \<or> status \<in> {1, 2} \<or> 1 < attempted \<or> 65535 < max before after)
       ''root-port scalar bounds''
     (bind (if status < 8 then
              bind (rootport_header P (6 + slot) slot lines) (\<lambda>_. rootport_sample (6 + slot) lines)
            else Inr ()) (\<lambda>_.
     raise_if (\<not> rootport_valid status attempted before after \<or> (status \<noteq> 0 \<and> rest \<noteq> []))
       ''root-port result or writes after failure''
     (bind (read_rootports P lines (Suc slot) rest) (\<lambda>fs.
     Inr (\<lparr>pb_index = index, pb_status = status, pb_attempted = attempted, pb_before = before,
       pb_after = after\<rparr> # fs)))))))"

definition drain_claims :: "(string \<times> bool) list" where
  "drain_claims =
     [(''hardware_operations_replayed'', False), (''firmware_exclusion_established'', False),
      (''dma_quarantine_established'', False), (''transaction_drain_established'', False)]"

definition rootport_judge ::
  "protocol \<Rightarrow> bytes list \<Rightarrow> nat list \<Rightarrow> unit \<Rightarrow> bytes \<Rightarrow> bytes \<Rightarrow> txe_status_report \<Rightarrow> ports_report res" where
  "rootport_judge P lines indices s projection prior previous =
     bind (read_rootports P lines 0 indices) (\<lambda>functions.
     let failed = (pb_status (last functions) \<noteq> 0) in
     raise_if ((\<not> failed \<and> length functions \<noteq> 4) \<or> \<not> terminal P ROOTPORT_REASON failed lines)
       ''root-port incomplete success or terminal contradiction''
     (Inr \<lparr>rep_schema = ''leanos-qotom-rootport-bme-observation-v1'',
        rep_reason = reason_if failed ROOTPORT_REASON, rep_claims = drain_claims,
        ports_functions = functions\<rparr>))"

definition rootport_decoder :: "(txe_status_report, unit, ports_report) decoder" where
  "rootport_decoder =
     \<lparr>d_bounds = ''root-port capture bounds'', d_prefix = ROOTPORT_BME,
      d_absent = missing_if status_zero ROOTPORT_REASON ''missing root-port records'',
      d_placed = run_before_last 4, d_order = ''root-port record order'', d_scan = no_scan,
      d_prev = extract_txe_status, d_ready = status_zero,
      d_without = ''root-port without successful TXE status'', d_judge = rootport_judge\<rparr>"

definition extract_rootport_bme :: "bytes \<Rightarrow> protocol \<Rightarrow> (bytes \<times> ports_report option) res" where
  "extract_rootport_bme = run_decoder rootport_decoder"

definition all_clear :: "ports_report \<Rightarrow> bool" where
  "all_clear p \<longleftrightarrow> list_all (\<lambda>f. pb_status f = 0) (ports_functions p)"

definition clear_count :: "nat \<Rightarrow> ports_report \<Rightarrow> bool" where
  "clear_count n p \<longleftrightarrow> length (ports_functions p) = n \<and> all_clear p"

subsection \<open>Realtek controllers\<close>

record realtek_observation =
  rt_index :: int
  rt_status :: int
  rt_transmit_before :: int
  rt_command_before :: int
  rt_interrupt_mask :: int
  rt_receive :: int
  rt_command_after :: int
  rt_transmit_after :: int

record realtek_report = observation +
  realtek_functions :: "realtek_observation list"

definition REALTEK_STATE :: bytes where "REALTEK_STATE = ''LEANOS-LAB/1 REALTEK-STATE ''"
abbreviation REALTEK_STATE_REASON :: bytes where "REALTEK_STATE_REASON \<equiv> ''qotom-realtek-state''"

definition realtek_state_pattern :: "item list" where
  "realtek_state_pattern =
     [Lit (REALTEK_STATE @ ''profile=qotom-realtek-state-v1 index=''), DEC, Lit '' status='', DEC,
      Lit '' transmit-before='', DEC, Lit '' command-before='', DEC, Lit '' interrupt-mask='', DEC,
      Lit '' receive='', DEC, Lit '' command-after='', DEC, Lit '' transmit-after='', DEC, Lit NL]"

definition route_header :: "protocol \<Rightarrow> nat \<Rightarrow> bytes list \<Rightarrow> int list res" where
  \<comment> \<open>the inner function \<^verbatim>\<open>header(index)\<close>\<close>
  "route_header P index lines =
     (case header_lines P index lines of
        [line] \<Rightarrow> bind (header_words P index line) (\<lambda>words.
          raise_if (length words \<noteq> 19) ''Realtek route header width'' (Inr words))
      | _ \<Rightarrow> raise ''missing Realtek route header'')"

definition realtek_endpoint_ok :: "nat \<Rightarrow> int list \<Rightarrow> bool" where
  "realtek_endpoint_ok slot h \<longleftrightarrow>
     (let bus = 1 + int slot * 2; bar = (if bus = 1 then 0xd0804000 else 0xd0604000) in
      take 3 h = [bus, 0, 0] \<and> h ! 3 = 0x816810ec \<and> h ! 4 AND 0xffff = 7 \<and> h ! 5 = 0x02000007 \<and>
      h ! 6 AND 0xff0000 = 0 \<and> h ! 9 = bar OR 4 \<and> h ! 10 = 0 \<and> h ! 11 = (bar - 0x4000) OR 12 \<and> h ! 12 = 0)"

definition realtek_bridge_ok :: "nat \<Rightarrow> int list \<Rightarrow> bool" where
  "realtek_bridge_ok slot h \<longleftrightarrow>
     (let bus = 1 + int slot * 2 in
      take 3 h = [0, 28, int slot * 2] \<and> h ! 9 = push_bit 16 bus OR push_bit 8 bus \<and>
      h ! 11 = (if bus = 1 then 0xd080d080 else 0xd060d060) \<and> h ! 12 = 0x1fff1 \<and> h ! 13 = 0 \<and> h ! 14 = 0)"

definition realtek_binding :: "protocol \<Rightarrow> nat \<Rightarrow> int \<Rightarrow> bytes list \<Rightarrow> unit res" where
  "realtek_binding P slot status lines =
     (if status \<noteq> 13 then
        bind (route_header P (13 + slot * 2) lines) (\<lambda>h.
        raise_if (\<not> realtek_endpoint_ok slot h) ''Realtek endpoint binding''
        (if status \<noteq> 10 then
           bind (route_header P (6 + slot * 2) lines) (\<lambda>h.
           raise_if (\<not> realtek_bridge_ok slot h) ''Realtek bridge binding'' (Inr ()))
         else Inr ()))
      else Inr ())"

fun realtek_samples :: "nat \<Rightarrow> int list \<Rightarrow> unit res" where
  \<comment> \<open>\<^verbatim>\<open>for i, value in enumerate(values)\<close> of a successful record\<close>
  "realtek_samples i [] = Inr ()"
| "realtek_samples i (v # rest) =
     raise_if ((if i \<in> {1, 4} then 255 else if i = 2 then 65535 else U32) \<le> v) ''Realtek absent/width''
     (raise_if (i \<in> {0, 5} \<and> v AND 0x7cc00000 \<noteq> 0x2c800000) ''Realtek chip revision''
     (raise_if (i \<in> {1, 4} \<and> v AND 16 \<noteq> 0) ''Realtek reset active''
     (realtek_samples (Suc i) rest)))"

definition realtek_observation_of :: "int \<Rightarrow> int \<Rightarrow> int list \<Rightarrow> realtek_observation" where
  "realtek_observation_of index status vals =
     \<lparr>rt_index = index, rt_status = status, rt_transmit_before = vals ! 0, rt_command_before = vals ! 1,
      rt_interrupt_mask = vals ! 2, rt_receive = vals ! 3, rt_command_after = vals ! 4,
      rt_transmit_after = vals ! 5\<rparr>"

fun read_realtek_state :: "protocol \<Rightarrow> bytes list \<Rightarrow> nat \<Rightarrow> nat list \<Rightarrow> realtek_observation list res" where
  "read_realtek_state P lines slot [] = Inr []"
| "read_realtek_state P lines slot (position # rest) =
     bind (match_ints ''Realtek framing'' realtek_state_pattern (lines ! position)) (\<lambda>vs.
     unpack_head vs (\<lambda>index vs'.
     unpack_head vs' (\<lambda>status vals.
     raise_if (index \<noteq> 13 + int slot * 2 \<or> 13 < status \<or> status \<in> {1, 2} \<or> list_ex (\<lambda>v. U32 < v) vals)
       ''Realtek scalar bounds''
     (bind (realtek_binding P slot status lines) (\<lambda>_.
     bind (if status \<noteq> 0 then
             raise_if (list_ex (\<lambda>v. v \<noteq> 0) vals \<or> rest \<noteq> [])
               ''Realtek failed output or reads after failure'' (Inr ())
           else realtek_samples 0 vals) (\<lambda>_.
     bind (read_realtek_state P lines (Suc slot) rest) (\<lambda>fs.
     Inr (realtek_observation_of index status vals # fs))))))))"

definition realtek_state_judge ::
  "protocol \<Rightarrow> bytes list \<Rightarrow> nat list \<Rightarrow> unit \<Rightarrow> bytes \<Rightarrow> bytes \<Rightarrow> ports_report \<Rightarrow> realtek_report res" where
  "realtek_state_judge P lines indices s projection prior previous =
     bind (read_realtek_state P lines 0 indices) (\<lambda>functions.
     let failed = (rt_status (last functions) \<noteq> 0) in
     raise_if ((\<not> failed \<and> length functions \<noteq> 2) \<or> \<not> terminal P REALTEK_STATE_REASON failed lines)
       ''Realtek incomplete success or terminal contradiction''
     (Inr \<lparr>rep_schema = ''leanos-qotom-realtek-state-observation-v1'',
        rep_reason = reason_if failed REALTEK_STATE_REASON, rep_claims = drain_claims,
        realtek_functions = functions\<rparr>))"

definition realtek_state_decoder :: "(ports_report, unit, realtek_report) decoder" where
  "realtek_state_decoder =
     \<lparr>d_bounds = ''Realtek capture bounds'', d_prefix = REALTEK_STATE,
      d_absent = missing_if all_clear REALTEK_STATE_REASON ''missing Realtek records'',
      d_placed = run_before_last 2, d_order = ''Realtek record order'', d_scan = no_scan,
      d_prev = extract_rootport_bme, d_ready = clear_count 4,
      d_without = ''Realtek without successful root ports'', d_judge = realtek_state_judge\<rparr>"

definition extract_realtek_state :: "bytes \<Rightarrow> protocol \<Rightarrow> (bytes \<times> realtek_report option) res" where
  "extract_realtek_state = run_decoder realtek_state_decoder"

subsection \<open>Realtek Bus Master Enable\<close>

definition REALTEK_BME :: bytes where "REALTEK_BME = ''LEANOS-LAB/1 REALTEK-BME ''"
abbreviation REALTEK_BME_REASON :: bytes where "REALTEK_BME_REASON \<equiv> ''qotom-realtek-bme''"

definition realtek_both_ok :: "realtek_report \<Rightarrow> bool" where
  "realtek_both_ok p \<longleftrightarrow> length (realtek_functions p) = 2 \<and>
     list_all (\<lambda>f. rt_status f = 0) (realtek_functions p)"

fun read_realtek_bme :: "bytes list \<Rightarrow> nat \<Rightarrow> nat list \<Rightarrow> port_bme list res" where
  "read_realtek_bme lines slot [] = Inr []"
| "read_realtek_bme lines slot (position # rest) =
     bind (match_ints ''Realtek BME framing''
       (port_bme_pattern (REALTEK_BME @ ''profile=qotom-realtek-bme-v1'')) (lines ! position)) (\<lambda>vs.
     unpack5 vs (\<lambda>index status attempted before after.
     raise_if (index \<noteq> 13 + int slot * 2 \<or> 10 < status \<or> status \<in> {1, 2} \<or> 1 < attempted \<or>
         65535 < max before after) ''Realtek BME scalar bounds''
     (raise_if (\<not> bme_valid [3, 4, 5, 9, 10] 7 3 status attempted before after \<or> (status \<noteq> 0 \<and> rest \<noteq> []))
       ''Realtek BME result or writes after failure''
     (bind (read_realtek_bme lines (Suc slot) rest) (\<lambda>fs.
     Inr (\<lparr>pb_index = index, pb_status = status, pb_attempted = attempted, pb_before = before,
       pb_after = after\<rparr> # fs))))))"

definition realtek_bme_judge ::
  "protocol \<Rightarrow> bytes list \<Rightarrow> nat list \<Rightarrow> unit \<Rightarrow> bytes \<Rightarrow> bytes \<Rightarrow> realtek_report \<Rightarrow> ports_report res" where
  "realtek_bme_judge P lines indices s projection prior previous =
     bind (read_realtek_bme lines 0 indices) (\<lambda>functions.
     let failed = (pb_status (last functions) \<noteq> 0) in
     raise_if ((\<not> failed \<and> length functions \<noteq> 2) \<or> \<not> terminal P REALTEK_BME_REASON failed lines)
       ''Realtek BME incomplete success or terminal contradiction''
     (Inr \<lparr>rep_schema = ''leanos-qotom-realtek-bme-observation-v1'',
        rep_reason = reason_if failed REALTEK_BME_REASON, rep_claims = drain_claims,
        ports_functions = functions\<rparr>))"

definition realtek_bme_decoder :: "(realtek_report, unit, ports_report) decoder" where
  "realtek_bme_decoder =
     \<lparr>d_bounds = ''Realtek BME capture bounds'', d_prefix = REALTEK_BME,
      d_absent = missing_if realtek_both_ok REALTEK_BME_REASON ''missing Realtek BME records'',
      d_placed = run_before_last 2, d_order = ''Realtek BME record order'', d_scan = no_scan,
      d_prev = extract_realtek_state, d_ready = realtek_both_ok,
      d_without = ''Realtek BME without successful stopped-state observations'',
      d_judge = realtek_bme_judge\<rparr>"

definition extract_realtek_bme :: "bytes \<Rightarrow> protocol \<Rightarrow> (bytes \<times> ports_report option) res" where
  "extract_realtek_bme = run_decoder realtek_bme_decoder"

subsection \<open>Transactions Pending\<close>

record pending_observation =
  pp_index :: int
  pp_status :: int
  pp_polls :: int
  pp_device_status :: int
  pp_transactions_pending :: bool

record pending_report = observation +
  pending_functions :: "pending_observation list"
  pending_quiet :: bool     \<comment> \<open>\<^verbatim>\<open>nonposted_quiet_observed\<close>\<close>

definition PCIE_PENDING :: bytes where "PCIE_PENDING = ''LEANOS-LAB/1 PCIE-PENDING ''"
abbreviation PCIE_PENDING_REASON :: bytes where "PCIE_PENDING_REASON \<equiv> ''qotom-pcie-pending''"
definition PENDING_INDICES :: "int list" where "PENDING_INDICES = [6, 7, 8, 9, 13, 15]"

definition prior_device_pattern :: "item list" where
  "prior_device_pattern =
     [Lit (PCIE_DEVICE @ ''profile=qotom-pcie-device-v1 index=''), DEC, Lit '' status='', DEC,
      Lit '' offset='', DEC, Lit '' capability='', DEC, Lit '' control-status='', DEC, Lit NL]"

fun collect_statuses :: "bytes list \<Rightarrow> (int \<times> int) list \<Rightarrow> (int \<times> int) list res" where
  \<comment> \<open>the loop of \<^verbatim>\<open>prior_device_statuses\<close>; the dict as an association list\<close>
  "collect_statuses [] statuses = Inr statuses"
| "collect_statuses (line # rest) statuses =
     (if startswith line PCIE_DEVICE then
        bind (match_ints ''PCIe pending prior framing'' prior_device_pattern line) (\<lambda>vs.
        unpack5 vs (\<lambda>index status _ _ control_status.
        if index \<in> set PENDING_INDICES then
          raise_if (index \<in> fst ` set statuses \<or> status \<noteq> 0 \<or> U32 < control_status)
            ''PCIe pending prior observation''
          (collect_statuses rest (statuses @ [(index, drop_bit 16 control_status)]))
        else collect_statuses rest statuses))
      else collect_statuses rest statuses)"

definition prior_device_statuses :: "bytes list \<Rightarrow> nat \<Rightarrow> (int \<times> int) list res" where
  "prior_device_statuses lines fin =
     bind (collect_statuses (take fin lines) []) (\<lambda>statuses.
     raise_if (fst ` set statuses \<noteq> set PENDING_INDICES) ''PCIe pending missing prior observations''
     (Inr statuses))"

definition pending_scan :: "bytes list \<Rightarrow> nat list \<Rightarrow> (int \<times> int) list res" where
  "pending_scan lines positions = prior_device_statuses lines (hd positions)"

definition pending_pattern :: "item list" where
  "pending_pattern =
     [Lit (PCIE_PENDING @ ''profile=qotom-pcie-pending-v1 index=''), DEC, Lit '' status='', DEC,
      Lit '' polls='', DEC, Lit '' device-status='', DEC, Lit NL]"

definition pending_valid :: "int \<Rightarrow> int \<Rightarrow> int \<Rightarrow> int \<Rightarrow> bool" where
  \<comment> \<open>\<open>base\<close> is the earlier device status without the Transactions Pending bit\<close>
  "pending_valid base status polls device_status \<longleftrightarrow>
     (if polls = 0 then device_status = 0 else device_status \<in> {base, base OR 0x20}) \<and>
     (if status = 0 then 2 \<le> polls \<and> polls \<le> 100 \<and> device_status = base
      else if status \<in> {2, 8, 9} then polls = 0 \<and> device_status = 0
      else if status = 6 then 1 \<le> polls \<and> polls < 100
      else if status = 7 then polls = 100 \<and> device_status = base OR 0x20
      else polls < 100)"

fun read_pending :: "(int \<times> int) list \<Rightarrow> bytes list \<Rightarrow> nat \<Rightarrow> nat list \<Rightarrow> pending_observation list res" where
  "read_pending statuses lines slot [] = Inr []"
| "read_pending statuses lines slot (position # rest) =
     bind (match_ints ''PCIe pending framing'' pending_pattern (lines ! position)) (\<lambda>vs.
     unpack4 vs (\<lambda>index status polls device_status.
     raise_if (index \<noteq> PENDING_INDICES ! slot \<or> 9 < status \<or> status = 1 \<or> 100 < polls \<or> 65535 < device_status)
       ''PCIe pending scalar bounds''
     (bind (case map_of statuses index of None \<Rightarrow> Inl (KeyError ''index'')
            | Some prior \<Rightarrow> Inr (prior AND NOT 0x20)) (\<lambda>base.
     raise_if (\<not> pending_valid base status polls device_status \<or> (status \<noteq> 0 \<and> rest \<noteq> []))
       ''PCIe pending result or observations after failure''
     (bind (read_pending statuses lines (Suc slot) rest) (\<lambda>fs.
     Inr (\<lparr>pp_index = index, pp_status = status, pp_polls = polls, pp_device_status = device_status,
       pp_transactions_pending = (device_status AND 0x20 \<noteq> 0)\<rparr> # fs)))))))"

definition pending_judge ::
  "protocol \<Rightarrow> bytes list \<Rightarrow> nat list \<Rightarrow> (int \<times> int) list \<Rightarrow> bytes \<Rightarrow> bytes \<Rightarrow> ports_report \<Rightarrow>
   pending_report res" where
  "pending_judge P lines positions prior_statuses projection prior previous =
     bind (read_pending prior_statuses lines 0 positions) (\<lambda>functions.
     let failed = (pp_status (last functions) \<noteq> 0) in
     raise_if ((\<not> failed \<and> length functions \<noteq> length PENDING_INDICES) \<or>
         \<not> terminal P PCIE_PENDING_REASON failed lines)
       ''PCIe pending incomplete success or terminal contradiction''
     (Inr \<lparr>rep_schema = ''leanos-qotom-pcie-pending-observation-v1'',
        rep_reason = reason_if failed PCIE_PENDING_REASON,
        rep_claims = [(''hardware_operations_replayed'', False), (''firmware_exclusion_established'', False),
          (''dma_quarantine_established'', False), (''posted_write_drain_established'', False),
          (''transaction_drain_established'', False)],
        pending_functions = functions, pending_quiet = (\<not> failed)\<rparr>))"

definition pending_decoder :: "(ports_report, (int \<times> int) list, pending_report) decoder" where
  "pending_decoder =
     \<lparr>d_bounds = ''PCIe pending capture bounds'', d_prefix = PCIE_PENDING,
      d_absent = missing_if (clear_count 2) PCIE_PENDING_REASON ''missing PCIe pending records'',
      d_placed = run_before_last (length PENDING_INDICES), d_order = ''PCIe pending record order'',
      d_scan = pending_scan, d_prev = extract_realtek_bme, d_ready = clear_count 2,
      d_without = ''PCIe pending without successful Realtek BME'', d_judge = pending_judge\<rparr>"

definition extract_pcie_pending :: "bytes \<Rightarrow> protocol \<Rightarrow> (bytes \<times> pending_report option) res" where
  "extract_pcie_pending = run_decoder pending_decoder"

subsection \<open>The stages keep their contract\<close>

lemma rootport_decoder_simps [simp]:
  "d_prefix rootport_decoder = ROOTPORT_BME" "d_prev rootport_decoder = extract_txe_status"
  "d_ready rootport_decoder = status_zero" "d_judge rootport_decoder = rootport_judge"
  "d_placed rootport_decoder = run_before_last 4" "d_scan rootport_decoder = no_scan"
  by (simp_all add: rootport_decoder_def)

lemma realtek_state_decoder_simps [simp]:
  "d_prefix realtek_state_decoder = REALTEK_STATE" "d_prev realtek_state_decoder = extract_rootport_bme"
  "d_ready realtek_state_decoder = clear_count 4" "d_judge realtek_state_decoder = realtek_state_judge"
  "d_placed realtek_state_decoder = run_before_last 2" "d_scan realtek_state_decoder = no_scan"
  by (simp_all add: realtek_state_decoder_def)

lemma realtek_bme_decoder_simps [simp]:
  "d_prefix realtek_bme_decoder = REALTEK_BME" "d_prev realtek_bme_decoder = extract_realtek_state"
  "d_ready realtek_bme_decoder = realtek_both_ok" "d_judge realtek_bme_decoder = realtek_bme_judge"
  "d_placed realtek_bme_decoder = run_before_last 2" "d_scan realtek_bme_decoder = no_scan"
  by (simp_all add: realtek_bme_decoder_def)

lemma pending_decoder_simps [simp]:
  "d_prefix pending_decoder = PCIE_PENDING" "d_prev pending_decoder = extract_realtek_bme"
  "d_ready pending_decoder = clear_count 2" "d_judge pending_decoder = pending_judge"
  "d_placed pending_decoder = run_before_last (length PENDING_INDICES)" "d_scan pending_decoder = pending_scan"
  by (simp_all add: pending_decoder_def)

interpretation rootport: capture_stage extract_rootport_bme "\<lambda>l. startswith l ROOTPORT_BME" reason_pending
  ROOTPORT_REASON extract_txe_status status_zero
  unfolding extract_rootport_bme_def rootport_decoder_simps(1-3) [symmetric]
  by (rule run_decoder_stage)
    (auto simp: rootport_judge_def Let_def res_simps terminal_def reason_pending_def run_before_last_inside
      split: if_splits)

interpretation realtek_state: capture_stage extract_realtek_state "\<lambda>l. startswith l REALTEK_STATE"
  reason_pending REALTEK_STATE_REASON extract_rootport_bme "clear_count 4"
  unfolding extract_realtek_state_def realtek_state_decoder_simps(1-3) [symmetric]
  by (rule run_decoder_stage)
    (auto simp: realtek_state_judge_def Let_def res_simps terminal_def reason_pending_def run_before_last_inside
      split: if_splits)

interpretation realtek_bme: capture_stage extract_realtek_bme "\<lambda>l. startswith l REALTEK_BME"
  reason_pending REALTEK_BME_REASON extract_realtek_state realtek_both_ok
  unfolding extract_realtek_bme_def realtek_bme_decoder_simps(1-3) [symmetric]
  by (rule run_decoder_stage)
    (auto simp: realtek_bme_judge_def Let_def res_simps terminal_def reason_pending_def run_before_last_inside
      split: if_splits)

interpretation pcie_pending: capture_stage extract_pcie_pending "\<lambda>l. startswith l PCIE_PENDING"
  reason_pending PCIE_PENDING_REASON extract_realtek_bme "clear_count 2"
  unfolding extract_pcie_pending_def pending_decoder_simps(1-3) [symmetric]
  by (rule run_decoder_stage)
    (auto simp: pending_judge_def Let_def res_simps terminal_def reason_pending_def run_before_last_inside
      split: if_splits)

end
