(* ===== verification/Graphics.thy ===== *)
theory Graphics
  imports Ports
begin

text \<open>
  The last device stages: \<^verbatim>\<open>check-qotom-broadcom-d3-capture.py\<close> (Command off and D3hot),
  \<^verbatim>\<open>-graphics-state-\<close> (ring samples), \<^verbatim>\<open>-graphics-bme-\<close> and \<^verbatim>\<open>-txe-bme-\<close>.  These files
  decode their own record before they run the preceding stage.
\<close>

unbundle bit_operations_syntax

subsection \<open>Broadcom D3hot\<close>

record d3_record =
  d3r_index :: int
  d3r_status :: int
  d3r_attempted :: int
  d3r_before :: int
  d3r_after :: int
  d3r_polls :: int
  d3r_device :: int
  d3r_pm_before :: int
  d3r_d3_attempted :: int
  d3r_pm_after :: int

record d3_report = status_report +
  d3_record :: d3_record
  d3_transactions_pending :: bool
  d3_command_disabled :: bool
  d3_d3hot :: bool          \<comment> \<open>\<^verbatim>\<open>d3hot_observed\<close> and \<^verbatim>\<open>pme_disabled_observed\<close>\<close>

definition BROADCOM_D3 :: bytes where "BROADCOM_D3 = ''LEANOS-LAB/1 BROADCOM-D3 ''"
abbreviation BROADCOM_D3_REASON :: bytes where "BROADCOM_D3_REASON \<equiv> ''qotom-broadcom-d3''"

definition d3_pattern :: "item list" where
  "d3_pattern =
     [Lit (BROADCOM_D3 @ ''profile=qotom-broadcom-d3-v1 index=''), DEC, Lit '' status='', DEC,
      Lit '' command-attempted='', DEC, Lit '' command-before='', DEC, Lit '' command-after='', DEC,
      Lit '' polls='', DEC, Lit '' device-status='', DEC, Lit '' pmcsr-before='', DEC,
      Lit '' d3-attempted='', DEC, Lit '' pmcsr-after='', DEC, Lit NL]"

definition d3_record_of :: "int list \<Rightarrow> d3_record" where
  "d3_record_of vs =
     \<lparr>d3r_index = vs ! 0, d3r_status = vs ! 1, d3r_attempted = vs ! 2, d3r_before = vs ! 3,
      d3r_after = vs ! 4, d3r_polls = vs ! 5, d3r_device = vs ! 6, d3r_pm_before = vs ! 7,
      d3r_d3_attempted = vs ! 8, d3r_pm_after = vs ! 9\<rparr>"

definition d3_scan :: "bytes list \<Rightarrow> nat list \<Rightarrow> d3_record res" where
  "d3_scan lines positions =
     bind (match_ints ''Broadcom D3 framing'' d3_pattern (lines ! hd positions)) (\<lambda>vs.
     let r = d3_record_of vs in
     raise_if (d3r_index r \<noteq> 14 \<or> 13 < d3r_status r \<or> 1 < d3r_attempted r \<or> 1 < d3r_d3_attempted r \<or>
         65535 < d3r_before r \<or> 65535 < d3r_after r \<or> 100 < d3r_polls r \<or> 65535 < d3r_device r \<or>
         65535 < d3r_pm_before r \<or> 65535 < d3r_pm_after r) ''Broadcom D3 scalar bounds''
     (Inr r))"

definition command_done :: "d3_record \<Rightarrow> bool" where
  "command_done r \<longleftrightarrow> d3r_attempted r = 1 \<and> d3r_before r = 6 \<and> d3r_after r = 0"

definition pending_done :: "d3_record \<Rightarrow> bool" where
  "pending_done r \<longleftrightarrow> command_done r \<and> 2 \<le> d3r_polls r \<and> d3r_polls r \<le> 100 \<and> d3r_device r = 25"

definition d3_done :: "d3_record \<Rightarrow> bool" where
  "d3_done r \<longleftrightarrow> pending_done r \<and> d3r_pm_before r = 0x4008 \<and> d3r_d3_attempted r = 1 \<and>
     d3r_pm_after r = 0x400b"

definition no_pm :: "d3_record \<Rightarrow> bool" where
  "no_pm r \<longleftrightarrow> d3r_pm_before r = 0 \<and> d3r_d3_attempted r = 0 \<and> d3r_pm_after r = 0"

definition no_poll :: "d3_record \<Rightarrow> bool" where
  "no_poll r \<longleftrightarrow> d3r_polls r = 0 \<and> d3r_device r = 0 \<and> no_pm r"

definition nothing_done :: "d3_record \<Rightarrow> bool" where
  "nothing_done r \<longleftrightarrow> d3r_attempted r = 0 \<and> d3r_before r = 0 \<and> d3r_after r = 0 \<and> no_poll r"

definition d3_failure_valid :: "d3_record \<Rightarrow> bool" where
  "d3_failure_valid r \<longleftrightarrow>
     (let status = d3r_status r in
      if status \<in> {1, 2, 4, 12, 13} then nothing_done r
      else if status = 3 then nothing_done r \<or> command_done r
      else if status = 5 then d3r_attempted r = 1 \<and> d3r_before r = 6 \<and> d3r_after r = 0 \<and> no_poll r
      else if status = 6 then d3r_attempted r = 1 \<and> d3r_before r = 6 \<and> no_poll r
      else if status = 7 then command_done r \<and> \<not> pending_done r \<and> no_pm r
      else if status = 8 then pending_done r \<and> no_pm r
      else if status = 9 then pending_done r \<and> d3r_pm_before r = 0x4008 \<and> d3r_d3_attempted r = 1 \<and>
        d3r_pm_after r = 0
      else if status = 10 then pending_done r \<and> d3r_pm_before r = 0x4008 \<and> d3r_d3_attempted r = 1 \<and>
        d3r_pm_after r \<noteq> 0x400b
      else if status = 11 then d3_done r
      else False)"

definition d3_judge ::
  "protocol \<Rightarrow> bytes list \<Rightarrow> nat list \<Rightarrow> d3_record \<Rightarrow> bytes \<Rightarrow> bytes \<Rightarrow> pending_report \<Rightarrow> d3_report res" where
  "d3_judge P lines positions r projection prior previous =
     raise_if (\<not> (terminal P BROADCOM_D3_REASON (d3r_status r \<noteq> 0) lines \<and>
         (if d3r_status r = 0 then d3_done r else d3_failure_valid r)))
       ''Broadcom D3 result or terminal contradiction''
     (Inr \<lparr>rep_schema = ''leanos-qotom-broadcom-d3-observation-v1'',
        rep_reason = reason_if (d3r_status r \<noteq> 0) BROADCOM_D3_REASON,
        rep_claims = [(''hardware_operations_replayed'', False), (''posted_write_drain_established'', False),
          (''firmware_exclusion_established'', False), (''dma_quarantine_established'', False)],
        rep_status = d3r_status r, d3_record = r,
        d3_transactions_pending = (d3r_device r AND 0x20 \<noteq> 0),
        d3_command_disabled = command_done r, d3_d3hot = d3_done r\<rparr>)"

definition pending_all_quiet :: "pending_report \<Rightarrow> bool" where
  "pending_all_quiet p \<longleftrightarrow> length (pending_functions p) = 6 \<and>
     list_all (\<lambda>f. pp_status f = 0) (pending_functions p)"

definition d3_decoder :: "(pending_report, d3_record, d3_report) decoder" where
  "d3_decoder =
     \<lparr>d_bounds = ''Broadcom D3 capture bounds'', d_prefix = BROADCOM_D3,
      d_absent = missing_if (\<lambda>_. True) BROADCOM_D3_REASON ''missing Broadcom D3 record'',
      d_placed = one_before_last, d_order = ''Broadcom D3 record order'', d_scan = d3_scan,
      d_prev = extract_pcie_pending, d_ready = pending_all_quiet,
      d_without = ''Broadcom D3 without PCIe pending success'', d_judge = d3_judge\<rparr>"

definition extract_broadcom_d3 :: "bytes \<Rightarrow> protocol \<Rightarrow> (bytes \<times> d3_report option) res" where
  "extract_broadcom_d3 = run_decoder d3_decoder"

subsection \<open>Graphics rings\<close>

record ring_sample =
  ring_engine :: string
  ring_tail :: int
  ring_head :: int
  ring_start :: int
  ring_control :: int
  ring_mode :: int

record graphics_report = status_report +
  gfx_index :: int
  gfx_samples :: "ring_sample list list"
  gfx_stable :: bool
  gfx_idle :: bool          \<comment> \<open>\<^verbatim>\<open>rings_invalid_and_idle\<close>\<close>
  gfx_empty :: bool
  gfx_accepted :: bool      \<comment> \<open>\<^verbatim>\<open>display_decode_preserved\<close> and \<^verbatim>\<open>graphics_bme_preserved\<close>\<close>

definition GRAPHICS_STATE :: bytes where "GRAPHICS_STATE = ''LEANOS-LAB/1 GRAPHICS-STATE ''"
abbreviation GRAPHICS_STATE_REASON :: bytes where "GRAPHICS_STATE_REASON \<equiv> ''qotom-graphics-state''"

definition graphics_pattern :: "item list" where
  "graphics_pattern =
     [Lit (GRAPHICS_STATE @ ''profile=qotom-valleyview-rings-v1 index=''), DEC, Lit '' status='', DEC,
      Lit '' width='', DEC, Lit '' words='', DEC] @
     concat (replicate 29 [Lit '','', DEC]) @ [Lit NL]"

definition graphics_scan :: "bytes list \<Rightarrow> nat list \<Rightarrow> (int \<times> int \<times> int list) res" where
  "graphics_scan lines positions =
     bind (match_ints ''graphics state framing'' graphics_pattern (lines ! hd positions)) (\<lambda>vs.
     let index = vs ! 0; status = vs ! 1; width = vs ! 2; words = drop 3 vs in
     raise_if (index \<noteq> 1 \<or> 7 < status \<or> width \<noteq> 30 \<or> list_ex (\<lambda>w. U32 < w) words)
       ''graphics state scalar bounds''
     (Inr (index, status, words)))"

definition ring_sample_of :: "string \<Rightarrow> int list \<Rightarrow> ring_sample" where
  "ring_sample_of name vals =
     \<lparr>ring_engine = name, ring_tail = vals ! 0, ring_head = vals ! 1, ring_start = vals ! 2,
      ring_control = vals ! 3, ring_mode = vals ! 4\<rparr>"

definition ring_samples :: "int list \<Rightarrow> ring_sample list list" where
  "ring_samples words =
     map (\<lambda>sample. map (\<lambda>(engine, name).
         ring_sample_of name (take 5 (drop (sample * 15 + engine * 5) words)))
       (enumerate 0 [''rcs'', ''vcs'', ''bcs''])) [0, 1]"

definition graphics_judge ::
  "protocol \<Rightarrow> bytes list \<Rightarrow> nat list \<Rightarrow> int \<times> int \<times> int list \<Rightarrow> bytes \<Rightarrow> bytes \<Rightarrow> d3_report \<Rightarrow>
   graphics_report res" where
  "graphics_judge P lines positions scanned projection prior previous =
     (case scanned of (index, status, words) \<Rightarrow>
     raise_if (status = 0 \<and> last lines \<noteq> pending_line P) ''graphics success terminal contradiction''
     (raise_if (status \<noteq> 0 \<and> (list_ex (\<lambda>w. w \<noteq> 0) words \<or> last lines \<noteq> final_line P GRAPHICS_STATE_REASON))
       ''graphics failure result or terminal contradiction''
     (let samples = ring_samples words; accepted = (status = 0) in
     Inr \<lparr>rep_schema = ''leanos-qotom-graphics-state-observation-v1'',
        rep_reason = reason_if (status \<noteq> 0) GRAPHICS_STATE_REASON,
        rep_claims = [(''hardware_operations_replayed'', False), (''dma_quarantine_established'', False),
          (''firmware_exclusion_established'', False)],
        rep_status = status, gfx_index = index, gfx_samples = samples,
        gfx_stable = (accepted \<and> list_all (\<lambda>i. samples ! 0 ! i = samples ! 1 ! i) [0..<3]),
        gfx_idle = (accepted \<and> list_all (list_all (\<lambda>e. ring_control e AND 1 = 0 \<and>
          ring_mode e AND 0x200 \<noteq> 0)) samples),
        gfx_empty = (accepted \<and> list_all (list_all (\<lambda>e. ring_head e = ring_tail e)) samples),
        gfx_accepted = accepted\<rparr>)))"

definition graphics_ready :: "d3_report \<Rightarrow> bool" where
  "graphics_ready p \<longleftrightarrow> rep_status p = 0 \<and> d3_d3hot p"

definition graphics_decoder :: "(d3_report, int \<times> int \<times> int list, graphics_report) decoder" where
  "graphics_decoder =
     \<lparr>d_bounds = ''graphics state capture bounds'', d_prefix = GRAPHICS_STATE,
      d_absent = missing_if (\<lambda>_. True) GRAPHICS_STATE_REASON ''missing graphics state record'',
      d_placed = one_before_last, d_order = ''graphics state record order'', d_scan = graphics_scan,
      d_prev = extract_broadcom_d3, d_ready = graphics_ready,
      d_without = ''graphics state without Broadcom D3hot success'', d_judge = graphics_judge\<rparr>"

definition extract_graphics_state :: "bytes \<Rightarrow> protocol \<Rightarrow> (bytes \<times> graphics_report option) res" where
  "extract_graphics_state = run_decoder graphics_decoder"

subsection \<open>Graphics Bus Master Enable\<close>

definition GRAPHICS_BME :: bytes where "GRAPHICS_BME = ''LEANOS-LAB/1 GRAPHICS-BME ''"
abbreviation GRAPHICS_BME_REASON :: bytes where "GRAPHICS_BME_REASON \<equiv> ''qotom-graphics-bme''"

record host_bme_report = bme_report +
  hb_index :: int
  hb_preserved :: "(string \<times> bool) list"   \<comment> \<open>the entries that are constantly true\<close>
  hb_cleared :: bool                          \<comment> \<open>\<^verbatim>\<open>host_visible_bme_cleared\<close> of the TXE report\<close>

definition indexed_bme_scan ::
  "bytes \<Rightarrow> string \<Rightarrow> string \<Rightarrow> int \<Rightarrow> int \<Rightarrow> bytes list \<Rightarrow> nat list \<Rightarrow> port_bme res" where
  "indexed_bme_scan head framing bounds expected max_status lines positions =
     bind (match_ints framing (port_bme_pattern head) (lines ! hd positions)) (\<lambda>vs.
     unpack5 vs (\<lambda>index status attempted before after.
     raise_if (index \<noteq> expected \<or> max_status < status \<or> status \<in> {1, 2} \<or> 1 < attempted \<or> 65535 < max before after)
       bounds
     (Inr \<lparr>pb_index = index, pb_status = status, pb_attempted = attempted, pb_before = before,
       pb_after = after\<rparr>)))"

definition host_bme_valid :: "int list \<Rightarrow> int \<Rightarrow> int \<Rightarrow> port_bme \<Rightarrow> bool" where
  "host_bme_valid untouched on off r \<longleftrightarrow>
     (if pb_status r \<in> set untouched then (pb_attempted r, pb_before r, pb_after r) = (0, 0, 0)
      else if pb_status r = 6 then (pb_attempted r, pb_before r, pb_after r) = (1, on, 0)
      else if pb_status r = 7 then pb_attempted r = 1 \<and> pb_before r = on \<and> pb_after r \<noteq> off
      else pb_attempted r = 1 \<and> pb_before r = on \<and> (pb_status r = 8 \<or> pb_after r = off))"

definition host_bme_judge ::
  "int list \<Rightarrow> int \<Rightarrow> int \<Rightarrow> string \<Rightarrow> string \<Rightarrow> string \<Rightarrow> bytes \<Rightarrow> (string \<times> bool) list \<Rightarrow>
   (string \<times> bool) list \<Rightarrow> protocol \<Rightarrow> bytes list \<Rightarrow> nat list \<Rightarrow> port_bme \<Rightarrow> bytes \<Rightarrow> bytes \<Rightarrow> 'p \<Rightarrow>
   host_bme_report res" where
  "host_bme_judge untouched on off result contradiction schema reason preserved claims P lines positions r
      projection prior previous =
     raise_if (\<not> host_bme_valid untouched on off r) result
     (raise_if (\<not> terminal P reason (pb_status r \<noteq> 0) lines) contradiction
     (Inr \<lparr>rep_schema = schema, rep_reason = reason_if (pb_status r \<noteq> 0) reason, rep_claims = claims,
        rep_status = pb_status r, bme_attempted = pb_attempted r, bme_before = pb_before r,
        bme_after = pb_after r, hb_index = pb_index r, hb_preserved = preserved,
        hb_cleared = (pb_status r = 0)\<rparr>))"

definition graphics_quiet :: "graphics_report \<Rightarrow> bool" where
  "graphics_quiet p \<longleftrightarrow> rep_status p = 0 \<and> gfx_stable p \<and> gfx_idle p \<and> gfx_empty p"

definition graphics_bme_decoder :: "(graphics_report, port_bme, host_bme_report) decoder" where
  "graphics_bme_decoder =
     \<lparr>d_bounds = ''graphics BME capture bounds'', d_prefix = GRAPHICS_BME,
      d_absent = missing_if status_zero GRAPHICS_BME_REASON ''missing graphics BME record'',
      d_placed = one_before_last, d_order = ''graphics BME record order'',
      d_scan = indexed_bme_scan (GRAPHICS_BME @ ''profile=qotom-valleyview-bme-v1'')
        ''graphics BME framing'' ''graphics BME scalar bounds'' 1 10,
      d_prev = extract_graphics_state, d_ready = graphics_quiet,
      d_without = ''graphics BME without quiet graphics observation'',
      d_judge = host_bme_judge [3, 4, 5, 9, 10] 7 3 ''graphics BME result''
        ''graphics BME terminal contradiction'' ''leanos-qotom-graphics-bme-observation-v1''
        GRAPHICS_BME_REASON [(''display_decode_preserved'', True)]
        [(''hardware_operations_replayed'', False), (''firmware_exclusion_established'', False),
         (''dma_quarantine_established'', False), (''transaction_drain_established'', False)]\<rparr>"

definition extract_graphics_bme :: "bytes \<Rightarrow> protocol \<Rightarrow> (bytes \<times> host_bme_report option) res" where
  "extract_graphics_bme = run_decoder graphics_bme_decoder"

subsection \<open>TXE Bus Master Enable\<close>

definition TXE_BME :: bytes where "TXE_BME = ''LEANOS-LAB/1 TXE-BME ''"
abbreviation TXE_BME_REASON :: bytes where "TXE_BME_REASON \<equiv> ''qotom-txe-bme''"

definition graphics_cleared :: "host_bme_report \<Rightarrow> bool" where
  "graphics_cleared p \<longleftrightarrow> rep_status p = 0 \<and> bme_after p = 3"

definition txe_bme_decoder :: "(host_bme_report, port_bme, host_bme_report) decoder" where
  "txe_bme_decoder =
     \<lparr>d_bounds = ''TXE BME capture bounds'', d_prefix = TXE_BME,
      d_absent = missing_if status_zero TXE_BME_REASON ''missing TXE BME record'',
      d_placed = one_before_last, d_order = ''TXE BME record order'',
      d_scan = indexed_bme_scan (TXE_BME @ ''profile=qotom-txe-host-bme-v1'')
        ''TXE BME framing'' ''TXE BME scalar bounds'' 4 9,
      d_prev = extract_graphics_bme, d_ready = graphics_cleared,
      d_without = ''TXE BME without successful graphics BME transition'',
      d_judge = host_bme_judge [3, 4, 5, 9] 0x106 0x102 ''TXE BME result''
        ''TXE BME terminal contradiction'' ''leanos-qotom-txe-host-bme-observation-v1''
        TXE_BME_REASON [(''memory_decode_preserved'', True), (''serr_enable_preserved'', True)]
        [(''hardware_operations_replayed'', False), (''txe_private_dma_stopped'', False),
         (''firmware_exclusion_established'', False), (''dma_quarantine_established'', False),
         (''transaction_drain_established'', False)]\<rparr>"

definition extract_txe_bme :: "bytes \<Rightarrow> protocol \<Rightarrow> (bytes \<times> host_bme_report option) res" where
  "extract_txe_bme = run_decoder txe_bme_decoder"

subsection \<open>The stages keep their contract\<close>

lemma d3_decoder_simps [simp]:
  "d_prefix d3_decoder = BROADCOM_D3" "d_prev d3_decoder = extract_pcie_pending"
  "d_ready d3_decoder = pending_all_quiet" "d_judge d3_decoder = d3_judge"
  "d_placed d3_decoder = one_before_last" "d_scan d3_decoder = d3_scan"
  by (simp_all add: d3_decoder_def)

lemma graphics_decoder_simps [simp]:
  "d_prefix graphics_decoder = GRAPHICS_STATE" "d_prev graphics_decoder = extract_broadcom_d3"
  "d_ready graphics_decoder = graphics_ready" "d_judge graphics_decoder = graphics_judge"
  "d_placed graphics_decoder = one_before_last" "d_scan graphics_decoder = graphics_scan"
  by (simp_all add: graphics_decoder_def)

lemma graphics_bme_decoder_simps [simp]:
  "d_prefix graphics_bme_decoder = GRAPHICS_BME" "d_prev graphics_bme_decoder = extract_graphics_state"
  "d_ready graphics_bme_decoder = graphics_quiet" "d_placed graphics_bme_decoder = one_before_last"
  by (simp_all add: graphics_bme_decoder_def)

lemma txe_bme_decoder_simps [simp]:
  "d_prefix txe_bme_decoder = TXE_BME" "d_prev txe_bme_decoder = extract_graphics_bme"
  "d_ready txe_bme_decoder = graphics_cleared" "d_placed txe_bme_decoder = one_before_last"
  by (simp_all add: txe_bme_decoder_def)

lemma d3_judge_closes:
  "d3_judge P lines indices s proj prior p = Inr r \<Longrightarrow> closes P BROADCOM_D3_REASON lines r"
  unfolding d3_judge_def by (elim res_elims) (auto simp: closes_def)

lemma graphics_judge_closes:
  "graphics_judge P lines indices s proj prior p = Inr r \<Longrightarrow> closes P GRAPHICS_STATE_REASON lines r"
  unfolding graphics_judge_def Let_def
  by (cases s) (auto simp: closes_def terminal_def pending_line_def res_simps)

lemma host_bme_judge_closes:
  "host_bme_judge u on off m1 m2 schema reason pres claims P lines indices s proj prior p = Inr r \<Longrightarrow>
     closes P reason lines r"
  unfolding host_bme_judge_def by (elim res_elims) (auto simp: closes_def)

interpretation broadcom_d3: capture_stage extract_broadcom_d3 "\<lambda>l. startswith l BROADCOM_D3" status_zero
  BROADCOM_D3_REASON extract_pcie_pending pending_all_quiet
  unfolding extract_broadcom_d3_def d3_decoder_simps(1-3) [symmetric]
  by (rule status_decoder_stage) (simp_all add: d3_judge_closes one_before_last_inside)

interpretation graphics_state: capture_stage extract_graphics_state "\<lambda>l. startswith l GRAPHICS_STATE"
  status_zero GRAPHICS_STATE_REASON extract_broadcom_d3 graphics_ready
  unfolding extract_graphics_state_def graphics_decoder_simps(1-3) [symmetric]
  by (rule status_decoder_stage) (simp_all add: graphics_judge_closes one_before_last_inside)

interpretation graphics_bme: capture_stage extract_graphics_bme "\<lambda>l. startswith l GRAPHICS_BME"
  status_zero GRAPHICS_BME_REASON extract_graphics_state graphics_quiet
  unfolding extract_graphics_bme_def graphics_bme_decoder_simps(1-3) [symmetric]
  by (rule status_decoder_stage) (auto simp: graphics_bme_decoder_def one_before_last_inside elim: host_bme_judge_closes)

interpretation txe_bme: capture_stage extract_txe_bme "\<lambda>l. startswith l TXE_BME"
  status_zero TXE_BME_REASON extract_graphics_bme graphics_cleared
  unfolding extract_txe_bme_def txe_bme_decoder_simps(1-3) [symmetric]
  by (rule status_decoder_stage) (auto simp: txe_bme_decoder_def one_before_last_inside elim: host_bme_judge_closes)

text \<open>
  C32 (error). The wireless stage passes no failed quiescence sample on: whenever it decodes a capture at
  all, with its own record or without, the stage below found either nothing or six quiet functions; a
  capture that ends with the failure of that stage is undecodable from here up.
\<close>

theorem d3_rejects_pending_failure:
  assumes "extract_broadcom_d3 raw P = Inr (proj, r)" "extract_pcie_pending proj P = Inr (prior, Some p)"
  shows "r \<noteq> None \<and> pending_all_quiet p"
proof (cases r)
  case None
  with assms show ?thesis
    by (auto simp: extract_broadcom_d3_def d3_decoder_def missing_if_def run_decoder_def Let_def res_simps
        split: if_splits)
next
  case (Some report)
  with assms show ?thesis
    unfolding extract_broadcom_d3_def by (auto elim!: run_decoder_SomeE simp: d3_decoder_def)
qed

text \<open>
  C33 (error). A graphics sample that was taken but is not quiet blocks the decoding: no capture whose
  lower part decodes to such a sample is accepted by the stage that clears graphics bus mastering,
  whether or not it carries that stage's record.
\<close>

theorem graphics_sample_blocks:
  assumes "extract_graphics_bme raw P = Inr (proj, r)" "extract_graphics_state proj P = Inr (prior, Some p)"
    and "rep_status p = 0"
  shows "r \<noteq> None \<and> graphics_quiet p"
proof (cases r)
  case None
  with assms show ?thesis
    by (auto simp: extract_graphics_bme_def graphics_bme_decoder_def missing_if_def run_decoder_def Let_def res_simps
        status_zero_def split: if_splits)
next
  case (Some report)
  with assms show ?thesis
    unfolding extract_graphics_bme_def by (auto elim!: run_decoder_SomeE simp: graphics_bme_decoder_def)
qed

end
