(* ===== verification/Checkpoints.thy ===== *)
theory Checkpoints
  imports Graphics
begin

text \<open>
  The checkpoints after the device stages: \<^verbatim>\<open>check-qotom-pci-final-capture.py\<close>,
  \<^verbatim>\<open>-nosmap-control-\<close>, \<^verbatim>\<open>-copy-root-publication-\<close>, \<^verbatim>\<open>-entry-integration-\<close>,
  \<^verbatim>\<open>-exception-integration-\<close> and \<^verbatim>\<open>-blocking-ipc-integration-capture.py\<close>.  A checkpoint is
  decoded only when its option is selected, so its records must be there: it accepts the
  capture or raises.  Its projection ends with the terminal line of the checkpoint below it.
\<close>

unbundle bit_operations_syntax

abbreviation U64 :: int where "U64 \<equiv> 0xffffffffffffffff"

definition owned :: "bytes \<Rightarrow> bytes list \<Rightarrow> nat list" where
  \<comment> \<open>\<^verbatim>\<open>[i for i, line in enumerate(lines) if line.startswith(PREFIX)]\<close>\<close>
  "owned PREFIX lines = indices_where (\<lambda>line. startswith line PREFIX) lines"

definition positioned :: "bytes \<Rightarrow> nat \<Rightarrow> bytes list \<Rightarrow> bool" where
  \<comment> \<open>\<^verbatim>\<open>positions == [len(lines)-k]\<close>\<close>
  "positioned PREFIX k lines \<longleftrightarrow> (case owned PREFIX lines of [i] \<Rightarrow> i + k = length lines | _ \<Rightarrow> False)"

subsection \<open>Final PCI observation\<close>

record pci_final_report = status_report +
  pf_index :: int
  pf_count :: int
  pf_commands :: "int list"
  pf_assumption_mask :: int
  pf_platform_admitted :: bool
  pf_contract :: "(bool \<times> bool) option"
    \<comment> \<open>\<^verbatim>\<open>trust_contract_accepted\<close> and \<^verbatim>\<open>dma_quarantine_admitted_under_contract\<close>\<close>

definition PCI_FINAL :: bytes where "PCI_FINAL = ''LEANOS-LAB/1 PCI-FINAL ''"

definition FINAL_COMMANDS :: "int list" where
  "FINAL_COMMANDS = [7, 3, 3, 2, 258, 2, 3, 3, 3, 3, 1026, 7, 3, 3, 0, 3]"

definition pci_final_reason :: "bool \<Rightarrow> bytes" where
  "pci_final_reason trust = (if trust then ''qotom-nosmap-pending'' else ''qotom-pci-assumptions'')"

definition pci_final_pattern :: "bool \<Rightarrow> item list" where
  "pci_final_pattern trust =
     [Lit (PCI_FINAL @ ''profile=qotom-pci-final-v1 status=''), DEC, Lit '' index='', DEC,
      Lit '' count='', DEC, Lit '' commands-accepted='', DEC, Lit '' assumption-mask='', DEC,
      Lit '' admitted='', DEC] @
     (if trust then [Lit '' contract=qotom-j1900-pci-trust-v1 contract-accepted='', DEC] else []) @
     [Lit '' commands='', DigitList 15, Lit '' vtd=not-applicable platform-admitted='', DEC, Lit NL]"

definition pci_final_ready :: "host_bme_report \<Rightarrow> bool" where
  "pci_final_ready p \<longleftrightarrow> rep_status p = 0 \<and> hb_cleared p"

definition pci_final_report_of :: "bool \<Rightarrow> int list \<Rightarrow> int list \<Rightarrow> int \<Rightarrow> int \<Rightarrow> pci_final_report" where
  "pci_final_report_of trust head commands contract platform =
     \<lparr>rep_schema = ''leanos-qotom-pci-final-observation-v1'', rep_reason = pci_final_reason trust,
      rep_claims = [(''commands_accepted'', True), (''fixed_infrastructure_noninitiating_assumed'', True),
        (''lpc_no_dma_assumed'', True), (''posted_writes_drained'', False),
        (''txe_private_dma_quiescent'', False), (''firmware_and_smm_noninterference'', False),
        (''vtd_applicable'', False), (''hardware_operations_replayed'', False),
        (''fresh_complete_rescan_observed'', True)] @
        (if trust then [(''posted_writes_drained_assumed'', True),
          (''txe_private_dma_quiescent_assumed'', True),
          (''firmware_and_smm_noninterference_assumed'', True)] else []),
      rep_status = head ! 0, pf_index = head ! 1, pf_count = head ! 2, pf_commands = commands,
      pf_assumption_mask = head ! 4, pf_platform_admitted = (platform \<noteq> 0),
      pf_contract = (if trust then Some (contract \<noteq> 0, head ! 5 \<noteq> 0) else None)\<rparr>"

definition extract_pci_final :: "bytes \<Rightarrow> protocol \<Rightarrow> bool \<Rightarrow> (bytes \<times> pci_final_report) res" where
  "extract_pci_final raw P trust =
     raise_if (MAX_LAB_CAPTURE < length raw \<or> \<not> endswith raw NL) ''PCI final capture bounds''
     (let lines = splitlines raw; n = length lines; one = (if trust then 1 else 0) in
     raise_if (\<not> positioned PCI_FINAL 2 lines \<or> last lines \<noteq> final_line P (pci_final_reason trust))
       ''PCI final record order or terminal''
     (bind (some_or ''PCI final framing'' (fullmatch (pci_final_pattern trust) (lines ! (n - 2)))) (\<lambda>groups.
     bind (py_ints (take 6 groups)) (\<lambda>head.
     bind (if trust then py_int (groups ! 6) else Inr 0) (\<lambda>contract.
     bind (py_ints (split_on CHR '','' (groups ! (if trust then 7 else 6)))) (\<lambda>commands.
     bind (py_int (groups ! (if trust then 8 else 7))) (\<lambda>platform.
     raise_if (head \<noteq> (if trust then [0, 16, 16, 1, 31, 1] else [6, 16, 16, 1, 3, 0]) \<or>
         commands \<noteq> FINAL_COMMANDS \<or> contract \<noteq> one \<or> platform \<noteq> one) ''PCI final result''
     (let projection = concat (take (n - 2) lines) @ pending_line P in
     bind (extract_txe_bme projection P) (\<lambda>(_, previous).
     bind (some_or ''PCI final without successful TXE BME'' previous) (\<lambda>p.
     raise_if (\<not> pci_final_ready p) ''PCI final without successful TXE BME''
     (Inr (projection, pci_final_report_of trust head commands contract platform))))))))))))"

subsection \<open>Control registers without SMAP\<close>

record nosmap_report = status_report +
  ns_cr0 :: int
  ns_before :: int
  ns_after :: int
  ns_efer :: int
  ns_rflags :: int
  ns_errors :: int
  ns_max_bytes :: int
  ns_max_aliases :: int

definition NOSMAP :: bytes where "NOSMAP = ''LEANOS-LAB/1 NO-SMAP-CONTROL ''"

definition nosmap_pattern :: "item list" where
  "nosmap_pattern =
     [Lit (NOSMAP @ ''profile=qotom-copy-roots-v1 status=''), DEC20, Lit '' cr0='', DEC20,
      Lit '' cr4-before='', DEC20, Lit '' cr4-after='', DEC20, Lit '' efer='', DEC20, Lit '' rflags='', DEC20,
      Lit '' error-mask='', DEC20, Lit '' strategy=qotom-copy-roots-v1 max-bytes='', DEC20,
      Lit '' max-aliases='', DEC20, Lit '' reload=mandatory cpl3-authority='', DEC20,
      Lit '' closed-root-published='', DEC20, Lit '' copy-root-published='', DEC20, Lit NL]"

definition nosmap_control_ok :: "int \<Rightarrow> int \<Rightarrow> int \<Rightarrow> int \<Rightarrow> int \<Rightarrow> bool" where
  \<comment> \<open>WP, NXE, no CR4 bit the kernel does not want, interrupts off, and the write sets SMEP alone\<close>
  "nosmap_control_ok cr0 before after efer rflags \<longleftrightarrow>
     cr0 AND 0x10000 \<noteq> 0 \<and> efer AND 0x800 \<noteq> 0 \<and>
     before AND (0x100000 OR 0x200000 OR 0x20000 OR 0x80) = 0 \<and> rflags AND 0x200 = 0 \<and>
     after = before OR 0x100000 \<and> after AND 0x100000 \<noteq> 0 \<and>
     after AND (0x200000 OR 0x20000 OR 0x80) = 0"

definition extract_nosmap :: "bytes \<Rightarrow> protocol \<Rightarrow> (bytes \<times> nosmap_report) res" where
  "extract_nosmap raw P =
     raise_if (MAX_LAB_CAPTURE < length raw \<or> \<not> endswith raw NL) ''no-SMAP control capture bounds''
     (let lines = splitlines raw; n = length lines in
     raise_if (\<not> positioned NOSMAP 2 lines \<or> last lines \<noteq> final_line P ''qotom-copy-roots-pending'')
       ''no-SMAP control record order or terminal''
     (bind (match_ints ''no-SMAP control framing'' nosmap_pattern (lines ! (n - 2))) (\<lambda>vs.
     let status = vs ! 0; cr0 = vs ! 1; before = vs ! 2; after = vs ! 3; efer = vs ! 4; rflags = vs ! 5;
         errors = vs ! 6 in
     raise_if (list_ex (\<lambda>w. U64 < w) [cr0, before, after, efer, rflags]) ''no-SMAP control word width''
     (raise_if (status \<noteq> 0 \<or> errors \<noteq> 0 \<or> \<not> nosmap_control_ok cr0 before after efer rflags \<or>
         drop 7 vs \<noteq> [16, 2, 0, 0, 0]) ''no-SMAP control result''
     (Inr (concat (take (n - 2) lines) @ final_line P ''qotom-nosmap-pending'',
       \<lparr>rep_schema = ''leanos-qotom-nosmap-control-v1'', rep_reason = ''qotom-copy-roots-pending'',
        rep_claims = [(''wp'', True), (''nxe'', True), (''smep'', True), (''smap'', False), (''pcid'', False),
          (''pge'', False), (''interrupts_enabled'', False), (''cpl3_authority'', False),
          (''closed_root_published'', False), (''copy_root_published'', False)],
        rep_status = status, ns_cr0 = cr0, ns_before = before, ns_after = after, ns_efer = efer,
        ns_rflags = rflags, ns_errors = errors, ns_max_bytes = vs ! 7, ns_max_aliases = vs ! 8\<rparr>))))))"

subsection \<open>Root publication\<close>

record copy_root_report = status_report +
  cr_protected :: int
  cr_removed :: int
  cr_retained :: int
  cr_aliases :: int
  cr_closed_root :: int
  cr_copy_root :: int
  cr_transferred :: int
  cr_active_root :: int
  cr_errors :: int

definition COPY_ROOTS :: bytes where "COPY_ROOTS = ''LEANOS-LAB/1 COPY-ROOTS ''"

definition INVENTORIES :: "string \<Rightarrow> (int \<times> int \<times> int) option" where
  "INVENTORIES = [''base'' \<mapsto> (5, 3, 4088), ''dhcp-subject'' \<mapsto> (6, 4, 4087), ''production'' \<mapsto> (8, 4, 4085)]"

definition copy_root_pattern :: "item list" where
  "copy_root_pattern =
     [Lit (COPY_ROOTS @ ''profile=qotom-copy-roots-v1 status=''), DEC20, Lit '' protected='', DEC20,
      Lit '' removed-aliases='', DEC20, Lit '' retained-present='', DEC20, Lit '' aliases='', DEC20,
      Lit '' closed-root='', DEC20, Lit '' copy-root='', DEC20, Lit '' closed-scan='', DEC20,
      Lit '' copy-scan='', DEC20, Lit '' transferred='', DEC20, Lit '' bytes-match='', DEC20,
      Lit '' active-root='', DEC20, Lit '' error-mask='', DEC20, Lit '' closed-root-published='', DEC20,
      Lit '' copy-root-published='', DEC20, Lit '' cpl3-authority='', DEC20, Lit NL]"

definition roots_valid :: "int \<Rightarrow> int \<Rightarrow> int \<Rightarrow> bool" where
  \<comment> \<open>two different page-aligned roots below 16 MiB, the closed one active\<close>
  "roots_valid other closed active \<longleftrightarrow> other \<noteq> 0 \<and> closed \<noteq> 0 \<and> other \<noteq> closed \<and> active = closed \<and>
     other < 0x1000000 \<and> closed < 0x1000000 \<and> other AND 0xfff = 0 \<and> closed AND 0xfff = 0"

definition extract_copy_root ::
  "bytes \<Rightarrow> protocol \<Rightarrow> string \<Rightarrow> (bytes \<times> copy_root_report) res" where
  "extract_copy_root raw P inventory =
     bind (some_or ''copy-root publication inventory variant'' (INVENTORIES inventory))
       (\<lambda>(expected_protected, expected_removed, expected_retained).
     raise_if (MAX_LAB_CAPTURE < length raw \<or> \<not> endswith raw NL) ''copy-root publication capture bounds''
     (let lines = splitlines raw; n = length lines in
     raise_if (\<not> positioned COPY_ROOTS 2 lines \<or>
         last lines \<noteq> final_line P ''qotom-entry-integration-pending'')
       ''copy-root publication record order or terminal''
     (bind (match_ints ''copy-root publication framing'' copy_root_pattern (lines ! (n - 2))) (\<lambda>vs.
     raise_if (list_ex (\<lambda>v. U64 < v) vs) ''copy-root publication word width''
     (raise_if (take 5 vs \<noteq> [0, expected_protected, expected_removed, expected_retained, 2] \<or>
         take 4 (drop 7 vs) \<noteq> [1, 1, 16, 1] \<or> drop 12 vs \<noteq> [0, 1, 1, 0] \<or>
         \<not> roots_valid (vs ! 6) (vs ! 5) (vs ! 11)) ''copy-root publication result''
     (Inr (concat (take (n - 2) lines) @ final_line P ''qotom-copy-roots-pending'',
       \<lparr>rep_schema = ''leanos-qotom-copy-root-publication-v1'',
        rep_reason = ''qotom-entry-integration-pending'',
        rep_claims = [(''closed_scan'', True), (''copy_scan'', True), (''bytes_match'', True),
          (''closed_root_published'', True), (''copy_root_published'', True), (''cpl3_authority'', False)],
        rep_status = vs ! 0, cr_protected = vs ! 1, cr_removed = vs ! 2, cr_retained = vs ! 3,
        cr_aliases = vs ! 4, cr_closed_root = vs ! 5, cr_copy_root = vs ! 6, cr_transferred = vs ! 9,
        cr_active_root = vs ! 11, cr_errors = vs ! 12\<rparr>)))))))"

subsection \<open>User entry and return\<close>

record entry_report = status_report +
  en_incoming_root :: int
  en_closed_root :: int
  en_active_root :: int

definition ENTRY_READY :: bytes where "ENTRY_READY = ''LEANOS-LAB/1 QOTOM-ENTRY-READY ''"
definition ENTRY_RECORD :: bytes where "ENTRY_RECORD = ''LEANOS-LAB/1 QOTOM-ENTRY ''"

definition MANIFEST_SUFFIX :: bytes where
  "MANIFEST_SUFFIX = '' ordinary=8 extended=6,7 contained=0,3 auxiliary=1 terminal=2 extra=0 '' @
     ''rsp0=entry-stack ist1=df-stack ist2=nmi-stack result=PASS'' @ NL"

definition PORT_CONTROL_SUFFIX :: bytes where
  "PORT_CONTROL_SUFFIX =
     '' tr=40 limit=103 iomap=104 bitmap=absent iopl=0 stage=pre-cpl3 result=PASS'' @ NL"

definition ready_line :: bytes where
  "ready_line = ENTRY_READY @ ''profile=qotom-copy-roots-v1 subject=1 address-space=1 '' @
     ''gates=2,6,8,13,14,128 root=closed cpl3-authority=0'' @ NL"

definition entry_pattern_line :: "item list" where
  "entry_pattern_line =
     [Lit (ENTRY_RECORD @ ''profile=qotom-copy-roots-v1 status=''), DEC20, Lit '' entries='', DEC20,
      Lit '' returns='', DEC20, Lit '' incoming-root='', DEC20, Lit '' closed-root='', DEC20,
      Lit '' active-root='', DEC20, Lit '' frame='', DEC20, Lit '' user-if='', DEC20, Lit '' gprs='', DEC20,
      Lit '' close-readback='', DEC20, Lit '' return-reload='', DEC20, Lit '' error-mask='', DEC20,
      Lit '' entry-contract='', DEC20, Lit '' cpl3-authority='', DEC20, Lit NL]"

definition extract_entry :: "bytes \<Rightarrow> protocol \<Rightarrow> (bytes \<times> entry_report) res" where
  "extract_entry raw P =
     raise_if (MAX_LAB_CAPTURE < length raw \<or> \<not> endswith raw NL) ''Qotom entry capture bounds''
     (let lines = splitlines raw; n = length lines in
     raise_if (n < 5 \<or> lines ! (n - 5) \<noteq> pr_entry_manifest P @ MANIFEST_SUFFIX \<or>
         lines ! (n - 4) \<noteq> pr_port_control P @ PORT_CONTROL_SUFFIX \<or> lines ! (n - 3) \<noteq> ready_line \<or>
         last lines \<noteq> final_line P ''qotom-exception-integration-pending'')
       ''Qotom entry record order or terminal''
     (raise_if (\<not> positioned (pr_entry_manifest P @ '' '') 5 lines) ''Qotom entry manifest multiplicity''
     (raise_if (\<not> positioned (pr_port_control P @ '' '') 4 lines) ''Qotom direct-port control multiplicity''
     (raise_if (\<not> positioned ENTRY_READY 3 lines) ''Qotom entry readiness multiplicity''
     (raise_if (\<not> positioned ENTRY_RECORD 2 lines) ''Qotom entry result multiplicity''
     (bind (match_ints ''Qotom entry framing'' entry_pattern_line (lines ! (n - 2))) (\<lambda>vs.
     raise_if (list_ex (\<lambda>v. U64 < v) vs) ''Qotom entry word width''
     (raise_if (take 3 vs \<noteq> [0, 2, 1] \<or> drop 6 vs \<noteq> [1, 0, 15, 1, 1, 0, 1, 0] \<or>
         \<not> roots_valid (vs ! 3) (vs ! 4) (vs ! 5)) ''Qotom entry result''
     (Inr (concat (take (n - 5) lines) @ final_line P ''qotom-entry-integration-pending'',
       \<lparr>rep_schema = ''leanos-qotom-entry-integration-v1'',
        rep_reason = ''qotom-exception-integration-pending'',
        rep_claims = [(''frame_validated'', True), (''user_if'', False), (''close_readback'', True),
          (''return_reload'', True), (''entry_contract'', True), (''cpl3_authority'', False)],
        rep_status = 0, en_incoming_root = vs ! 3, en_closed_root = vs ! 4,
        en_active_root = vs ! 5\<rparr>))))))))))"

subsection \<open>Terminal exception\<close>

record exception_report =
  ex_schema :: string
  ex_status :: int
  ex_terminal_vector :: int
  ex_closed_root :: int
  ex_active_root :: int
  ex_cpl3_authority :: bool

definition MARKER :: bytes where "MARKER = ''!C6'' @ NL"

definition marker_at :: "bytes \<Rightarrow> bool" where
  \<comment> \<open>\<^verbatim>\<open>![CUE][268P0]\n\<close> at the start\<close>
  "marker_at s \<longleftrightarrow> (case s of a # b # c # d # _ \<Rightarrow> a = CHR ''!'' \<and> b \<in> set ''CUE'' \<and> c \<in> set ''268P0'' \<and> d = LF
     | _ \<Rightarrow> False)"

fun find_markers :: "bytes \<Rightarrow> bytes list" where
  \<comment> \<open>\<^verbatim>\<open>TERMINAL_MARKER.findall\<close>; a match has one \<^verbatim>\<open>!\<close>, so matches do not overlap\<close>
  "find_markers [] = []"
| "find_markers (c # cs) =
     (if marker_at (c # cs) then take 4 (c # cs) # find_markers cs else find_markers cs)"

definition extract_exception :: "bytes \<Rightarrow> protocol \<Rightarrow> (bytes \<times> exception_report \<times> entry_report) res" where
  "extract_exception raw P =
     raise_if (MAX_LAB_CAPTURE < length raw \<or> \<not> endswith raw MARKER)
       ''Qotom exception capture bounds or terminal''
     (raise_if (find_markers raw \<noteq> [MARKER]) ''Qotom exception marker multiplicity or class''
     (raise_if (bytes_in (pr_final P) raw) ''Qotom exception capture has a structured terminal''
     (let synthetic = take (length raw - length MARKER) raw @
        final_line P ''qotom-exception-integration-pending'' in
     bind (extract_entry synthetic P) (\<lambda>(projected, entry).
     Inr (projected,
       \<lparr>ex_schema = ''leanos-qotom-exception-integration-v1'', ex_status = 0, ex_terminal_vector = 6,
        ex_closed_root = en_closed_root entry, ex_active_root = en_active_root entry,
        ex_cpl3_authority = False\<rparr>, entry)))))"

subsection \<open>Blocking IPC\<close>

record ipc_report =
  ipc_schema :: string
  ipc_status :: string
  ipc_counts :: "(string \<times> int) list"
  ipc_cpl3_authority :: bool

definition PLATFORM_LINE :: bytes where
  "PLATFORM_LINE = ''LEANOS-LAB/1 PLATFORM-ADMISSION profile=qotom-j1900-clbtm210-v2 version=2 status=PASS '' @
     ''cpl3-authority=1 vtd=not-applicable assigned-edu=not-applicable terminal=serial-final-halt'' @ NL"

definition IPC_READY_LINE :: bytes where
  "IPC_READY_LINE = ''LEANOS-LAB/1 QOTOM-IPC-READY profile=qotom-blocking-ipc-v1 '' @
     ''subjects=2 interrupts=masked timer-gate=absent pic=masked '' @
     ''copy-in=readonly-root copy-out=writable-root cpl3-authority=1'' @ NL"

definition protocol_get :: "protocol \<Rightarrow> string \<Rightarrow> bytes option" where
  \<comment> \<open>\<^verbatim>\<open>protocol.get(key)\<close>\<close>
  "protocol_get P = [''BOOT'' \<mapsto> pr_boot P, ''CPU'' \<mapsto> pr_cpu P, ''CONTROL'' \<mapsto> pr_control P,
     ''PCI-SCAN'' \<mapsto> pr_pci_scan P, ''PCI-HEADER'' \<mapsto> pr_pci_header P, ''FINAL'' \<mapsto> pr_final P,
     ''DIRECT-PORT-CONTROL'' \<mapsto> pr_port_control P, ''ENTRY-MANIFEST'' \<mapsto> pr_entry_manifest P,
     ''6/COPY'' \<mapsto> pr_copy P, ''8/PAGING'' \<mapsto> pr_paging P, ''9/CAPREUSE'' \<mapsto> pr_capreuse P,
     ''10/IPC'' \<mapsto> pr_ipc P, ''10/FINAL'' \<mapsto> pr_ipc_final P, ''11/USER-FAULT'' \<mapsto> pr_user_fault P]"

definition is_upper :: "char \<Rightarrow> bool" where
  "is_upper c \<longleftrightarrow> 65 \<le> (of_char c :: nat) \<and> (of_char c :: nat) \<le> 90"

definition is_name_char :: "char \<Rightarrow> bool" where
  "is_name_char c \<longleftrightarrow> is_upper c \<or> is_digit c \<or> c = CHR ''-''"

definition template_line :: "bytes \<Rightarrow> (bytes \<times> bytes) option" where
  \<comment> \<open>\<^verbatim>\<open>re.fullmatch(r'@([0-9]+)/([A-Z][A-Z0-9-]*)@(.*)', source)\<close>: the key and the rest\<close>
  "template_line source =
     (case source of a # s \<Rightarrow>
        (let version = takeWhile is_digit s in
         case dropWhile is_digit s of b # t \<Rightarrow>
           (let name = takeWhile is_name_char t in
            case dropWhile is_name_char t of c # rest \<Rightarrow>
              if a = CHR ''@'' \<and> version \<noteq> [] \<and> b = CHR ''/'' \<and> name \<noteq> [] \<and> is_upper (hd name) \<and>
                 c = CHR ''@'' \<and> LF \<notin> set rest
              then Some (version @ ''/'' @ name, rest) else None
            | [] \<Rightarrow> None)
         | [] \<Rightarrow> None)
      | [] \<Rightarrow> None)"

fun render_template :: "protocol \<Rightarrow> bool \<Rightarrow> bytes list \<Rightarrow> bytes list res" where
  "render_template P selected [] = Inr []"
| "render_template P selected (source # rest) =
     (let selected' = (selected \<or> startswith source ''@10/IPC@ event=enter '') in
      if \<not> selected' then render_template P False rest
      else
        bind (some_or ''blocking-IPC expectation template tail is malformed'' (template_line source))
          (\<lambda>(key, tail).
        bind (some_or ''blocking-IPC expectation uses an unknown protocol identity'' (protocol_get P key))
          (\<lambda>expected_prefix.
        bind (render_template P True rest) (\<lambda>rendered.
        Inr ((expected_prefix @ tail @ NL) # rendered)))))"

definition semantic_expectation :: "protocol \<Rightarrow> bytes list \<Rightarrow> bytes res" where
  \<comment> \<open>the template file as its list of lines\<close>
  "semantic_expectation P template =
     bind (render_template P False template) (\<lambda>rendered.
     raise_if (rendered = [] \<or> \<not> startswith (last rendered) (pr_ipc_final P @ '' ''))
       ''blocking-IPC expectation template lacks its terminal''
     (Inr (PLATFORM_LINE @ IPC_READY_LINE @ concat rendered)))"

definition fail_segment :: "bool \<Rightarrow> bytes \<Rightarrow> bool" where
  \<comment> \<open>a line (without its line feed) that matches \<^verbatim>\<open>LEANOS/[0-9]+ [^\n]* status=FAIL(?: |\n)\<close>\<close>
  "fail_segment terminated l \<longleftrightarrow>
     (let s = drop (length ''LEANOS/'') l; r = dropWhile is_digit s in
      startswith l ''LEANOS/'' \<and> takeWhile is_digit s \<noteq> [] \<and> startswith r '' '' \<and>
      (bytes_in '' status=FAIL '' (drop 1 r) \<or> (terminated \<and> endswith (drop 1 r) '' status=FAIL'')))"

definition has_failure :: "bytes \<Rightarrow> bool" where
  "has_failure raw \<longleftrightarrow>
     (let segs = split_on LF raw in list_ex (fail_segment True) (butlast segs) \<or> fail_segment False (last segs))"

definition extract_blocking_ipc ::
  "bytes \<Rightarrow> protocol \<Rightarrow> bytes list \<Rightarrow> (bytes \<times> ipc_report \<times> entry_report) res" where
  "extract_blocking_ipc raw P template =
     bind (semantic_expectation P template) (\<lambda>expected.
     raise_if (MAX_LAB_CAPTURE < length raw \<or> \<not> endswith raw expected)
       ''Qotom blocking-IPC bounds, order, or terminal''
     (let start = length raw - length expected in
     raise_if (bytes_count PLATFORM_LINE raw \<noteq> 1 \<or> bytes_find PLATFORM_LINE raw \<noteq> Some start)
       ''Qotom platform admission multiplicity''
     (raise_if (bytes_count IPC_READY_LINE raw \<noteq> 1 \<or>
         bytes_find IPC_READY_LINE raw \<noteq> Some (start + length PLATFORM_LINE))
       ''Qotom blocking-IPC readiness multiplicity''
     (raise_if (bytes_count (pr_ipc_final P @ '' '') raw \<noteq> 1) ''Qotom blocking-IPC terminal multiplicity''
     (raise_if (find_markers raw \<noteq> [] \<or> has_failure raw)
       ''Qotom blocking-IPC has an exception or failure terminal''
     (bind (extract_entry (take start raw @ final_line P ''qotom-exception-integration-pending'') P)
       (\<lambda>(projected, entry).
     Inr (projected,
       \<lparr>ipc_schema = ''leanos-qotom-blocking-ipc-integration-v2'', ipc_status = ''PASS'',
        ipc_counts = [(''platform_profile_version'', 2), (''subjects'', 2), (''semantic_syscalls'', 8),
          (''recoverable_page_faults'', 1), (''context_switches'', 2), (''copy_transfers'', 2),
          (''blocking_model_transitions'', 4), (''capability_model_transitions'', 4), (''blocks'', 1),
          (''wakes'', 1), (''deliveries'', 1)],
        ipc_cpl3_authority = True\<rparr>, entry))))))))"

subsection \<open>What a checkpoint promises\<close>

text \<open>
  A checkpoint owns the last \<open>width\<close> lines of the capture, the terminal line included, and
  hands the rest to the checkpoint below with the terminal line that one expects.
\<close>

locale checkpoint =
  fixes decode :: "bytes \<Rightarrow> protocol \<Rightarrow> (bytes \<times> 'r observation_scheme) res"
    and reason :: bytes
    and below :: bytes
    and width :: nat
  assumes bounded: "decode raw P = Inr (proj, r) \<Longrightarrow> length raw \<le> MAX_LAB_CAPTURE \<and> endswith raw NL"
    and projects: "decode raw P = Inr (proj, r) \<Longrightarrow>
      width \<le> length (splitlines raw) \<and>
      proj = concat (take (length (splitlines raw) - width) (splitlines raw)) @ final_line P below"
    and closing: "decode raw P = Inr (proj, r) \<Longrightarrow>
      last (splitlines raw) = final_line P reason \<and> rep_reason r = reason"
    and width: "2 \<le> width"
begin

lemma handed_over:
  assumes "decode raw P = Inr (proj, r)"
  obtains kept records where "raw = kept @ records @ final_line P reason" "records \<noteq> []"
    "proj = kept @ final_line P below"
proof -
  let ?ls = "splitlines raw"
  let ?k = "length ?ls - width"
  note p = projects [OF assms] and c = closing [OF assms]
  let ?mid = "butlast (drop ?k ?ls)"
  have "length ?mid = width - 1" using p by simp
  then have "?mid \<noteq> []" using width by (metis diff_is_0_eq length_0_conv not_less_eq_eq numeral_2_eq_2 One_nat_def)
  then obtain l ls where mid: "?mid = l # ls" by (cases ?mid) auto
  have "l \<in> set ?ls" using in_set_butlastD [of l "drop ?k ?ls"] mid in_set_dropD by fastforce
  then have "l \<noteq> []" by (rule splitlines_nonempty_lines)
  have "drop ?k ?ls \<noteq> []" using \<open>?mid \<noteq> []\<close> by auto
  then have "drop ?k ?ls = ?mid @ [last ?ls]" by (metis append_butlast_last_id last_drop drop_eq_Nil not_le)
  then have "?ls = take ?k ?ls @ ?mid @ [last ?ls]" by (metis append_take_drop_id)
  then have "concat ?ls = concat (take ?k ?ls @ ?mid @ [last ?ls])" by (rule arg_cong)
  then have "raw = concat (take ?k ?ls) @ concat ?mid @ final_line P reason" using c by simp
  moreover have "concat ?mid \<noteq> []" using mid \<open>l \<noteq> []\<close> by simp
  ultimately show ?thesis using that p by blast
qed

end

lemma positioned_length: "positioned PREFIX k lines \<Longrightarrow> k \<le> length lines"
  by (auto simp: positioned_def split: list.splits)

lemma extract_pci_final_SomeE:
  assumes "extract_pci_final raw P trust = Inr (proj, r)"
  obtains groups contract platform prior p where
    "length raw \<le> MAX_LAB_CAPTURE" "endswith raw NL" "positioned PCI_FINAL 2 (splitlines raw)"
    "last (splitlines raw) = final_line P (pci_final_reason trust)"
    "proj = concat (take (length (splitlines raw) - 2) (splitlines raw)) @ pending_line P"
    "extract_txe_bme proj P = Inr (prior, Some p)" "pci_final_ready p"
    "r = pci_final_report_of trust (if trust then [0, 16, 16, 1, 31, 1] else [6, 16, 16, 1, 3, 0])
      FINAL_COMMANDS (if trust then 1 else 0) (if trust then 1 else 0)"
  using assms unfolding extract_pci_final_def Let_def
  by (elim res_elims) (auto simp: positioned_length intro: that)

interpretation pci_final: checkpoint "\<lambda>raw P. extract_pci_final raw P trust" "pci_final_reason trust"
  PENDING 2 for trust
proof
  fix raw P proj r assume "extract_pci_final raw P trust = Inr (proj, r)"
  then show "length raw \<le> MAX_LAB_CAPTURE \<and> endswith raw NL"
    "2 \<le> length (splitlines raw) \<and>
      proj = concat (take (length (splitlines raw) - 2) (splitlines raw)) @ final_line P PENDING"
    "last (splitlines raw) = final_line P (pci_final_reason trust) \<and> rep_reason r = pci_final_reason trust"
    by (auto elim!: extract_pci_final_SomeE simp: positioned_length pending_line_def pci_final_report_of_def)
qed simp

lemma extract_nosmap_SomeE:
  assumes "extract_nosmap raw P = Inr (proj, r)"
  obtains vs where "length raw \<le> MAX_LAB_CAPTURE" "endswith raw NL" "positioned NOSMAP 2 (splitlines raw)"
    "last (splitlines raw) = final_line P ''qotom-copy-roots-pending''"
    "rep_reason r = ''qotom-copy-roots-pending''"
    "proj = concat (take (length (splitlines raw) - 2) (splitlines raw)) @ final_line P ''qotom-nosmap-pending''"
    "nosmap_control_ok (ns_cr0 r) (ns_before r) (ns_after r) (ns_efer r) (ns_rflags r)"
    "ns_before r \<le> U64" "ns_after r \<le> U64" "ns_max_bytes r = 16" "ns_max_aliases r = 2"
    "match_ints ''no-SMAP control framing'' nosmap_pattern (splitlines raw ! (length (splitlines raw) - 2)) = Inr vs"
    "ns_cr0 r = vs ! 1" "ns_before r = vs ! 2" "ns_after r = vs ! 3"
proof -
  from assms obtain vs where
    a: "\<not> (MAX_LAB_CAPTURE < length raw \<or> \<not> endswith raw NL)"
      "\<not> (\<not> positioned NOSMAP 2 (splitlines raw) \<or>
        last (splitlines raw) \<noteq> final_line P ''qotom-copy-roots-pending'')"
      "match_ints ''no-SMAP control framing'' nosmap_pattern (splitlines raw ! (length (splitlines raw) - 2)) = Inr vs"
      "\<not> list_ex (\<lambda>w. U64 < w) [vs ! 1, vs ! 2, vs ! 3, vs ! 4, vs ! 5]"
      "\<not> (vs ! 0 \<noteq> 0 \<or> vs ! 6 \<noteq> 0 \<or> \<not> nosmap_control_ok (vs ! 1) (vs ! 2) (vs ! 3) (vs ! 4) (vs ! 5) \<or>
         drop 7 vs \<noteq> [16, 2, 0, 0, 0])"
    and r: "ns_cr0 r = vs ! 1" "ns_before r = vs ! 2" "ns_after r = vs ! 3" "ns_efer r = vs ! 4"
      "ns_rflags r = vs ! 5" "ns_max_bytes r = vs ! 7" "ns_max_aliases r = vs ! 8"
      "rep_reason r = ''qotom-copy-roots-pending''"
      "proj = concat (take (length (splitlines raw) - 2) (splitlines raw)) @ final_line P ''qotom-nosmap-pending''"
    unfolding extract_nosmap_def Let_def by (elim res_elims) (rule that, (assumption | force)+)
  have d: "drop 7 vs = [16, 2, 0, 0, 0]" using a(5) by blast
  from arg_cong [OF d, of length] have "7 \<le> length vs" by simp
  then have "vs ! 7 = 16" "vs ! 8 = 2"
    using nth_drop [of 7 vs 0] nth_drop [of 7 vs 1] by (simp_all add: d)
  then show ?thesis using a r by (intro that) auto
qed

interpretation nosmap: checkpoint extract_nosmap "''qotom-copy-roots-pending''" "''qotom-nosmap-pending''" 2
proof
  fix raw P proj r assume "extract_nosmap raw P = Inr (proj, r)"
  then show "length raw \<le> MAX_LAB_CAPTURE \<and> endswith raw NL"
    "2 \<le> length (splitlines raw) \<and>
      proj = concat (take (length (splitlines raw) - 2) (splitlines raw)) @ final_line P ''qotom-nosmap-pending''"
    "last (splitlines raw) = final_line P ''qotom-copy-roots-pending'' \<and>
      rep_reason r = ''qotom-copy-roots-pending''"
    by (auto elim!: extract_nosmap_SomeE simp: positioned_length)
qed simp

lemma extract_copy_root_SomeE:
  assumes "extract_copy_root raw P inventory = Inr (proj, r)"
  obtains "length raw \<le> MAX_LAB_CAPTURE" "endswith raw NL" "positioned COPY_ROOTS 2 (splitlines raw)"
    "last (splitlines raw) = final_line P ''qotom-entry-integration-pending''"
    "rep_reason r = ''qotom-entry-integration-pending''"
    "proj = concat (take (length (splitlines raw) - 2) (splitlines raw)) @ final_line P ''qotom-copy-roots-pending''"
    "roots_valid (cr_copy_root r) (cr_closed_root r) (cr_active_root r)"
    "INVENTORIES inventory = Some (cr_protected r, cr_removed r, cr_retained r)"
proof -
  from assms obtain ep er et vs where
    a: "INVENTORIES inventory = Some (ep, er, et)"
      "\<not> (MAX_LAB_CAPTURE < length raw \<or> \<not> endswith raw NL)"
      "\<not> (\<not> positioned COPY_ROOTS 2 (splitlines raw) \<or>
         last (splitlines raw) \<noteq> final_line P ''qotom-entry-integration-pending'')"
      "\<not> (take 5 vs \<noteq> [0, ep, er, et, 2] \<or> take 4 (drop 7 vs) \<noteq> [1, 1, 16, 1] \<or> drop 12 vs \<noteq> [0, 1, 1, 0] \<or>
         \<not> roots_valid (vs ! 6) (vs ! 5) (vs ! 11))"
    and r: "cr_protected r = vs ! 1" "cr_removed r = vs ! 2" "cr_retained r = vs ! 3"
      "cr_closed_root r = vs ! 5" "cr_copy_root r = vs ! 6" "cr_active_root r = vs ! 11"
      "rep_reason r = ''qotom-entry-integration-pending''"
      "proj = concat (take (length (splitlines raw) - 2) (splitlines raw)) @ final_line P ''qotom-copy-roots-pending''"
    unfolding extract_copy_root_def Let_def by (elim res_elims) (rule that, (assumption | force)+)
  have t: "take 5 vs = [0, ep, er, et, 2]" using a(4) by blast
  have "vs ! 1 = ep" "vs ! 2 = er" "vs ! 3 = et"
    using nth_take [of 1 5 vs] nth_take [of 2 5 vs] nth_take [of 3 5 vs] by (simp_all add: t)
  then show ?thesis using a r by (intro that) auto
qed

interpretation copy_root: checkpoint "\<lambda>raw P. extract_copy_root raw P inventory"
  "''qotom-entry-integration-pending''" "''qotom-copy-roots-pending''" 2 for inventory
proof
  fix raw P proj r assume "extract_copy_root raw P inventory = Inr (proj, r)"
  then show "length raw \<le> MAX_LAB_CAPTURE \<and> endswith raw NL"
    "2 \<le> length (splitlines raw) \<and>
      proj = concat (take (length (splitlines raw) - 2) (splitlines raw)) @ final_line P ''qotom-copy-roots-pending''"
    "last (splitlines raw) = final_line P ''qotom-entry-integration-pending'' \<and>
      rep_reason r = ''qotom-entry-integration-pending''"
    by (auto elim!: extract_copy_root_SomeE simp: positioned_length)
qed simp

lemma extract_entry_SomeE:
  assumes "extract_entry raw P = Inr (proj, r)"
  obtains "length raw \<le> MAX_LAB_CAPTURE" "endswith raw NL" "5 \<le> length (splitlines raw)"
    "last (splitlines raw) = final_line P ''qotom-exception-integration-pending''"
    "rep_reason r = ''qotom-exception-integration-pending''"
    "proj = concat (take (length (splitlines raw) - 5) (splitlines raw)) @ final_line P ''qotom-entry-integration-pending''"
    "roots_valid (en_incoming_root r) (en_closed_root r) (en_active_root r)"
    "splitlines raw ! (length (splitlines raw) - 5) = pr_entry_manifest P @ MANIFEST_SUFFIX"
    "splitlines raw ! (length (splitlines raw) - 4) = pr_port_control P @ PORT_CONTROL_SUFFIX"
    "splitlines raw ! (length (splitlines raw) - 3) = ready_line"
proof -
  from assms obtain vs where
    a: "\<not> (MAX_LAB_CAPTURE < length raw \<or> \<not> endswith raw NL)"
      "\<not> (length (splitlines raw) < 5 \<or>
         splitlines raw ! (length (splitlines raw) - 5) \<noteq> pr_entry_manifest P @ MANIFEST_SUFFIX \<or>
         splitlines raw ! (length (splitlines raw) - 4) \<noteq> pr_port_control P @ PORT_CONTROL_SUFFIX \<or>
         splitlines raw ! (length (splitlines raw) - 3) \<noteq> ready_line \<or>
         last (splitlines raw) \<noteq> final_line P ''qotom-exception-integration-pending'')"
      "\<not> (take 3 vs \<noteq> [0, 2, 1] \<or> drop 6 vs \<noteq> [1, 0, 15, 1, 1, 0, 1, 0] \<or>
         \<not> roots_valid (vs ! 3) (vs ! 4) (vs ! 5))"
    and r: "en_incoming_root r = vs ! 3" "en_closed_root r = vs ! 4" "en_active_root r = vs ! 5"
      "rep_reason r = ''qotom-exception-integration-pending''"
      "proj = concat (take (length (splitlines raw) - 5) (splitlines raw)) @ final_line P ''qotom-entry-integration-pending''"
    unfolding extract_entry_def Let_def by (elim res_elims) (rule that, (assumption | force)+)
  then show ?thesis by (intro that) auto
qed

interpretation user_entry: checkpoint extract_entry "''qotom-exception-integration-pending''"
  "''qotom-entry-integration-pending''" 5
proof
  fix raw P proj r assume "extract_entry raw P = Inr (proj, r)"
  then show "length raw \<le> MAX_LAB_CAPTURE \<and> endswith raw NL"
    "5 \<le> length (splitlines raw) \<and>
      proj = concat (take (length (splitlines raw) - 5) (splitlines raw)) @ final_line P ''qotom-entry-integration-pending''"
    "last (splitlines raw) = final_line P ''qotom-exception-integration-pending'' \<and>
      rep_reason r = ''qotom-exception-integration-pending''"
    by (auto elim!: extract_entry_SomeE)
qed simp

lemma single_bit_numerals:
  "(0x10000 :: int) = 2 ^ 16" "(0x800 :: int) = 2 ^ 11" "(0x100000 :: int) = 2 ^ 20" "(0x200000 :: int) = 2 ^ 21"
  "(0x20000 :: int) = 2 ^ 17" "(0x80 :: int) = 2 ^ 7" "(0x200 :: int) = 2 ^ 9"
  by simp_all

lemma control_bits:
  assumes "nosmap_control_ok cr0 before after efer rflags"
  shows "bit cr0 16" "bit efer 11" "\<not> bit rflags 9" "\<And>n. bit after n \<longleftrightarrow> n = 20 \<or> bit before n"
    "\<forall>n\<in>{20, 21, 17, 7}. \<not> bit before n"
proof -
  note ok = assms [unfolded nosmap_control_ok_def single_bit_numerals]
  from ok have "cr0 AND 2 ^ 16 \<noteq> 0" "efer AND 2 ^ 11 \<noteq> 0" "rflags AND 2 ^ 9 = 0" by blast+
  then show "bit cr0 16" "bit efer 11" "\<not> bit rflags 9" by (simp_all add: and_exp_eq_0_iff_not_bit del: power_numeral)
  from ok have "after = before OR 2 ^ 20" by simp
  then show "bit after n \<longleftrightarrow> n = 20 \<or> bit before n" for n by (auto simp: bit_or_iff bit_exp_iff simp del: power_numeral)
  from ok have z: "before AND (2 ^ 20 OR 2 ^ 21 OR 2 ^ 17 OR 2 ^ 7) = 0" by blast
  show "\<forall>n\<in>{20, 21, 17, 7}. \<not> bit before n"
  proof
    fix n assume n: "n \<in> {20, 21, 17, 7 :: nat}"
    have "\<not> bit (before AND (2 ^ 20 OR 2 ^ 21 OR 2 ^ 17 OR 2 ^ 7)) n" unfolding z by simp
    with n show "\<not> bit before n" by (auto simp: bit_and_iff bit_or_iff bit_exp_iff simp del: power_numeral)
  qed
qed

text \<open>
  C21 (safety). The accepted control write sets supervisor-mode execution prevention and changes no other
  bit of CR4: bit 20 was clear and is set, every other bit is the one read before, SMAP, PCID and PGE are
  clear before and after; write protection and no-execute are on and interrupts are off.
\<close>

theorem nosmap_sets_smep_alone:
  assumes "extract_nosmap raw P = Inr (proj, r)"
  shows "\<not> bit (ns_before r) 20 \<and> (\<forall>n. bit (ns_after r) n \<longleftrightarrow> n = 20 \<or> bit (ns_before r) n) \<and>
    \<not> bit (ns_after r) 21 \<and> \<not> bit (ns_after r) 17 \<and> \<not> bit (ns_after r) 7 \<and>
    bit (ns_cr0 r) 16 \<and> bit (ns_efer r) 11 \<and> \<not> bit (ns_rflags r) 9"
proof -
  from assms have "nosmap_control_ok (ns_cr0 r) (ns_before r) (ns_after r) (ns_efer r) (ns_rflags r)"
    by (rule extract_nosmap_SomeE)
  from control_bits [OF this] show ?thesis by simp
qed

lemma page_aligned: "x AND 0xfff = 0 \<longleftrightarrow> 4096 dvd x" for x :: int
  using and_mask_mod [of x 12] by (simp add: mask_eq_exp_minus_1 mod_eq_0_iff_dvd)

text \<open>
  C37 (bounds). The closed root and the copy root of an accepted publication are different page-aligned
  addresses below 16 MiB, neither is zero, and the closed root is the active one.
\<close>

theorem copy_roots_bounded:
  assumes "extract_copy_root raw P inventory = Inr (proj, r)"
  shows "cr_copy_root r \<noteq> cr_closed_root r \<and> cr_active_root r = cr_closed_root r \<and>
    (\<forall>root\<in>{cr_copy_root r, cr_closed_root r}. root \<noteq> 0 \<and> root < 2 ^ 24 \<and> 4096 dvd root)"
proof -
  from assms have "roots_valid (cr_copy_root r) (cr_closed_root r) (cr_active_root r)"
    by (rule extract_copy_root_SomeE)
  then show ?thesis by (simp add: roots_valid_def page_aligned)
qed

end
