(* ===== verification/Csv.thy ===== *)
theory Csv
  imports Records
begin

text \<open>
  Comma-separated words: printing them, and reading back what a list group of a record matched.
\<close>

subsection \<open>Comma-separated words\<close>

definition csv :: "nat list \<Rightarrow> bytes" where
  "csv ws = decimal (hd ws) @ comma_join (map decimal (tl ws))"

lemma split_on_comma_join:
  assumes "CHR '','' \<notin> set p" "\<forall>d\<in>set ds. CHR '','' \<notin> set d"
  shows "split_on CHR '','' (p @ comma_join ds) = p # ds"
  using assms
proof (induction ds arbitrary: p)
  case Nil
  then show ?case by (simp add: comma_join_def split_on_last)
next
  case (Cons d ds)
  have "p @ comma_join (d # ds) = p @ CHR '','' # (d @ comma_join ds)" by (simp add: comma_join_def)
  with Cons show ?case by (simp add: split_on_part)
qed

lemma digits_no_comma: "\<forall>c\<in>set d. is_digit c \<Longrightarrow> CHR '','' \<notin> set d"
  by (auto simp: is_digit_def)

lemma decimal_no_comma [simp]: "CHR '','' \<notin> set (decimal n)"
  by (rule digits_no_comma) (blast dest: decimal_digits)

lemma split_on_csv: "ws \<noteq> [] \<Longrightarrow> split_on CHR '','' (csv ws) = map decimal ws"
  by (cases ws) (simp_all add: csv_def split_on_comma_join)

lemma py_int_small: "n < 10 ^ 10 \<Longrightarrow> py_int (decimal n) = Inr (int n)"
  using decimal_length [of n 9] by (intro py_int_decimal) simp

lemma py_ints_small: "\<forall>n\<in>set ns. n < 10 ^ 10 \<Longrightarrow> py_ints (map decimal ns) = Inr (map int ns)"
  by (induction ns) (simp_all add: py_int_small eval_simps)

lemma csv_words: "ws \<noteq> [] \<Longrightarrow> \<forall>n\<in>set ws. n < 10 ^ 10 \<Longrightarrow>
    py_ints (split_on CHR '','' (csv ws)) = Inr (map int ws)"
  by (simp add: split_on_csv py_ints_small)

lemma py_int_wide: "n < 10 ^ 20 \<Longrightarrow> py_int (decimal n) = Inr (int n)"
  using decimal_length [of n 19] by (intro py_int_decimal) simp

lemma csv_values_wide: "ws \<noteq> [] \<Longrightarrow> \<forall>n\<in>set ws. n < 10 ^ 20 \<Longrightarrow> py_ints (split_on CHR '','' (csv ws)) = Inr (map int ws)"
proof -
  assume "ws \<noteq> []" and s: "\<forall>n\<in>set ws. n < 10 ^ 20"
  moreover have "py_ints (map decimal ws) = Inr (map int ws)" using s
    by (induction ws) (simp_all add: eval_simps py_int_wide)
  ultimately show ?thesis by (simp add: split_on_csv)
qed

lemma csv_list_text:
  "length ws = Suc k \<Longrightarrow> \<forall>n\<in>set ws. n < 10 ^ Suc b \<Longrightarrow> list_text (dec_text (Some b)) k (csv ws)"
proof -
  assume a: "length ws = Suc k" "\<forall>n\<in>set ws. n < 10 ^ Suc b"
  then obtain w vs where w: "ws = w # vs" by (cases ws) auto
  have "dec_text (Some b) (decimal n)" if "n \<in> set ws" for n
    using that a(2) by (intro dec_text_decimal) blast
  with a w show ?thesis
    unfolding list_text_def csv_def
    by (intro exI [of _ "decimal w"] exI [of _ "map decimal vs"]) auto
qed

lemma comma_join_clean: "\<forall>d\<in>set ds. clean d \<Longrightarrow> clean (comma_join ds)"
  by (induction ds) (auto simp: comma_join_def clean_def)

lemma csv_clean [simp]: "clean (csv ws)"
  unfolding csv_def clean_simps by (auto intro!: comma_join_clean)

lemma csv_nonspace: "c \<in> set (csv ws) \<Longrightarrow> \<not> is_space c"
proof -
  assume "c \<in> set (csv ws)"
  then consider (digit) n where "c \<in> set (decimal n)" | (comma) "c = CHR '',''"
    unfolding csv_def comma_join_def by (auto split: if_splits)
  then show ?thesis
  proof cases
    case digit
    then show ?thesis by (blast dest: decimal_digits digit_not_space)
  next
    case comma
    then show ?thesis by (simp add: is_space_def)
  qed
qed


text \<open>Every comma-separated list of bounded decimals is printed from numbers.\<close>

lemma dec_text_value:
  assumes "dec_text (Some b) t" "b < 4300"
  shows "t = decimal (nat (dec_value t))" "nat (dec_value t) < 10 ^ Suc b"
  using assms py_int_dec_text [OF assms] decimal_of_text [of t]
  by (auto simp: dec_text_def nat_less_iff)

lemma list_text_csv:
  assumes "list_text (dec_text (Some b)) k t" "b < 4300"
  obtains ws where "length ws = Suc k" "t = csv ws" "\<forall>w\<in>set ws. w < 10 ^ Suc b"
proof -
  from assms(1) obtain d ds where "length ds = k" and ok: "\<forall>x\<in>set (d # ds). dec_text (Some b) x"
    and t: "t = d @ comma_join ds" by (auto simp: list_text_def)
  let ?ws = "map (nat \<circ> dec_value) (d # ds)"
  have v: "x = decimal (nat (dec_value x))" "nat (dec_value x) < 10 ^ Suc b" if "x \<in> set (d # ds)" for x
    using that ok assms(2) by (blast intro: dec_text_value)+
  have "map decimal ?ws = d # ds" using v(1) by (simp add: map_idI)
  then have "t = csv ?ws" by (simp add: csv_def t)
  moreover have "\<forall>w\<in>set ?ws. w < 10 ^ Suc b" using v(2) by auto
  moreover have "length ?ws = Suc k" using \<open>length ds = k\<close> by simp
  ultimately show ?thesis using that by blast
qed

lemma csv_values:
  assumes "length ws = Suc k" "\<forall>w\<in>set ws. w < 10 ^ Suc b" "b < 4300"
  shows "py_ints (split_on CHR '','' (csv ws)) = Inr (map int ws)"
proof -
  have "py_ints (map decimal ws) = Inr (map int ws)" using assms(2)
  proof (induction ws)
    case (Cons w ws)
    then have "py_int (decimal w) = Inr (int w)"
      using decimal_length [of w b] assms(3) by (intro py_int_decimal) simp
    with Cons show ?case by (simp add: eval_simps)
  qed simp
  moreover from assms(1) have "ws \<noteq> []" by auto
  ultimately show ?thesis by (simp add: split_on_csv)
qed

lemma strip_nonspace:
  assumes "\<forall>c\<in>set s. \<not> is_space c" shows "strip (s @ NL) = s"
proof -
  have all: "dropWhile is_space t = t" if "\<forall>c\<in>set t. \<not> is_space c" for t
    using that by (cases t) auto
  have "is_space LF" by (simp add: is_space_def)
  then have "rev (dropWhile is_space (rev (s @ NL))) = s" using all [of "rev s"] assms by simp
  moreover have "dropWhile is_space (s @ NL) = s @ NL \<or> s = []"
    using assms by (cases s) auto
  ultimately show ?thesis unfolding strip_def by (auto simp: is_space_def)
qed

end
