(* ===== verification/Transcripts.thy ===== *)
theory Transcripts
  imports Checkpoints Csv
begin

text \<open>
  The printing side: header records, comma-separated words and labelled lines, and when the
  decoders accept what is printed.  These lemmas carry the reference transcript.
\<close>

unbundle bit_operations_syntax

subsection \<open>Header records\<close>

definition header_line :: "protocol \<Rightarrow> nat \<Rightarrow> nat list \<Rightarrow> bytes" where
  "header_line P i ws = header_prefix P i @ csv ws @ NL"

lemma header_words_line:
  "ws \<noteq> [] \<Longrightarrow> \<forall>n\<in>set ws. n < 10 ^ 10 \<Longrightarrow> header_words P i (header_line P i ws) = Inr (map int ws)"
  unfolding header_words_def header_line_def
  by (simp add: strip_nonspace csv_nonspace csv_words)

lemma split_on_csv_newline:
  assumes "Suc 0 < length ws"
  shows "\<exists>x. split_on CHR '','' (csv ws @ NL) = map decimal (butlast ws) @ [x]"
proof -
  obtain w vs v where ws: "ws = w # vs @ [v]"
    using assms by (metis append_butlast_last_id length_Cons length_greater_0_conv list.exhaust
        list.size(3) Suc_less_eq less_nat_zero_code)
  have "csv ws @ NL = decimal w @ comma_join (map decimal vs @ [decimal v @ NL])"
    by (simp add: ws csv_def comma_join_def)
  then show ?thesis
    by (simp add: ws split_on_comma_join butlast_append)
qed

lemma header_command_line:
  assumes "5 < length ws" "\<forall>n\<in>set ws. n < 10 ^ 10"
  shows "header_command P i (header_line P i ws) = Inr (int (ws ! 4))"
proof -
  obtain x where x: "split_on CHR '','' (csv ws @ NL) = map decimal (butlast ws) @ [x]"
    using split_on_csv_newline [of ws] assms(1) by auto
  then have "py_get (split_on CHR '','' (csv ws @ NL)) 4 = Inr (decimal (ws ! 4))"
    using assms(1) by (auto simp: py_get_def nth_append nth_butlast)
  then show ?thesis
    using assms by (simp add: header_command_def header_line_def eval_simps py_int_small)
qed

lemma source_header_line:
  assumes "length ws = 19" "\<forall>n\<in>set ws. n < 10 ^ 10" "i < 10 ^ 10"
  shows "fullmatch (source_header_pattern P) (header_line P i ws) = Some [decimal i, csv ws]"
proof -
  let ?ps = "source_header_pattern P"
  have "groups_ok ?ps [decimal i, csv ws]"
    using dec_text_decimal [of i 9] csv_list_text [of ws 18 9] assms by (simp add: source_header_pattern_def)
  moreover have "render ?ps [decimal i, csv ws] = header_line P i ws"
    by (simp add: source_header_pattern_def header_line_def header_prefix_def)
  moreover have "delimited ?ps" by (simp add: source_header_pattern_def is_digit_def)
  ultimately show ?thesis using fullmatch_render by metis
qed

lemma source_headers_lines:
  assumes "\<forall>ws\<in>set wss. length ws = 19 \<and> (\<forall>n\<in>set ws. n < 10 ^ 10) \<and> \<not> exceeds (map int ws) word_limits"
    and "k = length acc" "k + length wss < 10 ^ 10"
  shows "source_headers P (map (\<lambda>(i, ws). header_line P i ws) (enumerate k wss)) acc =
    Inr (acc @ map (map int) wss)"
  using assms
proof (induction wss arbitrary: k acc)
  case Nil
  then show ?case by simp
next
  case (Cons ws wss)
  have "startswith (header_line P k ws) (pr_pci_header P)"
    by (simp add: header_line_def header_prefix_def)
  moreover have "fullmatch (source_header_pattern P) (header_line P k ws) = Some [decimal k, csv ws]"
    using Cons.prems by (intro source_header_line) auto
  moreover have "py_int (decimal k) = Inr (int k)" using Cons.prems(3) by (intro py_int_small) simp
  moreover have "py_ints (split_on CHR '','' (csv ws)) = Inr (map int ws)"
    using Cons.prems(1) by (intro csv_words) auto
  ultimately show ?case
    using Cons.prems Cons.IH [of "Suc k" "acc @ [map int ws]"] by (simp add: eval_simps)
qed

end
