(* ===== verification/Segments.thy ===== *)
theory Segments
  imports Transcripts
begin

text \<open>
  Captures as lists of segments.  A segment is a record prefix with its consecutive lines.  When no prefix starts another one, a decoder finds its own segment and nothing else, so
  acceptance of a long capture reduces to the judgement of one segment after the other.
\<close>

subsection \<open>Lines of a pattern\<close>

fun line_pattern :: "item list \<Rightarrow> bool" where
  "line_pattern [Lit l] = (l = NL)"
| "line_pattern (Lit l # ps) = (clean l \<and> line_pattern ps)"
| "line_pattern (Dec b # ps) = line_pattern ps"
| "line_pattern _ = False"

fun pattern_width :: "item list \<Rightarrow> nat" where
  "pattern_width (Lit l # ps) = length l + pattern_width ps"
| "pattern_width (Dec (Some k) # ps) = Suc k + pattern_width ps"
| "pattern_width _ = 0"

definition good_pattern :: "bytes \<Rightarrow> item list \<Rightarrow> bool" where
  "good_pattern p ps \<longleftrightarrow> delimited ps \<and> decimal_pattern ps \<and> line_pattern ps \<and> pattern_width ps \<le> 600 \<and>
     (case ps of Lit l # _ \<Rightarrow> startswith l p | _ \<Rightarrow> False)"

definition line_ok :: "bytes \<Rightarrow> bytes \<Rightarrow> bool" where
  "line_ok p l \<longleftrightarrow> complete_line l \<and> startswith l p \<and> length l \<le> 600"

lemma record_line_complete:
  "line_pattern ps \<Longrightarrow> in_range ps ns \<Longrightarrow> \<exists>s. clean s \<and> record_line ps ns = s @ NL"
proof (induction ps arbitrary: ns rule: line_pattern.induct)
  case (2 l p ps)
  then obtain s where "clean s" "record_line (p # ps) ns = s @ NL" by auto
  with 2(2) show ?case by (intro exI [of _ "l @ s"]) (simp add: record_line_def clean_simps)
next
  case (3 b ps)
  from 3(3) obtain n ns' k where n: "ns = n # ns'" "b = Some k" "in_range ps ns'"
    by (cases b; cases ns) auto
  with 3 obtain s where "clean s" "record_line ps ns' = s @ NL" by auto
  with n show ?case by (intro exI [of _ "decimal n @ s"]) (simp add: record_line_def clean_simps)
qed (auto simp: record_line_def clean_simps)

lemma record_line_width: "in_range ps ns \<Longrightarrow> length (record_line ps ns) \<le> pattern_width ps"
proof (induction ps ns rule: in_range.induct)
  case (2 k ps n ns)
  then have "length (decimal n) \<le> Suc k" by (intro decimal_length) simp
  with 2 show ?case by (simp add: record_line_def)
qed (auto simp: record_line_def)

lemma record_line_ok:
  assumes "good_pattern p ps" "in_range ps ns"
  shows "line_ok p (record_line ps ns)"
proof -
  from assms(1) obtain l qs where "ps = Lit l # qs" "startswith l p"
    by (auto simp: good_pattern_def split: list.splits item.splits)
  then have "startswith (record_line ps ns) p" by (auto simp: record_line_def startswith_iff)
  with assms record_line_complete [of ps ns] record_line_width [of ps ns] show ?thesis
    by (auto simp: line_ok_def good_pattern_def intro: complete_line_clean)
qed

lemma record_match:
  "good_pattern p ps \<Longrightarrow> in_range ps ns \<Longrightarrow> match_ints msg ps (record_line ps ns) = Inr (map int ns)"
  unfolding good_pattern_def by (elim conjE) (rule match_ints_record_line)

definition printed :: "item list \<Rightarrow> int list \<Rightarrow> bytes" where
  "printed ps vs = record_line ps (map nat vs)"

definition prints :: "item list \<Rightarrow> int list \<Rightarrow> bool" where
  "prints ps vs \<longleftrightarrow> in_range ps (map nat vs) \<and> list_all (\<lambda>v. 0 \<le> v) vs"

lemma printed_line_ok: "good_pattern p ps \<Longrightarrow> prints ps vs \<Longrightarrow> line_ok p (printed ps vs)"
  by (simp add: printed_def prints_def record_line_ok)

lemma printed_match: "good_pattern p ps \<Longrightarrow> prints ps vs \<Longrightarrow> match_ints msg ps (printed ps vs) = Inr vs"
  using record_match [of p ps "map nat vs" msg] by (simp add: printed_def prints_def list_all_iff map_idI)

lemma literal_line_ok: "clean s \<Longrightarrow> startswith s p \<Longrightarrow> length s < 600 \<Longrightarrow> line_ok p (s @ NL)"
  by (auto simp: line_ok_def complete_line_clean startswith_iff)

subsection \<open>Numbered lines\<close>

lemma startswith_trans: "startswith s t \<Longrightarrow> startswith t u \<Longrightarrow> startswith s u"
  by (auto simp: startswith_iff)

lemma decimal_delimited:
  assumes "startswith (decimal j @ a # s) (decimal i @ b # t)" "\<not> is_digit a" "\<not> is_digit b"
  shows "i = j"
proof -
  from assms(1) obtain u where "decimal j @ a # s = decimal i @ b # t @ u" by (auto simp: startswith_iff)
  then have "takeWhile is_digit (decimal j @ a # s) = takeWhile is_digit (decimal i @ b # t @ u)" by simp
  then have "decimal j = decimal i"
    using assms(2,3) decimal_digits by (simp add: takeWhile_append)
  then have "dec_value (decimal j) = dec_value (decimal i)" by simp
  then show ?thesis by simp
qed

lemma header_line_starts: "startswith (header_line P j ws) (header_prefix P i) \<longleftrightarrow> i = j"
proof
  assume "startswith (header_line P j ws) (header_prefix P i)"
  then have "startswith (decimal j @ CHR '' '' # ''width=19 words='' @ csv ws @ NL) (decimal i @ CHR '' '' # ''width=19 words='')"
    by (simp add: header_line_def header_prefix_def)
  then show "i = j" by (rule decimal_delimited) (simp_all add: is_digit_def)
qed (simp add: header_line_def)

definition header_block :: "protocol \<Rightarrow> nat list list \<Rightarrow> bytes list" where
  "header_block P wss = map (\<lambda>(i, ws). header_line P i ws) (enumerate 0 wss)"

lemma filter_enumerate:
  assumes "\<And>i x. p (f i x) \<longleftrightarrow> i = k" "a \<le> k" "k < a + length xs"
  shows "filter p (map (\<lambda>(i, x). f i x) (enumerate a xs)) = [f k (xs ! (k - a))]"
  using assms(2,3)
proof (induction xs arbitrary: a)
  case (Cons x xs)
  have none: "filter p (map (\<lambda>(i, x). f i x) (enumerate b ys)) = []" if "k < b" for b ys
    using that by (induction ys arbitrary: b) (auto simp: assms(1))
  show ?case
  proof (cases "k = a")
    case True
    then show ?thesis using none [of "Suc a" xs] by (simp add: assms(1))
  next
    case False
    with Cons show ?thesis by (simp add: assms(1) nth_Cons')
  qed
qed simp

lemma header_lines_block:
  "i < length wss \<Longrightarrow> header_lines P i (header_block P wss) = [header_line P i (wss ! i)]"
  unfolding header_lines_def header_block_def
  by (subst filter_enumerate [where k = i and f = "header_line P"]) (auto simp: header_line_starts)

lemma csv_width: "ws \<noteq> [] \<Longrightarrow> \<forall>n\<in>set ws. n < 10 ^ 10 \<Longrightarrow> length (csv ws) \<le> 11 * length ws"
proof -
  have d: "length (decimal n) \<le> 10" if "n < 10 ^ 10" for n using decimal_length [of n 9] that by simp
  have "length (comma_join (map decimal vs)) \<le> 11 * length vs" if "\<forall>n\<in>set vs. n < 10 ^ 10" for vs
    using that
  proof (induction vs)
    case (Cons v vs)
    then show ?case using d [of v] by (simp add: comma_join_def)
  qed (simp add: comma_join_def)
  then show "ws \<noteq> [] \<Longrightarrow> \<forall>n\<in>set ws. n < 10 ^ 10 \<Longrightarrow> length (csv ws) \<le> 11 * length ws"
    using d by (cases ws) (fastforce simp: csv_def)+
qed

lemma header_line_ok:
  assumes "length ws = 19" "\<forall>n\<in>set ws. n < 10 ^ 10" "i < 100" "clean (pr_pci_header P)" "length (pr_pci_header P) < 100"
    and "startswith (pr_pci_header P @ '' codec=1 index='') p"
  shows "line_ok p (header_line P i ws)"
proof -
  have "length (decimal i) \<le> 2" using decimal_length [of i 1] assms(3) by simp
  moreover have "length (csv ws) \<le> 11 * 19" using csv_width [of ws] assms(1,2) by force
  moreover have "clean (pr_pci_header P @ '' codec=1 index='' @ decimal i @ '' width=19 words='' @ csv ws)"
    using assms(4) by (simp add: clean_simps)
  moreover have "startswith (pr_pci_header P @ '' codec=1 index='' @ decimal i @ '' width=19 words='' @ csv ws) p"
    using startswith_trans [OF startswith_append assms(6), of "decimal i @ '' width=19 words='' @ csv ws"] by simp
  ultimately show ?thesis
    using literal_line_ok [of "pr_pci_header P @ '' codec=1 index='' @ decimal i @ '' width=19 words='' @ csv ws"]
      assms(5) by (simp add: header_line_def header_prefix_def)
qed

type_synonym segment = "bytes \<times> bytes list"

definition capture_lines :: "segment list \<Rightarrow> bytes list" where
  "capture_lines ss = concat (map snd ss)"

definition apart :: "bytes \<Rightarrow> bytes \<Rightarrow> bool" where
  "apart p q \<longleftrightarrow> \<not> startswith p q \<and> \<not> startswith q p"

definition segments_ok :: "protocol \<Rightarrow> segment list \<Rightarrow> bool" where
  "segments_ok P ss \<longleftrightarrow> list_all (\<lambda>s. list_all (line_ok (fst s)) (snd s)) ss \<and> clean (pr_final P) \<and>
     sorted_wrt apart (map fst ss @ [pr_final P])"

definition fits :: "protocol \<Rightarrow> segment list \<Rightarrow> bool" where
  "fits P ss \<longleftrightarrow> 600 * length (capture_lines ss) + length (pr_final P) + 200 \<le> MAX_LAB_CAPTURE"

definition seg_start :: "segment list \<Rightarrow> nat \<Rightarrow> nat" where
  "seg_start ss k = length (capture_lines (take k ss))"

definition seg_lines :: "protocol \<Rightarrow> segment list \<Rightarrow> nat \<Rightarrow> bytes \<Rightarrow> bytes list" where
  \<comment> \<open>the first \<open>m\<close> segments and a terminal line\<close>
  "seg_lines P ss m reason = capture_lines (take m ss) @ [final_line P reason]"

definition seg_capture :: "protocol \<Rightarrow> segment list \<Rightarrow> nat \<Rightarrow> bytes \<Rightarrow> bytes" where
  "seg_capture P ss m reason = concat (seg_lines P ss m reason)"

subsection \<open>Lines of a segment\<close>

lemma apart_line: "apart p q \<Longrightarrow> \<not> startswith (p @ r) q"
  by (auto simp: apart_def startswith_iff append_eq_append_conv2)

lemma apart_extend: "apart p q \<Longrightarrow> startswith r q \<Longrightarrow> \<not> startswith (p @ b) r"
  using apart_line startswith_trans by blast

lemma apart_sym: "apart p q \<longleftrightarrow> apart q p" by (auto simp: apart_def)

lemma capture_lines_append [simp]: "capture_lines (as @ bs) = capture_lines as @ capture_lines bs"
  by (simp add: capture_lines_def)

lemma capture_lines_Cons [simp]: "capture_lines (s # ss) = snd s @ capture_lines ss"
  by (simp add: capture_lines_def)

lemma capture_lines_Nil [simp]: "capture_lines [] = []" by (simp add: capture_lines_def)

lemma take_split: "k < m \<Longrightarrow> m \<le> length ss \<Longrightarrow> take m ss = take k ss @ ss ! k # drop (Suc k) (take m ss)"
  using id_take_nth_drop [of k "take m ss"] by (simp add: min_def)

lemma seg_lines_split:
  "k < m \<Longrightarrow> m \<le> length ss \<Longrightarrow> capture_lines (take m ss) =
     capture_lines (take k ss) @ snd (ss ! k) @ capture_lines (drop (Suc k) (take m ss))"
  by (subst take_split) simp_all

lemma seg_nth:
  assumes "k < m" "m \<le> length ss" "i < length (snd (ss ! k))"
  shows "seg_lines P ss m reason ! (seg_start ss k + i) = snd (ss ! k) ! i"
  using assms by (simp add: seg_lines_def seg_lines_split [OF assms(1,2)] seg_start_def nth_append)

lemma seg_lines_last [simp]: "last (seg_lines P ss m reason) = final_line P reason"
  by (simp add: seg_lines_def)

lemma terminal_seg [simp]:
  "terminal P reason failed (seg_lines P ss m PENDING) \<longleftrightarrow> (failed \<longrightarrow> reason = PENDING)"
  by (auto simp: terminal_def)

lemma length_seg_lines [simp]: "length (seg_lines P ss m reason) = Suc (seg_start ss m)"
  by (simp add: seg_lines_def seg_start_def)

lemma seg_start_Suc: "k < length ss \<Longrightarrow> seg_start ss (Suc k) = seg_start ss k + length (snd (ss ! k))"
  by (simp add: seg_start_def take_Suc_conv_app_nth)

subsection \<open>Well-formed captures\<close>

lemma segments_ok_apart:
  assumes "segments_ok P ss" "i < length ss" "j < length ss" "i \<noteq> j"
  shows "apart (fst (ss ! i)) (fst (ss ! j))"
proof -
  from assms(1) have s: "sorted_wrt apart (map fst ss)" by (simp add: segments_ok_def sorted_wrt_append)
  from assms(4) consider "i < j" | "j < i" by linarith
  then show ?thesis
  proof cases
    case 1
    then show ?thesis using sorted_wrt_nth_less [OF s, of i j] assms by simp
  next
    case 2
    then show ?thesis using sorted_wrt_nth_less [OF s, of j i] assms by (simp add: apart_sym)
  qed
qed

lemma segments_ok_final:
  assumes "segments_ok P ss" "i < length ss" "startswith q (fst (ss ! i))"
  shows "\<not> startswith (final_line P reason) q"
proof -
  from assms(1,2) have "apart (fst (ss ! i)) (pr_final P)" by (simp add: segments_ok_def sorted_wrt_append)
  then have "apart (pr_final P) (fst (ss ! i))" by (simp add: apart_sym)
  then show ?thesis unfolding final_line_def using assms(3) by (rule apart_extend)
qed

lemma segments_ok_lines:
  assumes "segments_ok P ss" "l \<in> set (capture_lines (take m ss))"
  shows "complete_line l"
  using assms by (auto simp: capture_lines_def segments_ok_def list_all_iff line_ok_def dest: in_set_takeD)

lemma seg_splitlines:
  assumes "segments_ok P ss" "clean reason"
  shows "splitlines (seg_capture P ss m reason) = seg_lines P ss m reason"
proof -
  have "complete_line (final_line P reason)"
    using assms complete_line_clean [of "pr_final P @ '' status=FAIL reason='' @ reason"]
    by (simp add: final_line_def eval_simps segments_ok_def)
  with segments_ok_lines [OF assms(1)] show ?thesis
    unfolding seg_capture_def by (intro splitlines_concat_all) (auto simp: seg_lines_def)
qed

lemma seg_capture_bounds:
  assumes "segments_ok P ss" "fits P ss" "length reason \<le> 100"
  shows "length (seg_capture P ss m reason) \<le> MAX_LAB_CAPTURE" "endswith (seg_capture P ss m reason) NL"
proof -
  have width: "length (concat ls) \<le> 600 * length ls" if "\<forall>l\<in>set ls. length l \<le> 600" for ls :: "bytes list"
    using that by (induction ls) auto
  have "\<forall>l\<in>set (capture_lines (take m ss)). length l \<le> 600"
    using assms(1) by (auto simp: capture_lines_def segments_ok_def list_all_iff line_ok_def dest: in_set_takeD)
  note width [OF this]
  moreover have "length (capture_lines ss) = length (capture_lines (take m ss)) + length (capture_lines (drop m ss))"
    by (metis append_take_drop_id capture_lines_append length_append)
  ultimately show "length (seg_capture P ss m reason) \<le> MAX_LAB_CAPTURE"
    using assms(2,3) by (simp add: fits_def seg_capture_def seg_lines_def final_line_def)
  show "endswith (seg_capture P ss m reason) NL"
    by (simp add: seg_capture_def seg_lines_def final_line_def endswith_iff)
qed

text \<open>Only the segment with the prefix holds lines that start with it.\<close>

lemma other_segments:
  assumes "segments_ok P ss" "h < length ss" "startswith q (fst (ss ! h))"
    and "l \<in> set (capture_lines (take h ss)) \<union> set (capture_lines (drop (Suc h) (take m ss)))"
  shows "\<not> startswith l q"
proof -
  from assms(4) obtain s where s: "s \<in> set (take h ss) \<union> set (drop (Suc h) (take m ss))" "l \<in> set (snd s)"
    by (auto simp: capture_lines_def)
  have "set (drop (Suc h) (take m ss)) \<subseteq> set (drop (Suc h) ss)" by (simp add: drop_take set_take_subset)
  with s(1) consider "s \<in> set (take h ss)" | "s \<in> set (drop (Suc h) ss)" by blast
  then obtain i where "s = ss ! i" "i < length ss" "i \<noteq> h"
  proof cases
    case 1
    then show thesis using that by (auto simp: in_set_conv_nth)
  next
    case 2
    then obtain j where "j < length ss - Suc h" "s = ss ! (Suc h + j)" by (auto simp: in_set_conv_nth)
    then show thesis using that [of "Suc h + j"] by simp
  qed
  with s(2) assms(1) obtain b where i: "i < length ss" "i \<noteq> h" "l = fst (ss ! i) @ b"
    unfolding segments_ok_def list_all_iff line_ok_def startswith_iff by (metis nth_mem)
  then show ?thesis using apart_extend segments_ok_apart [OF assms(1) i(1) assms(2) i(2)] assms(3) by blast
qed

lemma seg_filter:
  assumes "segments_ok P ss" "h < m" "m \<le> length ss" "startswith q (fst (ss ! h))"
  shows "filter (\<lambda>l. startswith l q) (seg_lines P ss m reason) =
    filter (\<lambda>l. startswith l q) (snd (ss ! h))"
proof -
  have h: "h < length ss" using assms by simp
  have "filter (\<lambda>l. startswith l q) (capture_lines (take h ss)) = []"
    "filter (\<lambda>l. startswith l q) (capture_lines (drop (Suc h) (take m ss))) = []"
    using other_segments [OF assms(1) h assms(4)] by (auto simp: filter_empty_conv)
  then show ?thesis
    using segments_ok_final [OF assms(1) h assms(4)]
    by (simp add: seg_lines_def seg_lines_split [OF assms(2,3)])
qed

lemma seg_indices_where:
  assumes "segments_ok P ss" "k < m" "m \<le> length ss"
    and "\<And>l. p l \<Longrightarrow> startswith l (fst (ss ! k))" "list_all p (snd (ss ! k))"
  shows "indices_where p (seg_lines P ss m reason) =
    [seg_start ss k..<seg_start ss k + length (snd (ss ! k))]"
proof -
  have k: "k < length ss" "startswith (fst (ss ! k)) (fst (ss ! k))" using assms by (auto simp: startswith_iff)
  have "indices_where p (capture_lines (drop (Suc k) (take m ss)) @ [final_line P reason]) = []"
    using other_segments [OF assms(1) k] segments_ok_final [OF assms(1) k] assms(4)
    by (auto simp: indices_where_empty)
  moreover have "indices_where p (capture_lines (take k ss)) = []"
    using other_segments [OF assms(1) k] assms(4) by (auto simp: indices_where_empty)
  moreover have "indices_where p (snd (ss ! k)) = [0..<length (snd (ss ! k))]"
    unfolding indices_where_def using assms(5) by (auto simp: list_all_length)
  ultimately show ?thesis
    by (simp add: seg_lines_def seg_lines_split [OF assms(2,3)] indices_where_append seg_start_def
        add.commute map_add_upt)
qed

lemma seg_indices_own:
  assumes "segments_ok P ss" "k < m" "m \<le> length ss"
  shows "indices_where (\<lambda>l. startswith l (fst (ss ! k))) (seg_lines P ss m reason) =
    [seg_start ss k..<seg_start ss k + length (snd (ss ! k))]"
  by (rule seg_indices_where [OF assms])
    (use assms in \<open>auto simp: segments_ok_def list_all_iff line_ok_def dest: nth_mem\<close>)

lemma seg_take: "k < m \<Longrightarrow> m \<le> length ss \<Longrightarrow>
    take (seg_start ss k) (seg_lines P ss m reason) = capture_lines (take k ss)"
  by (simp add: seg_lines_def seg_lines_split seg_start_def)

lemma seg_projection: "concat (capture_lines (take k ss)) @ pending_line P = seg_capture P ss k PENDING"
  by (simp add: seg_capture_def seg_lines_def pending_line_def)

subsection \<open>Acceptance\<close>

definition seg_indices :: "segment list \<Rightarrow> nat \<Rightarrow> nat list" where
  "seg_indices ss k = [seg_start ss k..<seg_start ss k + length (snd (ss ! k))]"

lemma segment_accepts:
  assumes "segments_ok P ss" "fits P ss"
    and "k < m" "m \<le> length ss" "d_prefix d = fst (ss ! k)" "snd (ss ! k) \<noteq> []"
    and "d_placed d (Suc (seg_start ss m)) (seg_indices ss k)"
    and "d_scan d (seg_lines P ss m PENDING) (seg_indices ss k) = Inr s"
    and "d_prev d (seg_capture P ss k PENDING) P = Inr (prior, Some p)" "d_ready d p"
    and "\<exists>r. d_judge d P (seg_lines P ss m PENDING) (seg_indices ss k) s (seg_capture P ss k PENDING) prior p = Inr r \<and> Q r"
  shows "\<exists>r. run_decoder d (seg_capture P ss m PENDING) P = Inr (seg_capture P ss k PENDING, Some r) \<and> Q r"
proof -
  from assms(11) obtain r where
    j: "d_judge d P (seg_lines P ss m PENDING) (seg_indices ss k) s (seg_capture P ss k PENDING) prior p = Inr r" "Q r" by blast
  have c: "clean PENDING" by (simp add: eval_simps)
  have "seg_indices ss k \<noteq> []" "hd (seg_indices ss k) = seg_start ss k" using assms(6) by (auto simp: seg_indices_def)
  moreover have "length PENDING \<le> 100" by simp
  moreover have "indices_where (\<lambda>l. startswith l (d_prefix d)) (seg_lines P ss m PENDING) = seg_indices ss k"
    using seg_indices_own [OF assms(1,3,4)] by (simp add: assms(5) seg_indices_def)
  ultimately have "run_decoder d (seg_capture P ss m PENDING) P = Inr (seg_capture P ss k PENDING, Some r)"
    using assms(7-10) j(1) seg_capture_bounds [OF assms(1,2), of PENDING m]
    by (simp add: run_decoder_def Let_def seg_splitlines [OF assms(1) c] seg_take [OF assms(3,4)] seg_projection eval_simps)
  with j(2) show ?thesis by blast
qed

lemma seg_indices_single: "length (snd (ss ! k)) = 1 \<Longrightarrow> seg_indices ss k = [seg_start ss k]"
  by (simp add: seg_indices_def)

lemma status_segment_accepts:
  assumes "segments_ok P ss" "fits P ss"
    and "k < length ss" "fst (ss ! k) = prefix" "length (snd (ss ! k)) = 1"
    and "\<exists>p. prev (seg_capture P ss k PENDING) P = Inr (prior, Some p) \<and> rep_status p = 0 \<and> R p"
    and "\<And>p. rep_status p = 0 \<Longrightarrow> R p \<Longrightarrow>
      \<exists>r. judge P (seg_lines P ss (Suc k) PENDING) [seg_start ss k] () (seg_capture P ss k PENDING) prior p = Inr r \<and> Q r"
  shows "\<exists>r. run_decoder (status_stage bounds prefix reason missing order prev without judge)
      (seg_capture P ss (Suc k) PENDING) P = Inr (seg_capture P ss k PENDING, Some r) \<and> Q r"
proof -
  from assms(6) obtain p where p: "prev (seg_capture P ss k PENDING) P = Inr (prior, Some p)" "rep_status p = 0" "R p"
    by blast
  show ?thesis
    by (rule segment_accepts [where k = k and m = "Suc k" and s = "()" and prior = prior and p = p])
      (use assms p in \<open>auto simp: one_before_last_def no_scan_def status_zero_def seg_start_Suc seg_indices_single\<close>)
qed

end
