(* ===== verification/Capture_Log.thy ===== *)
theory Capture_Log
  imports Complex_Main Handoff Decoder
begin

text \<open>
  The timed serial log of a lab run (\<^verbatim>\<open>scripts/run-qotom-recovery-lab.py\<close>): the trace of a run that
  ends in a quiet interval and the FreeBSD recovery chain, the watchdog markers around it, and the
  diagnostic stream cut out of it.  Timestamps are exact rationals, \<open>None\<close> when the log holds no
  finite number; the source subtracts them as floating-point numbers.
\<close>

record event =
  ev_elapsed :: "rat option"
  ev_data :: bytes   \<comment> \<open>\<^verbatim>\<open>bytes.fromhex(e['hex'])\<close>\<close>

definition log_bytes :: "event list \<Rightarrow> bytes" where
  "log_bytes events = concat (map ev_data events)"

definition log_time :: "event \<Rightarrow> rat" where
  "log_time e = (case ev_elapsed e of None \<Rightarrow> 0 | Some t \<Rightarrow> t)"

definition CHAIN_MARK :: bytes where "CHAIN_MARK = ''LEANOS-LAB/1 CHAIN freebsd disk=''"

definition MODE_LINE :: bytes where
  "MODE_LINE = ''LEANOS-LAB/1 MODE qotom-reset-after-final seconds=30'' @ NL"

definition find_from :: "bytes \<Rightarrow> bytes \<Rightarrow> nat \<Rightarrow> nat option" where
  \<comment> \<open>\<^verbatim>\<open>data.find(pat, start)\<close>\<close>
  "find_from pat data start = map_option (\<lambda>i. start + i) (bytes_find pat (drop start data))"

definition final_at :: "bytes \<Rightarrow> bool" where
  \<comment> \<open>\<^verbatim>\<open>LEANOS/[0-9]+ FINAL\<close> at the head of the text\<close>
  "final_at s \<longleftrightarrow> startswith s ''LEANOS/'' \<and> takeWhile is_digit (drop 7 s) \<noteq> [] \<and>
     startswith (dropWhile is_digit (drop 7 s)) '' FINAL''"

fun count_finals :: "bytes \<Rightarrow> nat" where
  \<comment> \<open>\<^verbatim>\<open>len(re.findall(...))\<close>: two matches cannot overlap\<close>
  "count_finals [] = 0"
| "count_finals (c # cs) = (if final_at (c # cs) then 1 else 0) + count_finals cs"

fun quiet_scan :: "nat \<Rightarrow> event list \<Rightarrow> nat \<Rightarrow> rat option \<Rightarrow> rat option \<Rightarrow> (rat option \<times> rat option) res" where
  \<comment> \<open>the loop over the events: offset, time of the terminal bytes and time of the next ones\<close>
  "quiet_scan stop [] offset closed_at next_time = Inr (closed_at, next_time)"
| "quiet_scan stop (e # es) offset closed_at next_time =
     (let following = offset + length (ev_data e) in
      if offset < stop \<and> stop \<le> following then
        raise_if (following \<noteq> stop) ''post-terminal bytes without a quiet interval''
          (quiet_scan stop es following (Some (log_time e)) next_time)
      else if stop \<le> offset \<and> next_time = None then
        quiet_scan stop es following closed_at (Some (log_time e))
      else quiet_scan stop es following closed_at next_time)"

record run_result =
  rr_scenario :: string
  rr_quiet :: rat
  rr_sha256 :: string
  rr_protected :: bool

definition bad_timestamp :: "event \<Rightarrow> bool" where
  "bad_timestamp e \<longleftrightarrow> (case ev_elapsed e of None \<Rightarrow> True | Some t \<Rightarrow> t < 0)"

definition nonmonotonic :: "event list \<Rightarrow> bool" where
  "nonmonotonic events \<longleftrightarrow> list_ex (\<lambda>(a, b). log_time b < log_time a) (zip events (tl events))"

definition classify_run :: "event list \<Rightarrow> bytes \<Rightarrow> bytes \<Rightarrow> bool \<Rightarrow> run_result res" where
  "classify_run events expected boot_record structured_terminal =
     raise_if (list_ex bad_timestamp events) ''invalid capture timestamp''
     (raise_if (nonmonotonic events) ''nonmonotonic capture timestamps''
     (let data = log_bytes events in
      raise_if (\<not> bytes_in expected data \<or> bytes_count boot_record data \<noteq> 1 \<or>
          count_finals data \<noteq> (if structured_terminal then 1 else 0))
        ''missing, changed, or duplicated lab rejection trace''
      (bind (some_or ''missing'' (bytes_find expected data)) (\<lambda>start.
       raise_if (bytes_in ''LEANOS/'' (take start data)) ''unexpected kernel output before selected trace''
       (let stop = start + length expected in
        raise_if (find_from CHAIN_MARK data stop = None) ''missing subsequent FreeBSD chain marker''
        (bind (quiet_scan stop events 0 None None) (\<lambda>(closed_at, next_time).
         case (closed_at, next_time) of
           (Some t, Some n) \<Rightarrow>
             raise_if (n - t < 10) ''insufficient post-terminal quiet interval''
             (raise_if (bytes_in ''LEANOS/'' (drop stop data) \<or>
                 bytes_in ''LEANOS-LAB/1 SELECT leanos'' (drop stop data))
               ''unexpected kernel output during recovery''
             (Inr \<lparr>rr_scenario = ''expected-dma-identity-rejection'', rr_quiet = n - t,
                rr_sha256 = sha256_hex data, rr_protected = False\<rparr>))
         | _ \<Rightarrow> raise ''insufficient post-terminal quiet interval'')))))))"

subsection \<open>Watchdog-protected runs\<close>

definition is_eol :: "char \<Rightarrow> bool" where
  "is_eol c \<longleftrightarrow> c = CR \<or> c = LF"

fun match_wrapped :: "bytes \<Rightarrow> bytes \<Rightarrow> bytes option" where
  \<comment> \<open>the digest with line breaks between its characters; the rest of the text\<close>
  "match_wrapped [] s = Some s"
| "match_wrapped (d # ds) [] = None"
| "match_wrapped (d # ds) (c # cs) =
     (if c = d then match_wrapped ds (if ds = [] then cs else dropWhile is_eol cs) else None)"

definition LOAD_MARK :: bytes where "LOAD_MARK = ''LEANOS-LAB/1 WATCHDOG-LEANOS-LOAD''"

definition load_at :: "bytes \<Rightarrow> bytes \<Rightarrow> nat option" where
  \<comment> \<open>the length of a load record at the head of the text\<close>
  "load_at digest s =
     (let t = drop (length LOAD_MARK) s;
          u = dropWhile (\<lambda>c. c = CHR '' '' \<or> is_eol c) t in
      if startswith s LOAD_MARK \<and> length u < length t \<and> startswith u ''sha256='' then
        (case match_wrapped digest (drop 7 u) of
           Some (c # cs) \<Rightarrow> if is_eol c then Some (length s - Suc (length cs)) else None
         | _ \<Rightarrow> None)
      else None)"

fun find_load :: "bytes \<Rightarrow> bytes \<Rightarrow> nat \<Rightarrow> (nat \<times> nat) option" where
  \<comment> \<open>\<^verbatim>\<open>re.search\<close>: start and end of the first load record\<close>
  "find_load digest [] pos = None"
| "find_load digest (c # cs) pos =
     (case load_at digest (c # cs) of Some n \<Rightarrow> Some (pos, pos + n)
      | None \<Rightarrow> find_load digest cs (Suc pos))"

definition find_pos :: "bytes \<Rightarrow> bytes \<Rightarrow> int" where
  \<comment> \<open>\<^verbatim>\<open>data.find(pat)\<close> with its -1\<close>
  "find_pos pat data = (case bytes_find pat data of None \<Rightarrow> -1 | Some i \<Rightarrow> int i)"

definition WINDOW_MARK :: bytes where "WINDOW_MARK = ''LEANOS-LAB/1 WATCHDOG-WINDOW accepted=1''"
definition ARMED_MARK :: bytes where "ARMED_MARK = ''LEANOS-LAB/1 WATCHDOG-ARMED ticks=120''"
definition DEFAULT_MARK :: bytes where "DEFAULT_MARK = ''LEANOS-LAB/1 DEFAULT request=none''"

definition watchdog_order :: "bytes \<Rightarrow> bytes \<Rightarrow> bytes \<Rightarrow> bool" where
  "watchdog_order digest expected data \<longleftrightarrow>
     (case find_load digest data 0 of None \<Rightarrow> False
      | Some (a, b) \<Rightarrow>
          list_all (\<lambda>m. bytes_count m data = 1) [WINDOW_MARK, ARMED_MARK, DEFAULT_MARK, ''WATCHDOG-LEANOS-LOAD''] \<and>
          find_pos WINDOW_MARK data < find_pos ARMED_MARK data \<and> find_pos ARMED_MARK data < int a \<and> a < b \<and>
          int b \<le> find_pos expected data \<and>
          find_pos expected data + int (length expected) \<le> find_pos DEFAULT_MARK data \<and>
          list_all (\<lambda>m. \<not> bytes_in m data) [''WATCHDOG-LOAD-FAILED'', ''WATCHDOG-STOP-FAILED'',
            ''WATCHDOG-NO-RESET'', ''KERNEL-HANG'', ''WATCHDOG-KERNEL-LOAD''])"

definition classify_protected ::
  "event list \<Rightarrow> bytes \<Rightarrow> bytes \<Rightarrow> bytes \<Rightarrow> bool \<Rightarrow> rat \<times> rat \<Rightarrow> run_result res" where
  "classify_protected events digest expected boot_record structured_terminal quiet_range =
     bind (classify_run events expected boot_record structured_terminal) (\<lambda>result.
     raise_if (\<not> (length digest = 64 \<and> list_all is_hex digest)) ''invalid protected image digest''
     (raise_if (\<not> watchdog_order digest expected (log_bytes events))
       ''missing, repeated, or failed normal watchdog launch/recovery''
     (raise_if (\<not> (fst quiet_range \<le> rr_quiet result \<and> rr_quiet result \<le> snd quiet_range))
       ''protected completion outside its observation interval''
     (Inr (result\<lparr>rr_protected := True\<rparr>)))))"

subsection \<open>The diagnostic stream\<close>

definition cpu_diagnostic_bytes ::
  "event list \<Rightarrow> protocol \<Rightarrow> bool \<Rightarrow> bytes option \<Rightarrow> (bytes \<times> bytes) res" where
  \<comment> \<open>the expected trace and the diagnostic stream in it\<close>
  "cpu_diagnostic_bytes events P handoff marker =
     (let data = log_bytes events in
      raise_if (bytes_count MODE_LINE data \<noteq> 1) ''missing or repeated recovery mode record''
      (bind (some_or ''mode'' (bytes_find MODE_LINE data)) (\<lambda>mode.
       let start = mode + length MODE_LINE in
       bind (if handoff then bind (parse_prefix (drop start data)) (\<lambda>(consumed, _, _). Inr consumed) else Inr 0)
         (\<lambda>consumed.
       let first = start + consumed in
       raise_if (\<not> startswith (drop first data) (pr_boot P)) ''CPU diagnostic must immediately follow recovery mode''
       (case find_from (case marker of None \<Rightarrow> pr_final P | Some t \<Rightarrow> t) data first of
          None \<Rightarrow> raise ''missing CPU diagnostic terminal''
        | Some final \<Rightarrow>
            (case find_from NL data final of
               None \<Rightarrow> raise ''missing CPU diagnostic terminal''
             | Some stop \<Rightarrow>
                 (let raw = slice first (stop + 1) data in
                  Inr (MODE_LINE @ slice start first data @ raw, raw))))))))"

section \<open>Properties\<close>

lemma log_bytes_simps [simp]:
  "log_bytes [] = []" "log_bytes (e # es) = ev_data e @ log_bytes es" "log_bytes (es @ fs) = log_bytes es @ log_bytes fs"
  by (simp_all add: log_bytes_def)

lemma quiet_scan_settled:
  "stop \<le> offset \<Longrightarrow> quiet_scan stop es offset t (Some n) = Inr (t, Some n)"
  by (induction es arbitrary: offset) (simp_all add: Let_def)

lemma quiet_scan_after:
  "stop \<le> offset \<Longrightarrow> quiet_scan stop es offset t None =
     Inr (t, case es of [] \<Rightarrow> None | e # _ \<Rightarrow> Some (log_time e))"
  by (cases es) (simp_all add: Let_def quiet_scan_settled)

text \<open>The terminal bytes end an event, and the next event is the one after it.\<close>

lemma quiet_scan_sound:
  assumes "quiet_scan stop es offset None None = Inr (Some t, Some n)" "offset < stop"
  shows "\<exists>b e f c. es = b @ e # f # c \<and> offset + length (log_bytes (b @ [e])) = stop \<and>
    ev_data e \<noteq> [] \<and> t = log_time e \<and> n = log_time f"
  using assms
proof (induction es arbitrary: offset)
  case (Cons e es)
  show ?case
  proof (cases "stop \<le> offset + length (ev_data e)")
    case True
    with Cons.prems have eq: "offset + length (ev_data e) = stop"
      and rest: "quiet_scan stop es stop (Some (log_time e)) None = Inr (Some t, Some n)"
      by (auto simp: Let_def res_simps)
    from rest quiet_scan_after [of stop stop es "Some (log_time e)"] obtain f c where "es = f # c"
      "t = log_time e" "n = log_time f" by (cases es) auto
    then show ?thesis using eq Cons.prems(2) by (intro exI [of _ "[]"] exI [of _ e] exI [of _ f] exI [of _ c]) auto
  next
    case False
    with Cons.prems have "quiet_scan stop es (offset + length (ev_data e)) None None = Inr (Some t, Some n)"
      by (simp add: Let_def)
    from Cons.IH [OF this] False obtain b e' f c where
      "es = b @ e' # f # c" "offset + length (ev_data e) + length (log_bytes (b @ [e'])) = stop"
      "ev_data e' \<noteq> []" "t = log_time e'" "n = log_time f" by auto
    then show ?thesis by (intro exI [of _ "e # b"] exI [of _ e'] exI [of _ f] exI [of _ c]) simp
  qed
qed simp

lemma classify_run_inv:
  assumes "classify_run events expected boot_record st = Inr r"
  obtains start t n where "\<not> list_ex bad_timestamp events" "\<not> nonmonotonic events"
    "bytes_find expected (log_bytes events) = Some start"
    "bytes_count boot_record (log_bytes events) = 1" "count_finals (log_bytes events) = (if st then 1 else 0)"
    "\<not> bytes_in ''LEANOS/'' (take start (log_bytes events))"
    "find_from CHAIN_MARK (log_bytes events) (start + length expected) \<noteq> None"
    "quiet_scan (start + length expected) events 0 None None = Inr (Some t, Some n)"
    "rr_quiet r = n - t" "10 \<le> n - t"
    "\<not> bytes_in ''LEANOS/'' (drop (start + length expected) (log_bytes events))"
proof -
  let ?data = "log_bytes events"
  from assms obtain start t n where
    "\<not> list_ex bad_timestamp events" "\<not> nonmonotonic events" "bytes_find expected ?data = Some start"
    "\<not> (\<not> bytes_in expected ?data \<or> bytes_count boot_record ?data \<noteq> 1 \<or> count_finals ?data \<noteq> (if st then 1 else 0))"
    "\<not> bytes_in ''LEANOS/'' (take start ?data)" "find_from CHAIN_MARK ?data (start + length expected) \<noteq> None"
    "quiet_scan (start + length expected) events 0 None None = Inr (t, n)"
    and c: "(case t of None \<Rightarrow> raise ''insufficient post-terminal quiet interval''
      | Some t \<Rightarrow> case n of None \<Rightarrow> raise ''insufficient post-terminal quiet interval''
      | Some n \<Rightarrow> raise_if (n - t < 10) ''insufficient post-terminal quiet interval''
        (raise_if (bytes_in ''LEANOS/'' (drop (start + length expected) ?data) \<or>
            bytes_in ''LEANOS-LAB/1 SELECT leanos'' (drop (start + length expected) ?data))
          ''unexpected kernel output during recovery''
        (Inr \<lparr>rr_scenario = ''expected-dma-identity-rejection'', rr_quiet = n - t,
           rr_sha256 = sha256_hex ?data, rr_protected = False\<rparr>))) = Inr r"
    unfolding classify_run_def Let_def by (elim res_elims) (rule that, (assumption | force)+)
  with that show ?thesis by (cases t; cases n) (auto simp: res_simps)
qed

text \<open>
  C10 (safety). A run is classified only when its log splits at an event boundary right after the
  expected trace: the trace is the last thing before a pause of at least ten seconds, no kernel output
  precedes or follows it, and the recovery chain marker comes after it.
\<close>

theorem run_quiet_boundary:
  assumes "classify_run events expected boot_record structured_terminal = Inr r" "expected \<noteq> []"
  shows "\<exists>before e f after pre. events = before @ e # f # after \<and>
    log_bytes (before @ [e]) = pre @ expected \<and> \<not> bytes_in ''LEANOS/'' pre \<and>
    \<not> bytes_in ''LEANOS/'' (log_bytes (f # after)) \<and> bytes_in CHAIN_MARK (log_bytes (f # after)) \<and>
    rr_quiet r = log_time f - log_time e \<and> 10 \<le> rr_quiet r"
  using assms(1)
proof (rule classify_run_inv)
  fix start t n
  let ?data = "log_bytes events" and ?stop = "start + length expected"
  assume f: "bytes_find expected ?data = Some start" and pre: "\<not> bytes_in ''LEANOS/'' (take start ?data)"
    and q: "quiet_scan ?stop events 0 None None = Inr (Some t, Some n)"
    and r: "rr_quiet r = n - t" "10 \<le> n - t"
    and chain: "find_from CHAIN_MARK ?data ?stop \<noteq> None" and post: "\<not> bytes_in ''LEANOS/'' (drop ?stop ?data)"
  from quiet_scan_sound [OF q] assms(2) obtain b e f c where s: "events = b @ e # f # c"
    "length (log_bytes (b @ [e])) = ?stop" "t = log_time e" "n = log_time f" by auto
  have data: "?data = log_bytes (b @ [e]) @ log_bytes (f # c)" using s(1) by simp
  have "startswith (drop start ?data) expected" "start \<le> length ?data"
    using bytes_find_Some [OF f] by auto
  then have "take ?stop ?data = take start ?data @ expected"
    by (metis startswith_iff append_eq_conv_conj take_add)
  moreover have "take ?stop ?data = log_bytes (b @ [e])" "drop ?stop ?data = log_bytes (f # c)"
    using data s(2) by simp_all
  moreover have "bytes_in CHAIN_MARK (drop ?stop ?data)" using chain by (simp add: find_from_def)
  ultimately show ?thesis using s r pre post
    by (intro exI [of _ b] exI [of _ e] exI [of _ f] exI [of _ c] exI [of _ "take start ?data"]) simp
qed

lemma case_raise_elim:
  "(case v of None \<Rightarrow> raise msg | Some x \<Rightarrow> f x) = Inr y \<Longrightarrow> (\<And>x. v = Some x \<Longrightarrow> f x = Inr y \<Longrightarrow> Q) \<Longrightarrow> Q"
  by (cases v) (simp_all add: res_simps)

lemma cpu_diagnostic_bytes_inv:
  assumes "cpu_diagnostic_bytes events P handoff marker = Inr (expected, raw)"
  obtains mode consumed final stop where
    "bytes_find MODE_LINE (log_bytes events) = Some mode" "bytes_count MODE_LINE (log_bytes events) = 1"
    "startswith (drop (mode + length MODE_LINE + consumed) (log_bytes events)) (pr_boot P)"
    "handoff \<longrightarrow> (\<exists>body h. parse_prefix (drop (mode + length MODE_LINE) (log_bytes events)) = Inr (consumed, body, h))"
    "\<not> handoff \<longrightarrow> consumed = 0"
    "find_from (case marker of None \<Rightarrow> pr_final P | Some t \<Rightarrow> t) (log_bytes events) (mode + length MODE_LINE + consumed) = Some final"
    "find_from NL (log_bytes events) final = Some stop"
    "raw = slice (mode + length MODE_LINE + consumed) (stop + 1) (log_bytes events)"
    "expected = MODE_LINE @ slice (mode + length MODE_LINE) (mode + length MODE_LINE + consumed) (log_bytes events) @ raw"
proof -
  let ?data = "log_bytes events"
  from assms obtain mode consumed where m: "\<not> bytes_count MODE_LINE ?data \<noteq> 1" "bytes_find MODE_LINE ?data = Some mode"
    and h: "(if handoff then bind (parse_prefix (drop (mode + length MODE_LINE) ?data)) (\<lambda>(consumed, _, _). Inr consumed)
      else Inr 0) = Inr consumed"
    and b: "\<not> \<not> startswith (drop (mode + length MODE_LINE + consumed) ?data) (pr_boot P)"
    and rest: "(case find_from (case marker of None \<Rightarrow> pr_final P | Some t \<Rightarrow> t) ?data (mode + length MODE_LINE + consumed) of
        None \<Rightarrow> raise ''missing CPU diagnostic terminal''
      | Some final \<Rightarrow> (case find_from NL ?data final of None \<Rightarrow> raise ''missing CPU diagnostic terminal''
        | Some stop \<Rightarrow> Inr (MODE_LINE @ slice (mode + length MODE_LINE) (mode + length MODE_LINE + consumed) ?data @
            slice (mode + length MODE_LINE + consumed) (stop + 1) ?data,
            slice (mode + length MODE_LINE + consumed) (stop + 1) ?data))) = Inr (expected, raw)"
    unfolding cpu_diagnostic_bytes_def Let_def by (elim res_elims) blast
  from rest obtain final stop where f:
    "find_from (case marker of None \<Rightarrow> pr_final P | Some t \<Rightarrow> t) ?data (mode + length MODE_LINE + consumed) = Some final"
    "find_from NL ?data final = Some stop"
    "raw = slice (mode + length MODE_LINE + consumed) (stop + 1) ?data"
    "expected = MODE_LINE @ slice (mode + length MODE_LINE) (mode + length MODE_LINE + consumed) ?data @ raw"
    by (elim case_raise_elim) auto
  show ?thesis
    by (rule that [OF m(2) _ _ _ _ f]) (use m b h in \<open>auto simp: res_simps split: if_splits prod.splits\<close>)
qed

lemma slice_append: "a \<le> b \<Longrightarrow> b \<le> c \<Longrightarrow> slice a b s @ slice b c s = slice a c s"
proof -
  assume "a \<le> b" "b \<le> c"
  then have "c - a = (b - a) + (c - b)" "drop b s = drop (b - a) (drop a s)" by simp_all
  then show ?thesis unfolding slice_def by (simp add: take_add)
qed

lemma slice_rest: "a \<le> b \<Longrightarrow> slice a b s @ drop b s = drop a s"
  unfolding slice_def by (metis append_take_drop_id drop_drop le_add_diff_inverse2)

lemma find_from_Some: "find_from pat data start = Some i \<Longrightarrow> start \<le> i \<and> startswith (drop i data) pat"
  using bytes_find_Some [of pat "drop start data"] by (auto simp: find_from_def add.commute)

text \<open>
  The diagnostic stream cut out of the log, with the mode line and the raw handoff in
  front of it, is a contiguous part of the log that begins at the only mode line; the stream begins
  with the boot identity and ends with a line feed.
\<close>

theorem diagnostic_stream_contiguous:
  assumes "cpu_diagnostic_bytes events P handoff marker = Inr (expected, raw)"
  shows "(\<exists>before after. log_bytes events = before @ expected @ after \<and> startswith (raw @ after) (pr_boot P)) \<and>
    startswith expected MODE_LINE \<and> endswith expected raw \<and> endswith raw NL"
  using assms
proof (rule cpu_diagnostic_bytes_inv)
  fix mode consumed final stop
  let ?data = "log_bytes events"
  let ?a = "mode + length MODE_LINE" and ?b = "mode + length MODE_LINE + consumed"
  assume m: "bytes_find MODE_LINE ?data = Some mode" and boot: "startswith (drop ?b ?data) (pr_boot P)"
    and f: "find_from (case marker of None \<Rightarrow> pr_final P | Some t \<Rightarrow> t) ?data ?b = Some final"
      "find_from NL ?data final = Some stop"
    and raw: "raw = slice ?b (stop + 1) ?data" and e: "expected = MODE_LINE @ slice ?a ?b ?data @ raw"
  have le: "?b \<le> final" "final \<le> stop" using find_from_Some [OF f(1)] find_from_Some [OF f(2)] by auto
  then have "slice ?a ?b ?data @ raw = slice ?a (stop + 1) ?data" unfolding raw by (intro slice_append) auto
  moreover have "drop mode ?data = MODE_LINE @ drop ?a ?data"
    using bytes_find_Some [OF m] by (metis startswith_drop drop_drop add.commute)
  moreover have "slice ?a (stop + 1) ?data @ drop (stop + 1) ?data = drop ?a ?data"
    using le by (intro slice_rest) simp
  ultimately have "?data = take mode ?data @ expected @ drop (stop + 1) ?data"
    unfolding e by (metis append.assoc append_take_drop_id)
  moreover have "startswith (drop stop ?data) NL" using find_from_Some [OF f(2)] by simp
  then obtain u where u: "drop stop ?data = LF # u" by (auto simp: startswith_iff)
  then have "raw = slice ?b stop ?data @ NL"
    unfolding raw using le slice_append [of ?b stop "stop + 1" ?data] by (simp add: slice_def)
  then have "endswith raw NL" by simp
  moreover have "raw @ drop (stop + 1) ?data = drop ?b ?data"
    unfolding raw using le slice_rest [of ?b "stop + 1" ?data] by simp
  ultimately have "log_bytes events = take mode ?data @ expected @ drop (stop + 1) ?data \<and>
      startswith (raw @ drop (stop + 1) ?data) (pr_boot P)" "endswith raw NL" using boot by simp_all
  moreover have "startswith expected MODE_LINE" "endswith expected raw"
    unfolding e by (simp_all add: endswith_iff)
  ultimately show ?thesis by blast
qed

text \<open>
  C11 (safety). A protected run is accepted only when the log shows the watchdog armed before the image
  with the given digest was loaded, the expected trace after the load, the default boot after the trace,
  each watchdog mark exactly once and no failure mark at all, and the pause after the trace lies in the
  observation interval.
\<close>

theorem protected_run_order:
  assumes "classify_protected events digest expected boot_record st quiet_range = Inr r"
  shows "let data = log_bytes events in \<exists>a b. find_load digest data 0 = Some (a, b) \<and> a < b \<and>
    find_pos WINDOW_MARK data < find_pos ARMED_MARK data \<and> find_pos ARMED_MARK data < int a \<and>
    int b \<le> find_pos expected data \<and>
    find_pos expected data + int (length expected) \<le> find_pos DEFAULT_MARK data \<and>
    (\<forall>m\<in>{WINDOW_MARK, ARMED_MARK, DEFAULT_MARK, ''WATCHDOG-LEANOS-LOAD''}. bytes_count m data = 1) \<and>
    \<not> bytes_in ''KERNEL-HANG'' data \<and> \<not> bytes_in ''WATCHDOG-NO-RESET'' data \<and>
    length digest = 64 \<and> list_all is_hex digest \<and>
    fst quiet_range \<le> rr_quiet r \<and> rr_quiet r \<le> snd quiet_range \<and> 10 \<le> rr_quiet r \<and> rr_protected r"
proof -
  from assms obtain r0 where c: "classify_run events expected boot_record st = Inr r0"
    and d: "length digest = 64" "list_all is_hex digest" and w: "watchdog_order digest expected (log_bytes events)"
    and q: "fst quiet_range \<le> rr_quiet r0" "rr_quiet r0 \<le> snd quiet_range" and r: "r = r0\<lparr>rr_protected := True\<rparr>"
    unfolding classify_protected_def by (auto simp: res_simps)
  have "10 \<le> rr_quiet r0" using c by (rule classify_run_inv) simp
  with d w q r show ?thesis
    unfolding watchdog_order_def Let_def by (auto split: option.splits)
qed

end
