(* ===== verification/Diagnostics.thy ===== *)
theory Diagnostics
  imports Decoder Csv Py_Struct
begin

text \<open>
  The strict replays \<^verbatim>\<open>scripts/check-j1900-diagnostic.py\<close> and
  \<^verbatim>\<open>scripts/check-qotom-pci-diagnostic.py\<close>: the protocol identities they load, the CPU and
  MSR records, the PCI scan and the native inventory.  The generated replay executables are not
  part of the repository's sources; an executable is a parameter, a function from the argument
  list to the text it prints or the error of the call.
\<close>

unbundle bit_operations_syntax

type_synonym executable = "bytes list \<Rightarrow> bytes res"

subsection \<open>Text\<close>

definition chomp :: "bytes \<Rightarrow> bytes" where
  "chomp line = takeWhile (\<lambda>c. c \<noteq> LF \<and> c \<noteq> CR) line"

definition text_lines :: "bytes \<Rightarrow> bytes list" where
  \<comment> \<open>\<^verbatim>\<open>splitlines()\<close> of a text whose only control characters are tabs, line feeds and
    carriage returns\<close>
  "text_lines s = map chomp (splitlines s)"

definition printable :: "bytes \<Rightarrow> bool" where
  "printable raw \<longleftrightarrow>
     list_all (\<lambda>c. c = LF \<or> (32 \<le> (of_char c :: nat) \<and> (of_char c :: nat) \<le> 126)) raw"

definition join_lines :: "bytes list \<Rightarrow> bytes" where
  \<comment> \<open>\<^verbatim>\<open>'\n'.join(lines) + '\n'\<close> of a nonempty list\<close>
  "join_lines ls = concat (map (\<lambda>l. l @ NL) ls)"

function replace_all :: "bytes \<Rightarrow> bytes \<Rightarrow> bytes \<Rightarrow> bytes" where
  \<comment> \<open>\<^verbatim>\<open>s.replace(old, new)\<close> of a nonempty pattern\<close>
  "replace_all old new s =
     (case s of [] \<Rightarrow> []
      | c # cs \<Rightarrow> if old \<noteq> [] \<and> startswith s old then new @ replace_all old new (drop (length old) s)
                 else c # replace_all old new cs)"
  by pat_completeness auto
termination
  by (relation "measure (\<lambda>(old, new, s). length s)") auto

declare replace_all.simps [simp del]

subsection \<open>Protocol identities\<close>

definition identity_key ::
  "(bytes \<times> bytes) list \<Rightarrow> (bytes \<times> bytes) list \<Rightarrow> bytes \<Rightarrow> (bytes \<times> bytes) option" where
  \<comment> \<open>the key and the text of a line that names a wanted identity\<close>
  "identity_key wanted qualified line =
     (let fields = split_on CHR 0x09 line;
          identity = (fields ! 1, fields ! 2) in
      if length fields = 5 \<and> fields ! 0 = ''record'' \<and> identity \<in> set wanted \<union> set qualified
      then Some (if identity \<in> set qualified then fst identity @ ''/'' @ snd identity else fields ! 2,
                 fields ! 4)
      else None)"

fun load_identities ::
  "(bytes \<Rightarrow> (bytes \<times> bytes) option) \<Rightarrow> bytes list \<Rightarrow> (bytes \<times> bytes) list \<Rightarrow> (bytes \<times> bytes) list res" where
  "load_identities key [] found = Inr found"
| "load_identities key (line # rest) found =
     (case key line of None \<Rightarrow> load_identities key rest found
      | Some (k, v) \<Rightarrow>
          diag_if (k \<in> set (map fst found)) ''duplicate protocol identity''
            (load_identities key rest (found @ [(k, v)])))"

definition CPU_IDENTITIES :: "(bytes \<times> bytes) list" where
  "CPU_IDENTITIES = [(''24'', ''BOOT''), (''24'', ''CPU''), (''24'', ''CONTROL''), (''3'', ''FINAL'')]"

definition load_cpu_protocol :: "bytes \<Rightarrow> (bytes \<times> bytes) list res" where
  "load_cpu_protocol content =
     bind (load_identities (identity_key CPU_IDENTITIES []) (text_lines content) []) (\<lambda>found.
     diag_if (length found \<noteq> 4) ''missing protocol identity'' (Inr found))"

definition PCI_IDENTITIES :: "(bytes \<times> bytes) list" where
  "PCI_IDENTITIES = [(''25'', ''BOOT''), (''25'', ''CPU''), (''25'', ''CONTROL''), (''25'', ''PCI-SCAN''),
     (''25'', ''PCI-HEADER''), (''3'', ''FINAL''), (''16'', ''DIRECT-PORT-CONTROL''), (''17'', ''ENTRY-MANIFEST'')]"

definition QUALIFIED_IDENTITIES :: "(bytes \<times> bytes) list" where
  "QUALIFIED_IDENTITIES = [(''6'', ''COPY''), (''8'', ''PAGING''), (''9'', ''CAPREUSE''), (''10'', ''IPC''),
     (''10'', ''FINAL''), (''11'', ''USER-FAULT'')]"

definition load_protocol :: "bytes \<Rightarrow> (bytes \<times> bytes) list res" where
  "load_protocol content =
     bind (load_identities (identity_key PCI_IDENTITIES QUALIFIED_IDENTITIES) (text_lines content) [])
       (\<lambda>found.
     diag_if (length found \<noteq> length PCI_IDENTITIES + length QUALIFIED_IDENTITIES)
       ''missing protocol identity'' (Inr found))"

subsection \<open>CPU and MSR replay\<close>

definition MAX_CPU_CAPTURE :: nat where "MAX_CPU_CAPTURE = 4096"

definition replay_words :: "executable \<Rightarrow> bytes \<Rightarrow> int list \<Rightarrow> int res" where
  "replay_words run mode ws =
     bind (run (mode # map (decimal \<circ> nat) ws)) (\<lambda>out.
     diag_if (fullmatch [NUMBER, Lit NL] out = None) ''malformed native replay result'' (py_int out))"

definition words_pattern :: "bytes \<Rightarrow> nat \<Rightarrow> bytes \<Rightarrow> item list" where
  "words_pattern label count field =
     [Lit (label @ '' profile=j1900-cpu-v1 codec=1 width='' @ decimal count @ '' words=''),
      DecList (Some 19) (count - 1), Lit ('' '' @ field @ ''=''), DEC20]"

definition parse_words :: "bytes \<Rightarrow> bytes \<Rightarrow> nat \<Rightarrow> bytes \<Rightarrow> (int list \<times> int) res" where
  "parse_words line label count field =
     bind (some_or_diag (''malformed '' @ field @ '' record'') (fullmatch (words_pattern label count field) line)) (\<lambda>gs.
     unpack2 gs (\<lambda>text_words text_claim.
     bind (py_ints (split_on CHR '','' text_words)) (\<lambda>ws.
     diag_if (list_ex (\<lambda>w. (if count = 22 then 0xffffffff else 0xffffffffffffffff) < w) ws)
       ''word exceeds capture width''
     (bind (py_int text_claim) (\<lambda>claimed. Inr (ws, claimed))))))"

record diagnostic_result =
  dg_schema :: string
  dg_sha256 :: string
  dg_cpu_words :: "int list"
  dg_selection :: int
  dg_msr_words :: "int list option"
  dg_readback :: "int option"
  dg_reason :: bytes
  dg_claims :: "(string \<times> bool) list"

definition final_text :: "protocol \<Rightarrow> bytes \<Rightarrow> bytes" where
  "final_text P reason = pr_final P @ '' status=FAIL reason='' @ reason"

definition boot_text :: "protocol \<Rightarrow> bytes \<Rightarrow> bytes" where
  "boot_text P phase =
     pr_boot P @ '' target=qotom-j1900-candidate phase='' @ phase @ '' platform-admitted=0 cpl3=0''"

definition pending_reason :: "protocol \<Rightarrow> bool \<Rightarrow> bool \<Rightarrow> bytes \<Rightarrow> bytes" where
  \<comment> \<open>the terminal reason of an accepted CPU and MSR readback\<close>
  "pending_reason P ecam_failure bsp_failure closing =
     (if bsp_failure \<and> closing = final_text P ''qotom-native-bsp'' then ''qotom-native-bsp''
      else if ecam_failure \<and> closing = final_text P ''qotom-ecam-transaction'' then ''qotom-ecam-transaction''
      else if ecam_failure \<and> closing = final_text P ''qotom-ecam-arm'' then ''qotom-ecam-arm''
      else PENDING)"

definition classify_control ::
  "executable \<Rightarrow> protocol \<Rightarrow> bool \<Rightarrow> bool \<Rightarrow> bytes list \<Rightarrow> (int list option \<times> int option \<times> bytes) res" where
  \<comment> \<open>the branch of an accepted CPU\<close>
  "classify_control run P ecam_failure bsp_failure lines =
     diag_if (length lines \<noteq> 4) ''accepted CPU lacks control readback''
     (bind (parse_words (lines ! 2) (pr_control P) 8 ''readback'') (\<lambda>(msrs, claimed).
      bind (replay_words run ''msr'' msrs) (\<lambda>readback.
      diag_if (readback \<notin> {0, 1}) ''unknown generated MSR result''
      (diag_if (claimed \<noteq> readback) ''MSR result disagrees with generated replay''
      (Inr (Some msrs, Some readback,
        if readback = 1 then pending_reason P ecam_failure bsp_failure (last lines)
        else ''j1900-msr-readback''))))))"

definition classify_cpu ::
  "executable \<Rightarrow> protocol \<Rightarrow> bool \<Rightarrow> bool \<Rightarrow> bytes \<Rightarrow> diagnostic_result res" where
  "classify_cpu run P ecam_failure bsp_failure raw =
     diag_if (raw = [] \<or> MAX_CPU_CAPTURE < length raw \<or> \<not> endswith raw NL) ''capture length or terminator''
     (diag_if (\<not> printable raw) ''capture contains non-text bytes''
     (let lines = text_lines raw in
      diag_if (length lines \<notin> {3, 4}) ''record count''
      (diag_if (lines ! 0 \<noteq> boot_text P ''cpu-diagnostic'') ''boot identity or admission claim''
      (bind (parse_words (lines ! 1) (pr_cpu P) 22 ''selection'') (\<lambda>(cpu, claimed).
       bind (replay_words run ''cpu'' cpu) (\<lambda>selected.
       diag_if (\<not> (1 \<le> selected \<and> selected \<le> 12 \<or> selected = 65536)) ''unknown generated CPU result''
       (diag_if (claimed \<noteq> selected) ''CPU result disagrees with generated replay''
       (bind (if selected \<noteq> 65536 then
                diag_if (length lines \<noteq> 3) ''control readback follows rejected CPU''
                  (Inr (None, None, ''j1900-cpu-profile''))
              else classify_control run P ecam_failure bsp_failure lines) (\<lambda>(msrs, readback, reason).
       diag_if (last lines \<noteq> final_text P reason) ''terminal result disagrees with replay''
       (Inr \<lparr>dg_schema = ''leanos-j1900-diagnostic-replay-v1'', dg_sha256 = sha256_hex raw,
          dg_cpu_words = cpu, dg_selection = selected, dg_msr_words = msrs, dg_readback = readback,
          dg_reason = reason,
          dg_claims = [(''platform_admitted'', False), (''cpl3_authorized'', False)]\<rparr>))))))))))"

subsection \<open>PCI scan replay\<close>

definition MAX_PCI_CAPTURE :: nat where "MAX_PCI_CAPTURE = 16384"

definition INVENTORY_RESULTS :: "int list" where
  "INVENTORY_RESULTS =
     [1, 0x10000, 0x10001] @
     concat (map (\<lambda>reason. map (\<lambda>index. 0x20000 + reason * 256 + index) [0..14]) [0..4]) @
     concat (map (\<lambda>base. map (\<lambda>index. base + index) [0..14]) [0x30000, 0x40000, 0x50000, 0x60000])"

definition NATIVE_RESULTS :: "int list" where
  \<comment> \<open>what the native profile allows in addition\<close>
  "NATIVE_RESULTS =
     map (\<lambda>reason. 0x20000 + reason * 256 + 15) [0..4] @
     map (\<lambda>base. base + 15) [0x30000, 0x40000, 0x50000, 0x60000]"

record kernel_inventory =
  ki_status :: int
  ki_index :: int
  ki_count :: int

record pci_scan =
  sc_status :: int
  sc_count :: int
  sc_bus :: int
  sc_device :: int
  sc_function :: int
  sc_offset :: int

record pci_diagnostic_result = diagnostic_result +
  pd_scan :: "pci_scan option"
  pd_headers :: "int list list"
  pd_inventory :: "int option"
  pd_profile :: "string option"
  pd_kernel_inventory :: "kernel_inventory option"

definition NATIVE_PCI :: bytes where "NATIVE_PCI = ''LEANOS-LAB/1 NATIVE-PCI ''"

definition native_pci_pattern :: "item list" where
  "native_pci_pattern =
     [Lit (NATIVE_PCI @ ''profile=qotom-native-ecam-v1 status=''), OneOf ''034'', Lit '' index='', DEC20,
      Lit '' count='', DEC20]"

definition take_kernel_inventory ::
  "bool \<Rightarrow> bytes list \<Rightarrow> (bytes list \<times> kernel_inventory option) res" where
  \<comment> \<open>the record before the terminal line, removed from the lines\<close>
  "take_kernel_inventory native_kernel lines =
     (if native_kernel \<and> 2 \<le> length lines \<and> startswith (lines ! (length lines - 2)) NATIVE_PCI then
        bind (some_or_diag ''malformed kernel native inventory record''
          (fullmatch native_pci_pattern (lines ! (length lines - 2)))) (\<lambda>gs.
        bind (py_ints gs) (\<lambda>vs.
        unpack3 vs (\<lambda>status index count.
        Inr (take (length lines - 2) lines @ [last lines],
             Some \<lparr>ki_status = status, ki_index = index, ki_count = count\<rparr>))))
      else Inr (lines, None))"

definition scan_pattern :: "protocol \<Rightarrow> item list" where
  "scan_pattern P =
     [Lit (pr_pci_scan P @ '' codec=1 status=''), DEC20, Lit '' count='', DEC20, Lit '' bus='', DEC20,
      Lit '' device='', DEC20, Lit '' function='', DEC20, Lit '' offset='', DEC20]"

definition parse_scan :: "protocol \<Rightarrow> bytes \<Rightarrow> pci_scan res" where
  "parse_scan P line =
     bind (some_or_diag ''malformed PCI scan'' (fullmatch (scan_pattern P) line)) (\<lambda>gs.
     bind (py_ints gs) (\<lambda>vs.
     unpack6 vs (\<lambda>status count bus device function off.
     diag_if (3 < status \<or> 16 < count \<or> 255 < bus \<or> 31 < device \<or> 7 < function \<or> 60 < off \<or> off mod 4 \<noteq> 0)
       ''PCI scan width or alignment''
     (Inr \<lparr>sc_status = status, sc_count = count, sc_bus = bus, sc_device = device,
        sc_function = function, sc_offset = off\<rparr>))))"

definition failed_scan :: "pci_scan \<Rightarrow> nat \<Rightarrow> bytes res" where
  "failed_scan scan n =
     diag_if (sc_count scan \<noteq> 0 \<or> n \<noteq> 5) ''failed scan publishes headers''
     (diag_if (sc_status scan = 2 \<and> sc_offset scan \<noteq> 0) ''capacity failure offset''
     (diag_if (sc_status scan = 3 \<and> (sc_count scan \<noteq> 0 \<or> sc_bus scan \<noteq> 0 \<or> sc_device scan \<noteq> 0 \<or>
         sc_function scan \<noteq> 0 \<or> sc_offset scan \<noteq> 0)) ''invalid argument failure location''
     (Inr ''qotom-pci-enumeration'')))"

definition pci_header_pattern :: "protocol \<Rightarrow> nat \<Rightarrow> item list" where
  "pci_header_pattern P index =
     [Lit (pr_pci_header P @ '' codec=1 index='' @ decimal index @ '' width=19 words=''), DecList (Some 19) 18]"

definition address_le :: "int list \<Rightarrow> int list \<Rightarrow> bool" where
  \<comment> \<open>\<^verbatim>\<open>tuple(a[:3]) <= tuple(b[:3])\<close>\<close>
  "address_le a b \<longleftrightarrow> a ! 0 < b ! 0 \<or> a ! 0 = b ! 0 \<and> (a ! 1 < b ! 1 \<or> a ! 1 = b ! 1 \<and> a ! 2 \<le> b ! 2)"

fun read_headers :: "protocol \<Rightarrow> bytes list \<Rightarrow> nat \<Rightarrow> int list list \<Rightarrow> int list list res" where
  "read_headers P [] index headers = Inr headers"
| "read_headers P (line # rest) index headers =
     bind (some_or_diag ''malformed or unordered PCI header'' (fullmatch (pci_header_pattern P index) line)) (\<lambda>gs.
     bind (py_ints (split_on CHR '','' (concat gs))) (\<lambda>ws.
     diag_if (list_ex (\<lambda>(w, limit). limit < w) (zip ws ([255, 31, 7] @ replicate 16 0xffffffff)))
       ''PCI header word width''
     (diag_if (headers \<noteq> [] \<and> address_le ws (last headers)) ''PCI addresses not strictly increasing''
     (diag_if (ws ! 3 AND 0xffff = 0xffff) ''absent function published''
     (read_headers P rest (Suc index) (headers @ [ws]))))))"

definition expected_kernel :: "int \<Rightarrow> nat \<Rightarrow> kernel_inventory" where
  "expected_kernel inventory n =
     (let status = (if inventory = 1 then 0 else if inventory = 0x10000 then 3 else 4) in
      \<lparr>ki_status = status, ki_index = (if status = 4 then inventory AND 0xff else 0), ki_count = int n\<rparr>)"

definition successful_scan ::
  "executable \<Rightarrow> protocol \<Rightarrow> bool \<Rightarrow> bool \<Rightarrow> kernel_inventory option \<Rightarrow> pci_scan \<Rightarrow> bytes list \<Rightarrow>
   (int list list \<times> int \<times> bytes) res" where
  "successful_scan pci_run P native_inventory native_kernel kinv scan lines =
     diag_if (sc_bus scan \<noteq> 0 \<or> sc_device scan \<noteq> 0 \<or> sc_function scan \<noteq> 0 \<or> sc_offset scan \<noteq> 0 \<or>
         int (length lines) \<noteq> 5 + sc_count scan) ''successful scan location or count''
     (bind (read_headers P (butlast (drop 4 lines)) 0 []) (\<lambda>headers.
      bind (replay_words pci_run ''inventory'' (int (length headers) # concat headers)) (\<lambda>inventory.
      diag_if (inventory = 1 \<and> length headers \<noteq> (if native_inventory then 16 else 15))
        ''inventory success disagrees with selected profile count''
      (diag_if (inventory \<notin> set INVENTORY_RESULTS \<union> (if native_inventory then set NATIVE_RESULTS else {}))
        ''unknown generated inventory result''
      (if native_kernel then
         diag_if (kinv \<noteq> Some (expected_kernel inventory (length headers)))
           ''kernel native inventory disagrees with generated replay''
           (Inr (headers, inventory,
              if ki_status (expected_kernel inventory (length headers)) \<noteq> 0 then ''qotom-native-inventory''
              else PENDING))
       else Inr (headers, inventory, PENDING))))))"

definition cpu_projection :: "protocol \<Rightarrow> bytes list \<Rightarrow> bytes list" where
  \<comment> \<open>the CPU diagnostic inside a PCI capture\<close>
  "cpu_projection P lines =
     [replace_all ''phase=pci-inventory-diagnostic'' ''phase=cpu-diagnostic'' (lines ! 0), lines ! 1] @
     (if startswith (lines ! 2) (pr_control P @ '' '') then [lines ! 2] else []) @
     [if 4 < length lines \<and> startswith (lines ! 3) (pr_pci_scan P @ '' '') then final_text P PENDING
      else last lines]"

definition classify_scan ::
  "executable \<Rightarrow> protocol \<Rightarrow> bool \<Rightarrow> bool \<Rightarrow> kernel_inventory option \<Rightarrow> bytes list \<Rightarrow>
   (pci_scan \<times> int list list \<times> int option \<times> bytes) res" where
  "classify_scan pci_run P native_inventory native_kernel kinv lines =
     diag_if (\<not> (4 < length lines \<and> startswith (lines ! 3) (pr_pci_scan P @ '' '')))
       ''accepted CPU/MSR lacks PCI scan''
     (bind (parse_scan P (lines ! 3)) (\<lambda>scan.
      bind (if sc_status scan \<noteq> 0 then
              bind (failed_scan scan (length lines)) (\<lambda>reason. Inr ([], None, reason))
            else
              bind (successful_scan pci_run P native_inventory native_kernel kinv scan lines)
                (\<lambda>(headers, inventory, reason). Inr (headers, Some inventory, reason)))
        (\<lambda>(headers, inventory, reason).
      diag_if (last lines \<noteq> final_text P reason) ''terminal result disagrees with scan''
      (Inr (scan, headers, inventory, reason)))))"

definition classify_pci ::
  "executable \<Rightarrow> executable \<Rightarrow> protocol \<Rightarrow> bool \<Rightarrow> bool \<Rightarrow> bytes \<Rightarrow> pci_diagnostic_result res" where
  "classify_pci cpu_run pci_run P native_inventory native_kernel raw =
     diag_if (native_kernel \<and> \<not> native_inventory) ''kernel native inventory requires the native replay profile''
     (bind (if native_inventory then pci_run [] else Inr []) (\<lambda>out.
      diag_if (native_inventory \<and> out \<noteq> ''Hosted native Qotom inventory replay passed'' @ NL)
        ''native inventory replay identity mismatch''
      (diag_if (raw = [] \<or> MAX_PCI_CAPTURE < length raw \<or> \<not> endswith raw NL) ''capture length or terminator''
      (diag_if (\<not> printable raw) ''capture contains non-text bytes''
      (bind (take_kernel_inventory native_kernel (text_lines raw)) (\<lambda>(lines, kinv).
       diag_if (\<not> (3 \<le> length lines \<and> length lines \<le> 21)) ''record count''
       (diag_if (lines ! 0 \<noteq> boot_text P ''pci-inventory-diagnostic'') ''boot identity or admission claim''
       (bind (classify_cpu cpu_run P False False (join_lines (cpu_projection P lines))) (\<lambda>cpu.
        bind (if dg_reason cpu \<noteq> PENDING then
                diag_if (length lines \<noteq> length (cpu_projection P lines))
                  ''PCI records follow rejected CPU or MSR'' (Inr (None, [], None, dg_reason cpu))
              else
                bind (classify_scan pci_run P native_inventory native_kernel kinv lines)
                  (\<lambda>(scan, headers, inventory, reason). Inr (Some scan, headers, inventory, reason)))
          (\<lambda>(scan, headers, inventory, reason).
        diag_if (kinv \<noteq> None \<and> (case scan of None \<Rightarrow> True | Some s \<Rightarrow> sc_status s \<noteq> 0))
          ''kernel native inventory follows an incomplete scan''
        (Inr \<lparr>dg_schema = ''leanos-qotom-pci-diagnostic-replay-v1'', dg_sha256 = sha256_hex raw,
           dg_cpu_words = dg_cpu_words cpu, dg_selection = dg_selection cpu,
           dg_msr_words = dg_msr_words cpu, dg_readback = dg_readback cpu, dg_reason = reason,
           dg_claims = dg_claims cpu, pd_scan = scan, pd_headers = headers, pd_inventory = inventory,
           pd_profile = (if native_inventory then Some ''qotom-native-ecam-v1'' else None),
           pd_kernel_inventory = kinv\<rparr>)))))))))))"

section \<open>Properties\<close>

lemma some_or_diag_elim:
  "some_or_diag msg v = Inr z \<Longrightarrow> (v = Some z \<Longrightarrow> P) \<Longrightarrow> P"
  by (simp add: res_simps)

lemmas diag_elims = res_elims some_or_diag_elim

subsection \<open>Lines\<close>

lemma splitlines_all_complete:
  "CR \<notin> set s \<Longrightarrow> s = [] \<or> last s = LF \<Longrightarrow> l \<in> set (splitlines s) \<Longrightarrow> complete_line l"
proof (induction s arbitrary: l)
  case (Cons c cs)
  show ?case
  proof (cases "c = LF")
    case True
    with Cons.prems have "l = NL \<or> l \<in> set (splitlines cs)" "cs = [] \<or> last cs = LF" "CR \<notin> set cs"
      by (auto split: if_splits)
    with Cons.IH show ?thesis by (auto simp: complete_line_def)
  next
    case False
    with Cons.prems have cs: "cs \<noteq> []" "last cs = LF" "CR \<notin> set cs" "c \<noteq> CR" by (auto split: if_splits)
    then obtain m ms where m: "splitlines cs = m # ms" by (cases "splitlines cs") auto
    with cs Cons.IH have all: "\<forall>l\<in>set (m # ms). complete_line l" by auto
    then have "complete_line (c # m)" using False cs(4) by (auto simp: complete_line_def)
    with all False cs(4) m Cons.prems(3) show ?thesis by auto
  qed
qed simp

lemma chomp_complete: "complete_line l \<Longrightarrow> chomp l @ NL = l \<and> clean (chomp l)"
proof -
  assume l: "complete_line l"
  then have "l = butlast l @ NL" by (metis complete_line_def append_butlast_last_id)
  moreover have "chomp (butlast l @ NL) = butlast l"
    unfolding chomp_def using l by (subst takeWhile_append2) (auto simp: complete_line_def)
  ultimately show ?thesis using l by (metis complete_line_def clean_def)
qed

lemma printable_no_CR: "printable raw \<Longrightarrow> CR \<notin> set raw"
proof
  assume "printable raw" "CR \<in> set raw"
  then have "CR = LF \<or> (32 \<le> (of_char CR :: nat) \<and> (of_char CR :: nat) \<le> 126)"
    unfolding printable_def list_all_iff by blast
  then show False by simp
qed

lemma text_lines_join:
  assumes "printable raw" "endswith raw NL"
  shows "raw = join_lines (text_lines raw)"
proof -
  have "raw = [] \<or> last raw = LF" using assms(2) by (auto simp: endswith_iff)
  then have "\<forall>l\<in>set (splitlines raw). complete_line l"
    using splitlines_all_complete printable_no_CR [OF assms(1)] by blast
  then have "map (\<lambda>l. chomp l @ NL) (splitlines raw) = splitlines raw"
    by (intro map_idI) (simp add: chomp_complete)
  then have "join_lines (text_lines raw) = concat (splitlines raw)"
    by (simp add: join_lines_def text_lines_def comp_def)
  then show ?thesis by simp
qed

subsection \<open>Word records\<close>

definition words_text :: "bytes \<Rightarrow> nat \<Rightarrow> bytes \<Rightarrow> int list \<Rightarrow> int \<Rightarrow> bytes" where
  "words_text label count field ws claimed =
     label @ '' profile=j1900-cpu-v1 codec=1 width='' @ decimal count @ '' words='' @ csv (map nat ws) @
     '' '' @ field @ ''='' @ decimal (nat claimed)"

lemma parse_words_sound:
  assumes "parse_words line label count field = Inr (ws, claimed)" "0 < count"
  shows "line = words_text label count field ws claimed" "length ws = count" "0 \<le> claimed"
    "\<forall>w\<in>set ws. 0 \<le> w \<and> w \<le> (if count = 22 then 0xffffffff else 0xffffffffffffffff)"
proof -
  from assms(1) obtain t u where f: "fullmatch (words_pattern label count field) line = Some [t, u]"
    and ws: "py_ints (split_on CHR '','' t) = Inr ws" and c: "py_int u = Inr claimed"
    and small: "\<not> list_ex (\<lambda>w. (if count = 22 then 0xffffffff else 0xffffffffffffffff) < w) ws"
    unfolding parse_words_def by (elim diag_elims) auto
  from fullmatch_groups [OF f] have t: "list_text (dec_text (Some 19)) (count - 1) t"
    and u: "dec_text (Some 19) u" and line: "line = render (words_pattern label count field) [t, u]"
    by (simp_all add: words_pattern_def)
  from t obtain ns where ns: "length ns = Suc (count - 1)" "t = csv ns" "\<forall>w\<in>set ns. w < 10 ^ Suc 19"
    by (rule list_text_csv) simp
  from csv_values [OF ns(1,3)] ns(2) ws have ws': "ws = map int ns" by simp
  then have "map nat ws = ns" by (simp add: comp_def)
  moreover have "claimed = dec_value u" "u = decimal (nat claimed)"
    using py_int_dec_text [OF u] dec_text_value [OF u] c by simp_all
  ultimately show "line = words_text label count field ws claimed" "0 \<le> claimed"
    using line ns(2) py_int_dec_text [OF u] by (simp_all add: words_pattern_def words_text_def)
  show "length ws = count" using ws' ns(1) assms(2) by simp
  show "\<forall>w\<in>set ws. 0 \<le> w \<and> w \<le> (if count = 22 then 0xffffffff else 0xffffffffffffffff)"
    using small ws' by (auto simp: list_ex_iff not_less split: if_splits)
qed

lemma parse_words_complete:
  assumes "length ws = Suc k" "0 \<le> claimed" "claimed < 10 ^ 20"
    and "\<forall>w\<in>set ws. 0 \<le> w \<and> w \<le> (if k = 21 then 0xffffffff else 0xffffffffffffffff)"
  shows "parse_words (words_text label (Suc k) field ws claimed) label (Suc k) field = Inr (ws, claimed)"
proof -
  let ?line = "words_text label (Suc k) field ws claimed"
  let ?ns = "map nat ws"
  have n: "?ns \<noteq> []" "\<forall>n\<in>set ?ns. n < 10 ^ 20" "map int ?ns = ws"
    using assms by (auto simp: map_idI nat_less_iff split: if_splits)
  have t: "list_text (dec_text (Some 19)) k (csv ?ns)" using assms n by (intro csv_list_text) auto
  have "?line = render (words_pattern label (Suc k) field) [csv ?ns, decimal (nat claimed)]"
    by (simp add: words_pattern_def words_text_def)
  moreover have "fullmatch (words_pattern label (Suc k) field) (render (words_pattern label (Suc k) field) [csv ?ns, decimal (nat claimed)]) =
      Some [csv ?ns, decimal (nat claimed)]"
    using assms by (intro fullmatch_render) (simp_all add: words_pattern_def t dec_text_decimal nat_less_iff is_digit_def)
  moreover have "py_int (decimal (nat claimed)) = Inr claimed" using assms py_int_wide [of "nat claimed"] by (simp add: nat_less_iff)
  ultimately show ?thesis
    using assms n csv_values_wide [OF n(1,2)] by (auto simp: parse_words_def eval_simps diag_if_def list_ex_iff)
qed

subsection \<open>The CPU diagnostic\<close>

definition cpu_lines :: "protocol \<Rightarrow> diagnostic_result \<Rightarrow> bytes list" where
  \<comment> \<open>the records a result stands for\<close>
  "cpu_lines P r =
     [boot_text P ''cpu-diagnostic'', words_text (pr_cpu P) 22 ''selection'' (dg_cpu_words r) (dg_selection r)] @
     (case (dg_msr_words r, dg_readback r) of
        (Some ms, Some b) \<Rightarrow> [words_text (pr_control P) 8 ''readback'' ms b]
      | _ \<Rightarrow> []) @ [final_text P (dg_reason r)]"

definition replayed :: "executable \<Rightarrow> diagnostic_result \<Rightarrow> bool" where
  \<comment> \<open>every result agrees with the generated executable, and later ones follow accepted ones\<close>
  "replayed run r \<longleftrightarrow>
     replay_words run ''cpu'' (dg_cpu_words r) = Inr (dg_selection r) \<and>
     (if dg_selection r = 65536 then
        (\<exists>ms b. dg_msr_words r = Some ms \<and> dg_readback r = Some b \<and> replay_words run ''msr'' ms = Inr b \<and>
           (b = 0 \<and> dg_reason r = ''j1900-msr-readback'' \<or>
            b = 1 \<and> dg_reason r \<in> {PENDING, ''qotom-ecam-arm'', ''qotom-ecam-transaction'', ''qotom-native-bsp''}))
      else 1 \<le> dg_selection r \<and> dg_selection r \<le> 12 \<and> dg_msr_words r = None \<and> dg_readback r = None \<and>
        dg_reason r = ''j1900-cpu-profile'')"

lemma pending_reason_cases:
  "pending_reason P e b closing \<in> {PENDING, ''qotom-ecam-arm'', ''qotom-ecam-transaction'', ''qotom-native-bsp''}"
  "\<not> e \<Longrightarrow> \<not> b \<Longrightarrow> pending_reason P e b closing = PENDING"
  by (simp_all add: pending_reason_def)

lemma classify_control_sound:
  assumes "classify_control run P e b lines = Inr (msrs, readback, reason)"
  obtains ms v where "msrs = Some ms" "readback = Some v" "length lines = 4"
    "lines ! 2 = words_text (pr_control P) 8 ''readback'' ms v" "replay_words run ''msr'' ms = Inr v"
    "v = 0 \<and> reason = ''j1900-msr-readback'' \<or> v = 1 \<and> reason = pending_reason P e b (last lines)"
proof -
  from assms obtain ms c v where len: "length lines = 4"
    and p: "parse_words (lines ! 2) (pr_control P) 8 ''readback'' = Inr (ms, c)"
    and v: "replay_words run ''msr'' ms = Inr v" "v \<in> {0, 1}" "c = v"
    and r: "msrs = Some ms" "readback = Some v"
      "reason = (if v = 1 then pending_reason P e b (last lines) else ''j1900-msr-readback'')"
    unfolding classify_control_def by (elim diag_elims) auto
  show ?thesis
    by (rule that [of ms v]) (use len parse_words_sound(1) [OF p] v r in auto)
qed

lemma list3_cases: "length xs = 3 \<Longrightarrow> \<exists>a b c. xs = [a, b, c]"
  by (auto simp: numeral_3_eq_3 length_Suc_conv)

lemma list4_cases: "length xs = 4 \<Longrightarrow> \<exists>a b c d. xs = [a, b, c, d]"
  by (auto simp: numeral_eq_Suc length_Suc_conv)

lemma classify_cpu_inv:
  assumes "classify_cpu run P e b raw = Inr r"
  obtains "printable raw" "endswith raw NL" "length raw \<le> MAX_CPU_CAPTURE"
    "text_lines raw = cpu_lines P r" "replayed run r" "dg_sha256 r = sha256_hex raw"
    "dg_claims r = [(''platform_admitted'', False), (''cpl3_authorized'', False)]"
proof -
  let ?lines = "text_lines raw"
  from assms obtain cpu claimed selected msrs readback reason where
    raw: "printable raw" "endswith raw NL" "length raw \<le> MAX_CPU_CAPTURE"
    and len: "length ?lines \<in> {3, 4}" and boot: "?lines ! 0 = boot_text P ''cpu-diagnostic''"
    and p: "parse_words (?lines ! 1) (pr_cpu P) 22 ''selection'' = Inr (cpu, claimed)"
    and s: "replay_words run ''cpu'' cpu = Inr selected"
      "1 \<le> selected \<and> selected \<le> 12 \<or> selected = 65536" "claimed = selected"
    and br: "(if selected \<noteq> 65536 then
                diag_if (length ?lines \<noteq> 3) ''control readback follows rejected CPU''
                  (Inr (None, None, ''j1900-cpu-profile''))
              else classify_control run P e b ?lines) = Inr (msrs, readback, reason)"
    and fin: "last ?lines = final_text P reason"
    and r: "r = \<lparr>dg_schema = ''leanos-j1900-diagnostic-replay-v1'', dg_sha256 = sha256_hex raw,
          dg_cpu_words = cpu, dg_selection = selected, dg_msr_words = msrs, dg_readback = readback,
          dg_reason = reason,
          dg_claims = [(''platform_admitted'', False), (''cpl3_authorized'', False)]\<rparr>"
    unfolding classify_cpu_def Let_def by (elim diag_elims) auto
  note cpu = parse_words_sound(1) [OF p, simplified s(3)]
  have "?lines = cpu_lines P r \<and> replayed run r"
  proof (cases "selected = 65536")
    case False
    with br have "length ?lines = 3" "msrs = None" "readback = None" "reason = ''j1900-cpu-profile''"
      by (auto simp: res_simps)
    with list3_cases [of ?lines] boot cpu fin False s r show ?thesis
      by (auto simp: cpu_lines_def replayed_def)
  next
    case True
    with br obtain ms v where "msrs = Some ms" "readback = Some v" "length ?lines = 4"
      "?lines ! 2 = words_text (pr_control P) 8 ''readback'' ms v" "replay_words run ''msr'' ms = Inr v"
      "v = 0 \<and> reason = ''j1900-msr-readback'' \<or> v = 1 \<and> reason = pending_reason P e b (last ?lines)"
      by (auto elim: classify_control_sound)
    with list4_cases [of ?lines] boot cpu fin True s r pending_reason_cases(1) [of P e b "last ?lines"]
    show ?thesis by (auto simp: cpu_lines_def replayed_def)
  qed
  then show ?thesis using that raw r by simp
qed

subsection \<open>PCI headers\<close>

definition address_less :: "int list \<Rightarrow> int list \<Rightarrow> bool" where
  \<comment> \<open>strict order of bus, device and function\<close>
  "address_less a b \<longleftrightarrow> a ! 0 < b ! 0 \<or> a ! 0 = b ! 0 \<and> (a ! 1 < b ! 1 \<or> a ! 1 = b ! 1 \<and> a ! 2 < b ! 2)"

lemma not_address_le: "\<not> address_le a b \<longleftrightarrow> address_less b a"
  by (auto simp: address_le_def address_less_def)

lemma address_less_trans: "address_less a b \<Longrightarrow> address_less b c \<Longrightarrow> address_less a c"
  by (auto simp: address_less_def)

definition header_bounds :: "int list \<Rightarrow> bool" where
  "header_bounds h \<longleftrightarrow> length h = 19 \<and> list_all2 (\<lambda>w limit. 0 \<le> w \<and> w \<le> limit) h
     ([255, 31, 7] @ replicate 16 0xffffffff) \<and> h ! 3 AND 0xffff \<noteq> 0xffff"

definition headers_ok :: "int list list \<Rightarrow> bool" where
  "headers_ok hs \<longleftrightarrow> sorted_wrt address_less hs \<and> list_all header_bounds hs"

definition pci_header_text :: "protocol \<Rightarrow> nat \<Rightarrow> int list \<Rightarrow> bytes" where
  "pci_header_text P index h =
     pr_pci_header P @ '' codec=1 index='' @ decimal index @ '' width=19 words='' @ csv (map nat h)"

lemma sorted_wrt_snoc_last:
  assumes "sorted_wrt address_less hs" "hs \<noteq> [] \<Longrightarrow> address_less (last hs) h"
  shows "sorted_wrt address_less (hs @ [h])"
proof (cases "hs = []")
  case False
  then obtain ys y where hs: "hs = ys @ [y]" by (metis rev_exhaust)
  with assms have y: "\<forall>x\<in>set ys. address_less x y" "address_less y h" by (auto simp: sorted_wrt_append)
  then have "\<forall>x\<in>set ys. address_less x h" by (blast intro: address_less_trans)
  with assms(1) hs y show ?thesis by (auto simp: sorted_wrt_append)
qed simp

lemma header_line_sound:
  assumes "fullmatch (pci_header_pattern P index) line = Some gs"
    and "py_ints (split_on CHR '','' (concat gs)) = Inr ws"
  shows "line = pci_header_text P index ws" "length ws = 19" "\<forall>w\<in>set ws. 0 \<le> w"
proof -
  from fullmatch_groups [OF assms(1)] obtain t where t: "gs = [t]" "list_text (dec_text (Some 19)) 18 t"
    and line: "line = render (pci_header_pattern P index) [t]"
    by (cases gs) (auto simp: pci_header_pattern_def split: list.splits)
  from t(2) obtain ns where ns: "length ns = Suc 18" "t = csv ns" "\<forall>w\<in>set ns. w < 10 ^ Suc 19"
    by (rule list_text_csv) simp
  with csv_values [OF ns(1,3)] assms(2) t(1) have ws: "ws = map int ns" by simp
  then have "map nat ws = ns" by (simp add: comp_def)
  with line ns show "line = pci_header_text P index ws"
    by (simp add: pci_header_pattern_def pci_header_text_def)
  show "length ws = 19" "\<forall>w\<in>set ws. 0 \<le> w" using ws ns(1) by auto
qed

lemma read_headers_sound:
  assumes "read_headers P lines index acc = Inr hs" "headers_ok acc"
  shows "\<exists>new. hs = acc @ new \<and> lines = map (\<lambda>(i, h). pci_header_text P i h) (enumerate index new)"
    "headers_ok hs"
proof -
  have "(\<exists>new. hs = acc @ new \<and> lines = map (\<lambda>(i, h). pci_header_text P i h) (enumerate index new)) \<and>
    headers_ok hs" using assms
  proof (induction P lines index acc rule: read_headers.induct)
    case (2 P line rest index headers)
    from "2.prems"(1) obtain gs ws where
      f: "fullmatch (pci_header_pattern P index) line = Some gs"
        "py_ints (split_on CHR '','' (concat gs)) = Inr ws"
      and c: "\<not> list_ex (\<lambda>(w, limit). limit < w) (zip ws ([255, 31, 7] @ replicate 16 0xffffffff))"
        "\<not> (headers \<noteq> [] \<and> address_le ws (last headers))" "ws ! 3 AND 0xffff \<noteq> 0xffff"
      and rest: "read_headers P rest (Suc index) (headers @ [ws]) = Inr hs"
      by (auto elim!: diag_elims)
    note h = header_line_sound [OF f]
    have "list_all2 (\<lambda>w limit. 0 \<le> w \<and> w \<le> limit) ws ([255, 31, 7] @ replicate 16 0xffffffff)"
      using c(1) h(2,3) by (auto simp: list_all2_iff list_ex_iff not_less dest: set_zip_leftD)
    with h(2) c(3) have "header_bounds ws" by (simp add: header_bounds_def)
    moreover have "sorted_wrt address_less (headers @ [ws])"
      using "2.prems"(2) c(2) by (intro sorted_wrt_snoc_last) (auto simp: headers_ok_def not_address_le)
    ultimately have "headers_ok (headers @ [ws])" using "2.prems"(2) by (simp add: headers_ok_def)
    moreover have "some_or_diag ''malformed or unordered PCI header'' (fullmatch (pci_header_pattern P index) line) = Inr gs"
      using f(1) by (simp add: eval_simps)
    ultimately obtain new where new: "hs = (headers @ [ws]) @ new" "headers_ok hs"
      "rest = map (\<lambda>(i, h). pci_header_text P i h) (enumerate (Suc index) new)"
      using "2.IH" [OF _ f(2) rest] by blast
    then show ?case using h(1) by (intro conjI exI [of _ "ws # new"]) auto
  qed auto
  then show "\<exists>new. hs = acc @ new \<and> lines = map (\<lambda>(i, h). pci_header_text P i h) (enumerate index new)"
    "headers_ok hs" by blast+
qed

lemma read_headers_complete:
  assumes "headers_ok (acc @ hs)"
  shows "read_headers P (map (\<lambda>(i, h). pci_header_text P i h) (enumerate k hs)) k acc = Inr (acc @ hs)"
  using assms
proof (induction hs arbitrary: k acc)
  case (Cons h hs)
  from Cons.prems have h: "header_bounds h" and s: "sorted_wrt address_less (acc @ [h])"
    by (auto simp: headers_ok_def sorted_wrt_append)
  have l: "acc = [] \<or> \<not> address_le h (last acc)"
    using s by (cases "acc = []") (simp_all add: sorted_wrt_append not_address_le)
  have len: "length h = 19" and b: "list_all2 (\<lambda>w limit. 0 \<le> w \<and> w \<le> limit) h ([255, 31, 7] @ replicate 16 0xffffffff)"
    using h by (simp_all add: header_bounds_def)
  have w: "0 \<le> w \<and> w \<le> 0xffffffff" if "w \<in> set h" for w
  proof -
    from that obtain i where i: "i < length h" "w = h ! i" by (auto simp: in_set_conv_nth)
    have "([255, 31, 7] @ replicate 16 0xffffffff) ! i \<in> set ([255, 31, 7] @ replicate 16 (0xffffffff :: int))"
      using i(1) len by (intro nth_mem) simp
    then have "([255, 31, 7] @ replicate 16 0xffffffff) ! i \<le> (0xffffffff :: int)" by (simp del: nth_append) (auto simp: set_replicate_conv_if)
    with list_all2_nthD [OF b i(1)] i(2) show ?thesis by linarith
  qed
  have "\<not> list_ex (\<lambda>(w, limit). limit < w) (zip h ([255, 31, 7] @ replicate 16 0xffffffff))"
    using b by (auto simp: list_all2_iff list_ex_iff not_less)
  moreover have n: "map nat h \<noteq> []" "\<forall>n\<in>set (map nat h). n < 10 ^ 20" "map int (map nat h) = h"
    using w len by (force simp: map_idI nat_less_iff)+
  moreover have "fullmatch (pci_header_pattern P k) (pci_header_text P k h) = Some [csv (map nat h)]"
  proof -
    have "list_text (dec_text (Some 19)) 18 (csv (map nat h))" using n(2) len by (intro csv_list_text) auto
    moreover have "pci_header_text P k h = render (pci_header_pattern P k) [csv (map nat h)]"
      by (simp add: pci_header_text_def pci_header_pattern_def)
    moreover have "fullmatch (pci_header_pattern P k) (render (pci_header_pattern P k) [csv (map nat h)]) = Some [csv (map nat h)]"
      using calculation(1) by (intro fullmatch_render) (simp_all add: pci_header_pattern_def)
    ultimately show ?thesis by simp
  qed
  moreover have "h ! 3 AND 0xffff \<noteq> 0xffff" using h by (simp add: header_bounds_def)
  ultimately show ?case
    using Cons.IH [of "acc @ [h]" "Suc k"] Cons.prems l csv_values_wide [OF n(1,2)]
    by (simp add: eval_simps diag_if_def)
qed simp

subsection \<open>The PCI diagnostic\<close>

lemma headers_ok_Nil [simp]: "headers_ok []"
  by (simp add: headers_ok_def)

lemma successful_scan_sound:
  assumes "successful_scan pci_run P ni nk kinv scan lines = Inr (headers, inventory, reason)"
  obtains "headers_ok headers" "length headers = length lines - 5" "int (length lines) = 5 + sc_count scan"
    "butlast (drop 4 lines) = map (\<lambda>(i, h). pci_header_text P i h) (enumerate 0 headers)"
    "replay_words pci_run ''inventory'' (int (length headers) # concat headers) = Inr inventory"
    "inventory = 1 \<Longrightarrow> length headers = (if ni then 16 else 15)"
    "nk \<Longrightarrow> kinv = Some (expected_kernel inventory (length headers))"
    "reason = (if nk \<and> inventory \<noteq> 1 then ''qotom-native-inventory'' else PENDING)"
proof -
  from assms have len: "int (length lines) = 5 + sc_count scan"
    and h: "read_headers P (butlast (drop 4 lines)) 0 [] = Inr headers"
    and i: "replay_words pci_run ''inventory'' (int (length headers) # concat headers) = Inr inventory"
      "\<not> (inventory = 1 \<and> length headers \<noteq> (if ni then 16 else 15))"
    and k: "nk \<Longrightarrow> kinv = Some (expected_kernel inventory (length headers))"
    and r: "reason = (if nk \<and> ki_status (expected_kernel inventory (length headers)) \<noteq> 0
      then ''qotom-native-inventory'' else PENDING)"
    unfolding successful_scan_def by (auto elim!: diag_elims split: if_splits simp: res_simps)
  from read_headers_sound [OF h] have new: "headers_ok headers"
    "butlast (drop 4 lines) = map (\<lambda>(i, h). pci_header_text P i h) (enumerate 0 headers)" by auto
  then have "length headers = length (butlast (drop 4 lines))" by simp
  then have "length headers = length lines - 5" by simp
  moreover have "reason = (if nk \<and> inventory \<noteq> 1 then ''qotom-native-inventory'' else PENDING)"
    using r by (simp add: expected_kernel_def Let_def split: if_splits)
  ultimately show ?thesis using that new len i k by blast
qed

lemma classify_scan_sound:
  assumes "classify_scan pci_run P ni nk kinv lines = Inr (scan, headers, inventory, reason)"
  obtains (failed) "headers = []" "inventory = None" "sc_status scan \<noteq> 0" "reason = ''qotom-pci-enumeration''"
  | (complete) v where "sc_status scan = 0" "inventory = Some v"
      "successful_scan pci_run P ni nk kinv scan lines = Inr (headers, v, reason)"
  using assms unfolding classify_scan_def failed_scan_def
  by (auto elim!: diag_elims split: if_splits simp: res_simps)

lemma replayed_pending:
  "replayed run r \<Longrightarrow> dg_reason r = PENDING \<Longrightarrow> dg_selection r = 65536 \<and> dg_readback r = Some 1"
  by (auto simp: replayed_def split: if_splits)

lemma classify_pci_inv:
  assumes "classify_pci cpu_run pci_run P ni nk raw = Inr r"
  obtains cpu lines kinv scan inventory where
    "printable raw" "endswith raw NL" "length raw \<le> MAX_PCI_CAPTURE"
    "take_kernel_inventory nk (text_lines raw) = Inr (lines, kinv)" "pd_kernel_inventory r = kinv"
    "classify_cpu cpu_run P False False (join_lines (cpu_projection P lines)) = Inr cpu"
    "dg_selection r = dg_selection cpu" "dg_readback r = dg_readback cpu" "dg_claims r = dg_claims cpu"
    "dg_reason cpu = PENDING \<longrightarrow> (\<exists>scan. pd_scan r = Some scan \<and>
      classify_scan pci_run P ni nk kinv lines = Inr (scan, pd_headers r, pd_inventory r, dg_reason r))"
    "dg_reason cpu \<noteq> PENDING \<longrightarrow> pd_headers r = [] \<and> pd_inventory r = None \<and> dg_reason r = dg_reason cpu"
proof -
  from assms obtain cpu lines kinv scan headers inventory reason where
    raw: "printable raw" "endswith raw NL" "length raw \<le> MAX_PCI_CAPTURE"
    and k: "take_kernel_inventory nk (text_lines raw) = Inr (lines, kinv)"
    and c: "classify_cpu cpu_run P False False (join_lines (cpu_projection P lines)) = Inr cpu"
    and s: "(if dg_reason cpu \<noteq> PENDING then
          diag_if (length lines \<noteq> length (cpu_projection P lines))
            ''PCI records follow rejected CPU or MSR'' (Inr (None, [], None, dg_reason cpu))
        else
          bind (classify_scan pci_run P ni nk kinv lines)
            (\<lambda>(scan, headers, inventory, reason). Inr (Some scan, headers, inventory, reason))) =
        Inr (scan, headers, inventory, reason)"
    and r: "r = \<lparr>dg_schema = ''leanos-qotom-pci-diagnostic-replay-v1'', dg_sha256 = sha256_hex raw,
       dg_cpu_words = dg_cpu_words cpu, dg_selection = dg_selection cpu,
       dg_msr_words = dg_msr_words cpu, dg_readback = dg_readback cpu, dg_reason = reason,
       dg_claims = dg_claims cpu, pd_scan = scan, pd_headers = headers, pd_inventory = inventory,
       pd_profile = (if ni then Some ''qotom-native-ecam-v1'' else None), pd_kernel_inventory = kinv\<rparr>"
    unfolding classify_pci_def
    by (elim diag_elims) (auto simp: not_less)
  show ?thesis
    by (rule that [OF raw k _ c]) (use s r in \<open>auto simp: res_simps split: prod.splits if_splits\<close>)
qed

subsection \<open>Identities\<close>

lemma load_identities_keys:
  assumes "load_identities key lines found = Inr out" "distinct (map fst found)"
    and "\<And>line k v. key line = Some (k, v) \<Longrightarrow> k \<in> K" "set (map fst found) \<subseteq> K"
  shows "distinct (map fst out) \<and> set (map fst out) \<subseteq> K"
  using assms
  by (induction key lines found rule: load_identities.induct)
    (auto simp: res_simps split: option.splits prod.splits)

definition protocol_keys :: "bytes list" where
  \<comment> \<open>the keys the decoders look up\<close>
  "protocol_keys = [''BOOT'', ''CPU'', ''CONTROL'', ''PCI-SCAN'', ''PCI-HEADER'', ''FINAL'',
     ''DIRECT-PORT-CONTROL'', ''ENTRY-MANIFEST'', ''6/COPY'', ''8/PAGING'', ''9/CAPREUSE'', ''10/IPC'',
     ''10/FINAL'', ''11/USER-FAULT'']"

lemma identity_key_protocol:
  assumes "identity_key PCI_IDENTITIES QUALIFIED_IDENTITIES line = Some (k, v)"
  shows "k \<in> set protocol_keys"
  using assms unfolding identity_key_def Let_def
  by (auto simp: PCI_IDENTITIES_def QUALIFIED_IDENTITIES_def protocol_keys_def split: if_splits)

lemma load_protocol_keys:
  assumes "load_protocol content = Inr found"
  shows "distinct (map fst found)" "set (map fst found) = set protocol_keys"
proof -
  from assms have l: "load_identities (identity_key PCI_IDENTITIES QUALIFIED_IDENTITIES)
      (text_lines content) [] = Inr found" and n: "length found = 14"
    by (auto simp: load_protocol_def res_simps PCI_IDENTITIES_def QUALIFIED_IDENTITIES_def)
  have d: "distinct (map fst found) \<and> set (map fst found) \<subseteq> set protocol_keys"
    using l by (rule load_identities_keys) (auto dest: identity_key_protocol)
  then show "distinct (map fst found)" by blast
  then have "card (set (map fst found)) = 14" using n distinct_card [of "map fst found"] by simp
  moreover have "card (set protocol_keys) = 14" by (simp add: protocol_keys_def)
  ultimately show "set (map fst found) = set protocol_keys"
    using d by (intro card_subset_eq) auto
qed

text \<open>
  C38 (type). Loading the protocol identities either raises or returns a dictionary with exactly the
  fourteen keys the decoders look up, each of them once, so no later lookup of an identity fails.
\<close>

theorem load_protocol_complete:
  assumes "load_protocol content = Inr found"
  shows "dom (map_of found) = set protocol_keys \<and> length found = length protocol_keys"
proof -
  note keys = load_protocol_keys [OF assms]
  have "distinct protocol_keys" by (simp add: protocol_keys_def)
  then have "length (map fst found) = length protocol_keys"
    using keys by (metis distinct_card)
  with keys(2) show ?thesis by (simp add: dom_map_of_conv_image_fst)
qed

text \<open>
  C5 (roundtrip). A CPU capture that is accepted is, byte for byte, the text printed from the result:
  the boot line, the CPU words with their selection, the MSR words with their readback exactly when
  the CPU was accepted, and the terminal line of the result's reason; and every selection and
  readback in it is the one the generated executable computes from those words.
\<close>

theorem cpu_diagnostic_canonical:
  assumes "classify_cpu run P ecam_failure bsp_failure raw = Inr r"
  shows "raw = join_lines (cpu_lines P r) \<and> replayed run r"
  using assms by (rule classify_cpu_inv) (use text_lines_join [of raw] in simp)

lemma distinct_keys: "sorted_wrt (\<lambda>a b. f a \<noteq> f b) xs \<Longrightarrow> distinct (map f xs)"
  by (induction xs) auto

text \<open>
  C7 (invariant). The headers of an accepted PCI capture have strictly increasing bus, device and
  function addresses, nineteen words within their widths and a present vendor; and the inventory
  result is what the generated executable computes from the count and exactly those headers.
\<close>

theorem pci_headers_ordered:
  assumes "classify_pci cpu_run pci_run P native_inventory native_kernel raw = Inr r"
  shows "headers_ok (pd_headers r) \<and> distinct (map (take 3) (pd_headers r)) \<and>
    (\<forall>v. pd_inventory r = Some v \<longrightarrow>
      replay_words pci_run ''inventory'' (int (length (pd_headers r)) # concat (pd_headers r)) = Inr v)"
proof -
  have *: "headers_ok (pd_headers r) \<and> (\<forall>v. pd_inventory r = Some v \<longrightarrow>
      replay_words pci_run ''inventory'' (int (length (pd_headers r)) # concat (pd_headers r)) = Inr v)"
    using assms
  proof (rule classify_pci_inv)
    fix cpu lines kinv
    assume a: "dg_reason cpu = PENDING \<longrightarrow> (\<exists>scan. pd_scan r = Some scan \<and>
        classify_scan pci_run P native_inventory native_kernel kinv lines =
          Inr (scan, pd_headers r, pd_inventory r, dg_reason r))"
      "dg_reason cpu \<noteq> PENDING \<longrightarrow> pd_headers r = [] \<and> pd_inventory r = None \<and> dg_reason r = dg_reason cpu"
    show ?thesis
    proof (cases "dg_reason cpu = PENDING")
      case True
      with a(1) show ?thesis by (auto elim!: classify_scan_sound successful_scan_sound)
    qed (use a(2) in simp)
  qed
  have "take 3 a \<noteq> take 3 b" if "address_less a b" for a b :: "int list"
  proof
    assume eq: "take 3 a = take 3 b"
    have "a ! k = b ! k" if "k < 3" for k using eq that by (metis nth_take)
    then have "a ! 0 = b ! 0" "a ! 1 = b ! 1" "a ! 2 = b ! 2" by simp_all
    with that show False by (simp add: address_less_def)
  qed
  then have "sorted_wrt (\<lambda>a b. take 3 a \<noteq> take 3 b) (pd_headers r)"
    using * unfolding headers_ok_def by (blast intro: sorted_wrt_mono_rel)
  then have "distinct (map (take 3) (pd_headers r))"
    by (rule distinct_keys)
  with * show ?thesis by blast
qed

text \<open>
  C6 (safety). In the native-kernel mode a capture ends with the pending reason only when the CPU was
  accepted, the MSR readback succeeded, the scan found sixteen functions, the generated inventory
  accepted them and the kernel's own inventory record agrees with it; and no result admits the
  platform or authorizes ring 3.
\<close>

theorem native_pending_complete:
  assumes "classify_pci cpu_run pci_run P True True raw = Inr r" "dg_reason r = PENDING"
  shows "dg_selection r = 65536 \<and> dg_readback r = Some 1 \<and> length (pd_headers r) = 16 \<and>
    pd_inventory r = Some 1 \<and> pd_kernel_inventory r = Some \<lparr>ki_status = 0, ki_index = 0, ki_count = 16\<rparr> \<and>
    dg_claims r = [(''platform_admitted'', False), (''cpl3_authorized'', False)]"
  using assms(1)
proof (rule classify_pci_inv)
  fix cpu lines kinv
  assume c: "classify_cpu cpu_run P False False (join_lines (cpu_projection P lines)) = Inr cpu"
    and r: "dg_selection r = dg_selection cpu" "dg_readback r = dg_readback cpu" "dg_claims r = dg_claims cpu"
      "pd_kernel_inventory r = kinv"
    and a: "dg_reason cpu = PENDING \<longrightarrow> (\<exists>scan. pd_scan r = Some scan \<and>
        classify_scan pci_run P True True kinv lines = Inr (scan, pd_headers r, pd_inventory r, dg_reason r))"
      "dg_reason cpu \<noteq> PENDING \<longrightarrow> pd_headers r = [] \<and> pd_inventory r = None \<and> dg_reason r = dg_reason cpu"
  from a(2) assms(2) have p: "dg_reason cpu = PENDING" by metis
  from c have cpu: "replayed cpu_run cpu"
    "dg_claims cpu = [(''platform_admitted'', False), (''cpl3_authorized'', False)]"
    by (auto elim: classify_cpu_inv)
  from a(1) p obtain scan where
    "classify_scan pci_run P True True kinv lines = Inr (scan, pd_headers r, pd_inventory r, PENDING)"
    using assms(2) by auto
  then obtain v where v: "pd_inventory r = Some v"
    "successful_scan pci_run P True True kinv scan lines = Inr (pd_headers r, v, PENDING)"
    by (rule classify_scan_sound) auto
  from v(2) have "v = 1 \<and> length (pd_headers r) = 16 \<and> kinv = Some (expected_kernel v 16)"
    by (rule successful_scan_sound) (auto split: if_splits)
  with v(1) r cpu replayed_pending [OF cpu(1) p] show ?thesis
    by (auto simp: expected_kernel_def)
qed

text \<open>
  C35 (equivalence). A word record is parsed exactly when it is the canonical text of the words and the claimed
  result: decimal numbers without leading zeros, the right count and width, nothing around them.
\<close>

theorem parse_words_exact:
  "parse_words line label (Suc k) field = Inr (ws, claimed) \<longleftrightarrow>
     line = words_text label (Suc k) field ws claimed \<and> length ws = Suc k \<and> 0 \<le> claimed \<and> claimed < 10 ^ 20 \<and>
     (\<forall>w\<in>set ws. 0 \<le> w \<and> w \<le> (if k = 21 then 0xffffffff else 0xffffffffffffffff))"
proof
  assume p: "parse_words line label (Suc k) field = Inr (ws, claimed)"
  then obtain t u where f: "fullmatch (words_pattern label (Suc k) field) line = Some [t, u]" and c: "py_int u = Inr claimed"
    unfolding parse_words_def by (elim diag_elims) auto
  from fullmatch_groups [OF f] have u: "dec_text (Some 19) u" by (simp add: words_pattern_def)
  then have "claimed < 10 ^ 20"
    using dec_text_value [OF u] py_int_dec_text [OF u] c by simp
  then show "line = words_text label (Suc k) field ws claimed \<and> length ws = Suc k \<and> 0 \<le> claimed \<and> claimed < 10 ^ 20 \<and>
     (\<forall>w\<in>set ws. 0 \<le> w \<and> w \<le> (if k = 21 then 0xffffffff else 0xffffffffffffffff))"
    using parse_words_sound [OF p] by simp
next
  assume "line = words_text label (Suc k) field ws claimed \<and> length ws = Suc k \<and> 0 \<le> claimed \<and> claimed < 10 ^ 20 \<and>
     (\<forall>w\<in>set ws. 0 \<le> w \<and> w \<le> (if k = 21 then 0xffffffff else 0xffffffffffffffff))"
  then show "parse_words line label (Suc k) field = Inr (ws, claimed)" using parse_words_complete by blast
qed

text \<open>
  C36 (equivalence). The header reader accepts exactly the canonical records of a list of headers whose words fit
  their widths, whose addresses increase strictly and which are all present.
\<close>

theorem read_headers_exact:
  "read_headers P lines 0 [] = Inr hs \<longleftrightarrow> headers_ok hs \<and> lines = map (\<lambda>(i, h). pci_header_text P i h) (enumerate 0 hs)"
  using read_headers_sound [of P lines 0 "[]" hs] read_headers_complete [of "[]" hs P 0] by auto

end
