(* ===== verification/Lab_Records.thy ===== *)
theory Lab_Records
  imports Decoder Acpi "HOL-Library.Sublist"
begin

text \<open>
  The lab records that the kernel inserts into the diagnostic stream before the PCI scan: the PCI
  read trace, the BSP sample, the PAT and control-register sample, the native BSP record and the
  ECAM arm record (\<^verbatim>\<open>scripts/check-qotom-pci-read-trace.py\<close> and the
  \<^verbatim>\<open>bootstrap\<close>, \<^verbatim>\<open>ecam-memory\<close>, \<^verbatim>\<open>bsp\<close> and \<^verbatim>\<open>ecam\<close> capture scripts).
  Each decoder checks its one line and returns the stream without it.
\<close>

unbundle bit_operations_syntax

definition own_indices :: "bytes \<Rightarrow> bytes list \<Rightarrow> nat list" where
  "own_indices label lines = indices_where (\<lambda>line. startswith line label) lines"

definition without_line :: "nat \<Rightarrow> bytes list \<Rightarrow> bytes" where
  \<comment> \<open>\<^verbatim>\<open>del lines[i]\<close> and \<^verbatim>\<open>b''.join(lines)\<close>\<close>
  "without_line i lines = concat (take i lines @ drop (Suc i) lines)"

definition has_scan :: "protocol \<Rightarrow> bytes list \<Rightarrow> bool" where
  "has_scan P lines \<longleftrightarrow> list_ex (\<lambda>line. startswith line (pr_pci_scan P @ '' '')) lines"

definition rejected_early :: "protocol \<Rightarrow> bool \<Rightarrow> bool \<Rightarrow> bytes \<Rightarrow> bool" where
  \<comment> \<open>\<^verbatim>\<open>rejected_ecam\<close>\<close>
  "rejected_early P ecam_failure bsp_failure raw \<longleftrightarrow>
     ecam_failure \<and> (endswith raw (final_line P ''qotom-ecam-arm'') \<or>
       endswith raw (final_line P ''qotom-ecam-transaction'')) \<or>
     bsp_failure \<and> endswith raw (final_line P ''qotom-native-bsp'')"

definition accepted_cpu_pattern :: "protocol \<Rightarrow> item list" where
  "accepted_cpu_pattern P =
     [Lit (pr_cpu P @ '' profile=j1900-cpu-v1 codec=1 width=22 words=''), DigitList 21,
      Lit ('' selection=65536'' @ NL)]"

definition accepted_edx :: "protocol \<Rightarrow> bytes list \<Rightarrow> string \<Rightarrow> int res" where
  \<comment> \<open>\<^verbatim>\<open>int(cpu[1].split(b',')[9])\<close>\<close>
  "accepted_edx P lines msg =
     bind (some_or msg (fullmatch (accepted_cpu_pattern P) (lines ! 1))) (\<lambda>gs.
     bind (py_get (split_on CHR '','' (concat gs)) 9) py_int)"

subsection \<open>PCI read trace\<close>

definition TRACE_PREFIX :: bytes where "TRACE_PREFIX = ''LEANOS-LAB/1 PCI-READ ''"

definition trace_pattern :: "item list" where
  "trace_pattern =
     [Lit (TRACE_PREFIX @ ''reads=''), NUMBER, Lit '' mismatches='', NUMBER, Lit '' requested='', NUMBER,
      Lit '' observed='', NUMBER, Lit '' value='', NUMBER, Lit '' first_requested='', NUMBER,
      Lit '' first_observed='', NUMBER, Lit '' first_value='', NUMBER, Lit NL]"

record trace_data =
  tr_reads :: int
  tr_mismatches :: int
  tr_requested :: int
  tr_observed :: int
  tr_value :: int
  tr_first_requested :: int
  tr_first_observed :: int
  tr_first_value :: int

definition trace_of :: "int list \<Rightarrow> trace_data" where
  "trace_of vs = \<lparr>tr_reads = vs ! 0, tr_mismatches = vs ! 1, tr_requested = vs ! 2, tr_observed = vs ! 3,
     tr_value = vs ! 4, tr_first_requested = vs ! 5, tr_first_observed = vs ! 6, tr_first_value = vs ! 7\<rparr>"

definition valid_address :: "int \<Rightarrow> bool" where
  "valid_address v \<longleftrightarrow> v AND 0xff000003 = 0x80000000"

definition trace_check :: "trace_data \<Rightarrow> unit res" where
  "trace_check d =
     raise_if (\<not> (1 \<le> tr_reads d \<and> tr_reads d \<le> 65536 + 16 * 15) \<or> tr_reads d < tr_mismatches d) ''PCI trace count''
     (raise_if (\<not> valid_address (tr_requested d)) ''PCI requested address''
     (if tr_mismatches d \<noteq> 0 then
        raise_if (\<not> valid_address (tr_first_requested d) \<or> tr_first_requested d = tr_first_observed d)
          ''PCI first mismatch'' (Inr ())
      else
        raise_if (tr_first_requested d \<noteq> 0 \<or> tr_first_observed d \<noteq> 0 \<or> tr_first_value d \<noteq> 0 \<or>
            tr_requested d \<noteq> tr_observed d) ''PCI zero mismatch inconsistency'' (Inr ())))"

definition extract_trace :: "bytes \<Rightarrow> protocol \<Rightarrow> (bytes \<times> trace_data option) res" where
  "extract_trace raw P =
     (let scan = pr_pci_scan P; lines = splitlines raw; indices = own_indices TRACE_PREFIX lines in
      if \<not> bytes_in scan raw then raise_if (bytes_in TRACE_PREFIX raw) ''PCI trace without scan'' (Inr (raw, None))
      else
        raise_if (length indices \<noteq> 1) ''missing or repeated PCI trace''
        (let index = hd indices in
         raise_if (index \<noteq> 3 \<or> length lines \<le> index + 1 \<or> \<not> startswith (lines ! (index - 1)) (pr_control P @ '' '') \<or>
             \<not> startswith (lines ! (index + 1)) (scan @ '' '')) ''PCI trace position''
         (raise_if (512 < length (lines ! index)) ''PCI trace bound''
         (bind (match_ints ''PCI trace format'' trace_pattern (lines ! index)) (\<lambda>vs.
          raise_if (list_ex (\<lambda>v. 0xffffffff < v) vs) ''PCI trace width''
          (bind (trace_check (trace_of vs)) (\<lambda>_.
          Inr (without_line index lines, Some (trace_of vs)))))))))"

subsection \<open>Bootstrap sample\<close>

definition BOOTSTRAP_PREFIX :: bytes where "BOOTSTRAP_PREFIX = ''LEANOS-LAB/1 BOOTSTRAP ''"

definition bootstrap_pattern :: "item list" where
  "bootstrap_pattern =
     [Lit (BOOTSTRAP_PREFIX @ ''cpuid-edx=''), NUMBER, Lit '' available='', OneOf ''01'', Lit '' apic-base='',
      NUMBER, Lit NL]"

record bootstrap_report =
  bs_edx :: int
  bs_available :: bool
  bs_apic_base :: int
  bs_bsp :: "bool option"
  bs_apic_enabled :: "bool option"
  bs_x2apic_enabled :: "bool option"

definition bootstrap_report_of :: "int \<Rightarrow> int \<Rightarrow> int \<Rightarrow> bootstrap_report" where
  "bootstrap_report_of edx available v =
     (let sampled = (\<lambda>k. if available \<noteq> 0 then Some (v AND 2 ^ k \<noteq> 0) else None) in
      \<lparr>bs_edx = edx, bs_available = (available \<noteq> 0), bs_apic_base = v, bs_bsp = sampled 8,
       bs_apic_enabled = sampled 11, bs_x2apic_enabled = sampled 10\<rparr>)"

definition extract_bootstrap :: "bool \<Rightarrow> bool \<Rightarrow> bytes \<Rightarrow> protocol \<Rightarrow> (bytes \<times> bootstrap_report option) res" where
  "extract_bootstrap ecam_failure bsp_failure raw P =
     (let lines = splitlines raw; indices = own_indices BOOTSTRAP_PREFIX lines in
      if \<not> rejected_early P ecam_failure bsp_failure raw \<and> \<not> has_scan P lines then
        raise_if (indices \<noteq> []) ''bootstrap sample without completed CPU/MSR gate'' (Inr (raw, None))
      else
        raise_if (indices \<noteq> [3] \<or> \<not> startswith (lines ! 2) (pr_control P @ '' ''))
          ''missing, repeated, or misplaced bootstrap sample''
        (raise_if (160 < length (lines ! 3)) ''bootstrap record bound''
        (bind (match_ints ''bootstrap record format'' bootstrap_pattern (lines ! 3)) (\<lambda>vs.
         unpack3 vs (\<lambda>edx available v.
         raise_if (0xffffffff < edx \<or> 0xffffffffffffffff < v) ''bootstrap value width''
         (raise_if (available \<noteq> (if edx AND 0x220 = 0x220 then 1 else 0) \<or> (available = 0 \<and> v \<noteq> 0))
           ''bootstrap read availability''
         (bind (accepted_edx P lines ''bootstrap CPU/MSR binding'') (\<lambda>e.
          raise_if (e \<noteq> edx \<or> \<not> endswith (lines ! 2) ('' readback=1'' @ NL)) ''bootstrap CPU/MSR binding''
          (Inr (without_line 3 lines, Some (bootstrap_report_of edx available v)))))))))))"

subsection \<open>PAT and control registers\<close>

definition MEMORY_PREFIX :: bytes where "MEMORY_PREFIX = ''LEANOS-LAB/1 ECAM-MEMORY ''"

definition memory_pattern :: "item list" where
  "memory_pattern =
     [Lit (MEMORY_PREFIX @ ''cpuid-edx=''), NUMBER, Lit '' available='', OneOf ''01'', Lit '' pat='', NUMBER,
      Lit '' cr0='', NUMBER, Lit '' cr3='', NUMBER, Lit '' cr4='', NUMBER, Lit NL]"

record memory_report =
  mm_edx :: int
  mm_available :: bool
  mm_pat :: int
  mm_cr0 :: int
  mm_cr3 :: int
  mm_cr4 :: int
  mm_entries :: "int list option"

definition pat_entries :: "int \<Rightarrow> int list" where
  "pat_entries pat = map (\<lambda>i. drop_bit (8 * i) pat AND 255) [0..<8]"

definition extract_memory :: "bool \<Rightarrow> bool \<Rightarrow> bytes \<Rightarrow> protocol \<Rightarrow> (bytes \<times> memory_report option) res" where
  "extract_memory ecam_failure bsp_failure raw P =
     (let lines = splitlines raw; indices = own_indices MEMORY_PREFIX lines in
      if \<not> rejected_early P ecam_failure bsp_failure raw \<and> \<not> has_scan P lines then
        raise_if (indices \<noteq> []) ''ECAM memory sample without completed CPU gate'' (Inr (raw, None))
      else
        raise_if (indices \<noteq> [4] \<or> \<not> startswith (lines ! 2) (pr_control P @ '' ''))
          ''missing, repeated, or misplaced ECAM memory sample''
        (raise_if (256 < length (lines ! 4)) ''ECAM memory record bound''
        (bind (match_ints ''ECAM memory record format/order'' memory_pattern (lines ! 4)) (\<lambda>vs.
         bind (some_or ''ECAM memory record format/order'' (fullmatch bootstrap_pattern (lines ! 3))) (\<lambda>bs.
         unpack6 vs (\<lambda>edx available pat cr0 cr3 cr4.
         raise_if (0xffffffff < edx \<or> list_ex (\<lambda>x. 0xffffffffffffffff < x) [pat, cr0, cr3, cr4])
           ''ECAM memory value width''
         (raise_if (available \<noteq> (if edx AND 0x10020 = 0x10020 then 1 else 0) \<or> (available = 0 \<and> pat \<noteq> 0))
           ''PAT read availability''
         (bind (accepted_edx P lines ''ECAM memory CPU/control binding'') (\<lambda>e.
          bind (py_get bs 0) (\<lambda>g. bind (py_int g) (\<lambda>boot_edx.
          raise_if (e \<noteq> edx \<or> boot_edx \<noteq> edx \<or> \<not> endswith (lines ! 2) ('' readback=1'' @ NL))
            ''ECAM memory CPU/control binding''
          (Inr (without_line 4 lines,
            Some \<lparr>mm_edx = edx, mm_available = (available \<noteq> 0), mm_pat = pat, mm_cr0 = cr0, mm_cr3 = cr3,
              mm_cr4 = cr4, mm_entries = (if available \<noteq> 0 then Some (pat_entries pat) else None)\<rparr>)))))))))))))"

subsection \<open>Native BSP record\<close>

definition BSP_PREFIX :: bytes where "BSP_PREFIX = ''LEANOS-LAB/1 NATIVE-BSP ''"
definition ARM_PREFIX :: bytes where "ARM_PREFIX = ''LEANOS-LAB/1 ECAM-ARM ''"
definition ARM_LINE :: bytes where "ARM_LINE = ARM_PREFIX @ ''firmware=exact root=checked access=read32'' @ NL"

definition BSP_NAMES :: "bytes list" where
  "BSP_NAMES = [''madt'', ''length'', ''executing'', ''cpuid-edx'', ''available'', ''apic-base'',
     ''sample-id'', ''status'', ''detail'', ''offset'', ''admitted-id'', ''count'', ''bound-base'']"

definition bsp_pattern :: "item list" where
  "bsp_pattern =
     Lit (BSP_PREFIX @ ''profile=qotom-bsp-v1'') #
     concat (map (\<lambda>name. [Lit ('' '' @ name @ ''=''), NUMBER]) BSP_NAMES) @ [Lit ('' platform-admitted=0'' @ NL)]"

record bsp_replay =
  br_identity :: "bytes res"                          \<comment> \<open>\<^verbatim>\<open>replay --identity\<close>\<close>
  br_check :: "bytes \<Rightarrow> bytes list \<Rightarrow> bytes res"   \<comment> \<open>\<^verbatim>\<open>replay madt.bin arguments\<close>, for the file's bytes\<close>

record bsp_report =
  bp_observation :: "int list"   \<comment> \<open>in the order of the names\<close>
  bp_madt_sha256 :: string

definition selected_madt :: "acpi_report \<Rightarrow> table_files \<Rightarrow> int list \<Rightarrow> (acpi_table \<times> bytes) res" where
  "selected_madt metadata files vs =
     (case filter (\<lambda>t. at_signature t = tohex ''APIC'') (tl (ar_tables metadata)) of
        [table] \<Rightarrow>
          bind (file_of files (at_address table)) (\<lambda>data.
          raise_if (vs ! 0 \<noteq> at_address table \<or> vs ! 1 \<noteq> at_length table \<or>
              int (length data) \<noteq> at_length table \<or> sha256_hex data \<noteq> at_sha256 table)
            ''BSP record disagrees with selected MADT'' (Inr (table, data)))
      | _ \<Rightarrow> raise ''BSP record requires unique root-selected MADT'')"

definition bsp_arguments :: "int list \<Rightarrow> bytes list" where
  \<comment> \<open>executing, cpuid-edx, available, apic-base and sample-id\<close>
  "bsp_arguments vs = map (decimal \<circ> nat) (take 5 (drop 2 vs)) @ [''0'']"

definition bsp_expected :: "int list \<Rightarrow> bytes" where
  \<comment> \<open>status, detail, offset, admitted-id, count and bound-base, separated by spaces\<close>
  "bsp_expected vs = tl (concat (map (\<lambda>v. CHR '' '' # decimal (nat v)) (take 6 (drop 7 vs)))) @ NL"

definition extract_bsp ::
  "bsp_replay \<Rightarrow> acpi_report option \<Rightarrow> table_files \<Rightarrow> bytes \<Rightarrow> protocol \<Rightarrow> (bytes \<times> bsp_report option) res" where
  "extract_bsp replay metadata files raw P =
     (let lines = splitlines raw; indices = own_indices BSP_PREFIX lines; arms = own_indices ARM_PREFIX lines;
          rejected = (lines \<noteq> [] \<and> last lines = final_line P ''qotom-native-bsp'') in
      if arms = [] then
        raise_if (indices \<noteq> [] \<or> rejected) ''BSP candidate without firmware gate'' (Inr (raw, None))
      else
        raise_if (arms \<noteq> [5] \<or> lines ! 5 \<noteq> ARM_LINE \<or> indices \<noteq> [6] \<or> 512 < length (lines ! 6))
          ''missing, repeated or misplaced BSP record''
        (bind (match_ints ''malformed BSP record'' bsp_pattern (lines ! 6)) (\<lambda>vs.
         raise_if (list_ex (\<lambda>v. 2 ^ 64 - 1 < v) vs) ''BSP scalar overflow''
         (bind (some_or ''BSP record requires complete ACPI capture'' metadata) (\<lambda>acpi.
          bind (selected_madt acpi files vs) (\<lambda>(table, data).
          bind (br_identity replay) (\<lambda>identity.
          raise_if (identity \<noteq> ''LeanOS native BSP replay v2'' @ NL) ''BSP replay identity''
          (bind (br_check replay data (bsp_arguments vs)) (\<lambda>out.
          raise_if (out \<noteq> bsp_expected vs) ''BSP native result disagrees with generated replay''
          (raise_if (vs ! 7 \<noteq> 0 \<and> (\<not> rejected \<or> length lines \<noteq> 8)) ''BSP rejection followed by unrelated records''
          (raise_if (vs ! 7 = 0 \<and> rejected) ''matching BSP candidate has rejection terminal''
          (Inr (without_line 6 lines,
            Some \<lparr>bp_observation = vs, bp_madt_sha256 = at_sha256 table\<rparr>)))))))))))))"

subsection \<open>ECAM arm record\<close>

record reviewed_capture =
  rc_read :: "string \<Rightarrow> bytes res"             \<comment> \<open>a file of the reviewed observation directory\<close>
  rc_manifest :: "string \<Rightarrow> string option"     \<comment> \<open>its manifest's hashes\<close>
  rc_report :: "bytes \<Rightarrow> acpi_report"           \<comment> \<open>\<^verbatim>\<open>json.loads\<close> of a report\<close>

definition pinned :: "reviewed_capture \<Rightarrow> string \<Rightarrow> bytes res" where
  "pinned rc name =
     bind (rc_read rc name) (\<lambda>raw.
     case rc_manifest rc name of None \<Rightarrow> Inl (KeyError name)
     | Some sha \<Rightarrow> raise_if (sha256_hex raw \<noteq> sha) ''reviewed firmware hash mismatch'' (Inr raw))"

fun pinned_files :: "reviewed_capture \<Rightarrow> table_files \<Rightarrow> acpi_table list \<Rightarrow> bool res" where
  \<comment> \<open>\<^verbatim>\<open>all(files[name] == pinned('cycle-1/acpi/' + name) for name in names)\<close>, in the order of the tables\<close>
  "pinned_files rc files [] = Inr True"
| "pinned_files rc files (t # ts) =
     bind (file_of files (at_address t)) (\<lambda>data.
     bind (pinned rc (''cycle-1/acpi/'' @ table_name (at_address t))) (\<lambda>raw.
     if data = raw then pinned_files rc files ts else Inr False))"

definition same_report :: "acpi_report \<Rightarrow> acpi_report \<Rightarrow> bool" where
  \<comment> \<open>equal but for the handoff hash\<close>
  "same_report a b \<longleftrightarrow> a = b\<lparr>ar_handoff_sha256 := ar_handoff_sha256 a\<rparr>"

definition firmware_matches :: "reviewed_capture \<Rightarrow> acpi_report option \<Rightarrow> table_files \<Rightarrow> bool res" where
  "firmware_matches rc metadata files =
     bind (pinned rc ''cycle-1/acpi.json'') (\<lambda>text_report.
     let expected = rc_report rc text_report in
     case metadata of None \<Rightarrow> Inr False
     | Some m \<Rightarrow>
         if \<not> same_report m expected then Inr False
         else if set (map fst files) \<noteq> set (map (table_name \<circ> at_address) (ar_tables expected)) then Inr False
         else pinned_files rc files (ar_tables expected))"

record ecam_report =
  ec_armed :: bool
  ec_firmware_matches :: bool
  ec_fault :: bool

definition extract_ecam ::
  "reviewed_capture \<Rightarrow> acpi_report option \<Rightarrow> table_files \<Rightarrow> bool \<Rightarrow> bytes \<Rightarrow> protocol \<Rightarrow>
   (bytes \<times> ecam_report option) res" where
  "extract_ecam rc metadata files bsp_failure raw P =
     (let lines = splitlines raw; indices = own_indices ARM_PREFIX lines;
          scans = own_indices (pr_pci_scan P @ '' '') lines in
      raise_if (lines = [] \<or> \<not> endswith raw NL) ''ECAM capture terminator''
      (let rejected = (last lines = final_line P ''qotom-ecam-arm'');
           fault = (last lines = final_line P ''qotom-ecam-transaction'');
           bsp_rejected = (bsp_failure \<and> last lines = final_line P ''qotom-native-bsp'') in
       if indices = [] then
         raise_if (scans \<noteq> [] \<or> fault \<or> bsp_rejected) ''ECAM scan/fault without arm record''
         (if \<not> rejected then Inr (raw, None)
          else
            raise_if (metadata = None \<or> length lines \<noteq> 6) ''ECAM rejection without complete observations''
            (bind (firmware_matches rc metadata files) (\<lambda>ok.
             Inr (raw, Some \<lparr>ec_armed = False, ec_firmware_matches = ok, ec_fault = False\<rparr>))))
       else
         raise_if (indices \<noteq> [5] \<or> lines ! 5 \<noteq> ARM_LINE) ''missing, repeated or misplaced ECAM arm record''
         (raise_if (rejected \<or> (scans \<noteq> [6] \<and> \<not> ((fault \<or> bsp_rejected) \<and> scans = [] \<and> length lines = 7)))
           ''ECAM arm/scan/terminal ordering''
         (bind (firmware_matches rc metadata files) (\<lambda>ok.
          raise_if (\<not> ok) ''ECAM arm disagrees with captured firmware''
          (Inr (without_line 5 lines,
            Some \<lparr>ec_armed = True, ec_firmware_matches = True, ec_fault = fault\<rparr>)))))))"

section \<open>Properties\<close>

subsection \<open>Removing one line\<close>

lemma without_line_split:
  assumes "i < length lines"
  shows "concat lines = concat (take i lines) @ lines ! i @ concat (drop (Suc i) lines)"
    and "without_line i lines = concat (take i lines) @ concat (drop (Suc i) lines)"
proof -
  from assms have "lines = take i lines @ lines ! i # drop (Suc i) lines" by (rule id_take_nth_drop)
  then show "concat lines = concat (take i lines) @ lines ! i @ concat (drop (Suc i) lines)"
    by (metis concat.simps(2) concat_append)
qed (simp add: without_line_def)

lemma own_indices_at:
  "own_indices label lines = [i] \<Longrightarrow> i < length lines \<and> startswith (lines ! i) label"
  using indices_where_set [of "\<lambda>l. startswith l label" lines] by (auto simp: own_indices_def)

text \<open>
  The contract the decoders of this group share: the stream comes back unchanged and has no record
  of the decoder, or without its only record, which stood at a fixed line.
\<close>

locale line_remover =
  fixes decode :: "bytes \<Rightarrow> protocol \<Rightarrow> (bytes \<times> 'r option) res"
    and label :: bytes and pos :: nat
  assumes effect: "decode raw P = Inr (proj, r) \<Longrightarrow>
      own_indices label (splitlines raw) = [] \<and> proj = raw \<or>
      own_indices label (splitlines raw) = [pos] \<and> proj = without_line pos (splitlines raw)"
begin

lemma removes:
  assumes "decode raw P = Inr (proj, r)"
  obtains (unchanged) "proj = raw" "own_indices label (splitlines raw) = []"
  | (removed) before after where "raw = before @ splitlines raw ! pos @ after" "proj = before @ after"
      "startswith (splitlines raw ! pos) label" "own_indices label (splitlines raw) = [pos]"
proof (cases "own_indices label (splitlines raw) = []")
  case True
  with effect [OF assms] unchanged show ?thesis by auto
next
  case False
  with effect [OF assms] have i: "own_indices label (splitlines raw) = [pos]"
    "proj = without_line pos (splitlines raw)" by auto
  from without_line_split [of pos "splitlines raw"] own_indices_at [OF i(1)] i removed show ?thesis
    by simp
qed

lemma keeps_order: "decode raw P = Inr (proj, r) \<Longrightarrow> subseq proj raw"
proof (erule removes)
  fix before after assume "raw = before @ splitlines raw ! pos @ after" "proj = before @ after"
  moreover have "subseq (before @ after) (before @ splitlines raw ! pos @ after)"
    by (intro list_emb_append_mono list_emb_append2) simp_all
  ultimately show "subseq proj raw" by metis
qed simp

lemma shrinks: "decode raw P = Inr (proj, r) \<Longrightarrow> length proj \<le> length raw"
  by (blast intro: list_emb_length keeps_order)

end

lemma own_line_inside:
  assumes "own_indices label (splitlines raw) \<noteq> []"
  shows "bytes_in label raw"
proof -
  let ?ls = "splitlines raw"
  from assms obtain i where i: "i < length ?ls" "startswith (?ls ! i) label"
    using indices_where_hd [of "\<lambda>l. startswith l label" ?ls] by (auto simp: own_indices_def)
  have "startswith (drop (length (concat (take i ?ls))) raw) label"
    using without_line_split(1) [OF i(1)] i(2)
    by (metis append_eq_conv_conj append_assoc concat_splitlines startswith_iff)
  then show ?thesis
    by (metis bytes_find_None nat_le_linear drop_all drop_eq_Nil2 le_refl)
qed

interpretation trace: line_remover extract_trace TRACE_PREFIX 3
proof
  fix raw P proj r assume "extract_trace raw P = Inr (proj, r)"
  then show "own_indices TRACE_PREFIX (splitlines raw) = [] \<and> proj = raw \<or>
    own_indices TRACE_PREFIX (splitlines raw) = [3] \<and> proj = without_line 3 (splitlines raw)"
    using own_line_inside [of TRACE_PREFIX raw] unfolding extract_trace_def Let_def
    by (cases "own_indices TRACE_PREFIX (splitlines raw)") (auto simp: res_simps split: if_splits)
qed

interpretation bootstrap: line_remover "extract_bootstrap ecam_failure bsp_failure" BOOTSTRAP_PREFIX 3
proof
  fix raw P proj r assume "extract_bootstrap ecam_failure bsp_failure raw P = Inr (proj, r)"
  then show "own_indices BOOTSTRAP_PREFIX (splitlines raw) = [] \<and> proj = raw \<or>
    own_indices BOOTSTRAP_PREFIX (splitlines raw) = [3] \<and> proj = without_line 3 (splitlines raw)"
    unfolding extract_bootstrap_def Let_def by (auto simp: res_simps split: if_splits)
qed

interpretation ecam_memory: line_remover "extract_memory ecam_failure bsp_failure" MEMORY_PREFIX 4
proof
  fix raw P proj r assume "extract_memory ecam_failure bsp_failure raw P = Inr (proj, r)"
  then show "own_indices MEMORY_PREFIX (splitlines raw) = [] \<and> proj = raw \<or>
    own_indices MEMORY_PREFIX (splitlines raw) = [4] \<and> proj = without_line 4 (splitlines raw)"
    unfolding extract_memory_def Let_def by (auto simp: res_simps split: if_splits)
qed

interpretation native_bsp: line_remover "extract_bsp replay metadata files" BSP_PREFIX 6
proof
  fix raw P proj r assume "extract_bsp replay metadata files raw P = Inr (proj, r)"
  then show "own_indices BSP_PREFIX (splitlines raw) = [] \<and> proj = raw \<or>
    own_indices BSP_PREFIX (splitlines raw) = [6] \<and> proj = without_line 6 (splitlines raw)"
    unfolding extract_bsp_def Let_def by (auto simp: res_simps split: if_splits prod.splits)
qed

interpretation ecam: line_remover "extract_ecam rc metadata files bsp_failure" ARM_PREFIX 5
proof
  fix raw P proj r assume "extract_ecam rc metadata files bsp_failure raw P = Inr (proj, r)"
  then show "own_indices ARM_PREFIX (splitlines raw) = [] \<and> proj = raw \<or>
    own_indices ARM_PREFIX (splitlines raw) = [5] \<and> proj = without_line 5 (splitlines raw)"
    unfolding extract_ecam_def Let_def by (auto simp: res_simps split: if_splits)
qed

subsection \<open>What the records establish\<close>

lemma extract_bootstrap_inv:
  assumes "extract_bootstrap ecam_failure bsp_failure raw P = Inr (proj, Some r)"
  obtains edx available v where "own_indices BOOTSTRAP_PREFIX (splitlines raw) = [3]"
    "startswith (splitlines raw ! 2) (pr_control P @ '' '')" "proj = without_line 3 (splitlines raw)" "match_ints ''bootstrap record format'' bootstrap_pattern (splitlines raw ! 3) =
      Inr [edx, available, v]" "edx \<le> 0xffffffff" "v \<le> 0xffffffffffffffff"
    "available = (if edx AND 0x220 = 0x220 then 1 else 0)" "available = 0 \<longrightarrow> v = 0"
    "accepted_edx P (splitlines raw) ''bootstrap CPU/MSR binding'' = Inr edx"
    "endswith (splitlines raw ! 2) ('' readback=1'' @ NL)" "r = bootstrap_report_of edx available v"
  using assms unfolding extract_bootstrap_def Let_def
  by (auto simp: res_simps not_less split: if_splits)

text \<open>
  C28 (functional). A bootstrap sample is accepted only as the fourth line and the only line of its
  label, right after a MSR CONTROL record with a successful readback and in a capture whose CPU record was
  accepted with the sampled feature word.  The line's three numbers are the report: the feature
  word, whether it offers both the APIC and model-specific registers, and the APIC base, which is
  zero when it does not and whose bits 8, 11 and 10 are the BSP and enable flags when it does.  The
  line is removed and nothing else.
\<close>

theorem bootstrap_sample_bound:
  assumes "extract_bootstrap ecam_failure bsp_failure raw P = Inr (proj, Some r)"
  shows "own_indices BOOTSTRAP_PREFIX (splitlines raw) = [3] \<and> proj = without_line 3 (splitlines raw) \<and>
    startswith (splitlines raw ! 2) (pr_control P @ '' '') \<and>
    endswith (splitlines raw ! 2) ('' readback=1'' @ NL) \<and>
    match_ints ''bootstrap record format'' bootstrap_pattern (splitlines raw ! 3) =
      Inr [bs_edx r, if bs_available r then 1 else 0, bs_apic_base r] \<and>
    accepted_edx P (splitlines raw) ''bootstrap CPU/MSR binding'' = Inr (bs_edx r) \<and>
    bs_available r = (bs_edx r AND 0x220 = 0x220) \<and> bs_apic_base r \<le> 0xffffffffffffffff \<and>
    (if bs_available r then bs_bsp r = Some (bs_apic_base r AND 2 ^ 8 \<noteq> 0) \<and>
       bs_apic_enabled r = Some (bs_apic_base r AND 2 ^ 11 \<noteq> 0) \<and>
       bs_x2apic_enabled r = Some (bs_apic_base r AND 2 ^ 10 \<noteq> 0)
     else bs_apic_base r = 0 \<and> bs_bsp r = None \<and> bs_apic_enabled r = None \<and> bs_x2apic_enabled r = None)"
  using assms
  by (rule extract_bootstrap_inv) (auto simp: bootstrap_report_of_def Let_def split: if_splits)

lemma pinned_files_sound:
  "pinned_files rc files ts = Inr True \<Longrightarrow> t \<in> set ts \<Longrightarrow>
     \<exists>data. file_of files (at_address t) = Inr data \<and>
       pinned rc (''cycle-1/acpi/'' @ table_name (at_address t)) = Inr data"
  by (induction ts) (auto simp: res_simps split: if_splits)

lemma pinned_sound: "pinned rc name = Inr raw \<Longrightarrow> rc_read rc name = Inr raw \<and> rc_manifest rc name = Some (sha256_hex raw)"
  by (auto simp: pinned_def res_simps split: option.splits)

lemma firmware_matches_sound:
  assumes "firmware_matches rc metadata files = Inr True"
  obtains m report where "metadata = Some m" "pinned rc ''cycle-1/acpi.json'' = Inr report" "same_report m (rc_report rc report)"
    "set (map fst files) = set (map (table_name \<circ> at_address) (ar_tables (rc_report rc report)))"
    "pinned_files rc files (ar_tables (rc_report rc report)) = Inr True"
  using assms unfolding firmware_matches_def Let_def by (auto simp: res_simps split: option.splits if_splits)

lemma extract_ecam_armed:
  assumes "extract_ecam rc metadata files bsp_failure raw P = Inr (proj, Some r)" "ec_armed r"
  shows "firmware_matches rc metadata files = Inr True" "own_indices ARM_PREFIX (splitlines raw) = [5]" "splitlines raw ! 5 = ARM_LINE"
  using assms unfolding extract_ecam_def Let_def by (auto simp: res_simps split: if_splits)

text \<open>
  C26 (safety). The ECAM window is reported as armed only when the stream's sixth line, and no other, is the
  arm record and the firmware of the same capture is the reviewed one: its ACPI report equals, the
  loader's handoff hash aside, the report in the reviewed acpi.json, whose hash the manifest pins; its
  files are exactly the tables of that report; and each of them is byte for byte the reviewed file of
  that table, whose hash the manifest pins.
\<close>

theorem ecam_arm_reviewed:
  assumes "extract_ecam rc metadata files bsp_failure raw P = Inr (proj, Some r)" "ec_armed r"
  shows "\<exists>m report. let reviewed = rc_report rc report in
    own_indices ARM_PREFIX (splitlines raw) = [5] \<and> splitlines raw ! 5 = ARM_LINE \<and> metadata = Some m \<and>
    rc_read rc ''cycle-1/acpi.json'' = Inr report \<and> rc_manifest rc ''cycle-1/acpi.json'' = Some (sha256_hex report) \<and>
    same_report m reviewed \<and> set (map fst files) = set (map (table_name \<circ> at_address) (ar_tables reviewed)) \<and>
    (\<forall>t\<in>set (ar_tables reviewed). \<exists>data. file_of files (at_address t) = Inr data \<and>
      rc_read rc (''cycle-1/acpi/'' @ table_name (at_address t)) = Inr data \<and>
      rc_manifest rc (''cycle-1/acpi/'' @ table_name (at_address t)) = Some (sha256_hex data))"
proof -
  from extract_ecam_armed(1) [OF assms] obtain m report where m: "metadata = Some m"
    "pinned rc ''cycle-1/acpi.json'' = Inr report" "same_report m (rc_report rc report)"
    "set (map fst files) = set (map (table_name \<circ> at_address) (ar_tables (rc_report rc report)))"
    "pinned_files rc files (ar_tables (rc_report rc report)) = Inr True"
    by (rule firmware_matches_sound)
  have "\<exists>data. file_of files (at_address t) = Inr data \<and>
      rc_read rc (''cycle-1/acpi/'' @ table_name (at_address t)) = Inr data \<and>
      rc_manifest rc (''cycle-1/acpi/'' @ table_name (at_address t)) = Some (sha256_hex data)"
    if "t \<in> set (ar_tables (rc_report rc report))" for t
    using pinned_files_sound [OF m(5) that] pinned_sound by blast
  with m pinned_sound [OF m(2)] extract_ecam_armed(2,3) [OF assms] show ?thesis
    by (intro exI [of _ m]) (auto simp: Let_def)
qed

lemma extract_bsp_inv:
  assumes "extract_bsp replay metadata files raw P = Inr (proj, Some r)"
  obtains acpi table data where "metadata = Some acpi"
    "selected_madt acpi files (bp_observation r) = Inr (table, data)"
    "br_check replay data (bsp_arguments (bp_observation r)) = Inr (bsp_expected (bp_observation r))"
    "bp_observation r ! 7 = 0 \<longleftrightarrow> last (splitlines raw) \<noteq> final_line P ''qotom-native-bsp''"
    "splitlines raw ! 5 = ARM_LINE" "bp_madt_sha256 r = at_sha256 table"
proof (cases "splitlines raw = []")
  case True
  then show ?thesis using assms by (simp add: extract_bsp_def own_indices_def indices_where_Nil res_simps)
next
  case False
  then show ?thesis using that assms unfolding extract_bsp_def Let_def
    by (auto simp: res_simps split: if_splits prod.splits)
qed

lemma selected_madt_sound:
  assumes "selected_madt acpi files vs = Inr (table, data)"
  shows "filter (\<lambda>t. at_signature t = tohex ''APIC'') (tl (ar_tables acpi)) = [table]"
    "file_of files (at_address table) = Inr data" "sha256_hex data = at_sha256 table"
    "vs ! 0 = at_address table" "vs ! 1 = at_length table" "int (length data) = at_length table"
  using assms unfolding selected_madt_def by (auto simp: res_simps split: list.splits)

text \<open>
  C27 (equivalence). The native BSP result is the one the generated replay computes from the recorded
  arguments and the bytes of the only MADT in the root's list, whose address, length and hash the
  record and the ACPI report agree on; and the capture ends with the BSP rejection exactly when the
  recorded status is not zero.
\<close>

theorem bsp_record_replayed:
  assumes "extract_bsp replay metadata files raw P = Inr (proj, Some r)"
  shows "\<exists>acpi table data. metadata = Some acpi \<and>
    filter (\<lambda>t. at_signature t = tohex ''APIC'') (tl (ar_tables acpi)) = [table] \<and>
    file_of files (at_address table) = Inr data \<and> sha256_hex data = at_sha256 table \<and>
    bp_observation r ! 0 = at_address table \<and> bp_observation r ! 1 = int (length data) \<and>
    br_check replay data (bsp_arguments (bp_observation r)) = Inr (bsp_expected (bp_observation r)) \<and>
    (bp_observation r ! 7 = 0 \<longleftrightarrow> last (splitlines raw) \<noteq> final_line P ''qotom-native-bsp'')"
  using assms
proof (rule extract_bsp_inv)
  fix acpi table data
  assume s: "selected_madt acpi files (bp_observation r) = Inr (table, data)"
    and a: "metadata = Some acpi"
      "br_check replay data (bsp_arguments (bp_observation r)) = Inr (bsp_expected (bp_observation r))"
      "bp_observation r ! 7 = 0 \<longleftrightarrow> last (splitlines raw) \<noteq> final_line P ''qotom-native-bsp''"
  show ?thesis
    by (rule exI [of _ acpi], rule exI [of _ table], rule exI [of _ data])
      (use a selected_madt_sound [OF s] in simp)
qed

end
