(* ===== verification/Chain.thy ===== *)
theory Chain
  imports Checkpoints
begin

text \<open>
  What the whole chain of stages establishes.  Every stage hands its caller a capture cut before
  its own records; descending through the contracts of the stages, an accepted final PCI
  observation leads to an accepted, successful report of every device stage, each decoded from a
  prefix of the same capture.
\<close>

unbundle bit_operations_syntax

subsection \<open>Successful clears\<close>

definition cleared ::
  "(bytes \<Rightarrow> protocol \<Rightarrow> (bytes \<times> 'a bme_report_scheme option) res) \<Rightarrow> protocol \<Rightarrow> bytes \<Rightarrow> int \<Rightarrow> bool" where
  \<comment> \<open>the stage accepts a prefix of the capture and reports that a write took the Command register
    from \<open>after\<close> with Bus Master Enable to \<open>after\<close>, which has it clear\<close>
  "cleared decode P raw after \<longleftrightarrow> (\<exists>c proj r. truncation P raw c \<and> decode c P = Inr (proj, Some r) \<and>
     rep_status r = 0 \<and> bme_attempted r = 1 \<and> bme_before r = (after OR 4) \<and> bme_after r = after \<and>
     after AND 4 = 0)"

definition ports_cleared ::
  "(bytes \<Rightarrow> protocol \<Rightarrow> (bytes \<times> ports_report option) res) \<Rightarrow> protocol \<Rightarrow> bytes \<Rightarrow> int list \<Rightarrow> int \<Rightarrow> bool" where
  "ports_cleared decode P raw indices after \<longleftrightarrow>
     (\<exists>c proj r. truncation P raw c \<and> decode c P = Inr (proj, Some r) \<and>
      map pb_index (ports_functions r) = indices \<and> after AND 4 = 0 \<and>
      (\<forall>f\<in>set (ports_functions r). pb_status f = 0 \<and> pb_attempted f = 1 \<and>
         pb_before f = (after OR 4) \<and> pb_after f = after))"

lemma bme_stage_success:
  assumes "run_decoder (status_stage bounds prefix reason missing order prev without
      (bme_judge head index mx stopped msg untouched on off schema reason)) raw P = Inr (proj, Some r)"
    and "rep_status r = 0" "0 \<notin> set untouched"
  shows "bme_attempted r = 1" "bme_before r = on" "bme_after r = off"
    and "\<exists>prior p. prev proj P = Inr (prior, Some p) \<and> rep_status p = 0 \<and> stopped p"
proof -
  obtain prior p indices where
    p: "prev proj P = Inr (prior, Some p)" "rep_status p = 0"
    and j: "bme_judge head index mx stopped msg untouched on off schema reason P (splitlines raw) indices ()
      proj prior p = Inr r"
    using assms(1) by (rule status_stage_SomeE)
  from bme_judge_cleared [OF j assms(2,3)] p
  show "bme_attempted r = 1" "bme_before r = on" "bme_after r = off"
    "\<exists>prior p. prev proj P = Inr (prior, Some p) \<and> rep_status p = 0 \<and> stopped p" by blast+
qed

lemma ehci_bme_success:
  assumes "extract_ehci_bme raw P = Inr (proj, Some r)" "rep_status r = 0"
  shows "bme_attempted r = 1" "bme_before r = 0x406" "bme_after r = 0x402"
    "\<exists>prior p. extract_ehci_operational proj P = Inr (prior, Some p) \<and> rep_status p = 0 \<and> ehci_stopped p"
  using bme_stage_success [OF assms(1) [unfolded extract_ehci_bme_def] assms(2)] by simp_all

lemma xhci_bme_success:
  assumes "extract_xhci_bme raw P = Inr (proj, Some r)" "rep_status r = 0"
  shows "bme_attempted r = 1" "bme_before r = 0x6" "bme_after r = 0x2"
    "\<exists>prior p. extract_xhci_operational proj P = Inr (prior, Some p) \<and> rep_status p = 0 \<and> xhci_stopped p"
  using bme_stage_success [OF assms(1) [unfolded extract_xhci_bme_def] assms(2)] by simp_all

lemma ahci_bme_success:
  assumes "extract_ahci_bme raw P = Inr (proj, Some r)" "rep_status r = 0"
  shows "bme_attempted r = 1" "bme_before r = 0x7" "bme_after r = 0x3"
    "\<exists>prior p. extract_ahci_interrupt proj P = Inr (prior, Some p) \<and> rep_status p = 0 \<and> interrupts_masked p"
  using bme_stage_success [OF assms(1) [unfolded extract_ahci_bme_def] assms(2)] by simp_all

lemma hda_bme_success:
  assumes "extract_hda_bme raw P = Inr (proj, Some r)" "rep_status r = 0"
  shows "bme_attempted r = 1" "bme_before r = 0x6" "bme_after r = 0x2"
    "\<exists>prior p. extract_hda_state proj P = Inr (prior, Some p) \<and> rep_status p = 0 \<and> hda_stopped p"
  using bme_stage_success [OF assms(1) [unfolded extract_hda_bme_def] assms(2)] by simp_all

lemma host_bme_judge_success:
  assumes "host_bme_judge u on off m1 m2 schema reason pres claims P lines indices s proj prior p = Inr r"
    and "rep_status r = 0" "0 \<notin> set u"
  shows "bme_attempted r = 1 \<and> bme_before r = on \<and> bme_after r = off"
proof -
  from assms(1) have v: "host_bme_valid u on off s" and r: "rep_status r = pb_status s"
      "bme_attempted r = pb_attempted s" "bme_before r = pb_before s" "bme_after r = pb_after s"
    unfolding host_bme_judge_def by (auto simp: res_simps)
  then show ?thesis using assms(2,3) unfolding host_bme_valid_def by simp
qed

lemma graphics_bme_success:
  assumes "extract_graphics_bme raw P = Inr (proj, Some r)" "rep_status r = 0"
  shows "bme_attempted r = 1" "bme_before r = 7" "bme_after r = 3"
  using assms unfolding extract_graphics_bme_def
  by (auto elim!: run_decoder_SomeE simp: graphics_bme_decoder_def dest!: host_bme_judge_success)

lemma txe_bme_success:
  assumes "extract_txe_bme raw P = Inr (proj, Some r)" "rep_status r = 0"
  shows "bme_attempted r = 1" "bme_before r = 0x106" "bme_after r = 0x102"
  using assms unfolding extract_txe_bme_def
  by (auto elim!: run_decoder_SomeE simp: txe_bme_decoder_def dest!: host_bme_judge_success)

subsection \<open>Several ports\<close>

lemma read_rootports_sound:
  assumes "read_rootports P lines slot ps = Inr fs"
  shows "length fs = length ps \<and> map pb_index fs = map (\<lambda>i. 6 + int (slot + i)) [0..<length ps] \<and>
    (\<forall>f\<in>set (butlast fs). pb_status f = 0) \<and>
    (\<forall>f\<in>set fs. pb_status f = 0 \<longrightarrow> pb_attempted f = 1 \<and> pb_before f = 7 \<and> pb_after f = 3)"
  using assms
proof (induction ps arbitrary: slot fs)
  case Nil
  then show ?case by simp
next
  case (Cons position rest)
  from Cons.prems obtain index status attempted before after gs where
    i: "index = 6 + int slot" and v: "rootport_valid status attempted before after"
    and s: "status \<noteq> 0 \<longrightarrow> rest = []"
    and rd: "read_rootports P lines (Suc slot) rest = Inr gs"
    and fs: "fs = \<lparr>pb_index = index, pb_status = status, pb_attempted = attempted, pb_before = before,
       pb_after = after\<rparr> # gs"
    unfolding read_rootports.simps by (elim res_elims) (rule that, (assumption | force)+)
  note IH = Cons.IH [OF rd]
  have "[0..<length (position # rest)] = 0 # map Suc [0..<length rest]"
    by (simp only: length_Cons map_Suc_upt upt_conv_Cons [of 0 "Suc (length rest)"] zero_less_Suc)
  moreover have "status = 0 \<longrightarrow> attempted = 1 \<and> before = 7 \<and> after = 3"
    using v by (auto simp: rootport_valid_def)
  ultimately show ?case using IH i s fs by (auto simp: comp_def simp del: upt_Suc)
qed

lemma read_realtek_bme_sound:
  assumes "read_realtek_bme lines slot ps = Inr fs"
  shows "length fs = length ps \<and> map pb_index fs = map (\<lambda>i. 13 + int (slot + i) * 2) [0..<length ps] \<and>
    (\<forall>f\<in>set (butlast fs). pb_status f = 0) \<and>
    (\<forall>f\<in>set fs. pb_status f = 0 \<longrightarrow> pb_attempted f = 1 \<and> pb_before f = 7 \<and> pb_after f = 3)"
  using assms
proof (induction ps arbitrary: slot fs)
  case Nil
  then show ?case by simp
next
  case (Cons position rest)
  from Cons.prems obtain index status attempted before after gs where
    i: "index = 13 + int slot * 2" and v: "bme_valid [3, 4, 5, 9, 10] 7 3 status attempted before after"
    and s: "status \<noteq> 0 \<longrightarrow> rest = []"
    and rd: "read_realtek_bme lines (Suc slot) rest = Inr gs"
    and fs: "fs = \<lparr>pb_index = index, pb_status = status, pb_attempted = attempted, pb_before = before,
       pb_after = after\<rparr> # gs"
    unfolding read_realtek_bme.simps by (elim res_elims) (rule that, (assumption | force)+)
  note IH = Cons.IH [OF rd]
  have "[0..<length (position # rest)] = 0 # map Suc [0..<length rest]"
    by (simp only: length_Cons map_Suc_upt upt_conv_Cons [of 0 "Suc (length rest)"] zero_less_Suc)
  moreover have "status = 0 \<longrightarrow> attempted = 1 \<and> before = 7 \<and> after = 3"
    using v by (auto simp: bme_valid_def)
  ultimately show ?case using IH i s fs by (auto simp: comp_def simp del: upt_Suc)
qed

lemma rootport_success:
  assumes "extract_rootport_bme raw P = Inr (proj, Some r)" "clear_count 4 r"
  shows "map pb_index (ports_functions r) = [6, 7, 8, 9]"
    "\<forall>f\<in>set (ports_functions r). pb_status f = 0 \<and> pb_attempted f = 1 \<and> pb_before f = 7 \<and> pb_after f = 3"
proof -
  from assms(1) obtain lines ps where rd: "read_rootports P lines 0 ps = Inr (ports_functions r)"
    unfolding extract_rootport_bme_def
    by (elim run_decoder_SomeE) (auto simp: rootport_judge_def Let_def res_simps)
  from assms(2) have "length (ports_functions r) = 4" "\<forall>f\<in>set (ports_functions r). pb_status f = 0"
    by (auto simp: clear_count_def all_clear_def list_all_iff)
  with read_rootports_sound [OF rd]
  show "map pb_index (ports_functions r) = [6, 7, 8, 9]"
    "\<forall>f\<in>set (ports_functions r). pb_status f = 0 \<and> pb_attempted f = 1 \<and> pb_before f = 7 \<and> pb_after f = 3"
    by (auto simp: upt_rec)
qed

lemma realtek_bme_success:
  assumes "extract_realtek_bme raw P = Inr (proj, Some r)" "clear_count 2 r"
  shows "map pb_index (ports_functions r) = [13, 15]"
    "\<forall>f\<in>set (ports_functions r). pb_status f = 0 \<and> pb_attempted f = 1 \<and> pb_before f = 7 \<and> pb_after f = 3"
proof -
  from assms(1) obtain lines ps where rd: "read_realtek_bme lines 0 ps = Inr (ports_functions r)"
    unfolding extract_realtek_bme_def
    by (elim run_decoder_SomeE) (auto simp: realtek_bme_judge_def Let_def res_simps)
  from assms(2) have "length (ports_functions r) = 2" "\<forall>f\<in>set (ports_functions r). pb_status f = 0"
    by (auto simp: clear_count_def all_clear_def list_all_iff)
  with read_realtek_bme_sound [OF rd]
  show "map pb_index (ports_functions r) = [13, 15]"
    "\<forall>f\<in>set (ports_functions r). pb_status f = 0 \<and> pb_attempted f = 1 \<and> pb_before f = 7 \<and> pb_after f = 3"
    by (auto simp: upt_rec)
qed

text \<open>A report whose reason is pending is complete.\<close>

lemma rootport_ok:
  assumes "extract_rootport_bme raw P = Inr (proj, Some r)" "clear_count 4 r"
  shows "reason_pending r"
proof -
  have "rep_reason r = reason_if (pb_status (last (ports_functions r)) \<noteq> 0) ROOTPORT_REASON"
    using assms(1) unfolding extract_rootport_bme_def
    by (elim run_decoder_SomeE) (simp add: rootport_judge_def Let_def res_simps, force)
  moreover have "ports_functions r \<noteq> []" "\<forall>f\<in>set (ports_functions r). pb_status f = 0"
    using assms(2) by (auto simp: clear_count_def all_clear_def list_all_iff)
  ultimately show ?thesis by (simp add: reason_pending_def)
qed

lemma realtek_state_ok:
  assumes "extract_realtek_state raw P = Inr (proj, Some r)" "realtek_both_ok r"
  shows "reason_pending r"
proof -
  have "rep_reason r = reason_if (rt_status (last (realtek_functions r)) \<noteq> 0) REALTEK_STATE_REASON"
    using assms(1) unfolding extract_realtek_state_def
    by (elim run_decoder_SomeE) (simp add: realtek_state_judge_def Let_def res_simps, force)
  moreover have "realtek_functions r \<noteq> []" "\<forall>f\<in>set (realtek_functions r). rt_status f = 0"
    using assms(2) by (auto simp: realtek_both_ok_def list_all_iff)
  ultimately show ?thesis by (simp add: reason_pending_def)
qed

lemma realtek_bme_ok:
  assumes "extract_realtek_bme raw P = Inr (proj, Some r)" "clear_count 2 r"
  shows "reason_pending r"
proof -
  have "rep_reason r = reason_if (pb_status (last (ports_functions r)) \<noteq> 0) REALTEK_BME_REASON"
    using assms(1) unfolding extract_realtek_bme_def
    by (elim run_decoder_SomeE) (simp add: realtek_bme_judge_def Let_def res_simps, force)
  moreover have "ports_functions r \<noteq> []" "\<forall>f\<in>set (ports_functions r). pb_status f = 0"
    using assms(2) by (auto simp: clear_count_def all_clear_def list_all_iff)
  ultimately show ?thesis by (simp add: reason_pending_def)
qed

lemma pcie_pending_ok:
  assumes "extract_pcie_pending raw P = Inr (proj, Some r)" "pending_all_quiet r"
  shows "reason_pending r"
proof -
  have "rep_reason r = reason_if (pp_status (last (pending_functions r)) \<noteq> 0) PCIE_PENDING_REASON"
    using assms(1) unfolding extract_pcie_pending_def
    by (elim run_decoder_SomeE) (simp add: pending_judge_def Let_def res_simps, force)
  moreover have "pending_functions r \<noteq> []" "\<forall>f\<in>set (pending_functions r). pp_status f = 0"
    using assms(2) by (auto simp: pending_all_quiet_def list_all_iff)
  ultimately show ?thesis by (simp add: reason_pending_def)
qed

subsection \<open>Descending the chain\<close>

lemma reached_cleared:
  assumes "reached decode status_zero P raw"
    and "\<And>c proj r. decode c P = Inr (proj, Some r) \<Longrightarrow> rep_status r = 0 \<Longrightarrow>
      bme_attempted r = 1 \<and> bme_before r = (after OR 4) \<and> bme_after r = after"
    and "after AND 4 = 0"
  shows "cleared decode P raw after"
  using assms unfolding reached_def cleared_def status_zero_def by blast

lemma reached_ports_cleared:
  assumes "reached decode (clear_count n) P raw"
    and "\<And>c proj r. decode c P = Inr (proj, Some r) \<Longrightarrow> clear_count n r \<Longrightarrow>
      map pb_index (ports_functions r) = indices \<and> (\<forall>f\<in>set (ports_functions r).
        pb_status f = 0 \<and> pb_attempted f = 1 \<and> pb_before f = 7 \<and> pb_after f = 3)"
  shows "ports_cleared decode P raw indices 3"
  using assms unfolding reached_def ports_cleared_def by (simp, blast)

text \<open>The stages below the TXE write, each with the report its caller requires.\<close>

lemma reached_graphics_bme:
  "reached extract_txe_bme status_zero P raw \<Longrightarrow> reached extract_graphics_bme status_zero P raw"
  by (drule txe_bme.reach, erule reached_mono) (simp add: graphics_cleared_def status_zero_def)

lemma reached_graphics_state:
  "reached extract_graphics_bme status_zero P raw \<Longrightarrow> reached extract_graphics_state graphics_quiet P raw"
  by (rule graphics_bme.reach)

lemma reached_broadcom_d3:
  "reached extract_graphics_state graphics_quiet P raw \<Longrightarrow> reached extract_broadcom_d3 graphics_ready P raw"
  by (rule graphics_state.reach, erule reached_mono) (simp add: graphics_quiet_def status_zero_def)

lemma reached_pcie_pending:
  "reached extract_broadcom_d3 graphics_ready P raw \<Longrightarrow> reached extract_pcie_pending pending_all_quiet P raw"
  by (rule broadcom_d3.reach, erule reached_mono) (simp add: graphics_ready_def status_zero_def)

lemma reached_realtek_bme:
  "reached extract_pcie_pending pending_all_quiet P raw \<Longrightarrow> reached extract_realtek_bme (clear_count 2) P raw"
  by (rule pcie_pending.reach, erule reached_mono) (rule pcie_pending_ok)

lemma reached_realtek_state:
  "reached extract_realtek_bme (clear_count 2) P raw \<Longrightarrow> reached extract_realtek_state realtek_both_ok P raw"
  by (rule realtek_bme.reach, erule reached_mono) (rule realtek_bme_ok)

lemma reached_rootport:
  "reached extract_realtek_state realtek_both_ok P raw \<Longrightarrow> reached extract_rootport_bme (clear_count 4) P raw"
  by (rule realtek_state.reach, erule reached_mono) (rule realtek_state_ok)

lemma reached_txe_status:
  "reached extract_rootport_bme (clear_count 4) P raw \<Longrightarrow> reached extract_txe_status status_zero P raw"
  by (rule rootport.reach, erule reached_mono) (rule rootport_ok)

lemma reached_sata_audio:
  assumes "reached extract_txe_status status_zero P raw"
  shows "reached extract_hda_bme status_zero P raw" "reached extract_hda_state status_zero P raw"
    "reached extract_hda status_zero P raw" "reached extract_ahci_bme status_zero P raw"
    "reached extract_ahci_interrupt status_zero P raw" "reached extract_ahci_port status_zero P raw"
    "reached extract_ahci_caps status_zero P raw" "reached extract_pcie_device reason_pending P raw"
proof -
  note 1 = txe_status.reach [OF assms]
  note 2 = hda_bme.reach [OF 1] and 3 = hda_state.reach [OF hda_bme.reach [OF 1]]
  note 4 = hda.reach [OF 3]
  note 5 = ahci_bme.reach [OF 4]
  note 6 = ahci_interrupt.reach [OF 5]
  note 7 = ahci_port.reach [OF 6]
  note 8 = ahci_caps.reach [OF 7]
  show "reached extract_hda_bme status_zero P raw" "reached extract_hda_state status_zero P raw"
    "reached extract_hda status_zero P raw" "reached extract_ahci_bme status_zero P raw"
    "reached extract_ahci_interrupt status_zero P raw" "reached extract_ahci_port status_zero P raw"
    "reached extract_ahci_caps status_zero P raw" "reached extract_pcie_device reason_pending P raw"
    by (fact 1 2 3 4 5 6 7 8)+
qed

lemma reached_usb:
  assumes "reached extract_pcie_device reason_pending P raw"
  shows "reached extract_xhci_bme status_zero P raw" "reached extract_xhci_operational status_zero P raw"
    "reached extract_xhci_smi status_zero P raw" "reached extract_xhci_handoff status_zero P raw"
    "reached extract_xhci_legacy status_zero P raw" "reached extract_xhci_caps status_zero P raw"
    "reached extract_ehci_bme status_zero P raw" "reached extract_ehci_operational status_zero P raw"
    "reached extract_ehci_smi status_zero P raw" "reached extract_ehci_handoff status_zero P raw"
    "reached extract_ehci_legacy status_zero P raw" "reached extract_ehci_caps status_zero P raw"
    "reached extract_af reason_pending P raw" "reached extract_pci_caps reason_pending P raw"
proof -
  note 1 = pcie_device.reach [OF assms]
  note 2 = xhci_bme.reach [OF 1]
  note 3 = xhci_operational.reach [OF 2]
  note 4 = xhci_smi.reach [OF 3]
  note 5 = xhci_handoff.reach [OF 4]
  note 6 = xhci_legacy.reach [OF 5]
  note 7 = xhci_caps.reach [OF 6]
  note 8 = ehci_bme.reach [OF 7]
  note 9 = ehci_operational.reach [OF 8]
  note 10 = ehci_smi.reach [OF 9]
  note 11 = ehci_handoff.reach [OF 10]
  note 12 = ehci_legacy.reach [OF 11]
  note 13 = ehci_caps.reach [OF 12]
  note 14 = pci_af.reach [OF 13]
  show "reached extract_xhci_bme status_zero P raw" "reached extract_xhci_operational status_zero P raw"
    "reached extract_xhci_smi status_zero P raw" "reached extract_xhci_handoff status_zero P raw"
    "reached extract_xhci_legacy status_zero P raw" "reached extract_xhci_caps status_zero P raw"
    "reached extract_ehci_bme status_zero P raw" "reached extract_ehci_operational status_zero P raw"
    "reached extract_ehci_smi status_zero P raw" "reached extract_ehci_handoff status_zero P raw"
    "reached extract_ehci_legacy status_zero P raw" "reached extract_ehci_caps status_zero P raw"
    "reached extract_af reason_pending P raw" "reached extract_pci_caps reason_pending P raw"
    by (fact 1 2 3 4 5 6 7 8 9 10 11 12 13 14)+
qed

lemma reached_from_final:
  assumes "extract_pci_final raw P trust = Inr (proj, r)"
  shows "reached extract_txe_bme status_zero P raw"
  using assms
proof (rule extract_pci_final_SomeE)
  fix prior p
  let ?ls = "splitlines raw"
  assume proj: "proj = concat (take (length ?ls - 2) ?ls) @ pending_line P"
    and "extract_txe_bme proj P = Inr (prior, Some p)" "pci_final_ready p"
  moreover have "raw = concat (take (length ?ls - 2) ?ls) @ concat (drop (length ?ls - 2) ?ls)"
    by (metis append_take_drop_id concat_append concat_splitlines)
  then have "truncation P raw proj" unfolding truncation_def proj by blast
  ultimately show ?thesis
    unfolding reached_def by (auto simp: pci_final_ready_def status_zero_def)
qed

definition final_device :: "protocol \<Rightarrow> bytes \<Rightarrow> int list \<Rightarrow> bool" where
  \<comment> \<open>every function whose Bus Master Enable the kernel clears, with its entry of the final
    Command vector\<close>
  "final_device P raw commands \<longleftrightarrow>
     cleared extract_graphics_bme P raw (commands ! 1) \<and>
     cleared extract_ahci_bme P raw (commands ! 2) \<and>
     cleared extract_xhci_bme P raw (commands ! 3) \<and>
     cleared extract_txe_bme P raw (commands ! 4) \<and>
     cleared extract_hda_bme P raw (commands ! 5) \<and>
     ports_cleared extract_rootport_bme P raw [6, 7, 8, 9] 3 \<and> take 4 (drop 6 commands) = [3, 3, 3, 3] \<and>
     cleared extract_ehci_bme P raw (commands ! 10) \<and>
     ports_cleared extract_realtek_bme P raw [13, 15] 3 \<and> commands ! 13 = 3 \<and> commands ! 15 = 3 \<and>
     reached extract_broadcom_d3 (\<lambda>d. rep_status d = 0 \<and> d3r_after (d3_record d) = commands ! 14 \<and>
       d3_d3hot d) P raw"

lemma d3_success:
  assumes "extract_broadcom_d3 raw P = Inr (proj, Some r)" "graphics_ready r"
  shows "rep_status r = 0 \<and> d3r_after (d3_record r) = 0 \<and> d3_d3hot r"
proof -
  from assms(1) have "d3_d3hot r = d3_done (d3_record r)"
    unfolding extract_broadcom_d3_def by (elim run_decoder_SomeE) (auto simp: d3_judge_def res_simps)
  with assms(2) show ?thesis
    by (simp add: graphics_ready_def d3_done_def pending_done_def command_done_def)
qed

lemma final_device_accepted:
  assumes "extract_pci_final raw P trust = Inr (proj, r)"
  shows "final_device P raw (pf_commands r)"
proof -
  have c: "pf_commands r = FINAL_COMMANDS"
    using assms by (rule extract_pci_final_SomeE) (simp add: pci_final_report_of_def)
  note txe = reached_from_final [OF assms]
  note gfx = reached_graphics_bme [OF txe]
  note d3 = reached_broadcom_d3 [OF reached_graphics_state [OF gfx]]
  note rtb = reached_realtek_bme [OF reached_pcie_pending [OF d3]]
  note rp = reached_rootport [OF reached_realtek_state [OF rtb]]
  note sata = reached_sata_audio [OF reached_txe_status [OF rp]]
  note usb = reached_usb [OF sata(8)]
  have "cleared extract_graphics_bme P raw 3"
    by (rule reached_cleared [OF gfx]) (simp_all add: graphics_bme_success)
  moreover have "cleared extract_ahci_bme P raw 3"
    by (rule reached_cleared [OF sata(4)]) (simp_all add: ahci_bme_success)
  moreover have "cleared extract_xhci_bme P raw 2"
    by (rule reached_cleared [OF usb(1)]) (simp_all add: xhci_bme_success)
  moreover have "cleared extract_txe_bme P raw 258"
    by (rule reached_cleared [OF txe]) (simp_all add: txe_bme_success)
  moreover have "cleared extract_hda_bme P raw 2"
    by (rule reached_cleared [OF sata(1)]) (simp_all add: hda_bme_success)
  moreover have "cleared extract_ehci_bme P raw 1026"
    by (rule reached_cleared [OF usb(7)]) (simp_all add: ehci_bme_success)
  moreover have "ports_cleared extract_rootport_bme P raw [6, 7, 8, 9] 3"
    by (rule reached_ports_cleared [OF rp]) (simp add: rootport_success)
  moreover have "ports_cleared extract_realtek_bme P raw [13, 15] 3"
    by (rule reached_ports_cleared [OF rtb]) (simp add: realtek_bme_success)
  moreover have "reached extract_broadcom_d3
      (\<lambda>d. rep_status d = 0 \<and> d3r_after (d3_record d) = 0 \<and> d3_d3hot d) P raw"
    using d3 by (rule reached_mono) (rule d3_success)
  ultimately show ?thesis by (simp add: final_device_def c FINAL_COMMANDS_def)
qed

text \<open>
  C2.  When the final PCI observation is accepted, the same capture holds, for every function
  whose Bus Master Enable the kernel clears, an accepted and successful report of that
  function's own stage, decoded from a prefix of the capture; the write was attempted, it
  started from the final Command with bit 2 set and ended in exactly the Command that the
  final rescan reports for the function, which has bit 2 clear.  The Broadcom function ended in
  D3hot with its Command register zero.
\<close>

theorem final_commands_cleared:
  assumes "extract_pci_final raw P trust = Inr (proj, r)"
  shows "final_device P raw (pf_commands r)"
  using assms by (rule final_device_accepted)

end
