(* ===== verification/Pipeline.thy ===== *)
theory Pipeline
  imports Capture_Log Diagnostics Lab_Records Chain
begin

text \<open>
  The classification of a protected lab run (\<^verbatim>\<open>classify_cpu_protected\<close> of
  \<^verbatim>\<open>scripts/run-qotom-recovery-lab.py\<close>): the requirements between its options, the decoders in the
  order in which they consume the diagnostic stream, the replay of what remains, and the reason and
  scope of the result.  An option is a keyword argument, given by its name.  Of a stage report the
  result keeps the entries every report has (schema, reason and constant claims).
\<close>

type_synonym options = "string \<Rightarrow> bool"

subsection \<open>Requirements between options\<close>

fun check_requirements :: "options \<Rightarrow> (string \<times> string \<times> string) list \<Rightarrow> unit res" where
  \<comment> \<open>\<^verbatim>\<open>if option and not needed: raise ValueError(message)\<close>, one after the other\<close>
  "check_requirements on [] = Inr ()"
| "check_requirements on ((option, needed, msg) # rest) =
     raise_if (on option \<and> \<not> on needed) msg (check_requirements on rest)"

definition STAGE_REQUIREMENTS :: "(string \<times> string \<times> string) list" where
  "STAGE_REQUIREMENTS =
    [(''pci_trust_contract'', ''pci_final_admission'', ''--pci-trust-contract requires --pci-final-admission''),
     (''copy_root_publication'', ''nosmap_control'', ''--copy-root-publication requires --nosmap-control''),
     (''entry_integration'', ''copy_root_publication'', ''--entry-integration requires --copy-root-publication''),
     (''exception_integration'', ''entry_integration'', ''--exception-integration requires --entry-integration''),
     (''blocking_ipc_integration'', ''exception_integration'', ''--blocking-ipc-integration requires --exception-integration''),
     (''nosmap_control'', ''pci_trust_contract'', ''--nosmap-control requires --pci-trust-contract''),
     (''txe_bme'', ''graphics_bme'', ''--txe-bme requires --graphics-bme''),
     (''graphics_bme'', ''graphics_state'', ''--graphics-bme requires --graphics-state''),
     (''graphics_state'', ''broadcom_d3'', ''--graphics-state requires --broadcom-d3''),
     (''broadcom_d3'', ''pcie_pending'', ''--broadcom-d3 requires --pcie-pending''),
     (''pcie_pending'', ''realtek_bme'', ''--pcie-pending requires --realtek-bme''),
     (''realtek_bme'', ''realtek_state'', ''--realtek-bme requires --realtek-state''),
     (''realtek_state'', ''rootport_bme'', ''--realtek-state requires --rootport-bme''),
     (''rootport_bme'', ''txe_status'', ''--rootport-bme requires --txe-status''),
     (''txe_status'', ''hda_bme'', ''--txe-status requires --hda-bme''),
     (''hda_bme'', ''hda_state'', ''--hda-bme requires --hda-state''),
     (''hda_state'', ''hda_observation'', ''--hda-state requires --hda-observation''),
     (''hda_observation'', ''ahci_bme'', ''--hda-observation requires --ahci-bme''),
     (''ahci_bme'', ''ahci_interrupts'', ''--ahci-bme requires --ahci-interrupts''),
     (''ahci_interrupts'', ''ahci_port'', ''--ahci-interrupts requires --ahci-port''),
     (''ahci_port'', ''ahci_capabilities'', ''--ahci-port requires --ahci-capabilities''),
     (''ahci_capabilities'', ''pcie_device_observation'', ''--ahci-capabilities requires --pcie-device-observation''),
     (''pcie_device_observation'', ''xhci_bme'', ''--pcie-device-observation requires --xhci-bme''),
     (''xhci_bme'', ''xhci_operational'', ''xHCI BME requires operational observation''),
     (''xhci_operational'', ''xhci_smi'', ''xHCI operational requires SMI''),
     (''xhci_smi'', ''xhci_handoff'', ''xHCI SMI requires handoff''),
     (''xhci_handoff'', ''xhci_legacy'', ''xHCI handoff requires legacy observations''),
     (''xhci_legacy'', ''xhci_capabilities'', ''xHCI legacy requires capability observations''),
     (''xhci_capabilities'', ''ehci_bme'', ''xHCI observation requires EHCI BME capture''),
     (''ehci_bme'', ''ehci_operational'', ''BME observation requires operational capture''),
     (''ehci_operational'', ''ehci_smi'', ''operational observation requires SMI capture''),
     (''ehci_smi'', ''ehci_handoff'', ''EHCI SMI disable requires handoff capture''),
     (''ehci_handoff'', ''ehci_legacy'', ''EHCI handoff requires legacy capture''),
     (''ehci_legacy'', ''ehci_capabilities'', ''EHCI legacy requires EHCI capabilities''),
     (''ehci_capabilities'', ''af_observation'', ''EHCI capture requires AF observation''),
     (''af_observation'', ''pci_capabilities'', ''AF observation requires capability capture''),
     (''pci_capabilities'', ''native_kernel'', ''capability capture requires native kernel inventory'')]"

definition KERNEL_REQUIREMENTS :: "(string \<times> string \<times> string) list" where
  "KERNEL_REQUIREMENTS =
    [(''native_kernel'', ''native_inventory'', ''kernel native inventory requires native replay selection''),
     (''native_inventory'', ''ecam_read'', ''native inventory requires ECAM capture'')]"

definition SAMPLE_REQUIREMENTS :: "(string \<times> string \<times> string) list" where
  "SAMPLE_REQUIREMENTS =
    [(''dsdt'', ''acpi'', ''DSDT capture requires ACPI capture''),
     (''ecam_memory'', ''bootstrap'', ''ECAM memory capture requires bootstrap capture'')]"

definition check_options :: "options \<Rightarrow> bool \<Rightarrow> bool \<Rightarrow> unit res" where
  \<comment> \<open>with whether a PCI and a BSP replay executable are given\<close>
  "check_options on pci_replay bsp_replay =
     bind (check_requirements on STAGE_REQUIREMENTS) (\<lambda>_.
     raise_if (bsp_replay \<and> \<not> on ''native_kernel'') ''native BSP replay requires kernel native inventory''
     (bind (check_requirements on KERNEL_REQUIREMENTS) (\<lambda>_.
      raise_if (on ''ecam_read'' \<and> (\<not> on ''dsdt'' \<or> \<not> on ''ecam_memory'' \<or> on ''pci_read_trace''))
        ''ECAM read requires DSDT/memory capture and excludes PCI trace''
      (bind (check_requirements on SAMPLE_REQUIREMENTS) (\<lambda>_.
       raise_if (on ''bootstrap'' \<and> \<not> pci_replay) ''bootstrap capture requires PCI replay''
       (raise_if (on ''pci_read_trace'' \<and> \<not> pci_replay) ''PCI read trace requires PCI replay''
       (raise_if (on ''acpi'' \<and> \<not> on ''handoff'') ''ACPI capture requires raw handoff'' (Inr ()))))))))"

subsection \<open>Decoding the stages\<close>

type_synonym 'r stage_decoder = "bytes \<Rightarrow> protocol \<Rightarrow> (bytes \<times> 'r option) res"

record stage_step =
  ss_option :: string
  ss_key :: string        \<comment> \<open>the key of the report in the result\<close>
  ss_scope :: string
  ss_decode :: "observation stage_decoder"

definition observe :: "'r observation_scheme stage_decoder \<Rightarrow> observation stage_decoder" where
  "observe decode raw P = bind (decode raw P) (\<lambda>(proj, r). Inr (proj, map_option observation.truncate r))"

definition stage_step_of :: "string \<Rightarrow> string \<Rightarrow> 'r observation_scheme stage_decoder \<Rightarrow> string \<Rightarrow> stage_step" where
  "stage_step_of option key decode scope =
     \<lparr>ss_option = option, ss_key = key, ss_scope = scope, ss_decode = observe decode\<rparr>"

definition STAGES :: "stage_step list" where
  "STAGES =
    [stage_step_of ''txe_bme'' ''txe_bme'' extract_txe_bme ''native-inventory-with-txe-host-bme-transition'',
     stage_step_of ''graphics_bme'' ''graphics_bme'' extract_graphics_bme ''native-inventory-with-graphics-bme-transition'',
     stage_step_of ''graphics_state'' ''graphics_state'' extract_graphics_state ''native-inventory-with-graphics-state-observation'',
     stage_step_of ''broadcom_d3'' ''broadcom_d3'' extract_broadcom_d3 ''native-inventory-with-broadcom-d3hot-observation'',
     stage_step_of ''pcie_pending'' ''pcie_pending'' extract_pcie_pending ''native-inventory-with-pcie-nonposted-quiet-observation'',
     stage_step_of ''realtek_bme'' ''realtek_bme'' extract_realtek_bme ''native-inventory-with-realtek-bme-observation'',
     stage_step_of ''realtek_state'' ''realtek_state'' extract_realtek_state ''native-inventory-with-realtek-state-observation'',
     stage_step_of ''rootport_bme'' ''rootport_bme'' extract_rootport_bme ''native-inventory-with-rootport-bme-observation'',
     stage_step_of ''txe_status'' ''txe_status'' extract_txe_status ''native-inventory-with-txe-status-observation'',
     stage_step_of ''hda_bme'' ''hda_bme'' extract_hda_bme ''native-inventory-with-hda-bme-observation'',
     stage_step_of ''hda_state'' ''hda_state'' extract_hda_state ''native-inventory-with-hda-state-observation'',
     stage_step_of ''hda_observation'' ''hda'' extract_hda ''native-inventory-with-hda-observation'',
     stage_step_of ''ahci_bme'' ''ahci_bme'' extract_ahci_bme ''native-inventory-with-ahci-bme-observation'',
     stage_step_of ''ahci_interrupts'' ''ahci_interrupts'' extract_ahci_interrupt ''native-inventory-with-ahci-interrupt-observation'',
     stage_step_of ''ahci_port'' ''ahci_port'' extract_ahci_port ''native-inventory-with-ahci-port-observation'',
     stage_step_of ''ahci_capabilities'' ''ahci_capabilities'' extract_ahci_caps ''native-inventory-with-ahci-capability-observation'',
     stage_step_of ''pcie_device_observation'' ''pcie_device'' extract_pcie_device ''native-inventory-with-pcie-device-observations'',
     stage_step_of ''xhci_bme'' ''xhci_bme'' extract_xhci_bme ''native-inventory-with-xhci-bme-observation'',
     stage_step_of ''xhci_operational'' ''xhci_operational'' extract_xhci_operational ''native-inventory-with-xhci-operational-observation'',
     stage_step_of ''xhci_smi'' ''xhci_smi'' extract_xhci_smi ''native-inventory-with-xhci-smi-observation'',
     stage_step_of ''xhci_handoff'' ''xhci_handoff'' extract_xhci_handoff ''native-inventory-with-xhci-handoff-observation'',
     stage_step_of ''xhci_legacy'' ''xhci_legacy'' extract_xhci_legacy ''native-inventory-with-xhci-legacy-observations'',
     stage_step_of ''xhci_capabilities'' ''xhci_capabilities'' extract_xhci_caps ''native-inventory-with-xhci-capability-observations'',
     stage_step_of ''ehci_bme'' ''ehci_bme'' extract_ehci_bme ''native-inventory-with-ehci-bme-observations'',
     stage_step_of ''ehci_operational'' ''ehci_operational'' extract_ehci_operational ''native-inventory-with-ehci-operational-observations'',
     stage_step_of ''ehci_smi'' ''ehci_smi'' extract_ehci_smi ''native-inventory-with-handoff-and-smi-observations'',
     stage_step_of ''ehci_handoff'' ''ehci_handoff'' extract_ehci_handoff ''native-inventory-with-handoff-observation'',
     stage_step_of ''ehci_legacy'' ''ehci_legacy'' extract_ehci_legacy ''native-inventory-capabilities-af-ehci-and-legacy-links'',
     stage_step_of ''ehci_capabilities'' ''ehci_capabilities'' extract_ehci_caps ''native-inventory-capability-links-af-and-ehci-framing'',
     stage_step_of ''af_observation'' ''af_observation'' extract_af ''cpu-msr-native-inventory-capability-links-and-af-framing'',
     stage_step_of ''pci_capabilities'' ''pci_capabilities'' extract_pci_caps ''cpu-msr-native-inventory-and-capability-links'']"

type_synonym reports = "(string \<times> observation option) list"

fun run_stages :: "options \<Rightarrow> protocol \<Rightarrow> stage_step list \<Rightarrow> bytes \<Rightarrow> reports \<Rightarrow> (bytes \<times> reports) res" where
  "run_stages on P [] raw reports = Inr (raw, reports)"
| "run_stages on P (s # rest) raw reports =
     (if on (ss_option s) then
        bind (ss_decode s raw P) (\<lambda>(proj, r). run_stages on P rest proj (reports @ [(ss_key s, r)]))
      else run_stages on P rest raw reports)"

subsection \<open>Checkpoints above the stages\<close>

definition run_integration ::
  "options \<Rightarrow> protocol \<Rightarrow> bytes list \<Rightarrow> bytes \<Rightarrow> (bytes \<times> entry_report option) res" where
  "run_integration on P template raw =
     (if on ''blocking_ipc_integration'' then
        bind (extract_blocking_ipc raw P template) (\<lambda>(proj, _, e). Inr (proj, Some e))
      else if on ''exception_integration'' then
        bind (extract_exception raw P) (\<lambda>(proj, _, e). Inr (proj, Some e))
      else if on ''entry_integration'' then bind (extract_entry raw P) (\<lambda>(proj, e). Inr (proj, Some e))
      else Inr (raw, None))"

definition run_copy_root ::
  "options \<Rightarrow> protocol \<Rightarrow> entry_report option \<Rightarrow> bytes \<Rightarrow> (bytes \<times> copy_root_report option) res" where
  "run_copy_root on P entry raw =
     (if on ''copy_root_publication'' then
        bind (extract_copy_root raw P ''base'') (\<lambda>(proj, c).
        raise_if (on ''entry_integration'' \<and> (case entry of None \<Rightarrow> False | Some e \<Rightarrow> en_closed_root e \<noteq> cr_closed_root c))
          ''entry used a different closed root than publication'' (Inr (proj, Some c)))
      else Inr (raw, None))"

definition run_checkpoint ::
  "bool \<Rightarrow> (bytes \<Rightarrow> protocol \<Rightarrow> (bytes \<times> 'r observation_scheme) res) \<Rightarrow> protocol \<Rightarrow> bytes \<Rightarrow>
   (bytes \<times> observation option) res" where
  "run_checkpoint enabled decode P raw =
     (if enabled then bind (decode raw P) (\<lambda>(proj, r). Inr (proj, Some (observation.truncate r)))
      else Inr (raw, None))"

definition run_checkpoints ::
  "options \<Rightarrow> protocol \<Rightarrow> bytes list \<Rightarrow> bytes \<Rightarrow> (bytes \<times> reports) res" where
  "run_checkpoints on P template raw =
     bind (run_integration on P template raw) (\<lambda>(raw1, entry).
     bind (run_copy_root on P entry raw1) (\<lambda>(raw2, copy).
     bind (run_checkpoint (on ''nosmap_control'') extract_nosmap P raw2) (\<lambda>(raw3, nosmap).
     bind (run_checkpoint (on ''pci_final_admission'')
       (\<lambda>raw P. extract_pci_final raw P (on ''pci_trust_contract'')) P raw3) (\<lambda>(raw4, final).
     Inr (raw4,
       [(''entry_integration'', map_option observation.truncate entry),
        (''copy_root_publication'', map_option observation.truncate copy),
        (''nosmap_control'', nosmap), (''pci_final'', final)])))))"

subsection \<open>Lab records below the stages\<close>

definition optional :: "bool \<Rightarrow> 'r stage_decoder \<Rightarrow> protocol \<Rightarrow> bytes \<Rightarrow> bytes res" where
  \<comment> \<open>what an enabled decoder leaves of the stream\<close>
  "optional enabled decode P raw = (if enabled then bind (decode raw P) (\<lambda>(proj, _). Inr proj) else Inr raw)"

definition run_samples ::
  "options \<Rightarrow> reviewed_capture \<Rightarrow> protocol \<Rightarrow> acpi_report option \<Rightarrow> table_files \<Rightarrow> bool \<Rightarrow> bytes \<Rightarrow> bytes res" where
  "run_samples on rc P acpi files bsp_rejected raw =
     bind (optional (on ''ecam_read'') (extract_ecam rc acpi files bsp_rejected) P raw) (\<lambda>raw1.
     bind (optional (on ''ecam_memory'') (extract_memory (on ''ecam_read'') bsp_rejected) P raw1) (\<lambda>raw2.
     bind (optional (on ''bootstrap'') (extract_bootstrap (on ''ecam_read'') bsp_rejected) P raw2) (\<lambda>raw3.
     optional (on ''pci_read_trace'') extract_trace P raw3)))"

subsection \<open>Replay and reason\<close>

record lab_diagnostic =
  ld_reason :: bytes
  ld_scope :: "string option"
  ld_replay :: diagnostic_result

definition ecam_terminal :: "options \<Rightarrow> protocol \<Rightarrow> bytes \<Rightarrow> bool" where
  "ecam_terminal on P raw \<longleftrightarrow> on ''ecam_read'' \<and>
     (endswith raw (final_line P ''qotom-ecam-arm'') \<or> endswith raw (final_line P ''qotom-ecam-transaction''))"

definition replay_rest ::
  "options \<Rightarrow> executable \<Rightarrow> executable option \<Rightarrow> protocol \<Rightarrow> bool \<Rightarrow> bytes \<Rightarrow> lab_diagnostic res" where
  "replay_rest on replay pci_replay P bsp_rejected raw =
     (if ecam_terminal on P raw \<or> bsp_rejected then
        bind (classify_cpu replay P (ecam_terminal on P raw) bsp_rejected
          (replace_first ''phase=pci-inventory-diagnostic'' ''phase=cpu-diagnostic'' raw)) (\<lambda>d.
        Inr \<lparr>ld_reason = dg_reason d,
          ld_scope = Some (if bsp_rejected then ''cpu-msr-before-bsp-failure'' else ''cpu-msr-before-ecam-failure''),
          ld_replay = d\<lparr>dg_sha256 := sha256_hex raw\<rparr>\<rparr>)
      else
        bind (case pci_replay of
            None \<Rightarrow> classify_cpu replay P False False raw
          | Some pci \<Rightarrow> bind (classify_pci replay pci P (on ''native_inventory'')
              (on ''native_inventory'' \<and> on ''native_kernel'') raw) (\<lambda>d. Inr (diagnostic_result.truncate d))) (\<lambda>d.
        Inr \<lparr>ld_reason = dg_reason d, ld_scope = None, ld_replay = d\<rparr>))"

fun update_reason :: "options \<Rightarrow> reports \<Rightarrow> (string \<times> string \<times> string) list \<Rightarrow> lab_diagnostic \<Rightarrow> lab_diagnostic" where
  \<comment> \<open>\<^verbatim>\<open>if option and result[key] is not None\<close>: the reason of the report and its scope\<close>
  "update_reason on reports [] d = d"
| "update_reason on reports ((option, key, scope) # rest) d =
     update_reason on reports rest
       (case (on option, map_of reports key) of
          (True, Some (Some r)) \<Rightarrow> d\<lparr>ld_reason := rep_reason r, ld_scope := Some scope\<rparr>
        | _ \<Rightarrow> d)"

definition stage_scopes :: "stage_step list \<Rightarrow> (string \<times> string \<times> string) list" where
  "stage_scopes ss = map (\<lambda>s. (ss_option s, ss_key s, ss_scope s)) ss"

definition SCOPES :: "options \<Rightarrow> (string \<times> string \<times> string) list" where
  "SCOPES on = stage_scopes (rev STAGES) @
    [(''pci_final_admission'', ''pci_final'', if on ''pci_trust_contract'' then ''qotom-initial-pci-trust-contract''
        else ''qotom-final-pci-observation-with-unmet-assumptions''),
     (''nosmap_control'', ''nosmap_control'', ''qotom-nosmap-control-transition''),
     (''copy_root_publication'', ''copy_root_publication'', ''qotom-closed-and-copy-root-publication''),
     (''entry_integration'', ''entry_integration'', ''qotom-closed-root-cpl3-entry-and-return'')]"

definition final_reason :: "options \<Rightarrow> lab_diagnostic \<Rightarrow> lab_diagnostic" where
  "final_reason on d =
     (if on ''blocking_ipc_integration'' then
        d\<lparr>ld_reason := ''qotom-blocking-ipc-final-pass'', ld_scope := Some ''qotom-blocking-ipc-complete''\<rparr>
      else if on ''exception_integration'' then
        d\<lparr>ld_reason := ''qotom-terminal-ud-closed'', ld_scope := Some ''qotom-cpl3-ud-terminal-closed-root''\<rparr>
      else d)"

definition classify_stream ::
  "options \<Rightarrow> executable \<Rightarrow> executable option \<Rightarrow> reviewed_capture \<Rightarrow> bytes list \<Rightarrow> protocol \<Rightarrow>
   acpi_report option \<Rightarrow> table_files \<Rightarrow> bool \<Rightarrow> bytes \<Rightarrow> (reports \<times> lab_diagnostic) res" where
  "classify_stream on replay pci_replay rc template P acpi files bsp_rejected raw =
     bind (run_checkpoints on P template raw) (\<lambda>(raw1, above).
     bind (run_stages on P STAGES raw1 []) (\<lambda>(raw2, stages).
     bind (run_samples on rc P acpi files bsp_rejected raw2) (\<lambda>raw3.
     bind (replay_rest on replay pci_replay P bsp_rejected raw3) (\<lambda>d.
     Inr (stages @ above, final_reason on (update_reason on (stages @ above) (SCOPES on) d))))))"

subsection \<open>The whole run\<close>

definition entry_of :: "(bytes \<times> bytes) list \<Rightarrow> bytes \<Rightarrow> bytes" where
  "entry_of found key = (case map_of found key of None \<Rightarrow> [] | Some v \<Rightarrow> v)"

definition protocol_of :: "(bytes \<times> bytes) list \<Rightarrow> protocol" where
  "protocol_of found =
     \<lparr>pr_boot = entry_of found ''BOOT'', pr_cpu = entry_of found ''CPU'', pr_control = entry_of found ''CONTROL'',
      pr_pci_scan = entry_of found ''PCI-SCAN'', pr_pci_header = entry_of found ''PCI-HEADER'',
      pr_final = entry_of found ''FINAL'', pr_port_control = entry_of found ''DIRECT-PORT-CONTROL'',
      pr_entry_manifest = entry_of found ''ENTRY-MANIFEST'', pr_copy = entry_of found ''6/COPY'',
      pr_paging = entry_of found ''8/PAGING'', pr_capreuse = entry_of found ''9/CAPREUSE'',
      pr_ipc = entry_of found ''10/IPC'', pr_ipc_final = entry_of found ''10/FINAL'',
      pr_user_fault = entry_of found ''11/USER-FAULT''\<rparr>"

record lab_result =
  lb_run :: run_result
  lb_handoff :: "handoff_report option"
  lb_acpi :: "acpi_report option"
  lb_bsp :: "bsp_report option"
  lb_reports :: reports
  lb_scenario :: string
  lb_diagnostic :: lab_diagnostic

definition closing_marker :: "options \<Rightarrow> protocol \<Rightarrow> bytes option" where
  "closing_marker on P =
     (if on ''blocking_ipc_integration'' then
        Some (pr_ipc_final P @ '' status=PASS blocks=1 wakes=1 deliveries=1'' @ NL)
      else if on ''exception_integration'' then Some MARKER else None)"

definition take_handoff :: "options \<Rightarrow> bytes \<Rightarrow> (bytes \<times> handoff_report option) res" where
  "take_handoff on expected =
     (if on ''handoff'' then
        bind (parse_prefix (drop (length MODE_LINE) expected)) (\<lambda>(_, body, h). Inr (body, Some h))
      else Inr ([], None))"

definition take_acpi ::
  "options \<Rightarrow> bytes \<Rightarrow> bytes \<Rightarrow> (bytes \<times> acpi_report option \<times> table_files) res" where
  "take_acpi on handoff_bytes raw =
     (if on ''acpi'' then extract_acpi raw handoff_bytes (on ''dsdt'') else Inr (raw, None, []))"

definition take_bsp ::
  "bsp_replay option \<Rightarrow> protocol \<Rightarrow> acpi_report option \<Rightarrow> table_files \<Rightarrow> bytes \<Rightarrow> (bytes \<times> bsp_report option) res" where
  "take_bsp bsp_replay P acpi files raw =
     (case bsp_replay of None \<Rightarrow> Inr (raw, None) | Some replay \<Rightarrow> extract_bsp replay acpi files raw P)"

definition bsp_failed :: "bsp_report option \<Rightarrow> bool" where
  "bsp_failed bsp \<longleftrightarrow> (case bsp of None \<Rightarrow> False | Some b \<Rightarrow> bp_observation b ! 7 \<noteq> 0)"

definition classify_cpu_protected ::
  "options \<Rightarrow> executable \<Rightarrow> executable option \<Rightarrow> bsp_replay option \<Rightarrow> reviewed_capture \<Rightarrow> bytes list \<Rightarrow>
   bytes \<Rightarrow> event list \<Rightarrow> bytes \<Rightarrow> lab_result res" where
  \<comment> \<open>the generated protocol, the events of the log and the digest of the image come last\<close>
  "classify_cpu_protected on replay pci_replay bsp_replay rc template protocol_text events digest =
     bind (check_options on (pci_replay \<noteq> None) (bsp_replay \<noteq> None)) (\<lambda>_.
     bind (if pci_replay = None then load_cpu_protocol protocol_text else load_protocol protocol_text) (\<lambda>found.
     let P = protocol_of found in
     bind (cpu_diagnostic_bytes events P (on ''handoff'') (closing_marker on P)) (\<lambda>(expected, raw).
     bind (classify_protected events digest expected (pr_boot P)
       (\<not> on ''exception_integration'' \<or> on ''blocking_ipc_integration'')
       (if on ''exception_integration'' then (30, 100) else (30, 90))) (\<lambda>run.
     bind (take_handoff on expected) (\<lambda>(handoff_bytes, handoff).
     bind (take_acpi on handoff_bytes raw) (\<lambda>(raw1, acpi, files).
     bind (take_bsp bsp_replay P acpi files raw1) (\<lambda>(raw2, bsp).
     bind (classify_stream on replay pci_replay rc template P acpi files (bsp_failed bsp) raw2) (\<lambda>(reports, d).
     Inr \<lparr>lb_run = run, lb_handoff = handoff, lb_acpi = acpi, lb_bsp = bsp, lb_reports = reports,
       lb_scenario = (if pci_replay \<noteq> None then ''qotom-pci-diagnostic'' else ''j1900-cpu-diagnostic''),
       lb_diagnostic = d\<rparr>))))))))"

section \<open>Properties\<close>

subsection \<open>Options\<close>

lemma check_requirements_all:
  "check_requirements on rs = Inr () \<longleftrightarrow> (\<forall>(option, needed, msg)\<in>set rs. on option \<longrightarrow> on needed)"
  by (induction on rs rule: check_requirements.induct) (auto simp: res_simps)

lemma check_options_inv:
  assumes "check_options on pci_replay bsp_replay = Inr ()"
  shows "\<forall>(option, needed, msg)\<in>set (STAGE_REQUIREMENTS @ KERNEL_REQUIREMENTS @ SAMPLE_REQUIREMENTS).
      on option \<longrightarrow> on needed"
    "on ''ecam_read'' \<longrightarrow> on ''dsdt'' \<and> on ''ecam_memory'' \<and> \<not> on ''pci_read_trace''"
    "on ''bootstrap'' \<longrightarrow> pci_replay" "on ''acpi'' \<longrightarrow> on ''handoff''" "bsp_replay \<longrightarrow> on ''native_kernel''"
  using assms unfolding check_options_def
  by (elim res_elims; simp add: check_requirements_all ball_Un; blast)+

text \<open>Requirements that lead from one option to another.\<close>

fun leads :: "options \<Rightarrow> string list \<Rightarrow> bool" where
  "leads on (a # b # rest) = ((on a \<longrightarrow> on b) \<and> leads on (b # rest))"
| "leads on _ = True"

lemma leads_later: "leads on xs \<Longrightarrow> i \<le> j \<Longrightarrow> j < length xs \<Longrightarrow> on (xs ! i) \<Longrightarrow> on (xs ! j)"
proof (induction on xs arbitrary: i j rule: leads.induct)
  case (1 on a b rest)
  show ?case
  proof (cases i)
    case 0
    show ?thesis
    proof (cases j)
      case (Suc k)
      with 0 1 show ?thesis using "1.IH" [of 0 k] by simp
    qed (use 0 1 in simp)
  next
    case (Suc m)
    with 1 show ?thesis using "1.IH" [of m "j - 1"] by (cases j) auto
  qed
qed auto

definition OPTION_CHAIN :: "string list" where
  "OPTION_CHAIN = map ss_option STAGES @
     [''native_kernel'', ''native_inventory'', ''ecam_read'', ''dsdt'', ''acpi'', ''handoff'']"

lemma option_chain_leads:
  assumes "check_options on pci_replay bsp_replay = Inr ()"
  shows "leads on OPTION_CHAIN"
  using check_options_inv [OF assms]
  by (simp add: OPTION_CHAIN_def STAGES_def stage_step_of_def STAGE_REQUIREMENTS_def KERNEL_REQUIREMENTS_def
      SAMPLE_REQUIREMENTS_def)

text \<open>
  C29 (invariant). When the options pass their checks, the enabled stages are a downward closed part of
  the decoding order: enabling one enables every stage that is decoded after it, the native kernel
  inventory, the ECAM and DSDT captures, the raw handoff and a PCI replay executable.
\<close>

theorem options_closed:
  assumes "check_options on pci_replay bsp_replay = Inr ()"
    and "i \<le> j" "j < length STAGES" "on (ss_option (STAGES ! i))"
  shows "on (ss_option (STAGES ! j)) \<and> on ''native_kernel'' \<and> on ''native_inventory'' \<and> on ''ecam_read'' \<and>
    on ''dsdt'' \<and> on ''acpi'' \<and> on ''handoff'' \<and> on ''ecam_memory'' \<and> on ''bootstrap'' \<and> pci_replay \<and>
    \<not> on ''pci_read_trace''"
proof -
  note later = leads_later [OF option_chain_leads [OF assms(1)]]
  have n: "length STAGES = 31" by (simp add: STAGES_def)
  have i: "on (OPTION_CHAIN ! i)" using assms(2-4) by (simp add: OPTION_CHAIN_def nth_append)
  have "on (OPTION_CHAIN ! k)" if "i \<le> k" "k < 37" for k
    using later [OF that(1) _ i] that n by (simp add: OPTION_CHAIN_def)
  from this [of j] this [of 31] this [of 32] this [of 33] this [of 34] this [of 35] this [of 36]
  have "on (ss_option (STAGES ! j))" "on ''native_kernel''" "on ''native_inventory''" "on ''ecam_read''"
    "on ''dsdt''" "on ''acpi''" "on ''handoff''"
    using assms(2,3) n by (simp_all add: OPTION_CHAIN_def nth_append)
  moreover from this(4) have "on ''ecam_memory''" "\<not> on ''pci_read_trace''"
    using check_options_inv(2) [OF assms(1)] by blast+
  moreover from this(1) have "on ''bootstrap''"
    using check_options_inv(1) [OF assms(1)] by (simp add: SAMPLE_REQUIREMENTS_def)
  ultimately show ?thesis using check_options_inv(3) [OF assms(1)] by blast
qed

subsection \<open>Stages\<close>

definition step_sound :: "stage_step \<Rightarrow> bool" where
  \<comment> \<open>a step leaves the stream alone or reports the reason of its last line\<close>
  "step_sound s \<longleftrightarrow> (\<forall>raw P proj r. ss_decode s raw P = Inr (proj, r) \<longrightarrow>
     (case r of None \<Rightarrow> proj = raw | Some ob \<Rightarrow> last (splitlines raw) = final_line P (rep_reason ob)))"

lemma truncate_reason [simp]: "rep_reason (observation.truncate r) = rep_reason r"
  by (simp add: observation.truncate_def)

lemma source_step_sound:
  assumes "capture_source decode own ok reason"
  shows "step_sound (stage_step_of option key decode scope)"
  unfolding step_sound_def stage_step_of_def observe_def
  using capture_source.absent [OF assms] capture_source.closing [OF assms]
  by (auto simp: res_simps split: option.splits)

lemmas stage_sources =
  txe_bme.capture_source_axioms graphics_bme.capture_source_axioms graphics_state.capture_source_axioms
  broadcom_d3.capture_source_axioms pcie_pending.capture_source_axioms realtek_bme.capture_source_axioms
  realtek_state.capture_source_axioms rootport.capture_source_axioms txe_status.capture_source_axioms
  hda_bme.capture_source_axioms hda_state.capture_source_axioms hda.capture_source_axioms
  ahci_bme.capture_source_axioms ahci_interrupt.capture_source_axioms ahci_port.capture_source_axioms
  ahci_caps.capture_source_axioms pcie_device.capture_source_axioms xhci_bme.capture_source_axioms
  xhci_operational.capture_source_axioms xhci_smi.capture_source_axioms xhci_handoff.capture_source_axioms
  xhci_legacy.capture_source_axioms xhci_caps.capture_source_axioms ehci_bme.capture_source_axioms
  ehci_operational.capture_source_axioms ehci_smi.capture_source_axioms ehci_handoff.capture_source_axioms
  ehci_legacy.capture_source_axioms ehci_caps.capture_source_axioms pci_af.capture_source_axioms
  pci_caps.capture_source_axioms

lemma stages_sound: "list_all step_sound STAGES"
  unfolding STAGES_def list.pred_inject(2)
  by (intro conjI list.pred_inject(1) stage_sources [THEN source_step_sound])

definition reported :: "options \<Rightarrow> reports \<Rightarrow> string \<times> string \<times> string \<Rightarrow> bool" where
  "reported on reports x \<longleftrightarrow> on (fst x) \<and> (\<exists>r. map_of reports (fst (snd x)) = Some (Some r))"

lemma update_reason_snoc:
  "update_reason on reports (xs @ [x]) d =
     (if reported on reports x then
        (update_reason on reports xs d)\<lparr>ld_reason := rep_reason (the (the (map_of reports (fst (snd x))))),
          ld_scope := Some (snd (snd x))\<rparr>
      else update_reason on reports xs d)"
proof (induction on reports xs d rule: update_reason.induct)
  case (1 on reports d)
  obtain a b c where "x = (a, b, c)" by (cases x)
  then show ?case by (auto simp: reported_def split: option.splits bool.splits)
qed auto

text \<open>The last reported entry of the table decides.\<close>

lemma update_reason_find:
  "ld_reason (update_reason on reports xs d) =
     (case find (reported on reports) (rev xs) of None \<Rightarrow> ld_reason d
      | Some x \<Rightarrow> rep_reason (the (the (map_of reports (fst (snd x))))))"
proof (induction xs rule: rev_induct)
  case (snoc x xs)
  then show ?case by (simp add: update_reason_snoc)
qed simp

lemma run_stages_reports:
  assumes "run_stages on P ss raw reports = Inr (raw', reports')" "list_all step_sound ss"
    and "distinct (map ss_key ss)" "set (map fst reports) \<inter> set (map ss_key ss) = {}"
  shows "\<exists>new. reports' = reports @ new \<and> set (map fst new) \<subseteq> set (map ss_key ss) \<and>
    (case find (reported on reports') (stage_scopes ss) of
       None \<Rightarrow> raw' = raw
     | Some x \<Rightarrow> last (splitlines raw) =
         final_line P (rep_reason (the (the (map_of reports' (fst (snd x)))))))"
  using assms
proof (induction on P ss raw reports rule: run_stages.induct)
  case (1 on P raw reports)
  then show ?case by (simp add: stage_scopes_def)
next
  case (2 on P s rest raw reports)
  have scopes: "stage_scopes (s # rest) = (ss_option s, ss_key s, ss_scope s) # stage_scopes rest"
    by (simp add: stage_scopes_def)
  show ?case
  proof (cases "on (ss_option s)")
    case False
    with 2 obtain new where new: "reports' = reports @ new" "set (map fst new) \<subseteq> set (map ss_key rest)"
      "case find (reported on reports') (stage_scopes rest) of None \<Rightarrow> raw' = raw
       | Some x \<Rightarrow> last (splitlines raw) = final_line P (rep_reason (the (the (map_of reports' (fst (snd x))))))"
      by auto
    have "\<not> reported on reports' (ss_option s, ss_key s, ss_scope s)" using False by (simp add: reported_def)
    with new show ?thesis by (auto simp: scopes)
  next
    case True
    with "2.prems"(1) obtain proj r where d: "ss_decode s raw P = Inr (proj, r)"
      and run: "run_stages on P rest proj (reports @ [(ss_key s, r)]) = Inr (raw', reports')"
      by (auto simp: res_simps)
    from "2.IH"(1) [OF True d refl run] "2.prems"(2-4) obtain new where
      new: "reports' = (reports @ [(ss_key s, r)]) @ new" "set (map fst new) \<subseteq> set (map ss_key rest)"
      "case find (reported on reports') (stage_scopes rest) of None \<Rightarrow> raw' = proj
       | Some x \<Rightarrow> last (splitlines proj) = final_line P (rep_reason (the (the (map_of reports' (fst (snd x))))))"
      by auto
    have "map_of reports (ss_key s) = None" using "2.prems"(4) by (auto simp: map_of_eq_None_iff)
    then have look: "map_of reports' (ss_key s) = Some r" by (simp add: new(1) map_add_def)
    from "2.prems"(2) d have s: "case r of None \<Rightarrow> proj = raw
        | Some ob \<Rightarrow> last (splitlines raw) = final_line P (rep_reason ob)"
      by (simp add: step_sound_def)
    show ?thesis
    proof (cases r)
      case None
      then have "\<not> reported on reports' (ss_option s, ss_key s, ss_scope s)" using look by (simp add: reported_def)
      with None s new show ?thesis by (intro exI [of _ "(ss_key s, r) # new"]) (auto simp: scopes)
    next
      case (Some ob)
      then have "reported on reports' (ss_option s, ss_key s, ss_scope s)"
        using look True by (simp add: reported_def)
      with Some s new look show ?thesis by (intro exI [of _ "(ss_key s, r) # new"]) (auto simp: scopes)
    qed
  qed
qed

subsection \<open>The reason of a run\<close>

lemma stage_keys:
  "distinct (map ss_key STAGES)"
  "set (map ss_key STAGES) \<inter> {''entry_integration'', ''copy_root_publication'', ''nosmap_control'', ''pci_final''} = {}"
  by (simp_all add: STAGES_def stage_step_of_def)

lemma run_checkpoint_cases:
  assumes "run_checkpoint enabled decode P raw = Inr (proj, r)" "checkpoint decode reason below width"
  obtains (off) "\<not> enabled" "proj = raw" "r = None"
  | (on) ob where "enabled" "r = Some ob" "last (splitlines raw) = final_line P (rep_reason ob)"
  using assms checkpoint.closing [OF assms(2)] unfolding run_checkpoint_def
  by (auto simp: res_simps split: if_splits)

lemma run_copy_root_cases:
  assumes "run_copy_root on P entry raw = Inr (proj, r)"
  obtains (off) "\<not> on ''copy_root_publication''" "proj = raw" "r = None"
  | (on) c where "on ''copy_root_publication''" "r = Some c" "extract_copy_root raw P ''base'' = Inr (proj, c)"
      "last (splitlines raw) = final_line P (rep_reason c)"
      "\<forall>e. on ''entry_integration'' \<longrightarrow> entry = Some e \<longrightarrow> en_closed_root e = cr_closed_root c"
  using assms copy_root.closing [of raw P "''base''"] unfolding run_copy_root_def
  by (auto simp: res_simps split: if_splits option.splits)

lemma run_integration_cases:
  assumes "run_integration on P template raw = Inr (proj, r)"
    and "\<not> on ''exception_integration''" "\<not> on ''blocking_ipc_integration''"
  obtains (off) "\<not> on ''entry_integration''" "proj = raw" "r = None"
  | (on) e where "on ''entry_integration''" "r = Some e" "last (splitlines raw) = final_line P (rep_reason e)"
  using assms user_entry.closing [of raw P] unfolding run_integration_def
  by (auto simp: res_simps split: if_splits)

lemma classify_stream_inv:
  assumes "classify_stream on replay pci_replay rc template P acpi files bsp_rejected raw = Inr (reports, d)"
  obtains raw1 entry raw2 copy raw3 nosmap raw4 final raw5 stages raw6 d0 where
    "run_integration on P template raw = Inr (raw1, entry)" "run_copy_root on P entry raw1 = Inr (raw2, copy)"
    "run_checkpoint (on ''nosmap_control'') extract_nosmap P raw2 = Inr (raw3, nosmap)"
    "run_checkpoint (on ''pci_final_admission'')
       (\<lambda>raw P. extract_pci_final raw P (on ''pci_trust_contract'')) P raw3 = Inr (raw4, final)"
    "run_stages on P STAGES raw4 [] = Inr (raw5, stages)"
    "run_samples on rc P acpi files bsp_rejected raw5 = Inr raw6"
    "replay_rest on replay pci_replay P bsp_rejected raw6 = Inr d0"
    "reports = stages @ [(''entry_integration'', map_option observation.truncate entry),
        (''copy_root_publication'', map_option observation.truncate copy),
        (''nosmap_control'', nosmap), (''pci_final'', final)]"
    "d = final_reason on (update_reason on reports (SCOPES on) d0)"
  using assms unfolding classify_stream_def run_checkpoints_def
  by (auto simp: res_simps split: prod.splits)

lemma stage_report_keys:
  assumes "run_stages on P STAGES raw [] = Inr (raw', stages)"
  shows "set (map fst stages) \<subseteq> set (map ss_key STAGES)"
  using run_stages_reports [OF assms stages_sound stage_keys(1)] by auto

lemma above_lookup:
  assumes "set (map fst stages) \<subseteq> set (map ss_key STAGES)"
    and "reports = stages @ [(''entry_integration'', e), (''copy_root_publication'', c), (''nosmap_control'', n), (''pci_final'', f)]"
  shows "map_of reports ''entry_integration'' = Some e" "map_of reports ''copy_root_publication'' = Some c"
    "map_of reports ''nosmap_control'' = Some n" "map_of reports ''pci_final'' = Some f"
    "k \<in> set (map ss_key STAGES) \<Longrightarrow> map_of reports k = map_of stages k"
proof -
  have none: "map_of stages k = None" if "k \<in> {''entry_integration'', ''copy_root_publication'', ''nosmap_control'', ''pci_final''}" for k
    using that assms(1) stage_keys(2) by (auto simp: map_of_eq_None_iff)
  show "map_of reports ''entry_integration'' = Some e" "map_of reports ''copy_root_publication'' = Some c"
    "map_of reports ''nosmap_control'' = Some n" "map_of reports ''pci_final'' = Some f"
    using none by (simp_all add: assms(2) map_add_def)
  assume "k \<in> set (map ss_key STAGES)"
  then have "k \<notin> {''entry_integration'', ''copy_root_publication'', ''nosmap_control'', ''pci_final''}"
    using stage_keys(2) by blast
  then show "map_of reports k = map_of stages k"
    by (cases "map_of stages k") (auto simp: assms(2) map_add_def)
qed

lemma find_cong_set: "(\<And>x. x \<in> set xs \<Longrightarrow> p x = q x) \<Longrightarrow> find p xs = find q xs"
  by (induction xs) auto

text \<open>
  Without the exception and the IPC integration, the reason is the one of the last line of the stream as
  soon as a checkpoint or stage reported, although every decoder below the first report saw the stream
  with another last line.
\<close>

lemma scoped_reason:
  assumes "classify_stream on replay pci_replay rc template P acpi files bsp_rejected raw = Inr (reports, d)"
    and "\<not> on ''exception_integration''" "\<not> on ''blocking_ipc_integration''"
    and "\<exists>x\<in>set (SCOPES on). reported on reports x"
  shows "last (splitlines raw) = final_line P (ld_reason d)"
  using assms(1)
proof (rule classify_stream_inv)
  fix raw1 entry raw2 copy raw3 nosmap raw4 final raw5 stages raw6 d0
  assume i: "run_integration on P template raw = Inr (raw1, entry)"
    and c: "run_copy_root on P entry raw1 = Inr (raw2, copy)"
    and n: "run_checkpoint (on ''nosmap_control'') extract_nosmap P raw2 = Inr (raw3, nosmap)"
    and f: "run_checkpoint (on ''pci_final_admission'')
       (\<lambda>raw P. extract_pci_final raw P (on ''pci_trust_contract'')) P raw3 = Inr (raw4, final)"
    and s: "run_stages on P STAGES raw4 [] = Inr (raw5, stages)"
    and r: "reports = stages @ [(''entry_integration'', map_option observation.truncate entry),
        (''copy_root_publication'', map_option observation.truncate copy),
        (''nosmap_control'', nosmap), (''pci_final'', final)]"
    and d: "d = final_reason on (update_reason on reports (SCOPES on) d0)"
  note look = above_lookup [OF stage_report_keys [OF s] r]
  define p where "p = reported on reports"
  have reason: "ld_reason d = (case find p (rev (SCOPES on)) of None \<Rightarrow> ld_reason d0
      | Some x \<Rightarrow> rep_reason (the (the (map_of reports (fst (snd x))))))"
    using assms(2,3) by (simp add: d final_reason_def update_reason_find p_def)
  have order: "rev (SCOPES on) = (''entry_integration'', ''entry_integration'', ''qotom-closed-root-cpl3-entry-and-return'') #
     (''copy_root_publication'', ''copy_root_publication'', ''qotom-closed-and-copy-root-publication'') #
     (''nosmap_control'', ''nosmap_control'', ''qotom-nosmap-control-transition'') #
     (''pci_final_admission'', ''pci_final'', if on ''pci_trust_contract'' then ''qotom-initial-pci-trust-contract''
        else ''qotom-final-pci-observation-with-unmet-assumptions'') # stage_scopes STAGES"
    by (simp add: SCOPES_def stage_scopes_def rev_map)
  have stages: "case find p (stage_scopes STAGES) of None \<Rightarrow> raw5 = raw4
     | Some x \<Rightarrow> last (splitlines raw4) = final_line P (rep_reason (the (the (map_of reports (fst (snd x))))))"
  proof -
    have "find p (stage_scopes STAGES) = find (reported on stages) (stage_scopes STAGES)"
      using look(5) by (intro find_cong_set) (auto simp: p_def reported_def stage_scopes_def)
    moreover have "fst (snd x) \<in> set (map ss_key STAGES)" if "find (reported on stages) (stage_scopes STAGES) = Some x" for x
      using that by (auto simp: find_Some_iff stage_scopes_def)
    ultimately show ?thesis
      using run_stages_reports [OF s stages_sound stage_keys(1)] look(5) by (auto split: option.splits)
  qed
  from assms(4) have some: "find p (rev (SCOPES on)) \<noteq> None" by (auto simp: find_None_iff p_def)
  from i assms(2,3) show ?thesis
  proof (cases rule: run_integration_cases)
    case (on e)
    then show ?thesis using reason look(1) by (simp add: order p_def reported_def)
  next
    case off
    note entry_off = off
    from c show ?thesis
    proof (cases rule: run_copy_root_cases)
      case (on cc)
      then show ?thesis using reason look(1,2) entry_off by (simp add: order p_def reported_def)
    next
      case off
      note copy_off = off
      from n nosmap.checkpoint_axioms show ?thesis
      proof (cases rule: run_checkpoint_cases)
        case (on ob)
        then show ?thesis using reason look entry_off copy_off by (simp add: order p_def reported_def)
      next
        case off
        note nosmap_off = off
        from f pci_final.checkpoint_axioms show ?thesis
        proof (cases rule: run_checkpoint_cases)
          case (on ob)
          then show ?thesis using reason look entry_off copy_off nosmap_off by (simp add: order p_def reported_def)
        next
          case off
          then show ?thesis using reason look entry_off copy_off nosmap_off stages some
            by (auto simp: order p_def reported_def split: option.splits)
        qed
      qed
    qed
  qed
qed

text \<open>
  C9 (refinement). The reason in the result of an accepted stream: a blocking IPC run gets the
  fixed reason of the final pass and an exception run without it the fixed reason of the terminal #UD,
  whatever was decoded; in every other run in which a checkpoint or stage reported, it is the reason
  of the last line of the captured stream, although every decoder below the first report saw the stream
  with another last line.
\<close>

theorem reason_of_last_line:
  assumes "classify_stream on replay pci_replay rc template P acpi files bsp_rejected raw = Inr (reports, d)"
  shows "if on ''blocking_ipc_integration'' then ld_reason d = ''qotom-blocking-ipc-final-pass''
    else if on ''exception_integration'' then ld_reason d = ''qotom-terminal-ud-closed''
    else (\<exists>x\<in>set (SCOPES on). reported on reports x) \<longrightarrow> last (splitlines raw) = final_line P (ld_reason d)"
proof -
  from assms have "\<exists>d0. d = final_reason on d0"
    by (rule classify_stream_inv) blast
  then show ?thesis using scoped_reason [OF assms] by (auto simp: final_reason_def)
qed

text \<open>
  Every stage of the decoding order either leaves the stream as it is and reports
  nothing, or the last line of the stream it was given carries the reason of its report.
\<close>

theorem stage_reason_is_last_line:
  assumes "s \<in> set STAGES" "ss_decode s raw P = Inr (proj, r)"
  shows "case r of None \<Rightarrow> proj = raw | Some ob \<Rightarrow> last (splitlines raw) = final_line P (rep_reason ob)"
  using assms stages_sound by (auto simp: list_all_iff step_sound_def)

lemma removes_subseq:
  assumes "line_remover decode label pos" "optional enabled decode P raw = Inr raw'"
  shows "subseq raw' raw" "\<not> enabled \<Longrightarrow> raw' = raw"
proof -
  show "\<not> enabled \<Longrightarrow> raw' = raw" using assms(2) by (simp add: optional_def)
  show "subseq raw' raw"
  proof (cases enabled)
    case False
    with assms(2) show ?thesis by (simp add: optional_def)
  next
    case True
    with assms(2) obtain r where "decode raw P = Inr (raw', r)" by (auto simp: optional_def res_simps)
    with assms(1) show ?thesis
    proof (rule line_remover.removes)
      fix before after
      assume "raw = before @ splitlines raw ! pos @ after" "raw' = before @ after"
      moreover have "subseq (before @ [] @ after) (before @ splitlines raw ! pos @ after)"
        by (intro list_emb_append_mono) auto
      ultimately show "subseq raw' raw" by simp
    qed simp
  qed
qed

text \<open>
  The record decoders below the stages only delete lines: what they leave of the stream
  is a subsequence of its bytes, and nothing is deleted when none of them is enabled.
\<close>

theorem samples_only_deleted:
  assumes "run_samples on rc P acpi files bsp_rejected raw = Inr raw'"
  shows "subseq raw' raw \<and>
    (\<not> on ''ecam_read'' \<longrightarrow> \<not> on ''ecam_memory'' \<longrightarrow> \<not> on ''bootstrap'' \<longrightarrow> \<not> on ''pci_read_trace'' \<longrightarrow> raw' = raw)"
proof -
  from assms obtain a b c where r:
    "optional (on ''ecam_read'') (extract_ecam rc acpi files bsp_rejected) P raw = Inr a"
    "optional (on ''ecam_memory'') (extract_memory (on ''ecam_read'') bsp_rejected) P a = Inr b"
    "optional (on ''bootstrap'') (extract_bootstrap (on ''ecam_read'') bsp_rejected) P b = Inr c"
    "optional (on ''pci_read_trace'') extract_trace P c = Inr raw'"
    by (auto simp: run_samples_def res_simps)
  note s = removes_subseq [OF ecam.line_remover_axioms r(1)] removes_subseq [OF ecam_memory.line_remover_axioms r(2)]
    removes_subseq [OF bootstrap.line_remover_axioms r(3)] removes_subseq [OF trace.line_remover_axioms r(4)]
  then have "subseq raw' raw" by (meson subseq_order.trans)
  with s show ?thesis by simp
qed

end
