(* ===== verification/Reference_Lines.thy ===== *)
theory Reference_Lines
  imports Segments Pipeline
begin

text \<open>
  The diagnostic stream of a run of the machine, as committed with the repository in
  \<^verbatim>\<open>hardware/lab/observations/qotom-native-entry-integration-20260912/cycle-1/serial.raw\<close>: the lines
  from the boot record on, without the ACPI block and the BSP record, which are removed before the
  stages run.  Each line is written with the pattern its decoder reads, from the values of the file.
\<close>

definition ref_P :: protocol where
  "ref_P = \<lparr>pr_boot = ''LEANOS/25 BOOT'', pr_cpu = ''LEANOS/25 CPU'', pr_control = ''LEANOS/25 CONTROL'',
    pr_pci_scan = ''LEANOS/25 PCI-SCAN'', pr_pci_header = ''LEANOS/25 PCI-HEADER'', pr_final = ''LEANOS/3 FINAL'',
    pr_port_control = ''LEANOS/16 DIRECT-PORT-CONTROL'', pr_entry_manifest = ''LEANOS/17 ENTRY-MANIFEST'',
    pr_copy = ''LEANOS/6 COPY'', pr_paging = ''LEANOS/8 PAGING'', pr_capreuse = ''LEANOS/9 CAPREUSE'',
    pr_ipc = ''LEANOS/10 IPC'', pr_ipc_final = ''LEANOS/10 FINAL'', pr_user_fault = ''LEANOS/11 USER-FAULT''\<rparr>"

lemma ref_P_simps [simp]:
  "pr_boot ref_P = ''LEANOS/25 BOOT''" "pr_cpu ref_P = ''LEANOS/25 CPU''" "pr_control ref_P = ''LEANOS/25 CONTROL''"
  "pr_pci_scan ref_P = ''LEANOS/25 PCI-SCAN''" "pr_pci_header ref_P = ''LEANOS/25 PCI-HEADER''"
  "pr_final ref_P = ''LEANOS/3 FINAL''" "pr_port_control ref_P = ''LEANOS/16 DIRECT-PORT-CONTROL''"
  "pr_entry_manifest ref_P = ''LEANOS/17 ENTRY-MANIFEST''"
  by (simp_all add: ref_P_def)

definition ref_cpu_words :: "int list" where
  "ref_cpu_words = [1, 31, 11, 1970169159, 1818588270, 1231384169, 198264, 1050624, 1104733119, 3219913727, 0, 8834, 0, 0, 2147483656, 0, 0, 0, 0, 0, 257, 672139264]"

definition ref_msr_words :: "int list" where
  "ref_msr_words = [3328, 0, 0, 0, 0, 0, 0, 0]"

definition ref_words :: "nat list list" where
  "ref_words =
    [[0, 0, 0, 251691142, 7, 100663310, 0, 0, 0, 0, 0, 0, 0, 0, 254902406, 0, 0, 0, 0],
     [0, 2, 0, 254902406, 1048583, 50331662, 0, 3489660928, 0, 3221225480, 0, 61569, 0, 0, 254902406, 0, 208, 0, 261],
     [0, 19, 0, 253984902, 45088775, 17170702, 0, 61553, 61537, 61521, 61505, 61473, 3499188224, 0, 253984902, 0, 128, 0, 261],
     [0, 20, 0, 255164550, 42991622, 201535502, 0, 3499098116, 0, 0, 0, 0, 0, 0, 255164550, 0, 112, 0, 261],
     [0, 26, 0, 253264006, 1048838, 276824078, 16, 3494903808, 3493855232, 0, 0, 0, 0, 0, 253264006, 0, 128, 0, 511],
     [0, 27, 0, 251953286, 1048582, 67305486, 16, 3499163652, 0, 0, 0, 0, 0, 0, 251953286, 0, 80, 0, 261],
     [0, 28, 0, 256409734, 1048583, 100925454, 8454160, 0, 0, 65792, 536928480, 3498102912, 131057, 0, 0, 0, 64, 0, 1048837],
     [0, 28, 1, 256540806, 1048583, 100925454, 8454160, 0, 0, 131584, 536871152, 3497054320, 131057, 0, 0, 0, 64, 0, 1049093],
     [0, 28, 2, 256671878, 1048583, 100925454, 8454160, 0, 0, 197376, 536924368, 3496005728, 131057, 0, 0, 0, 64, 0, 1049349],
     [0, 28, 3, 256802950, 1048583, 100925454, 8454160, 0, 0, 263168, 536871152, 65520, 131057, 0, 0, 0, 64, 0, 1049605],
     [0, 29, 0, 255099014, 42992646, 201531406, 0, 3499184128, 0, 0, 0, 0, 0, 0, 255099014, 0, 80, 0, 261],
     [0, 31, 0, 253526150, 34603015, 100728846, 8388608, 0, 0, 0, 0, 0, 0, 0, 253526150, 0, 224, 0, 0],
     [0, 31, 3, 252870790, 42991619, 201654286, 0, 3499180032, 0, 0, 0, 61441, 0, 0, 252870790, 0, 80, 0, 517],
     [1, 0, 0, 2171080940, 1048583, 33554439, 16, 57345, 0, 3498065924, 0, 3498049548, 0, 0, 19075308, 0, 64, 0, 261],
     [2, 0, 0, 1129518308, 1048582, 41943041, 16, 3497000964, 0, 0, 0, 0, 0, 0, 81269988, 0, 64, 0, 261],
     [3, 0, 0, 2171080940, 1048583, 33554439, 16, 53249, 0, 3495968772, 0, 3495952396, 0, 0, 19075308, 0, 64, 0, 261]]"

definition ref_functions :: "cap_function list" where
  "ref_functions = map (\<lambda>(i, address, es). \<lparr>cf_index = i, cf_address = address, cf_status = 0, cf_offset = 0,
      cf_headers = map (\<lambda>(a, v). \<lparr>ce_offset = a, ce_raw = v\<rparr>) es\<rparr>)
    [(0, [0, 0, 0], []),
     (1, [0, 2, 0], [(208, 2265089), (144, 45061), (176, 17235977)]),
     (2, [0, 19, 0], [(128, 28677), (112, 1073981441), (168, 1048594)]),
     (3, [0, 20, 0], [(112, 3250749441), (128, 8781829)]),
     (4, [0, 26, 0], [(128, 1208197121), (160, 5)]),
     (5, [0, 27, 0], [(80, 3359793153), (96, 8388613)]),
     (6, [0, 28, 0], [(64, 21135376), (128, 36869), (144, 40973), (160, 3355639809)]),
     (7, [0, 28, 1], [(64, 21135376), (128, 36869), (144, 40973), (160, 3355639809)]),
     (8, [0, 28, 2], [(64, 21135376), (128, 36869), (144, 40973), (160, 3355639809)]),
     (9, [0, 28, 3], [(64, 21135376), (128, 36869), (144, 40973), (160, 3355639809)]),
     (10, [0, 29, 0], [(80, 3385022465), (88, 547395594), (152, 50724883)]),
     (11, [0, 31, 0], [(224, 269221897)]),
     (12, [0, 31, 3], [(80, 196609)]),
     (13, [1, 0, 0], [(64, 4290990081), (80, 8417285), (112, 33730576), (176, 249873), (208, 3)]),
     (14, [2, 0, 0], [(64, 3456325633), (88, 7882761), (72, 8441861), (208, 65552)]),
     (15, [3, 0, 0], [(64, 4290990081), (80, 8417285), (112, 33730576), (176, 249873), (208, 3)])]"

definition rs_boot :: segment where
  "rs_boot = (''LEANOS/25 BOOT '',
    [''LEANOS/25 BOOT target=qotom-j1900-candidate phase=pci-inventory-diagnostic platform-admitted=0 cpl3=0'' @ NL])"

definition rs_cpu :: segment where
  "rs_cpu = (''LEANOS/25 CPU '',
    [words_text ''LEANOS/25 CPU'' 22 ''selection'' ref_cpu_words 65536 @ NL])"

definition rs_control :: segment where
  "rs_control = (''LEANOS/25 CONTROL '',
    [words_text ''LEANOS/25 CONTROL'' 8 ''readback'' ref_msr_words 1 @ NL])"

definition rs_bootstrap :: segment where
  "rs_bootstrap = (BOOTSTRAP_PREFIX,
    [render bootstrap_pattern [decimal 3219913727, ''1'', decimal 4276095232]])"

definition rs_ecam_memory :: segment where
  "rs_ecam_memory = (MEMORY_PREFIX,
    [render memory_pattern [decimal 3219913727, ''1'', decimal 1974748653749254, decimal 2147549215, decimal 1523712, decimal 104]])"

definition rs_ecam_arm :: segment where
  "rs_ecam_arm = (ARM_PREFIX,
    [ARM_LINE])"

definition rs_scan :: segment where
  "rs_scan = (''LEANOS/25 PCI-SCAN '',
    [printed (scan_pattern ref_P) [0, 16, 0, 0, 0, 0] @ NL])"

definition rs_headers :: segment where
  "rs_headers = (pr_pci_header ref_P,
    header_block ref_P ref_words)"

definition rs_native_pci :: segment where
  "rs_native_pci = (''LEANOS-LAB/1 NATIVE-PCI '',
    [NATIVE])"

definition rs_pci_caps :: segment where
  "rs_pci_caps = (''LEANOS-LAB/1 PCI-CAP'',
    concat (map print_function ref_functions))"

definition rs_pci_af :: segment where
  "rs_pci_af = (AF_PREFIX,
    [printed (af_pattern 0) [1, 0, 0],
     printed (af_pattern (Suc 0)) [1, 0, 0],
     printed (af_pattern 2) [1, 0, 0],
     printed (af_pattern 3) [1, 0, 0],
     printed (af_pattern 4) [1, 0, 0],
     printed (af_pattern 5) [1, 0, 0],
     printed (af_pattern 6) [1, 0, 0],
     printed (af_pattern 7) [1, 0, 0],
     printed (af_pattern 8) [1, 0, 0],
     printed (af_pattern 9) [1, 0, 0],
     printed (af_pattern 10) [0, 152, 0],
     printed (af_pattern 11) [1, 0, 0],
     printed (af_pattern 12) [1, 0, 0],
     printed (af_pattern 13) [1, 0, 0],
     printed (af_pattern 14) [1, 0, 0],
     printed (af_pattern 15) [1, 0, 0]])"

definition rs_ehci_caps :: segment where
  "rs_ehci_caps = (EHCI_CAPS,
    [printed ehci_caps_pattern [0, 16777248, 2097160, 223361]])"

definition rs_ehci_legacy :: segment where
  "rs_ehci_legacy = (EHCI_LEGACY,
    [printed ehci_legacy_pattern [0, 1, 104, 532485]])"

definition rs_ehci_ext :: segment where
  "rs_ehci_ext = (EHCI_EXT,
    [printed (ext_pattern EHCI_EXT 0) [104, 65537]])"

definition rs_ehci_handoff :: segment where
  "rs_ehci_handoff = (EHCI_HANDOFF,
    [printed ehci_handoff_pattern [0, 1, 1, 16777217, 8192]])"

definition rs_ehci_smi :: segment where
  "rs_ehci_smi = (EHCI_SMI,
    [printed (control_pattern (EHCI_SMI @ ''profile=qotom-smi-v1 index=10'')) [0, 1, 8192, 0]])"

definition rs_ehci_operational :: segment where
  "rs_ehci_operational = (EHCI_OPERATIONAL,
    [printed ehci_operational_pattern [0, 524288, 4096, 0, 0]])"

definition rs_ehci_bme :: segment where
  "rs_ehci_bme = (EHCI_BME,
    [printed (control_pattern (EHCI_BME @ ''profile=qotom-bme-v1 index=10'')) [0, 1, 1030, 1026]])"

definition rs_xhci_caps :: segment where
  "rs_xhci_caps = (XHCI_CAPS,
    [printed xhci_caps_pattern [0, 16777344, 117442592, 2214592596, 33554442, 536901569, 12288, 8192]])"

definition rs_xhci_legacy :: segment where
  "rs_xhci_legacy = (XHCI_LEGACY,
    [printed xhci_legacy_pattern [0, 6, 33888, 8193]])"

definition rs_xhci_ext :: segment where
  "rs_xhci_ext = (XHCI_EXT,
    [printed (ext_pattern XHCI_EXT 0) [32768, 33556482],
     printed (ext_pattern XHCI_EXT (Suc 0)) [32800, 50333698],
     printed (ext_pattern XHCI_EXT 2) [32832, 68801],
     printed (ext_pattern XHCI_EXT 3) [32880, 64704],
     printed (ext_pattern XHCI_EXT 4) [33888, 67585],
     printed (ext_pattern XHCI_EXT 5) [33920, 327690]])"

definition rs_xhci_handoff :: segment where
  "rs_xhci_handoff = (XHCI_HANDOFF,
    [render (xhci_handoff_head @ xhci_handoff_detail @ [Lit NL]) (''2'' # map decimal [0, 1, 1, 16779265, 8192, 0, 0, 0, 0])])"

definition rs_xhci_smi :: segment where
  "rs_xhci_smi = (XHCI_SMI,
    [printed (control_pattern (XHCI_SMI @ ''profile=qotom-xhci-smi-v1 index=3'')) [0, 1, 8192, 0]])"

definition rs_xhci_operational :: segment where
  "rs_xhci_operational = (XHCI_OPERATIONAL,
    [printed xhci_operational_pattern [0, 1, 0, 1]])"

definition rs_xhci_bme :: segment where
  "rs_xhci_bme = (XHCI_BME,
    [printed (control_pattern (XHCI_BME @ ''profile=qotom-xhci-bme-v1 index=3'')) [0, 1, 6, 2]])"

definition rs_pcie_device :: segment where
  "rs_pcie_device = (PCIE_DEVICE,
    [printed (pcie_pattern 0) [1, 0, 0, 0],
     printed (pcie_pattern (Suc 0)) [1, 0, 0, 0],
     printed (pcie_pattern 2) [1, 0, 0, 0],
     printed (pcie_pattern 3) [1, 0, 0, 0],
     printed (pcie_pattern 4) [1, 0, 0, 0],
     printed (pcie_pattern 5) [1, 0, 0, 0],
     printed (pcie_pattern 6) [0, 64, 32768, 1114112],
     printed (pcie_pattern 7) [0, 64, 32768, 1114112],
     printed (pcie_pattern 8) [0, 64, 32768, 1114112],
     printed (pcie_pattern 9) [0, 64, 32768, 1048576],
     printed (pcie_pattern 10) [1, 0, 0, 0],
     printed (pcie_pattern 11) [1, 0, 0, 0],
     printed (pcie_pattern 12) [1, 0, 0, 0],
     printed (pcie_pattern 13) [0, 112, 93359296, 1646592],
     printed (pcie_pattern 14) [0, 208, 93360032, 1638400],
     printed (pcie_pattern 15) [0, 112, 93359296, 1646592]])"

definition rs_ahci_caps :: segment where
  "rs_ahci_caps = (AHCI_CAPS,
    [printed ahci_caps_pattern [0, 3340828417, 2147483650, 2, 66304, 56]])"

definition rs_ahci_port :: segment where
  "rs_ahci_port = (AHCI_PORT,
    [printed ahci_port_pattern [0, 6, 0, 80, 291, 0, 0, 6]])"

definition rs_ahci_interrupts :: segment where
  "rs_ahci_interrupts = (AHCI_INTERRUPTS,
    [printed (control_pattern (AHCI_INTERRUPTS @ ''profile=qotom-ahci-interrupts-v1 index=2'')) [0, 1, 2147483650, 2147483648]])"

definition rs_ahci_bme :: segment where
  "rs_ahci_bme = (AHCI_BME,
    [printed (control_pattern (AHCI_BME @ ''profile=qotom-ahci-bme-v1 index=2'')) [0, 1, 7, 3]])"

definition rs_hda :: segment where
  "rs_hda = (HDA,
    [printed hda_pattern [0, 1, 17409, 0, 1, 0, 1]])"

definition rs_hda_state :: segment where
  "rs_hda_state = (HDA_STATE,
    [printed hda_state_pattern [0, 0, 0, 0, 262144, 262144, 262144, 262144, 262144, 262144, 262144, 262144]])"

definition rs_hda_bme :: segment where
  "rs_hda_bme = (HDA_BME,
    [printed (control_pattern (HDA_BME @ ''profile=qotom-hda-bme-v1 index=5'')) [0, 1, 6, 2]])"

definition rs_txe_status :: segment where
  "rs_txe_status = (TXE_STATUS,
    [printed txe_status_pattern [0, 520093909, 1761607680]])"

definition rs_rootport_bme :: segment where
  "rs_rootport_bme = (ROOTPORT_BME,
    [printed (port_bme_pattern (ROOTPORT_BME @ ''profile=qotom-rootport-bme-v1'')) [6, 0, 1, 7, 3],
     printed (port_bme_pattern (ROOTPORT_BME @ ''profile=qotom-rootport-bme-v1'')) [7, 0, 1, 7, 3],
     printed (port_bme_pattern (ROOTPORT_BME @ ''profile=qotom-rootport-bme-v1'')) [8, 0, 1, 7, 3],
     printed (port_bme_pattern (ROOTPORT_BME @ ''profile=qotom-rootport-bme-v1'')) [9, 0, 1, 7, 3]])"

definition rs_realtek_state :: segment where
  "rs_realtek_state = (REALTEK_STATE,
    [printed realtek_state_pattern [13, 0, 797969664, 0, 0, 196366, 0, 797969664],
     printed realtek_state_pattern [15, 0, 797969664, 0, 0, 196366, 0, 797969664]])"

definition rs_realtek_bme :: segment where
  "rs_realtek_bme = (REALTEK_BME,
    [printed (port_bme_pattern (REALTEK_BME @ ''profile=qotom-realtek-bme-v1'')) [13, 0, 1, 7, 3],
     printed (port_bme_pattern (REALTEK_BME @ ''profile=qotom-realtek-bme-v1'')) [15, 0, 1, 7, 3]])"

definition rs_pcie_pending :: segment where
  "rs_pcie_pending = (PCIE_PENDING,
    [printed pending_pattern [6, 0, 2, 17],
     printed pending_pattern [7, 0, 2, 17],
     printed pending_pattern [8, 0, 2, 17],
     printed pending_pattern [9, 0, 2, 16],
     printed pending_pattern [13, 0, 2, 25],
     printed pending_pattern [15, 0, 2, 25]])"

definition rs_broadcom_d3 :: segment where
  "rs_broadcom_d3 = (BROADCOM_D3,
    [printed d3_pattern [14, 0, 1, 6, 0, 2, 25, 16392, 1, 16395]])"

definition rs_graphics_state :: segment where
  "rs_graphics_state = (GRAPHICS_STATE,
    [printed graphics_pattern [1, 0, 30, 0, 0, 0, 0, 512, 0, 0, 0, 0, 512, 0, 0, 0, 0, 512, 0, 0, 0, 0, 512, 0, 0, 0, 0, 512, 0, 0, 0, 0, 512]])"

definition rs_graphics_bme :: segment where
  "rs_graphics_bme = (GRAPHICS_BME,
    [printed (port_bme_pattern (GRAPHICS_BME @ ''profile=qotom-valleyview-bme-v1'')) [1, 0, 1, 7, 3]])"

definition rs_txe_bme :: segment where
  "rs_txe_bme = (TXE_BME,
    [printed (port_bme_pattern (TXE_BME @ ''profile=qotom-txe-host-bme-v1'')) [4, 0, 1, 262, 258]])"

definition rs_pci_final :: segment where
  "rs_pci_final = (PCI_FINAL,
    [render (pci_final_pattern True) (map decimal [0, 16, 16, 1, 31, 1, 1] @ [csv (map nat FINAL_COMMANDS), decimal 1])])"

definition rs_nosmap :: segment where
  "rs_nosmap = (NOSMAP,
    [printed nosmap_pattern [0, 2147549215, 104, 1048680, 3328, 6, 0, 16, 2, 0, 0, 0]])"

definition rs_copy_roots :: segment where
  "rs_copy_roots = (COPY_ROOTS,
    [printed copy_root_pattern [0, 5, 3, 4088, 2, 1716224, 1671168, 1, 1, 16, 1, 1716224, 0, 1, 1, 0]])"

definition rs_manifest :: segment where
  "rs_manifest = (pr_entry_manifest ref_P @ '' '',
    [pr_entry_manifest ref_P @ MANIFEST_SUFFIX])"

definition rs_port_control :: segment where
  "rs_port_control = (pr_port_control ref_P @ '' '',
    [pr_port_control ref_P @ PORT_CONTROL_SUFFIX])"

definition rs_entry_ready :: segment where
  "rs_entry_ready = (ENTRY_READY,
    [ready_line])"

definition rs_entry :: segment where
  "rs_entry = (ENTRY_RECORD,
    [printed entry_pattern_line [0, 2, 1, 1523712, 1716224, 1716224, 1, 0, 15, 1, 1, 0, 1, 0]])"

definition ref_segments :: "segment list" where
  "ref_segments =
    [rs_boot, rs_cpu, rs_control, rs_bootstrap, rs_ecam_memory,
     rs_ecam_arm, rs_scan, rs_headers, rs_native_pci, rs_pci_caps,
     rs_pci_af, rs_ehci_caps, rs_ehci_legacy, rs_ehci_ext, rs_ehci_handoff,
     rs_ehci_smi, rs_ehci_operational, rs_ehci_bme, rs_xhci_caps, rs_xhci_legacy,
     rs_xhci_ext, rs_xhci_handoff, rs_xhci_smi, rs_xhci_operational, rs_xhci_bme,
     rs_pcie_device, rs_ahci_caps, rs_ahci_port, rs_ahci_interrupts, rs_ahci_bme,
     rs_hda, rs_hda_state, rs_hda_bme, rs_txe_status, rs_rootport_bme,
     rs_realtek_state, rs_realtek_bme, rs_pcie_pending, rs_broadcom_d3, rs_graphics_state,
     rs_graphics_bme, rs_txe_bme, rs_pci_final, rs_nosmap, rs_copy_roots,
     rs_manifest, rs_port_control, rs_entry_ready, rs_entry]"

subsection \<open>Shape\<close>

lemma ref_fst:
  "fst rs_boot = ''LEANOS/25 BOOT ''"
  "fst rs_cpu = ''LEANOS/25 CPU ''"
  "fst rs_control = ''LEANOS/25 CONTROL ''"
  "fst rs_bootstrap = BOOTSTRAP_PREFIX"
  "fst rs_ecam_memory = MEMORY_PREFIX"
  "fst rs_ecam_arm = ARM_PREFIX"
  "fst rs_scan = ''LEANOS/25 PCI-SCAN ''"
  "fst rs_headers = pr_pci_header ref_P"
  "fst rs_native_pci = ''LEANOS-LAB/1 NATIVE-PCI ''"
  "fst rs_pci_caps = ''LEANOS-LAB/1 PCI-CAP''"
  "fst rs_pci_af = AF_PREFIX"
  "fst rs_ehci_caps = EHCI_CAPS"
  "fst rs_ehci_legacy = EHCI_LEGACY"
  "fst rs_ehci_ext = EHCI_EXT"
  "fst rs_ehci_handoff = EHCI_HANDOFF"
  "fst rs_ehci_smi = EHCI_SMI"
  "fst rs_ehci_operational = EHCI_OPERATIONAL"
  "fst rs_ehci_bme = EHCI_BME"
  "fst rs_xhci_caps = XHCI_CAPS"
  "fst rs_xhci_legacy = XHCI_LEGACY"
  "fst rs_xhci_ext = XHCI_EXT"
  "fst rs_xhci_handoff = XHCI_HANDOFF"
  "fst rs_xhci_smi = XHCI_SMI"
  "fst rs_xhci_operational = XHCI_OPERATIONAL"
  "fst rs_xhci_bme = XHCI_BME"
  "fst rs_pcie_device = PCIE_DEVICE"
  "fst rs_ahci_caps = AHCI_CAPS"
  "fst rs_ahci_port = AHCI_PORT"
  "fst rs_ahci_interrupts = AHCI_INTERRUPTS"
  "fst rs_ahci_bme = AHCI_BME"
  "fst rs_hda = HDA"
  "fst rs_hda_state = HDA_STATE"
  "fst rs_hda_bme = HDA_BME"
  "fst rs_txe_status = TXE_STATUS"
  "fst rs_rootport_bme = ROOTPORT_BME"
  "fst rs_realtek_state = REALTEK_STATE"
  "fst rs_realtek_bme = REALTEK_BME"
  "fst rs_pcie_pending = PCIE_PENDING"
  "fst rs_broadcom_d3 = BROADCOM_D3"
  "fst rs_graphics_state = GRAPHICS_STATE"
  "fst rs_graphics_bme = GRAPHICS_BME"
  "fst rs_txe_bme = TXE_BME"
  "fst rs_pci_final = PCI_FINAL"
  "fst rs_nosmap = NOSMAP"
  "fst rs_copy_roots = COPY_ROOTS"
  "fst rs_manifest = pr_entry_manifest ref_P @ '' ''"
  "fst rs_port_control = pr_port_control ref_P @ '' ''"
  "fst rs_entry_ready = ENTRY_READY"
  "fst rs_entry = ENTRY_RECORD"
  by (simp_all add: rs_boot_def rs_cpu_def rs_control_def rs_bootstrap_def rs_ecam_memory_def rs_ecam_arm_def rs_scan_def rs_headers_def rs_native_pci_def rs_pci_caps_def rs_pci_af_def rs_ehci_caps_def rs_ehci_legacy_def rs_ehci_ext_def rs_ehci_handoff_def rs_ehci_smi_def rs_ehci_operational_def rs_ehci_bme_def rs_xhci_caps_def rs_xhci_legacy_def rs_xhci_ext_def rs_xhci_handoff_def rs_xhci_smi_def rs_xhci_operational_def rs_xhci_bme_def rs_pcie_device_def rs_ahci_caps_def rs_ahci_port_def rs_ahci_interrupts_def rs_ahci_bme_def rs_hda_def rs_hda_state_def rs_hda_bme_def rs_txe_status_def rs_rootport_bme_def rs_realtek_state_def rs_realtek_bme_def rs_pcie_pending_def rs_broadcom_d3_def rs_graphics_state_def rs_graphics_bme_def rs_txe_bme_def rs_pci_final_def rs_nosmap_def rs_copy_roots_def rs_manifest_def rs_port_control_def rs_entry_ready_def rs_entry_def)

lemma ref_snd:
  "snd rs_boot = [''LEANOS/25 BOOT target=qotom-j1900-candidate phase=pci-inventory-diagnostic platform-admitted=0 cpl3=0'' @ NL]"
  "snd rs_cpu = [words_text ''LEANOS/25 CPU'' 22 ''selection'' ref_cpu_words 65536 @ NL]"
  "snd rs_control = [words_text ''LEANOS/25 CONTROL'' 8 ''readback'' ref_msr_words 1 @ NL]"
  "snd rs_bootstrap = [render bootstrap_pattern [decimal 3219913727, ''1'', decimal 4276095232]]"
  "snd rs_ecam_memory = [render memory_pattern [decimal 3219913727, ''1'', decimal 1974748653749254, decimal 2147549215, decimal 1523712, decimal 104]]"
  "snd rs_ecam_arm = [ARM_LINE]"
  "snd rs_scan = [printed (scan_pattern ref_P) [0, 16, 0, 0, 0, 0] @ NL]"
  "snd rs_headers = header_block ref_P ref_words"
  "snd rs_native_pci = [NATIVE]"
  "snd rs_pci_caps = concat (map print_function ref_functions)"
  "snd rs_pci_af = [printed (af_pattern 0) [1, 0, 0],
     printed (af_pattern (Suc 0)) [1, 0, 0],
     printed (af_pattern 2) [1, 0, 0],
     printed (af_pattern 3) [1, 0, 0],
     printed (af_pattern 4) [1, 0, 0],
     printed (af_pattern 5) [1, 0, 0],
     printed (af_pattern 6) [1, 0, 0],
     printed (af_pattern 7) [1, 0, 0],
     printed (af_pattern 8) [1, 0, 0],
     printed (af_pattern 9) [1, 0, 0],
     printed (af_pattern 10) [0, 152, 0],
     printed (af_pattern 11) [1, 0, 0],
     printed (af_pattern 12) [1, 0, 0],
     printed (af_pattern 13) [1, 0, 0],
     printed (af_pattern 14) [1, 0, 0],
     printed (af_pattern 15) [1, 0, 0]]"
  "snd rs_ehci_caps = [printed ehci_caps_pattern [0, 16777248, 2097160, 223361]]"
  "snd rs_ehci_legacy = [printed ehci_legacy_pattern [0, 1, 104, 532485]]"
  "snd rs_ehci_ext = [printed (ext_pattern EHCI_EXT 0) [104, 65537]]"
  "snd rs_ehci_handoff = [printed ehci_handoff_pattern [0, 1, 1, 16777217, 8192]]"
  "snd rs_ehci_smi = [printed (control_pattern (EHCI_SMI @ ''profile=qotom-smi-v1 index=10'')) [0, 1, 8192, 0]]"
  "snd rs_ehci_operational = [printed ehci_operational_pattern [0, 524288, 4096, 0, 0]]"
  "snd rs_ehci_bme = [printed (control_pattern (EHCI_BME @ ''profile=qotom-bme-v1 index=10'')) [0, 1, 1030, 1026]]"
  "snd rs_xhci_caps = [printed xhci_caps_pattern [0, 16777344, 117442592, 2214592596, 33554442, 536901569, 12288, 8192]]"
  "snd rs_xhci_legacy = [printed xhci_legacy_pattern [0, 6, 33888, 8193]]"
  "snd rs_xhci_ext = [printed (ext_pattern XHCI_EXT 0) [32768, 33556482],
     printed (ext_pattern XHCI_EXT (Suc 0)) [32800, 50333698],
     printed (ext_pattern XHCI_EXT 2) [32832, 68801],
     printed (ext_pattern XHCI_EXT 3) [32880, 64704],
     printed (ext_pattern XHCI_EXT 4) [33888, 67585],
     printed (ext_pattern XHCI_EXT 5) [33920, 327690]]"
  "snd rs_xhci_handoff = [render (xhci_handoff_head @ xhci_handoff_detail @ [Lit NL]) (''2'' # map decimal [0, 1, 1, 16779265, 8192, 0, 0, 0, 0])]"
  "snd rs_xhci_smi = [printed (control_pattern (XHCI_SMI @ ''profile=qotom-xhci-smi-v1 index=3'')) [0, 1, 8192, 0]]"
  "snd rs_xhci_operational = [printed xhci_operational_pattern [0, 1, 0, 1]]"
  "snd rs_xhci_bme = [printed (control_pattern (XHCI_BME @ ''profile=qotom-xhci-bme-v1 index=3'')) [0, 1, 6, 2]]"
  "snd rs_pcie_device = [printed (pcie_pattern 0) [1, 0, 0, 0],
     printed (pcie_pattern (Suc 0)) [1, 0, 0, 0],
     printed (pcie_pattern 2) [1, 0, 0, 0],
     printed (pcie_pattern 3) [1, 0, 0, 0],
     printed (pcie_pattern 4) [1, 0, 0, 0],
     printed (pcie_pattern 5) [1, 0, 0, 0],
     printed (pcie_pattern 6) [0, 64, 32768, 1114112],
     printed (pcie_pattern 7) [0, 64, 32768, 1114112],
     printed (pcie_pattern 8) [0, 64, 32768, 1114112],
     printed (pcie_pattern 9) [0, 64, 32768, 1048576],
     printed (pcie_pattern 10) [1, 0, 0, 0],
     printed (pcie_pattern 11) [1, 0, 0, 0],
     printed (pcie_pattern 12) [1, 0, 0, 0],
     printed (pcie_pattern 13) [0, 112, 93359296, 1646592],
     printed (pcie_pattern 14) [0, 208, 93360032, 1638400],
     printed (pcie_pattern 15) [0, 112, 93359296, 1646592]]"
  "snd rs_ahci_caps = [printed ahci_caps_pattern [0, 3340828417, 2147483650, 2, 66304, 56]]"
  "snd rs_ahci_port = [printed ahci_port_pattern [0, 6, 0, 80, 291, 0, 0, 6]]"
  "snd rs_ahci_interrupts = [printed (control_pattern (AHCI_INTERRUPTS @ ''profile=qotom-ahci-interrupts-v1 index=2'')) [0, 1, 2147483650, 2147483648]]"
  "snd rs_ahci_bme = [printed (control_pattern (AHCI_BME @ ''profile=qotom-ahci-bme-v1 index=2'')) [0, 1, 7, 3]]"
  "snd rs_hda = [printed hda_pattern [0, 1, 17409, 0, 1, 0, 1]]"
  "snd rs_hda_state = [printed hda_state_pattern [0, 0, 0, 0, 262144, 262144, 262144, 262144, 262144, 262144, 262144, 262144]]"
  "snd rs_hda_bme = [printed (control_pattern (HDA_BME @ ''profile=qotom-hda-bme-v1 index=5'')) [0, 1, 6, 2]]"
  "snd rs_txe_status = [printed txe_status_pattern [0, 520093909, 1761607680]]"
  "snd rs_rootport_bme = [printed (port_bme_pattern (ROOTPORT_BME @ ''profile=qotom-rootport-bme-v1'')) [6, 0, 1, 7, 3],
     printed (port_bme_pattern (ROOTPORT_BME @ ''profile=qotom-rootport-bme-v1'')) [7, 0, 1, 7, 3],
     printed (port_bme_pattern (ROOTPORT_BME @ ''profile=qotom-rootport-bme-v1'')) [8, 0, 1, 7, 3],
     printed (port_bme_pattern (ROOTPORT_BME @ ''profile=qotom-rootport-bme-v1'')) [9, 0, 1, 7, 3]]"
  "snd rs_realtek_state = [printed realtek_state_pattern [13, 0, 797969664, 0, 0, 196366, 0, 797969664],
     printed realtek_state_pattern [15, 0, 797969664, 0, 0, 196366, 0, 797969664]]"
  "snd rs_realtek_bme = [printed (port_bme_pattern (REALTEK_BME @ ''profile=qotom-realtek-bme-v1'')) [13, 0, 1, 7, 3],
     printed (port_bme_pattern (REALTEK_BME @ ''profile=qotom-realtek-bme-v1'')) [15, 0, 1, 7, 3]]"
  "snd rs_pcie_pending = [printed pending_pattern [6, 0, 2, 17],
     printed pending_pattern [7, 0, 2, 17],
     printed pending_pattern [8, 0, 2, 17],
     printed pending_pattern [9, 0, 2, 16],
     printed pending_pattern [13, 0, 2, 25],
     printed pending_pattern [15, 0, 2, 25]]"
  "snd rs_broadcom_d3 = [printed d3_pattern [14, 0, 1, 6, 0, 2, 25, 16392, 1, 16395]]"
  "snd rs_graphics_state = [printed graphics_pattern [1, 0, 30, 0, 0, 0, 0, 512, 0, 0, 0, 0, 512, 0, 0, 0, 0, 512, 0, 0, 0, 0, 512, 0, 0, 0, 0, 512, 0, 0, 0, 0, 512]]"
  "snd rs_graphics_bme = [printed (port_bme_pattern (GRAPHICS_BME @ ''profile=qotom-valleyview-bme-v1'')) [1, 0, 1, 7, 3]]"
  "snd rs_txe_bme = [printed (port_bme_pattern (TXE_BME @ ''profile=qotom-txe-host-bme-v1'')) [4, 0, 1, 262, 258]]"
  "snd rs_pci_final = [render (pci_final_pattern True) (map decimal [0, 16, 16, 1, 31, 1, 1] @ [csv (map nat FINAL_COMMANDS), decimal 1])]"
  "snd rs_nosmap = [printed nosmap_pattern [0, 2147549215, 104, 1048680, 3328, 6, 0, 16, 2, 0, 0, 0]]"
  "snd rs_copy_roots = [printed copy_root_pattern [0, 5, 3, 4088, 2, 1716224, 1671168, 1, 1, 16, 1, 1716224, 0, 1, 1, 0]]"
  "snd rs_manifest = [pr_entry_manifest ref_P @ MANIFEST_SUFFIX]"
  "snd rs_port_control = [pr_port_control ref_P @ PORT_CONTROL_SUFFIX]"
  "snd rs_entry_ready = [ready_line]"
  "snd rs_entry = [printed entry_pattern_line [0, 2, 1, 1523712, 1716224, 1716224, 1, 0, 15, 1, 1, 0, 1, 0]]"
  by (simp_all add: rs_boot_def rs_cpu_def rs_control_def rs_bootstrap_def rs_ecam_memory_def rs_ecam_arm_def rs_scan_def rs_headers_def rs_native_pci_def rs_pci_caps_def rs_pci_af_def rs_ehci_caps_def rs_ehci_legacy_def rs_ehci_ext_def rs_ehci_handoff_def rs_ehci_smi_def rs_ehci_operational_def rs_ehci_bme_def rs_xhci_caps_def rs_xhci_legacy_def rs_xhci_ext_def rs_xhci_handoff_def rs_xhci_smi_def rs_xhci_operational_def rs_xhci_bme_def rs_pcie_device_def rs_ahci_caps_def rs_ahci_port_def rs_ahci_interrupts_def rs_ahci_bme_def rs_hda_def rs_hda_state_def rs_hda_bme_def rs_txe_status_def rs_rootport_bme_def rs_realtek_state_def rs_realtek_bme_def rs_pcie_pending_def rs_broadcom_d3_def rs_graphics_state_def rs_graphics_bme_def rs_txe_bme_def rs_pci_final_def rs_nosmap_def rs_copy_roots_def rs_manifest_def rs_port_control_def rs_entry_ready_def rs_entry_def)

lemma replicate_rings: "replicate 29 x = [x, x, x, x, x, x, x, x, x, x, x, x, x, x, x, x, x, x, x, x, x, x, x, x, x, x, x, x, x]"
  by (simp add: numeral_eq_Suc)

text \<open>The patterns and the values written with them.\<close>

lemma good_af_prefix:
  "good_pattern AF_PREFIX (af_pattern 0)"
  "good_pattern AF_PREFIX (af_pattern (Suc 0))"
  "good_pattern AF_PREFIX (af_pattern 2)"
  "good_pattern AF_PREFIX (af_pattern 3)"
  "good_pattern AF_PREFIX (af_pattern 4)"
  "good_pattern AF_PREFIX (af_pattern 5)"
  "good_pattern AF_PREFIX (af_pattern 6)"
  "good_pattern AF_PREFIX (af_pattern 7)"
  "good_pattern AF_PREFIX (af_pattern 8)"
  "good_pattern AF_PREFIX (af_pattern 9)"
  "good_pattern AF_PREFIX (af_pattern 10)"
  "good_pattern AF_PREFIX (af_pattern 11)"
  "good_pattern AF_PREFIX (af_pattern 12)"
  "good_pattern AF_PREFIX (af_pattern 13)"
  "good_pattern AF_PREFIX (af_pattern 14)"
  "good_pattern AF_PREFIX (af_pattern 15)"
  by code_simp+

lemma prints_af_prefix:
  "prints (af_pattern 0) [1, 0, 0]"
  "prints (af_pattern (Suc 0)) [1, 0, 0]"
  "prints (af_pattern 2) [1, 0, 0]"
  "prints (af_pattern 3) [1, 0, 0]"
  "prints (af_pattern 4) [1, 0, 0]"
  "prints (af_pattern 5) [1, 0, 0]"
  "prints (af_pattern 6) [1, 0, 0]"
  "prints (af_pattern 7) [1, 0, 0]"
  "prints (af_pattern 8) [1, 0, 0]"
  "prints (af_pattern 9) [1, 0, 0]"
  "prints (af_pattern 10) [0, 152, 0]"
  "prints (af_pattern 11) [1, 0, 0]"
  "prints (af_pattern 12) [1, 0, 0]"
  "prints (af_pattern 13) [1, 0, 0]"
  "prints (af_pattern 14) [1, 0, 0]"
  "prints (af_pattern 15) [1, 0, 0]"
  by (simp_all add: prints_def af_pattern_def)

lemma good_ehci_caps:
  "good_pattern EHCI_CAPS ehci_caps_pattern"
  by code_simp+

lemma prints_ehci_caps:
  "prints ehci_caps_pattern [0, 16777248, 2097160, 223361]"
  by (simp_all add: prints_def ehci_caps_pattern_def)

lemma good_ehci_legacy:
  "good_pattern EHCI_LEGACY ehci_legacy_pattern"
  by code_simp+

lemma prints_ehci_legacy:
  "prints ehci_legacy_pattern [0, 1, 104, 532485]"
  by (simp_all add: prints_def ehci_legacy_pattern_def)

lemma good_ehci_ext:
  "good_pattern EHCI_EXT (ext_pattern EHCI_EXT 0)"
  by code_simp+

lemma prints_ehci_ext:
  "prints (ext_pattern EHCI_EXT 0) [104, 65537]"
  by (simp_all add: prints_def ext_pattern_def)

lemma good_ehci_handoff:
  "good_pattern EHCI_HANDOFF ehci_handoff_pattern"
  by code_simp+

lemma prints_ehci_handoff:
  "prints ehci_handoff_pattern [0, 1, 1, 16777217, 8192]"
  by (simp_all add: prints_def ehci_handoff_pattern_def)

lemma good_ehci_smi:
  "good_pattern EHCI_SMI (control_pattern (EHCI_SMI @ ''profile=qotom-smi-v1 index=10''))"
  by code_simp+

lemma prints_ehci_smi:
  "prints (control_pattern (EHCI_SMI @ ''profile=qotom-smi-v1 index=10'')) [0, 1, 8192, 0]"
  by (simp_all add: prints_def control_pattern_def)

lemma good_ehci_operational:
  "good_pattern EHCI_OPERATIONAL ehci_operational_pattern"
  by code_simp+

lemma prints_ehci_operational:
  "prints ehci_operational_pattern [0, 524288, 4096, 0, 0]"
  by (simp_all add: prints_def ehci_operational_pattern_def)

lemma good_ehci_bme:
  "good_pattern EHCI_BME (control_pattern (EHCI_BME @ ''profile=qotom-bme-v1 index=10''))"
  by code_simp+

lemma prints_ehci_bme:
  "prints (control_pattern (EHCI_BME @ ''profile=qotom-bme-v1 index=10'')) [0, 1, 1030, 1026]"
  by (simp_all add: prints_def control_pattern_def)

lemma good_xhci_caps:
  "good_pattern XHCI_CAPS xhci_caps_pattern"
  by code_simp+

lemma prints_xhci_caps:
  "prints xhci_caps_pattern [0, 16777344, 117442592, 2214592596, 33554442, 536901569, 12288, 8192]"
  by (simp_all add: prints_def xhci_caps_pattern_def)

lemma good_xhci_legacy:
  "good_pattern XHCI_LEGACY xhci_legacy_pattern"
  by code_simp+

lemma prints_xhci_legacy:
  "prints xhci_legacy_pattern [0, 6, 33888, 8193]"
  by (simp_all add: prints_def xhci_legacy_pattern_def)

lemma good_xhci_ext:
  "good_pattern XHCI_EXT (ext_pattern XHCI_EXT 0)"
  "good_pattern XHCI_EXT (ext_pattern XHCI_EXT (Suc 0))"
  "good_pattern XHCI_EXT (ext_pattern XHCI_EXT 2)"
  "good_pattern XHCI_EXT (ext_pattern XHCI_EXT 3)"
  "good_pattern XHCI_EXT (ext_pattern XHCI_EXT 4)"
  "good_pattern XHCI_EXT (ext_pattern XHCI_EXT 5)"
  by code_simp+

lemma prints_xhci_ext:
  "prints (ext_pattern XHCI_EXT 0) [32768, 33556482]"
  "prints (ext_pattern XHCI_EXT (Suc 0)) [32800, 50333698]"
  "prints (ext_pattern XHCI_EXT 2) [32832, 68801]"
  "prints (ext_pattern XHCI_EXT 3) [32880, 64704]"
  "prints (ext_pattern XHCI_EXT 4) [33888, 67585]"
  "prints (ext_pattern XHCI_EXT 5) [33920, 327690]"
  by (simp_all add: prints_def ext_pattern_def)

lemma good_xhci_smi:
  "good_pattern XHCI_SMI (control_pattern (XHCI_SMI @ ''profile=qotom-xhci-smi-v1 index=3''))"
  by code_simp+

lemma prints_xhci_smi:
  "prints (control_pattern (XHCI_SMI @ ''profile=qotom-xhci-smi-v1 index=3'')) [0, 1, 8192, 0]"
  by (simp_all add: prints_def control_pattern_def)

lemma good_xhci_operational:
  "good_pattern XHCI_OPERATIONAL xhci_operational_pattern"
  by code_simp+

lemma prints_xhci_operational:
  "prints xhci_operational_pattern [0, 1, 0, 1]"
  by (simp_all add: prints_def xhci_operational_pattern_def)

lemma good_xhci_bme:
  "good_pattern XHCI_BME (control_pattern (XHCI_BME @ ''profile=qotom-xhci-bme-v1 index=3''))"
  by code_simp+

lemma prints_xhci_bme:
  "prints (control_pattern (XHCI_BME @ ''profile=qotom-xhci-bme-v1 index=3'')) [0, 1, 6, 2]"
  by (simp_all add: prints_def control_pattern_def)

lemma good_pcie_device:
  "good_pattern PCIE_DEVICE (pcie_pattern 0)"
  "good_pattern PCIE_DEVICE (pcie_pattern (Suc 0))"
  "good_pattern PCIE_DEVICE (pcie_pattern 2)"
  "good_pattern PCIE_DEVICE (pcie_pattern 3)"
  "good_pattern PCIE_DEVICE (pcie_pattern 4)"
  "good_pattern PCIE_DEVICE (pcie_pattern 5)"
  "good_pattern PCIE_DEVICE (pcie_pattern 6)"
  "good_pattern PCIE_DEVICE (pcie_pattern 7)"
  "good_pattern PCIE_DEVICE (pcie_pattern 8)"
  "good_pattern PCIE_DEVICE (pcie_pattern 9)"
  "good_pattern PCIE_DEVICE (pcie_pattern 10)"
  "good_pattern PCIE_DEVICE (pcie_pattern 11)"
  "good_pattern PCIE_DEVICE (pcie_pattern 12)"
  "good_pattern PCIE_DEVICE (pcie_pattern 13)"
  "good_pattern PCIE_DEVICE (pcie_pattern 14)"
  "good_pattern PCIE_DEVICE (pcie_pattern 15)"
  by code_simp+

lemma prints_pcie_device:
  "prints (pcie_pattern 0) [1, 0, 0, 0]"
  "prints (pcie_pattern (Suc 0)) [1, 0, 0, 0]"
  "prints (pcie_pattern 2) [1, 0, 0, 0]"
  "prints (pcie_pattern 3) [1, 0, 0, 0]"
  "prints (pcie_pattern 4) [1, 0, 0, 0]"
  "prints (pcie_pattern 5) [1, 0, 0, 0]"
  "prints (pcie_pattern 6) [0, 64, 32768, 1114112]"
  "prints (pcie_pattern 7) [0, 64, 32768, 1114112]"
  "prints (pcie_pattern 8) [0, 64, 32768, 1114112]"
  "prints (pcie_pattern 9) [0, 64, 32768, 1048576]"
  "prints (pcie_pattern 10) [1, 0, 0, 0]"
  "prints (pcie_pattern 11) [1, 0, 0, 0]"
  "prints (pcie_pattern 12) [1, 0, 0, 0]"
  "prints (pcie_pattern 13) [0, 112, 93359296, 1646592]"
  "prints (pcie_pattern 14) [0, 208, 93360032, 1638400]"
  "prints (pcie_pattern 15) [0, 112, 93359296, 1646592]"
  by (simp_all add: prints_def pcie_pattern_def)

lemma good_ahci_caps:
  "good_pattern AHCI_CAPS ahci_caps_pattern"
  by code_simp+

lemma prints_ahci_caps:
  "prints ahci_caps_pattern [0, 3340828417, 2147483650, 2, 66304, 56]"
  by (simp_all add: prints_def ahci_caps_pattern_def)

lemma good_ahci_port:
  "good_pattern AHCI_PORT ahci_port_pattern"
  by code_simp+

lemma prints_ahci_port:
  "prints ahci_port_pattern [0, 6, 0, 80, 291, 0, 0, 6]"
  by (simp_all add: prints_def ahci_port_pattern_def)

lemma good_ahci_interrupts:
  "good_pattern AHCI_INTERRUPTS (control_pattern (AHCI_INTERRUPTS @ ''profile=qotom-ahci-interrupts-v1 index=2''))"
  by code_simp+

lemma prints_ahci_interrupts:
  "prints (control_pattern (AHCI_INTERRUPTS @ ''profile=qotom-ahci-interrupts-v1 index=2'')) [0, 1, 2147483650, 2147483648]"
  by (simp_all add: prints_def control_pattern_def)

lemma good_ahci_bme:
  "good_pattern AHCI_BME (control_pattern (AHCI_BME @ ''profile=qotom-ahci-bme-v1 index=2''))"
  by code_simp+

lemma prints_ahci_bme:
  "prints (control_pattern (AHCI_BME @ ''profile=qotom-ahci-bme-v1 index=2'')) [0, 1, 7, 3]"
  by (simp_all add: prints_def control_pattern_def)

lemma good_hda:
  "good_pattern HDA hda_pattern"
  by code_simp+

lemma prints_hda:
  "prints hda_pattern [0, 1, 17409, 0, 1, 0, 1]"
  by (simp_all add: prints_def hda_pattern_def)

lemma good_hda_state:
  "good_pattern HDA_STATE hda_state_pattern"
  by code_simp+

lemma prints_hda_state:
  "prints hda_state_pattern [0, 0, 0, 0, 262144, 262144, 262144, 262144, 262144, 262144, 262144, 262144]"
  by (simp_all add: prints_def hda_state_pattern_def hda_state_keys_def upt_rec)

lemma good_hda_bme:
  "good_pattern HDA_BME (control_pattern (HDA_BME @ ''profile=qotom-hda-bme-v1 index=5''))"
  by code_simp+

lemma prints_hda_bme:
  "prints (control_pattern (HDA_BME @ ''profile=qotom-hda-bme-v1 index=5'')) [0, 1, 6, 2]"
  by (simp_all add: prints_def control_pattern_def)

lemma good_txe_status:
  "good_pattern TXE_STATUS txe_status_pattern"
  by code_simp+

lemma prints_txe_status:
  "prints txe_status_pattern [0, 520093909, 1761607680]"
  by (simp_all add: prints_def txe_status_pattern_def)

lemma good_rootport_bme:
  "good_pattern ROOTPORT_BME (port_bme_pattern (ROOTPORT_BME @ ''profile=qotom-rootport-bme-v1''))"
  by code_simp+

lemma prints_rootport_bme:
  "prints (port_bme_pattern (ROOTPORT_BME @ ''profile=qotom-rootport-bme-v1'')) [6, 0, 1, 7, 3]"
  "prints (port_bme_pattern (ROOTPORT_BME @ ''profile=qotom-rootport-bme-v1'')) [7, 0, 1, 7, 3]"
  "prints (port_bme_pattern (ROOTPORT_BME @ ''profile=qotom-rootport-bme-v1'')) [8, 0, 1, 7, 3]"
  "prints (port_bme_pattern (ROOTPORT_BME @ ''profile=qotom-rootport-bme-v1'')) [9, 0, 1, 7, 3]"
  by (simp_all add: prints_def port_bme_pattern_def)

lemma good_realtek_state:
  "good_pattern REALTEK_STATE realtek_state_pattern"
  by code_simp+

lemma prints_realtek_state:
  "prints realtek_state_pattern [13, 0, 797969664, 0, 0, 196366, 0, 797969664]"
  "prints realtek_state_pattern [15, 0, 797969664, 0, 0, 196366, 0, 797969664]"
  by (simp_all add: prints_def realtek_state_pattern_def)

lemma good_realtek_bme:
  "good_pattern REALTEK_BME (port_bme_pattern (REALTEK_BME @ ''profile=qotom-realtek-bme-v1''))"
  by code_simp+

lemma prints_realtek_bme:
  "prints (port_bme_pattern (REALTEK_BME @ ''profile=qotom-realtek-bme-v1'')) [13, 0, 1, 7, 3]"
  "prints (port_bme_pattern (REALTEK_BME @ ''profile=qotom-realtek-bme-v1'')) [15, 0, 1, 7, 3]"
  by (simp_all add: prints_def port_bme_pattern_def)

lemma good_pcie_pending:
  "good_pattern PCIE_PENDING pending_pattern"
  by code_simp+

lemma prints_pcie_pending:
  "prints pending_pattern [6, 0, 2, 17]"
  "prints pending_pattern [7, 0, 2, 17]"
  "prints pending_pattern [8, 0, 2, 17]"
  "prints pending_pattern [9, 0, 2, 16]"
  "prints pending_pattern [13, 0, 2, 25]"
  "prints pending_pattern [15, 0, 2, 25]"
  by (simp_all add: prints_def pending_pattern_def)

lemma good_broadcom_d3:
  "good_pattern BROADCOM_D3 d3_pattern"
  by code_simp+

lemma prints_broadcom_d3:
  "prints d3_pattern [14, 0, 1, 6, 0, 2, 25, 16392, 1, 16395]"
  by (simp_all add: prints_def d3_pattern_def)

lemma good_graphics_state:
  "good_pattern GRAPHICS_STATE graphics_pattern"
  by code_simp+

lemma prints_graphics_state:
  "prints graphics_pattern [1, 0, 30, 0, 0, 0, 0, 512, 0, 0, 0, 0, 512, 0, 0, 0, 0, 512, 0, 0, 0, 0, 512, 0, 0, 0, 0, 512, 0, 0, 0, 0, 512]"
  by (simp_all add: prints_def graphics_pattern_def replicate_rings)

lemma good_graphics_bme:
  "good_pattern GRAPHICS_BME (port_bme_pattern (GRAPHICS_BME @ ''profile=qotom-valleyview-bme-v1''))"
  by code_simp+

lemma prints_graphics_bme:
  "prints (port_bme_pattern (GRAPHICS_BME @ ''profile=qotom-valleyview-bme-v1'')) [1, 0, 1, 7, 3]"
  by (simp_all add: prints_def port_bme_pattern_def)

lemma good_txe_bme:
  "good_pattern TXE_BME (port_bme_pattern (TXE_BME @ ''profile=qotom-txe-host-bme-v1''))"
  by code_simp+

lemma prints_txe_bme:
  "prints (port_bme_pattern (TXE_BME @ ''profile=qotom-txe-host-bme-v1'')) [4, 0, 1, 262, 258]"
  by (simp_all add: prints_def port_bme_pattern_def)

lemma good_nosmap:
  "good_pattern NOSMAP nosmap_pattern"
  by code_simp+

lemma prints_nosmap:
  "prints nosmap_pattern [0, 2147549215, 104, 1048680, 3328, 6, 0, 16, 2, 0, 0, 0]"
  by (simp_all add: prints_def nosmap_pattern_def)

lemma good_copy_roots:
  "good_pattern COPY_ROOTS copy_root_pattern"
  by code_simp+

lemma prints_copy_roots:
  "prints copy_root_pattern [0, 5, 3, 4088, 2, 1716224, 1671168, 1, 1, 16, 1, 1716224, 0, 1, 1, 0]"
  by (simp_all add: prints_def copy_root_pattern_def)

lemma good_entry_record:
  "good_pattern ENTRY_RECORD entry_pattern_line"
  by code_simp+

lemma prints_entry_record:
  "prints entry_pattern_line [0, 2, 1, 1523712, 1716224, 1716224, 1, 0, 15, 1, 1, 0, 1, 0]"
  by (simp_all add: prints_def entry_pattern_line_def)

lemmas ref_patterns =
  good_af_prefix prints_af_prefix good_ehci_caps prints_ehci_caps good_ehci_legacy prints_ehci_legacy good_ehci_ext prints_ehci_ext good_ehci_handoff prints_ehci_handoff good_ehci_smi prints_ehci_smi good_ehci_operational prints_ehci_operational good_ehci_bme prints_ehci_bme good_xhci_caps prints_xhci_caps good_xhci_legacy prints_xhci_legacy good_xhci_ext prints_xhci_ext good_xhci_smi prints_xhci_smi good_xhci_operational prints_xhci_operational good_xhci_bme prints_xhci_bme good_pcie_device prints_pcie_device good_ahci_caps prints_ahci_caps good_ahci_port prints_ahci_port good_ahci_interrupts prints_ahci_interrupts good_ahci_bme prints_ahci_bme good_hda prints_hda good_hda_state prints_hda_state good_hda_bme prints_hda_bme good_txe_status prints_txe_status good_rootport_bme prints_rootport_bme good_realtek_state prints_realtek_state good_realtek_bme prints_realtek_bme good_pcie_pending prints_pcie_pending good_broadcom_d3 prints_broadcom_d3 good_graphics_state prints_graphics_state good_graphics_bme prints_graphics_bme good_txe_bme prints_txe_bme good_nosmap prints_nosmap good_copy_roots prints_copy_roots good_entry_record prints_entry_record

end
