(* ===== verification/Reference_Capture.thy ===== *)
theory Reference_Capture
  imports Reference_Lines
begin

text \<open>
  Every decoder of the chain accepts the reference capture, stage after stage, up to the entry
  checkpoint: the hypotheses of the properties about accepted captures hold for what the machine
  printed.
\<close>

subsection \<open>The capture is well formed\<close>

lemma ref_word_facts: "list_all (\<lambda>ws. length ws = 19 \<and> list_all (\<lambda>n. n < 10 ^ 10) ws) ref_words" "length ref_words = 16"
  by (simp_all add: ref_words_def)

lemma headers_ok_lines: "list_all (line_ok (pr_pci_header ref_P)) (header_block ref_P ref_words)"
proof -
  have "line_ok (pr_pci_header ref_P) (header_line ref_P i ws)" if "(i, ws) \<in> set (enumerate 0 ref_words)" for i ws
  proof (rule header_line_ok)
    from that have "ws \<in> set ref_words" "i < 16"
      using ref_word_facts(2) by (auto simp: in_set_enumerate_eq)
    then show "length ws = 19" "\<forall>n\<in>set ws. n < 10 ^ 10" "i < 100"
      using ref_word_facts(1) by (auto simp: list_all_iff)
  qed (simp_all add: clean_simps)
  then show ?thesis by (auto simp: header_block_def list_all_iff)
qed

lemma ref_functions_facts:
  "list_all2 (\<lambda>ws f. function_ok ws f \<and> cf_status f = 0) (map (map int) ref_words) ref_functions"
  "map cf_index ref_functions = [0..<16]" "length (concat (map print_function ref_functions)) = 63"
  by (simp add: ref_words_def ref_functions_def function_ok_def cap_list_ok_def entry_ok_def first_pointer_def next_link_def)
    (code_simp, simp add: ref_functions_def print_function_def)

lemma caps_patterns:
  assumes "i < 100" "j < 100"
  shows "good_pattern ''LEANOS-LAB/1 PCI-CAP'' (entry_pattern i j)" "good_pattern ''LEANOS-LAB/1 PCI-CAP'' (summary_pattern i)"
proof -
  have "length (decimal i) \<le> 2" "length (decimal j) \<le> 2"
    using assms decimal_length [of i 1] decimal_length [of j 1] by simp_all
  then show "good_pattern ''LEANOS-LAB/1 PCI-CAP'' (entry_pattern i j)" "good_pattern ''LEANOS-LAB/1 PCI-CAP'' (summary_pattern i)"
    using entry_pattern_ok summary_pattern_ok
    by (simp_all add: good_pattern_def entry_pattern_def summary_pattern_def CAPS_ENTRY_def CAPS_SUMMARY_def clean_simps)
qed

lemma print_function_ok:
  assumes "function_ok ws f" "cf_status f = 0" "cf_index f < 100" "l \<in> set (print_function f)"
  shows "line_ok ''LEANOS-LAB/1 PCI-CAP'' l \<and> caps_record l"
proof -
  have es: "line_ok ''LEANOS-LAB/1 PCI-CAP'' l \<and> caps_record l"
    if "l \<in> set (print_entries i j es)" "\<forall>e\<in>set es. entry_ok e" "j + length es < 100" "i < 100" for i j es
    using that
  proof (induction es arbitrary: j)
    case (Cons e es)
    have "in_range (entry_pattern i j) [nat (ce_offset e), nat (ce_raw e)]"
      using Cons.prems(2) by (simp add: entry_pattern_def entry_ok_def nat_less_iff)
    then have "line_ok ''LEANOS-LAB/1 PCI-CAP'' (print_entry i j e)"
      unfolding print_entry_def using Cons.prems(3,4) by (intro record_line_ok caps_patterns) auto
    moreover have "caps_record (print_entry i j e)"
      by (simp add: caps_record_def print_entry_def record_line_def entry_pattern_def)
    ultimately show ?case using Cons by auto
  qed simp
  let ?sum = "record_line (summary_pattern (cf_index f)) [0, 0, length (cf_headers f)]"
  from assms(1,2) have h: "length (cf_headers f) \<le> 48" "\<forall>e\<in>set (cf_headers f). entry_ok e" "cf_offset f = 0"
    by (simp_all add: function_ok_def cap_list_ok_def)
  have "in_range (summary_pattern (cf_index f)) [0, 0, length (cf_headers f)]"
    using h(1) by (simp add: summary_pattern_def)
  then have "line_ok ''LEANOS-LAB/1 PCI-CAP'' ?sum" using assms(3) by (intro record_line_ok caps_patterns) auto
  moreover have "caps_record ?sum" by (simp add: caps_record_def record_line_def summary_pattern_def)
  ultimately show ?thesis
    using assms(2-4) h es [of "cf_index f" 0 "cf_headers f"] by (auto simp: print_function_def)
qed

lemma caps_lines_ok: "list_all (\<lambda>l. line_ok ''LEANOS-LAB/1 PCI-CAP'' l \<and> caps_record l) (concat (map print_function ref_functions))"
proof -
  have "cf_index f < 100" if "f \<in> set ref_functions" for f
  proof -
    from that have "cf_index f \<in> set (map cf_index ref_functions)" by simp
    then show ?thesis unfolding ref_functions_facts(2) by simp
  qed
  moreover have "\<exists>ws. function_ok ws f \<and> cf_status f = 0" if "f \<in> set ref_functions" for f
    using that ref_functions_facts(1) by (auto simp: list_all2_conv_all_nth in_set_conv_nth)
  ultimately show ?thesis using print_function_ok by (fastforce simp: list_all_iff)
qed

lemma segments_facts:
  "list_all (line_ok (fst rs_boot)) (snd rs_boot)" "list_all (line_ok (fst rs_ecam_arm)) (snd rs_ecam_arm)"
  "list_all (line_ok (fst rs_native_pci)) (snd rs_native_pci)" "list_all (line_ok (fst rs_manifest)) (snd rs_manifest)"
  "list_all (line_ok (fst rs_port_control)) (snd rs_port_control)" "list_all (line_ok (fst rs_entry_ready)) (snd rs_entry_ready)"
  by code_simp+

lemma words_line_ok:
  assumes "clean label" "length label < 50" "startswith (label @ '' profile='') p" "count < 100" "length field < 50" "clean field"
    and "length ws \<le> 30" "ws \<noteq> []" "\<forall>n\<in>set ws. 0 \<le> n \<and> n < 10 ^ 10" "0 \<le> v" "v < 10 ^ 10"
  shows "line_ok p (words_text label count field ws v @ NL)"
proof (rule literal_line_ok)
  show "clean (words_text label count field ws v)" using assms by (simp add: words_text_def clean_simps)
  show "startswith (words_text label count field ws v) p"
    using startswith_trans [OF startswith_append assms(3), of "''j1900-cpu-v1 codec=1 width='' @ decimal count @ '' words='' @
      csv (map nat ws) @ '' '' @ field @ ''='' @ decimal (nat v)"] by (simp add: words_text_def)
  have "length (csv (map nat ws)) \<le> 11 * length ws" using csv_width [of "map nat ws"] assms by (simp add: nat_less_iff)
  moreover have "length (decimal count) \<le> 2" "length (decimal (nat v)) \<le> 10"
    using assms decimal_length [of count 1] decimal_length [of "nat v" 9] by (simp_all add: nat_less_iff)
  ultimately show "length (words_text label count field ws v) < 600" using assms(2,5,7) by (simp add: words_text_def)
qed

lemma ref_prefixes_apart: "sorted_wrt apart (map fst ref_segments @ [pr_final ref_P])"
  unfolding ref_segments_def list.map ref_fst by code_simp

lemma head_lines_ok:
  "list_all (line_ok (fst rs_cpu)) (snd rs_cpu)" "list_all (line_ok (fst rs_control)) (snd rs_control)"
  "list_all (line_ok (fst rs_bootstrap)) (snd rs_bootstrap)" "list_all (line_ok (fst rs_ecam_memory)) (snd rs_ecam_memory)"
  "list_all (line_ok (fst rs_scan)) (snd rs_scan)" "list_all (line_ok (fst rs_headers)) (snd rs_headers)"
proof -
  show "list_all (line_ok (fst rs_cpu)) (snd rs_cpu)" "list_all (line_ok (fst rs_control)) (snd rs_control)"
    unfolding ref_fst ref_snd ref_cpu_words_def ref_msr_words_def
    by (simp_all add: words_line_ok clean_simps)
  have d: "length (decimal n) \<le> 20" if "n < 10 ^ 20" for n using decimal_length [of n 19] that by simp
  have "line_ok BOOTSTRAP_PREFIX ((BOOTSTRAP_PREFIX @ ''cpuid-edx='' @ decimal 3219913727 @ '' available=1 apic-base='' @ decimal 4276095232) @ NL)"
    by (rule literal_line_ok) (use d [of 3219913727] d [of 4276095232] in \<open>simp_all add: BOOTSTRAP_PREFIX_def clean_simps\<close>)
  then show "list_all (line_ok (fst rs_bootstrap)) (snd rs_bootstrap)"
    unfolding ref_fst ref_snd by (simp add: bootstrap_pattern_def)
  have "line_ok MEMORY_PREFIX ((MEMORY_PREFIX @ ''cpuid-edx='' @ decimal 3219913727 @ '' available=1 pat='' @ decimal 1974748653749254 @
      '' cr0='' @ decimal 2147549215 @ '' cr3='' @ decimal 1523712 @ '' cr4='' @ decimal 104) @ NL)"
    by (rule literal_line_ok) (use d [of 3219913727] d [of 1974748653749254] d [of 2147549215] d [of 1523712] d [of 104]
      in \<open>simp_all add: MEMORY_PREFIX_def clean_simps\<close>)
  then show "list_all (line_ok (fst rs_ecam_memory)) (snd rs_ecam_memory)"
    unfolding ref_fst ref_snd by (simp add: memory_pattern_def)
  have "line_ok ''LEANOS/25 PCI-SCAN '' (printed (scan_pattern ref_P) [0, 16, 0, 0, 0, 0] @ NL)"
    by (rule literal_line_ok) (use d [of 0] d [of 16] in \<open>simp_all add: printed_def record_line_def scan_pattern_def clean_simps\<close>)
  then show "list_all (line_ok (fst rs_scan)) (snd rs_scan)" unfolding ref_fst ref_snd by simp
  show "list_all (line_ok (fst rs_headers)) (snd rs_headers)"
    unfolding ref_fst ref_snd by (rule headers_ok_lines)
qed

lemma special_lines_ok:
  "list_all (line_ok (fst rs_pci_caps)) (snd rs_pci_caps)"
  "list_all (line_ok (fst rs_xhci_handoff)) (snd rs_xhci_handoff)" "list_all (line_ok (fst rs_pci_final)) (snd rs_pci_final)"
proof -
  show "list_all (line_ok (fst rs_pci_caps)) (snd rs_pci_caps)"
    unfolding ref_fst ref_snd using caps_lines_ok by (auto simp: list_all_iff)
  have d: "length (decimal n) \<le> 20" if "n < 10 ^ 20" for n using decimal_length [of n 19] that by simp
  have "line_ok XHCI_HANDOFF ((XHCI_HANDOFF @ ''profile=qotom-xhci-handoff-v2 index=3 status='' @ decimal 0 @ '' attempted='' @ decimal 1 @
      '' polls='' @ decimal 1 @ '' support='' @ decimal 16779265 @ '' control='' @ decimal 8192 @ '' verify='' @ decimal 0 @
      '' verify-index='' @ decimal 0 @ '' expected='' @ decimal 0 @ '' observed='' @ decimal 0) @ NL)"
    by (rule literal_line_ok) (use d [of 0] d [of 1] d [of 16779265] d [of 8192] in \<open>simp_all add: XHCI_HANDOFF_def clean_simps\<close>)
  then show "list_all (line_ok (fst rs_xhci_handoff)) (snd rs_xhci_handoff)"
    unfolding ref_fst ref_snd by (simp add: xhci_handoff_head_def xhci_handoff_detail_def)
  have c: "length (csv (map nat FINAL_COMMANDS)) \<le> 11 * 16"
    using csv_width [of "map nat FINAL_COMMANDS"] by (simp add: FINAL_COMMANDS_def)
  have "line_ok PCI_FINAL ((PCI_FINAL @ ''profile=qotom-pci-final-v1 status='' @ decimal 0 @ '' index='' @ decimal 16 @ '' count='' @ decimal 16 @
      '' commands-accepted='' @ decimal 1 @ '' assumption-mask='' @ decimal 31 @ '' admitted='' @ decimal 1 @
      '' contract=qotom-j1900-pci-trust-v1 contract-accepted='' @ decimal 1 @ '' commands='' @ csv (map nat FINAL_COMMANDS) @
      '' vtd=not-applicable platform-admitted='' @ decimal 1) @ NL)"
    by (rule literal_line_ok) (use c d [of 0] d [of 1] d [of 16] d [of 31] in \<open>simp_all add: PCI_FINAL_def clean_simps\<close>)
  then show "list_all (line_ok (fst rs_pci_final)) (snd rs_pci_final)"
    unfolding ref_fst ref_snd by (simp add: pci_final_pattern_def)
qed

lemma record_segments:
  "list_all (line_ok (fst rs_pci_af)) (snd rs_pci_af)"
  "list_all (line_ok (fst rs_ehci_caps)) (snd rs_ehci_caps)"
  "list_all (line_ok (fst rs_ehci_legacy)) (snd rs_ehci_legacy)"
  "list_all (line_ok (fst rs_ehci_ext)) (snd rs_ehci_ext)"
  "list_all (line_ok (fst rs_ehci_handoff)) (snd rs_ehci_handoff)"
  "list_all (line_ok (fst rs_ehci_smi)) (snd rs_ehci_smi)"
  "list_all (line_ok (fst rs_ehci_operational)) (snd rs_ehci_operational)"
  "list_all (line_ok (fst rs_ehci_bme)) (snd rs_ehci_bme)"
  "list_all (line_ok (fst rs_xhci_caps)) (snd rs_xhci_caps)"
  "list_all (line_ok (fst rs_xhci_legacy)) (snd rs_xhci_legacy)"
  "list_all (line_ok (fst rs_xhci_ext)) (snd rs_xhci_ext)"
  "list_all (line_ok (fst rs_xhci_smi)) (snd rs_xhci_smi)"
  "list_all (line_ok (fst rs_xhci_operational)) (snd rs_xhci_operational)"
  "list_all (line_ok (fst rs_xhci_bme)) (snd rs_xhci_bme)"
  "list_all (line_ok (fst rs_pcie_device)) (snd rs_pcie_device)"
  "list_all (line_ok (fst rs_ahci_caps)) (snd rs_ahci_caps)"
  "list_all (line_ok (fst rs_ahci_port)) (snd rs_ahci_port)"
  "list_all (line_ok (fst rs_ahci_interrupts)) (snd rs_ahci_interrupts)"
  "list_all (line_ok (fst rs_ahci_bme)) (snd rs_ahci_bme)"
  "list_all (line_ok (fst rs_hda)) (snd rs_hda)"
  "list_all (line_ok (fst rs_hda_state)) (snd rs_hda_state)"
  "list_all (line_ok (fst rs_hda_bme)) (snd rs_hda_bme)"
  "list_all (line_ok (fst rs_txe_status)) (snd rs_txe_status)"
  "list_all (line_ok (fst rs_rootport_bme)) (snd rs_rootport_bme)"
  "list_all (line_ok (fst rs_realtek_state)) (snd rs_realtek_state)"
  "list_all (line_ok (fst rs_realtek_bme)) (snd rs_realtek_bme)"
  "list_all (line_ok (fst rs_pcie_pending)) (snd rs_pcie_pending)"
  "list_all (line_ok (fst rs_broadcom_d3)) (snd rs_broadcom_d3)"
  "list_all (line_ok (fst rs_graphics_state)) (snd rs_graphics_state)"
  "list_all (line_ok (fst rs_graphics_bme)) (snd rs_graphics_bme)"
  "list_all (line_ok (fst rs_txe_bme)) (snd rs_txe_bme)"
  "list_all (line_ok (fst rs_nosmap)) (snd rs_nosmap)"
  "list_all (line_ok (fst rs_copy_roots)) (snd rs_copy_roots)"
  "list_all (line_ok (fst rs_entry)) (snd rs_entry)"
  unfolding ref_fst ref_snd by (simp_all add: printed_line_ok ref_patterns)

lemma ref_ok: "segments_ok ref_P ref_segments"
  unfolding segments_ok_def using ref_prefixes_apart
  by (simp add: ref_segments_def segments_facts head_lines_ok special_lines_ok record_segments clean_simps)

lemma ref_length [simp]: "length ref_segments = 49"
  by (simp add: ref_segments_def)

lemma ref_fits: "fits ref_P ref_segments"
  by (simp add: fits_def ref_segments_def ref_snd ref_functions_facts header_block_def ref_word_facts
      capture_lines_def MAX_LAB_CAPTURE_def)

lemma ref_nth [simp]:
  "ref_segments ! 0 = rs_boot"
  "ref_segments ! 1 = rs_cpu"
  "ref_segments ! 2 = rs_control"
  "ref_segments ! 3 = rs_bootstrap"
  "ref_segments ! 4 = rs_ecam_memory"
  "ref_segments ! 5 = rs_ecam_arm"
  "ref_segments ! 6 = rs_scan"
  "ref_segments ! 7 = rs_headers"
  "ref_segments ! 8 = rs_native_pci"
  "ref_segments ! 9 = rs_pci_caps"
  "ref_segments ! 10 = rs_pci_af"
  "ref_segments ! 11 = rs_ehci_caps"
  "ref_segments ! 12 = rs_ehci_legacy"
  "ref_segments ! 13 = rs_ehci_ext"
  "ref_segments ! 14 = rs_ehci_handoff"
  "ref_segments ! 15 = rs_ehci_smi"
  "ref_segments ! 16 = rs_ehci_operational"
  "ref_segments ! 17 = rs_ehci_bme"
  "ref_segments ! 18 = rs_xhci_caps"
  "ref_segments ! 19 = rs_xhci_legacy"
  "ref_segments ! 20 = rs_xhci_ext"
  "ref_segments ! 21 = rs_xhci_handoff"
  "ref_segments ! 22 = rs_xhci_smi"
  "ref_segments ! 23 = rs_xhci_operational"
  "ref_segments ! 24 = rs_xhci_bme"
  "ref_segments ! 25 = rs_pcie_device"
  "ref_segments ! 26 = rs_ahci_caps"
  "ref_segments ! 27 = rs_ahci_port"
  "ref_segments ! 28 = rs_ahci_interrupts"
  "ref_segments ! 29 = rs_ahci_bme"
  "ref_segments ! 30 = rs_hda"
  "ref_segments ! 31 = rs_hda_state"
  "ref_segments ! 32 = rs_hda_bme"
  "ref_segments ! 33 = rs_txe_status"
  "ref_segments ! 34 = rs_rootport_bme"
  "ref_segments ! 35 = rs_realtek_state"
  "ref_segments ! 36 = rs_realtek_bme"
  "ref_segments ! 37 = rs_pcie_pending"
  "ref_segments ! 38 = rs_broadcom_d3"
  "ref_segments ! 39 = rs_graphics_state"
  "ref_segments ! 40 = rs_graphics_bme"
  "ref_segments ! 41 = rs_txe_bme"
  "ref_segments ! 42 = rs_pci_final"
  "ref_segments ! 43 = rs_nosmap"
  "ref_segments ! 44 = rs_copy_roots"
  "ref_segments ! 45 = rs_manifest"
  "ref_segments ! 46 = rs_port_control"
  "ref_segments ! 47 = rs_entry_ready"
  "ref_segments ! 48 = rs_entry"
  by (simp_all add: ref_segments_def)

subsection \<open>Evaluation\<close>

abbreviation rcap :: "nat \<Rightarrow> bytes" where "rcap k \<equiv> seg_capture ref_P ref_segments k PENDING"
abbreviation rlines :: "nat \<Rightarrow> bytes list" where "rlines m \<equiv> seg_lines ref_P ref_segments m PENDING"
abbreviation rstart :: "nat \<Rightarrow> nat" where "rstart k \<equiv> seg_start ref_segments k"

lemma ref_line:
  "k < m \<Longrightarrow> m \<le> 49 \<Longrightarrow> snd (ref_segments ! k) \<noteq> [] \<Longrightarrow>
     seg_lines ref_P ref_segments m reason ! rstart k = hd (snd (ref_segments ! k))"
  using seg_nth [of k m ref_segments 0] by (simp add: hd_conv_nth)

lemma ref_header:
  assumes "i < 16" "7 < m" "m \<le> 49"
  shows "header_lines ref_P i (rlines m) = [header_line ref_P i (ref_words ! i)]"
proof -
  have "startswith (header_prefix ref_P i) (fst (ref_segments ! 7))" by (simp add: ref_fst header_prefix_def)
  then have "header_lines ref_P i (rlines m) = header_lines ref_P i (snd (ref_segments ! 7))"
    unfolding header_lines_def using assms by (intro seg_filter [OF ref_ok]) simp_all
  then show ?thesis using assms ref_word_facts by (simp add: ref_snd header_lines_block)
qed

lemma ref_row:
  "ref_words ! 0 = [0, 0, 0, 251691142, 7, 100663310, 0, 0, 0, 0, 0, 0, 0, 0, 254902406, 0, 0, 0, 0]"
  "ref_words ! 1 = [0, 2, 0, 254902406, 1048583, 50331662, 0, 3489660928, 0, 3221225480, 0, 61569, 0, 0, 254902406, 0, 208, 0, 261]"
  "ref_words ! 2 = [0, 19, 0, 253984902, 45088775, 17170702, 0, 61553, 61537, 61521, 61505, 61473, 3499188224, 0, 253984902, 0, 128, 0, 261]"
  "ref_words ! 3 = [0, 20, 0, 255164550, 42991622, 201535502, 0, 3499098116, 0, 0, 0, 0, 0, 0, 255164550, 0, 112, 0, 261]"
  "ref_words ! 4 = [0, 26, 0, 253264006, 1048838, 276824078, 16, 3494903808, 3493855232, 0, 0, 0, 0, 0, 253264006, 0, 128, 0, 511]"
  "ref_words ! 5 = [0, 27, 0, 251953286, 1048582, 67305486, 16, 3499163652, 0, 0, 0, 0, 0, 0, 251953286, 0, 80, 0, 261]"
  "ref_words ! 6 = [0, 28, 0, 256409734, 1048583, 100925454, 8454160, 0, 0, 65792, 536928480, 3498102912, 131057, 0, 0, 0, 64, 0, 1048837]"
  "ref_words ! 7 = [0, 28, 1, 256540806, 1048583, 100925454, 8454160, 0, 0, 131584, 536871152, 3497054320, 131057, 0, 0, 0, 64, 0, 1049093]"
  "ref_words ! 8 = [0, 28, 2, 256671878, 1048583, 100925454, 8454160, 0, 0, 197376, 536924368, 3496005728, 131057, 0, 0, 0, 64, 0, 1049349]"
  "ref_words ! 9 = [0, 28, 3, 256802950, 1048583, 100925454, 8454160, 0, 0, 263168, 536871152, 65520, 131057, 0, 0, 0, 64, 0, 1049605]"
  "ref_words ! 10 = [0, 29, 0, 255099014, 42992646, 201531406, 0, 3499184128, 0, 0, 0, 0, 0, 0, 255099014, 0, 80, 0, 261]"
  "ref_words ! 11 = [0, 31, 0, 253526150, 34603015, 100728846, 8388608, 0, 0, 0, 0, 0, 0, 0, 253526150, 0, 224, 0, 0]"
  "ref_words ! 12 = [0, 31, 3, 252870790, 42991619, 201654286, 0, 3499180032, 0, 0, 0, 61441, 0, 0, 252870790, 0, 80, 0, 517]"
  "ref_words ! 13 = [1, 0, 0, 2171080940, 1048583, 33554439, 16, 57345, 0, 3498065924, 0, 3498049548, 0, 0, 19075308, 0, 64, 0, 261]"
  "ref_words ! 14 = [2, 0, 0, 1129518308, 1048582, 41943041, 16, 3497000964, 0, 0, 0, 0, 0, 0, 81269988, 0, 64, 0, 261]"
  "ref_words ! 15 = [3, 0, 0, 2171080940, 1048583, 33554439, 16, 53249, 0, 3495968772, 0, 3495952396, 0, 0, 19075308, 0, 64, 0, 261]"
  by (simp_all add: ref_words_def)

lemma ref_header_words:
  assumes "i < 16"
  shows "header_words ref_P i (header_line ref_P i (ref_words ! i)) = Inr (map int (ref_words ! i))"
    "header_command ref_P i (header_line ref_P i (ref_words ! i)) = Inr (int (ref_words ! i ! 4))"
proof -
  from assms have "ref_words ! i \<in> set ref_words" using ref_word_facts by simp
  then have w: "length (ref_words ! i) = 19" "\<forall>n\<in>set (ref_words ! i). n < 10 ^ 10"
    using ref_word_facts(1) by (auto simp: list_all_iff)
  then have "ref_words ! i \<noteq> []" by auto
  with w show "header_words ref_P i (header_line ref_P i (ref_words ! i)) = Inr (map int (ref_words ! i))"
    "header_command ref_P i (header_line ref_P i (ref_words ! i)) = Inr (int (ref_words ! i ! 4))"
    by (simp_all add: header_words_line header_command_line)
qed

lemmas ref_match =
  good_af_prefix [THEN printed_match]
  good_ehci_caps [THEN printed_match]
  good_ehci_legacy [THEN printed_match]
  good_ehci_ext [THEN printed_match]
  good_ehci_handoff [THEN printed_match]
  good_ehci_smi [THEN printed_match]
  good_ehci_operational [THEN printed_match]
  good_ehci_bme [THEN printed_match]
  good_xhci_caps [THEN printed_match]
  good_xhci_legacy [THEN printed_match]
  good_xhci_ext [THEN printed_match]
  good_xhci_smi [THEN printed_match]
  good_xhci_operational [THEN printed_match]
  good_xhci_bme [THEN printed_match]
  good_pcie_device [THEN printed_match]
  good_ahci_caps [THEN printed_match]
  good_ahci_port [THEN printed_match]
  good_ahci_interrupts [THEN printed_match]
  good_ahci_bme [THEN printed_match]
  good_hda [THEN printed_match]
  good_hda_state [THEN printed_match]
  good_hda_bme [THEN printed_match]
  good_txe_status [THEN printed_match]
  good_rootport_bme [THEN printed_match]
  good_realtek_state [THEN printed_match]
  good_realtek_bme [THEN printed_match]
  good_pcie_pending [THEN printed_match]
  good_broadcom_d3 [THEN printed_match]
  good_graphics_state [THEN printed_match]
  good_graphics_bme [THEN printed_match]
  good_txe_bme [THEN printed_match]
  good_nosmap [THEN printed_match]
  good_copy_roots [THEN printed_match]
  good_entry_record [THEN printed_match]

lemmas ref_eval = ref_line ref_header ref_header_words ref_snd ref_match ref_patterns eval_simps

lemmas ref_accepts = segment_accepts [OF ref_ok ref_fits, unfolded ref_length]

end
