(* ===== verification/Reference_Stages.thy ===== *)
theory Reference_Stages
  imports Reference_Capture
begin

text \<open>
  The decoders of the chain accept the reference capture stage after stage, from the capability
  lists to the TXE status sample.  Each lemma \<open>ref_<stage>\<close> states that the decoder of the stage
  accepts the capture cut after its segment and what the next stages need of its report.
\<close>

unbundle bit_operations_syntax

lemma ref_ints:
  "map int (ref_words ! 0) = [0, 0, 0, 251691142, 7, 100663310, 0, 0, 0, 0, 0, 0, 0, 0, 254902406, 0, 0, 0, 0]"
  "map int (ref_words ! 1) = [0, 2, 0, 254902406, 1048583, 50331662, 0, 3489660928, 0, 3221225480, 0, 61569, 0, 0, 254902406, 0, 208, 0, 261]"
  "map int (ref_words ! 2) = [0, 19, 0, 253984902, 45088775, 17170702, 0, 61553, 61537, 61521, 61505, 61473, 3499188224, 0, 253984902, 0, 128, 0, 261]"
  "map int (ref_words ! 3) = [0, 20, 0, 255164550, 42991622, 201535502, 0, 3499098116, 0, 0, 0, 0, 0, 0, 255164550, 0, 112, 0, 261]"
  "map int (ref_words ! 4) = [0, 26, 0, 253264006, 1048838, 276824078, 16, 3494903808, 3493855232, 0, 0, 0, 0, 0, 253264006, 0, 128, 0, 511]"
  "map int (ref_words ! 5) = [0, 27, 0, 251953286, 1048582, 67305486, 16, 3499163652, 0, 0, 0, 0, 0, 0, 251953286, 0, 80, 0, 261]"
  "map int (ref_words ! 6) = [0, 28, 0, 256409734, 1048583, 100925454, 8454160, 0, 0, 65792, 536928480, 3498102912, 131057, 0, 0, 0, 64, 0, 1048837]"
  "map int (ref_words ! 7) = [0, 28, 1, 256540806, 1048583, 100925454, 8454160, 0, 0, 131584, 536871152, 3497054320, 131057, 0, 0, 0, 64, 0, 1049093]"
  "map int (ref_words ! 8) = [0, 28, 2, 256671878, 1048583, 100925454, 8454160, 0, 0, 197376, 536924368, 3496005728, 131057, 0, 0, 0, 64, 0, 1049349]"
  "map int (ref_words ! 9) = [0, 28, 3, 256802950, 1048583, 100925454, 8454160, 0, 0, 263168, 536871152, 65520, 131057, 0, 0, 0, 64, 0, 1049605]"
  "map int (ref_words ! 10) = [0, 29, 0, 255099014, 42992646, 201531406, 0, 3499184128, 0, 0, 0, 0, 0, 0, 255099014, 0, 80, 0, 261]"
  "map int (ref_words ! 11) = [0, 31, 0, 253526150, 34603015, 100728846, 8388608, 0, 0, 0, 0, 0, 0, 0, 253526150, 0, 224, 0, 0]"
  "map int (ref_words ! 12) = [0, 31, 3, 252870790, 42991619, 201654286, 0, 3499180032, 0, 0, 0, 61441, 0, 0, 252870790, 0, 80, 0, 517]"
  "map int (ref_words ! 13) = [1, 0, 0, 2171080940, 1048583, 33554439, 16, 57345, 0, 3498065924, 0, 3498049548, 0, 0, 19075308, 0, 64, 0, 261]"
  "map int (ref_words ! 14) = [2, 0, 0, 1129518308, 1048582, 41943041, 16, 3497000964, 0, 0, 0, 0, 0, 0, 81269988, 0, 64, 0, 261]"
  "map int (ref_words ! 15) = [3, 0, 0, 2171080940, 1048583, 33554439, 16, 53249, 0, 3495968772, 0, 3495952396, 0, 0, 19075308, 0, 64, 0, 261]"
  by (simp_all add: ref_words_def)

lemma ref_commands:
  "int (ref_words ! 0 ! 4) = 7"
  "int (ref_words ! 1 ! 4) = 1048583"
  "int (ref_words ! 2 ! 4) = 45088775"
  "int (ref_words ! 3 ! 4) = 42991622"
  "int (ref_words ! 4 ! 4) = 1048838"
  "int (ref_words ! 5 ! 4) = 1048582"
  "int (ref_words ! 6 ! 4) = 1048583"
  "int (ref_words ! 7 ! 4) = 1048583"
  "int (ref_words ! 8 ! 4) = 1048583"
  "int (ref_words ! 9 ! 4) = 1048583"
  "int (ref_words ! 10 ! 4) = 42992646"
  "int (ref_words ! 11 ! 4) = 34603015"
  "int (ref_words ! 12 ! 4) = 42991619"
  "int (ref_words ! 13 ! 4) = 1048583"
  "int (ref_words ! 14 ! 4) = 1048582"
  "int (ref_words ! 15 ! 4) = 1048583"
  by (simp_all add: ref_words_def)

lemma ref_start_Suc: "k < 49 \<Longrightarrow> rstart (Suc k) = rstart k + length (snd (ref_segments ! k))"
  by (simp add: seg_start_Suc)

lemma ref_status:
  assumes "m = Suc k" "k < 49" "fst (ref_segments ! k) = own" "length (snd (ref_segments ! k)) = 1"
    and "prev (rcap k) ref_P = Inr (prior, Some p)" "rep_status p = 0"
    and "\<exists>r. judge ref_P (rlines m) [rstart k] () (rcap k) prior p = Inr r \<and> Q r"
  shows "\<exists>r. run_decoder (status_stage bounds own reason missing order prev without judge) (rcap m) ref_P =
    Inr (rcap k, Some r) \<and> Q r"
  using assms status_segment_accepts [OF ref_ok ref_fits, of k own prev prior "\<lambda>q. q = p" judge Q] by simp

lemma ref_tail: "m = Suc k \<Longrightarrow> k < 49 \<Longrightarrow>
    rlines m = capture_lines (take k ref_segments) @ snd (ref_segments ! k) @ [pending_line ref_P]"
  by (simp add: seg_lines_def take_Suc_conv_app_nth pending_line_def)

subsection \<open>Capability lists\<close>

lemma source_headers_skip:
  "\<forall>l\<in>set xs. \<not> startswith l (pr_pci_header P) \<Longrightarrow> source_headers P (xs @ ys) acc = source_headers P ys acc"
  by (induction xs) auto

lemma replicate_16: "replicate 16 x = [x, x, x, x, x, x, x, x, x, x, x, x, x, x, x, x]"
  by (simp add: numeral_eq_Suc)

lemma ref_source_headers: "source_headers ref_P (take (rstart 8) (rlines 10)) [] = Inr (map (map int) ref_words)"
proof -
  have "take (rstart 8) (rlines 10) = capture_lines (take 8 ref_segments)"
    by (rule seg_take) simp_all
  also have "\<dots> = capture_lines (take 7 ref_segments) @ header_block ref_P ref_words"
    using seg_lines_split [of 7 8 ref_segments] by (simp add: ref_snd)
  finally have "take (rstart 8) (rlines 10) = \<dots>" .
  moreover have "\<forall>l\<in>set (capture_lines (take 7 ref_segments)). \<not> startswith l (pr_pci_header ref_P)"
    using other_segments [OF ref_ok, of 7 "pr_pci_header ref_P" _ 8] by (simp add: ref_fst)
  moreover have "source_headers ref_P (header_block ref_P ref_words) [] = Inr ([] @ map (map int) ref_words)"
    unfolding header_block_def
  proof (rule source_headers_lines)
    show "\<forall>ws\<in>set ref_words. length ws = 19 \<and> (\<forall>n\<in>set ws. n < 10 ^ 10) \<and> \<not> exceeds (map int ws) word_limits"
      by (simp add: ref_words_def exceeds_def word_limits_def replicate_16)
  qed (simp_all add: ref_word_facts)
  ultimately show ?thesis by (simp add: source_headers_skip)
qed

lemma ref_caps:
  "\<exists>r. extract_pci_caps (rcap 10) ref_P = Inr (rcap 9, Some r) \<and> reason_pending r \<and> caps_functions r = ref_functions"
proof -
  have "startswith l (fst (ref_segments ! 9))" if "caps_record l" for l
    using that startswith_trans [of l CAPS_SUMMARY "fst (ref_segments ! 9)"] startswith_trans [of l CAPS_ENTRY "fst (ref_segments ! 9)"]
    by (auto simp: ref_fst caps_record_def CAPS_SUMMARY_def CAPS_ENTRY_def)
  moreover have "list_all caps_record (snd (ref_segments ! 9))" using caps_lines_ok by (simp add: ref_snd list_all_iff)
  ultimately have c: "indices_where caps_record (rlines 10) = [rstart 9..<rstart 9 + 63]"
    using seg_indices_where [OF ref_ok, of 9 10 caps_record PENDING] ref_functions_facts(3) by (simp add: ref_snd)
  have n: "indices_where (\<lambda>l. l = NATIVE) (rlines 10) = [rstart 8]"
    using seg_indices_where [OF ref_ok, of 8 10 "\<lambda>l. l = NATIVE" PENDING]
    by (simp add: ref_fst ref_snd NATIVE_def)
  have s: "rstart 9 = Suc (rstart 8)" using ref_start_Suc [of 8] by (simp add: ref_snd)
  have e: "rstart 10 = rstart 9 + 63" using ref_start_Suc [of 9] by (simp add: ref_snd ref_functions_facts(3))
  have lf: "length ref_functions = 16" using arg_cong [OF ref_functions_facts(2), of length] by simp
  have f: "read_functions (rlines 10) (map (map int) ref_words) 0 (rstart 9) [] =
      Inr (rstart 9 + 63, ref_functions, False)"
    using read_functions_accepts [OF ref_functions_facts(1), of 0 "capture_lines (take 9 ref_segments)" "[pending_line ref_P]" "[]"]
      ref_functions_facts lf by (simp add: ref_tail [of 10 9] ref_snd seg_start_def)
  have p: "concat (take (Suc (rstart 8)) (rlines 10)) @ pending_line ref_P = rcap 9"
    using seg_take [of 9 10 ref_segments ref_P PENDING] seg_projection [of 9 ref_segments ref_P] by (simp add: s)
  have len: "length ref_words = 16" by (rule ref_word_facts)
  show ?thesis
    using seg_capture_bounds [OF ref_ok ref_fits, of PENDING 10] f
    by (simp add: extract_pci_caps_def Let_def seg_splitlines [OF ref_ok] clean_simps c n s [symmetric] ref_source_headers
        len e eval_simps reason_pending_def)
      (simp add: s p)
qed


subsection \<open>AF observations\<close>

lemma read_af_accepts:
  assumes "list_all2 (\<lambda>f l. \<exists>s off v. match_ints ''AF record order or framing'' (af_pattern (cf_index f)) l = Inr [s, off, v] \<and>
      (s = 0 \<or> s = 1) \<and> off \<le> 255 \<and> v \<le> 0xffffffff \<and>
      (if s = 0 then af_success_check f off v else af_failure_check f s off v) = Inr ()) fs ls"
  shows "\<exists>obs. read_af (before @ ls @ rest) fs (length before) acc = Inr (length before + length ls, obs, False)"
  using assms
proof (induction fs ls arbitrary: before acc rule: list_all2_induct)
  case (Cons f fs l ls)
  then obtain s off v where l: "match_ints ''AF record order or framing'' (af_pattern (cf_index f)) l = Inr [s, off, v]"
    "s = 0 \<or> s = 1" "off \<le> 255" "v \<le> 0xffffffff"
    "(if s = 0 then af_success_check f off v else af_failure_check f s off v) = Inr ()" by blast
  note IH = Cons.IH [of "before @ [l]" "acc @ [\<lparr>ao_index = cf_index f, ao_status = s, ao_offset = off, ao_raw = v\<rparr>]"]
  have "(before @ (l # ls) @ rest) ! length before = l" by simp
  with IH l show ?case by (cases "s = 0") (auto simp: eval_simps)
qed simp

lemma ref_af: "\<exists>r. extract_af (rcap 11) ref_P = Inr (rcap 10, Some r) \<and> reason_pending r"
proof -
  obtain p where p: "extract_pci_caps (rcap 10) ref_P = Inr (rcap 9, Some p)" "reason_pending p" "caps_functions p = ref_functions"
    using ref_caps by blast
  have "list_all2 (\<lambda>f l. \<exists>s off v. match_ints ''AF record order or framing'' (af_pattern (cf_index f)) l = Inr [s, off, v] \<and>
      (s = 0 \<or> s = 1) \<and> off \<le> 255 \<and> v \<le> 0xffffffff \<and>
      (if s = 0 then af_success_check f off v else af_failure_check f s off v) = Inr ()) ref_functions (snd rs_pci_af)"
    by (simp add: ref_functions_def ref_eval af_success_check_def af_failure_check_def af_entries_def overlapped_def)
  from read_af_accepts [OF this, of "capture_lines (take 10 ref_segments)" "[pending_line ref_P]" "[]"]
  obtain obs where "read_af (rlines 11) ref_functions (rstart 10) [] = Inr (rstart 11, obs, False)"
    using ref_start_Suc [of 10] by (auto simp: ref_tail [of 11 10] seg_start_def)
  then show ?thesis unfolding extract_af_def
    by (intro ref_accepts [where k = 10 and m = 11 and s = "()" and prior = "rcap 9" and p = p])
      (use p in \<open>simp_all add: af_decoder_def ref_fst ref_snd anywhere_def no_scan_def af_judge_def seg_indices_def
        reason_pending_def eval_simps\<close>)
qed

subsection \<open>USB controllers\<close>

lemma ref_ehci_caps: "\<exists>r. extract_ehci_caps (rcap 12) ref_P = Inr (rcap 11, Some r) \<and> rep_status r = 0 \<and>
   (ehci_capbase r, ehci_structural r, ehci_capability r) = (0x1000020, 0x200008, 0x36881)"
proof -
  obtain p where p: "extract_af (rcap 11) ref_P = Inr (rcap 10, Some p)" "reason_pending p" using ref_af by blast
  show ?thesis unfolding extract_ehci_caps_def
    by (rule ref_accepts [where k = 11 and m = 12 and s = "()" and prior = "rcap 10" and p = p])
      (use p ref_start_Suc [of 11] in \<open>simp_all add: ehci_caps_decoder_def ref_fst seg_indices_single no_scan_def one_before_last_def ehci_caps_judge_def ref_eval\<close>)
qed

lemma read_ext_shift:
  "read_ext bounds E (before @ xs) n i (length before + c) e es l = read_ext bounds E xs n i c e es l"
proof (induction n arbitrary: i c e es l)
  case (Suc n)
  from Suc.IH [of "Suc i" "Suc c"] show ?case by (simp add: unpack2_def split: list.splits)
qed simp

lemma ref_ehci_legacy: "\<exists>r. extract_ehci_legacy (rcap 14) ref_P = Inr (rcap 12, Some r) \<and> rep_status r = 0 \<and>
   leg_headers r = [\<lparr>ce_offset = 104, ce_raw = 65537\<rparr>] \<and> leg_offset r = 104 \<and> leg_control r = 0x82005"
proof -
  obtain p where p: "extract_ehci_caps (rcap 12) ref_P = Inr (rcap 11, Some p)" "rep_status p = 0" "ehci_capability p = 0x36881"
    using ref_ehci_caps by auto
  have s: "rstart 13 = Suc (rstart 12)" "rstart 14 = Suc (rstart 13)"
    using ref_start_Suc [of 12] ref_start_Suc [of 13] by (simp_all add: ref_snd)
  have "read_ext ehci_ext_limits EHCI_EXT (rlines 14) 1 0 (rstart 13) 104 [] 0 = Inr (0, [\<lparr>ce_offset = 104, ce_raw = 65537\<rparr>], 104)"
    using read_ext_shift [of _ _ "capture_lines (take 13 ref_segments)" "snd rs_ehci_ext @ [pending_line ref_P]" _ _ 0]
    by (simp add: ref_tail [of 14 13] seg_start_def ref_eval ehci_ext_limits_def)
  then show ?thesis unfolding extract_ehci_legacy_def
    by (intro ref_accepts [where k = 12 and m = 14 and s = "()" and prior = "rcap 11" and p = p])
      (use p in \<open>simp_all add: ehci_legacy_decoder_def ref_fst seg_indices_single no_scan_def single_def status_zero_def
         ehci_legacy_judge_def legacy_list_def ref_eval s\<close>)
qed

lemma ref_ehci_handoff:
  "\<exists>r. extract_ehci_handoff (rcap 15) ref_P = Inr (rcap 14, Some r) \<and> rep_status r = 0 \<and> ho_control r = 0x2000"
proof -
  obtain c where c: "extract_ehci_caps (rcap 12) ref_P = Inr (rcap 11, Some c)"
    "ehci_capbase c = 0x1000020" "ehci_structural c = 0x200008" "ehci_capability c = 0x36881"
    using ref_ehci_caps by auto
  obtain p where "extract_ehci_legacy (rcap 14) ref_P = Inr (rcap 12, Some p)" "rep_status p = 0"
    "leg_headers p = [\<lparr>ce_offset = 104, ce_raw = 65537\<rparr>]" "leg_offset p = 104" "leg_control p = 0x82005"
    using ref_ehci_legacy by blast
  with c show ?thesis unfolding extract_ehci_handoff_def
    by (intro ref_status [where k = 14 and prior = "rcap 12" and p = p])
      (simp_all add: ref_fst ref_eval ehci_handoff_judge_def ehci_writer_binding_def handoff_valid_def)
qed

lemma ref_ehci_smi: "\<exists>r. extract_ehci_smi (rcap 16) ref_P = Inr (rcap 15, Some r) \<and> rep_status r = 0"
proof -
  obtain p where "extract_ehci_handoff (rcap 15) ref_P = Inr (rcap 14, Some p)" "rep_status p = 0" "ho_control p = 0x2000"
    using ref_ehci_handoff by blast
  then show ?thesis unfolding extract_ehci_smi_def
    by (intro ref_status [where k = 15 and prior = "rcap 14" and p = p])
      (simp_all add: ref_fst ref_eval smi_judge_def smi_valid_def EHCI_ENABLE_def EHCI_STATUS_def)
qed

lemma ref_ehci_operational:
  "\<exists>r. extract_ehci_operational (rcap 17) ref_P = Inr (rcap 16, Some r) \<and> rep_status r = 0 \<and> ehci_stopped r"
proof -
  obtain p where "extract_ehci_smi (rcap 16) ref_P = Inr (rcap 15, Some p)" "rep_status p = 0"
    using ref_ehci_smi by blast
  then show ?thesis unfolding extract_ehci_operational_def
    by (intro ref_status [where k = 16 and prior = "rcap 15" and p = p])
      (simp_all add: ref_fst ref_eval ehci_operational_judge_def ehci_stopped_def)
qed

lemma ref_ehci_bme: "\<exists>r. extract_ehci_bme (rcap 18) ref_P = Inr (rcap 17, Some r) \<and> rep_status r = 0"
proof -
  obtain p where "extract_ehci_operational (rcap 17) ref_P = Inr (rcap 16, Some p)" "rep_status p = 0" "ehci_stopped p"
    using ref_ehci_operational by blast
  then show ?thesis unfolding extract_ehci_bme_def
    by (intro ref_status [where k = 17 and prior = "rcap 16" and p = p])
      (simp_all add: ref_fst ref_eval bme_judge_def bme_valid_def command_bound_def ref_commands)
qed

lemma ref_xhci_caps:
  "\<exists>r. extract_xhci_caps (rcap 19) ref_P = Inr (rcap 18, Some r) \<and> rep_status r = 0 \<and> xhci_words r = xhci_profile_words"
proof -
  obtain p where "extract_ehci_bme (rcap 18) ref_P = Inr (rcap 17, Some p)" "rep_status p = 0"
    using ref_ehci_bme by blast
  then show ?thesis unfolding extract_xhci_caps_def
    by (intro ref_status [where k = 18 and prior = "rcap 17" and p = p])
      (simp_all add: ref_fst ref_eval xhci_caps_judge_def xhci_bar_binding_def py_get_def ref_ints xhci_profile_words_def)
qed

lemmas read_ext_left = read_ext.simps(2) [where left = "pred_numeral n" for n, folded numeral_eq_Suc]

lemma ref_xhci_legacy:
  "\<exists>r. extract_xhci_legacy (rcap 21) ref_P = Inr (rcap 19, Some r) \<and> rep_status r = 0 \<and>
     leg_headers r = xhci_writer_list \<and> leg_offset r = 0x8460 \<and> leg_control r = 0x2001"
proof -
  obtain p where p: "extract_xhci_caps (rcap 19) ref_P = Inr (rcap 18, Some p)" "rep_status p = 0" "xhci_words p = xhci_profile_words"
    using ref_xhci_caps by auto
  have s: "rstart 20 = Suc (rstart 19)" "rstart 21 = rstart 20 + 6"
    using ref_start_Suc [of 19] ref_start_Suc [of 20] by (simp_all add: ref_snd)
  have "read_ext xhci_ext_limits XHCI_EXT (snd rs_xhci_ext @ [pending_line ref_P]) 6 0 0 0x8000 [] 0 = Inr (0, xhci_writer_list, 0x8460)"
    by (simp add: ref_eval xhci_ext_limits_def xhci_writer_list_def read_ext_left numeral_2_eq_2 [symmetric])
  then have "read_ext xhci_ext_limits XHCI_EXT (rlines 21) 6 0 (rstart 20) 0x8000 [] 0 = Inr (0, xhci_writer_list, 0x8460)"
    using read_ext_shift [of _ _ "capture_lines (take 20 ref_segments)" "snd rs_xhci_ext @ [pending_line ref_P]" _ _ 0]
    by (simp add: ref_tail [of 21 20] seg_start_def)
  moreover have "33892 \<notin> ce_offset ` set xhci_writer_list" by (simp add: xhci_writer_list_def)
  ultimately show ?thesis unfolding extract_xhci_legacy_def
    by (intro ref_accepts [where k = 19 and m = 21 and s = "()" and prior = "rcap 18" and p = p])
      (use p in \<open>simp_all add: xhci_legacy_decoder_def ref_fst seg_indices_single no_scan_def single_def status_zero_def
         xhci_legacy_judge_def legacy_list_def ref_eval s py_get_def xhci_profile_words_def\<close>)
qed

lemma ref_xhci_handoff_line:
  "xhci_handoff_match (hd (snd rs_xhci_handoff)) = Some (''2'' # map decimal [0, 1, 1, 16779265, 8192], Some (map decimal [0, 0, 0, 0]))"
proof -
  have "fullmatch (xhci_handoff_head @ xhci_handoff_detail @ [Lit NL]) (hd (snd rs_xhci_handoff)) =
      Some (''2'' # map decimal [0, 1, 1, 16779265, 8192, 0, 0, 0, 0])"
    unfolding ref_snd list.sel
    by (rule fullmatch_render) (simp_all add: xhci_handoff_head_def xhci_handoff_detail_def dec_text_decimal is_digit_def)
  then show ?thesis by (simp add: xhci_handoff_match_def)
qed

lemma ref_xhci_handoff:
  "\<exists>r. extract_xhci_handoff (rcap 22) ref_P = Inr (rcap 21, Some r) \<and> rep_status r = 0 \<and> ho_control r = 0x2000"
proof -
  obtain c where c: "extract_xhci_caps (rcap 19) ref_P = Inr (rcap 18, Some c)" "xhci_words c = xhci_profile_words"
    using ref_xhci_caps by auto
  have two: "py_int ''2'' = Inr 2" by code_simp
  have n: "length (snd rs_xhci_handoff) = 1" "snd rs_xhci_handoff \<noteq> []" by (simp_all add: ref_snd)
  obtain p where "extract_xhci_legacy (rcap 21) ref_P = Inr (rcap 19, Some p)" "rep_status p = 0" "leg_headers p = xhci_writer_list" "leg_offset p = 0x8460" "leg_control p = 0x2001"
    using ref_xhci_legacy by blast
  with c two n show ?thesis unfolding extract_xhci_handoff_def
    by (intro ref_status [where k = 21 and prior = "rcap 19" and p = p])
      (simp_all add: ref_fst ref_line eval_simps ref_xhci_handoff_line xhci_handoff_judge_def xhci_writer_binding_def
        handoff_valid_def xhci_handoff_detail_check_def detail_valid_def py_int_small)
qed

lemma ref_xhci_smi:
  "\<exists>r. extract_xhci_smi (rcap 23) ref_P = Inr (rcap 22, Some r) \<and> rep_status r = 0 \<and> ctl_before r = 0x2000 \<and> ctl_after r = 0"
proof -
  obtain p where "extract_xhci_handoff (rcap 22) ref_P = Inr (rcap 21, Some p)" "rep_status p = 0" "ho_control p = 0x2000"
    using ref_xhci_handoff by blast
  then show ?thesis unfolding extract_xhci_smi_def
    by (intro ref_status [where k = 22 and prior = "rcap 21" and p = p])
      (simp_all add: ref_fst ref_eval smi_judge_def smi_valid_def XHCI_ENABLE_def XHCI_STATUS_def)
qed

lemma ref_xhci_operational:
  "\<exists>r. extract_xhci_operational (rcap 24) ref_P = Inr (rcap 23, Some r) \<and> rep_status r = 0 \<and> xhci_stopped r"
proof -
  obtain p where "extract_xhci_smi (rcap 23) ref_P = Inr (rcap 22, Some p)" "rep_status p = 0" "ctl_before p = 0x2000" "ctl_after p = 0"
    using ref_xhci_smi by blast
  then show ?thesis unfolding extract_xhci_operational_def
    by (intro ref_status [where k = 23 and prior = "rcap 22" and p = p])
      (simp_all add: ref_fst ref_eval xhci_operational_judge_def xhci_operational_valid_def xhci_stopped_def)
qed

lemma ref_xhci_bme:
  "\<exists>r. extract_xhci_bme (rcap 25) ref_P = Inr (rcap 24, Some r) \<and> rep_status r = 0"
proof -
  obtain p where "extract_xhci_operational (rcap 24) ref_P = Inr (rcap 23, Some p)" "rep_status p = 0" "xhci_stopped p"
    using ref_xhci_operational by blast
  then show ?thesis unfolding extract_xhci_bme_def
    by (intro ref_status [where k = 24 and prior = "rcap 23" and p = p])
      (simp_all add: ref_fst ref_eval bme_judge_def bme_valid_def command_bound_def ref_commands)
qed

subsection \<open>Searching for the first record of a segment\<close>

lemma bytes_find_after_lines:
  assumes "pat = as @ c # bs" "c \<notin> set xs" "CHR 0x0A \<notin> set pat" "xs = ys @ NL"
  shows "bytes_find pat (xs @ pat @ rest) = Some (length xs)"
proof -
  have no: "\<not> startswith (drop i (xs @ pat @ rest)) pat" if "i < length xs" for i
  proof
    assume "startswith (drop i (xs @ pat @ rest)) pat"
    then obtain t where "drop i (xs @ pat @ rest) = pat @ t" by (auto simp: startswith_iff)
    then have at: "(xs @ pat @ rest) ! (i + j) = pat ! j" if "j < length pat" for j
      using that \<open>i < length xs\<close> nth_drop [of i "xs @ pat @ rest" j] by (simp add: nth_append)
    have "length as < length pat" "pat ! length as = c" using assms(1) by auto
    then have "\<not> i + length as < length xs" using at [of "length as"] assms(2) by (metis nth_append nth_mem)
    then have j: "length xs - 1 - i < length pat" "i + (length xs - 1 - i) = length xs - 1"
      using \<open>i < length xs\<close> \<open>length as < length pat\<close> by linarith+
    then have "pat ! (length xs - 1 - i) = (xs @ pat @ rest) ! (length xs - 1)" using at by metis
    also have "\<dots> = CHR 0x0A" using assms(4) by (simp add: nth_append)
    finally show False using assms(3) j(1) by (metis nth_mem)
  qed
  show ?thesis
  proof (cases "bytes_find pat (xs @ pat @ rest)")
    case None
    then have "\<not> startswith (drop (length xs) (xs @ pat @ rest)) pat"
      unfolding bytes_find_None by (metis le_add1 length_append)
    then show ?thesis by (simp add: startswith_iff)
  next
    case (Some i)
    have "startswith (drop (length xs) (xs @ pat @ rest)) pat" by (simp add: startswith_iff)
    then have "\<not> length xs < i" using bytes_find_least [OF Some] by blast
    moreover have "\<not> i < length xs" using bytes_find_Some [OF Some] no by blast
    ultimately show ?thesis using Some by simp
  qed
qed

definition plain :: "bytes \<Rightarrow> bool" where "plain s \<longleftrightarrow> CHR ''F'' \<notin> set s"

lemma plain_simps [simp]:
  "plain []" "plain (c # s) \<longleftrightarrow> c \<noteq> CHR ''F'' \<and> plain s" "plain (s @ t) \<longleftrightarrow> plain s \<and> plain t"
  "plain (concat ss) \<longleftrightarrow> list_all plain ss"
  by (auto simp: plain_def list_all_iff)

lemma plain_decimal [simp]: "plain (decimal n)"
  unfolding plain_def using decimal_digits [of "CHR ''F''" n] by (auto simp: is_digit_def)

lemma plain_csv [simp]: "plain (csv ns)"
proof -
  have "plain (comma_join (map decimal ms))" for ms by (induction ms) (simp_all add: comma_join_def)
  then show ?thesis by (simp add: csv_def)
qed

lemma plain_header: "plain (header_line ref_P i ws)"
  by (simp add: header_line_def header_prefix_def ref_P_def)

lemma plain_headers: "list_all plain (header_block ref_P ws)"
  by (auto simp: header_block_def list_all_iff plain_header)

lemma plain_entries: "list_all plain (print_entries i j es)"
  by (induction es arbitrary: j) (simp_all add: print_entry_def record_line_def entry_pattern_def CAPS_ENTRY_def)

lemma plain_function: "list_all plain (print_function f)"
  by (simp add: print_function_def plain_entries record_line_def summary_pattern_def CAPS_SUMMARY_def)

lemma plain_prefix: "plain (concat (capture_lines (take 10 ref_segments)))"
proof -
  have f: "list_all plain (concat (map print_function fs))" for fs
    by (induction fs) (simp_all add: plain_function)
  show ?thesis
    by (simp add: ref_segments_def ref_snd f plain_headers words_text_def bootstrap_pattern_def BOOTSTRAP_PREFIX_def
      memory_pattern_def MEMORY_PREFIX_def ARM_LINE_def ARM_PREFIX_def printed_def record_line_def scan_pattern_def NATIVE_def)
qed

lemma concat_complete:
  assumes "ls \<noteq> []" "\<forall>l\<in>set ls. complete_line l"
  shows "\<exists>ys. concat ls = ys @ NL"
proof -
  have "concat ls = concat (butlast ls) @ last ls" using assms(1) by (metis append_butlast_last_id concat_append concat.simps append_Nil2)
  moreover have "complete_line (last ls)" using assms by simp
  then have "last ls = butlast (last ls) @ NL" by (metis complete_line_def append_butlast_last_id)
  ultimately show ?thesis by (metis append.assoc)
qed

lemma ref_capability_lists:
  assumes "10 < k" "k \<le> 49"
  shows "\<exists>c. capability_lists ref_P (rcap k) = Inr c \<and> caps_functions c = ref_functions"
proof -
  obtain c where c: "extract_pci_caps (rcap 10) ref_P = Inr (rcap 9, Some c)" "reason_pending c" "caps_functions c = ref_functions"
    using ref_caps by blast
  let ?xs = "concat (capture_lines (take 10 ref_segments))"
  obtain l ls where "snd (ref_segments ! 10) = (AF_PREFIX @ l) # ls"
    by (simp add: ref_snd printed_def record_line_def af_pattern_def)
  then obtain rest where r: "rcap k = ?xs @ AF_PREFIX @ rest"
    using seg_lines_split [of 10 k ref_segments] assms by (auto simp: seg_capture_def seg_lines_def)
  have "capture_lines (take 10 ref_segments) \<noteq> []" by (simp add: ref_segments_def ref_snd)
  then obtain ys where "?xs = ys @ NL"
    using concat_complete segments_ok_lines [OF ref_ok] by blast
  then have "bytes_find AF_PREFIX (rcap k) = Some (length ?xs)" unfolding r
    using plain_prefix
    by (intro bytes_find_after_lines [of _ "''LEANOS-LAB/1 PCI-A''" "CHR ''F''" "'' ''"]) (simp_all add: AF_PREFIX_def plain_def)
  with c show ?thesis by (simp add: capability_lists_def r seg_projection eval_simps)
qed

subsection \<open>PCI Express Device records\<close>

lemma read_pcie_accepts:
  assumes "list_all2 (\<lambda>f l. \<exists>s off v c layout. match_ints ''PCIe Device framing or order'' (pcie_pattern (cf_index f)) l = Inr [s, off, v, c] \<and>
      (s = 0 \<or> s = 1) \<and> off \<le> 255 \<and> v \<le> U32 \<and> c \<le> U32 \<and> pcie_layout P (cf_index f) (take first lines) = Inr layout \<and>
      pcie_check f layout s off v c = Inr ()) fs ls"
    and "lines = before @ ls @ rest"
  shows "\<exists>obs. read_pcie P lines first fs (length before) acc = Inr (length before + length ls, obs, False)"
  using assms
proof (induction fs ls arbitrary: before acc rule: list_all2_induct)
  case (Cons f fs l ls)
  then obtain s off v c layout where
    l: "match_ints ''PCIe Device framing or order'' (pcie_pattern (cf_index f)) l = Inr [s, off, v, c]"
    "s = 0 \<or> s = 1" "off \<le> 255" "v \<le> U32" "c \<le> U32" "pcie_layout P (cf_index f) (take first lines) = Inr layout"
    "pcie_check f layout s off v c = Inr ()" by blast
  note IH = Cons.IH [of "before @ [l]" "acc @ [\<lparr>po_index = cf_index f, po_status = s, po_offset = off,
    po_capabilities = v, po_control_status = c\<rparr>]"]
  have "lines ! length before = l" "length before < length lines" using Cons.prems by simp_all
  moreover have "\<not> U32 < max v c" using l(4,5) by simp
  ultimately show ?case using IH l Cons.prems by (cases "s = 0") (auto simp: eval_simps)
qed simp

lemma ref_lines_header:
  assumes "i < 16" "7 < m" "m \<le> 49"
  shows "header_lines ref_P i (capture_lines (take m ref_segments)) = [header_line ref_P i (ref_words ! i)]"
proof -
  have "startswith (header_prefix ref_P i) (fst (ref_segments ! 7))" by (simp add: ref_fst header_prefix_def)
  then have "\<not> startswith (final_line ref_P PENDING) (header_prefix ref_P i)"
    by (intro segments_ok_final [OF ref_ok, of 7]) simp_all
  with ref_header [OF assms] show ?thesis by (simp add: header_lines_def seg_lines_def)
qed

lemma ref_pcie_device: "\<exists>r. extract_pcie_device (rcap 26) ref_P = Inr (rcap 25, Some r) \<and> reason_pending r"
proof -
  obtain p where p: "extract_xhci_bme (rcap 25) ref_P = Inr (rcap 24, Some p)" "rep_status p = 0"
    using ref_xhci_bme by blast
  obtain c where c: "capability_lists ref_P (rcap 25) = Inr c" "caps_functions c = ref_functions"
    using ref_capability_lists [of 25] by auto
  have t: "take (rstart 25) (rlines 26) = capture_lines (take 25 ref_segments)" by (rule seg_take) simp_all
  have lay: "pcie_layout ref_P i (take (rstart 25) (rlines 26)) = Inr (drop_bit 16 (map int (ref_words ! i) ! 6) AND 0x7f)"
    if "i < 16" for i
  proof -
    from that have "ref_words ! i \<in> set ref_words" using ref_word_facts by simp
    then have "length (ref_words ! i) = 19" using ref_word_facts(1) by (auto simp: list_all_iff)
    then show ?thesis using that by (simp add: pcie_layout_def t ref_lines_header ref_header_words eval_simps)
  qed
  have "list_all2 (\<lambda>f l. \<exists>s off v c layout. match_ints ''PCIe Device framing or order'' (pcie_pattern (cf_index f)) l = Inr [s, off, v, c] \<and>
      (s = 0 \<or> s = 1) \<and> off \<le> 255 \<and> v \<le> U32 \<and> c \<le> U32 \<and> pcie_layout ref_P (cf_index f) (take (rstart 25) (rlines 26)) = Inr layout \<and>
      pcie_check f layout s off v c = Inr ()) ref_functions (snd rs_pcie_device)"
    by (simp add: ref_functions_def lay ref_ints ref_eval pcie_check_def pcie_entries_def pcie_valid_def pcie_shape_def Let_def)
  from read_pcie_accepts [OF this, of "capture_lines (take 25 ref_segments)" "[pending_line ref_P]" "[]"]
  obtain obs where "read_pcie ref_P (rlines 26) (rstart 25) ref_functions (rstart 25) [] = Inr (rstart 26, obs, False)"
    using ref_start_Suc [of 25] by (auto simp: ref_tail [of 26 25] seg_start_def)
  then show ?thesis unfolding extract_pcie_device_def
    by (intro ref_accepts [where k = 25 and m = 26 and s = "()" and prior = "rcap 24" and p = p])
      (use p c in \<open>simp_all add: ref_fst ref_snd anywhere_def no_scan_def pcie_judge_def seg_indices_def
        reason_pending_def status_zero_def eval_simps\<close>)
qed

lemma ref_ahci_caps: "\<exists>r. extract_ahci_caps (rcap 27) ref_P = Inr (rcap 26, Some r) \<and> rep_status r = 0 \<and>
    ahci_global_profile r \<and> ahci_control r = 0x80000002"
proof -
  obtain p where p: "extract_pcie_device (rcap 26) ref_P = Inr (rcap 25, Some p)" "reason_pending p" using ref_pcie_device by blast
  show ?thesis unfolding extract_ahci_caps_def
    by (rule ref_accepts [where k = 26 and m = 27 and s = "()" and prior = "rcap 25" and p = p])
      (use p ref_start_Suc [of 26] in \<open>simp_all add: ref_fst seg_indices_single no_scan_def one_before_last_def
        ahci_caps_judge_def ref_eval ahci_header_binding_def ref_ints ahci_global_profile_def\<close>)
qed

lemma ref_ahci_port:
  "\<exists>r. extract_ahci_port (rcap 28) ref_P = Inr (rcap 27, Some r) \<and> rep_status r = 0 \<and> port_stopped r"
proof -
  obtain p where "extract_ahci_caps (rcap 27) ref_P = Inr (rcap 26, Some p)" "rep_status p = 0" "ahci_global_profile p"
    using ref_ahci_caps by blast
  then show ?thesis unfolding extract_ahci_port_def
    by (intro ref_status [where k = 27 and prior = "rcap 26" and p = p])
      (simp_all add: ref_fst ref_eval ahci_port_judge_def port_report_of_def port_stopped_def)
qed

lemma ref_ahci_interrupt:
  "\<exists>r. extract_ahci_interrupt (rcap 29) ref_P = Inr (rcap 28, Some r) \<and> rep_status r = 0 \<and> interrupts_masked r"
proof -
  obtain c where c: "extract_ahci_caps (rcap 27) ref_P = Inr (rcap 26, Some c)" "ahci_control c = 0x80000002"
    using ref_ahci_caps by blast
  obtain p where "extract_ahci_port (rcap 28) ref_P = Inr (rcap 27, Some p)" "rep_status p = 0" "port_stopped p"
    using ref_ahci_port by blast
  with c show ?thesis unfolding extract_ahci_interrupt_def
    by (intro ref_status [where k = 28 and prior = "rcap 27" and p = p])
      (simp_all add: ref_fst ref_eval ahci_interrupt_judge_def interrupt_binding_def interrupt_valid_def interrupts_masked_def)
qed

lemma ref_ahci_bme:
  "\<exists>r. extract_ahci_bme (rcap 30) ref_P = Inr (rcap 29, Some r) \<and> rep_status r = 0"
proof -
  obtain p where "extract_ahci_interrupt (rcap 29) ref_P = Inr (rcap 28, Some p)" "rep_status p = 0" "interrupts_masked p"
    using ref_ahci_interrupt by blast
  then show ?thesis unfolding extract_ahci_bme_def
    by (intro ref_status [where k = 29 and prior = "rcap 28" and p = p])
      (simp_all add: ref_fst ref_eval bme_judge_def bme_valid_def command_bound_def ref_commands)
qed

lemma ref_hda:
  "\<exists>r. extract_hda (rcap 31) ref_P = Inr (rcap 30, Some r) \<and> rep_status r = 0 \<and> hda_globals_bound r"
proof -
  obtain p where "extract_ahci_bme (rcap 30) ref_P = Inr (rcap 29, Some p)" "rep_status p = 0"
    using ref_ahci_bme by blast
  then show ?thesis unfolding extract_hda_def
    by (intro ref_status [where k = 30 and prior = "rcap 29" and p = p])
      (simp_all add: ref_fst ref_eval hda_judge_def hda_report_of_def hda_valid_def hda_globals_bound_def Let_def)
qed

lemma replicate_8: "replicate 8 x = [x, x, x, x, x, x, x, x]"
  by (simp add: numeral_eq_Suc)

lemma ref_hda_state:
  "\<exists>r. extract_hda_state (rcap 32) ref_P = Inr (rcap 31, Some r) \<and> rep_status r = 0 \<and> hda_stopped r"
proof -
  obtain p where "extract_hda (rcap 31) ref_P = Inr (rcap 30, Some p)" "rep_status p = 0" "hda_globals_bound p"
    using ref_hda by blast
  then show ?thesis unfolding extract_hda_state_def
    by (intro ref_status [where k = 31 and prior = "rcap 30" and p = p])
      (simp_all add: ref_fst ref_eval hda_state_judge_def hda_state_valid_def hda_stopped_def Let_def replicate_8)
qed

lemma ref_hda_bme:
  "\<exists>r. extract_hda_bme (rcap 33) ref_P = Inr (rcap 32, Some r) \<and> rep_status r = 0"
proof -
  obtain p where "extract_hda_state (rcap 32) ref_P = Inr (rcap 31, Some p)" "rep_status p = 0" "hda_stopped p"
    using ref_hda_state by blast
  then show ?thesis unfolding extract_hda_bme_def
    by (intro ref_status [where k = 32 and prior = "rcap 31" and p = p])
      (simp_all add: ref_fst ref_eval bme_judge_def bme_valid_def command_bound_def ref_commands)
qed

lemma ref_txe_status:
  "\<exists>r. extract_txe_status (rcap 34) ref_P = Inr (rcap 33, Some r) \<and> rep_status r = 0 \<and> txe_firmware0 r = 520093909 \<and> txe_firmware1 r = 1761607680"
proof -
  obtain p where "extract_hda_bme (rcap 33) ref_P = Inr (rcap 32, Some p)" "rep_status p = 0"
    using ref_hda_bme by blast
  then show ?thesis unfolding extract_txe_status_def
    by (intro ref_status [where k = 33 and prior = "rcap 32" and p = p])
      (simp_all add: ref_fst ref_eval txe_status_judge_def txe_header_binding_def ref_ints)
qed

end
