(* ===== verification/Reference_Checkpoints.thy ===== *)
theory Reference_Checkpoints
  imports Reference_Stages
begin

text \<open>
  The rest of the reference capture: the stages with several records, the last quiescence stages and
  the checkpoints up to the entry integration.
\<close>

unbundle bit_operations_syntax

subsection \<open>Stages with several records\<close>

lemma ref_line_at:
  "k < m \<Longrightarrow> m \<le> 49 \<Longrightarrow> i < length (snd (ref_segments ! k)) \<Longrightarrow> rlines m ! (rstart k + i) = snd (ref_segments ! k) ! i"
  by (rule seg_nth) simp_all

lemma sample_starts:
  "startswith (printed (pcie_pattern i) [a, b, c, d]) (pcie_sample_prefix j) \<longleftrightarrow> i = j"
proof -
  obtain s where s: "printed (pcie_pattern i) [a, b, c, d] = PCIE_DEVICE @ ''profile=qotom-pcie-device-v1 index='' @ decimal i @ '' '' @ s"
    by (simp add: printed_def record_line_def pcie_pattern_def)
  have "startswith (decimal i @ CHR '' '' # s) (decimal j @ CHR '' '' # []) \<longleftrightarrow> i = j"
    using decimal_delimited [of i "CHR '' ''" s j "CHR '' ''" "[]"] by (auto simp: is_digit_def)
  then show ?thesis by (simp add: s pcie_sample_prefix_def PCIE_DEVICE_def)
qed

lemma digit_chars: "digit_char 0 = CHR ''0''" "digit_char 2 = CHR ''2''" "digit_char 3 = CHR ''3''" "digit_char 4 = CHR ''4''"
  "digit_char 6 = CHR ''6''" "digit_char 7 = CHR ''7''" "digit_char 8 = CHR ''8''"
  by code_simp+

lemma pcie_sample_text:
  "printed (pcie_pattern i) [0, 64, 32768, c] = printed (pcie_sample_pattern i) [c]"
proof -
  have "decimal 0 = ''0''" "decimal 64 = ''64''" "decimal 32768 = ''32768''"
    by (simp_all add: decimal.simps [of 0] decimal.simps [of 64] decimal.simps [of 6] decimal.simps [of 32768] decimal.simps [of 3276]
      decimal.simps [of 327] decimal.simps [of 32] decimal.simps [of 3] digit_chars)
  then show ?thesis
    by (simp add: printed_def record_line_def pcie_pattern_def pcie_sample_pattern_def pcie_sample_prefix_def PCIE_DEVICE_def)
qed

lemma sample_good: "i < 100 \<Longrightarrow> good_pattern PCIE_DEVICE (pcie_sample_pattern i)"
  using decimal_length [of i 1]
  by (simp add: good_pattern_def pcie_sample_pattern_def pcie_sample_prefix_def PCIE_DEVICE_def clean_simps is_digit_def)

lemma upt_runs: "[a..<a + 2] = [a, Suc a]" "[a..<a + 4] = [a, Suc a, Suc (Suc a), Suc (Suc (Suc a))]"
  "[a..<a + 6] = [a, Suc a, Suc (Suc a), Suc (Suc (Suc a)), Suc (Suc (Suc (Suc a))), Suc (Suc (Suc (Suc (Suc a))))]"
  by (simp_all add: upt_rec eval_nat_numeral)

lemma run_of_segment:
  "m = Suc k \<Longrightarrow> k < 49 \<Longrightarrow> length (snd (ref_segments ! k)) \<le> n \<Longrightarrow>
     run_before_last n (Suc (rstart m)) (seg_indices ref_segments k)"
  using ref_start_Suc [of k] by (simp add: run_before_last_def seg_indices_def)

lemma ref_lines_at:
  assumes "k < 49" "snd (ref_segments ! k) = ls"
  shows "0 < length ls \<Longrightarrow> rlines (Suc k) ! rstart k = ls ! 0"
    "1 < length ls \<Longrightarrow> rlines (Suc k) ! Suc (rstart k) = ls ! 1"
    "2 < length ls \<Longrightarrow> rlines (Suc k) ! Suc (Suc (rstart k)) = ls ! 2"
    "3 < length ls \<Longrightarrow> rlines (Suc k) ! Suc (Suc (Suc (rstart k))) = ls ! 3"
    "4 < length ls \<Longrightarrow> rlines (Suc k) ! Suc (Suc (Suc (Suc (rstart k)))) = ls ! 4"
    "5 < length ls \<Longrightarrow> rlines (Suc k) ! Suc (Suc (Suc (Suc (Suc (rstart k))))) = ls ! 5"
  using assms ref_line_at [of k "Suc k" 0] ref_line_at [of k "Suc k" 1] ref_line_at [of k "Suc k" 2]
    ref_line_at [of k "Suc k" 3] ref_line_at [of k "Suc k" 4] ref_line_at [of k "Suc k" 5]
  by (simp_all add: eval_nat_numeral)

lemma ref_rootport_sample:
  assumes "25 < m" "m \<le> 49" "i \<in> {6, 7, 8, 9}"
  shows "rootport_sample i (rlines m) = Inr ()"
proof -
  have "filter (\<lambda>l. startswith l (pcie_sample_prefix i)) (rlines m) =
      filter (\<lambda>l. startswith l (pcie_sample_prefix i)) (snd (ref_segments ! 25))"
    using assms by (intro seg_filter [OF ref_ok]) (simp_all add: ref_fst pcie_sample_prefix_def PCIE_DEVICE_def)
  moreover have "match_ints msg (pcie_sample_pattern i) (printed (pcie_sample_pattern i) [c]) = Inr [c]"
    if "c \<in> {1114112, 1048576}" for c msg
    using that assms(3) by (intro printed_match [OF sample_good]) (auto simp: prints_def pcie_sample_pattern_def)
  moreover have "filter (\<lambda>l. startswith l (pcie_sample_prefix i)) (snd (ref_segments ! 25)) =
      [printed (pcie_sample_pattern i) [if i = 9 then 1048576 else 1114112]]"
    using assms(3) by (elim insertE emptyE) (simp_all add: ref_snd sample_starts pcie_sample_text [symmetric])
  ultimately show ?thesis by (simp add: rootport_sample_def eval_simps)
qed

text \<open>Evaluation from the front: a step is simplified once the steps before it are values.\<close>

lemma step_congs:
  "a = b \<Longrightarrow> bind a f = bind b f"
  "c = d \<Longrightarrow> raise_if c m x = raise_if d m x"
  by simp_all

lemma ref_rootport_header:
  "rootport_header ref_P 6 0 (rlines 35) = Inr ()" "rootport_header ref_P 7 (Suc 0) (rlines 35) = Inr ()"
  "rootport_header ref_P 8 (Suc (Suc 0)) (rlines 35) = Inr ()" "rootport_header ref_P 9 (Suc (Suc (Suc 0))) (rlines 35) = Inr ()"
  by (simp_all add: rootport_header_def ref_header ref_header_words ref_ints eval_simps)

lemma ref_read_rootports:
  "\<exists>fs. read_rootports ref_P (rlines 35) 0 (seg_indices ref_segments 34) = Inr fs \<and> length fs = 4 \<and>
     list_all (\<lambda>f. pb_status f = 0) fs \<and> pb_status (last fs) = 0"
  by (simp add: seg_indices_def upt_runs ref_lines_at [of 34 "snd rs_rootport_bme", simplified] ref_snd ref_match ref_patterns ref_rootport_header ref_rootport_sample
      rootport_valid_def eval_simps cong: step_congs)

lemma ref_rootport_bme:
  "\<exists>r. extract_rootport_bme (rcap 35) ref_P = Inr (rcap 34, Some r) \<and> clear_count 4 r"
proof -
  obtain p where p: "extract_txe_status (rcap 34) ref_P = Inr (rcap 33, Some p)" "rep_status p = 0" using ref_txe_status by blast
  obtain fs where "read_rootports ref_P (rlines 35) 0 (seg_indices ref_segments 34) = Inr fs" "length fs = 4"
     "list_all (\<lambda>f. pb_status f = 0) fs" "pb_status (last fs) = 0" using ref_read_rootports by blast
  then show ?thesis unfolding extract_rootport_bme_def
    by (intro ref_accepts [where k = 34 and m = 35 and s = "()" and prior = "rcap 33" and p = p])
      (use p run_of_segment [of 35 34 4] in \<open>simp_all add: ref_fst ref_snd no_scan_def status_zero_def rootport_decoder_def
        rootport_judge_def clear_count_def all_clear_def Let_def eval_simps\<close>)
qed

lemma ref_realtek_binding:
  "realtek_binding ref_P 0 0 (rlines 36) = Inr ()" "realtek_binding ref_P (Suc 0) 0 (rlines 36) = Inr ()"
  by (simp_all add: realtek_binding_def route_header_def ref_header ref_header_words ref_ints eval_simps realtek_endpoint_ok_def
      realtek_bridge_ok_def Let_def)

lemma ref_read_realtek_state:
  "\<exists>fs. read_realtek_state ref_P (rlines 36) 0 (seg_indices ref_segments 35) = Inr fs \<and> length fs = 2 \<and>
     list_all (\<lambda>f. rt_status f = 0) fs \<and> rt_status (last fs) = 0"
  by (simp add: seg_indices_def upt_runs ref_lines_at [of 35 "snd rs_realtek_state", simplified] ref_snd ref_match ref_patterns ref_realtek_binding
      eval_simps realtek_observation_of_def cong: step_congs)

lemma ref_realtek_state:
  "\<exists>r. extract_realtek_state (rcap 36) ref_P = Inr (rcap 35, Some r) \<and> realtek_both_ok r"
proof -
  obtain p where p: "extract_rootport_bme (rcap 35) ref_P = Inr (rcap 34, Some p)" "clear_count 4 p" using ref_rootport_bme by blast
  obtain fs where "read_realtek_state ref_P (rlines 36) 0 (seg_indices ref_segments 35) = Inr fs" "length fs = 2"
     "list_all (\<lambda>f. rt_status f = 0) fs" "rt_status (last fs) = 0" using ref_read_realtek_state by blast
  then show ?thesis unfolding extract_realtek_state_def
    by (intro ref_accepts [where k = 35 and m = 36 and s = "()" and prior = "rcap 34" and p = p])
      (use p run_of_segment [of 36 35 2] in \<open>simp_all add: ref_fst ref_snd no_scan_def realtek_state_decoder_def
        realtek_state_judge_def realtek_both_ok_def Let_def eval_simps\<close>)
qed

lemma ref_read_realtek_bme:
  "\<exists>fs. read_realtek_bme (rlines 37) 0 (seg_indices ref_segments 36) = Inr fs \<and> length fs = 2 \<and>
     list_all (\<lambda>f. pb_status f = 0) fs \<and> pb_status (last fs) = 0"
  by (simp add: seg_indices_def upt_runs ref_lines_at [of 36 "snd rs_realtek_bme", simplified] ref_snd ref_match ref_patterns bme_valid_def
      eval_simps cong: step_congs)

lemma ref_realtek_bme:
  "\<exists>r. extract_realtek_bme (rcap 37) ref_P = Inr (rcap 36, Some r) \<and> clear_count 2 r"
proof -
  obtain p where p: "extract_realtek_state (rcap 36) ref_P = Inr (rcap 35, Some p)" "realtek_both_ok p" using ref_realtek_state by blast
  obtain fs where "read_realtek_bme (rlines 37) 0 (seg_indices ref_segments 36) = Inr fs" "length fs = 2"
     "list_all (\<lambda>f. pb_status f = 0) fs" "pb_status (last fs) = 0" using ref_read_realtek_bme by blast
  then show ?thesis unfolding extract_realtek_bme_def
    by (intro ref_accepts [where k = 36 and m = 37 and s = "()" and prior = "rcap 35" and p = p])
      (use p run_of_segment [of 37 36 2] in \<open>simp_all add: ref_fst ref_snd no_scan_def realtek_bme_decoder_def
        realtek_bme_judge_def clear_count_def all_clear_def Let_def eval_simps\<close>)
qed

subsection \<open>Pending transactions\<close>

lemma collect_skip:
  "\<forall>l\<in>set xs. \<not> startswith l PCIE_DEVICE \<Longrightarrow> collect_statuses (xs @ ys) acc = collect_statuses ys acc"
  by (induction xs) auto

lemma prior_device_text: "printed (pcie_pattern i) vs = printed prior_device_pattern (int i # vs)"
  by (simp add: printed_def record_line_def pcie_pattern_def prior_device_pattern_def)

lemma prior_device_match:
  assumes "prints prior_device_pattern (int i # vs)"
  shows "match_ints msg prior_device_pattern (printed (pcie_pattern i) vs) = Inr (int i # vs)"
proof -
  have "good_pattern PCIE_DEVICE prior_device_pattern" by code_simp
  then show ?thesis unfolding prior_device_text using assms by (rule printed_match)
qed

lemma pcie_line_starts: "startswith (printed (pcie_pattern i) [a, b, c, d]) PCIE_DEVICE"
  by (simp add: printed_def record_line_def pcie_pattern_def)

lemma collect_step:
  assumes "i < 100" "0 \<le> s" "s < 10 ^ 10" "0 \<le> off" "off < 10 ^ 10" "0 \<le> cap" "cap < 10 ^ 10" "0 \<le> c" "c < 10 ^ 10"
  shows "collect_statuses (printed (pcie_pattern i) [s, off, cap, c] # rest) acc =
    (if int i \<in> set PENDING_INDICES then
       raise_if (int i \<in> fst ` set acc \<or> s \<noteq> 0 \<or> U32 < c) ''PCIe pending prior observation''
         (collect_statuses rest (acc @ [(int i, drop_bit 16 c)]))
     else collect_statuses rest acc)"
proof -
  have "prints prior_device_pattern (int i # [s, off, cap, c])"
    using assms by (simp add: prints_def prior_device_pattern_def nat_less_iff)
  then show ?thesis by (simp add: pcie_line_starts prior_device_match eval_simps)
qed

lemma ref_collect:
  "collect_statuses (snd rs_pcie_device @ ys) [] = collect_statuses ys
     [(6, 17), (7, 17), (8, 17), (9, 16), (13, 25), (15, 25)]"
  by (simp add: ref_snd collect_step PENDING_INDICES_def eval_simps del: collect_statuses.simps cong: step_congs)

lemma ref_pending_scan: "pending_scan (rlines 38) (seg_indices ref_segments 37) =
    Inr [(6, 17), (7, 17), (8, 17), (9, 16), (13, 25), (15, 25)]"
proof -
  have skip: "\<forall>l\<in>set (capture_lines (take 25 ref_segments)). \<not> startswith l PCIE_DEVICE"
    "\<forall>l\<in>set (capture_lines (drop 26 (take 37 ref_segments))). \<not> startswith l PCIE_DEVICE"
    using other_segments [OF ref_ok, of 25 PCIE_DEVICE _ 37] startswith_append [of PCIE_DEVICE "[]"] by (simp_all add: ref_fst)
  have "take (rstart 37) (rlines 38) = capture_lines (take 37 ref_segments)" by (rule seg_take) simp_all
  also have "\<dots> = capture_lines (take 25 ref_segments) @ snd rs_pcie_device @ capture_lines (drop 26 (take 37 ref_segments)) @ []"
    using seg_lines_split [of 25 37 ref_segments] by simp
  finally have "collect_statuses (take (rstart 37) (rlines 38)) [] = Inr [(6, 17), (7, 17), (8, 17), (9, 16), (13, 25), (15, 25)]"
    by (simp only: collect_skip [OF skip(1)] ref_collect collect_skip [OF skip(2)] collect_statuses.simps)
  moreover have "hd (seg_indices ref_segments 37) = rstart 37" by (simp add: seg_indices_def ref_snd)
  ultimately show ?thesis by (auto simp: pending_scan_def prior_device_statuses_def PENDING_INDICES_def eval_simps)
qed

lemma ref_read_pending:
  "\<exists>fs. read_pending [(6, 17), (7, 17), (8, 17), (9, 16), (13, 25), (15, 25)] (rlines 38) 0 (seg_indices ref_segments 37) = Inr fs \<and>
     length fs = 6 \<and> list_all (\<lambda>f. pp_status f = 0) fs \<and> pp_status (last fs) = 0"
  by (simp add: seg_indices_def upt_runs ref_lines_at [of 37 "snd rs_pcie_pending", simplified] ref_snd ref_match ref_patterns
      PENDING_INDICES_def pending_valid_def eval_simps cong: step_congs)

lemma ref_pcie_pending:
  "\<exists>r. extract_pcie_pending (rcap 38) ref_P = Inr (rcap 37, Some r) \<and> pending_all_quiet r"
proof -
  obtain p where p: "extract_realtek_bme (rcap 37) ref_P = Inr (rcap 36, Some p)" "clear_count 2 p" using ref_realtek_bme by blast
  have n: "length PENDING_INDICES = 6" by (simp add: PENDING_INDICES_def)
  obtain fs where "read_pending [(6, 17), (7, 17), (8, 17), (9, 16), (13, 25), (15, 25)] (rlines 38) 0 (seg_indices ref_segments 37) = Inr fs"
    "length fs = 6" "list_all (\<lambda>f. pp_status f = 0) fs" "pp_status (last fs) = 0" using ref_read_pending by blast
  then show ?thesis unfolding extract_pcie_pending_def
    by (intro ref_accepts [where k = 37 and m = 38 and prior = "rcap 36" and p = p
        and s = "[(6, 17), (7, 17), (8, 17), (9, 16), (13, 25), (15, 25)]"])
      (use p n run_of_segment [of 38 37 6] ref_pending_scan in \<open>simp_all add: ref_fst ref_snd pending_decoder_def
        pending_judge_def pending_all_quiet_def Let_def eval_simps\<close>)
qed

lemma ref_broadcom_d3:
  "\<exists>r. extract_broadcom_d3 (rcap 39) ref_P = Inr (rcap 38, Some r) \<and> rep_status r = 0 \<and> d3_d3hot r"
proof -
  obtain p where p: "extract_pcie_pending (rcap 38) ref_P = Inr (rcap 37, Some p)" "pending_all_quiet p" using ref_pcie_pending by blast
  let ?r = "d3_record_of [14, 0, 1, 6, 0, 2, 25, 16392, 1, 16395]"
  show ?thesis unfolding extract_broadcom_d3_def
    by (rule ref_accepts [where k = 38 and m = 39 and s = ?r and prior = "rcap 37" and p = p])
      (use p ref_start_Suc [of 38] in \<open>simp_all add: d3_decoder_def ref_fst seg_indices_single one_before_last_def d3_scan_def ref_eval
        d3_judge_def d3_record_of_def d3_done_def pending_done_def command_done_def Let_def\<close>)
qed

lemma ref_graphics_state:
  "\<exists>r. extract_graphics_state (rcap 40) ref_P = Inr (rcap 39, Some r) \<and> graphics_quiet r"
proof -
  obtain p where p: "extract_broadcom_d3 (rcap 39) ref_P = Inr (rcap 38, Some p)" "rep_status p = 0" "d3_d3hot p" using ref_broadcom_d3 by blast
  let ?w = "[0, 0, 0, 0, 512, 0, 0, 0, 0, 512, 0, 0, 0, 0, 512, 0, 0, 0, 0, 512, 0, 0, 0, 0, 512, 0, 0, 0, 0, 512] :: int list"
  show ?thesis unfolding extract_graphics_state_def
    by (rule ref_accepts [where k = 39 and m = 40 and s = "(1, 0, ?w)" and prior = "rcap 38" and p = p])
      (use p ref_start_Suc [of 39] in \<open>simp_all add: graphics_decoder_def ref_fst seg_indices_single one_before_last_def graphics_scan_def ref_eval
        graphics_judge_def graphics_ready_def graphics_quiet_def ring_samples_def ring_sample_of_def Let_def list_all_iff pending_line_def\<close>)
qed

lemma ref_graphics_bme:
  "\<exists>r. extract_graphics_bme (rcap 41) ref_P = Inr (rcap 40, Some r) \<and> graphics_cleared r"
proof -
  obtain p where p: "extract_graphics_state (rcap 40) ref_P = Inr (rcap 39, Some p)" "graphics_quiet p" using ref_graphics_state by blast
  let ?r = "\<lparr>pb_index = 1, pb_status = 0, pb_attempted = 1, pb_before = 7, pb_after = 3\<rparr>"
  show ?thesis unfolding extract_graphics_bme_def
    by (rule ref_accepts [where k = 40 and m = 41 and s = ?r and prior = "rcap 39" and p = p])
      (use p ref_start_Suc [of 40] in \<open>simp_all add: graphics_bme_decoder_def ref_fst seg_indices_single one_before_last_def indexed_bme_scan_def ref_eval
        host_bme_judge_def host_bme_valid_def graphics_cleared_def Let_def\<close>)
qed

lemma ref_txe_bme:
  "\<exists>r. extract_txe_bme (rcap 42) ref_P = Inr (rcap 41, Some r) \<and> pci_final_ready r"
proof -
  obtain p where p: "extract_graphics_bme (rcap 41) ref_P = Inr (rcap 40, Some p)" "graphics_cleared p" using ref_graphics_bme by blast
  let ?r = "\<lparr>pb_index = 4, pb_status = 0, pb_attempted = 1, pb_before = 0x106, pb_after = 0x102\<rparr>"
  show ?thesis unfolding extract_txe_bme_def
    by (rule ref_accepts [where k = 41 and m = 42 and s = ?r and prior = "rcap 40" and p = p])
      (use p ref_start_Suc [of 41] in \<open>simp_all add: txe_bme_decoder_def ref_fst seg_indices_single one_before_last_def indexed_bme_scan_def ref_eval
        host_bme_judge_def host_bme_valid_def pci_final_ready_def Let_def\<close>)
qed

subsection \<open>Checkpoints\<close>

lemma ref_checkpoint:
  fixes reason
  assumes "k < 49" "length (snd (ref_segments ! k)) = 1" "clean reason" "length reason \<le> 100" "m = Suc k"
  defines "raw \<equiv> seg_capture ref_P ref_segments m reason" and "lines \<equiv> seg_lines ref_P ref_segments m reason"
  shows "length raw \<le> MAX_LAB_CAPTURE" "endswith raw NL" "splitlines raw = lines" "positioned (fst (ref_segments ! k)) 2 lines"
    "last lines = final_line ref_P reason" "lines ! (length lines - 2) = hd (snd (ref_segments ! k))"
    "concat (take (length lines - 2) lines) @ final_line ref_P r = seg_capture ref_P ref_segments k r" "2 \<le> length lines"
proof -
  have s: "rstart m = Suc (rstart k)" using ref_start_Suc [of k] assms by simp
  show "length raw \<le> MAX_LAB_CAPTURE" "endswith raw NL" unfolding raw_def
    using seg_capture_bounds [OF ref_ok ref_fits assms(4)] by simp_all
  show "splitlines raw = lines" unfolding raw_def lines_def by (rule seg_splitlines [OF ref_ok assms(3)])
  have "indices_where (\<lambda>l. startswith l (fst (ref_segments ! k))) lines = [rstart k]"
    using seg_indices_own [OF ref_ok, of k m reason] assms by (simp add: lines_def)
  then show "positioned (fst (ref_segments ! k)) 2 lines" by (simp add: positioned_def owned_def lines_def s)
  show "last lines = final_line ref_P reason" by (simp add: lines_def)
  have n: "length lines - 2 = rstart k" "2 \<le> length lines" by (simp_all add: lines_def s)
  have "lines ! rstart k = hd (snd (ref_segments ! k))" unfolding lines_def
    using assms(1,2,5) by (intro ref_line) auto
  then show "lines ! (length lines - 2) = hd (snd (ref_segments ! k))" by (simp only: n)
  have "take (rstart k) lines = capture_lines (take k ref_segments)" unfolding lines_def using assms by (intro seg_take) simp_all
  then show "concat (take (length lines - 2) lines) @ final_line ref_P r = seg_capture ref_P ref_segments k r"
    by (simp add: n seg_capture_def seg_lines_def)
  show "2 \<le> length lines" by (rule n)
qed

abbreviation rcheck :: "nat \<Rightarrow> bytes \<Rightarrow> bytes" where "rcheck k reason \<equiv> seg_capture ref_P ref_segments k reason"

lemma list_text_mono: "list_text p k s \<Longrightarrow> (\<And>d. p d \<Longrightarrow> q d) \<Longrightarrow> list_text q k s"
  by (fastforce simp: list_text_def)

lemma final_list_text: "list_text digit_text 15 (csv (map nat FINAL_COMMANDS))"
proof -
  have "list_text (dec_text (Some 9)) 15 (csv (map nat FINAL_COMMANDS))"
    by (rule csv_list_text) (simp_all add: FINAL_COMMANDS_def)
  then show ?thesis by (rule list_text_mono) (auto simp: digit_text_def dec_text_def)
qed

lemma ref_final_match:
  "fullmatch (pci_final_pattern True) (hd (snd rs_pci_final)) =
     Some (map decimal [0, 16, 16, 1, 31, 1, 1] @ [csv (map nat FINAL_COMMANDS), decimal 1])"
  unfolding ref_snd list.sel
  by (rule fullmatch_render) (simp_all add: pci_final_pattern_def dec_text_decimal is_digit_def final_list_text)

lemma ref_final:
  "\<exists>r. extract_pci_final (rcheck 43 ''qotom-nosmap-pending'') ref_P True = Inr (rcap 42, r) \<and> pf_platform_admitted r"
proof -
  note c = ref_checkpoint [of 42 "''qotom-nosmap-pending''" 43]
  obtain p where p: "extract_txe_bme (rcap 42) ref_P = Inr (rcap 41, Some p)" "pci_final_ready p" using ref_txe_bme by blast
  have n: "length (snd (ref_segments ! 42)) = 1" "clean ''qotom-nosmap-pending''" by (simp_all add: ref_snd clean_simps)
  have w: "py_ints (split_on CHR '','' (csv (map nat FINAL_COMMANDS))) = Inr FINAL_COMMANDS"
    using csv_words [of "map nat FINAL_COMMANDS"] by (simp add: FINAL_COMMANDS_def)
  show ?thesis
    using c [OF _ n] p
    by (simp add: extract_pci_final_def Let_def pci_final_reason_def ref_fst ref_final_match eval_simps w py_int_small
        pci_final_report_of_def pending_line_def)
qed

lemma ref_nosmap:
  "\<exists>r. extract_nosmap (rcheck 44 ''qotom-copy-roots-pending'') ref_P = Inr (rcheck 43 ''qotom-nosmap-pending'', r)"
proof -
  note c = ref_checkpoint [of 43 "''qotom-copy-roots-pending''" 44]
  have n: "length (snd (ref_segments ! 43)) = 1" "clean ''qotom-copy-roots-pending''" by (simp_all add: ref_snd clean_simps)
  show ?thesis
    using c [OF _ n] by (simp add: extract_nosmap_def Let_def ref_fst ref_eval nosmap_control_ok_def)
qed

lemma ref_copy_root:
  "\<exists>r. extract_copy_root (rcheck 45 ''qotom-entry-integration-pending'') ref_P ''base'' = Inr (rcheck 44 ''qotom-copy-roots-pending'', r) \<and>
     cr_closed_root r = 1716224"
proof -
  note c = ref_checkpoint [of 44 "''qotom-entry-integration-pending''" 45]
  have n: "length (snd (ref_segments ! 44)) = 1" "clean ''qotom-entry-integration-pending''" by (simp_all add: ref_snd clean_simps)
  show ?thesis
    using c [OF _ n] by (simp add: extract_copy_root_def Let_def ref_fst ref_eval roots_valid_def INVENTORIES_def)
qed

lemma ref_entry:
  "\<exists>r. extract_entry (rcheck 49 ''qotom-exception-integration-pending'') ref_P =
     Inr (rcheck 45 ''qotom-entry-integration-pending'', r) \<and> en_closed_root r = 1716224"
proof -
  let ?raw = "rcheck 49 ''qotom-exception-integration-pending''"
  let ?ls = "seg_lines ref_P ref_segments 49 ''qotom-exception-integration-pending''"
  have n: "length (snd (ref_segments ! 48)) = 1" "clean ''qotom-exception-integration-pending''" by (simp_all add: ref_snd clean_simps)
  have n': "48 < (49::nat)" "length ''qotom-exception-integration-pending'' \<le> 100" "(49::nat) = Suc 48" by simp_all
  note c = ref_checkpoint [OF n'(1) n n'(2,3)]
  have s: "rstart 46 = Suc (rstart 45)" "rstart 47 = Suc (rstart 46)" "rstart 48 = Suc (rstart 47)" "rstart 49 = Suc (rstart 48)"
    using ref_start_Suc [of 45] ref_start_Suc [of 46] ref_start_Suc [of 47] ref_start_Suc [of 48] by (simp_all add: ref_snd)
  have at: "?ls ! rstart 45 = pr_entry_manifest ref_P @ MANIFEST_SUFFIX" "?ls ! rstart 46 = pr_port_control ref_P @ PORT_CONTROL_SUFFIX"
    "?ls ! rstart 47 = ready_line"
    using ref_line [of 45 49] ref_line [of 46 49] ref_line [of 47 49] by (simp_all add: ref_snd)
  have own: "indices_where (\<lambda>l. startswith l (fst (ref_segments ! k))) ?ls = [rstart k]" if "k < 49" "length (snd (ref_segments ! k)) = 1" for k
    using seg_indices_own [OF ref_ok, of k 49 "''qotom-exception-integration-pending''"] that by simp
  have pos: "positioned (pr_entry_manifest ref_P @ '' '') 5 ?ls" "positioned (pr_port_control ref_P @ '' '') 4 ?ls" "positioned ENTRY_READY 3 ?ls"
    using own [of 45] own [of 46] own [of 47] by (simp_all add: positioned_def owned_def ref_fst ref_snd s)
  have "take (rstart 45) ?ls = capture_lines (take 45 ref_segments)" by (rule seg_take) simp_all
  then have pr: "concat (take (rstart 45) ?ls) @ final_line ref_P r = rcheck 45 r" for r
    by (simp add: seg_capture_def seg_lines_def)
  have len: "length ?ls - 5 = rstart 45" "length ?ls - 4 = rstart 46" "length ?ls - 3 = rstart 47" "5 \<le> length ?ls"
    by (simp_all add: s)
  have m: "match_ints msg entry_pattern_line (?ls ! (length ?ls - 2)) =
      Inr [0, 2, 1, 1523712, 1716224, 1716224, 1, 0, 15, 1, 1, 0, 1, 0]" for msg
  proof -
    have "?ls ! (length ?ls - 2) = hd (snd rs_entry)" using c(6) by (simp del: length_seg_lines)
    then show ?thesis by (simp only: ref_snd list.sel good_entry_record [THEN printed_match] prints_entry_record)
  qed
  have bounds: "\<not> (MAX_LAB_CAPTURE < length ?raw \<or> \<not> endswith ?raw NL)" using c(1,2) by simp
  have lines: "splitlines ?raw = ?ls" using c(3) by simp
  have order: "\<not> (length ?ls < 5 \<or> ?ls ! (length ?ls - 5) \<noteq> pr_entry_manifest ref_P @ MANIFEST_SUFFIX \<or>
      ?ls ! (length ?ls - 4) \<noteq> pr_port_control ref_P @ PORT_CONTROL_SUFFIX \<or> ?ls ! (length ?ls - 3) \<noteq> ready_line \<or>
      last ?ls \<noteq> final_line ref_P ''qotom-exception-integration-pending'')"
    using at len by (simp del: length_seg_lines)
  have raise_if_False: "raise_if False m k = k" for m and k :: "(bytes \<times> entry_report) res" by (simp add: raise_if_def)
  have "positioned ENTRY_RECORD 2 ?ls" using c(4) by (simp add: ref_fst)
  with pos show ?thesis
    unfolding extract_entry_def Let_def lines
    by (simp only: bounds order m raise_if_False) (simp add: pr len roots_valid_def eval_simps del: length_seg_lines)
qed

end
