(* ===== verification/Reference_Stream.thy ===== *)
theory Reference_Stream
  imports Reference_Checkpoints
begin

text \<open>
  The reference capture below the stages: the lab records are removed one after the other, what is left
  is the PCI diagnostic, and the whole stream is classified.  The replay executables, the reviewed
  firmware observation and the ACPI report are parameters of the model; here they are functions that
  accept.
\<close>

unbundle bit_operations_syntax

lemma segments_ok_subseq:
  assumes "segments_ok P ss" "subseq ts ss"
  shows "segments_ok P ts"
proof -
  have sub: "set xs \<subseteq> set ys" if "subseq xs ys" for xs ys :: "segment list"
    using list_emb_set [OF that] by blast
  moreover have "sorted_wrt apart (map fst ts @ [pr_final P])" if "sorted_wrt apart (map fst ss @ [pr_final P])"
    using assms(2) that by (induction rule: list_emb.induct) (auto dest: sub)
  ultimately show ?thesis using assms(1) by (auto simp: segments_ok_def list_all_iff dest: sub [OF assms(2), THEN subsetD])
qed

text \<open>What the lab record decoders leave, one after the other.\<close>

definition ref_rest :: "segment list" where
  "ref_rest = [rs_scan, rs_headers, rs_native_pci]"

definition ref_head :: "nat \<Rightarrow> segment list" where
  "ref_head n = take n [rs_boot, rs_cpu, rs_control, rs_bootstrap, rs_ecam_memory, rs_ecam_arm] @ ref_rest"

definition hlines :: "nat \<Rightarrow> bytes list" where "hlines n = seg_lines ref_P (ref_head n) (n + 3) PENDING"
definition hcap :: "nat \<Rightarrow> bytes" where "hcap n = concat (hlines n)"

lemma ref_head_ok: "n \<le> 6 \<Longrightarrow> segments_ok ref_P (ref_head n)"
proof (rule segments_ok_subseq [OF ref_ok])
  have "subseq (take n xs @ ys) (xs @ ys)" for n and xs ys :: "segment list"
    by (metis append_take_drop_id list_emb_append_mono subseq_append subseq_order.refl suffix_drop suffix_imp_subseq take_is_prefix prefix_imp_subseq)
  moreover have "ref_segments = ([rs_boot, rs_cpu, rs_control, rs_bootstrap, rs_ecam_memory, rs_ecam_arm] @ ref_rest) @ drop 9 ref_segments"
    by (simp add: ref_segments_def ref_rest_def)
  ultimately show "subseq (ref_head n) ref_segments" unfolding ref_head_def
    by (metis prefixI prefix_imp_subseq subseq_order.trans)
qed

lemma ref_head_9: "rcap 9 = hcap 6"
  by (simp add: hcap_def hlines_def seg_capture_def seg_lines_def ref_head_def ref_rest_def ref_segments_def)

lemma ref_head_facts [simp]: "length (ref_head 3) = 6" "length (ref_head 4) = 7" "length (ref_head 5) = 8" "length (ref_head 6) = 9"
  by (simp_all add: ref_head_def ref_rest_def)

lemma ref_head_nths:
  "ref_head 6 = [rs_boot, rs_cpu, rs_control, rs_bootstrap, rs_ecam_memory, rs_ecam_arm, rs_scan, rs_headers, rs_native_pci]"
  "ref_head 5 = [rs_boot, rs_cpu, rs_control, rs_bootstrap, rs_ecam_memory, rs_scan, rs_headers, rs_native_pci]"
  "ref_head 4 = [rs_boot, rs_cpu, rs_control, rs_bootstrap, rs_scan, rs_headers, rs_native_pci]"
  "ref_head 3 = [rs_boot, rs_cpu, rs_control, rs_scan, rs_headers, rs_native_pci]"
  by (simp_all add: ref_head_def ref_rest_def)

abbreviation ref_tail_lines :: "bytes list" where
  "ref_tail_lines \<equiv> snd rs_scan @ header_block ref_P ref_words @ [NATIVE, final_line ref_P PENDING]"

lemma hlines_eq:
  "hlines 6 = hd (snd rs_boot) # hd (snd rs_cpu) # hd (snd rs_control) # hd (snd rs_bootstrap) # hd (snd rs_ecam_memory) # ARM_LINE # ref_tail_lines"
  "hlines 5 = hd (snd rs_boot) # hd (snd rs_cpu) # hd (snd rs_control) # hd (snd rs_bootstrap) # hd (snd rs_ecam_memory) # ref_tail_lines"
  "hlines 4 = hd (snd rs_boot) # hd (snd rs_cpu) # hd (snd rs_control) # hd (snd rs_bootstrap) # ref_tail_lines"
  "hlines 3 = hd (snd rs_boot) # hd (snd rs_cpu) # hd (snd rs_control) # ref_tail_lines"
  by (simp_all add: hlines_def seg_lines_def ref_head_nths ref_snd)

lemma hcap_lines:
  assumes "n \<in> {3, 4, 5, 6}"
  shows "splitlines (hcap n) = hlines n" "endswith (hcap n) NL" "last (hlines n) = final_line ref_P PENDING"
proof -
  have c: "clean PENDING" by (simp add: clean_simps)
  have n: "n \<le> 6" using assms by auto
  show "splitlines (hcap n) = hlines n"
    using seg_splitlines [OF ref_head_ok [OF n] c, of "n + 3"] by (simp add: hcap_def hlines_def seg_capture_def)
  show "endswith (hcap n) NL" by (simp add: hcap_def hlines_def seg_lines_def final_line_def endswith_iff)
  show "last (hlines n) = final_line ref_P PENDING" by (simp add: hlines_def)
qed

lemma hcap_own:
  assumes "n \<in> {3, 4, 5, 6}" "k < n + 3" "length (snd (ref_head n ! k)) = 1"
  shows "own_indices (fst (ref_head n ! k)) (hlines n) = [length (capture_lines (take k (ref_head n)))]"
proof -
  have "n + 3 \<le> length (ref_head n)" "n \<le> 6" using assms(1) by auto
  then show ?thesis
    using seg_indices_own [OF ref_head_ok, of n k "n + 3" PENDING] assms(2,3) by (simp add: hlines_def own_indices_def seg_start_def)
qed

lemma hcap_scan: "n \<in> {3, 4, 5, 6} \<Longrightarrow> has_scan ref_P (hlines n)"
  by (auto simp: has_scan_def hlines_eq ref_snd printed_def record_line_def scan_pattern_def)

lemma hcap_no_final:
  assumes "n \<in> {3, 4, 5, 6}" "r \<noteq> PENDING"
  shows "final_line ref_P PENDING \<noteq> final_line ref_P r"
  using assms by simp

text \<open>A reviewed firmware observation without tables.\<close>

definition ref_acpi :: acpi_report where
  "ref_acpi = \<lparr>ar_schema = ''leanos-qotom-acpi-capture-v1'', ar_kind = 2, ar_address = 0, ar_tables = [],
     ar_handoff_sha256 = [], ar_claims = [], ar_dsdt = None\<rparr>"

definition ref_reviewed :: reviewed_capture where
  "ref_reviewed = \<lparr>rc_read = (\<lambda>_. Inr []), rc_manifest = (\<lambda>_. Some (sha256_hex [])), rc_report = (\<lambda>_. ref_acpi)\<rparr>"

lemma ref_firmware: "firmware_matches ref_reviewed (Some ref_acpi) [] = Inr True"
  by (simp add: firmware_matches_def pinned_def ref_reviewed_def ref_acpi_def same_report_def eval_simps)

lemma ref_ecam_armed:
  assumes "firmware_matches rc metadata files = Inr True"
  shows "extract_ecam rc metadata files False (rcap 9) ref_P =
     Inr (hcap 5, Some \<lparr>ec_armed = True, ec_firmware_matches = True, ec_fault = False\<rparr>)"
proof -
  have i: "own_indices ARM_PREFIX (hlines 6) = [5]" "own_indices ''LEANOS/25 PCI-SCAN '' (hlines 6) = [6]"
    using hcap_own [of 6 5] hcap_own [of 6 6] by (simp_all add: ref_head_nths ref_fst ref_snd)
  have n: "hlines 6 \<noteq> []" "hlines 6 ! 5 = ARM_LINE" by (simp_all add: hlines_eq)
  have w: "without_line 5 (hlines 6) = hcap 5" by (simp add: without_line_def hcap_def hlines_eq)
  show ?thesis unfolding ref_head_9
    by (simp add: extract_ecam_def Let_def hcap_lines i n w assms eval_simps)
qed

lemmas ref_ecam = ref_ecam_armed [OF ref_firmware]

lemma py_int_one: "py_int ''1'' = Inr 1" by code_simp

lemma dec_text_number: "dec_text None (decimal n)"
proof (cases "n = 0")
  case True
  then show ?thesis by (simp add: dec_text_def decimal.simps [of 0] digit_char_def is_digit_def)
next
  case False
  then show ?thesis using decimal_digits [of _ n] decimal_hd [of n] by (simp add: dec_text_def list_all_iff)
qed

lemma ref_sample_match:
  "match_ints msg memory_pattern (hd (snd rs_ecam_memory)) = Inr [3219913727, 1, 1974748653749254, 2147549215, 1523712, 104]"
  "fullmatch bootstrap_pattern (hd (snd rs_bootstrap)) = Some [decimal 3219913727, ''1'', decimal 4276095232]"
  "match_ints msg bootstrap_pattern (hd (snd rs_bootstrap)) = Inr [3219913727, 1, 4276095232]"
proof -
  have m: "fullmatch memory_pattern (hd (snd rs_ecam_memory)) =
      Some [decimal 3219913727, ''1'', decimal 1974748653749254, decimal 2147549215, decimal 1523712, decimal 104]"
    unfolding ref_snd list.sel
    by (rule fullmatch_render) (simp_all add: memory_pattern_def dec_text_number is_digit_def)
  show b: "fullmatch bootstrap_pattern (hd (snd rs_bootstrap)) = Some [decimal 3219913727, ''1'', decimal 4276095232]"
    unfolding ref_snd list.sel
    by (rule fullmatch_render) (simp_all add: bootstrap_pattern_def dec_text_number is_digit_def)
  show "match_ints msg memory_pattern (hd (snd rs_ecam_memory)) = Inr [3219913727, 1, 1974748653749254, 2147549215, 1523712, 104]"
    "match_ints msg bootstrap_pattern (hd (snd rs_bootstrap)) = Inr [3219913727, 1, 4276095232]"
    by (simp_all add: match_ints_def m b eval_simps py_int_wide py_int_one)
qed

lemma ref_cpu_edx: "accepted_edx ref_P (hlines n) msg = Inr 3219913727" if "n \<in> {3, 4, 5, 6}"
proof -
  have d: "decimal 22 = ''22''" "decimal 65536 = ''65536''" "decimal 21 = ''21''"
    by (simp_all add: decimal.simps digit_char_def)
  have l: "hlines n ! Suc 0 = words_text ''LEANOS/25 CPU'' 22 ''selection'' ref_cpu_words 65536 @ NL"
    using that by (auto simp: hlines_eq ref_snd)
  have t: "list_text digit_text 21 (csv (map nat ref_cpu_words))"
    by (rule list_text_mono [OF csv_list_text [of _ _ 9]])
      (auto simp: ref_cpu_words_def digit_text_def dec_text_def)
  have "words_text ''LEANOS/25 CPU'' 22 ''selection'' ref_cpu_words 65536 @ NL =
      render (accepted_cpu_pattern ref_P) [csv (map nat ref_cpu_words)]"
    by (simp add: words_text_def accepted_cpu_pattern_def d)
  moreover have "fullmatch (accepted_cpu_pattern ref_P) (render (accepted_cpu_pattern ref_P) [csv (map nat ref_cpu_words)]) =
      Some [csv (map nat ref_cpu_words)]"
    by (rule fullmatch_render) (simp_all add: accepted_cpu_pattern_def t is_digit_def)
  moreover have "split_on CHR '','' (csv (map nat ref_cpu_words)) ! 9 = decimal 3219913727"
    "9 < length (split_on CHR '','' (csv (map nat ref_cpu_words)))"
    by (simp_all add: split_on_csv ref_cpu_words_def)
  ultimately show ?thesis
    by (simp add: accepted_edx_def l eval_simps py_get_def py_int_small)
qed

lemma ref_control_line: "n \<in> {3, 4, 5, 6} \<Longrightarrow> hlines n ! 2 = words_text ''LEANOS/25 CONTROL'' 8 ''readback'' ref_msr_words 1 @ NL"
  by (auto simp: hlines_eq ref_snd)

lemma ref_control_facts:
  "startswith (words_text ''LEANOS/25 CONTROL'' 8 ''readback'' ref_msr_words 1 @ NL) ''LEANOS/25 CONTROL ''"
  "endswith (words_text ''LEANOS/25 CONTROL'' 8 ''readback'' ref_msr_words 1 @ NL) ('' readback=1'' @ NL)"
proof -
  have "decimal 1 = ''1''" by (simp add: decimal.simps digit_char_def)
  then show "endswith (words_text ''LEANOS/25 CONTROL'' 8 ''readback'' ref_msr_words 1 @ NL) ('' readback=1'' @ NL)"
    by (simp add: words_text_def endswith_iff)
qed (simp add: words_text_def)

lemma ref_sample_widths: "length (hd (snd rs_ecam_memory)) \<le> 256" "length (hd (snd rs_bootstrap)) \<le> 160"
proof -
  have d: "length (decimal n) \<le> 16" if "n < 10 ^ 16" for n using decimal_length [of n 15] that by simp
  show "length (hd (snd rs_ecam_memory)) \<le> 256"
    using d [of 3219913727] d [of 1974748653749254] d [of 2147549215] d [of 1523712] d [of 104]
    by (simp add: ref_snd memory_pattern_def MEMORY_PREFIX_def)
  show "length (hd (snd rs_bootstrap)) \<le> 160"
    using d [of 3219913727] d [of 4276095232] by (simp add: ref_snd bootstrap_pattern_def BOOTSTRAP_PREFIX_def)
qed

lemma ref_memory: "\<exists>r. extract_memory True False (hcap 5) ref_P = Inr (hcap 4, Some r)"
proof -
  have i: "own_indices MEMORY_PREFIX (hlines 5) = [4]"
    using hcap_own [of 5 4] by (simp add: ref_head_nths ref_fst ref_snd)
  have n: "hlines 5 ! 4 = hd (snd rs_ecam_memory)" "hlines 5 ! 3 = hd (snd rs_bootstrap)" by (simp_all add: hlines_eq)
  have w: "without_line 4 (hlines 5) = hcap 4" by (simp add: without_line_def hcap_def hlines_eq)
  show ?thesis
    using ref_sample_widths
    by (simp add: extract_memory_def Let_def hcap_lines hcap_scan i n w ref_sample_match ref_cpu_edx ref_control_line ref_control_facts [simplified]
        py_get_def py_int_small eval_simps)
qed

lemma ref_bootstrap:
  "extract_bootstrap True False (hcap 4) ref_P = Inr (hcap 3, Some (bootstrap_report_of 3219913727 1 4276095232))"
proof -
  have i: "own_indices BOOTSTRAP_PREFIX (hlines 4) = [3]"
    using hcap_own [of 4 3] by (simp add: ref_head_nths ref_fst ref_snd)
  have n: "hlines 4 ! 3 = hd (snd rs_bootstrap)" by (simp add: hlines_eq)
  have w: "without_line 3 (hlines 4) = hcap 3" by (simp add: without_line_def hcap_def hlines_eq)
  show ?thesis
    using ref_sample_widths
    by (simp add: extract_bootstrap_def Let_def hcap_lines hcap_scan i n w ref_sample_match ref_cpu_edx ref_control_line ref_control_facts [simplified]
        eval_simps)
qed

lemma text_lines_join_lines:
  assumes "\<forall>l\<in>set ls. clean l"
  shows "text_lines (join_lines ls) = ls"
proof -
  have "splitlines (join_lines ls) = map (\<lambda>l. l @ NL) ls" unfolding join_lines_def
    by (rule splitlines_concat_all) (use assms complete_line_clean in auto)
  moreover have "chomp (l @ NL) = l" if "clean l" for l
    using that unfolding chomp_def clean_def by (subst takeWhile_append2) auto
  ultimately show ?thesis using assms by (simp add: text_lines_def map_idI)
qed

lemma printable_simps [simp]:
  "printable []"
  "printable (c # s) \<longleftrightarrow> (c = LF \<or> (32 \<le> (of_char c :: nat) \<and> (of_char c :: nat) \<le> 126)) \<and> printable s"
  "printable (s @ t) \<longleftrightarrow> printable s \<and> printable t"
  by (auto simp: printable_def)

lemma printable_decimal [simp]: "printable (decimal n)"
  unfolding printable_def list_all_iff using decimal_digits [of _ n] by (fastforce simp: is_digit_def)

lemma printable_csv [simp]: "printable (csv ns)"
proof -
  have "printable (comma_join (map decimal ms))" for ms by (induction ms) (simp_all add: comma_join_def)
  then show ?thesis by (simp add: csv_def)
qed

lemma printable_join: "printable (join_lines ls) \<longleftrightarrow> list_all printable ls"
  by (induction ls) (simp_all add: join_lines_def)

abbreviation ref_cpu_line :: bytes where "ref_cpu_line \<equiv> words_text ''LEANOS/25 CPU'' 22 ''selection'' ref_cpu_words 65536"
abbreviation ref_msr_line :: bytes where "ref_msr_line \<equiv> words_text ''LEANOS/25 CONTROL'' 8 ''readback'' ref_msr_words 1"

definition ref_text :: "bytes list" where
  "ref_text = [boot_text ref_P ''pci-inventory-diagnostic'', ref_cpu_line, ref_msr_line, printed (scan_pattern ref_P) [0, 16, 0, 0, 0, 0]] @
     map (\<lambda>(i, h). pci_header_text ref_P i h) (enumerate 0 (map (map int) ref_words)) @
     [''LEANOS-LAB/1 NATIVE-PCI profile=qotom-native-ecam-v1 status=0 index=0 count=16'', final_text ref_P PENDING]"

lemma ref_text_capture: "hcap 3 = join_lines ref_text"
proof -
  have "map (\<lambda>(i, ws). header_line ref_P i ws) (enumerate k wss) =
      map (\<lambda>l. l @ NL) (map (\<lambda>(i, h). pci_header_text ref_P i h) (enumerate k (map (map int) wss)))" for k wss
    by (induction wss arbitrary: k) (simp_all add: header_line_def header_prefix_def pci_header_text_def map_idI)
  then have h: "header_block ref_P wss = map (\<lambda>l. l @ NL) (map (\<lambda>(i, h). pci_header_text ref_P i h) (enumerate 0 (map (map int) wss)))" for wss
    by (simp add: header_block_def)
  then show ?thesis
    by (simp add: NATIVE_def hcap_def hlines_eq ref_text_def join_lines_def ref_snd h boot_text_def final_text_def final_line_def comp_def)
qed

lemma ref_text_clean: "\<forall>l\<in>set ref_text. clean l" "list_all printable ref_text"
  by (auto simp: ref_text_def clean_simps boot_text_def words_text_def printed_def record_line_def scan_pattern_def pci_header_text_def
      NATIVE_def final_text_def list_all_iff)

text \<open>Replay executables that accept every word list.\<close>

definition ref_cpu_run :: executable where
  "ref_cpu_run args = Inr ((if hd args = ''cpu'' then ''65536'' else ''1'') @ NL)"

definition ref_pci_run :: executable where
  "ref_pci_run args = Inr ((if args = [] then ''Hosted native Qotom inventory replay passed'' else ''1'') @ NL)"

lemma ref_outputs:
  "fullmatch [NUMBER, Lit NL] (''65536'' @ NL) \<noteq> None" "py_int (''65536'' @ NL) = Inr 65536"
  "fullmatch [NUMBER, Lit NL] (''1'' @ NL) \<noteq> None" "py_int (''1'' @ NL) = Inr 1"
  by code_simp+

lemma ref_replays:
  "replay_words ref_cpu_run ''cpu'' ws = Inr 65536" "replay_words ref_cpu_run ''msr'' ws = Inr 1"
  "replay_words ref_pci_run ''inventory'' ws = Inr 1"
  using ref_outputs by (simp_all add: replay_words_def ref_cpu_run_def ref_pci_run_def eval_simps diag_if_def)

lemma ref_parse_words:
  "parse_words ref_cpu_line ''LEANOS/25 CPU'' 22 ''selection'' = Inr (ref_cpu_words, 65536)"
  "parse_words ref_msr_line ''LEANOS/25 CONTROL'' 8 ''readback'' = Inr (ref_msr_words, 1)"
  using parse_words_complete [of ref_cpu_words 21 65536 "''LEANOS/25 CPU''" "''selection''"]
    parse_words_complete [of ref_msr_words 7 1 "''LEANOS/25 CONTROL''" "''readback''"]
  by (simp_all add: ref_cpu_words_def ref_msr_words_def)

definition ref_cpu_text :: "bytes list" where
  "ref_cpu_text = [boot_text ref_P ''cpu-diagnostic'', ref_cpu_line, ref_msr_line, final_text ref_P PENDING]"

lemma join_lines_facts: "ls \<noteq> [] \<Longrightarrow> join_lines ls \<noteq> [] \<and> endswith (join_lines ls) NL"
proof -
  assume "ls \<noteq> []"
  then have "join_lines ls = join_lines (butlast ls) @ last ls @ NL"
    by (metis append_butlast_last_id join_lines_def map_append concat_append list.map(1,2) concat.simps append_Nil2)
  then show ?thesis by (simp add: endswith_iff)
qed

lemma ref_line_widths:
  "length ref_cpu_line \<le> 400" "length ref_msr_line \<le> 400"
proof -
  have c: "length (csv (map nat ref_cpu_words)) \<le> 11 * 22" "length (csv (map nat ref_msr_words)) \<le> 11 * 8"
    using csv_width [of "map nat ref_cpu_words"] csv_width [of "map nat ref_msr_words"]
    by (simp_all add: ref_cpu_words_def ref_msr_words_def)
  have "length (decimal n) \<le> 10" if "n < 10 ^ 10" for n using decimal_length [of n 9] that by simp
  from c this [of 22] this [of 65536] this [of 8] this [of 1]
  show "length ref_cpu_line \<le> 400" "length ref_msr_line \<le> 400" by (simp_all add: words_text_def)
qed

lemma ref_classify_cpu:
  "\<exists>r. classify_cpu ref_cpu_run ref_P False False (join_lines ref_cpu_text) = Inr r \<and> dg_reason r = PENDING \<and>
     dg_selection r = 65536 \<and> dg_readback r = Some 1"
proof -
  have t: "text_lines (join_lines ref_cpu_text) = ref_cpu_text"
    by (rule text_lines_join_lines) (simp add: ref_cpu_text_def clean_simps boot_text_def words_text_def final_text_def)
  have p: "printable (join_lines ref_cpu_text)"
    by (simp add: printable_join ref_cpu_text_def boot_text_def words_text_def final_text_def)
  have j: "join_lines ref_cpu_text \<noteq> []" "endswith (join_lines ref_cpu_text) NL"
    using join_lines_facts [of ref_cpu_text] by (simp_all add: ref_cpu_text_def)
  have w: "length (join_lines ref_cpu_text) \<le> MAX_CPU_CAPTURE"
    using ref_line_widths by (simp add: join_lines_def ref_cpu_text_def MAX_CPU_CAPTURE_def boot_text_def final_text_def)
  have c: "classify_control ref_cpu_run ref_P False False ref_cpu_text = Inr (Some ref_msr_words, Some 1, PENDING)"
    by (simp add: classify_control_def ref_cpu_text_def ref_parse_words ref_replays eval_simps diag_if_def pending_reason_def)
  have l: "length ref_cpu_text = 4" "ref_cpu_text ! 0 = boot_text ref_P ''cpu-diagnostic''" "ref_cpu_text ! 1 = ref_cpu_line"
    "last ref_cpu_text = final_text ref_P PENDING" by (simp_all add: ref_cpu_text_def)
  from w have w': "\<not> MAX_CPU_CAPTURE < length (join_lines ref_cpu_text)" by simp
  show ?thesis
    by (simp only: classify_cpu_def Let_def t p j l w' c) (simp add: ref_parse_words ref_replays eval_simps diag_if_def)
qed

lemma phase_replaced: "replace_all ''phase=pci-inventory-diagnostic'' ''phase=cpu-diagnostic'' (boot_text ref_P ''pci-inventory-diagnostic'') =
    boot_text ref_P ''cpu-diagnostic''"
  by code_simp

abbreviation ref_headers :: "int list list" where "ref_headers \<equiv> map (map int) ref_words"

abbreviation ref_scan_text :: bytes where "ref_scan_text \<equiv> printed (scan_pattern ref_P) [0, 16, 0, 0, 0, 0]"
abbreviation ref_header_texts :: "bytes list" where
  "ref_header_texts \<equiv> map (\<lambda>(i, h). pci_header_text ref_P i h) (enumerate 0 ref_headers)"

definition ref_kernel_text :: "bytes list" where
  "ref_kernel_text = [boot_text ref_P ''pci-inventory-diagnostic'', ref_cpu_line, ref_msr_line, ref_scan_text] @
     ref_header_texts @ [final_text ref_P PENDING]"

lemma ref_headers_length: "length ref_header_texts = 16"
  by (simp add: ref_word_facts(2))

lemma ref_take_kernel:
  "take_kernel_inventory True ref_text = Inr (ref_kernel_text, Some \<lparr>ki_status = 0, ki_index = 0, ki_count = 16\<rparr>)"
proof -
  let ?n = "''LEANOS-LAB/1 NATIVE-PCI profile=qotom-native-ecam-v1 status=0 index=0 count=16''"
  have d: "decimal 0 = ''0''" "decimal 16 = ''16''" by (simp_all add: decimal.simps digit_char_def)
  have "fullmatch native_pci_pattern (render native_pci_pattern [''0'', decimal 0, decimal 16]) = Some [''0'', decimal 0, decimal 16]"
    by (rule fullmatch_render) (simp_all add: native_pci_pattern_def dec_text_decimal is_digit_def)
  moreover have "render native_pci_pattern [''0'', decimal 0, decimal 16] = ?n"
    by (simp add: native_pci_pattern_def d NATIVE_PCI_def)
  ultimately have f: "fullmatch native_pci_pattern ?n = Some [''0'', decimal 0, decimal 16]" by simp
  have z: "py_int ''0'' = Inr 0" by code_simp
  have v: "py_ints [''0'', decimal 0, decimal 16] = Inr [0, 0, 16]" by (simp add: eval_simps z py_int_small del: d)
  have t: "ref_text = (butlast ref_kernel_text) @ [?n, final_text ref_P PENDING]"
    by (simp add: ref_text_def ref_kernel_text_def butlast_append)
  have i: "length ref_text - 2 = length (butlast ref_kernel_text)" "2 \<le> length ref_text" unfolding t by simp_all
  have "startswith ?n NATIVE_PCI" by (simp add: NATIVE_PCI_def)
  moreover have "butlast ref_kernel_text @ [final_text ref_P PENDING] = ref_kernel_text" by (simp add: ref_kernel_text_def butlast_append)
  moreover have "ref_text ! length (butlast ref_kernel_text) = ?n" "take (length (butlast ref_kernel_text)) ref_text = butlast ref_kernel_text"
    "last ref_text = final_text ref_P PENDING" unfolding t by (simp_all add: nth_append)
  ultimately show ?thesis
    using i f v by (simp add: take_kernel_inventory_def eval_simps)
qed

lemma ref_parse_scan:
  "parse_scan ref_P ref_scan_text = Inr \<lparr>sc_status = 0, sc_count = 16, sc_bus = 0, sc_device = 0, sc_function = 0, sc_offset = 0\<rparr>"
proof -
  have "fullmatch (scan_pattern ref_P) (render (scan_pattern ref_P) (map decimal [0, 16, 0, 0, 0, 0])) = Some (map decimal [0, 16, 0, 0, 0, 0])"
    by (rule fullmatch_render) (simp_all add: scan_pattern_def dec_text_decimal is_digit_def)
  then have "fullmatch (scan_pattern ref_P) ref_scan_text = Some (map decimal [0, 16, 0, 0, 0, 0])"
    by (simp add: printed_def record_line_def)
  moreover have "py_ints (map decimal [0, 16, 0, 0, 0, 0]) = Inr [0, 16, 0, 0, 0, 0]" by (simp add: eval_simps py_int_small)
  ultimately show ?thesis by (simp add: parse_scan_def eval_simps diag_if_def)
qed

lemma ref_headers_ok: "headers_ok ref_headers"
  by (simp add: headers_ok_def ref_words_def header_bounds_def address_less_def replicate_16)

lemma ref_cpu_projection: "cpu_projection ref_P ref_kernel_text = ref_cpu_text"
proof -
  have "startswith ref_msr_line ''LEANOS/25 CONTROL ''" "startswith ref_scan_text ''LEANOS/25 PCI-SCAN ''"
    by (simp_all add: words_text_def printed_def record_line_def scan_pattern_def)
  then show ?thesis by (simp add: cpu_projection_def ref_kernel_text_def ref_cpu_text_def phase_replaced)
qed

lemma ref_classify_scan:
  "classify_scan ref_pci_run ref_P True True (Some \<lparr>ki_status = 0, ki_index = 0, ki_count = 16\<rparr>) ref_kernel_text =
     Inr (\<lparr>sc_status = 0, sc_count = 16, sc_bus = 0, sc_device = 0, sc_function = 0, sc_offset = 0\<rparr>, ref_headers, Some 1, PENDING)"
proof -
  have l: "length ref_kernel_text = 21" "ref_kernel_text ! 3 = ref_scan_text" "last ref_kernel_text = final_text ref_P PENDING"
    "butlast (drop 4 ref_kernel_text) = ref_header_texts"
    using ref_word_facts(2) by (simp_all add: ref_kernel_text_def butlast_append)
  have s: "startswith ref_scan_text ''LEANOS/25 PCI-SCAN ''" by (simp add: printed_def record_line_def scan_pattern_def)
  have h: "read_headers ref_P ref_header_texts 0 [] = Inr ref_headers" using read_headers_complete [of "[]" ref_headers] ref_headers_ok by simp
  have n: "length ref_headers = 16" using ref_word_facts(2) by simp
  have "successful_scan ref_pci_run ref_P True True (Some \<lparr>ki_status = 0, ki_index = 0, ki_count = 16\<rparr>)
      \<lparr>sc_status = 0, sc_count = 16, sc_bus = 0, sc_device = 0, sc_function = 0, sc_offset = 0\<rparr> ref_kernel_text =
      Inr (ref_headers, 1, PENDING)"
    by (simp add: successful_scan_def l h n ref_replays INVENTORY_RESULTS_def expected_kernel_def eval_simps diag_if_def del: length_map)
  then show ?thesis by (simp add: classify_scan_def l s ref_parse_scan eval_simps diag_if_def)
qed

lemma ref_header_widths: "length (concat ref_header_texts) \<le> 16 * 300"
proof -
  have "length (concat ls) \<le> n * length ls" if "\<forall>l\<in>set ls. length l \<le> n" for ls :: "bytes list" and n
    using that by (induction ls) auto
  moreover have "\<forall>l\<in>set ref_header_texts. length l \<le> 300"
  proof
    fix l
    assume "l \<in> set ref_header_texts"
    then obtain i ws where l: "l = pci_header_text ref_P i (map int ws)" "i < 16" "ws \<in> set ref_words"
      using ref_word_facts(2) by (auto simp: in_set_enumerate_eq)
    then have ws: "length ws = 19" "\<forall>n\<in>set ws. n < 10 ^ 10" using ref_word_facts(1) by (auto simp: list_all_iff)
    then have "length (csv ws) \<le> 11 * 19" using csv_width [of ws] by fastforce
    moreover have "length (decimal i) \<le> 2" using decimal_length [of i 1] l(2) by simp
    ultimately show "length l \<le> 300" by (simp add: l(1) pci_header_text_def comp_def)
  qed
  ultimately have "length (concat ref_header_texts) \<le> 300 * length ref_header_texts" by blast
  then show ?thesis unfolding ref_headers_length by simp
qed

lemma ref_capture_width: "length (hcap 3) \<le> MAX_PCI_CAPTURE"
proof -
  have "length (join_lines ls) = length (concat ls) + length ls" for ls by (induction ls) (simp_all add: join_lines_def)
  moreover have "length (ref_scan_text) \<le> 200"
  proof -
    have "length (decimal 0) \<le> 10" "length (decimal 16) \<le> 10" using decimal_length [of 0 9] decimal_length [of 16 9] by simp_all
    then show ?thesis by (simp add: printed_def record_line_def scan_pattern_def)
  qed
  ultimately show ?thesis
    using ref_line_widths ref_header_widths ref_headers_length
    by (simp add: ref_text_capture ref_text_def boot_text_def final_text_def MAX_PCI_CAPTURE_def)
qed

lemma ref_classify_pci:
  "\<exists>r. classify_pci ref_cpu_run ref_pci_run ref_P True True (hcap 3) = Inr r \<and> dg_reason r = PENDING \<and> pd_headers r = ref_headers"
proof -
  obtain c where c: "classify_cpu ref_cpu_run ref_P False False (join_lines ref_cpu_text) = Inr c" "dg_reason c = PENDING"
    using ref_classify_cpu by blast
  have t: "text_lines (hcap 3) = ref_text" unfolding ref_text_capture by (rule text_lines_join_lines) (rule ref_text_clean)
  have p: "printable (hcap 3)" unfolding ref_text_capture printable_join by (rule ref_text_clean)
  have j: "hcap 3 \<noteq> []" "endswith (hcap 3) NL" unfolding ref_text_capture
    using join_lines_facts [of ref_text] by (simp_all add: ref_text_def)
  have w: "\<not> MAX_PCI_CAPTURE < length (hcap 3)" using ref_capture_width by simp
  have l: "length ref_kernel_text = 21" "ref_kernel_text ! 0 = boot_text ref_P ''pci-inventory-diagnostic''"
    using ref_word_facts(2) by (simp_all add: ref_kernel_text_def)
  have i: "ref_pci_run [] = Inr (''Hosted native Qotom inventory replay passed'' @ NL)" by (simp add: ref_pci_run_def)
  show ?thesis unfolding classify_pci_def
    by (simp add: t p j w i ref_take_kernel l c ref_cpu_projection ref_classify_scan eval_simps diag_if_def)
qed

text \<open>All options but the exception, IPC and trace ones.\<close>

definition ref_options :: options where
  "ref_options opt \<longleftrightarrow> opt \<notin> {''exception_integration'', ''blocking_ipc_integration'', ''pci_read_trace''}"

lemma ref_samples: "run_samples ref_options ref_reviewed ref_P (Some ref_acpi) [] False (rcap 9) = Inr (hcap 3)"
proof -
  obtain m where "extract_memory True False (hcap 5) ref_P = Inr (hcap 4, Some m)" using ref_memory by blast
  then show ?thesis
    by (simp add: run_samples_def optional_def ref_options_def ref_ecam ref_bootstrap eval_simps)
qed

lemma run_stages_step:
  assumes "on option" "\<exists>r. decode raw P = Inr (proj, Some r)"
    and "\<And>reports. \<exists>reports'. run_stages on P rest proj reports = Inr (raw', reports')"
  shows "\<exists>reports'. run_stages on P (stage_step_of option key decode scope # rest) raw reports = Inr (raw', reports')"
  using assms by (auto simp: eval_simps stage_step_of_def observe_def)

lemma ref_accepted:
  "\<exists>r. extract_txe_bme (rcap 42) ref_P = Inr (rcap 41, Some r)"
  "\<exists>r. extract_graphics_bme (rcap 41) ref_P = Inr (rcap 40, Some r)"
  "\<exists>r. extract_graphics_state (rcap 40) ref_P = Inr (rcap 39, Some r)"
  "\<exists>r. extract_broadcom_d3 (rcap 39) ref_P = Inr (rcap 38, Some r)"
  "\<exists>r. extract_pcie_pending (rcap 38) ref_P = Inr (rcap 37, Some r)"
  "\<exists>r. extract_realtek_bme (rcap 37) ref_P = Inr (rcap 36, Some r)"
  "\<exists>r. extract_realtek_state (rcap 36) ref_P = Inr (rcap 35, Some r)"
  "\<exists>r. extract_rootport_bme (rcap 35) ref_P = Inr (rcap 34, Some r)"
  "\<exists>r. extract_txe_status (rcap 34) ref_P = Inr (rcap 33, Some r)"
  "\<exists>r. extract_hda_bme (rcap 33) ref_P = Inr (rcap 32, Some r)"
  "\<exists>r. extract_hda_state (rcap 32) ref_P = Inr (rcap 31, Some r)"
  "\<exists>r. extract_hda (rcap 31) ref_P = Inr (rcap 30, Some r)"
  "\<exists>r. extract_ahci_bme (rcap 30) ref_P = Inr (rcap 29, Some r)"
  "\<exists>r. extract_ahci_interrupt (rcap 29) ref_P = Inr (rcap 28, Some r)"
  "\<exists>r. extract_ahci_port (rcap 28) ref_P = Inr (rcap 27, Some r)"
  "\<exists>r. extract_ahci_caps (rcap 27) ref_P = Inr (rcap 26, Some r)"
  "\<exists>r. extract_pcie_device (rcap 26) ref_P = Inr (rcap 25, Some r)"
  "\<exists>r. extract_xhci_bme (rcap 25) ref_P = Inr (rcap 24, Some r)"
  "\<exists>r. extract_xhci_operational (rcap 24) ref_P = Inr (rcap 23, Some r)"
  "\<exists>r. extract_xhci_smi (rcap 23) ref_P = Inr (rcap 22, Some r)"
  "\<exists>r. extract_xhci_handoff (rcap 22) ref_P = Inr (rcap 21, Some r)"
  "\<exists>r. extract_xhci_legacy (rcap 21) ref_P = Inr (rcap 19, Some r)"
  "\<exists>r. extract_xhci_caps (rcap 19) ref_P = Inr (rcap 18, Some r)"
  "\<exists>r. extract_ehci_bme (rcap 18) ref_P = Inr (rcap 17, Some r)"
  "\<exists>r. extract_ehci_operational (rcap 17) ref_P = Inr (rcap 16, Some r)"
  "\<exists>r. extract_ehci_smi (rcap 16) ref_P = Inr (rcap 15, Some r)"
  "\<exists>r. extract_ehci_handoff (rcap 15) ref_P = Inr (rcap 14, Some r)"
  "\<exists>r. extract_ehci_legacy (rcap 14) ref_P = Inr (rcap 12, Some r)"
  "\<exists>r. extract_ehci_caps (rcap 12) ref_P = Inr (rcap 11, Some r)"
  "\<exists>r. extract_af (rcap 11) ref_P = Inr (rcap 10, Some r)"
  "\<exists>r. extract_pci_caps (rcap 10) ref_P = Inr (rcap 9, Some r)"
  using ref_txe_bme ref_graphics_bme ref_graphics_state ref_broadcom_d3 ref_pcie_pending ref_realtek_bme ref_realtek_state ref_rootport_bme ref_txe_status ref_hda_bme ref_hda_state ref_hda ref_ahci_bme ref_ahci_interrupt ref_ahci_port ref_ahci_caps ref_pcie_device ref_xhci_bme ref_xhci_operational ref_xhci_smi ref_xhci_handoff ref_xhci_legacy ref_xhci_caps ref_ehci_bme ref_ehci_operational ref_ehci_smi ref_ehci_handoff ref_ehci_legacy ref_ehci_caps ref_af ref_caps by blast+

lemma ref_run_stages: "\<exists>reports. run_stages ref_options ref_P STAGES (rcap 42) [] = Inr (rcap 9, reports)"
  unfolding STAGES_def
  by ((rule run_stages_step, simp add: ref_options_def, rule ref_accepted)+, simp)

lemma ref_checkpoints:
  "\<exists>reports. run_checkpoints ref_options ref_P [] (rcheck 49 ''qotom-exception-integration-pending'') = Inr (rcap 42, reports)"
proof -
  obtain e where e: "extract_entry (rcheck 49 ''qotom-exception-integration-pending'') ref_P =
     Inr (rcheck 45 ''qotom-entry-integration-pending'', e)" "en_closed_root e = 1716224" using ref_entry by blast
  obtain c where c: "extract_copy_root (rcheck 45 ''qotom-entry-integration-pending'') ref_P ''base'' =
     Inr (rcheck 44 ''qotom-copy-roots-pending'', c)" "cr_closed_root c = 1716224" using ref_copy_root by blast
  obtain n where n: "extract_nosmap (rcheck 44 ''qotom-copy-roots-pending'') ref_P = Inr (rcheck 43 ''qotom-nosmap-pending'', n)"
    using ref_nosmap by blast
  obtain f where f: "extract_pci_final (rcheck 43 ''qotom-nosmap-pending'') ref_P True = Inr (rcap 42, f)"
    using ref_final by blast
  have o: "\<not> ref_options ''blocking_ipc_integration''" "\<not> ref_options ''exception_integration''" "ref_options ''entry_integration''"
    "ref_options ''copy_root_publication''" "ref_options ''nosmap_control''" "ref_options ''pci_final_admission''"
    "ref_options ''pci_trust_contract''" by (simp_all add: ref_options_def)
  have "run_integration ref_options ref_P [] (rcheck 49 ''qotom-exception-integration-pending'') =
      Inr (rcheck 45 ''qotom-entry-integration-pending'', Some e)"
    by (simp only: run_integration_def o e if_False if_True) (simp add: eval_simps)
  moreover have "run_copy_root ref_options ref_P (Some e) (rcheck 45 ''qotom-entry-integration-pending'') =
      Inr (rcheck 44 ''qotom-copy-roots-pending'', Some c)"
    by (simp only: run_copy_root_def o c if_False if_True) (simp add: eval_simps e c)
  moreover have "run_checkpoint True extract_nosmap ref_P (rcheck 44 ''qotom-copy-roots-pending'') =
      Inr (rcheck 43 ''qotom-nosmap-pending'', Some (observation.truncate n))"
    by (simp only: run_checkpoint_def n if_True) (simp add: eval_simps)
  moreover have "run_checkpoint True (\<lambda>raw P. extract_pci_final raw P True) ref_P (rcheck 43 ''qotom-nosmap-pending'') =
      Inr (rcap 42, Some (observation.truncate f))"
    by (simp only: run_checkpoint_def f if_True) (simp add: eval_simps)
  ultimately show ?thesis using o by (simp add: run_checkpoints_def eval_simps)
qed

lemma ref_not_terminal: "\<not> ecam_terminal on ref_P (hcap 3)"
proof -
  have ends: "\<not> endswith (x @ [a, LF]) (y @ [b, LF])" if "a \<noteq> b" for x y and a b :: char
    using that by (auto simp: endswith_iff)
  have "hcap 3 = (concat (butlast (hlines 3)) @ ''LEANOS/3 FINAL status=FAIL reason=qotom-platform-pendin'') @ [CHR ''g'', LF]"
    by (simp add: hcap_def hlines_def seg_lines_def final_line_def)
  then obtain x where x: "hcap 3 = x @ [CHR ''g'', LF]" by blast
  have "final_line ref_P ''qotom-ecam-arm'' = ''LEANOS/3 FINAL status=FAIL reason=qotom-ecam-ar'' @ [CHR ''m'', LF]"
    "final_line ref_P ''qotom-ecam-transaction'' = ''LEANOS/3 FINAL status=FAIL reason=qotom-ecam-transactio'' @ [CHR ''n'', LF]"
    by (simp_all add: final_line_def)
  then obtain y z where "final_line ref_P ''qotom-ecam-arm'' = y @ [CHR ''m'', LF]" "final_line ref_P ''qotom-ecam-transaction'' = z @ [CHR ''n'', LF]"
    by blast
  with x ends [of "CHR ''g''" "CHR ''m''" x y] ends [of "CHR ''g''" "CHR ''n''" x z] show ?thesis
    by (simp add: ecam_terminal_def)
qed

lemma ref_classify_stream:
  "\<exists>reports d. classify_stream ref_options ref_cpu_run (Some ref_pci_run) ref_reviewed [] ref_P (Some ref_acpi) [] False
     (rcheck 49 ''qotom-exception-integration-pending'') = Inr (reports, d)"
proof -
  obtain above where c: "run_checkpoints ref_options ref_P [] (rcheck 49 ''qotom-exception-integration-pending'') = Inr (rcap 42, above)"
    using ref_checkpoints by blast
  obtain reports where s: "run_stages ref_options ref_P STAGES (rcap 42) [] = Inr (rcap 9, reports)" using ref_run_stages by blast
  obtain d where d: "classify_pci ref_cpu_run ref_pci_run ref_P True True (hcap 3) = Inr d" using ref_classify_pci by blast
  have "ref_options ''native_inventory''" "ref_options ''native_kernel''" by (simp_all add: ref_options_def)
  then have "\<exists>x. replay_rest ref_options ref_cpu_run (Some ref_pci_run) ref_P False (hcap 3) = Inr x"
    by (simp add: replay_rest_def ref_not_terminal d eval_simps)
  with c s ref_samples show ?thesis by (auto simp: classify_stream_def eval_simps)
qed

end
