(* ===== verification/Reference_Logs.thy ===== *)
theory Reference_Logs
  imports Reference_Stream
begin

text \<open>
  Small inputs for the parts of the runner around the stream: timed logs of an unprotected and of a
  watchdog-protected run, a log with a raw handoff before the diagnostic, a protocol file, and a native
  BSP record with its MADT.
\<close>

subsection \<open>Timed logs\<close>

definition sample_trace :: bytes where
  "sample_trace = ''LEANOS/25 BOOT x'' @ NL @ ''LEANOS/3 FINAL status=FAIL'' @ NL"

definition sample_events :: "event list" where
  "sample_events = [\<lparr>ev_elapsed = Some 1, ev_data = ''boot'' @ NL @ take 20 sample_trace\<rparr>,
     \<lparr>ev_elapsed = Some 2, ev_data = drop 20 sample_trace\<rparr>,
     \<lparr>ev_elapsed = Some 33, ev_data = CHAIN_MARK @ ''ada0'' @ NL\<rparr>]"

lemma sample_log: "log_bytes sample_events = ''boot'' @ NL @ sample_trace @ CHAIN_MARK @ ''ada0'' @ NL"
  by (simp add: sample_events_def log_bytes_def)

lemma sample_run: "\<exists>r. classify_run sample_events sample_trace ''LEANOS/25 BOOT'' True = Inr r"
proof -
  let ?d = "log_bytes sample_events"
  have a: "bytes_find sample_trace ?d = Some 5" "bytes_count ''LEANOS/25 BOOT'' ?d = 1" "count_finals ?d = 1"
    "bytes_find ''LEANOS/'' (take 5 ?d) = None" "length sample_trace = 44"
    "find_from CHAIN_MARK ?d 49 = Some 49"
    "bytes_find ''LEANOS/'' (drop 49 ?d) = None" "bytes_find ''LEANOS-LAB/1 SELECT leanos'' (drop 49 ?d) = None"
    unfolding sample_log by code_simp+
  have q: "quiet_scan 49 sample_events 0 None None = Inr (Some 2, Some 33)"
    unfolding sample_events_def sample_trace_def CHAIN_MARK_def by (simp add: log_time_def eval_simps)
  have t: "\<not> list_ex bad_timestamp sample_events" "\<not> nonmonotonic sample_events"
    by (simp_all add: sample_events_def bad_timestamp_def nonmonotonic_def log_time_def)
  show ?thesis unfolding classify_run_def Let_def by (simp add: a q t eval_simps)
qed

theorem run_quiet_boundary_witness:
  "\<exists>before e f after pre. sample_events = before @ e # f # after \<and>
    log_bytes (before @ [e]) = pre @ sample_trace \<and> \<not> bytes_in ''LEANOS/'' pre \<and>
    bytes_in CHAIN_MARK (log_bytes (f # after)) \<and> 10 \<le> log_time f - log_time e"
proof -
  obtain r where r: "classify_run sample_events sample_trace ''LEANOS/25 BOOT'' True = Inr r" using sample_run by blast
  have "sample_trace \<noteq> []" by (simp add: sample_trace_def)
  from run_quiet_boundary [OF r this] show ?thesis by metis
qed


definition mode_handoff :: bytes where
  "mode_handoff = print_handoff [1, 7, 4096, 0, 0] []"

definition mode_raw :: bytes where
  "mode_raw = ''LEANOS/25 BOOT x'' @ NL @ ''LEANOS/3 FINAL status=FAIL'' @ NL"

definition mode_events :: "event list" where
  "mode_events = [\<lparr>ev_elapsed = Some 1, ev_data = ''boot'' @ NL @ MODE_LINE\<rparr>,
     \<lparr>ev_elapsed = Some 2, ev_data = mode_handoff @ mode_raw @ ''tail''\<rparr>]"

lemma mode_handoff_text:
  "mode_handoff = ''LEANOS-LAB/1 HANDOFF status=1 magic=7 address=4096 length=0 apic=0'' @ NL @ HANDOFF_END"
  by (simp add: mode_handoff_def print_handoff_def record_line_def handoff_pattern_def decimal.simps digit_char_def)

lemma mode_log: "log_bytes mode_events = ''boot'' @ NL @ MODE_LINE @ mode_handoff @ mode_raw @ ''tail''"
  by (simp add: mode_events_def log_bytes_def)

lemma mode_consumed: "\<exists>rep. parse_prefix (mode_handoff @ mode_raw @ ''tail'') = Inr (92, [], rep)"
proof -
  have "handoff_ok 1 7 4096 0 []" by (simp add: handoff_ok_def)
  from handoff_accepts [OF this, of mode_handoff "mode_raw @ ''tail''"]
  have "\<exists>rep. parse_prefix (mode_handoff @ mode_raw @ ''tail'') = Inr (length mode_handoff, [], rep)"
    by (auto simp: mode_handoff_def)
  moreover have "length mode_handoff = 92" by (simp add: mode_handoff_text HANDOFF_END_def)
  ultimately show ?thesis by simp
qed

lemma mode_stream:
  "cpu_diagnostic_bytes mode_events ref_P True None = Inr (MODE_LINE @ mode_handoff @ mode_raw, mode_raw)"
proof -
  let ?d = "log_bytes mode_events"
  have a: "bytes_count MODE_LINE ?d = 1" "bytes_find MODE_LINE ?d = Some 5" "length MODE_LINE = 53"
    "find_from ''LEANOS/3 FINAL'' ?d (5 + 53 + 92) = Some 167"
    "find_from NL ?d 167 = Some 193" "startswith (drop (5 + 53 + 92) ?d) ''LEANOS/25 BOOT''"
    "slice (5 + 53) (5 + 53 + 92) ?d = mode_handoff" "slice (5 + 53 + 92) (193 + 1) ?d = mode_raw"
    unfolding mode_log mode_handoff_text by code_simp+
  have "drop (5 + 53) ?d = mode_handoff @ mode_raw @ ''tail''" unfolding mode_log by (simp add: MODE_LINE_def)
  then obtain rep where "parse_prefix (drop (5 + 53) ?d) = Inr (92, [], rep)" using mode_consumed by auto
  then show ?thesis using a unfolding cpu_diagnostic_bytes_def Let_def by (simp add: eval_simps)
qed

theorem diagnostic_stream_contiguous_witness:
  "(\<exists>before after. log_bytes mode_events = before @ (MODE_LINE @ mode_handoff @ mode_raw) @ after \<and>
      startswith (mode_raw @ after) ''LEANOS/25 BOOT'') \<and> endswith mode_raw NL"
  using diagnostic_stream_contiguous [OF mode_stream] by simp

subsection \<open>A watchdog-protected run\<close>

definition guarded_digest :: bytes where "guarded_digest = replicate 64 CHR ''a''"

definition guarded_head :: bytes where
  "guarded_head = WINDOW_MARK @ NL @ ARMED_MARK @ NL @ LOAD_MARK @ '' sha256='' @ guarded_digest @ NL"

definition guarded_tail :: bytes where
  "guarded_tail = DEFAULT_MARK @ NL @ CHAIN_MARK @ ''ada0'' @ NL"

definition guarded_events :: "event list" where
  "guarded_events = [\<lparr>ev_elapsed = Some 1, ev_data = guarded_head\<rparr>, \<lparr>ev_elapsed = Some 2, ev_data = sample_trace\<rparr>,
     \<lparr>ev_elapsed = Some 50, ev_data = guarded_tail\<rparr>]"

lemma guarded_log: "log_bytes guarded_events = guarded_head @ sample_trace @ guarded_tail"
  by (simp add: guarded_events_def log_bytes_def)

lemma guarded_digest_text: "guarded_digest = ''aaaaaaaaaaaaaaaaaaaaaaaaaaaaaaaaaaaaaaaaaaaaaaaaaaaaaaaaaaaaaaaa''"
  unfolding guarded_digest_def by code_simp

lemma guarded_facts:
  "length guarded_head = 184" "length sample_trace = 44"
  "bytes_find sample_trace (log_bytes guarded_events) = Some 184"
  "bytes_count ''LEANOS/25 BOOT'' (log_bytes guarded_events) = 1" "count_finals (log_bytes guarded_events) = 1"
  "bytes_find ''LEANOS/'' (take 184 (log_bytes guarded_events)) = None"
  "find_from CHAIN_MARK (log_bytes guarded_events) 228 = Some 262"
  "bytes_find ''LEANOS/'' (drop 228 (log_bytes guarded_events)) = None"
  "bytes_find ''LEANOS-LAB/1 SELECT leanos'' (drop 228 (log_bytes guarded_events)) = None"
  unfolding guarded_log guarded_head_def guarded_digest_text guarded_tail_def sample_trace_def by code_simp+

lemma guarded_order: "watchdog_order guarded_digest sample_trace (log_bytes guarded_events)"
  unfolding guarded_log guarded_head_def guarded_digest_text guarded_tail_def sample_trace_def by code_simp

lemma guarded_run:
  "\<exists>r. classify_protected guarded_events guarded_digest sample_trace ''LEANOS/25 BOOT'' True (30, 90) = Inr r"
proof -
  have q: "quiet_scan 228 guarded_events 0 None None = Inr (Some 2, Some 50)"
  proof -
    have "length guarded_head = 184" "length sample_trace = 44" by (rule guarded_facts)+
    then show ?thesis by (simp add: guarded_events_def log_time_def eval_simps)
  qed
  have t: "\<not> list_ex bad_timestamp guarded_events" "\<not> nonmonotonic guarded_events"
    by (simp_all add: guarded_events_def bad_timestamp_def nonmonotonic_def log_time_def)
  have "\<exists>r. classify_run guarded_events sample_trace ''LEANOS/25 BOOT'' True = Inr r \<and> rr_quiet r = 48"
    unfolding classify_run_def Let_def by (simp add: guarded_facts q t eval_simps)
  moreover have "length guarded_digest = 64" "list_all is_hex guarded_digest"
    by (simp_all add: guarded_digest_def list_all_iff is_hex_def)
  ultimately show ?thesis
    unfolding classify_protected_def using guarded_order by (auto simp: eval_simps)
qed

theorem protected_run_order_witness:
  "\<exists>a b. find_load guarded_digest (log_bytes guarded_events) 0 = Some (a, b) \<and>
    int b \<le> find_pos sample_trace (log_bytes guarded_events)"
proof -
  obtain r where r: "classify_protected guarded_events guarded_digest sample_trace ''LEANOS/25 BOOT'' True (30, 90) = Inr r"
    using guarded_run by blast
  from protected_run_order [OF r] show ?thesis unfolding Let_def by blast
qed

subsection \<open>Protocol identities\<close>

definition identity_line :: "bytes \<times> bytes \<Rightarrow> bytes" where
  "identity_line = (\<lambda>(area, key). ''record'' @ CHR 0x09 # area @ CHR 0x09 # key @ CHR 0x09 # ''1'' @ CHR 0x09 #
     ''LEANOS/'' @ area @ '' '' @ key)"

definition identity_table :: bytes where
  "identity_table = join_lines (map identity_line (PCI_IDENTITIES @ QUALIFIED_IDENTITIES))"

lemma identity_table_loaded: "\<exists>found. load_protocol identity_table = Inr found"
proof -
  have "isl (load_protocol identity_table) = False" unfolding identity_table_def by code_simp
  then show ?thesis by (cases "load_protocol identity_table") auto
qed

theorem load_protocol_complete_witness:
  "\<exists>found. load_protocol identity_table = Inr found \<and> dom (map_of found) = set protocol_keys"
  using identity_table_loaded load_protocol_complete by blast

subsection \<open>A native BSP record\<close>

definition madt_data :: bytes where
  "madt_data = ''APIC'' @ map char_of ([44, 0, 0, 0] @ replicate 36 (0::nat))"

definition madt_words :: "nat list" where
  "madt_words = [8192, 44, 0, 3219913727, 1, 4276095232, 0, 0, 0, 44, 0, 4, 4276095232]"

definition madt_table :: acpi_table where
  "madt_table = \<lparr>at_index = 1, at_address = 8192, at_length = 44, at_signature = tohex ''APIC'',
     at_sha256 = sha256_hex madt_data\<rparr>"

definition madt_report :: acpi_report where
  "madt_report = ref_acpi\<lparr>ar_tables := [madt_table\<lparr>at_index := 0, at_address := 4096, at_signature := tohex ''RSDT''\<rparr>, madt_table]\<rparr>"

definition madt_replay :: bsp_replay where
  "madt_replay = \<lparr>br_identity = Inr (''LeanOS native BSP replay v2'' @ NL),
     br_check = (\<lambda>data args. if data = madt_data \<and> args = bsp_arguments (map int madt_words)
       then Inr (bsp_expected (map int madt_words)) else raise ''replay'')\<rparr>"

definition bsp_line :: bytes where "bsp_line = render bsp_pattern (map decimal madt_words)"

definition bsp_lines :: "bytes list" where
  "bsp_lines = [''a'' @ NL, ''b'' @ NL, ''c'' @ NL, ''d'' @ NL, ''e'' @ NL, ARM_LINE, bsp_line, final_line ref_P PENDING]"

lemma bsp_line_match: "match_ints msg bsp_pattern bsp_line = Inr (map int madt_words)"
proof -
  have "groups_ok bsp_pattern (map decimal madt_words)"
    by (simp add: bsp_pattern_def BSP_NAMES_def madt_words_def dec_text_number)
  moreover have "delimited bsp_pattern" by (simp add: bsp_pattern_def BSP_NAMES_def is_digit_def)
  ultimately have "fullmatch bsp_pattern bsp_line = Some (map decimal madt_words)"
    unfolding bsp_line_def by (intro fullmatch_render)
  moreover have "py_ints (map decimal madt_words) = Inr (map int madt_words)"
  proof -
    have "\<forall>n\<in>set madt_words. length (decimal n) \<le> Suc 19"
    proof
      fix n assume "n \<in> set madt_words"
      then have "n < 10 ^ Suc 19" by (auto simp: madt_words_def)
      then show "length (decimal n) \<le> Suc 19" by (rule decimal_length)
    qed
    then have "\<forall>n\<in>set madt_words. py_int (decimal n) = Inr (int n)" by (auto intro!: py_int_decimal)
    then show ?thesis by (simp add: madt_words_def eval_simps)
  qed
  ultimately show ?thesis by (simp add: match_ints_def eval_simps)
qed

lemma bsp_line_text:
  "\<exists>body. bsp_line = BSP_PREFIX @ body @ NL" "length bsp_line \<le> 512" "complete_line bsp_line" "\<not> startswith bsp_line ARM_PREFIX"
proof -
  have t: "bsp_line = BSP_PREFIX @ ''profile=qotom-bsp-v1 madt=8192 length=44 executing=0 cpuid-edx=3219913727 available=1 apic-base=4276095232 sample-id=0 status=0 detail=0 offset=44 admitted-id=0 count=4 bound-base=4276095232 platform-admitted=0'' @ NL"
    by (simp add: bsp_line_def bsp_pattern_def BSP_NAMES_def madt_words_def decimal.simps digit_char_def)
  then show "\<exists>body. bsp_line = BSP_PREFIX @ body @ NL" by blast
  show "length bsp_line \<le> 512" "complete_line bsp_line" "\<not> startswith bsp_line ARM_PREFIX" unfolding t
    by (simp_all add: BSP_PREFIX_def ARM_PREFIX_def complete_line_def)
qed

lemma bsp_lines_split: "splitlines (concat bsp_lines) = bsp_lines"
proof (rule splitlines_concat_all)
  have "complete_line ARM_LINE" "complete_line (final_line ref_P PENDING)"
    by (simp_all add: complete_line_def ARM_LINE_def ARM_PREFIX_def final_line_def)
  then show "\<forall>l\<in>set bsp_lines. complete_line l" using bsp_line_text(3) by (simp add: bsp_lines_def) (simp add: complete_line_def)
qed

lemma bsp_accepted:
  "\<exists>proj r. extract_bsp madt_replay (Some madt_report) [(table_name 8192, madt_data)] (concat bsp_lines) ref_P = Inr (proj, Some r)"
proof -
  have "startswith bsp_line BSP_PREFIX" using bsp_line_text(1) by (auto simp: startswith_iff)
  then have i: "own_indices BSP_PREFIX bsp_lines = [6]" "own_indices ARM_PREFIX bsp_lines = [5]"
    using bsp_line_text(4)
    by (simp_all add: own_indices_def indices_where_def bsp_lines_def BSP_PREFIX_def ARM_PREFIX_def ARM_LINE_def
        final_line_def upt_rec)
  have n: "bsp_lines ! 5 = ARM_LINE" "bsp_lines ! 6 = bsp_line" "bsp_lines \<noteq> []" "last bsp_lines = final_line ref_P PENDING"
    by (simp_all add: bsp_lines_def)
  have d: "length madt_data = 44" by (simp add: madt_data_def)
  have neq: "tohex ''RSDT'' \<noteq> tohex ''APIC''" by code_simp
  have "filter (\<lambda>t. at_signature t = tohex ''APIC'') (tl (ar_tables madt_report)) = [madt_table]"
    by (simp add: madt_report_def madt_table_def)
  then have m: "selected_madt madt_report [(table_name 8192, madt_data)] (map int madt_words) = Inr (madt_table, madt_data)"
    by (simp add: selected_madt_def madt_table_def file_of_def eval_simps d madt_words_def)
  have v: "\<not> list_ex (\<lambda>v. 2 ^ 64 - 1 < v) (map int madt_words)" "map int madt_words ! 7 = 0"
    by (simp_all add: madt_words_def)
  have f: "final_line ref_P PENDING \<noteq> final_line ref_P ''qotom-native-bsp''" by (simp add: final_line_def)
  show ?thesis
    unfolding extract_bsp_def Let_def bsp_lines_split
    using bsp_line_text(2) v
    by (simp add: i n f bsp_line_match m eval_simps madt_replay_def)
qed

theorem bsp_record_replayed_witness:
  "\<exists>r :: bsp_report. (bp_observation r ! 7 = 0 \<longleftrightarrow> last bsp_lines \<noteq> final_line ref_P ''qotom-native-bsp'') \<and>
    br_check madt_replay madt_data (bsp_arguments (bp_observation r)) = Inr (bsp_expected (bp_observation r))"
proof -
  obtain proj r where r: "extract_bsp madt_replay (Some madt_report) [(table_name 8192, madt_data)] (concat bsp_lines) ref_P =
    Inr (proj, Some r)" using bsp_accepted by blast
  from bsp_record_replayed [OF r] obtain table :: acpi_table and data where
    t: "file_of [(table_name 8192, madt_data)] (at_address table) = Inr data"
      "br_check madt_replay data (bsp_arguments (bp_observation r)) = Inr (bsp_expected (bp_observation r))"
      "bp_observation r ! 7 = 0 \<longleftrightarrow> last (splitlines (concat bsp_lines)) \<noteq> final_line ref_P ''qotom-native-bsp''"
    by blast
  from t(1) have "data = madt_data" by (auto simp: file_of_def split: if_splits)
  with t show ?thesis unfolding bsp_lines_split by blast
qed

end
