(* ===== verification/Errors.thy ===== *)
theory Errors
  imports Handoff Ehci
begin

text \<open>
  Which exceptions a decoder raises.  The runner catches \<^verbatim>\<open>ValueError\<close> and its subclasses; anything
  else ends it.  \<open>value_errors\<close> says that a computation returns or raises \<^verbatim>\<open>ValueError\<close>; its rules
  follow the constructs of the decoders, so a decoder is checked by unfolding it.
\<close>

named_theorems value_rules \<open>computations that raise only ValueError\<close>

definition value_errors :: "'a res \<Rightarrow> bool" where
  "value_errors m \<longleftrightarrow> (\<forall>e. m = Inl e \<longrightarrow> (\<exists>msg. e = ValueError msg))"

lemma value_errors_basic [value_rules]:
  "value_errors (Inr x)" "value_errors (raise msg)" "value_errors (Inl (ValueError msg))"
  "value_errors (some_or msg v)"
  by (auto simp: value_errors_def raise_def some_or_def split: option.splits)

lemma value_errors_raise_if [value_rules]: "(\<not> c \<Longrightarrow> value_errors k) \<Longrightarrow> value_errors (raise_if c msg k)"
  by (auto simp: value_errors_def raise_if_def)

lemma value_errors_bind [value_rules]:
  "value_errors m \<Longrightarrow> (\<And>x. m = Inr x \<Longrightarrow> value_errors (f x)) \<Longrightarrow> value_errors (bind m f)"
  by (auto simp: value_errors_def bind_Inl)

lemma value_errors_if [value_rules]:
  "(c \<Longrightarrow> value_errors m) \<Longrightarrow> (\<not> c \<Longrightarrow> value_errors n) \<Longrightarrow> value_errors (if c then m else n)"
  by simp

lemma value_errors_split [value_rules]:
  "(\<And>a b. p = (a, b) \<Longrightarrow> value_errors (f a b)) \<Longrightarrow> value_errors (case p of (a, b) \<Rightarrow> f a b)"
  by (cases p) simp

lemma value_errors_unpack [value_rules]:
  "(\<And>a b. vs = [a, b] \<Longrightarrow> value_errors (f2 a b)) \<Longrightarrow> value_errors (unpack2 vs f2)"
  "(\<And>a b c. vs = [a, b, c] \<Longrightarrow> value_errors (f3 a b c)) \<Longrightarrow> value_errors (unpack3 vs f3)"
  "(\<And>a b c d. vs = [a, b, c, d] \<Longrightarrow> value_errors (f4 a b c d)) \<Longrightarrow> value_errors (unpack4 vs f4)"
  "(\<And>a b c d e. vs = [a, b, c, d, e] \<Longrightarrow> value_errors (f5 a b c d e)) \<Longrightarrow> value_errors (unpack5 vs f5)"
  "(\<And>a b c d e g. vs = [a, b, c, d, e, g] \<Longrightarrow> value_errors (f6 a b c d e g)) \<Longrightarrow> value_errors (unpack6 vs f6)"
  by (auto simp: value_errors_def unpack2_def unpack3_def unpack4_def unpack5_def unpack6_def split: list.splits)

lemma value_errors_py_int [value_rules]: "value_errors (py_int s)"
  by (auto simp: value_errors_def py_int_def Let_def raise_def raise_if_def split: option.splits)

lemma value_errors_py_ints [value_rules]: "value_errors (py_ints gs)"
  by (induction gs) (auto intro!: value_rules)

lemma value_errors_match_ints [value_rules]: "value_errors (match_ints msg ps line)"
  unfolding match_ints_def by (intro value_rules)

lemma value_errors_run_decoder:
  assumes prev: "\<And>c. value_errors (d_prev d c P)"
    and absent: "\<And>lines p. value_errors (d_absent d P lines p)"
    and scan: "\<And>lines indices. value_errors (d_scan d lines indices)"
    and judge: "\<And>lines indices s proj prior p. d_prev d proj P = Inr (prior, Some p) \<Longrightarrow> d_ready d p \<Longrightarrow>
      value_errors (d_judge d P lines indices s proj prior p)"
  shows "value_errors (run_decoder d raw P)"
  unfolding run_decoder_def Let_def
  by (intro value_rules prev absent scan judge) (auto simp: res_simps)

lemma value_errors_missing_if [value_rules]: "value_errors (missing_if ready reason msg P lines p)"
  unfolding missing_if_def by (intro value_rules)

lemma value_errors_no_scan [value_rules]: "value_errors (no_scan lines indices)"
  unfolding no_scan_def by (intro value_rules)

subsection \<open>Capability lists and AF observations\<close>

lemma value_errors_source_headers [value_rules]: "value_errors (source_headers P lines hs)"
  by (induction P lines hs rule: source_headers.induct) (auto intro!: value_rules)

lemma value_errors_read_list [value_rules]: "value_errors (read_list lines index n slot cursor expected es)"
  by (induction n arbitrary: slot cursor expected es) (auto intro!: value_rules)

lemma value_errors_read_function [value_rules]: "value_errors (read_function lines index words cursor)"
  unfolding read_function_def check_failure_def by (intro value_rules)

lemma value_errors_read_functions [value_rules]: "value_errors (read_functions lines hs index cursor fs)"
  by (induction hs arbitrary: index cursor fs) (auto intro!: value_rules)

lemma value_errors_pci_caps: "value_errors (extract_pci_caps raw P)"
  unfolding extract_pci_caps_def Let_def by (intro value_rules)

lemma value_errors_read_af [value_rules]: "value_errors (read_af lines fs cursor obs)"
proof (induction lines fs cursor obs rule: read_af.induct)
  case (2 lines f fs cursor obs)
  then show ?case
    unfolding read_af.simps af_success_check_def af_failure_check_def Let_def
    by (intro value_rules; auto intro!: value_rules split: list.splits)
qed (auto intro!: value_rules)

lemma value_errors_af: "value_errors (extract_af raw P)"
  unfolding extract_af_def
  by (rule value_errors_run_decoder, unfold af_decoder_def decoder.simps af_judge_def)
    (intro value_rules value_errors_pci_caps)+

subsection \<open>EHCI\<close>

lemma value_errors_ehci_caps: "value_errors (extract_ehci_caps raw P)"
  unfolding extract_ehci_caps_def
  by (rule value_errors_run_decoder, unfold ehci_caps_decoder_def decoder.simps ehci_caps_judge_def ehci_caps_absent_def)
    (intro value_rules value_errors_af)+

lemma value_errors_read_ext [value_rules]: "value_errors (read_ext l E lines n i cursor expected es legacy)"
  by (induction n arbitrary: i cursor expected es legacy) (auto intro!: value_rules)

lemma value_errors_legacy [value_rules]:
  "value_errors (legacy_list l E lines start first count offset control)"
  "value_errors (legacy_absent E reason P lines caps)"
  unfolding legacy_list_def legacy_absent_def by (intro value_rules)+

lemma value_errors_ehci_legacy: "value_errors (extract_ehci_legacy raw P)"
  unfolding extract_ehci_legacy_def
  by (rule value_errors_run_decoder, unfold ehci_legacy_decoder_def decoder.simps ehci_legacy_judge_def Let_def)
    (intro value_rules value_errors_ehci_caps)+

lemma value_errors_status_stage:
  assumes "\<And>c. value_errors (prev c P)"
    and "\<And>lines indices s proj prior p. prev proj P = Inr (prior, Some p) \<Longrightarrow> status_zero p \<Longrightarrow>
      value_errors (judge P lines indices s proj prior p)"
  shows "value_errors (run_decoder (status_stage bounds label reason missing order prev without judge) raw P)"
  using assms by (intro value_errors_run_decoder) (simp_all add: value_rules status_stage_def)

lemma value_errors_ehci_handoff: "value_errors (extract_ehci_handoff raw P)"
  unfolding extract_ehci_handoff_def
proof (rule value_errors_status_stage, rule value_errors_ehci_legacy)
  fix lines indices proj prior p and s :: unit
  assume "extract_ehci_legacy proj P = Inr (prior, Some p)"
  then obtain prior' caps where c: "extract_ehci_caps prior P = Inr (prior', Some caps)"
    unfolding extract_ehci_legacy_def by (rule run_decoder_SomeE) simp
  show "value_errors (ehci_handoff_judge P lines indices s proj prior p)"
    unfolding ehci_handoff_judge_def ehci_writer_binding_def c bind_eval prod.case option.case
    by (intro value_rules)
qed

lemma value_errors_ehci_smi: "value_errors (extract_ehci_smi raw P)"
  unfolding extract_ehci_smi_def
  by (rule value_errors_status_stage, rule value_errors_ehci_handoff, unfold smi_judge_def) (intro value_rules)

lemma value_errors_ehci_operational: "value_errors (extract_ehci_operational raw P)"
  unfolding extract_ehci_operational_def
  by (rule value_errors_status_stage, rule value_errors_ehci_smi, unfold ehci_operational_judge_def Let_def) (intro value_rules)

subsection \<open>The handoff\<close>

lemma value_errors_read_chunks [value_rules]: "value_errors (read_chunks msg label data n position raw)"
  using read_chunks_total [of msg label data n position raw] by (auto simp: value_errors_def)

text \<open>
  The handoff decoder fails only with ValueError, whatever the capture: no conversion of a
  matched field, slice or word access can fail in another way.
\<close>

theorem parse_prefix_errors: "value_errors (parse_prefix data)"
  unfolding parse_prefix_def Let_def by (intro value_rules)

text \<open>
  The decoders from the capability lists up to the operational sample of the USB 2 controller
  fail only with ValueError: in particular the bindings to earlier reports, which subscript a report that
  may be missing, are only reached when it is there.
\<close>

theorem ehci_chain_errors: "value_errors (extract_ehci_operational raw P)"
  by (rule value_errors_ehci_operational)

end
