(* ===== verification/Witnesses.thy ===== *)
theory Witnesses
  imports Reference_Firmware Reference_Logs Errors
begin

text \<open>
  The properties of the stages, the records and the pipeline, applied to the reference capture: every
  hypothesis is discharged by the acceptance lemmas of the reference theories.
\<close>

unbundle bit_operations_syntax

theorem final_commands_cleared_witness:
  "\<exists>proj r. extract_pci_final (rcheck 43 ''qotom-nosmap-pending'') ref_P True = Inr (proj, r) \<and>
     final_device ref_P (rcheck 43 ''qotom-nosmap-pending'') (pf_commands r)"
proof -
  obtain r where r: "extract_pci_final (rcheck 43 ''qotom-nosmap-pending'') ref_P True = Inr (rcap 42, r)"
    using ref_final by blast
  from r final_commands_cleared [OF r] show ?thesis by (intro exI conjI)
qed

theorem pci_caps_exact_witness:
  "\<exists>r kept. extract_pci_caps (rcap 10) ref_P = Inr (rcap 9, Some r) \<and>
     rcap 10 = kept @ concat (concat (map print_function (caps_functions r))) @ final_line ref_P (rep_reason r)"
proof -
  obtain r where r: "extract_pci_caps (rcap 10) ref_P = Inr (rcap 9, Some r)" using ref_caps by blast
  from r pci_caps_exact [OF r] show ?thesis unfolding Let_def by blast
qed

theorem af_matches_capabilities_witness:
  "\<exists>r (caps :: caps_report). extract_af (rcap 11) ref_P = Inr (rcap 10, Some r) \<and> list_all2 af_agrees (caps_functions caps) (af_functions r)"
proof -
  obtain r where r: "extract_af (rcap 11) ref_P = Inr (rcap 10, Some r)" "rep_reason r = PENDING"
    using ref_af by (auto simp: reason_pending_def)
  from r af_matches_capabilities [OF r] show ?thesis by blast
qed

theorem bootstrap_sample_bound_witness:
  "\<exists>r. extract_bootstrap True False (hcap 4) ref_P = Inr (hcap 3, Some r) \<and> bs_available r \<and>
     startswith (splitlines (hcap 4) ! 2) (pr_control ref_P @ '' '') \<and>
     match_ints ''bootstrap record format'' bootstrap_pattern (splitlines (hcap 4) ! 3) = Inr [bs_edx r, 1, bs_apic_base r]"
proof -
  let ?r = "bootstrap_report_of 3219913727 1 4276095232"
  have "bs_available ?r" by (simp add: bootstrap_report_of_def)
  with ref_bootstrap bootstrap_sample_bound [OF ref_bootstrap] show ?thesis
    by (intro exI [of _ ?r]) simp
qed

text \<open>The firmware of \<open>Reference_Firmware\<close> as a reviewed observation directory, whose acpi.json reads as the report.\<close>

definition firmware_file :: "string \<Rightarrow> bytes option" where
  "firmware_file name = (if name = ''cycle-1/acpi.json'' then Some ''report''
     else map_of (map (\<lambda>(n, raw). (''cycle-1/acpi/'' @ n, raw)) (named_files dsdt_tables)) name)"

definition firmware_reviewed :: "acpi_report \<Rightarrow> reviewed_capture" where
  "firmware_reviewed rep =
     \<lparr>rc_read = (\<lambda>name. case firmware_file name of None \<Rightarrow> Inl (KeyError name) | Some raw \<Rightarrow> Inr raw),
      rc_manifest = (\<lambda>name. map_option sha256_hex (firmware_file name)), rc_report = (\<lambda>_. rep)\<rparr>"

lemma firmware_reviewed_matches:
  assumes "ar_tables rep = table_entries 0 dsdt_tables"
  shows "firmware_matches (firmware_reviewed rep) (Some rep) (named_files dsdt_tables) = Inr True"
proof -
  have f: "firmware_file ''cycle-1/acpi.json'' = Some ''report''"
    "firmware_file (''cycle-1/acpi/'' @ table_name 4096) = Some firmware_rsdt"
    "firmware_file (''cycle-1/acpi/'' @ table_name 8192) = Some firmware_fadt"
    "firmware_file (''cycle-1/acpi/'' @ table_name 12288) = Some firmware_dsdt"
    by (simp_all add: firmware_file_def dsdt_tables_def firmware_tables_def firmware_names)
  have p: "pinned (firmware_reviewed rep) name = Inr raw" if "firmware_file name = Some raw" for name raw
    using that by (simp add: pinned_def firmware_reviewed_def eval_simps)
  have files: "file_of (named_files dsdt_tables) 12288 = Inr firmware_dsdt"
    by (simp add: file_of_def dsdt_tables_def firmware_tables_def firmware_names)
  have tables: "map at_address (ar_tables rep) = [4096, 8192, 12288]" "map fst (named_files dsdt_tables) = map table_name [4096, 8192, 12288]"
    unfolding assms table_entries_addresses by (simp_all add: dsdt_tables_def firmware_tables_def)
  then obtain a b c where ts: "ar_tables rep = [a, b, c]" "at_address a = 4096" "at_address b = 8192" "at_address c = 12288"
    by auto
  have "same_report rep rep" by (simp add: same_report_def)
  then show ?thesis
    using tables(2) by (simp add: firmware_matches_def p [OF f(1)] p [OF f(2), simplified] p [OF f(3), simplified] p [OF f(4), simplified] ts files firmware_files
        eval_simps firmware_reviewed_def [THEN arg_cong, of rc_report])
qed

theorem ecam_arm_reviewed_witness:
  "\<exists>rep. extract_acpi (firmware_capture True) firmware_handoff True =
       Inr (''boot'' @ NL @ ''rest'' @ NL, Some rep, named_files dsdt_tables) \<and>
     extract_ecam (firmware_reviewed rep) (Some rep) (named_files dsdt_tables) False (rcap 9) ref_P =
       Inr (hcap 5, Some \<lparr>ec_armed = True, ec_firmware_matches = True, ec_fault = False\<rparr>) \<and>
     map at_address (ar_tables rep) = [0x1000, 0x2000, 0x3000] \<and> splitlines (rcap 9) ! 5 = ARM_LINE \<and>
     (\<forall>t\<in>set (ar_tables rep). \<exists>data. file_of (named_files dsdt_tables) (at_address t) = Inr data \<and>
        rc_manifest (firmware_reviewed rep) (''cycle-1/acpi/'' @ table_name (at_address t)) = Some (sha256_hex data))"
proof -
  obtain rep where r: "extract_acpi (firmware_capture True) firmware_handoff True =
     Inr (''boot'' @ NL @ ''rest'' @ NL, Some rep, named_files dsdt_tables)" "ar_tables rep = table_entries 0 dsdt_tables"
    using firmware_accepted(2) by blast
  note e = ref_ecam_armed [OF firmware_reviewed_matches [OF r(2)]]
  have "rc_report (firmware_reviewed rep) report = rep" for report by (simp add: firmware_reviewed_def)
  then have "splitlines (rcap 9) ! 5 = ARM_LINE" "\<forall>t\<in>set (ar_tables rep). \<exists>data. file_of (named_files dsdt_tables) (at_address t) = Inr data \<and>
      rc_manifest (firmware_reviewed rep) (''cycle-1/acpi/'' @ table_name (at_address t)) = Some (sha256_hex data)"
    using ecam_arm_reviewed [OF e] unfolding Let_def by auto
  moreover have "map at_address (ar_tables rep) = [0x1000, 0x2000, 0x3000]"
    unfolding r(2) table_entries_addresses by (simp add: dsdt_tables_def firmware_tables_def)
  ultimately show ?thesis using r(1) e by (intro exI [of _ rep]) simp
qed

theorem cpu_diagnostic_canonical_witness:
  "\<exists>r. join_lines ref_cpu_text = join_lines (cpu_lines ref_P r) \<and> replayed ref_cpu_run r"
proof -
  obtain r where r: "classify_cpu ref_cpu_run ref_P False False (join_lines ref_cpu_text) = Inr r"
    using ref_classify_cpu by blast
  from cpu_diagnostic_canonical [OF r] show ?thesis by blast
qed

theorem pci_headers_ordered_witness:
  "\<exists>r. classify_pci ref_cpu_run ref_pci_run ref_P True True (hcap 3) = Inr r \<and> headers_ok (pd_headers r)"
proof -
  obtain r where r: "classify_pci ref_cpu_run ref_pci_run ref_P True True (hcap 3) = Inr r" using ref_classify_pci by blast
  from r pci_headers_ordered [OF r] show ?thesis by blast
qed

theorem native_pending_complete_witness:
  "\<exists>r. classify_pci ref_cpu_run ref_pci_run ref_P True True (hcap 3) = Inr r \<and> dg_reason r = PENDING \<and> pd_inventory r = Some 1"
proof -
  obtain r where r: "classify_pci ref_cpu_run ref_pci_run ref_P True True (hcap 3) = Inr r" "dg_reason r = PENDING"
    using ref_classify_pci by blast
  from r native_pending_complete [OF r] show ?thesis by blast
qed

lemma ref_options_accepted: "check_options ref_options True True = Inr ()"
  by (simp add: check_options_def STAGE_REQUIREMENTS_def KERNEL_REQUIREMENTS_def SAMPLE_REQUIREMENTS_def ref_options_def eval_simps)

theorem options_closed_witness:
  "ref_options (ss_option (STAGES ! 30)) \<and> ref_options ''native_kernel'' \<and> \<not> ref_options ''pci_read_trace''"
  using options_closed [OF ref_options_accepted, of 0 30] by (simp add: STAGES_def stage_step_of_def ref_options_def)

lemma ref_stream_reported:
  "\<exists>reports d. classify_stream ref_options ref_cpu_run (Some ref_pci_run) ref_reviewed [] ref_P (Some ref_acpi) [] False
     (rcheck 49 ''qotom-exception-integration-pending'') = Inr (reports, d) \<and>
     (\<exists>x\<in>set (SCOPES ref_options). reported ref_options reports x)"
proof -
  let ?raw = "rcheck 49 ''qotom-exception-integration-pending''"
  let ?x = "(''entry_integration'', ''entry_integration'', ''qotom-closed-root-cpl3-entry-and-return'')"
  obtain reports d where c: "classify_stream ref_options ref_cpu_run (Some ref_pci_run) ref_reviewed [] ref_P (Some ref_acpi) [] False
     ?raw = Inr (reports, d)" using ref_classify_stream by blast
  from c have "reported ref_options reports ?x"
  proof (rule classify_stream_inv)
    fix raw1 entry raw2 copy raw3 nosmap raw4 final raw5 stages raw6 d0
    assume i: "run_integration ref_options ref_P [] ?raw = Inr (raw1, entry)"
      and s: "run_stages ref_options ref_P STAGES raw4 [] = Inr (raw5, stages)"
      and r: "reports = stages @ [(''entry_integration'', map_option observation.truncate entry),
        (''copy_root_publication'', map_option observation.truncate copy), (''nosmap_control'', nosmap), (''pci_final'', final)]"
    from i obtain e where "entry = Some e"
      by (auto simp: run_integration_def ref_options_def res_simps)
    then show ?thesis
      using above_lookup(1) [OF stage_report_keys [OF s] r] by (simp add: reported_def ref_options_def)
  qed
  moreover have "?x \<in> set (SCOPES ref_options)" by (simp add: SCOPES_def)
  ultimately show ?thesis using c by blast
qed

theorem reason_of_last_line_witness:
  "\<exists>reports d. classify_stream ref_options ref_cpu_run (Some ref_pci_run) ref_reviewed [] ref_P (Some ref_acpi) [] False
     (rcheck 49 ''qotom-exception-integration-pending'') = Inr (reports, d) \<and>
     last (splitlines (rcheck 49 ''qotom-exception-integration-pending'')) = final_line ref_P (ld_reason d)"
proof -
  obtain reports d where c: "classify_stream ref_options ref_cpu_run (Some ref_pci_run) ref_reviewed [] ref_P (Some ref_acpi) [] False
     (rcheck 49 ''qotom-exception-integration-pending'') = Inr (reports, d)"
    "\<exists>x\<in>set (SCOPES ref_options). reported ref_options reports x" using ref_stream_reported by blast
  have "\<not> ref_options ''exception_integration''" "\<not> ref_options ''blocking_ipc_integration''" by (simp_all add: ref_options_def)
  with c reason_of_last_line [OF c(1)] show ?thesis by auto
qed

theorem nosmap_sets_smep_alone_witness:
  "\<exists>r. extract_nosmap (rcheck 44 ''qotom-copy-roots-pending'') ref_P = Inr (rcheck 43 ''qotom-nosmap-pending'', r) \<and>
     bit (ns_after r) 20 \<and> \<not> bit (ns_before r) 20"
proof -
  obtain r where r: "extract_nosmap (rcheck 44 ''qotom-copy-roots-pending'') ref_P = Inr (rcheck 43 ''qotom-nosmap-pending'', r)"
    using ref_nosmap by blast
  with nosmap_sets_smep_alone [OF r] show ?thesis by blast
qed

theorem copy_roots_bounded_witness:
  "\<exists>r. extract_copy_root (rcheck 45 ''qotom-entry-integration-pending'') ref_P ''base'' =
      Inr (rcheck 44 ''qotom-copy-roots-pending'', r) \<and> cr_copy_root r \<noteq> cr_closed_root r \<and> 4096 dvd cr_copy_root r"
proof -
  obtain r where r: "extract_copy_root (rcheck 45 ''qotom-entry-integration-pending'') ref_P ''base'' =
      Inr (rcheck 44 ''qotom-copy-roots-pending'', r)" using ref_copy_root by blast
  with copy_roots_bounded [OF r] show ?thesis by blast
qed

theorem ehci_smi_disabled_witness:
  "\<exists>r :: control_report. extract_ehci_smi (rcap 16) ref_P = Inr (rcap 15, Some r) \<and> ctl_after r AND EHCI_ENABLE = 0"
proof -
  obtain r where r: "extract_ehci_smi (rcap 16) ref_P = Inr (rcap 15, Some r)" "rep_status r = 0" using ref_ehci_smi by blast
  with ehci_smi_disabled [OF r] show ?thesis by blast
qed

theorem xhci_legacy_walk_witness:
  "\<exists>r :: legacy_report. extract_xhci_legacy (rcap 21) ref_P = Inr (rcap 19, Some r) \<and> distinct (map ce_offset (leg_headers r)) \<and>
     length (leg_headers r) \<le> 48"
proof -
  obtain r where r: "extract_xhci_legacy (rcap 21) ref_P = Inr (rcap 19, Some r)" "rep_status r = 0" using ref_xhci_legacy by blast
  with xhci_legacy_walk [OF r] show ?thesis by blast
qed

theorem d3_rejects_pending_failure_witness:
  "\<exists>p. extract_pcie_pending (rcap 38) ref_P = Inr (rcap 37, Some p) \<and> pending_all_quiet p"
proof -
  obtain r where r: "extract_broadcom_d3 (rcap 39) ref_P = Inr (rcap 38, Some r)" using ref_broadcom_d3 by blast
  obtain p where p: "extract_pcie_pending (rcap 38) ref_P = Inr (rcap 37, Some p)" using ref_pcie_pending by blast
  from d3_rejects_pending_failure [OF r p] p show ?thesis by blast
qed

theorem graphics_sample_blocks_witness:
  "\<exists>p. extract_graphics_state (rcap 40) ref_P = Inr (rcap 39, Some p) \<and> graphics_quiet p"
proof -
  obtain r where r: "extract_graphics_bme (rcap 41) ref_P = Inr (rcap 40, Some r)" using ref_graphics_bme by blast
  obtain p where p: "extract_graphics_state (rcap 40) ref_P = Inr (rcap 39, Some p)" "rep_status p = 0"
    using ref_graphics_state by (auto simp: graphics_quiet_def)
  from graphics_sample_blocks [OF r p] p show ?thesis by blast
qed

theorem stage_reason_is_last_line_witness:
  "\<exists>ob. ss_decode (STAGES ! 29) (rcap 11) ref_P = Inr (rcap 10, Some ob) \<and>
     last (splitlines (rcap 11)) = final_line ref_P (rep_reason ob)"
proof -
  obtain r where "extract_af (rcap 11) ref_P = Inr (rcap 10, Some r)" using ref_af by blast
  then obtain ob where d: "ss_decode (STAGES ! 29) (rcap 11) ref_P = Inr (rcap 10, Some ob)"
    by (simp add: STAGES_def stage_step_of_def observe_def eval_simps)
  have "STAGES ! 29 \<in> set STAGES" by (simp add: STAGES_def)
  from d stage_reason_is_last_line [OF this d] show ?thesis by auto
qed

theorem samples_only_deleted_witness: "subseq (hcap 3) (rcap 9)"
  using samples_only_deleted [OF ref_samples] by blast

theorem handoff_bounds_witness:
  "\<exists>rep :: handoff_report. h_length rep = 0 \<and> 8 * length (h_tags rep) \<le> 0"
proof -
  have "handoff_ok 1 7 4096 0 []" by (simp add: handoff_ok_def)
  from handoff_accepts [OF this refl, of "''rest''"] obtain pos rep where
    "parse_prefix (print_handoff [1, 7, 4096, 0, 0] [] @ ''rest'') = Inr (pos, [], rep)" by auto
  from handoff_bounds [OF this] show ?thesis by (intro exI [of _ rep]) simp
qed

theorem parse_words_exact_witness:
  "parse_words (words_text ''LEANOS/25 CONTROL'' 8 ''readback'' ref_msr_words 1) ''LEANOS/25 CONTROL'' 8 ''readback'' =
     Inr (ref_msr_words, 1)"
  using parse_words_exact [of _ "''LEANOS/25 CONTROL''" 7 "''readback''" ref_msr_words 1]
  by (simp add: ref_msr_words_def)

end
