(* ===== verification/Py_Search.thy ===== *)
theory Py_Search
  imports Py_Regex
begin

text \<open>
  Searching a capture with regular expressions: \<^verbatim>\<open>re.finditer\<close>, \<^verbatim>\<open>re.findall\<close> and \<^verbatim>\<open>re.search\<close> of the
  run classifiers.  A \<open>matcher\<close> is an expression anchored at the head of a text; the search scans the
  text from the left and continues after each match, so matches do not overlap.  Every expression of
  the program matches at least one byte.  The second part models the expressions themselves, as
  sequences of the record items and of runs of a character class.
\<close>

type_synonym matcher = "bytes \<Rightarrow> (bytes list \<times> bytes) option"
type_synonym found = "nat \<times> nat \<times> bytes list"   \<comment> \<open>start, end and groups of a match\<close>

abbreviation mstart :: "found \<Rightarrow> nat" where "mstart m \<equiv> fst m"
abbreviation mend :: "found \<Rightarrow> nat" where "mend m \<equiv> fst (snd m)"
abbreviation mgroups :: "found \<Rightarrow> bytes list" where "mgroups m \<equiv> snd (snd m)"

fun search_from :: "matcher \<Rightarrow> bytes \<Rightarrow> nat \<Rightarrow> nat \<Rightarrow> found list" where
  \<comment> \<open>position of the text, and the bytes of the last match still to be skipped\<close>
  "search_from m [] pos skip = []"
| "search_from m (c # cs) pos (Suc skip) = search_from m cs (Suc pos) skip"
| "search_from m (c # cs) pos 0 =
     (case m (c # cs) of
        None \<Rightarrow> search_from m cs (Suc pos) 0
      | Some (gs, rest) \<Rightarrow>
          let n = length (c # cs) - length rest in
          (pos, pos + n, gs) # search_from m cs (Suc pos) (n - 1))"

definition finditer :: "matcher \<Rightarrow> bytes \<Rightarrow> found list" where
  "finditer m data = search_from m data 0 0"

definition search :: "matcher \<Rightarrow> bytes \<Rightarrow> found option" where
  "search m data = (case finditer m data of [] \<Rightarrow> None | f # _ \<Rightarrow> Some f)"

definition at_text :: "bytes \<Rightarrow> matcher" where
  \<comment> \<open>a fixed text\<close>
  "at_text l s = (if startswith s l then Some ([], drop (length l) s) else None)"

subsection \<open>Expressions\<close>

datatype part =
    Item item
  | Some1 "char \<Rightarrow> bool"    \<comment> \<open>\<^verbatim>\<open>([class]+)\<close>\<close>
  | Skip1 "char \<Rightarrow> bool"    \<comment> \<open>\<^verbatim>\<open>[class]+\<close>\<close>
  | Char_In "char \<Rightarrow> bool"  \<comment> \<open>\<^verbatim>\<open>[class]\<close>\<close>
  | Maybe char                \<comment> \<open>\<^verbatim>\<open>c?\<close>\<close>
  | Alt "bytes list"          \<comment> \<open>\<^verbatim>\<open>(a|b)\<close>, of texts none of which begins another\<close>
  | Optional "part list"      \<comment> \<open>\<^verbatim>\<open>(?:...)?\<close>; absent groups are left out\<close>
  | Rest_Of_Line              \<comment> \<open>\<^verbatim>\<open>([^\r\n]*)\n\<close>\<close>
  | Until_Eol bytes           \<comment> \<open>\<^verbatim>\<open>[^\r\n]*text\n\<close>, for a text without line breaks\<close>
  | Dotted4                   \<comment> \<open>\<^verbatim>\<open>([0-9]{1,3}(?:\.[0-9]{1,3}){3})\<close>\<close>

abbreviation L :: "bytes \<Rightarrow> part" where "L t \<equiv> Item (Lit t)"
abbreviation DIGITS :: part where "DIGITS \<equiv> Item (DigitList 0)"
abbreviation CHAR_NL :: part where "CHAR_NL \<equiv> Item (Lit NL)"

definition is_break :: "char \<Rightarrow> bool" where
  "is_break c \<longleftrightarrow> c = CR \<or> c = LF"

fun octets :: "nat \<Rightarrow> matcher" where
  \<comment> \<open>one octet and k more of them after dots\<close>
  "octets k s =
     (let d = takeWhile is_digit s; r = dropWhile is_digit s in
      if d = [] \<or> 3 < length d then None
      else (case k of 0 \<Rightarrow> Some ([d], r)
        | Suc k \<Rightarrow> (case r of [] \<Rightarrow> None
           | c # r \<Rightarrow> if c = CHR ''.'' then
               (case octets k r of Some ([t], r) \<Rightarrow> Some ([d @ CHR ''.'' # t], r) | _ \<Rightarrow> None)
             else None)))"

definition scan_run :: "(char \<Rightarrow> bool) \<Rightarrow> bytes \<Rightarrow> (bytes \<times> bytes) option" where
  "scan_run P s = (if takeWhile P s = [] then None else Some (takeWhile P s, dropWhile P s))"

fun scan_part :: "part \<Rightarrow> matcher"
  and match_parts :: "part list \<Rightarrow> matcher" where
  "scan_part (Item p) s = map_option (\<lambda>(t, r). (if is_lit p then [] else [t], r)) (scan_item p s)"
| "scan_part (Some1 P) s = map_option (\<lambda>(t, r). ([t], r)) (scan_run P s)"
| "scan_part (Skip1 P) s = map_option (\<lambda>(t, r). ([], r)) (scan_run P s)"
| "scan_part (Char_In P) s = (case s of [] \<Rightarrow> None | c # r \<Rightarrow> if P c then Some ([], r) else None)"
| "scan_part (Maybe c) s = Some ([], case s of [] \<Rightarrow> [] | d # r \<Rightarrow> if d = c then r else s)"
| "scan_part (Alt ts) s =
     map_option (\<lambda>t. ([t], drop (length t) s)) (find (\<lambda>t. startswith s t) ts)"
| "scan_part (Optional ps) s = (case match_parts ps s of None \<Rightarrow> Some ([], s) | Some f \<Rightarrow> Some f)"
| "scan_part Rest_Of_Line s =
     (case dropWhile (\<lambda>c. \<not> is_break c) s of [] \<Rightarrow> None
      | c # r \<Rightarrow> if c = LF then Some ([takeWhile (\<lambda>c. \<not> is_break c) s], r) else None)"
| "scan_part (Until_Eol t) s =
     (case dropWhile (\<lambda>c. \<not> is_break c) s of [] \<Rightarrow> None
      | c # r \<Rightarrow> if c = LF \<and> endswith (takeWhile (\<lambda>c. \<not> is_break c) s) t then Some ([], r) else None)"
| "scan_part Dotted4 s = octets 3 s"
| "match_parts [] s = Some ([], s)"
| "match_parts (p # ps) s =
     (case scan_part p s of None \<Rightarrow> None
      | Some (gs, r) \<Rightarrow> map_option (\<lambda>(hs, r'). (gs @ hs, r')) (match_parts ps r))"

text \<open>
  Each part is matched greedily, without going back.  That is what the expressions of the program denote:
  a run or an optional part is followed by a text that begins with a character the run excludes or that
  the optional part does not begin with.
\<close>

definition fullmatch_parts :: "part list \<Rightarrow> bytes \<Rightarrow> bytes list option" where
  "fullmatch_parts ps s = (case match_parts ps s of Some (gs, []) \<Rightarrow> Some gs | _ \<Rightarrow> None)"

section \<open>What a search finds\<close>

lemma search_from_skip: "search_from m s pos skip = search_from m (drop skip s) (pos + min skip (length s)) 0"
proof (induction skip arbitrary: s pos)
  case (Suc skip)
  show ?case by (cases s) (simp_all add: Suc)
qed simp

lemma search_from_found:
  "(a, b, gs) \<in> set (search_from m s pos 0) \<Longrightarrow>
     \<exists>rest. m (drop (a - pos) s) = Some (gs, rest) \<and> pos \<le> a \<and> a - pos < length s \<and>
       b = a + (length s - (a - pos) - length rest)"
proof (induction "length s" arbitrary: s pos rule: less_induct)
  case less
  show ?case
  proof (cases s)
    case Nil
    with less.prems show ?thesis by simp
  next
    case (Cons c cs)
    have later: ?thesis if "(a, b, gs) \<in> set (search_from m cs (Suc pos) skip)" for skip
    proof -
      let ?k = "min skip (length cs)"
      from that have "(a, b, gs) \<in> set (search_from m (drop skip cs) (Suc pos + ?k) 0)"
        by (subst (asm) search_from_skip)
      moreover have "length (drop skip cs) < length s" using Cons by simp
      ultimately obtain rest where r: "m (drop (a - (Suc pos + ?k)) (drop skip cs)) = Some (gs, rest)"
        "Suc pos + ?k \<le> a" "a - (Suc pos + ?k) < length (drop skip cs)"
        "b = a + (length (drop skip cs) - (a - (Suc pos + ?k)) - length rest)"
        using less.hyps by blast
      then have k: "skip < length cs" "?k = skip" by simp_all
      with r(2) have e: "a - pos = Suc (a - (Suc pos + skip) + skip)" by simp
      have "drop (a - pos) s = drop (a - (Suc pos + skip)) (drop skip cs)" unfolding e Cons by simp
      moreover have "length (drop skip cs) - (a - (Suc pos + skip)) = length s - (a - pos)"
        unfolding e Cons by simp
      ultimately show ?thesis using r k Cons by (intro exI [of _ rest]) simp
    qed
    show ?thesis
    proof (cases "m (c # cs)")
      case None
      with less.prems Cons have "(a, b, gs) \<in> set (search_from m cs (Suc pos) 0)" by simp
      then show ?thesis by (rule later)
    next
      case (Some q)
      obtain hs rest where q: "q = (hs, rest)" by (cases q)
      let ?n = "length (c # cs) - length rest"
      have "search_from m s pos 0 = (pos, pos + ?n, hs) # search_from m cs (Suc pos) (?n - 1)"
        using Some Cons q by (simp add: Let_def)
      with less.prems have "(a, b, gs) = (pos, pos + ?n, hs) \<or> (a, b, gs) \<in> set (search_from m cs (Suc pos) (?n - 1))"
        by simp
      then show ?thesis
      proof
        assume "(a, b, gs) = (pos, pos + ?n, hs)"
        then show ?thesis using Some Cons q by (intro exI [of _ rest]) simp
      qed (rule later)
    qed
  qed
qed

lemma finditer_found:
  "(a, b, gs) \<in> set (finditer m data) \<Longrightarrow>
     \<exists>rest. m (drop a data) = Some (gs, rest) \<and> a < length data \<and> b = a + (length data - a - length rest)"
  unfolding finditer_def by (drule search_from_found) auto

text \<open>The matches are in order and do not overlap.\<close>

lemma search_from_start: "f \<in> set (search_from m s pos skip) \<Longrightarrow> pos + skip \<le> mstart f"
proof (induction m s pos skip rule: search_from.induct)
  case (3 m c cs pos)
  then show ?case by (fastforce simp: Let_def split: option.splits)
qed auto

lemma search_from_ordered: "sorted_wrt (\<lambda>f g. mend f \<le> mstart g) (search_from m s pos skip)"
proof (induction m s pos skip rule: search_from.induct)
  case (3 m c cs pos)
  then show ?case by (auto simp: Let_def dest: search_from_start split: option.splits)
qed auto

lemma search_from_forward: "f \<in> set (search_from m s pos skip) \<Longrightarrow> mstart f \<le> mend f"
proof (induction m s pos skip rule: search_from.induct)
  case (3 m c cs pos)
  then show ?case by (fastforce simp: Let_def split: option.splits)
qed auto

lemma finditer_ordered: "sorted_wrt (\<lambda>f g. mend f \<le> mstart g) (finditer m data)"
  unfolding finditer_def by (rule search_from_ordered)

lemma finditer_sorted: "sorted (map mstart (finditer m data))"
proof -
  have "sorted_wrt (\<lambda>f g. mstart f \<le> mstart g) (finditer m data)"
    by (rule sorted_wrt_mono_rel [OF _ finditer_ordered])
      (metis finditer_def le_trans search_from_forward)
  then show ?thesis by (simp add: sorted_wrt_map)
qed

text \<open>The matches of a fixed text are the occurrences that \<^verbatim>\<open>count\<close> counts.\<close>

lemma search_from_text: "l \<noteq> [] \<Longrightarrow> length (search_from (at_text l) s pos 0) = bytes_count l s"
proof (induction "length s" arbitrary: s pos rule: less_induct)
  case less
  show ?case
  proof (cases s)
    case Nil
    then show ?thesis by (subst bytes_count.simps) simp
  next
    case (Cons c cs)
    let ?k = "length l - 1"
    have d: "drop (length l) s = drop ?k cs" using Cons less.prems by (cases l) auto
    have "length (search_from (at_text l) cs (Suc pos) ?k) = bytes_count l (drop (length l) s)"
      using less Cons d by (subst search_from_skip) simp
    moreover have "length (search_from (at_text l) cs (Suc pos) 0) = bytes_count l cs" using less Cons by simp
    moreover have "length s - length (drop (length l) s) = length l" if "startswith s l"
      using that by (auto simp: startswith_iff)
    ultimately show ?thesis using Cons less.prems
      by (subst bytes_count.simps) (auto simp: at_text_def Let_def)
  qed
qed

lemma finditer_text: "l \<noteq> [] \<Longrightarrow> length (finditer (at_text l) data) = bytes_count l data"
  unfolding finditer_def by (rule search_from_text)

end
