(* ===== verification/Watchdog.thy ===== *)
theory Watchdog
  imports Capture_Log Py_Search
begin

text \<open>
  The watchdog trials of \<^verbatim>\<open>scripts/run-qotom-recovery-lab.py\<close>: \<^verbatim>\<open>classify_watchdog\<close> (a loader or an
  early kernel that stalls and is reset) and \<^verbatim>\<open>classify_watchdog_kicks\<close> (the reloads of a long
  session).  Times are exact rationals, as in Capture_Log; the first function is modelled on logs whose
  times are finite numbers, which it does not check.
\<close>

subsection \<open>Loads of an image\<close>

definition load_spaces :: "char \<Rightarrow> bool" where
  "load_spaces c \<longleftrightarrow> c = CHR '' '' \<or> is_eol c"

definition wrapped_load :: "bytes \<Rightarrow> bytes \<Rightarrow> matcher" where
  \<comment> \<open>a load record whose digest may be wrapped, with a line break after it that is not consumed\<close>
  "wrapped_load mark digest s =
     (case match_parts [L mark, Skip1 load_spaces, L ''sha256=''] s of
        None \<Rightarrow> None
      | Some (_, t) \<Rightarrow>
          (case match_wrapped digest t of
             Some (c # cs) \<Rightarrow> if is_eol c then Some ([], c # cs) else None
           | _ \<Rightarrow> None))"

subsection \<open>Recovery of a stalled loader or kernel\<close>

type_synonym timed_log = "(rat \<times> bytes) list"

definition timed_bytes :: "timed_log \<Rightarrow> bytes" where
  "timed_bytes entries = concat (map snd entries)"

definition goes_back :: "timed_log \<Rightarrow> bool" where
  "goes_back entries \<longleftrightarrow> list_ex (\<lambda>(a, b). fst b < fst a) (zip entries (tl entries))"

fun finished_at :: "nat \<Rightarrow> timed_log \<Rightarrow> nat \<Rightarrow> rat res" where
  \<comment> \<open>\<^verbatim>\<open>completed_at\<close>: the time of the event that brought the byte before \<open>stop\<close>\<close>
  "finished_at stop [] offset = raise ''incomplete watchdog marker''"
| "finished_at stop ((t, chunk) # entries) offset =
     (let offset = offset + length chunk in
      if stop \<le> offset then Inr t else finished_at stop entries offset)"

definition mark_finished :: "bytes \<Rightarrow> timed_log \<Rightarrow> rat res" where
  "mark_finished mark entries =
     finished_at (nat (find_pos mark (timed_bytes entries) + int (length mark))) entries 0"

fun hang_scan :: "nat \<Rightarrow> timed_log \<Rightarrow> nat \<Rightarrow> rat option \<Rightarrow> rat option \<Rightarrow> (rat option \<times> rat option) res" where
  "hang_scan stop [] offset hang_time next_time = Inr (hang_time, next_time)"
| "hang_scan stop ((t, chunk) # entries) offset hang_time next_time =
     (let following = offset + length chunk in
      if offset < stop \<and> stop \<le> following then
        raise_if (following \<noteq> stop) ''extra bytes immediately after kernel hang marker''
          (hang_scan stop entries following (Some t) next_time)
      else if stop \<le> offset \<and> next_time = None then hang_scan stop entries following hang_time (Some t)
      else hang_scan stop entries following hang_time next_time)"

definition EXPIRED_MARK :: bytes where
  "EXPIRED_MARK = ''LEANOS-LAB/1 WATCHDOG-WINDOW expired-or-invalid=1 fallback=freebsd''"
definition HANG_MARK :: bytes where
  "HANG_MARK = ''LEANOS-LAB/1 KERNEL-HANG stage=before-boot-record interrupts=disabled'' @ NL"

definition recovery_mark :: "bytes \<Rightarrow> bytes" where
  "recovery_mark data = (if bytes_in EXPIRED_MARK data then EXPIRED_MARK else DEFAULT_MARK)"

definition stall_trace :: "bytes \<Rightarrow> bool" where
  \<comment> \<open>the negation of the first test\<close>
  "stall_trace data \<longleftrightarrow>
     list_all (\<lambda>m. bytes_count m data = 1) [WINDOW_MARK, ARMED_MARK, recovery_mark data, CHAIN_MARK] \<and>
     bytes_count EXPIRED_MARK data + bytes_count DEFAULT_MARK data = 1 \<and>
     find_pos WINDOW_MARK data < find_pos ARMED_MARK data \<and>
     find_pos ARMED_MARK data < find_pos (recovery_mark data) data \<and>
     find_pos (recovery_mark data) data < find_pos CHAIN_MARK data \<and>
     list_all (\<lambda>m. \<not> bytes_in m data)
       [''WATCHDOG-NO-RESET'', ''WATCHDOG-STOP-FAILED'', ''WATCHDOG-ARM-REJECTED'', ''LEANOS/'']"

record stall_result =
  st_scenario :: string
  st_delay :: rat
  st_loader_recovery :: bool
  st_guard :: string
  st_kernel_recovery :: bool
  st_sha256 :: string
  st_kernel_sha256 :: "bytes option"
  st_kernel_quiet :: "rat option"

definition digest_ok :: "bytes \<Rightarrow> bool" where
  "digest_ok digest \<longleftrightarrow> length digest = 64 \<and> list_all is_hex digest"

definition KERNEL_LOAD :: bytes where "KERNEL_LOAD = ''LEANOS-LAB/1 WATCHDOG-KERNEL-LOAD''"

definition hang_trace :: "bytes \<Rightarrow> bytes \<Rightarrow> bool" where
  "hang_trace digest data \<longleftrightarrow>
     (case search (wrapped_load KERNEL_LOAD digest) data of None \<Rightarrow> False
      | Some load \<Rightarrow>
          bytes_count HANG_MARK data = 1 \<and> bytes_count ''WATCHDOG-KERNEL-LOAD'' data = 1 \<and>
          \<not> bytes_in ''WATCHDOG-LOAD-FAILED'' data \<and>
          find_pos ARMED_MARK data < int (mstart load) \<and> mstart load < mend load \<and>
          int (mend load) \<le> find_pos HANG_MARK data \<and>
          find_pos HANG_MARK data < find_pos (recovery_mark data) data)"

definition classify_hang :: "timed_log \<Rightarrow> bytes \<Rightarrow> stall_result \<Rightarrow> stall_result res" where
  \<comment> \<open>the branch for a given kernel digest\<close>
  "classify_hang entries digest result =
     (let data = timed_bytes entries in
      raise_if (\<not> digest_ok digest) ''invalid expected kernel digest''
      (raise_if (\<not> hang_trace digest data) ''missing, changed, or repeated kernel hang/load marker''
      (bind (hang_scan (nat (find_pos HANG_MARK data + int (length HANG_MARK))) entries 0 None None) (\<lambda>(hang, next).
       case (hang, next) of
         (Some h, Some n) \<Rightarrow>
           raise_if (n - h < 90) ''insufficient quiet after the early-kernel hang''
           (Inr (result\<lparr>st_scenario := ''watchdog-early-kernel-stall'', st_kernel_recovery := True,
              st_loader_recovery := False, st_kernel_sha256 := Some digest, st_kernel_quiet := Some (n - h)\<rparr>))
       | _ \<Rightarrow> raise ''insufficient quiet after the early-kernel hang''))))"

definition classify_watchdog :: "timed_log \<Rightarrow> bytes option \<Rightarrow> stall_result res" where
  "classify_watchdog entries kernel_digest =
     raise_if (goes_back entries) ''nonmonotonic capture timestamps''
     (let data = timed_bytes entries in
      raise_if (\<not> stall_trace data) ''missing, repeated, or failed watchdog reset/expiry trace''
      (bind (mark_finished (recovery_mark data) entries) (\<lambda>recovered.
       bind (mark_finished ARMED_MARK entries) (\<lambda>armed.
       let delay = recovered - armed in
       raise_if (\<not> (110 \<le> delay \<and> delay \<le> 170)) ''watchdog recovery outside the expected reset interval''
       (let result = \<lparr>st_scenario = ''watchdog-loader-stall'', st_delay = delay, st_loader_recovery = True,
              st_guard = (if recovery_mark data = EXPIRED_MARK then ''expired-token'' else ''consumed-request''),
              st_kernel_recovery = False, st_sha256 = sha256_hex data, st_kernel_sha256 = None,
              st_kernel_quiet = None\<rparr> in
        case kernel_digest of
          Some digest \<Rightarrow> classify_hang entries digest result
        | None \<Rightarrow> raise_if (bytes_in ''KERNEL-HANG'' data \<or> bytes_in ''WATCHDOG-KERNEL-LOAD'' data)
            ''kernel launch in a loader-only trial'' (Inr result))))))"

subsection \<open>Reloads of a long session\<close>

fun event_starts :: "event list \<Rightarrow> nat \<Rightarrow> (nat \<times> rat) list" where
  \<comment> \<open>\<^verbatim>\<open>starts\<close>: where each event begins in the log, and its time\<close>
  "event_starts [] offset = []"
| "event_starts (e # es) offset = (offset, log_time e) # event_starts es (offset + length (ev_data e))"

fun last_start :: "(nat \<times> rat) list \<Rightarrow> nat \<Rightarrow> rat \<Rightarrow> rat" where
  "last_start [] position elapsed = elapsed"
| "last_start ((start, t) # starts) position elapsed =
     (if position < start then elapsed else last_start starts position t)"

definition time_at :: "event list \<Rightarrow> nat \<Rightarrow> rat" where
  \<comment> \<open>the initial \<^verbatim>\<open>None\<close> is returned for an empty log only, in which no mark is found\<close>
  "time_at events position = last_start (event_starts events 0) position 0"

definition kick_record :: matcher where
  "kick_record = match_parts [L ''LEANOS-LAB/1 WATCHDOG-KICK n='', DIGITS, L '' budget='', DIGITS, L '' '']"

definition kick_stopped :: matcher where
  "kick_stopped = match_parts [L ''LEANOS-LAB/1 WATCHDOG-KICK stopped reason='', DIGITS]"

fun budget_differs :: "int \<Rightarrow> found list \<Rightarrow> bool res" where
  \<comment> \<open>\<^verbatim>\<open>any(int(m.group(2)) != budget for m in kicks)\<close>\<close>
  "budget_differs budget [] = Inr False"
| "budget_differs budget (m # ms) =
     bind (py_int (mgroups m ! 1)) (\<lambda>n. if n \<noteq> budget then Inr True else budget_differs budget ms)"

definition gaps :: "rat list \<Rightarrow> rat list" where
  "gaps instants = map (\<lambda>(a, b). b - a) (zip instants (tl instants))"

definition kick_times :: "event list \<Rightarrow> nat \<Rightarrow> found list \<Rightarrow> rat list" where
  "kick_times events armed kicks = time_at events armed # map (\<lambda>m. time_at events (mstart m)) kicks"

definition last_end :: "found list \<Rightarrow> nat" where
  "last_end kicks = (if kicks = [] then 0 else mend (last kicks))"

definition longest :: "rat list \<Rightarrow> rat" where
  \<comment> \<open>\<^verbatim>\<open>max(gaps, default=0.0)\<close>\<close>
  "longest gs = (case gs of [] \<Rightarrow> 0 | g # gs \<Rightarrow> fold max gs g)"

definition session_end :: matcher where
  \<comment> \<open>\<^verbatim>\<open> watchdog-kicks=([0-9]+)(?: session-end=(window|budget) unsent-replies=([01]))?[\r\n]\<close>\<close>
  "session_end = match_parts [L '' watchdog-kicks='', DIGITS,
     Optional [L '' session-end='', Alt [''window'', ''budget''], L '' unsent-replies='', Item (OneOf ''01'')],
     Char_In is_eol]"

fun session_tail :: matcher where
  \<comment> \<open>\<^verbatim>\<open>[^\r\n]*?\<close> before it\<close>
  "session_tail s =
     (case session_end s of Some f \<Rightarrow> Some f
      | None \<Rightarrow> (case s of [] \<Rightarrow> None | c # cs \<Rightarrow> if is_eol c then None else session_tail cs))"

declare session_tail.simps [simp del]

definition session_final :: matcher where
  "session_final s =
     (case at_text ''FINAL status=PASS dhcp-subject=1 '' s of None \<Rightarrow> None | Some (_, r) \<Rightarrow> session_tail r)"

definition BUDGET_END :: bytes where
  "BUDGET_END = ''LEANOS-LAB/1 WATCHDOG-KICK session-end reason=budget ''"

record kick_report =
  kr_kicks :: nat
  kr_budget :: int
  kr_longest :: rat
  kr_protected :: rat
  kr_recovery :: rat
  kr_stopped :: "int option"
  kr_outcome :: string
  kr_session_end :: "string option"
  kr_unsent :: "int option"
  kr_error :: "string option"

definition kick_outcome ::
  "found list \<Rightarrow> found list \<Rightarrow> nat \<Rightarrow> nat \<Rightarrow> found option \<Rightarrow> kick_report \<Rightarrow> kick_report res" where
  \<comment> \<open>the outcome of the session, from the FINAL and budget-end records\<close>
  "kick_outcome kicks finals budget_end chain stopped result =
     raise_if (1 < length finals \<or> 1 < budget_end) ''repeated session FINAL or budget end''
     (case finals of
        final # _ \<Rightarrow>
          bind (py_int (mgroups final ! 0)) (\<lambda>n.
          raise_if (n \<noteq> int (length kicks)) ''FINAL reload count differs from the reloads''
          (raise_if (kicks \<noteq> [] \<and> mstart final < mend (last kicks)) ''watchdog reload after FINAL''
          (raise_if (chain < mstart final) ''FINAL after the chain''
          (raise_if (length (mgroups final) = 3 \<and> kr_stopped result = Some 2 \<and>
              (case stopped of Some m \<Rightarrow> mstart m < mstart final | None \<Rightarrow> False))
            ''spent-budget refusal before a budget-aware FINAL''
          (let ended = (if length (mgroups final) = 3 then mgroups final ! 1 else ''window'') in
           raise_if ((ended = ''budget'') \<noteq> (budget_end = 1)) ''budget end record and FINAL disagree''
           (raise_if (ended = ''budget'' \<and> int (length kicks) \<noteq> kr_budget result)
              ''session ended at its budget before the budget was spent''
           (Inr (result\<lparr>kr_outcome := ''final-'' @ ended, kr_session_end := Some ended,
              kr_unsent := (if length (mgroups final) = 3 then Some (dec_value (mgroups final ! 2)) else None)\<rparr>))))))))
      | [] \<Rightarrow>
          raise_if (0 < budget_end) ''budget end record without FINAL''
          (if int (length kicks) = kr_budget result \<or> kr_stopped result = Some 2 then
             Inr (result\<lparr>kr_outcome := ''budget-exhausted-before-final'', kr_error := Some ''budget exhausted before FINAL''\<rparr>)
           else Inr (result\<lparr>kr_outcome := ''no-final'', kr_error := Some ''no FINAL before the watchdog reset''\<rparr>)))"

definition check_kicks :: "bytes \<Rightarrow> int \<Rightarrow> (nat \<times> found list) res" where
  \<comment> \<open>the single arm, and the reload records after it\<close>
  "check_kicks data budget =
     raise_if (bytes_count ARMED_MARK data \<noteq> 1) ''missing or repeated watchdog arm''
     (bind (some_or ''arm'' (bytes_find ARMED_MARK data)) (\<lambda>armed.
      let kicks = finditer kick_record data in
      raise_if (bytes_count ''LEANOS-LAB/1 WATCHDOG-KICK n='' data \<noteq> length kicks) ''malformed watchdog kick record''
      (bind (py_ints (map (\<lambda>m. mgroups m ! 0) kicks)) (\<lambda>numbers.
       raise_if (numbers \<noteq> map int [1..<length kicks + 1]) ''watchdog kicks out of sequence''
       (bind (budget_differs budget kicks) (\<lambda>differs.
        raise_if (differs \<or> budget < int (length kicks)) ''watchdog kicks exceed or disagree with the budget''
        (raise_if (kicks \<noteq> [] \<and> mstart (hd kicks) < armed) ''watchdog kick before the arm''
        (Inr (armed, kicks)))))))))"

definition classify_watchdog_kicks :: "event list \<Rightarrow> int \<Rightarrow> rat \<Rightarrow> rat \<Rightarrow> kick_report res" where
  "classify_watchdog_kicks events budget timeout recovery_slack =
     raise_if (\<not> (1 \<le> budget \<and> budget \<le> 92)) ''invalid watchdog kick budget''
     (raise_if (list_ex bad_timestamp events) ''invalid capture timestamp''
     (raise_if (nonmonotonic events) ''nonmonotonic capture timestamps''
     (let data = log_bytes events in
      bind (check_kicks data budget) (\<lambda>(armed, kicks).
      let instants = kick_times events armed kicks in
      raise_if (list_ex (\<lambda>g. timeout \<le> g) (gaps instants)) ''watchdog reload later than its timeout''
      (case find_from CHAIN_MARK data (last_end kicks) of
         None \<Rightarrow> raise ''missing FreeBSD chain marker after the last reload''
       | Some chain \<Rightarrow>
           let recovery = time_at events chain - last instants; stopped = search kick_stopped data in
           raise_if (timeout + recovery_slack < recovery) ''recovery later than the watchdog bound after the last reload''
           (bind (case stopped of None \<Rightarrow> Inr None
               | Some m \<Rightarrow> bind (py_int (mgroups m ! 0)) (\<lambda>n. Inr (Some n))) (\<lambda>reason.
            kick_outcome kicks (finditer session_final data) (bytes_count BUDGET_END data) chain stopped
              \<lparr>kr_kicks = length kicks, kr_budget = budget, kr_longest = longest (gaps instants),
               kr_protected = last instants - hd instants, kr_recovery = recovery, kr_stopped = reason,
               kr_outcome = '''', kr_session_end = None, kr_unsent = None, kr_error = None\<rparr>)))))))"

section \<open>Properties\<close>

subsection \<open>Times of positions\<close>

lemma nonmonotonic_sorted: "\<not> nonmonotonic events \<longleftrightarrow> sorted (map log_time events)"
proof (induction events)
  case (Cons e es)
  then show ?case
    by (cases es) (fastforce simp: nonmonotonic_def)+
qed (simp add: nonmonotonic_def)

lemma event_starts_snd [simp]: "map snd (event_starts es offset) = map log_time es"
  by (induction es arbitrary: offset) simp_all

lemma last_start_ge: "sorted (t # map snd starts) \<Longrightarrow> t \<le> last_start starts p t"
proof (induction starts arbitrary: t)
  case (Cons s starts)
  obtain b w where s: "s = (b, w)" by (cases s)
  with Cons have "t \<le> w" "w \<le> last_start starts p w" by simp_all
  with s show ?case by auto
qed simp

lemma last_start_mono: "sorted (t # map snd starts) \<Longrightarrow> p \<le> q \<Longrightarrow> last_start starts p t \<le> last_start starts q t"
proof (induction starts arbitrary: t)
  case (Cons s starts)
  obtain b w where s: "s = (b, w)" by (cases s)
  with Cons have w: "t \<le> w" "sorted (w # map snd starts)" by simp_all
  with Cons s have "last_start starts p w \<le> last_start starts q w" by simp
  moreover have "w \<le> last_start starts q w" using w(2) by (rule last_start_ge)
  ultimately show ?case using s w(1) \<open>p \<le> q\<close> by auto
qed simp

lemma time_at_mono:
  assumes "\<not> list_ex bad_timestamp events" "\<not> nonmonotonic events" "p \<le> q"
  shows "time_at events p \<le> time_at events q"
proof -
  have "sorted (0 # map log_time events)"
    using assms(1,2) by (auto simp: nonmonotonic_sorted list_ex_iff bad_timestamp_def log_time_def split: option.splits)
  then show ?thesis unfolding time_at_def using last_start_mono [of 0 "event_starts events 0" p q] assms(3) by simp
qed

subsection \<open>Reloads\<close>

lemma gaps_bound:
  assumes "\<not> list_ex (\<lambda>g. timeout \<le> g) (gaps (t # ts))"
  shows "last (t # ts) - t \<le> of_nat (length ts) * timeout"
  using assms
proof (induction ts arbitrary: t)
  case (Cons u us)
  then have "last (u # us) - u \<le> of_nat (length us) * timeout" "u - t < timeout" by (simp_all add: gaps_def)
  then show ?case by (simp add: algebra_simps)
qed simp

lemma longest_below: "gs \<noteq> [] \<Longrightarrow> \<not> list_ex (\<lambda>g. timeout \<le> g) gs \<Longrightarrow> longest gs < timeout"
proof -
  have "fold max gs g < timeout" if "g < timeout" "\<not> list_ex (\<lambda>g. timeout \<le> g) gs" for g :: rat and gs
    using that by (induction gs arbitrary: g) simp_all
  then show "gs \<noteq> [] \<Longrightarrow> \<not> list_ex (\<lambda>g. timeout \<le> g) gs \<Longrightarrow> longest gs < timeout"
    by (cases gs) (simp_all add: longest_def)
qed

lemma check_kicks_inv:
  assumes "check_kicks data budget = Inr (armed, kicks)"
  shows "bytes_count ARMED_MARK data = 1" "bytes_find ARMED_MARK data = Some armed" "kicks = finditer kick_record data"
    "py_ints (map (\<lambda>m. mgroups m ! 0) kicks) = Inr (map int [1..<length kicks + 1])"
    "int (length kicks) \<le> budget" "kicks \<noteq> [] \<longrightarrow> armed \<le> mstart (hd kicks)"
    "bytes_count ''LEANOS-LAB/1 WATCHDOG-KICK n='' data = length kicks"
  using assms unfolding check_kicks_def Let_def by (auto simp: res_simps)

lemma kick_outcome_keeps:
  assumes "kick_outcome kicks finals budget_end chain stopped result = Inr r"
  shows "kr_kicks r = kr_kicks result" "kr_budget r = kr_budget result" "kr_longest r = kr_longest result"
    "kr_protected r = kr_protected result" "kr_recovery r = kr_recovery result"
    "kr_stopped r = kr_stopped result"
  using assms unfolding kick_outcome_def Let_def by (auto simp: res_simps split: list.splits if_splits)


lemma classify_watchdog_kicks_inv:
  assumes "classify_watchdog_kicks events budget timeout slack = Inr r"
  obtains armed kicks chain reason where
    "1 \<le> budget" "budget \<le> 92" "\<not> list_ex bad_timestamp events" "\<not> nonmonotonic events"
    "check_kicks (log_bytes events) budget = Inr (armed, kicks)"
    "\<not> list_ex (\<lambda>g. timeout \<le> g) (gaps (kick_times events armed kicks))"
    "find_from CHAIN_MARK (log_bytes events) (last_end kicks) = Some chain"
    "time_at events chain - last (kick_times events armed kicks) \<le> timeout + slack"
    "kick_outcome kicks (finditer session_final (log_bytes events)) (bytes_count BUDGET_END (log_bytes events)) chain
       (search kick_stopped (log_bytes events))
       \<lparr>kr_kicks = length kicks, kr_budget = budget, kr_longest = longest (gaps (kick_times events armed kicks)),
        kr_protected = last (kick_times events armed kicks) - time_at events armed,
        kr_recovery = time_at events chain - last (kick_times events armed kicks), kr_stopped = reason,
        kr_outcome = '''', kr_session_end = None, kr_unsent = None, kr_error = None\<rparr> = Inr r"
proof -
  from assms obtain armed kicks where k: "check_kicks (log_bytes events) budget = Inr (armed, kicks)"
    unfolding classify_watchdog_kicks_def Let_def by (auto simp: res_simps)
  from assms k obtain chain where "find_from CHAIN_MARK (log_bytes events) (last_end kicks) = Some chain"
    unfolding classify_watchdog_kicks_def Let_def by (auto simp: res_simps split: option.splits)
  with assms k that show ?thesis
    unfolding classify_watchdog_kicks_def Let_def by (auto simp: res_simps kick_times_def)
qed

text \<open>
  C14 (bounds). In an accepted long session the reloads are numbered from 1 without a gap, stay within the
  budget and so within 92, and each comes less than the timeout after the one before; so the time from
  the arm to the FreeBSD chain marker is at most (n + 1) timeouts plus the slack, for n reloads.
\<close>

theorem kick_session_bounded:
  assumes "classify_watchdog_kicks events budget timeout slack = Inr r"
  shows "\<exists>armed chain. bytes_find ARMED_MARK (log_bytes events) = Some armed \<and>
    startswith (drop chain (log_bytes events)) CHAIN_MARK \<and>
    py_ints (map (\<lambda>m. mgroups m ! 0) (finditer kick_record (log_bytes events))) = Inr (map int [1..<kr_kicks r + 1]) \<and>
    int (kr_kicks r) \<le> budget \<and> kr_kicks r \<le> 92 \<and> (0 < kr_kicks r \<longrightarrow> kr_longest r < timeout) \<and>
    0 \<le> kr_protected r \<and> kr_protected r \<le> of_nat (kr_kicks r) * timeout \<and> kr_recovery r \<le> timeout + slack \<and>
    time_at events chain - time_at events armed = kr_protected r + kr_recovery r"
  using assms
proof (rule classify_watchdog_kicks_inv)
  fix armed kicks chain reason
  let ?data = "log_bytes events" and ?t = "kick_times events armed kicks"
  assume b: "1 \<le> budget" "budget \<le> 92" and m: "\<not> list_ex bad_timestamp events" "\<not> nonmonotonic events"
    and k: "check_kicks ?data budget = Inr (armed, kicks)"
    and g: "\<not> list_ex (\<lambda>g. timeout \<le> g) (gaps ?t)"
    and c: "find_from CHAIN_MARK ?data (last_end kicks) = Some chain"
    and rec: "time_at events chain - last ?t \<le> timeout + slack"
    and out: "kick_outcome kicks (finditer session_final ?data) (bytes_count BUDGET_END ?data) chain
       (search kick_stopped ?data)
       \<lparr>kr_kicks = length kicks, kr_budget = budget, kr_longest = longest (gaps ?t),
        kr_protected = last ?t - time_at events armed, kr_recovery = time_at events chain - last ?t, kr_stopped = reason,
        kr_outcome = '''', kr_session_end = None, kr_unsent = None, kr_error = None\<rparr> = Inr r"
  note keeps = kick_outcome_keeps [OF out, simplified] and inv = check_kicks_inv [OF k]
  have p: "last ?t - time_at events armed \<le> of_nat (length kicks) * timeout"
    using gaps_bound [OF g [unfolded kick_times_def]] by (simp add: kick_times_def)
  have "sorted (map mstart kicks)" unfolding inv(3) by (rule finditer_sorted)
  then have "armed \<le> mstart (last kicks)" if "kicks \<noteq> []"
    using that inv(6) last_in_set by (cases kicks) fastforce+
  then have "0 \<le> last ?t - time_at events armed"
    using time_at_mono [OF m, of armed "mstart (last kicks)"] by (simp add: kick_times_def last_map)
  moreover have "longest (gaps ?t) < timeout" if "kicks \<noteq> []"
    using that by (intro longest_below g) (cases kicks, simp_all add: kick_times_def gaps_def)
  moreover have "startswith (drop chain ?data) CHAIN_MARK" using find_from_Some [OF c] by simp
  ultimately show ?thesis using inv b rec p keeps by (intro exI [of _ armed] exI [of _ chain]) auto
qed


subsection \<open>Stalls\<close>

definition as_events :: "timed_log \<Rightarrow> event list" where
  "as_events entries = map (\<lambda>(t, chunk). \<lparr>ev_elapsed = Some t, ev_data = chunk\<rparr>) entries"

lemma as_events_simps [simp]:
  "as_events [] = []" "as_events ((t, chunk) # es) = \<lparr>ev_elapsed = Some t, ev_data = chunk\<rparr> # as_events es"
  "log_bytes (as_events es) = timed_bytes es"
  by (simp_all add: as_events_def log_bytes_def timed_bytes_def comp_def case_prod_beta')

lemma hang_scan_quiet:
  "hang_scan stop es offset h n = Inr x \<longleftrightarrow> quiet_scan stop (as_events es) offset h n = Inr x"
  by (induction stop es offset h n rule: hang_scan.induct) (auto simp: Let_def res_simps log_time_def)

lemma hang_quiet_boundary:
  assumes "hang_scan stop es 0 None None = Inr (Some h, Some n)" "0 < stop"
  shows "\<exists>before c c' after. es = before @ (h, c) # (n, c') # after \<and> length (timed_bytes (before @ [(h, c)])) = stop"
proof -
  obtain b e f c where s: "as_events es = b @ e # f # c" "length (log_bytes (b @ [e])) = stop"
    "h = log_time e" "n = log_time f"
    using quiet_scan_sound assms hang_scan_quiet by (metis add_0)
  then obtain b' e' f' c' where es: "es = b' @ e' # f' # c'" "b = as_events b'" "[e] = as_events [e']" "[f] = as_events [f']"
    unfolding as_events_def by (auto simp: map_eq_append_conv)
  obtain t k where e': "e' = (t, k)" by (cases e')
  obtain u l where f': "f' = (u, l)" by (cases f')
  have "as_events (b' @ [e']) = b @ [e]" using es(2,3) by (simp add: as_events_def)
  then have "log_bytes (b @ [e]) = timed_bytes (b' @ [e'])" by (metis as_events_simps(3))
  with s es(1,3,4) e' f' show ?thesis
    by (rule_tac x = b' in exI, rule_tac x = k in exI, rule_tac x = l in exI, rule_tac x = c' in exI)
      (simp add: log_time_def)
qed

lemma timed_bytes_append: "timed_bytes (xs @ ys) = timed_bytes xs @ timed_bytes ys"
  by (simp add: timed_bytes_def)

lemma find_pos_once: "bytes_count m data = 1 \<Longrightarrow> m \<noteq> [] \<Longrightarrow> \<exists>i. bytes_find m data = Some i"
proof -
  have "bytes_count m data = 0" if "bytes_find m data = None" "m \<noteq> []"
    using that by (induction data) (subst bytes_count.simps; auto split: if_splits)+
  then show "bytes_count m data = 1 \<Longrightarrow> m \<noteq> [] \<Longrightarrow> \<exists>i. bytes_find m data = Some i" by fastforce
qed

text \<open>
  C15 (safety). A recovery is accepted only 110 to 170 seconds after the arm, each measured at the event
  that completed the mark, with no kernel output and no failure mark.  A kernel recovery is claimed
  exactly for a given digest: the log then shows that image loaded after the arm, and it splits right
  after the hang mark into two events at least 90 seconds apart.
\<close>

theorem stall_recovered:
  assumes "classify_watchdog entries kernel_digest = Inr r"
  shows "\<exists>armed recovered. mark_finished ARMED_MARK entries = Inr armed \<and>
    mark_finished (recovery_mark (timed_bytes entries)) entries = Inr recovered \<and>
    st_delay r = recovered - armed \<and> 110 \<le> st_delay r \<and> st_delay r \<le> 170 \<and> stall_trace (timed_bytes entries) \<and>
    st_kernel_recovery r = (kernel_digest \<noteq> None) \<and> st_loader_recovery r = (kernel_digest = None) \<and>
    (kernel_digest = None \<or>
      (\<exists>before hang chunk next chunk' after pre. entries = before @ (hang, chunk) # (next, chunk') # after \<and>
        timed_bytes (before @ [(hang, chunk)]) = pre @ HANG_MARK \<and> 90 \<le> next - hang \<and>
        st_kernel_quiet r = Some (next - hang) \<and> hang_trace (the kernel_digest) (timed_bytes entries)))"
proof -
  let ?data = "timed_bytes entries"
  from assms obtain armed recovered where
    t: "stall_trace ?data" "mark_finished (recovery_mark ?data) entries = Inr recovered" "mark_finished ARMED_MARK entries = Inr armed"
    "110 \<le> recovered - armed" "recovered - armed \<le> 170"
    unfolding classify_watchdog_def Let_def by (auto simp: res_simps)
  show ?thesis
  proof (cases kernel_digest)
    case None
    with assms t show ?thesis unfolding classify_watchdog_def Let_def by (auto simp: res_simps)
  next
    case (Some digest)
    with assms t obtain r0 where r0: "st_delay r0 = recovered - armed" and h: "classify_hang entries digest r0 = Inr r"
      unfolding classify_watchdog_def Let_def by (auto simp: res_simps) (metis stall_result.select_convs(2))
    let ?stop = "nat (find_pos HANG_MARK ?data + int (length HANG_MARK))"
    from h have trace: "hang_trace digest ?data" unfolding classify_hang_def Let_def by (simp add: res_simps)
    from h obtain hang "next" where scan: "hang_scan ?stop entries 0 None None = Inr (Some hang, Some next)"
      and q: "90 \<le> next - hang" and r: "r = r0\<lparr>st_scenario := ''watchdog-early-kernel-stall'', st_kernel_recovery := True,
        st_loader_recovery := False, st_kernel_sha256 := Some digest, st_kernel_quiet := Some (next - hang)\<rparr>"
      unfolding classify_hang_def Let_def by (auto simp: res_simps split: option.splits)
    from trace have "bytes_count HANG_MARK ?data = 1" unfolding hang_trace_def by (auto split: option.splits)
    then obtain i where i: "bytes_find HANG_MARK ?data = Some i" using find_pos_once by (fastforce simp: HANG_MARK_def)
    then have stop: "?stop = i + length HANG_MARK" by (simp add: find_pos_def)
    then have "0 < ?stop" by (simp add: HANG_MARK_def)
    from hang_quiet_boundary [OF scan this] obtain before c c' after where
      es: "entries = before @ (hang, c) # (next, c') # after" "length (timed_bytes (before @ [(hang, c)])) = ?stop" by blast
    have "startswith (drop i ?data) HANG_MARK" using bytes_find_Some [OF i] by simp
    then have "take ?stop ?data = take i ?data @ HANG_MARK"
      unfolding stop by (metis startswith_iff append_eq_conv_conj take_add)
    moreover have "take ?stop ?data = timed_bytes (before @ [(hang, c)])"
      using es by (metis append.assoc append_Cons append_Nil append_eq_conv_conj timed_bytes_append)
    ultimately have "timed_bytes (before @ [(hang, c)]) = take i ?data @ HANG_MARK" by simp
    with es(1) q r r0 t trace Some show ?thesis by fastforce
  qed
qed

end
