(* ===== verification/Line_Search.thy ===== *)
theory Line_Search
  imports Watchdog Segments Reference_Firmware
begin

text \<open>
  Searching a text line by line.  An expression that begins with a fixed text \<open>h\<close> can match only where
  \<open>h\<close> occurs; when a line has \<open>h\<close> at its start only, one attempt decides the whole line.
\<close>

definition opens :: "bytes \<Rightarrow> matcher \<Rightarrow> bool" where
  "opens h m \<longleftrightarrow> (\<forall>t. m t \<noteq> None \<longrightarrow> startswith t h)"

lemma opens_text: "startswith l h \<Longrightarrow> opens h (at_text l)"
  by (auto simp: opens_def at_text_def intro: startswith_trans)

lemma opens_parts: "startswith l h \<Longrightarrow> opens h (match_parts (L l # ps))"
  by (auto simp: opens_def intro: startswith_trans split: if_splits)

lemma opens_load: "startswith mark h \<Longrightarrow> opens h (wrapped_load mark digest)"
proof -
  assume "startswith mark h"
  then have "opens h (match_parts [L mark, Skip1 load_spaces, L ''sha256=''])" by (rule opens_parts)
  moreover have "wrapped_load mark digest t \<noteq> None \<Longrightarrow> match_parts [L mark, Skip1 load_spaces, L ''sha256=''] t \<noteq> None" for t
    unfolding wrapped_load_def by (cases "match_parts [L mark, Skip1 load_spaces, L ''sha256=''] t") simp_all
  ultimately show ?thesis unfolding opens_def by blast
qed

lemma opens_none: "opens h m \<Longrightarrow> \<not> startswith t h \<Longrightarrow> m t = None"
  unfolding opens_def by blast

lemma clear_of_append: "clear_of h a \<Longrightarrow> clear_of h b \<Longrightarrow> clear_of h (a @ b)"
proof (induction a)
  case (Cons c a)
  moreover have "\<not> startswith (c # a @ b) h" using Cons.prems(1) startswith_split [of "c # a" b h] by auto
  moreover have "\<not> startswith h (c # a @ b)" using Cons.prems(1) startswith_trans [of h "c # a @ b" "c # a"] startswith_append [of "c # a" b]
    by auto
  ultimately show ?case by simp
qed simp

lemma clear_of_drop: "clear_of h a \<Longrightarrow> clear_of h (drop n a)"
  by (induction a arbitrary: n) (auto simp: drop_Cons split: nat.splits)

lemma clear_of_concat: "\<forall>l\<in>set ls. clear_of h l \<Longrightarrow> clear_of h (concat ls)"
  by (induction ls) (auto intro: clear_of_append)

lemma search_clear:
  "opens h m \<Longrightarrow> clear_of h a \<Longrightarrow> search_from m (a @ s) pos 0 = search_from m s (pos + length a) 0"
proof (induction a arbitrary: pos)
  case (Cons c a)
  then have "\<not> startswith (c # a @ s) h" using startswith_split [of "c # a" s h] by auto
  with Cons.prems(1) have "m (c # a @ s) = None" by (rule opens_none)
  with Cons show ?case by simp
qed simp

lemma search_miss:
  assumes "opens h m" "clear_of h (tl l)" "l \<noteq> []" "m (l @ s) = None"
  shows "search_from m (l @ s) pos 0 = search_from m s (pos + length l) 0"
proof -
  obtain c a where "l = c # a" using assms(3) by (cases l) auto
  with assms search_clear [of h m a s "Suc pos"] show ?thesis by simp
qed

lemma search_hit:
  assumes "opens h m" "clear_of h (tl l)" "m (l @ s) = Some (gs, t @ s)" "length t < length l"
  shows "search_from m (l @ s) pos 0 = (pos, pos + (length l - length t), gs) # search_from m s (pos + length l) 0"
proof -
  obtain c a where l: "l = c # a" using assms(4) by (cases l) auto
  let ?k = "length l - length t - 1"
  have k: "?k \<le> length a" using l by simp
  have "search_from m (a @ s) (Suc pos) ?k = search_from m (drop ?k a @ s) (Suc pos + ?k) 0"
    using k by (subst search_from_skip) simp
  also have "\<dots> = search_from m s (Suc pos + ?k + length (drop ?k a)) 0"
    using assms(1,2) l by (intro search_clear) (auto intro: clear_of_drop)
  also have "Suc pos + ?k + length (drop ?k a) = pos + length l" using k l by simp
  finally show ?thesis using assms(3,4) l by (simp add: Let_def)
qed

lemma search_end: "search_from m [] pos 0 = []"
  by simp

text \<open>The same for counting and finding a text.\<close>

lemma bytes_count_step:
  "pat \<noteq> [] \<Longrightarrow> bytes_count pat (c # cs) =
     (if startswith (c # cs) pat then Suc (bytes_count pat (drop (length pat) (c # cs))) else bytes_count pat cs)"
  by (subst bytes_count.simps) simp

lemma bytes_absent: "\<forall>l\<in>set ls. clear_of pat l \<Longrightarrow> pat \<noteq> [] \<Longrightarrow> bytes_find pat (concat ls) = None"
  by (induction ls) (auto simp: bytes_find_clear)

text \<open>A line that lacks one character of a text does not contain the text.\<close>

lemma clear_by_char:
  "x \<in> set pat \<Longrightarrow> LF \<notin> set pat \<Longrightarrow> x \<notin> set l \<Longrightarrow> l = [] \<or> last l = LF \<Longrightarrow> clear_of pat l"
proof (induction l)
  case (Cons c l)
  have "\<not> startswith (c # l) pat"
  proof
    assume "startswith (c # l) pat"
    then obtain u where "c # l = pat @ u" by (auto simp: startswith_iff)
    then have "x \<in> set (c # l)" using Cons.prems(1) by simp
    with Cons.prems(3) show False by simp
  qed
  moreover have "\<not> startswith pat (c # l)"
  proof
    assume "startswith pat (c # l)"
    then obtain u where "pat = (c # l) @ u" by (auto simp: startswith_iff)
    moreover have "LF \<in> set (c # l)" using Cons.prems(4) last_in_set [of "c # l"] by simp
    ultimately show False using Cons.prems(2) by simp
  qed
  moreover have "clear_of pat l" using Cons by (auto split: if_splits)
  ultimately show ?case by simp
qed simp

end
