(* ===== verification/Bsp_Production.thy ===== *)
theory Bsp_Production
  imports Watchdog
begin

text \<open>
  \<^verbatim>\<open>classify_bsp_production\<close> of \<^verbatim>\<open>run-qotom-recovery-lab.py\<close> and the two local APIC records it may ask
  for.  The text of the FINAL identity comes from the generated protocol and is an argument.
\<close>

unbundle bit_operations_syntax

subsection \<open>Local vector table records\<close>

record lvt_entry =
  lv_raw :: int
  lv_vector :: int
  lv_delivery_mode :: int
  lv_delivery_status :: int
  lv_polarity :: int
  lv_remote_irr :: int
  lv_trigger_mode :: int
  lv_masked :: bool

definition decode_lvt :: "int \<Rightarrow> lvt_entry" where
  "decode_lvt v =
     \<lparr>lv_raw = v, lv_vector = v AND 0xff, lv_delivery_mode = drop_bit 8 v AND 7, lv_delivery_status = drop_bit 12 v AND 1,
      lv_polarity = drop_bit 13 v AND 1, lv_remote_irr = drop_bit 14 v AND 1, lv_trigger_mode = drop_bit 15 v AND 1,
      lv_masked = (drop_bit 16 v AND 1 \<noteq> 0)\<rparr>"

definition LVT_PREFIX :: bytes where "LVT_PREFIX = ''LEANOS-LAB/1 APIC-LVT ''"
definition POLICY_PREFIX :: bytes where "POLICY_PREFIX = ''LEANOS-LAB/1 APIC-LVT-POLICY ''"

definition lvt_record :: matcher where
  "lvt_record = match_parts
     [L (LVT_PREFIX @ ''profile=qotom-lvt-v1 status=''), DIGITS, L '' apic-base='', DIGITS, L '' executing='', DIGITS,
      L '' lint0-first='', DIGITS, L '' lint1-first='', DIGITS, L '' lint0-second='', DIGITS, L '' lint1-second='', DIGITS,
      L '' stable='', DIGITS, L '' routing-authority='', DIGITS, L '' writes='', DIGITS, L '' map-restored='', DIGITS,
      L '' platform-admitted='', DIGITS, CHAR_NL]"

definition policy_record :: matcher where
  "policy_record = match_parts
     [L (POLICY_PREFIX @ ''profile=qotom-lvt-v1 status=''), DIGITS, L '' detail='', DIGITS, L '' lint0='', DIGITS,
      L '' lint1='', DIGITS, L '' policy=masked-inherited routing-authority='', DIGITS, L '' writes='', DIGITS,
      L '' map-restored='', DIGITS, L '' platform-admitted='', DIGITS, CHAR_NL]"

definition canonical_values :: "bytes list \<Rightarrow> string \<Rightarrow> int list res" where
  \<comment> \<open>the groups as integers, each printed back as it was read; digits have no sign\<close>
  "canonical_values groups msg =
     bind (py_ints groups) (\<lambda>values.
     raise_if (map (\<lambda>v. decimal (nat v)) values \<noteq> groups) msg (Inr values))"

definition only_record :: "matcher \<Rightarrow> bytes \<Rightarrow> bytes \<Rightarrow> string \<Rightarrow> found res" where
  "only_record m mark data msg =
     (let matches = finditer m data in
      raise_if (length matches \<noteq> 1 \<or> bytes_count mark data \<noteq> 1) msg (Inr (hd matches)))"

record lvt_observation =
  lo_lint0_first :: lvt_entry
  lo_lint1_first :: lvt_entry
  lo_lint0_second :: lvt_entry
  lo_lint1_second :: lvt_entry
  lo_stable :: bool

definition lvt_values_ok :: "int list \<Rightarrow> bool" where
  \<comment> \<open>status, base, executing identity, four table words, then the flags\<close>
  "lvt_values_ok v \<longleftrightarrow>
     v ! 0 = 0 \<and> v ! 1 = 0xfee00900 \<and> v ! 2 = 0 \<and> list_all (\<lambda>w. w \<le> 0xffffffff) (take 4 (drop 3 v)) \<and>
     v ! 7 = (if v ! 3 = v ! 5 \<and> v ! 4 = v ! 6 then 1 else 0) \<and>
     v ! 8 = 0 \<and> v ! 9 = 0 \<and> v ! 10 = 1 \<and> v ! 11 = 0"

definition decode_qotom_lvt_observation :: "bytes \<Rightarrow> (bytes \<times> lvt_observation) res" where
  "decode_qotom_lvt_observation data =
     bind (only_record lvt_record LVT_PREFIX data ''missing, malformed, or repeated Qotom LVT observation'') (\<lambda>m.
     bind (canonical_values (mgroups m) ''noncanonical Qotom LVT value'') (\<lambda>v.
     raise_if (\<not> lvt_values_ok v) ''rejected Qotom LVT observation''
     (Inr (slice (mstart m) (mend m) data,
        \<lparr>lo_lint0_first = decode_lvt (v ! 3), lo_lint1_first = decode_lvt (v ! 4), lo_lint0_second = decode_lvt (v ! 5),
         lo_lint1_second = decode_lvt (v ! 6), lo_stable = (v ! 7 \<noteq> 0)\<rparr>))))"

definition decode_qotom_lvt_policy :: "bytes \<Rightarrow> bytes res" where
  \<comment> \<open>every value of an accepted policy is fixed\<close>
  "decode_qotom_lvt_policy data =
     bind (only_record policy_record POLICY_PREFIX data ''missing, malformed, or repeated Qotom LVT policy'') (\<lambda>m.
     bind (canonical_values (mgroups m) ''noncanonical Qotom LVT policy value'') (\<lambda>v.
     raise_if (v \<noteq> [0, 0, 0x10000, 0x10000, 0, 0, 1, 0]) ''rejected Qotom LVT policy''
     (Inr (slice (mstart m) (mend m) data))))"

subsection \<open>The production boundary\<close>

definition BSP_LINE :: bytes where
  "BSP_LINE = ''LEANOS-LAB/1 QOTOM-BSP-PRODUCTION profile=qotom-bsp-v1 memory=published topology=published '' @
     ''interrupts=masked nmi-routing=quarantined platform-admitted=0'' @ NL"

definition bsp_terminal :: "bytes \<Rightarrow> bytes" where
  "bsp_terminal final_id = final_id @ '' status=FAIL reason=qotom-platform-pending'' @ NL"

definition boot_line :: matcher where
  \<comment> \<open>\<^verbatim>\<open>LEANOS/[0-9]+ BOOT(?: [^\n]*)?\n\<close>\<close>
  "boot_line s =
     (case match_parts [L ''LEANOS/'', Skip1 is_digit, L '' BOOT''] s of
        Some (_, c # r) \<Rightarrow>
          if c = LF then Some ([], r)
          else if c = CHR '' '' then (case dropWhile (\<lambda>c. c \<noteq> LF) r of [] \<Rightarrow> None | _ # t \<Rightarrow> Some ([], t))
          else None
      | _ \<Rightarrow> None)"

record bsp_result =
  bs_scenario :: string
  bs_quiet :: rat
  bs_sha256 :: string
  bs_lvt :: "lvt_observation option"
  bs_policy :: bool

definition lvt_part :: "bytes \<Rightarrow> bool \<Rightarrow> bool \<Rightarrow> (bytes list \<times> lvt_observation option) res" where
  \<comment> \<open>the records that are asked for, as markers, and no others\<close>
  "lvt_part data lvt_observation lvt_policy =
     bind (if lvt_observation \<or> lvt_policy then bind (decode_qotom_lvt_observation data) (\<lambda>(line, lvt). Inr ([line], Some lvt))
           else raise_if (bytes_count LVT_PREFIX data \<noteq> 0) ''unexpected Qotom LVT observation'' (Inr ([], None)))
       (\<lambda>(lines, lvt).
     bind (if lvt_policy then bind (decode_qotom_lvt_policy data) (\<lambda>line. Inr [line])
           else raise_if (bytes_count POLICY_PREFIX data \<noteq> 0) ''unexpected Qotom LVT policy'' (Inr []))
       (\<lambda>more. Inr (lines @ more, lvt)))"

definition bsp_markers :: "bytes list \<Rightarrow> bytes \<Rightarrow> bytes list" where
  "bsp_markers lvt_lines final_id =
     [WINDOW_MARK, ARMED_MARK, LOAD_MARK, MODE_LINE] @ lvt_lines @
     [BSP_LINE, bsp_terminal final_id, DEFAULT_MARK, CHAIN_MARK]"

definition classify_bsp_production :: "event list \<Rightarrow> bytes \<Rightarrow> bytes \<Rightarrow> bool \<Rightarrow> bool \<Rightarrow> bsp_result res" where
  "classify_bsp_production events final_id digest lvt_observation lvt_policy =
     raise_if (list_ex bad_timestamp events) ''invalid capture timestamp''
     (raise_if (nonmonotonic events) ''nonmonotonic capture timestamps''
     (let data = log_bytes events in
      bind (lvt_part data lvt_observation lvt_policy) (\<lambda>(lvt_lines, lvt).
      let markers = bsp_markers lvt_lines final_id in
      raise_if (list_ex (\<lambda>m. bytes_count m data \<noteq> 1) markers) ''missing, changed, or repeated Qotom BSP production trace''
      (raise_if (\<not> sorted (map (\<lambda>m. find_pos m data) markers)) ''Qotom BSP production trace is out of order''
      (raise_if (\<not> digest_ok digest) ''invalid protected image digest''
      (raise_if (search (wrapped_load LOAD_MARK digest) data = None) ''Qotom BSP production digest was not loaded''
      (raise_if (length (finditer boot_line data) \<noteq> 1 \<or> bytes_count final_id data \<noteq> 1)
         ''ambiguous Qotom BSP production kernel framing''
      (let stop = nat (find_pos (bsp_terminal final_id) data + int (length (bsp_terminal final_id))) in
       bind (quiet_scan stop events 0 None None) (\<lambda>(closed_at, next_time).
       case (closed_at, next_time) of
         (Some t, Some n) \<Rightarrow>
           raise_if (\<not> (30 \<le> n - t \<and> n - t \<le> 90)) ''Qotom BSP production reset outside its observation interval''
           (Inr \<lparr>bs_scenario = (if lvt_policy then ''qotom-bsp-lvt-policy'' else if lvt_observation then ''qotom-bsp-lvt-observation''
                  else ''qotom-bsp-production-boundary''),
              bs_quiet = n - t, bs_sha256 = sha256_hex data, bs_lvt = lvt, bs_policy = lvt_policy\<rparr>)
       | _ \<Rightarrow> raise ''Qotom BSP production reset outside its observation interval'')))))))))"

section \<open>Properties\<close>

lemma classify_bsp_production_inv:
  assumes "classify_bsp_production events final_id digest obs pol = Inr r"
  obtains lvt_lines lvt t n where
    "lvt_part (log_bytes events) obs pol = Inr (lvt_lines, lvt)"
    "\<forall>m\<in>set (bsp_markers lvt_lines final_id). bytes_count m (log_bytes events) = 1"
    "sorted (map (\<lambda>m. find_pos m (log_bytes events)) (bsp_markers lvt_lines final_id))"
    "digest_ok digest" "search (wrapped_load LOAD_MARK digest) (log_bytes events) \<noteq> None"
    "quiet_scan (nat (find_pos (bsp_terminal final_id) (log_bytes events) + int (length (bsp_terminal final_id)))) events 0 None None
       = Inr (Some t, Some n)"
    "bs_quiet r = n - t" "30 \<le> n - t" "n - t \<le> 90" "bs_lvt r = lvt" "bs_policy r = pol"
proof -
  let ?data = "log_bytes events"
  let ?stop = "nat (find_pos (bsp_terminal final_id) ?data + int (length (bsp_terminal final_id)))"
  from assms obtain lvt_lines lvt t n where
    "lvt_part ?data obs pol = Inr (lvt_lines, lvt)" "\<not> list_ex (\<lambda>m. bytes_count m ?data \<noteq> 1) (bsp_markers lvt_lines final_id)"
    "\<not> \<not> sorted (map (\<lambda>m. find_pos m ?data) (bsp_markers lvt_lines final_id))" "\<not> \<not> digest_ok digest"
    "search (wrapped_load LOAD_MARK digest) ?data \<noteq> None" "quiet_scan ?stop events 0 None None = Inr (t, n)"
    and c: "(case t of None \<Rightarrow> raise ''Qotom BSP production reset outside its observation interval''
      | Some t \<Rightarrow> case n of None \<Rightarrow> raise ''Qotom BSP production reset outside its observation interval''
      | Some n \<Rightarrow> raise_if (\<not> (30 \<le> n - t \<and> n - t \<le> 90)) ''Qotom BSP production reset outside its observation interval''
          (Inr \<lparr>bs_scenario = (if pol then ''qotom-bsp-lvt-policy'' else if obs then ''qotom-bsp-lvt-observation''
                 else ''qotom-bsp-production-boundary''),
             bs_quiet = n - t, bs_sha256 = sha256_hex ?data, bs_lvt = lvt, bs_policy = pol\<rparr>)) = Inr r"
    unfolding classify_bsp_production_def Let_def by (elim res_elims) (rule that, (assumption | force)+)
  with that show ?thesis by (cases t; cases n) (auto simp: res_simps list_ex_iff)
qed

text \<open>
  C20 (safety). The production boundary of the bootstrap processor is accepted only when every marker is
  in the log once and in order, the image with the given digest was loaded, and the log splits right
  after the platform-pending terminal into two events 30 to 90 seconds apart.
\<close>

theorem bsp_production_boundary:
  assumes "classify_bsp_production events final_id digest obs pol = Inr r"
  shows "\<exists>lvt_lines before e f after pre.
    lvt_part (log_bytes events) obs pol = Inr (lvt_lines, bs_lvt r) \<and>
    (\<forall>m\<in>set (bsp_markers lvt_lines final_id). bytes_count m (log_bytes events) = 1) \<and>
    sorted (map (\<lambda>m. find_pos m (log_bytes events)) (bsp_markers lvt_lines final_id)) \<and>
    search (wrapped_load LOAD_MARK digest) (log_bytes events) \<noteq> None \<and>
    events = before @ e # f # after \<and> log_bytes (before @ [e]) = pre @ bsp_terminal final_id \<and>
    bs_quiet r = log_time f - log_time e \<and> 30 \<le> bs_quiet r \<and> bs_quiet r \<le> 90"
  using assms
proof (rule classify_bsp_production_inv)
  fix lvt_lines lvt t n
  let ?data = "log_bytes events" and ?terminal_line = "bsp_terminal final_id"
  let ?stop = "nat (find_pos ?terminal_line ?data + int (length ?terminal_line))"
  assume l: "lvt_part ?data obs pol = Inr (lvt_lines, lvt)" and m: "\<forall>m\<in>set (bsp_markers lvt_lines final_id). bytes_count m ?data = 1"
    and s: "sorted (map (\<lambda>m. find_pos m ?data) (bsp_markers lvt_lines final_id))"
    and d: "search (wrapped_load LOAD_MARK digest) ?data \<noteq> None"
    and q: "quiet_scan ?stop events 0 None None = Inr (Some t, Some n)"
    and r: "bs_quiet r = n - t" "30 \<le> n - t" "n - t \<le> 90" "bs_lvt r = lvt"
  have "bytes_count ?terminal_line ?data = 1" using m by (simp add: bsp_markers_def)
  then obtain i where i: "bytes_find ?terminal_line ?data = Some i" using find_pos_once by (fastforce simp: bsp_terminal_def)
  then have stop: "?stop = i + length ?terminal_line" by (simp add: find_pos_def)
  then have "0 < ?stop" by (simp add: bsp_terminal_def)
  from quiet_scan_sound [OF q this] obtain b e f c where es: "events = b @ e # f # c"
    "length (log_bytes (b @ [e])) = ?stop" "t = log_time e" "n = log_time f" by auto
  have "startswith (drop i ?data) ?terminal_line" using bytes_find_Some [OF i] by simp
  then have "take ?stop ?data = take i ?data @ ?terminal_line"
    unfolding stop by (metis startswith_iff append_eq_conv_conj take_add)
  moreover have "take ?stop ?data = log_bytes (b @ [e])" using es by simp
  ultimately have "log_bytes (b @ [e]) = take i ?data @ ?terminal_line" by simp
  then have "\<exists>before e f after pre. events = before @ e # f # after \<and> log_bytes (before @ [e]) = pre @ ?terminal_line \<and>
      bs_quiet r = log_time f - log_time e"
    using es(1,3,4) r(1) by (intro exI [of _ b] exI [of _ e] exI [of _ f] exI [of _ c] exI [of _ "take i ?data"]) simp
  with l m s d r show ?thesis by auto
qed

text \<open>A decoded observation is stable exactly when both readings of the two table entries agree.\<close>

lemma decode_lvt_inject [simp]: "decode_lvt v = decode_lvt w \<longleftrightarrow> v = w"
  by (metis decode_lvt_def lvt_entry.select_convs(1))

lemma lvt_observation_stable:
  assumes "decode_qotom_lvt_observation data = Inr (line, obs)"
  shows "lo_stable obs \<longleftrightarrow> lo_lint0_first obs = lo_lint0_second obs \<and> lo_lint1_first obs = lo_lint1_second obs"
  using assms unfolding decode_qotom_lvt_observation_def
  by (elim res_elims) (auto simp: lvt_values_ok_def split: if_splits)

end
