(* ===== verification/Recovery_Wait.thy ===== *)
theory Recovery_Wait
  imports Watchdog
begin

text \<open>
  \<^verbatim>\<open>wait_for_recovery\<close> of \<^verbatim>\<open>run-qotom-recovery-lab.py\<close>: the runner polls until FreeBSD is back after a
  run.  What one pass of the loop sees (the time, the bytes captured so far, the boot time over SSH) is a
  \<open>poll\<close>; a run of the loop is over a sequence of polls, and \<open>None\<close> is a wait that never ends.
\<close>

subsection \<open>One pass\<close>

record 'b poll =
  po_now :: rat                    \<comment> \<open>\<^verbatim>\<open>elapsed()\<close>\<close>
  po_data :: "bytes res"           \<comment> \<open>\<^verbatim>\<open>captured()\<close>, which raises on an error of the reader\<close>
  po_boot :: "'b option res"       \<comment> \<open>\<^verbatim>\<open>boot_time()\<close>, if it is called\<close>

datatype 'b pass =
    Keep "rat option"              \<comment> \<open>poll again; when the prompt was given\<close>
  | Ends "'b res"

definition final_mark :: matcher where
  "final_mark = match_parts [L ''LEANOS/'', Skip1 is_digit, L '' FINAL '']"

definition prompt_at :: "rat option \<Rightarrow> rat option \<Rightarrow> rat \<Rightarrow> bytes \<Rightarrow> rat option" where
  \<comment> \<open>\<open>prompted\<close> after the first statement of the loop; the prompt is given when it changes\<close>
  "prompt_at production prompted now data =
     (case (production, prompted) of
        (Some seconds, None) \<Rightarrow> if search final_mark data \<noteq> None \<or> seconds + 180 < now then Some now else None
      | _ \<Rightarrow> prompted)"

definition wait_over :: "rat \<Rightarrow> rat option \<Rightarrow> rat \<Rightarrow> rat option \<Rightarrow> rat \<Rightarrow> bool" where
  "wait_over bound production window prompted now =
     (case production of None \<Rightarrow> bound \<le> now
      | Some _ \<Rightarrow> (case prompted of None \<Rightarrow> False | Some t \<Rightarrow> t + window \<le> now))"

definition POWER_CYCLE_MINUTES :: rat where "POWER_CYCLE_MINUTES = 15"

definition wait_pass :: "'b \<Rightarrow> rat \<Rightarrow> rat option \<Rightarrow> rat \<Rightarrow> 'b poll \<Rightarrow> rat option \<Rightarrow> 'b pass" where
  "wait_pass before bound production window p prompted =
     (case po_data p of Inl e \<Rightarrow> Ends (Inl e)
      | Inr data \<Rightarrow>
          let now = po_now p; prompted = prompt_at production prompted now data in
          if wait_over bound production window prompted now then
            Ends (raise ''no verified FreeBSD recovery before timeout; manual recovery may be needed'')
          else if bytes_in CHAIN_MARK data then
            (case po_boot p of Inl e \<Rightarrow> Ends (Inl e)
             | Inr None \<Rightarrow> Keep prompted
             | Inr (Some after) \<Rightarrow> if after \<noteq> before then Ends (Inr after) else Keep prompted)
          else Keep prompted)"

subsection \<open>The loop\<close>

partial_function (option) wait_from ::
  "'b \<Rightarrow> rat \<Rightarrow> rat option \<Rightarrow> rat \<Rightarrow> (nat \<Rightarrow> 'b poll) \<Rightarrow> nat \<Rightarrow> rat option \<Rightarrow> 'b res option" where
  "wait_from before bound production window polls i prompted =
     (case wait_pass before bound production window (polls i) prompted of
        Ends r \<Rightarrow> Some r
      | Keep prompted' \<Rightarrow> wait_from before bound production window polls (Suc i) prompted')"

definition wait_for_recovery :: "'b \<Rightarrow> rat \<Rightarrow> rat option \<Rightarrow> rat \<Rightarrow> (nat \<Rightarrow> 'b poll) \<Rightarrow> 'b res option" where
  "wait_for_recovery before bound production window polls = wait_from before bound production window polls 0 None"

section \<open>Properties\<close>

text \<open>The passes of a wait that ends, as a relation: from a pass with its prompt to the last one.\<close>

inductive passes ::
  "'b \<Rightarrow> rat \<Rightarrow> rat option \<Rightarrow> rat \<Rightarrow> (nat \<Rightarrow> 'b poll) \<Rightarrow> nat \<Rightarrow> rat option \<Rightarrow> nat \<Rightarrow> rat option \<Rightarrow> 'b res \<Rightarrow> bool"
  for before bound production window polls where
  last_pass: "wait_pass before bound production window (polls i) q = Ends r \<Longrightarrow>
    passes before bound production window polls i q i q r"
| next_pass: "wait_pass before bound production window (polls i) q = Keep q' \<Longrightarrow>
    passes before bound production window polls (Suc i) q' n qn r \<Longrightarrow> passes before bound production window polls i q n qn r"

lemma passes_wait: "passes before bound production window polls i q n qn r \<Longrightarrow>
    wait_from before bound production window polls i q = Some r"
  by (induction rule: passes.induct) (subst wait_from.simps, simp)+

lemma wait_passes:
  assumes ret: "wait_from before bound production window polls i q = Some r"
  shows "\<exists>n qn. passes before bound production window polls i q n qn r"
proof (rule wait_from.raw_induct [where P = "\<lambda>before bound production window polls i q r.
    \<exists>n qn. passes before bound production window polls i q n qn r", OF _ ret])
  fix wait :: "'a \<Rightarrow> rat \<Rightarrow> rat option \<Rightarrow> rat \<Rightarrow> (nat \<Rightarrow> 'a poll) \<Rightarrow> nat \<Rightarrow> rat option \<Rightarrow> 'a res option"
    and before :: 'a and bound production window and polls :: "nat \<Rightarrow> 'a poll" and i q and r :: "'a res"
  assume IH: "\<And>before bound production window polls i q r. wait before bound production window polls i q = Some r \<Longrightarrow>
      \<exists>n qn. passes before bound production window polls i q n qn r"
    and eq: "(case wait_pass before bound production window (polls i) q of Ends r \<Rightarrow> Some r
      | Keep q' \<Rightarrow> wait before bound production window polls (Suc i) q') = Some r"
  show "\<exists>n qn. passes before bound production window polls i q n qn r"
  proof (cases "wait_pass before bound production window (polls i) q")
    case (Keep q')
    with eq IH [of before bound production window polls "Suc i" q' r] show ?thesis by (auto intro: next_pass)
  next
    case (Ends s)
    with eq have "s = r" by simp
    with Ends show ?thesis by (blast intro: last_pass)
  qed
qed

lemma wait_iff_passes:
  "wait_from before bound production window polls i q = Some r \<longleftrightarrow> (\<exists>n qn. passes before bound production window polls i q n qn r)"
  using passes_wait wait_passes by metis

text \<open>What a pass did.\<close>

lemma wait_pass_Keep:
  assumes "wait_pass before bound production window p q = Keep q'"
  obtains data where "po_data p = Inr data" "q' = prompt_at production q (po_now p) data"
    "\<not> wait_over bound production window q' (po_now p)"
  using assms unfolding wait_pass_def Let_def
  by (auto split: sum.splits if_splits option.splits)

lemma wait_pass_Back:
  assumes "wait_pass before bound production window p q = Ends (Inr after)"
  obtains data where "po_data p = Inr data" "bytes_in CHAIN_MARK data" "po_boot p = Inr (Some after)" "after \<noteq> before"
    "\<not> wait_over bound production window (prompt_at production q (po_now p) data) (po_now p)"
  using assms unfolding wait_pass_def Let_def
  by (auto simp: res_simps split: sum.splits if_splits option.splits)

lemma prompt_at_some: "prompt_at production (Some t) now data = Some t"
  by (simp add: prompt_at_def split: option.splits)

lemma prompt_at_none: "prompt_at None q now data = q"
  by (simp add: prompt_at_def)

text \<open>Once the prompt was given it is not given again, and it was given at a pass before the present one.\<close>

lemma passes_le: "passes before bound production window polls i q n qn r \<Longrightarrow> i \<le> n"
  by (induction rule: passes.induct) simp_all

lemma passes_prompt: "passes before bound production window polls i (Some t) n qn r \<Longrightarrow> qn = Some t"
proof (induction i "Some t" n qn r rule: passes.induct)
  case (next_pass i q' n qn r)
  then show ?case by (auto elim!: wait_pass_Keep simp: prompt_at_some)
qed simp

definition clock_runs :: "(nat \<Rightarrow> 'b poll) \<Rightarrow> bool" where
  \<comment> \<open>\<^verbatim>\<open>elapsed()\<close> never goes back and passes every bound, since \<^verbatim>\<open>pause()\<close> sleeps\<close>
  "clock_runs polls \<longleftrightarrow> (\<forall>i j. i \<le> j \<longrightarrow> po_now (polls i) \<le> po_now (polls j)) \<and> (\<forall>t. \<exists>i. t \<le> po_now (polls i))"

lemma clock_runs_mono: "clock_runs polls \<Longrightarrow> i \<le> j \<Longrightarrow> po_now (polls i) \<le> po_now (polls j)"
  unfolding clock_runs_def by blast

lemma clock_runs_later:
  assumes "clock_runs polls"
  obtains k where "i \<le> k" "t \<le> po_now (polls k)"
proof -
  obtain k where k: "t \<le> po_now (polls k)" using assms unfolding clock_runs_def by blast
  with clock_runs_mono [OF assms, of k "max i k"] show ?thesis by (intro that [of "max i k"]) auto
qed

definition prompts :: "rat \<Rightarrow> 'b poll \<Rightarrow> bool" where
  \<comment> \<open>the operator is asked for the power cycle at this poll at the latest\<close>
  "prompts session p \<longleftrightarrow> session + 180 < po_now p \<or> (\<exists>data. po_data p = Inr data \<and> search final_mark data \<noteq> None)"

lemma passes_in_time:
  assumes "passes before bound production window polls i q n qn r" "i \<le> j" "j < n" "clock_runs polls"
    "\<forall>t. q = Some t \<longrightarrow> t \<le> po_now (polls i)"
  shows "\<exists>q'. \<not> wait_over bound production window q' (po_now (polls j)) \<and> (\<forall>t. q' = Some t \<longrightarrow> qn = Some t) \<and>
    (\<forall>s. production = Some s \<longrightarrow> q \<noteq> None \<or> (\<exists>k\<ge>i. k \<le> j \<and> prompts s (polls k)) \<longrightarrow> q' \<noteq> None) \<and> (\<forall>t. q' = Some t \<longrightarrow> t \<le> po_now (polls j))"
  using assms
proof (induction rule: passes.induct)
  case (next_pass i q q' n qn r)
  from next_pass(1) obtain data where data: "po_data (polls i) = Inr data"
    and d: "q' = prompt_at production q (po_now (polls i)) data"
    "\<not> wait_over bound production window q' (po_now (polls i))" by (rule wait_pass_Keep)
  have before: "\<forall>t. q' = Some t \<longrightarrow> t \<le> po_now (polls i)"
    using next_pass.prems(4) unfolding d(1) prompt_at_def by (auto split: option.splits if_splits)
  have prompted: "\<forall>s. production = Some s \<longrightarrow> q \<noteq> None \<or> prompts s (polls i) \<longrightarrow> q' \<noteq> None"
    using d(1) data unfolding prompts_def prompt_at_def by (auto split: option.splits)
  show ?case
  proof (cases "j = i")
    case True
    have "\<forall>t. q' = Some t \<longrightarrow> qn = Some t" using next_pass(2) passes_prompt by metis
    moreover note prompted
    ultimately show ?thesis using d(2) True before by (metis le_antisym)
  next
    case False
    have "\<forall>t. q' = Some t \<longrightarrow> t \<le> po_now (polls (Suc i))"
      using before clock_runs_mono [OF next_pass.prems(3), of i "Suc i"] by fastforce
    with next_pass.IH [OF _ next_pass.prems(2,3)] next_pass.prems(1) False
    obtain q'' where r: "\<not> wait_over bound production window q'' (po_now (polls j))" "\<forall>t. q'' = Some t \<longrightarrow> qn = Some t"
      "\<forall>s. production = Some s \<longrightarrow> q' \<noteq> None \<or> (\<exists>k\<ge>Suc i. k \<le> j \<and> prompts s (polls k)) \<longrightarrow> q'' \<noteq> None"
      "\<forall>t. q'' = Some t \<longrightarrow> t \<le> po_now (polls j)" by auto
    from r(3) prompted have "\<forall>s. production = Some s \<longrightarrow> q \<noteq> None \<or> (\<exists>k\<ge>i. k \<le> j \<and> prompts s (polls k)) \<longrightarrow> q'' \<noteq> None"
      by (metis le_antisym not_less_eq_eq)
    with r show ?thesis by blast
  qed
qed simp

lemma wait_ends_later:
  assumes "\<And>q. \<exists>r. wait_from before bound production window polls k q = Some r" "i \<le> k"
  shows "\<exists>r. wait_from before bound production window polls i q = Some r"
  using assms(2)
proof (induction arbitrary: q rule: inc_induct)
  case (step i)
  then show ?case by (subst wait_from.simps) (auto split: pass.splits)
qed (rule assms(1))

lemma wait_ends_prompted:
  assumes "t + window \<le> po_now (polls k)" "i \<le> k" "production = Some s"
  shows "\<exists>r. wait_from before bound production window polls i (Some t) = Some r"
  using assms(2)
proof (induction rule: inc_induct)
  case base
  have "wait_over bound production window (Some t) (po_now (polls k))" using assms by (simp add: wait_over_def)
  then show ?case by (subst wait_from.simps) (auto simp: wait_pass_def Let_def prompt_at_some split: sum.splits)
next
  case (step i)
  then show ?case by (subst wait_from.simps) (auto simp: prompt_at_some elim!: wait_pass_Keep split: pass.splits)
qed

lemma wait_ends:
  assumes "clock_runs polls"
  shows "\<exists>r. wait_from before bound production window polls i q = Some r"
proof (cases production)
  case None
  obtain k where k: "i \<le> k" "bound \<le> po_now (polls k)" using clock_runs_later [OF assms] .
  have "\<exists>r. wait_from before bound production window polls k q = Some r" for q
    using k(2) None by (subst wait_from.simps) (auto simp: wait_pass_def wait_over_def Let_def split: sum.splits)
  then show ?thesis using k(1) by (rule wait_ends_later)
next
  case (Some s)
  obtain k where k: "i \<le> k" "s + 181 \<le> po_now (polls k)" using clock_runs_later [OF assms] .
  have "\<exists>r. wait_from before bound production window polls k q = Some r" for q
  proof (cases "wait_pass before bound production window (polls k) q")
    case (Keep q')
    then obtain data where "q' = prompt_at production q (po_now (polls k)) data" by (rule wait_pass_Keep)
    with Some k(2) obtain t where t: "q' = Some t" by (cases q) (auto simp: prompt_at_def)
    obtain m where "Suc k \<le> m" "t + window \<le> po_now (polls m)" using clock_runs_later [OF assms] .
    with wait_ends_prompted Some Keep t show ?thesis by (subst wait_from.simps) auto
  qed (subst wait_from.simps, simp)
  then show ?thesis using k(1) by (rule wait_ends_later)
qed

text \<open>
  C16 (liveness). The wait ends: since the clock runs on, it returns or raises after finitely many polls,
  whatever the capture and FreeBSD do.  For a lab image every poll but the last comes before the bound.
  For a production image every poll but the last comes less than the power cycle time after any poll
  that sees a FINAL line in the capture or comes more than three minutes after the session.
\<close>

theorem recovery_wait_ends:
  assumes "clock_runs polls" "0 < window"
  shows "\<exists>r n prompted. wait_for_recovery before bound production window polls = Some r \<and>
    passes before bound production window polls 0 None n prompted r \<and>
    (case production of None \<Rightarrow> (\<forall>j<n. po_now (polls j) < bound)
     | Some s \<Rightarrow> (\<forall>k j. s + 180 < po_now (polls k) \<or> (\<exists>data. po_data (polls k) = Inr data \<and> search final_mark data \<noteq> None) \<longrightarrow>
         j < n \<longrightarrow> po_now (polls j) < po_now (polls k) + window))"
proof -
  obtain r where r: "wait_from before bound production window polls 0 None = Some r" using wait_ends [OF assms(1)] by blast
  then obtain n qn where p: "passes before bound production window polls 0 None n qn r" using wait_passes by metis
  have None: "po_now (polls j) < bound" if "production = None" "j < n" for j
    using passes_in_time [OF p _ that(2) assms(1)] that(1) by (fastforce simp: wait_over_def)
  have Some: "po_now (polls j) < po_now (polls k) + window" if s: "production = Some s" "prompts s (polls k)" "j < n" for s j k
  proof (cases "j \<le> k")
    case True
    with clock_runs_mono [OF assms(1) True] assms(2) show ?thesis by simp
  next
    case False
    then have le: "po_now (polls k) \<le> po_now (polls j)" "k < n" "k \<le> j" using clock_runs_mono [OF assms(1), of k j] s(3) by simp_all
    obtain q where q: "\<forall>t. q = Some t \<longrightarrow> qn = Some t" "q \<noteq> None" "\<forall>t. q = Some t \<longrightarrow> t \<le> po_now (polls k)"
      using passes_in_time [OF p _ le(2) assms(1)] s by auto
    obtain q' where q': "\<not> wait_over bound production window q' (po_now (polls j))" "\<forall>t. q' = Some t \<longrightarrow> qn = Some t" "q' \<noteq> None"
      using passes_in_time [OF p _ s(3) assms(1)] s le(3) by auto
    from q q' obtain t where "q' = Some t" "t \<le> po_now (polls k)" by auto
    with q'(1) s(1) show ?thesis by (simp add: wait_over_def)
  qed
  show ?thesis using r p None Some unfolding wait_for_recovery_def prompts_def by (cases production) auto
qed

text \<open>
  The boot time that the wait returns is FreeBSD's new one: at the last poll the capture holds
  the chain marker, FreeBSD answered with this boot time, which is not the one before the run, and the
  wait had not run out; for a lab image no power cycle is asked for.
\<close>

theorem recovery_wait_verified:
  assumes "wait_for_recovery before bound production window polls = Some (Inr after)"
  shows "\<exists>n prompted data. passes before bound production window polls 0 None n prompted (Inr after) \<and>
    po_data (polls n) = Inr data \<and> bytes_in CHAIN_MARK data \<and> po_boot (polls n) = Inr (Some after) \<and> after \<noteq> before \<and>
    \<not> wait_over bound production window (prompt_at production prompted (po_now (polls n)) data) (po_now (polls n)) \<and>
    (production = None \<longrightarrow> prompted = None \<and> po_now (polls n) < bound)"
proof -
  from assms obtain n qn where p: "passes before bound production window polls 0 None n qn (Inr after)"
    unfolding wait_for_recovery_def using wait_passes by metis
  have last: "passes before bound production window polls i q n qn r \<Longrightarrow>
      wait_pass before bound production window (polls n) qn = Ends r \<and> (production = None \<longrightarrow> q = None \<longrightarrow> qn = None)"
    for i q n qn r
    by (induction rule: passes.induct) (auto elim!: wait_pass_Keep simp: prompt_at_none)
  from last [OF p] obtain data where "po_data (polls n) = Inr data" "bytes_in CHAIN_MARK data" "po_boot (polls n) = Inr (Some after)"
    "after \<noteq> before" "\<not> wait_over bound production window (prompt_at production qn (po_now (polls n)) data) (po_now (polls n))"
    by (blast elim: wait_pass_Back)
  with p last [OF p] show ?thesis by (intro exI [of _ n] exI [of _ qn] exI [of _ data]) (auto simp: wait_over_def)
qed

end
