(* ===== verification/Clock.thy ===== *)
theory Clock
  imports Watchdog
begin

text \<open>
  The clock of the board: \<^verbatim>\<open>watchdog_request\<close>, which names the minute of a watchdog trial after the board's
  clock, and \<^verbatim>\<open>classify_rtc\<close>, which measures how far the clock advanced during a probe, both of
  \<^verbatim>\<open>run-qotom-recovery-lab.py\<close>, with the part of \<^verbatim>\<open>datetime\<close> they use.  Characters are those up to code 255.
\<close>

subsection \<open>Dates and times\<close>

record datetime =
  dt_year :: int
  dt_month :: int
  dt_day :: int
  dt_hour :: int
  dt_minute :: int
  dt_second :: int
  dt_micro :: int

definition leap_year :: "int \<Rightarrow> bool" where
  "leap_year y \<longleftrightarrow> y mod 4 = 0 \<and> (y mod 100 \<noteq> 0 \<or> y mod 400 = 0)"

definition days_in_month :: "int \<Rightarrow> int \<Rightarrow> int" where
  "days_in_month y m = (if m = 2 then if leap_year y then 29 else 28 else if m \<in> {4, 6, 9, 11} then 30 else 31)"

definition days_before_year :: "int \<Rightarrow> int" where
  "days_before_year y = (let z = y - 1 in z * 365 + z div 4 - z div 100 + z div 400)"

definition days_before_month :: "int \<Rightarrow> int \<Rightarrow> int" where
  "days_before_month y m = sum_list (map (days_in_month y) [1..m - 1])"

definition date_ordinal :: "datetime \<Rightarrow> int" where
  \<comment> \<open>\<^verbatim>\<open>toordinal()\<close>: 1 January of year 1 is day 1\<close>
  "date_ordinal t = days_before_year (dt_year t) + days_before_month (dt_year t) (dt_month t) + dt_day t"

definition date_ok :: "datetime \<Rightarrow> bool" where
  "date_ok t \<longleftrightarrow> 1 \<le> dt_year t \<and> dt_year t \<le> 9999 \<and> 1 \<le> dt_month t \<and> dt_month t \<le> 12 \<and>
     1 \<le> dt_day t \<and> dt_day t \<le> days_in_month (dt_year t) (dt_month t)"

definition time_ok :: "datetime \<Rightarrow> bool" where
  "time_ok t \<longleftrightarrow> 0 \<le> dt_hour t \<and> dt_hour t \<le> 23 \<and> 0 \<le> dt_minute t \<and> dt_minute t \<le> 59 \<and>
     0 \<le> dt_second t \<and> dt_second t \<le> 59 \<and> 0 \<le> dt_micro t \<and> dt_micro t \<le> 999999"

definition datetime_of :: "int list \<Rightarrow> datetime res" where
  \<comment> \<open>\<^verbatim>\<open>datetime.datetime(*args)\<close>, of nonnegative integers; the eighth would be a time zone\<close>
  "datetime_of v =
     (let arg = (\<lambda>i. if i < length v then v ! i else 0);
          t = \<lparr>dt_year = arg 0, dt_month = arg 1, dt_day = arg 2, dt_hour = arg 3, dt_minute = arg 4, dt_second = arg 5,
            dt_micro = arg 6\<rparr> in
      if 9 < length v then Inl TypeError
      else if list_ex (\<lambda>n. 0x7fffffff < n) (take 7 v) then Inl OverflowError
      else if length v < 3 \<or> length v = 9 then Inl TypeError
      else raise_if (\<not> date_ok t) ''date out of range'' (raise_if (\<not> time_ok t) ''time out of range''
        (if length v = 8 then Inl TypeError else Inr t)))"

definition instant :: "datetime \<Rightarrow> rat" where
  \<comment> \<open>seconds; the difference of two instants is \<^verbatim>\<open>total_seconds()\<close> of the difference of the times\<close>
  "instant t = of_int (((date_ordinal t * 24 + dt_hour t) * 60 + dt_minute t) * 60 + dt_second t) + of_int (dt_micro t) / 1000000"

definition zero_padded :: "nat \<Rightarrow> int \<Rightarrow> string" where
  \<comment> \<open>\<^verbatim>\<open>'%0wd'\<close> of a number that is not negative\<close>
  "zero_padded w n = replicate (w - length (decimal (nat n))) CHR ''0'' @ decimal (nat n)"

definition isoformat :: "datetime \<Rightarrow> string" where
  "isoformat t = zero_padded 4 (dt_year t) @ ''-'' @ zero_padded 2 (dt_month t) @ ''-'' @ zero_padded 2 (dt_day t) @ ''T'' @
     zero_padded 2 (dt_hour t) @ '':'' @ zero_padded 2 (dt_minute t) @ '':'' @ zero_padded 2 (dt_second t) @
     (if dt_micro t = 0 then [] else ''.'' @ zero_padded 6 (dt_micro t))"

subsection \<open>Reading a time\<close>

definition digit_in :: "nat \<Rightarrow> nat \<Rightarrow> char \<Rightarrow> bool" where
  "digit_in a b c \<longleftrightarrow> 48 + a \<le> (of_char c :: nat) \<and> (of_char c :: nat) \<le> 48 + b"

fun scan_chars :: "(char \<Rightarrow> bool) list \<Rightarrow> string \<Rightarrow> (string \<times> string) option" where
  "scan_chars [] s = Some ([], s)"
| "scan_chars (P # Ps) [] = None"
| "scan_chars (P # Ps) (c # s) = (if P c then map_option (\<lambda>(t, r). (c # t, r)) (scan_chars Ps s) else None)"

fun scan_field :: "(char \<Rightarrow> bool) list list \<Rightarrow> string \<Rightarrow> (string \<times> string) option" where
  \<comment> \<open>the first alternative that matches: a shorter one would leave a digit before the separator\<close>
  "scan_field [] s = None"
| "scan_field (alt # alts) s = (case scan_chars alt s of Some x \<Rightarrow> Some x | None \<Rightarrow> scan_field alts s)"

type_synonym directive = "(char \<Rightarrow> bool) list list"

abbreviation any_digit :: "char \<Rightarrow> bool" where "any_digit \<equiv> digit_in 0 9"

definition DIRECTIVES :: "(directive \<times> (char \<Rightarrow> bool)) list" where
  \<comment> \<open>\<^verbatim>\<open>%Y-%m-%dT%H:%M\<close> with the separators, which ignore case, after them\<close>
  "DIRECTIVES =
     [([[any_digit, any_digit, any_digit, any_digit]], \<lambda>c. c = CHR ''-''),
      ([[digit_in 1 1, digit_in 0 2], [digit_in 0 0, digit_in 1 9], [digit_in 1 9]], \<lambda>c. c = CHR ''-''),
      ([[digit_in 3 3, digit_in 0 1], [digit_in 1 2, any_digit], [digit_in 0 0, digit_in 1 9], [digit_in 1 9],
        [\<lambda>c. c = CHR '' '', digit_in 1 9]], \<lambda>c. c = CHR ''T'' \<or> c = CHR ''t''),
      ([[digit_in 2 2, digit_in 0 3], [digit_in 0 1, any_digit], [any_digit]], \<lambda>c. c = CHR '':''),
      ([[digit_in 0 5, any_digit], [any_digit]], \<lambda>c. c = CHR '':'')]"

definition SECONDS_DIRECTIVE :: directive where
  "SECONDS_DIRECTIVE = [[digit_in 6 6, digit_in 0 1], [digit_in 0 5, any_digit], [any_digit]]"

fun scan_fields :: "(directive \<times> (char \<Rightarrow> bool)) list \<Rightarrow> string \<Rightarrow> (string list \<times> string) option" where
  "scan_fields [] s = Some ([], s)"
| "scan_fields ((d, sep) # ds) s =
     (case scan_field d s of
        Some (t, c # r) \<Rightarrow> if sep c then map_option (\<lambda>(ts, r). (t # ts, r)) (scan_fields ds r) else None
      | _ \<Rightarrow> None)"

definition strptime :: "string \<Rightarrow> datetime res" where
  \<comment> \<open>\<^verbatim>\<open>datetime.datetime.strptime(s, '%Y-%m-%dT%H:%M:%S')\<close>; the messages of the library are shortened\<close>
  "strptime s =
     (case scan_fields DIRECTIVES s of None \<Rightarrow> raise ''time data does not match format''
      | Some (ts, r) \<Rightarrow>
          (case scan_field SECONDS_DIRECTIVE r of None \<Rightarrow> raise ''time data does not match format''
           | Some (t, r) \<Rightarrow> raise_if (r \<noteq> []) ''unconverted data remains'' (bind (py_ints (ts @ [t])) datetime_of)))"

definition line_boundary :: "char \<Rightarrow> bool" where
  "line_boundary c \<longleftrightarrow> (of_char c :: nat) \<in> {10, 11, 12, 13, 28, 29, 30, 133}"

fun str_splitlines :: "string \<Rightarrow> string list" where
  \<comment> \<open>\<^verbatim>\<open>str.splitlines()\<close>\<close>
  "str_splitlines [] = []"
| "str_splitlines (c # s) =
     (if c = CR \<and> s \<noteq> [] \<and> hd s = LF then [] # str_splitlines (tl s)
      else if line_boundary c then [] # str_splitlines s
      else (case str_splitlines s of [] \<Rightarrow> [[c]] | l # ls \<Rightarrow> (c # l) # ls))"

subsection \<open>The request of a watchdog trial\<close>

definition request_prefix_ok :: "string \<Rightarrow> bool" where
  "request_prefix_ok p \<longleftrightarrow> p = ''watchdog-test'' \<or>
     fullmatch_parts [L ''watchdog-'', Alt [''kernel'', ''leanos''], L ''-'', Item (Hex 64)] p \<noteq> None"

definition request_name :: "string \<Rightarrow> datetime \<Rightarrow> string" where
  "request_name p t = p @ ''-'' @ decimal (nat (dt_year t)) @ ''-'' @ decimal (nat (dt_month t)) @ ''-'' @
     decimal (nat (dt_day t)) @ ''-'' @ decimal (nat (dt_hour t)) @ ''-'' @ decimal (nat (dt_minute t))"

definition watchdog_request :: "string \<Rightarrow> string \<Rightarrow> string option res" where
  "watchdog_request clock_text p =
     raise_if (\<not> request_prefix_ok p) ''invalid watchdog request prefix''
     (let lines = str_splitlines clock_text in
      raise_if (length lines \<noteq> 2 \<or> lines ! 0 \<noteq> ''0'') ''watchdog trial requires the verified UTC CMOS convention''
      (bind (strptime (lines ! 1)) (\<lambda>stamp.
       raise_if (\<not> (2026 \<le> dt_year stamp \<and> dt_year stamp \<le> 2099)) ''implausible board clock''
       (Inr (if 25 < dt_second stamp then None else Some (request_name p stamp))))))"

subsection \<open>The clock probe\<close>

definition RTC_BREAK :: part where
  "RTC_BREAK = Alt [[CR, LF], [LF, CR], [LF]]"

definition is_stamp_char :: "char \<Rightarrow> bool" where
  "is_stamp_char c \<longleftrightarrow> is_digit c \<or> c = CHR ''-''"

definition rtc_record :: matcher where
  \<comment> \<open>groups 0 and 3 are those of the source, the others the line breaks; a line break is followed by
    a letter, so the longest one is the only one that can match\<close>
  "rtc_record = match_parts
     [L ''LEANOS-LAB/1 RTC-BEGIN '', Some1 is_stamp_char, RTC_BREAK, L ''LEANOS-LAB/1 RTC-CURRENT accepted=1'', RTC_BREAK,
      L ''LEANOS-LAB/1 RTC-END '', Some1 is_stamp_char, RTC_BREAK, L ''LEANOS-LAB/1 RTC-EXPIRED rejected=1'', RTC_BREAK]"

definition stamp_of :: "bytes \<Rightarrow> datetime res" where
  "stamp_of stamp = bind (py_ints (split_on CHR ''-'' stamp)) datetime_of"

record rtc_result =
  rt_begin :: string
  rt_end :: string
  rt_advance :: rat
  rt_sha256 :: string

definition classify_rtc :: "timed_log \<Rightarrow> rtc_result res" where
  "classify_rtc entries =
     raise_if (goes_back entries) ''nonmonotonic capture timestamps''
     (let data = timed_bytes entries in
      bind (some_or ''missing, repeated, or invalid RTC expiry probe trace'' (search rtc_record data)) (\<lambda>m.
      raise_if (bytes_count ''LEANOS-LAB/1 RTC-'' data \<noteq> 4 \<or> bytes_in ''WATCHDOG-ARMED'' data \<or> bytes_in ''LEANOS/'' data \<or>
          bytes_count CHAIN_MARK data \<noteq> 1 \<or> find_pos CHAIN_MARK data < int (mend m))
        ''missing, repeated, or invalid RTC expiry probe trace''
      (bind (stamp_of (mgroups m ! 0)) (\<lambda>start.
       bind (stamp_of (mgroups m ! 3)) (\<lambda>stop.
       let advance = instant stop - instant start in
       raise_if (\<not> (64 \<le> advance \<and> advance \<le> 75)) ''RTC did not advance by the bounded probe interval''
       (Inr \<lparr>rt_begin = isoformat start, rt_end = isoformat stop, rt_advance = advance, rt_sha256 = sha256_hex data\<rparr>))))))"

section \<open>Properties\<close>

subsection \<open>The calendar\<close>

definition next_date :: "datetime \<Rightarrow> datetime" where
  "next_date t =
     (if dt_day t < days_in_month (dt_year t) (dt_month t) then t\<lparr>dt_day := dt_day t + 1\<rparr>
      else if dt_month t < 12 then t\<lparr>dt_month := dt_month t + 1, dt_day := 1\<rparr>
      else t\<lparr>dt_year := dt_year t + 1, dt_month := 1, dt_day := 1\<rparr>)"

lemma days_before_month_Suc: "1 \<le> m \<Longrightarrow> days_before_month y (m + 1) = days_before_month y m + days_in_month y m"
  by (simp add: days_before_month_def upto_rec2)

lemma days_before_month_December: "days_before_month y 12 + days_in_month y 12 = (if leap_year y then 366 else 365)"
  by (simp add: days_before_month_def days_in_month_def upto.simps)

lemma leap_days: "y div 4 - y div 100 + y div 400 - ((y - 1) div 4 - (y - 1) div 100 + (y - 1) div 400) = (if leap_year y then 1 else (0 :: int))"
proof -
  have step: "y div k - (y - 1) div k = (if y mod k = 0 then 1 else 0)" if k: "0 < k" for k :: int
  proof -
    obtain r q where qr: "y = r + 1 + q * k" "(y - 1) div k = q" "0 \<le> r" "r < k"
      using k div_mult_mod_eq [of "y - 1" k] by (intro that [of "(y - 1) mod k" "(y - 1) div k"]) simp_all
    have "(r + 1) div k = (if (r + 1) mod k = 0 then 1 else 0)"
    proof (cases "r + 1 = k")
      case False
      with qr have "r + 1 < k" by simp
      with qr show ?thesis by simp
    qed (use \<open>0 < k\<close> in simp)
    moreover have "y div k = q + (r + 1) div k" "y mod k = (r + 1) mod k" using \<open>0 < k\<close> unfolding qr(1) by simp_all
    ultimately show ?thesis unfolding qr(2) by simp
  qed
  have total_of: "a - b + c - (a' - b' + c') = (if P \<and> (\<not> Q \<or> R) then 1 else 0)"
    if "a - a' = (if P then 1 else 0)" "b - b' = (if Q then 1 else 0)" "c - c' = (if R then 1 else 0)" "Q \<longrightarrow> P" "R \<longrightarrow> Q"
    for a a' b b' c c' :: int and P Q R
    using that by (auto split: if_splits)
  show ?thesis
    unfolding leap_year_def
  proof (rule total_of)
    show "y mod 100 = 0 \<longrightarrow> y mod 4 = 0" "y mod 400 = 0 \<longrightarrow> y mod 100 = 0"
      using dvd_trans [of 4 100 y] dvd_trans [of 100 400 y] by (simp_all add: mod_eq_0_iff_dvd)
  qed (simp_all only: step zero_less_numeral)
qed

lemma ordinal_next:
  assumes "date_ok t"
  shows "date_ordinal (next_date t) = date_ordinal t + 1"
proof -
  have "days_before_year (y + 1) = days_before_year y + (if leap_year y then 366 else 365)" for y
    using leap_days [of y] unfolding days_before_year_def Let_def by (simp add: algebra_simps split: if_splits)
  moreover have "days_before_month y 1 = 0" for y by (simp add: days_before_month_def)
  ultimately show ?thesis
    using assms days_before_month_Suc [of "dt_month t" "dt_year t"] days_before_month_December [of "dt_year t"]
    unfolding date_ordinal_def next_date_def date_ok_def by (cases "dt_month t = 12") auto
qed

subsection \<open>Requests\<close>

lemma scan_chars_append:
  "length Ps \<le> length s \<Longrightarrow> scan_chars Ps (s @ u) = map_option (\<lambda>(t, r). (t, r @ u)) (scan_chars Ps s)"
proof (induction Ps s rule: scan_chars.induct)
  case (3 P Ps c s)
  then show ?case by (cases "scan_chars Ps s") auto
qed simp_all

lemma scan_field_append:
  "\<forall>alt\<in>set alts. length alt \<le> length s \<Longrightarrow> scan_field alts (s @ u) = map_option (\<lambda>(t, r). (t, r @ u)) (scan_field alts s)"
  by (induction alts) (auto simp: scan_chars_append split: option.splits)

text \<open>Every field prints as a text its directive reads.\<close>

definition field_reads :: "directive \<Rightarrow> nat \<Rightarrow> int \<Rightarrow> bool" where
  "field_reads d w n \<longleftrightarrow> scan_field d (zero_padded w n) = Some (zero_padded w n, []) \<and> list_all (\<lambda>alt. length alt \<le> w) d \<and>
     py_int (zero_padded w n) = Inr n \<and> length (zero_padded w n) = w \<and> list_all (\<lambda>c. \<not> line_boundary c) (zero_padded w n)"

lemma field_reads_append:
  "field_reads d w n \<Longrightarrow> scan_field d (zero_padded w n @ u) = Some (zero_padded w n, u)"
  unfolding field_reads_def using scan_field_append [of d "zero_padded w n" u] by (auto simp: list_all_iff)

lemma digit_char_code: "k < 10 \<Longrightarrow> of_char (digit_char k) = (48 + k :: nat)"
proof -
  have "list_all (\<lambda>k. of_char (digit_char k) = 48 + k) [0..<10]" by code_simp
  then show "k < 10 \<Longrightarrow> ?thesis" by (simp add: list_all_iff)
qed

lemma digit_in_digit [simp]: "k < 10 \<Longrightarrow> digit_in a b (digit_char k) \<longleftrightarrow> a \<le> k \<and> k \<le> b"
  by (simp add: digit_in_def digit_char_code)

lemma digit_char_not_space [simp]: "k < 10 \<Longrightarrow> digit_char k \<noteq> CHR '' ''"
  using digit_char_code [of k] by auto

lemma digit_boundary: "k < 10 \<Longrightarrow> \<not> line_boundary (digit_char k)"
  by (simp add: line_boundary_def digit_char_code)

lemma digits_int:
  assumes "\<forall>k\<in>set ks. k < 10" "ks \<noteq> []" "length ks < 10"
  shows "py_int (map digit_char ks) = Inr (dec_value (map digit_char ks))"
  using assms by (intro py_int_digits) (auto simp: is_digit_digit_char)

lemma decimal_step: "10 \<le> n \<Longrightarrow> decimal n = decimal (n div 10) @ [digit_char (n mod 10)]"
  by (subst decimal.simps) simp

lemma decimal_one: "n < 10 \<Longrightarrow> decimal n = [digit_char n]"
  by (subst decimal.simps) simp

lemma two_digits:
  assumes "q < 10" "r < 10"
  shows "zero_padded 2 (int (10 * q + r)) = [digit_char q, digit_char r]"
proof (cases "q = 0")
  case True
  moreover have "digit_char 0 = CHR ''0''" by code_simp
  ultimately show ?thesis using assms by (simp add: zero_padded_def decimal_one)
next
  case False
  have "nat (10 * int q + int r) = 10 * q + r" by linarith
  with False assms show ?thesis by (simp add: zero_padded_def decimal_step decimal_one)
qed

lemma read_two:
  assumes "0 \<le> n" "n < 100" "list_all (\<lambda>alt. length alt \<le> 2) d"
    "\<And>q r. q < 10 \<Longrightarrow> r < 10 \<Longrightarrow> n = int (10 * q + r) \<Longrightarrow>
       scan_field d [digit_char q, digit_char r] = Some ([digit_char q, digit_char r], [])"
  shows "field_reads d 2 n"
proof -
  define q r where "q = nat n div 10" and "r = nat n mod 10"
  then have n: "n = int (10 * q + r)" "q < 10" "r < 10" using assms(1,2) by (simp_all add: less_mult_imp_div_less)
  have "py_int [digit_char q, digit_char r] = Inr n"
    using digits_int [of "[q, r]"] n by (simp add: digit_val_digit_char dec_value_def)
  moreover have "zero_padded 2 n = [digit_char q, digit_char r]" unfolding n(1) using n(2,3) by (rule two_digits)
  moreover have "scan_field d [digit_char q, digit_char r] = Some ([digit_char q, digit_char r], [])" using assms(4) n by blast
  ultimately show ?thesis
    unfolding field_reads_def using assms(3) n(2,3) by (simp add: digit_boundary)
qed

lemma month_read: "1 \<le> n \<Longrightarrow> n \<le> 12 \<Longrightarrow> field_reads (fst (DIRECTIVES ! 1)) 2 n"
  by (rule read_two) (auto simp: DIRECTIVES_def)

lemma day_read: "1 \<le> n \<Longrightarrow> n \<le> 31 \<Longrightarrow> field_reads (fst (DIRECTIVES ! 2)) 2 n"
  by (rule read_two) (auto simp: DIRECTIVES_def)

lemma hour_read: "0 \<le> n \<Longrightarrow> n \<le> 23 \<Longrightarrow> field_reads (fst (DIRECTIVES ! 3)) 2 n"
  by (rule read_two) (auto simp: DIRECTIVES_def)

lemma minute_read: "0 \<le> n \<Longrightarrow> n \<le> 59 \<Longrightarrow> field_reads (fst (DIRECTIVES ! 4)) 2 n"
  by (rule read_two) (auto simp: DIRECTIVES_def)

lemma second_read: "0 \<le> n \<Longrightarrow> n \<le> 59 \<Longrightarrow> field_reads SECONDS_DIRECTIVE 2 n"
  by (rule read_two) (auto simp: SECONDS_DIRECTIVE_def)

lemma year_read:
  assumes "1000 \<le> n" "n \<le> 9999"
  shows "field_reads (fst (DIRECTIVES ! 0)) 4 n"
proof -
  define m a b c e where "m = nat n" "a = m div 1000" "b = m div 100 mod 10" "c = m div 10 mod 10" "e = m mod 10"
  have d: "decimal m = [digit_char a, digit_char b, digit_char c, digit_char e]" and lt: "a < 10" "b < 10" "c < 10" "e < 10"
    using assms unfolding m_a_b_c_e_def by (auto simp: decimal_step decimal_one div_mult2_eq [symmetric])
  have m: "m = 1000 * a + 100 * b + 10 * c + e"
  proof -
    have "m div 100 = m div 10 div 10" "m div 1000 = m div 100 div 10" by (simp_all add: div_mult2_eq [symmetric])
    with div_mult_mod_eq [of m 10] div_mult_mod_eq [of "m div 10" 10] div_mult_mod_eq [of "m div 100" 10]
    show ?thesis unfolding m_a_b_c_e_def(2-5) by linarith
  qed
  have "py_int (decimal m) = Inr n"
    using digits_int [of "[a, b, c, e]"] lt m assms m_a_b_c_e_def(1) unfolding d
    by (simp add: digit_val_digit_char dec_value_def)
  moreover have "zero_padded 4 n = decimal m" using d m_a_b_c_e_def(1) by (simp add: zero_padded_def)
  ultimately show ?thesis
    unfolding field_reads_def using lt d by (simp add: DIRECTIVES_def digit_boundary)
qed

lemma str_splitlines_line:
  "list_all (\<lambda>c. \<not> line_boundary c) l \<Longrightarrow> str_splitlines (l @ LF # s) = l # str_splitlines s"
proof (induction l)
  case Nil
  have "line_boundary LF" by code_simp
  then show ?case by simp
next
  case (Cons c l)
  moreover have "line_boundary CR" by code_simp
  ultimately show ?case by auto
qed

lemma field_text:
  assumes "field_reads d w n"
  shows "py_int (zero_padded w n) = Inr n" "list_all (\<lambda>c. \<not> line_boundary c) (zero_padded w n)"
  using assms unfolding field_reads_def by simp_all

lemma separators: "\<not> line_boundary CHR ''-''" "\<not> line_boundary CHR ''T''" "\<not> line_boundary CHR '':''" "\<not> line_boundary CHR ''0''"
  by code_simp+

lemma strptime_isoformat:
  assumes "date_ok t" "time_ok t" "dt_micro t = 0" "1000 \<le> dt_year t"
  shows "strptime (isoformat t) = Inr t" "list_all (\<lambda>c. \<not> line_boundary c) (isoformat t)"
proof -
  have dim: "days_in_month y m \<le> 31" for y m by (simp add: days_in_month_def)
  have day: "dt_day t \<le> 31" using assms(1) dim [of "dt_year t" "dt_month t"] unfolding date_ok_def by linarith
  have r: "field_reads (fst (DIRECTIVES ! 0)) 4 (dt_year t)" "field_reads (fst (DIRECTIVES ! 1)) 2 (dt_month t)"
    "field_reads (fst (DIRECTIVES ! 2)) 2 (dt_day t)" "field_reads (fst (DIRECTIVES ! 3)) 2 (dt_hour t)"
    "field_reads (fst (DIRECTIVES ! 4)) 2 (dt_minute t)" "field_reads SECONDS_DIRECTIVE 2 (dt_second t)"
    using assms day unfolding date_ok_def time_ok_def
    by (simp_all add: year_read month_read [simplified] day_read [simplified] hour_read [simplified] minute_read [simplified]
        second_read)
  note scan = r [THEN field_reads_append, unfolded DIRECTIVES_def, simplified]
  have v: "datetime_of [dt_year t, dt_month t, dt_day t, dt_hour t, dt_minute t, dt_second t] = Inr t"
    using assms day unfolding datetime_of_def date_ok_def time_ok_def Let_def
    by (cases t) (simp add: eval_simps)
  show "strptime (isoformat t) = Inr t"
    unfolding strptime_def isoformat_def DIRECTIVES_def using assms(3) scan(6) [of "[]"]
    by (simp add: scan r [THEN field_text(1)] v eval_simps)
  show "list_all (\<lambda>c. \<not> line_boundary c) (isoformat t)"
    unfolding isoformat_def using assms(3) by (simp add: separators r [THEN field_text(2)])
qed

text \<open>
  C17 (functional). For a valid clock in the accepted years, read as the board prints it, the request is
  made only in the first 26 seconds of the minute and then names exactly this minute.
\<close>

theorem request_names_minute:
  assumes "date_ok t" "time_ok t" "dt_micro t = 0" "2026 \<le> dt_year t" "dt_year t \<le> 2099" "request_prefix_ok p"
  shows "watchdog_request (''0'' @ NL @ isoformat t @ NL) p = Inr (if 25 < dt_second t then None else Some (request_name p t))"
proof -
  have s: "strptime (isoformat t) = Inr t" "list_all (\<lambda>c. \<not> line_boundary c) (isoformat t)"
    using strptime_isoformat [OF assms(1-3)] assms(4) by simp_all
  have "str_splitlines (''0'' @ NL @ isoformat t @ NL) = [''0'', isoformat t]"
    using str_splitlines_line [of "''0''" "isoformat t @ NL"] str_splitlines_line [OF s(2), of "[]"] by (simp add: separators)
  then show ?thesis unfolding watchdog_request_def Let_def using assms s(1) by (simp add: eval_simps)
qed

subsection \<open>The probe\<close>

lemma datetime_of_ok: "datetime_of v = Inr t \<Longrightarrow> date_ok t \<and> time_ok t"
  unfolding datetime_of_def Let_def by (auto simp: res_simps split: if_splits)

text \<open>
  A probe is accepted only when its two stamps are real times, the second 64 to 75 seconds after the first, and
  the log holds one probe, no watchdog arm, no kernel output, and one chain marker after it.
\<close>

lemma rtc_advance_bounded:
  assumes "classify_rtc entries = Inr r"
  shows "\<exists>m start stop. search rtc_record (timed_bytes entries) = Some m \<and> stamp_of (mgroups m ! 0) = Inr start \<and>
    stamp_of (mgroups m ! 3) = Inr stop \<and> date_ok start \<and> time_ok start \<and> date_ok stop \<and> time_ok stop \<and>
    rt_advance r = instant stop - instant start \<and> 64 \<le> rt_advance r \<and> rt_advance r \<le> 75 \<and>
    \<not> bytes_in ''WATCHDOG-ARMED'' (timed_bytes entries) \<and> \<not> bytes_in ''LEANOS/'' (timed_bytes entries) \<and>
    bytes_count CHAIN_MARK (timed_bytes entries) = 1 \<and> int (mend m) \<le> find_pos CHAIN_MARK (timed_bytes entries)"
proof -
  from assms obtain m start stop where "search rtc_record (timed_bytes entries) = Some m"
    "stamp_of (mgroups m ! 0) = Inr start" "stamp_of (mgroups m ! 3) = Inr stop" "rt_advance r = instant stop - instant start"
    "64 \<le> instant stop - instant start" "instant stop - instant start \<le> 75" "\<not> bytes_in ''WATCHDOG-ARMED'' (timed_bytes entries)"
    "\<not> bytes_in ''LEANOS/'' (timed_bytes entries)" "bytes_count CHAIN_MARK (timed_bytes entries) = 1"
    "int (mend m) \<le> find_pos CHAIN_MARK (timed_bytes entries)"
    unfolding classify_rtc_def Let_def by (auto simp: res_simps)
  moreover from this(2,3) have "date_ok start \<and> time_ok start" "date_ok stop \<and> time_ok stop"
    unfolding stamp_of_def by (auto simp: res_simps dest: datetime_of_ok)
  ultimately show ?thesis by (intro exI [of _ m] exI [of _ start] exI [of _ stop]) simp
qed

end
