(* ===== verification/Reference_Sessions.thy ===== *)
theory Reference_Sessions
  imports Watchdog Bsp_Production Recovery_Wait Clock Reference_Logs
begin

text \<open>
  Sample runs for the watchdog classifiers and the production boundary: a stalled run recovered by the
  watchdog, a long session that ends at its reload budget, a production boot that stops at the
  platform-pending terminal, a wait for FreeBSD and a reading of the board's clock.
\<close>

definition run_digest :: bytes where
  "run_digest = ''aaaaaaaaaaaaaaaaaaaaaaaaaaaaaaaaaaaaaaaaaaaaaaaaaaaaaaaaaaaaaaaa''"

definition stall_log :: timed_log where
  "stall_log = [(5, WINDOW_MARK @ NL @ ARMED_MARK @ NL), (6, KERNEL_LOAD @ '' sha256='' @ run_digest @ NL @ HANG_MARK),
     (125, DEFAULT_MARK @ NL), (126, CHAIN_MARK @ ''ada0'' @ NL)]"

lemma stall_text: "timed_bytes stall_log = WINDOW_MARK @ NL @ ARMED_MARK @ NL @ KERNEL_LOAD @ '' sha256='' @ run_digest @ NL @ HANG_MARK @
   DEFAULT_MARK @ NL @ CHAIN_MARK @ ''ada0'' @ NL"
  by (simp add: stall_log_def timed_bytes_def)

lemma stall_traced: "stall_trace (timed_bytes stall_log)"
  unfolding stall_text by code_simp

lemma stall_recovery: "recovery_mark (timed_bytes stall_log) = DEFAULT_MARK"
  unfolding stall_text by code_simp

lemma stall_hang: "hang_trace run_digest (timed_bytes stall_log)"
  unfolding stall_text by code_simp

lemmas stall_facts = stall_traced stall_recovery stall_hang

lemma stall_marks:
  "mark_finished DEFAULT_MARK stall_log = Inr 125" "mark_finished ARMED_MARK stall_log = Inr 5"
  unfolding stall_log_def by code_simp+

lemma stall_scan:
  "hang_scan (nat (find_pos HANG_MARK (timed_bytes stall_log) + int (length HANG_MARK))) stall_log 0 None None = Inr (Some 6, Some 125)"
  unfolding stall_log_def by code_simp

lemma stall_checks: "\<not> goes_back stall_log" "digest_ok run_digest"
  by (simp_all add: stall_log_def goes_back_def digest_ok_def run_digest_def is_hex_def)

lemma stall_accepted: "\<exists>r. classify_watchdog stall_log (Some run_digest) = Inr r"
  unfolding classify_watchdog_def classify_hang_def Let_def
  by (simp add: stall_facts stall_marks stall_scan stall_checks eval_simps)

theorem stall_recovered_witness:
  "\<exists>before hang chunk next chunk' after pre. stall_log = before @ (hang, chunk) # (next, chunk') # after \<and>
     timed_bytes (before @ [(hang, chunk)]) = pre @ HANG_MARK \<and> 90 \<le> next - hang"
proof -
  obtain r where "classify_watchdog stall_log (Some run_digest) = Inr r" using stall_accepted by blast
  from stall_recovered [OF this] show ?thesis by blast
qed

definition session_log :: "event list" where
  "session_log = [\<lparr>ev_elapsed = Some 3, ev_data = ARMED_MARK @ NL\<rparr>,
     \<lparr>ev_elapsed = Some 40, ev_data = ''LEANOS-LAB/1 WATCHDOG-KICK n=1 budget=2 ticks=120'' @ NL\<rparr>,
     \<lparr>ev_elapsed = Some 80, ev_data = ''LEANOS-LAB/1 WATCHDOG-KICK n=2 budget=2 ticks=120'' @ NL @ BUDGET_END @ NL @
       ''LEANOS/3 FINAL status=PASS dhcp-subject=1 frames=4 watchdog-kicks=2 session-end=budget unsent-replies=0'' @ NL\<rparr>,
     \<lparr>ev_elapsed = Some 200, ev_data = CHAIN_MARK @ ''ada0'' @ NL\<rparr>]"

definition session_text :: bytes where
  "session_text = ARMED_MARK @ NL @ ''LEANOS-LAB/1 WATCHDOG-KICK n=1 budget=2 ticks=120'' @ NL @
     ''LEANOS-LAB/1 WATCHDOG-KICK n=2 budget=2 ticks=120'' @ NL @ BUDGET_END @ NL @
     ''LEANOS/3 FINAL status=PASS dhcp-subject=1 frames=4 watchdog-kicks=2 session-end=budget unsent-replies=0'' @ NL @
     CHAIN_MARK @ ''ada0'' @ NL"

lemma session_log_text: "log_bytes session_log = session_text"
  by (simp add: session_log_def session_text_def log_bytes_def)

lemma session_found_1:
  "finditer kick_record session_text = [(38, 78, [''1'', ''2'']), (88, 128, [''2'', ''2''])]"
  "finditer session_final session_text = [(201, 296, [''2'', ''budget'', ''0''])]"
  unfolding session_text_def by code_simp+

lemma session_found_2:
  "search kick_stopped session_text = None"
  unfolding session_text_def by code_simp+

lemmas session_found = session_found_1 session_found_2

lemma session_marks_1:
  "check_kicks session_text 2 = Inr (0, [(38, 78, [''1'', ''2'']), (88, 128, [''2'', ''2''])])"
  "find_from CHAIN_MARK session_text 128 = Some 296"
  unfolding session_text_def by code_simp+

lemma session_marks_2: "bytes_count BUDGET_END session_text = 1"
  unfolding session_text_def by code_simp

lemmas session_marks = session_marks_1 session_marks_2

lemma session_times:
  "\<not> list_ex bad_timestamp session_log" "\<not> nonmonotonic session_log" "time_at session_log 296 = 200"
  "kick_times session_log 0 [(38, 78, [''1'', ''2'']), (88, 128, [''2'', ''2''])] = [3, 40, 80]"
  by code_simp+

lemma session_number: "py_int ''2'' = Inr 2"
  by code_simp

lemma session_accepted: "\<exists>r. classify_watchdog_kicks session_log 2 120 30 = Inr r"
  unfolding classify_watchdog_kicks_def Let_def session_log_text
  by (simp add: session_number session_found session_marks session_times Let_def eval_simps raise_if_def gaps_def last_end_def kick_outcome_def)

theorem kick_session_bounded_witness:
  "\<exists>r. classify_watchdog_kicks session_log 2 120 30 = Inr r \<and> 0 \<le> kr_protected r \<and>
     kr_protected r \<le> of_nat (kr_kicks r) * 120 \<and> kr_recovery r \<le> 150"
proof -
  obtain r where r: "classify_watchdog_kicks session_log 2 120 30 = Inr r" using session_accepted by blast
  from kick_session_bounded [OF r] r show ?thesis by auto
qed


definition bsp_log :: "event list" where
  "bsp_log = [\<lparr>ev_elapsed = Some 4, ev_data = WINDOW_MARK @ NL @ ARMED_MARK @ NL @ LOAD_MARK @ '' sha256='' @ run_digest @ NL @ MODE_LINE\<rparr>,
     \<lparr>ev_elapsed = Some 6, ev_data = ''LEANOS/3 BOOT'' @ NL @ BSP_LINE @ bsp_terminal ''LEANOS/3 FINAL''\<rparr>,
     \<lparr>ev_elapsed = Some 46, ev_data = DEFAULT_MARK @ NL @ CHAIN_MARK @ ''ada0'' @ NL\<rparr>]"

definition bsp_text :: bytes where
  "bsp_text = WINDOW_MARK @ NL @ ARMED_MARK @ NL @ LOAD_MARK @ '' sha256='' @ run_digest @ NL @ MODE_LINE @
     ''LEANOS/3 BOOT'' @ NL @ BSP_LINE @ bsp_terminal ''LEANOS/3 FINAL'' @ DEFAULT_MARK @ NL @ CHAIN_MARK @ ''ada0'' @ NL"

lemma bsp_log_text: "log_bytes bsp_log = bsp_text"
  by (simp add: bsp_log_def bsp_text_def log_bytes_def)

lemma bsp_launch_counts_1:
  "bytes_count WINDOW_MARK bsp_text = 1"
  "bytes_count ARMED_MARK bsp_text = 1"
  unfolding bsp_text_def by code_simp+

lemma bsp_launch_counts_2:
  "bytes_count LOAD_MARK bsp_text = 1"
  "bytes_count MODE_LINE bsp_text = 1"
  unfolding bsp_text_def by code_simp+

lemmas bsp_launch_counts = bsp_launch_counts_1 bsp_launch_counts_2

lemma bsp_end_counts_1:
  "bytes_count BSP_LINE bsp_text = 1"
  "bytes_count (bsp_terminal ''LEANOS/3 FINAL'') bsp_text = 1"
  unfolding bsp_text_def by code_simp+

lemma bsp_end_counts_2:
  "bytes_count DEFAULT_MARK bsp_text = 1"
  "bytes_count CHAIN_MARK bsp_text = 1"
  unfolding bsp_text_def by code_simp+

lemmas bsp_end_counts = bsp_end_counts_1 bsp_end_counts_2

lemma bsp_other_counts_1:
  "bytes_count LVT_PREFIX bsp_text = 0"
  "bytes_count POLICY_PREFIX bsp_text = 0"
  unfolding bsp_text_def by code_simp+

lemma bsp_other_counts_2:
  "bytes_count ''LEANOS/3 FINAL'' bsp_text = 1"
  unfolding bsp_text_def by code_simp+

lemmas bsp_other_counts = bsp_other_counts_1 bsp_other_counts_2

lemma bsp_launch_places_1:
  "bytes_find WINDOW_MARK bsp_text = Some 0"
  "bytes_find ARMED_MARK bsp_text = Some 40"
  unfolding bsp_text_def by code_simp+

lemma bsp_launch_places_2:
  "bytes_find LOAD_MARK bsp_text = Some 78"
  "bytes_find MODE_LINE bsp_text = Some 184"
  unfolding bsp_text_def by code_simp+

lemmas bsp_launch_places = bsp_launch_places_1 bsp_launch_places_2

lemma bsp_end_places_1:
  "bytes_find BSP_LINE bsp_text = Some 251"
  "bytes_find (bsp_terminal ''LEANOS/3 FINAL'') bsp_text = Some 404"
  unfolding bsp_text_def by code_simp+

lemma bsp_end_places_2:
  "bytes_find DEFAULT_MARK bsp_text = Some 461"
  "bytes_find CHAIN_MARK bsp_text = Some 495"
  unfolding bsp_text_def by code_simp+

lemmas bsp_end_places = bsp_end_places_1 bsp_end_places_2

lemma bsp_terminal_length: "length (bsp_terminal ''LEANOS/3 FINAL'') = 57"
  by (simp add: bsp_terminal_def)

lemmas bsp_marks = bsp_launch_counts bsp_end_counts bsp_other_counts bsp_launch_places bsp_end_places bsp_terminal_length

lemma bsp_found:
  "search (wrapped_load LOAD_MARK run_digest) bsp_text = Some (78, 183, [])"
  "finditer boot_line bsp_text = [(237, 251, [])]"
  unfolding bsp_text_def by code_simp+

lemma bsp_quiet:
  "quiet_scan 461 bsp_log 0 None None = Inr (Some 6, Some 46)" "\<not> list_ex bad_timestamp bsp_log" "\<not> nonmonotonic bsp_log"
  by code_simp+

lemma boundary_accepted: "\<exists>r. classify_bsp_production bsp_log ''LEANOS/3 FINAL'' run_digest False False = Inr r"
proof -
  have "\<not> list_ex (\<lambda>m. bytes_count m bsp_text \<noteq> 1) (bsp_markers [] ''LEANOS/3 FINAL'')"
    by (simp add: bsp_markers_def bsp_marks)
  moreover have "lvt_part bsp_text False False = Inr ([], None)"
    by (simp add: lvt_part_def bsp_marks eval_simps)
  moreover have "digest_ok run_digest" by code_simp
  ultimately show ?thesis
    unfolding classify_bsp_production_def Let_def bsp_log_text
    by (simp add: bsp_marks bsp_markers_def find_pos_def bsp_found bsp_quiet eval_simps)
qed

theorem bsp_production_boundary_witness:
  "\<exists>r. classify_bsp_production bsp_log ''LEANOS/3 FINAL'' run_digest False False = Inr r \<and> 30 \<le> bs_quiet r \<and> bs_quiet r \<le> 90"
proof -
  obtain r where r: "classify_bsp_production bsp_log ''LEANOS/3 FINAL'' run_digest False False = Inr r" using boundary_accepted by blast
  from bsp_production_boundary [OF r] r show ?thesis by blast
qed

text \<open>A wait that polls every two seconds; FreeBSD answers from the fifth poll on.\<close>

definition wait_polls :: "nat \<Rightarrow> int poll" where
  "wait_polls i = \<lparr>po_now = 2 * of_nat i, po_data = Inr (if i < 2 then [] else CHAIN_MARK), po_boot = Inr (Some (if i < 4 then 1 else 2))\<rparr>"

lemma wait_polls_clock: "clock_runs wait_polls"
proof -
  have "\<exists>i. t \<le> po_now (wait_polls i)" for t
  proof -
    obtain n :: nat where "t \<le> of_nat n" using real_arch_simple by blast
    also have "(of_nat n :: rat) \<le> 2 * of_nat n" by simp
    finally show ?thesis by (intro exI [of _ n]) (simp add: wait_polls_def)
  qed
  then show ?thesis by (simp add: clock_runs_def wait_polls_def)
qed

lemma wait_polls_pass:
  "wait_pass 1 180 None 900 (wait_polls 0) None = Keep None" "wait_pass 1 180 None 900 (wait_polls 1) None = Keep None"
  "wait_pass 1 180 None 900 (wait_polls 2) None = Keep None" "wait_pass 1 180 None 900 (wait_polls 3) None = Keep None"
  "wait_pass 1 180 None 900 (wait_polls 4) None = Ends (Inr 2)"
  by code_simp+

lemma wait_polls_returns: "wait_for_recovery 1 180 None 900 wait_polls = Some (Inr 2)"
proof -
  have "passes 1 180 None 900 wait_polls 4 None 4 None (Inr 2)" using wait_polls_pass(5) by (rule last_pass)
  then have "passes 1 180 None 900 wait_polls 3 None 4 None (Inr 2)" by (intro next_pass [where polls = wait_polls, OF wait_polls_pass(4)]) simp
  then have "passes 1 180 None 900 wait_polls 2 None 4 None (Inr 2)" by (intro next_pass [where polls = wait_polls, OF wait_polls_pass(3)]) simp
  then have "passes 1 180 None 900 wait_polls 1 None 4 None (Inr 2)"
    by (intro next_pass [where polls = wait_polls, OF wait_polls_pass(2)]) (simp add: numeral_2_eq_2)
  then have "passes 1 180 None 900 wait_polls 0 None 4 None (Inr 2)" by (intro next_pass [where polls = wait_polls, OF wait_polls_pass(1)]) simp
  then show ?thesis unfolding wait_for_recovery_def by (rule passes_wait)
qed

theorem recovery_wait_ends_witness:
  "clock_runs wait_polls \<and> (\<exists>r n prompted. wait_for_recovery 1 180 None 900 wait_polls = Some r \<and>
     passes 1 180 None 900 wait_polls 0 None n prompted r \<and> (\<forall>j<n. po_now (wait_polls j) < 180))"
  using recovery_wait_ends [OF wait_polls_clock, of 900 1 180 None] wait_polls_clock by simp

theorem recovery_wait_verified_witness:
  "\<exists>n prompted data. passes 1 180 None 900 wait_polls 0 None n prompted (Inr 2) \<and>
     po_data (wait_polls n) = Inr data \<and> bytes_in CHAIN_MARK data \<and> po_now (wait_polls n) < 180"
  using recovery_wait_verified [OF wait_polls_returns] by auto

definition board_time :: datetime where
  "board_time = \<lparr>dt_year = 2026, dt_month = 9, dt_day = 9, dt_hour = 20, dt_minute = 5, dt_second = 25, dt_micro = 0\<rparr>"

theorem request_names_minute_witness:
  "watchdog_request (''0'' @ NL @ ''2026-09-09T20:05:25'' @ NL) ''watchdog-test'' = Inr (Some ''watchdog-test-2026-9-9-20-5'')"
proof -
  have t: "date_ok board_time" "time_ok board_time" "isoformat board_time = ''2026-09-09T20:05:25''"
    "request_name ''watchdog-test'' board_time = ''watchdog-test-2026-9-9-20-5''"
    by code_simp+
  have "watchdog_request (''0'' @ NL @ isoformat board_time @ NL) ''watchdog-test'' =
      Inr (if 25 < dt_second board_time then None else Some (request_name ''watchdog-test'' board_time))"
    using t by (intro request_names_minute) (simp_all add: board_time_def request_prefix_ok_def)
  then show ?thesis unfolding t(3,4) by (simp add: board_time_def)
qed

end
