(* ===== verification/Lab_Capture.thy ===== *)
theory Lab_Capture
  imports Watchdog "HOL-Library.AList"
begin

text \<open>
  A protected lab capture as \<^verbatim>\<open>run-qotom-recovery-lab.py\<close> classifies it as PASS or FAIL: class
  \<^verbatim>\<open>_Capture\<close> (the bytes, when each arrived, the protected launch and the recovery) and the build
  manifest that names the scenario.  Failed checks are collected, in the order the code finds them; a
  function that may find some returns them beside its value.
\<close>

subsection \<open>Build manifests\<close>

datatype json =
    JNull
  | JBool bool
  | JInt int
  | JFloat rat
  | JStr string
  | JList "json list"
  | JDict "(string \<times> json) list"

type_synonym manifest = "(string \<times> json) list"

definition mget :: "manifest \<Rightarrow> string \<Rightarrow> json" where
  "mget manifest key = (case map_of manifest key of None \<Rightarrow> JNull | Some v \<Rightarrow> v)"

definition json_equals :: "json \<Rightarrow> int \<Rightarrow> bool" where
  \<comment> \<open>\<^verbatim>\<open>v == n\<close>: Python compares numbers by value\<close>
  "json_equals v n = (case v of JInt m \<Rightarrow> m = n | JFloat q \<Rightarrow> q = of_int n | JBool b \<Rightarrow> (if b then 1 else 0) = n | _ \<Rightarrow> False)"

definition device_program_scenario :: "manifest \<Rightarrow> (string \<times> (int \<times> int) option) res" where
  \<comment> \<open>the scenario and, of a long session, its seconds and reload budget\<close>
  "device_program_scenario manifest =
     raise_if (mget manifest ''ipc_device_stream'' \<noteq> JBool True) ''not a device-program lab image (no ipc_device_stream)''
     (raise_if (mget manifest ''mode'' \<noteq> JStr ''completion'') ''device-program lab image not built in completion mode''
     (raise_if (mget manifest ''production_network'' = JBool True)
        ''a production network image is not a lab device-program capture''
     (let network = mget manifest ''network_subject'' = JBool True;
          dhcp = mget manifest ''dhcp_subject'' = JBool True;
          scenario = (if dhcp then ''qotom-dhcp-subject'' else if network then ''qotom-network-subject''
                      else ''qotom-device-stream'') in
      raise_if (dhcp \<and> \<not> network) ''dhcp_subject without network_subject''
      (case mget manifest ''long_session_seconds'' of
         JNull \<Rightarrow> raise_if (mget manifest ''watchdog_kick_budget'' \<noteq> JNull) ''watchdog kick budget without a long session''
           (Inr (scenario, None))
       | JInt seconds \<Rightarrow>
           (let budget = 2 + (seconds + 40 - 1) div 40 in
            raise_if (\<not> dhcp \<or> \<not> (1 \<le> seconds \<and> seconds \<le> 3600) \<or>
                \<not> json_equals (mget manifest ''watchdog_kick_budget'') budget) ''invalid long-session flags''
              (Inr (scenario, Some (seconds, budget))))
       | _ \<Rightarrow> raise ''invalid long-session flags''))))"

definition digest_named :: "manifest \<Rightarrow> bytes \<Rightarrow> bool" where
  "digest_named manifest digest \<longleftrightarrow> mget manifest ''elf_sha256'' \<in> {JNull, JStr digest}"

subsection \<open>The capture\<close>

record capture =
  cp_events :: "event list"
  cp_offsets :: "nat list"
  cp_data :: bytes

fun chunk_offsets :: "event list \<Rightarrow> nat \<Rightarrow> nat list" where
  "chunk_offsets [] offset = []"
| "chunk_offsets (e # es) offset = offset # chunk_offsets es (offset + length (ev_data e))"

definition open_capture :: "event list \<Rightarrow> capture res" where
  "open_capture events =
     raise_if (list_ex bad_timestamp events) ''invalid capture timestamp''
     (raise_if (nonmonotonic events) ''nonmonotonic capture timestamps''
     (Inr \<lparr>cp_events = events, cp_offsets = chunk_offsets events 0, cp_data = log_bytes events\<rparr>))"

definition bisect_right :: "nat list \<Rightarrow> nat \<Rightarrow> nat" where
  \<comment> \<open>of a sorted list: the number of elements up to \<open>x\<close>\<close>
  "bisect_right xs x = length (takeWhile (\<lambda>y. y \<le> x) xs)"

definition chunk_index :: "capture \<Rightarrow> nat \<Rightarrow> nat" where
  "chunk_index c position = bisect_right (cp_offsets c) position - 1"

definition capture_time :: "capture \<Rightarrow> nat \<Rightarrow> rat" where
  \<comment> \<open>\<^verbatim>\<open>_Capture.time_at\<close>, of a position in the data\<close>
  "capture_time c position = log_time (cp_events c ! chunk_index c position)"

definition failed :: "string \<Rightarrow> string \<Rightarrow> string" where
  "failed check detail = check @ '': '' @ detail"

definition fail_if :: "bool \<Rightarrow> string \<Rightarrow> string \<Rightarrow> string list" where
  "fail_if c check detail = (if c then [failed check detail] else [])"

definition once :: "bytes \<Rightarrow> matcher \<Rightarrow> string \<Rightarrow> bytes option \<Rightarrow> found option \<times> string list" where
  "once data m check count_marker =
     (let matches = finditer m data;
          extra = (case count_marker of None \<Rightarrow> length matches | Some t \<Rightarrow> bytes_count t data) in
      if length matches \<noteq> 1 \<or> extra \<noteq> 1 then
        (None, [failed check (if matches = [] then ''missing or changed'' else ''repeated'')])
      else (Some (hd matches), []))"

record launch =
  ln_accepted :: "found option"
  ln_armed :: "found option"
  ln_load :: "found option"
  ln_mode :: "found option"

definition LAUNCH_FAILURES :: "bytes list" where
  "LAUNCH_FAILURES = [''WATCHDOG-LOAD-FAILED'', ''WATCHDOG-STOP-FAILED'', ''WATCHDOG-NO-RESET'',
     ''WATCHDOG-ARM-REJECTED'', ''KERNEL-HANG'', ''WATCHDOG-KERNEL-LOAD'']"

definition protected_launch :: "bytes \<Rightarrow> bytes \<Rightarrow> launch \<times> string list" where
  "protected_launch digest data =
     (let (accepted, f1) = once data (at_text WINDOW_MARK) ''watchdog-window'' None;
          (armed, f2) = once data (at_text ARMED_MARK) ''watchdog-arm'' (Some ''WATCHDOG-ARMED'');
          (load, f3) = once data (wrapped_load LOAD_MARK digest) ''watchdog-load'' (Some ''WATCHDOG-LEANOS-LOAD'');
          (mode, f4) = once data (at_text MODE_LINE) ''recovery-mode'' None;
          f5 = concat (map (\<lambda>m. fail_if (bytes_in m data) ''watchdog'' (m @ '' record'')) LAUNCH_FAILURES);
          f6 = (case mode of None \<Rightarrow> [] | Some m \<Rightarrow>
                  fail_if (bytes_in ''LEANOS/'' (take (mstart m) data)) ''framing'' ''kernel output before the recovery mode record'')
      in (\<lparr>ln_accepted = accepted, ln_armed = armed, ln_load = load, ln_mode = mode\<rparr>, f1 @ f2 @ f3 @ f4 @ f5 @ f6))"

fun bytes_rfind :: "bytes \<Rightarrow> bytes \<Rightarrow> nat option" where
  "bytes_rfind pat [] = (if pat = [] then Some 0 else None)"
| "bytes_rfind pat (c # cs) =
     (case bytes_rfind pat cs of Some i \<Rightarrow> Some (Suc i) | None \<Rightarrow> if startswith (c # cs) pat then Some 0 else None)"

definition run_end :: "bytes \<Rightarrow> found option \<Rightarrow> nat" where
  \<comment> \<open>where the run ends: after FINAL, or else after the line of the last kernel record\<close>
  "run_end data final =
     (case final of Some m \<Rightarrow> mend m
      | None \<Rightarrow> (case bytes_rfind ''LEANOS/'' data of None \<Rightarrow> 0
          | Some i \<Rightarrow> (case find_from NL data i of None \<Rightarrow> 0 | Some j \<Rightarrow> j + 1)))"

definition reload_mark :: matcher where
  "reload_mark = at_text ''LEANOS-LAB/1 WATCHDOG-KICK n=''"

definition quiet_after :: "capture \<Rightarrow> found option \<Rightarrow> rat option \<times> string list" where
  \<comment> \<open>the pause after FINAL\<close>
  "quiet_after c final =
     (case final of None \<Rightarrow> (None, [])
      | Some m \<Rightarrow>
          let i = chunk_index c (mend m - 1) in
          if cp_offsets c ! i + length (ev_data (cp_events c ! i)) \<noteq> mend m then
            (None, [failed ''recovery'' ''bytes after FINAL without a quiet interval''])
          else if i + 1 < length (cp_events c) then
            (let quiet = log_time (cp_events c ! (i + 1)) - log_time (cp_events c ! i) in
             (Some quiet, fail_if (quiet < 10) ''recovery'' ''insufficient quiet after FINAL''))
          else (None, []))"

definition recovery_delay :: "capture \<Rightarrow> nat \<Rightarrow> found \<Rightarrow> rat" where
  \<comment> \<open>from the last reload before the chain marker, or the arm, to the marker\<close>
  "recovery_delay c chain armed =
     (let reloads = finditer reload_mark (take chain (cp_data c)) in
      capture_time c chain - capture_time c (mstart (if reloads = [] then armed else last reloads)))"

definition after_run :: "bytes \<Rightarrow> nat \<Rightarrow> nat option \<Rightarrow> string list" where
  \<comment> \<open>the default request and the chain marker after the run, and nothing of the kernel\<close>
  "after_run data start chain =
     (let default = finditer (at_text DEFAULT_MARK) data in
      fail_if (\<not> (length default = 1 \<and>
          (case chain of None \<Rightarrow> False | Some j \<Rightarrow> start \<le> mstart (hd default) \<and> mstart (hd default) < j)))
        ''recovery'' ''missing consumed-request default or FreeBSD chain after the run'' @
      fail_if (bytes_in ''LEANOS/'' (drop start data) \<or> bytes_in ''LEANOS-LAB/1 SELECT leanos'' (drop start data))
        ''recovery'' ''kernel output after the run'')"

definition recovery ::
  "capture \<Rightarrow> found option \<Rightarrow> found option \<Rightarrow> rat \<Rightarrow> rat \<Rightarrow> rat option \<times> rat option \<times> string list" where
  "recovery c final armed timeout recovery_slack =
     (let data = cp_data c; start = run_end data final; chain = find_from CHAIN_MARK data start;
          f1 = after_run data start chain;
          (quiet, f2) = quiet_after c final;
          delay = (case (chain, armed) of (Some j, Some a) \<Rightarrow> Some (recovery_delay c j a) | _ \<Rightarrow> None);
          f3 = fail_if (case delay of None \<Rightarrow> False | Some d \<Rightarrow> timeout + recovery_slack < d)
                 ''recovery'' ''FreeBSD chain later than the watchdog bound''
      in (quiet, delay, f1 @ f2 @ f3))"

subsection \<open>The terminal record\<close>

type_synonym field = "int + string"

definition field_value :: "string \<Rightarrow> field res" where
  \<comment> \<open>\<^verbatim>\<open>int(v) if v.isdigit() else v\<close>\<close>
  "field_value v = (if v \<noteq> [] \<and> list_all is_digit v then bind (py_int v) (\<lambda>n. Inr (Inl n)) else Inr (Inr v))"

fun field_values :: "string list \<Rightarrow> field list res" where
  "field_values [] = Inr []"
| "field_values (v # vs) = bind (field_value v) (\<lambda>x. bind (field_values vs) (\<lambda>xs. Inr (x # xs)))"

definition ascii_text :: "bytes \<Rightarrow> string" where
  \<comment> \<open>\<^verbatim>\<open>decode('ascii', 'replace')\<close>; the character of code 255 stands for U+FFFD\<close>
  "ascii_text b = map (\<lambda>c. if (of_char c :: nat) < 128 then c else CHR 0xFF) b"

definition text_fields :: "string \<Rightarrow> (string \<times> string) list" where
  \<comment> \<open>\<^verbatim>\<open>dict(item.split('=', 1) for item in text.split(' ') if '=' in item)\<close>\<close>
  "text_fields t =
     fold (\<lambda>item. AList.update (takeWhile (\<lambda>c. c \<noteq> CHR ''='') item) (tl (dropWhile (\<lambda>c. c \<noteq> CHR ''='') item)))
       (filter (\<lambda>item. CHR ''='' \<in> set item) (split_on (CHR '' '') t)) []"

definition final_record :: matcher where
  "final_record = match_parts [L ''LEANOS/'', Skip1 is_digit, L '' FINAL '', Rest_Of_Line]"

definition the_terminal :: "bytes \<Rightarrow> found option \<times> string list" where
  "the_terminal data =
     (case finditer final_record data of
        [] \<Rightarrow> (None, [failed ''terminal'' ''no FINAL record''])
      | [m] \<Rightarrow> (Some m, [])
      | _ \<Rightarrow> (None, [failed ''terminal'' ''repeated FINAL record'']))"

definition terminal_text :: "found \<Rightarrow> string" where
  "terminal_text m = ascii_text (mgroups m ! 0)"

section \<open>Properties\<close>

lemma returned: "Inr x = Inr y \<Longrightarrow> y = x"
  by simp

lemma fail_if_Nil [simp]: "fail_if c check detail = [] \<longleftrightarrow> \<not> c"
  by (simp add: fail_if_def)

lemma once_none: "once data m check t = (found, []) \<Longrightarrow> \<exists>f. found = Some f \<and> finditer m data = [f]"
  by (cases "finditer m data") (auto simp: once_def Let_def split: if_splits)

lemma once_count: "once data m check (Some t) = (found, []) \<Longrightarrow> bytes_count t data = 1"
  by (auto simp: once_def Let_def split: if_splits)

text \<open>The position of a byte in the log is timed the same way by bisection and by the scan of the reloads.\<close>

lemma chunk_offsets_ge: "o' \<in> set (chunk_offsets es n) \<Longrightarrow> n \<le> o'"
  by (induction es arbitrary: n) fastforce+

lemma bisect_last_start:
  "es \<noteq> [] \<Longrightarrow> n \<le> p \<Longrightarrow>
     log_time (es ! (bisect_right (chunk_offsets es n) p - 1)) = last_start (event_starts es n) p t"
proof (induction es arbitrary: n t)
  case (Cons e es)
  let ?n = "n + length (ev_data e)"
  show ?case
  proof (cases "es \<noteq> [] \<and> ?n \<le> p")
    case True
    then obtain f fs where es: "es = f # fs" by (cases es) auto
    have "bisect_right (chunk_offsets (e # es) n) p = Suc (bisect_right (chunk_offsets es ?n) p)"
      using Cons.prems by (simp add: bisect_right_def)
    moreover have "0 < bisect_right (chunk_offsets es ?n) p" using es True by (simp add: bisect_right_def)
    ultimately show ?thesis using Cons True by (simp add: nth_Cons')
  next
    case False
    then have "takeWhile (\<lambda>y. y \<le> p) (chunk_offsets es ?n) = []" by (cases es) auto
    moreover have "last_start (event_starts es ?n) p u = u" for u using False by (cases es) auto
    ultimately show ?thesis using Cons.prems by (simp add: bisect_right_def)
  qed
qed simp

lemma open_capture_fields:
  assumes "open_capture events = Inr c"
  shows "cp_events c = events" "cp_data c = log_bytes events" "cp_offsets c = chunk_offsets events 0"
    "\<not> list_ex bad_timestamp events" "\<not> nonmonotonic events"
  using assms by (auto simp: open_capture_def res_simps)

text \<open>
  Looking a position up by bisection in the chunk offsets gives the time that the scan
  over the event starts gives, for every position of a log that is not empty.
\<close>

theorem capture_time_scan:
  assumes "open_capture events = Inr c" "events \<noteq> []"
  shows "capture_time c position = time_at events position"
  unfolding capture_time_def chunk_index_def time_at_def
  using open_capture_fields [OF assms(1)] bisect_last_start [OF assms(2), of 0 position 0] by simp

lemma protected_launch_passes:
  assumes "protected_launch digest data = (lau, [])"
  obtains accepted armed load mode where
    "lau = \<lparr>ln_accepted = Some accepted, ln_armed = Some armed, ln_load = Some load, ln_mode = Some mode\<rparr>"
    "finditer (at_text WINDOW_MARK) data = [accepted]" "finditer (at_text ARMED_MARK) data = [armed]"
    "finditer (wrapped_load LOAD_MARK digest) data = [load]" "finditer (at_text MODE_LINE) data = [mode]"
    "bytes_count ''WATCHDOG-ARMED'' data = 1" "bytes_count ''WATCHDOG-LEANOS-LOAD'' data = 1"
    "\<forall>m\<in>set LAUNCH_FAILURES. \<not> bytes_in m data" "\<not> bytes_in ''LEANOS/'' (take (mstart mode) data)"
proof -
  obtain a f1 where 1: "once data (at_text WINDOW_MARK) ''watchdog-window'' None = (a, f1)" by fastforce
  obtain b f2 where 2: "once data (at_text ARMED_MARK) ''watchdog-arm'' (Some ''WATCHDOG-ARMED'') = (b, f2)" by fastforce
  obtain l f3 where 3: "once data (wrapped_load LOAD_MARK digest) ''watchdog-load'' (Some ''WATCHDOG-LEANOS-LOAD'') = (l, f3)"
    by fastforce
  obtain m f4 where 4: "once data (at_text MODE_LINE) ''recovery-mode'' None = (m, f4)" by fastforce
  from assms have n: "f1 = []" "f2 = []" "f3 = []" "f4 = []"
    "\<forall>m\<in>set LAUNCH_FAILURES. \<not> bytes_in m data" "\<forall>x. m = Some x \<longrightarrow> \<not> bytes_in ''LEANOS/'' (take (mstart x) data)"
    "lau = \<lparr>ln_accepted = a, ln_armed = b, ln_load = l, ln_mode = m\<rparr>"
    unfolding protected_launch_def 1 2 3 4 Let_def prod.case by auto
  from once_none [OF 1 [unfolded n]] once_none [OF 2 [unfolded n]] once_none [OF 3 [unfolded n]] once_none [OF 4 [unfolded n]]
    once_count [OF 2 [unfolded n]] once_count [OF 3 [unfolded n]] n(5-7)
  show ?thesis using that by fastforce
qed

lemma after_run_passes:
  assumes "after_run data start chain = []"
  shows "\<exists>default j. finditer (at_text DEFAULT_MARK) data = [default] \<and> chain = Some j \<and>
    start \<le> mstart default \<and> mstart default < j" "\<not> bytes_in ''LEANOS/'' (drop start data)"
  using assms unfolding after_run_def Let_def
  by (auto split: option.splits simp: length_Suc_conv)

lemma recovery_passes:
  assumes "recovery c (Some final) (Some armed) timeout slack = (quiet, delay, [])"
  obtains chain where "find_from CHAIN_MARK (cp_data c) (mend final) = Some chain"
    "delay = Some (recovery_delay c chain armed)" "recovery_delay c chain armed \<le> timeout + slack"
    "after_run (cp_data c) (mend final) (Some chain) = []"
    "quiet_after c (Some final) = (quiet, [])"
proof -
  obtain q f2 where q: "quiet_after c (Some final) = (q, f2)" by fastforce
  from assms have a: "after_run (cp_data c) (mend final) (find_from CHAIN_MARK (cp_data c) (mend final)) = []" "f2 = []" "quiet = q"
    unfolding recovery_def Let_def run_end_def q by auto
  from after_run_passes(1) [OF a(1)] obtain chain where chain: "find_from CHAIN_MARK (cp_data c) (mend final) = Some chain" by blast
  with assms q a show ?thesis unfolding recovery_def Let_def run_end_def
    by (intro that [OF chain]) auto
qed

lemma quiet_after_passes: "quiet_after c (Some final) = (Some q, []) \<Longrightarrow> 10 \<le> q"
  by (auto simp: quiet_after_def Let_def split: if_splits)

lemma the_terminal_none: "the_terminal data = (final, []) \<Longrightarrow> \<exists>m. final = Some m \<and> finditer final_record data = [m]"
  by (auto simp: the_terminal_def split: list.splits)

lemma the_terminal_Some: "the_terminal data = (Some m, fails) \<Longrightarrow> finditer final_record data = [m] \<and> fails = []"
  by (auto simp: the_terminal_def split: list.splits)

end
