(* ===== verification/Device_Program.thy ===== *)
theory Device_Program
  imports Lab_Capture
begin

text \<open>
  \<^verbatim>\<open>classify_device_program\<close> of \<^verbatim>\<open>run-qotom-recovery-lab.py\<close>: a capture of the device stream, the
  network subject, the DHCP subject or a long session passes when its launch, its records in order, its
  FINAL with agreeing counts, its reloads and its recovery are all there.
\<close>

subsection \<open>The expressions\<close>

definition platform_record :: matcher where
  "platform_record = at_text ''LEANOS-LAB/1 PLATFORM-ADMISSION profile=qotom-j1900-clbtm210-v2 version=2 status=PASS ''"

definition assign_record :: matcher where
  "assign_record = match_parts
     [L ''LEANOS-LAB/1 BROADCOM-ASSIGN profile=qotom-j1900-pci-trust-v1-bcm43224-assign-v1 device=2:0.0 status=0 '',
      Until_Eol '' admitted=1'']"

definition grant_record :: matcher where
  "grant_record = match_parts
     [L ''LEANOS-LAB/1 SERVICE grant subject=1 device='', Skip1 is_hex, L '':'', Skip1 is_hex, L ''.'',
      Char_In (\<lambda>c. c \<in> set ''01234567''), L '' bind=accepted policy=admitted'', CHAR_NL]"

definition ready_record :: matcher where
  "ready_record = at_text ''LEANOS-LAB/1 QOTOM-IPC-READY profile=qotom-blocking-ipc-v1 ''"

definition service_end_record :: matcher where
  \<comment> \<open>the second group without its \<^verbatim>\<open>0x\<close>\<close>
  "service_end_record = match_parts
     [L ''LEANOS-LAB/1 SERVICE end subject=1 status='', DIGITS, L '' code=0x'', Item (Hex 8), CHAR_NL]"

definition device_fields :: "string \<Rightarrow> part list" where
  "device_fields scenario =
     (let counts = [L '' fetches='', DIGITS, L '' replies='', DIGITS, L '' refusals='', DIGITS, L '' ipc-edges='', DIGITS] in
      if scenario = ''qotom-device-stream'' then [L ''events='', DIGITS, L '' blocks='', DIGITS, L '' deliveries='', DIGITS]
      else if scenario = ''qotom-network-subject'' then
        [L ''network-subject=1 device-holder=2 frames='', DIGITS] @ counts
      else [L ''dhcp-subject=1 echo-subject=1 device-holder=2 dhcp-frames='', DIGITS, L '' lease='', Dotted4,
        L '' frames='', DIGITS] @ counts)"

definition LONG_FIELDS :: "part list" where
  "LONG_FIELDS = [L '' watchdog-kicks='', DIGITS,
     Optional [L '' session-end='', Alt [''window'', ''budget''], L '' unsent-replies='', Item (OneOf ''01'')]]"

definition final_parts :: "string \<Rightarrow> bool \<Rightarrow> part list" where
  "final_parts scenario long =
     [L ''LEANOS/'', Skip1 is_digit, L '' FINAL status=PASS ''] @ device_fields scenario @
     (if long then LONG_FIELDS else []) @ [CHAR_NL]"

definition is_lease_char :: "char \<Rightarrow> bool" where
  "is_lease_char c \<longleftrightarrow> is_digit c \<or> c = CHR ''.''"

definition handoff_record :: matcher where
  "handoff_record = match_parts
     [L ''LEANOS-LAB/1 NET event=handoff from=dhcp-subject to=echo-subject frame='', DIGITS, L '' lease='',
      Some1 is_lease_char, L '' scrubbed=8192 restart=echo-entry model=accepted'', CHAR_NL]"

definition lease_record :: matcher where
  "lease_record = match_parts
     [L ''LEANOS/'', Skip1 is_digit, L '' IPC event=deliver receiver=1 endpoint=13 role=echo-subject payload=lease'', CHAR_NL]"

definition deliver_record :: matcher where
  "deliver_record = match_parts [L ''LEANOS-LAB/1 NET event=deliver frame='', DIGITS, L '' '']"

definition ipc_delivery :: matcher where
  "ipc_delivery = match_parts [L ''LEANOS/'', Skip1 is_digit, L '' IPC event=deliver receiver=2 '']"

definition gtk_record :: matcher where
  "gtk_record = match_parts [L ''LEANOS-LAB/1 WIFI-GTK installed key-id='', DIGITS]"

subsection \<open>The scenario's records\<close>

definition decimal_int :: "int \<Rightarrow> string" where
  \<comment> \<open>\<^verbatim>\<open>'%d'\<close>\<close>
  "decimal_int n = (if n < 0 then CHR ''-'' # decimal (nat (- n)) else decimal (nat n))"

record terminal_info =
  ti_status :: "string option"
  ti_reason :: "string option"
  ti_fields :: "(string \<times> field) list"

definition terminal_info_of :: "found \<Rightarrow> terminal_info res" where
  "terminal_info_of m =
     (let fields = text_fields (terminal_text m) in
      bind (field_values (map snd fields)) (\<lambda>vs.
      Inr \<lparr>ti_status = map_of fields ''status'', ti_reason = map_of fields ''reason'',
           ti_fields = zip (map fst fields) vs\<rparr>))"

definition read_terminal :: "bytes \<Rightarrow> (found option \<times> terminal_info option \<times> string list) res" where
  "read_terminal data =
     (case the_terminal data of
        (None, fails) \<Rightarrow> Inr (None, None, fails)
      | (Some m, fails) \<Rightarrow>
          bind (terminal_info_of m) (\<lambda>info.
          Inr (Some m, Some info, fails @ fail_if (ti_status info \<noteq> Some ''PASS'') ''terminal'' (''FINAL '' @ terminal_text m))))"

record program_records =
  pg_assign :: "found option"
  pg_grant :: "found option"
  pg_ready :: "found option"
  pg_platform :: "found option"
  pg_ends :: "found list"

definition service_ends :: "bytes \<Rightarrow> found list \<times> string list" where
  "service_ends data =
     (let ends = finditer service_end_record data in
      (ends,
       if length ends \<noteq> bytes_count ''SERVICE end '' data \<or> 1 < length ends then
         [failed ''service-end'' ''repeated or changed service end'']
       else fail_if (ends \<noteq> [] \<and> mgroups (hd ends) ! 0 \<noteq> ''0'') ''service-end''
         (''device program ended with status='' @ mgroups (hd ends) ! 0 @ '' code=0x'' @ mgroups (hd ends) ! 1)))"

definition scenario_records :: "bytes \<Rightarrow> bool \<Rightarrow> program_records \<times> string list" where
  "scenario_records data network =
     (let (platform, f1) = once data platform_record ''platform-admission'' (Some ''PLATFORM-ADMISSION '');
          (assign, f2) = (if network then once data assign_record ''broadcom-assign'' (Some ''BROADCOM-ASSIGN '')
            else (None, fail_if (bytes_in ''BROADCOM-ASSIGN '' data) ''broadcom-assign'' ''record in an image without the network subject''));
          (grant, f3) = once data grant_record ''service-grant'' (Some ''SERVICE grant '');
          (ready, f4) = once data ready_record ''ipc-ready'' None;
          (ends, f5) = service_ends data
      in (\<lparr>pg_assign = assign, pg_grant = grant, pg_ready = ready, pg_platform = platform, pg_ends = ends\<rparr>,
          f1 @ f2 @ f3 @ f4 @ f5))"

subsection \<open>The counts of FINAL\<close>

record net_counts =
  nc_ipc_deliveries :: "nat option"
  nc_net :: "(nat \<times> nat \<times> nat) option"   \<comment> \<open>deliveries, sends and refusals\<close>
  nc_lease :: "string option"

definition no_counts :: net_counts where
  "no_counts = \<lparr>nc_ipc_deliveries = None, nc_net = None, nc_lease = None\<rparr>"

definition field_int :: "field \<Rightarrow> int" where
  \<comment> \<open>the value of a field that the expression makes a number\<close>
  "field_int v = (case v of Inl n \<Rightarrow> n | Inr _ \<Rightarrow> 0)"

definition handoff_checks ::
  "bytes \<Rightarrow> int \<Rightarrow> string \<Rightarrow> (found option \<times> found option \<times> string list) res" where
  "handoff_checks data dhcp_frames lease =
     (let (handoff, f1) = once data handoff_record ''net-handoff'' (Some ''NET event=handoff '');
          (lease_ipc, f2) = once data lease_record ''lease-delivery'' (Some ''payload=lease'') in
      bind (case handoff of None \<Rightarrow> Inr [] | Some m \<Rightarrow>
          bind (py_int (mgroups m ! 0)) (\<lambda>n. Inr (fail_if (n \<noteq> dhcp_frames \<or> mgroups m ! 1 \<noteq> lease)
            ''net-handoff'' ''handoff differs from FINAL dhcp-frames/lease''))) (\<lambda>f3.
      Inr (handoff, lease_ipc, f1 @ f2 @ f3 @ fail_if (lease = ''0.0.0.0'') ''net-handoff'' ''no lease'')))"

definition net_checks :: "bytes \<Rightarrow> int list \<Rightarrow> ((nat \<times> nat \<times> nat) \<times> string list) res" where
  \<comment> \<open>\<open>counts\<close>: frames, fetches, replies and refusals of FINAL\<close>
  "net_checks data counts =
     (let frames = counts ! 0; fetches = counts ! 1; replies = counts ! 2; refusals = counts ! 3 in
      bind (py_ints (map (\<lambda>m. mgroups m ! 0) (finditer deliver_record data))) (\<lambda>delivered.
      let sent = length (finditer (at_text ''LEANOS-LAB/1 NET event=send frame='') data);
          refused = length (finditer (at_text ''LEANOS-LAB/1 NET event=refuse '') data) in
      Inr ((length delivered, sent, refused),
        fail_if (frames < 1 \<or> fetches \<noteq> frames \<or> delivered \<noteq> map int [1..<nat frames + 1]) ''net''
          (''FINAL frames='' @ decimal_int frames @ '' fetches='' @ decimal_int fetches @ '', '' @
           decimal (length delivered) @ '' delivery records'') @
        fail_if (replies \<noteq> int sent) ''net'' (''FINAL replies='' @ decimal_int replies @ '', '' @ decimal sent @ '' send records'') @
        fail_if (refusals \<noteq> int refused) ''net''
          (''FINAL refusals='' @ decimal_int refusals @ '', '' @ decimal refused @ '' refusal records''))))"

definition count_checks ::
  "bytes \<Rightarrow> string \<Rightarrow> bytes list \<Rightarrow> (net_counts \<times> found option list \<times> string list) res" where
  \<comment> \<open>the records counted, the positions they add to the order, the failures\<close>
  "count_checks data scenario groups =
     bind (field_values groups) (\<lambda>vs.
     if scenario = ''qotom-device-stream'' then
       (let deliveries = length (finditer ipc_delivery data) in
        Inr (no_counts\<lparr>nc_ipc_deliveries := Some deliveries\<rparr>, [],
          fail_if (field_int (vs ! 2) \<noteq> int deliveries) ''ipc''
            (''FINAL deliveries='' @ decimal_int (field_int (vs ! 2)) @ '', '' @ decimal deliveries @ '' delivery records'')))
     else if scenario = ''qotom-dhcp-subject'' then
       (let lease = groups ! 1 in
        bind (net_checks data (map field_int (drop 2 vs))) (\<lambda>(counted, f1).
        bind (handoff_checks data (field_int (vs ! 0)) lease) (\<lambda>(handoff, lease_ipc, f2).
        Inr (no_counts\<lparr>nc_net := Some counted, nc_lease := Some lease\<rparr>, [handoff, lease_ipc], f1 @ f2))))
     else
       bind (net_checks data (map field_int vs)) (\<lambda>(counted, f1).
       Inr (no_counts\<lparr>nc_net := Some counted\<rparr>, [], f1)))"

definition passing_final ::
  "bytes \<Rightarrow> string \<Rightarrow> bool \<Rightarrow> found list \<Rightarrow> found option \<Rightarrow> terminal_info option \<Rightarrow>
     (net_counts \<times> found option list \<times> string list) res" where
  \<comment> \<open>the checks of a FINAL with status PASS\<close>
  "passing_final data scenario long ends final info =
     (case (final, info) of
        (Some m, Some i) \<Rightarrow>
          if ti_status i = Some ''PASS'' then
            (let groups = fullmatch_parts (final_parts scenario long) (slice (mstart m) (mend m) data);
                 f1 = fail_if (groups = None) ''terminal'' (''FINAL differs from the '' @ scenario @ '' record'');
                 f2 = fail_if (ends = [] \<and> \<not> bytes_in BUDGET_END data) ''service-end'' ''missing service end'' in
             case groups of None \<Rightarrow> Inr (no_counts, [], f1 @ f2)
             | Some gs \<Rightarrow> bind (count_checks data scenario gs) (\<lambda>(counts, ms, f3). Inr (counts, ms, f1 @ f2 @ f3)))
          else Inr (no_counts, [], [])
      | _ \<Rightarrow> Inr (no_counts, [], []))"

subsection \<open>The classification\<close>

definition starts_of :: "found option list \<Rightarrow> nat list" where
  \<comment> \<open>\<^verbatim>\<open>[m.start() for m in order if m is not None]\<close>\<close>
  "starts_of ms = map mstart (concat (map (\<lambda>m. case m of None \<Rightarrow> [] | Some f \<Rightarrow> [f]) ms))"

definition session_kicks ::
  "event list \<Rightarrow> (int \<times> int) option \<Rightarrow> rat \<Rightarrow> rat \<Rightarrow> (kick_report option \<times> string list) res" where
  "session_kicks events long timeout recovery_slack =
     (case long of
        None \<Rightarrow> Inr (None, fail_if (bytes_in ''WATCHDOG-KICK'' (log_bytes events)) ''watchdog-kicks''
          ''reload records in an image without a long session'')
      | Some (seconds, budget) \<Rightarrow>
          (case classify_watchdog_kicks events budget timeout recovery_slack of
             Inl (ValueError msg) \<Rightarrow> Inr (None, [failed ''watchdog-kicks'' msg])
           | Inl e \<Rightarrow> Inl e
           | Inr k \<Rightarrow> Inr (Some k, case kr_error k of None \<Rightarrow> []
               | Some err \<Rightarrow> [failed ''long-session'' (kr_outcome k @ '': '' @ err)])))"

record device_result =
  dv_scenario :: string
  dv_status :: string
  dv_failures :: "string list"
  dv_terminal :: "terminal_info option"
  dv_records :: program_records
  dv_counts :: net_counts
  dv_long :: "(int \<times> int) option"
  dv_kicks :: "kick_report option"
  dv_gtk :: "int list"
  dv_rotations :: nat
  dv_quiet :: "rat option"
  dv_recovery :: "rat option"
  dv_protected :: bool
  dv_sha256 :: string

definition device_order :: "launch \<Rightarrow> program_records \<Rightarrow> found option list \<Rightarrow> found option \<Rightarrow> nat list" where
  "device_order lau rs ms final =
     starts_of ([ln_accepted lau, ln_armed lau, ln_load lau, ln_mode lau, pg_platform rs, pg_assign rs, pg_grant rs,
       pg_ready rs] @ ms @ [if pg_ends rs = [] then None else Some (hd (pg_ends rs)), final])"

definition classify_device_program ::
  "event list \<Rightarrow> bytes \<Rightarrow> manifest \<Rightarrow> rat \<Rightarrow> rat \<Rightarrow> device_result res" where
  "classify_device_program events digest manifest timeout recovery_slack =
     bind (device_program_scenario manifest) (\<lambda>(scenario, long).
     raise_if (\<not> digest_ok digest) ''invalid protected image digest''
     (raise_if (\<not> digest_named manifest digest) ''lab manifest names a different ELF''
     (bind (open_capture events) (\<lambda>c.
      let data = cp_data c; (lau, f1) = protected_launch digest data in
      bind (read_terminal data) (\<lambda>(final, info, f2).
      let (rs, f3) = scenario_records data (scenario \<noteq> ''qotom-device-stream'') in
      bind (passing_final data scenario (long \<noteq> None) (pg_ends rs) final info) (\<lambda>(counts, ms, f4).
      let f5 = fail_if (\<not> sorted (device_order lau rs ms final)) ''order'' ''records out of order'' in
      bind (session_kicks events long timeout recovery_slack) (\<lambda>(kicks, f6).
      let (quiet, delay, f7) = recovery c final (ln_armed lau) timeout recovery_slack;
          failures = f1 @ f2 @ f3 @ f4 @ f5 @ f6 @ f7 in
      bind (py_ints (map (\<lambda>m. mgroups m ! 0) (finditer gtk_record data))) (\<lambda>gtk.
      Inr \<lparr>dv_scenario = scenario, dv_status = (if failures = [] then ''PASS'' else ''FAIL''), dv_failures = failures,
           dv_terminal = info, dv_records = rs, dv_counts = counts, dv_long = long, dv_kicks = kicks, dv_gtk = gtk,
           dv_rotations = bytes_count ''LEANOS-LAB/1 WIFI-GTK rekeyed msg2=sent'' data, dv_quiet = quiet,
           dv_recovery = delay, dv_protected = (ln_armed lau \<noteq> None \<and> ln_load lau \<noteq> None),
           dv_sha256 = sha256_hex data\<rparr>))))))))"

section \<open>Properties\<close>

lemma read_terminal_passes:
  assumes "read_terminal data = Inr (final, info, [])"
  obtains m i where "final = Some m" "info = Some i" "finditer final_record data = [m]" "ti_status i = Some ''PASS''"
    "terminal_info_of m = Inr i"
proof -
  obtain f fails where t: "the_terminal data = (f, fails)" by fastforce
  show ?thesis
  proof (cases f)
    case None
    with assms t have "fails = []" by (simp add: read_terminal_def)
    with t None the_terminal_none show ?thesis by fastforce
  next
    case (Some m)
    with assms t obtain i where "terminal_info_of m = Inr i" "info = Some i" "final = Some m" "ti_status i = Some ''PASS''"
      unfolding read_terminal_def by (auto simp: res_simps)
    with that the_terminal_Some t Some show ?thesis by blast
  qed
qed

lemma scenario_records_pass:
  assumes "scenario_records data network = (rs, [])"
  obtains platform grant ready where
    "pg_platform rs = Some platform" "pg_grant rs = Some grant" "pg_ready rs = Some ready"
    "finditer platform_record data = [platform]" "finditer grant_record data = [grant]" "finditer ready_record data = [ready]"
    "network \<Longrightarrow> \<exists>assign. pg_assign rs = Some assign \<and> finditer assign_record data = [assign]"
    "\<not> network \<Longrightarrow> pg_assign rs = None \<and> \<not> bytes_in ''BROADCOM-ASSIGN '' data"
    "pg_ends rs = finditer service_end_record data" "length (pg_ends rs) \<le> 1"
    "\<forall>m\<in>set (pg_ends rs). mgroups m ! 0 = ''0''"
proof -
  obtain p f1 where 1: "once data platform_record ''platform-admission'' (Some ''PLATFORM-ADMISSION '') = (p, f1)" by fastforce
  obtain a f2 where 2: "once data assign_record ''broadcom-assign'' (Some ''BROADCOM-ASSIGN '') = (a, f2)" by fastforce
  obtain g f3 where 3: "once data grant_record ''service-grant'' (Some ''SERVICE grant '') = (g, f3)" by fastforce
  obtain e f4 where 4: "once data ready_record ''ipc-ready'' None = (e, f4)" by fastforce
  obtain s f5 where 5: "service_ends data = (s, f5)" by fastforce
  from assms have n: "f1 = []" "f3 = []" "f4 = []" "f5 = []"
    unfolding scenario_records_def 1 2 3 4 5 Let_def by (auto split: if_splits)
  from once_none [OF 1 [unfolded n]] once_none [OF 3 [unfolded n]] once_none [OF 4 [unfolded n]]
  obtain pl gr re where found: "p = Some pl" "g = Some gr" "e = Some re" "finditer platform_record data = [pl]"
    "finditer grant_record data = [gr]" "finditer ready_record data = [re]" by blast
  have rs: "rs = \<lparr>pg_assign = (if network then a else None), pg_grant = g, pg_ready = e, pg_platform = p, pg_ends = s\<rparr>"
    and f2: "network \<Longrightarrow> f2 = []" "\<not> network \<Longrightarrow> \<not> bytes_in ''BROADCOM-ASSIGN '' data"
    using assms unfolding scenario_records_def 1 2 3 4 5 Let_def by (auto split: if_splits)
  have s: "s = finditer service_end_record data" "length s \<le> 1" "\<forall>m\<in>set s. mgroups m ! 0 = ''0''"
    using 5 unfolding n service_ends_def Let_def by (cases s; fastforce split: if_splits)+
  show ?thesis
    by (rule that [of pl gr re]) (use rs found f2 s once_none [of data assign_record] 2 in auto)
qed

lemma classify_device_program_inv:
  assumes "classify_device_program events digest manifest timeout slack = Inr r"
  obtains scenario long c lau f1 final info f2 rs f3 counts ms f4 kicks f6 quiet delay f7 where
    "device_program_scenario manifest = Inr (scenario, long)" "digest_ok digest" "digest_named manifest digest"
    "open_capture events = Inr c" "protected_launch digest (cp_data c) = (lau, f1)"
    "read_terminal (cp_data c) = Inr (final, info, f2)"
    "scenario_records (cp_data c) (scenario \<noteq> ''qotom-device-stream'') = (rs, f3)"
    "passing_final (cp_data c) scenario (long \<noteq> None) (pg_ends rs) final info = Inr (counts, ms, f4)"
    "session_kicks events long timeout slack = Inr (kicks, f6)"
    "recovery c final (ln_armed lau) timeout slack = (quiet, delay, f7)"
    "dv_failures r = f1 @ f2 @ f3 @ f4 @
       fail_if (\<not> sorted (device_order lau rs ms final)) ''order'' ''records out of order'' @ f6 @ f7"
    "dv_status r = (if dv_failures r = [] then ''PASS'' else ''FAIL'')"
    "dv_scenario r = scenario" "dv_long r = long" "dv_records r = rs" "dv_counts r = counts" "dv_kicks r = kicks"
    "dv_quiet r = quiet" "dv_recovery r = delay" "dv_terminal r = info"
  using assms unfolding classify_device_program_def Let_def
  apply (elim res_elims)
  apply (drule returned, rule that)
  apply (assumption | erule notnotD | simp only: device_result.select_convs)+
  done

lemma passing_final_passes:
  assumes "passing_final data scenario long ends (Some m) (Some i) = Inr (counts, ms, [])" "ti_status i = Some ''PASS''"
  obtains gs where "fullmatch_parts (final_parts scenario long) (slice (mstart m) (mend m) data) = Some gs"
    "count_checks data scenario gs = Inr (counts, ms, [])" "ends \<noteq> [] \<or> bytes_in BUDGET_END data"
  using assms unfolding passing_final_def Let_def by (auto simp: res_simps split: option.splits)

lemma starts_of_Some [simp]:
  "starts_of [] = []" "starts_of (Some m # ms) = mstart m # starts_of ms" "starts_of (None # ms) = starts_of ms"
  "starts_of (xs @ ys) = starts_of xs @ starts_of ys"
  by (simp_all add: starts_of_def)

text \<open>
  C12 (safety). A device program capture passes only when the log holds exactly one watchdog arm, one load
  of the image with the given digest, one recovery mode line, one platform admission, one service grant,
  one IPC profile and one FINAL, in this order; FINAL is the passing record of the scenario; no watchdog
  failure is recorded and the kernel prints nothing before the mode line or after FINAL; and the FreeBSD
  chain marker follows within the bound of the last watchdog reload.
\<close>

theorem device_program_passes:
  assumes "classify_device_program events digest manifest timeout slack = Inr r" "dv_status r = ''PASS''"
  shows "\<exists>armed load mode platform grant ready final c chain. digest_ok digest \<and>
    (let data = log_bytes events in
     finditer (at_text ARMED_MARK) data = [armed] \<and> finditer (wrapped_load LOAD_MARK digest) data = [load] \<and>
     finditer (at_text MODE_LINE) data = [mode] \<and> finditer platform_record data = [platform] \<and>
     finditer grant_record data = [grant] \<and> finditer ready_record data = [ready] \<and>
     finditer final_record data = [final] \<and>
     sorted (map mstart [armed, load, mode, platform, grant, ready, final]) \<and>
     fullmatch_parts (final_parts (dv_scenario r) (dv_long r \<noteq> None)) (slice (mstart final) (mend final) data) \<noteq> None \<and>
     (\<forall>m\<in>set LAUNCH_FAILURES. \<not> bytes_in m data) \<and> \<not> bytes_in ''LEANOS/'' (take (mstart mode) data) \<and>
     \<not> bytes_in ''LEANOS/'' (drop (mend final) data) \<and>
     open_capture events = Inr c \<and> find_from CHAIN_MARK data (mend final) = Some chain \<and>
     dv_recovery r = Some (recovery_delay c chain armed) \<and> recovery_delay c chain armed \<le> timeout + slack)"
  using assms(1)
proof (rule classify_device_program_inv)
  fix scenario long c lau f1 final info f2 rs f3 counts ms f4 kicks f6 quiet delay f7
  assume digest: "digest_ok digest" and c: "open_capture events = Inr c"
    and l: "protected_launch digest (cp_data c) = (lau, f1)"
    and t: "read_terminal (cp_data c) = Inr (final, info, f2)"
    and s: "scenario_records (cp_data c) (scenario \<noteq> ''qotom-device-stream'') = (rs, f3)"
    and p: "passing_final (cp_data c) scenario (long \<noteq> None) (pg_ends rs) final info = Inr (counts, ms, f4)"
    and q: "recovery c final (ln_armed lau) timeout slack = (quiet, delay, f7)"
    and f: "dv_failures r = f1 @ f2 @ f3 @ f4 @
       fail_if (\<not> sorted (device_order lau rs ms final)) ''order'' ''records out of order'' @ f6 @ f7"
      "dv_status r = (if dv_failures r = [] then ''PASS'' else ''FAIL'')"
    and r: "dv_scenario r = scenario" "dv_long r = long" "dv_recovery r = delay"
  from f assms(2) have n: "f1 = []" "f2 = []" "f3 = []" "f4 = []" "f7 = []" "sorted (device_order lau rs ms final)"
    by (simp_all split: if_splits)
  obtain accepted armed load mode where launch: "lau = \<lparr>ln_accepted = Some accepted, ln_armed = Some armed,
      ln_load = Some load, ln_mode = Some mode\<rparr>"
    "finditer (at_text ARMED_MARK) (cp_data c) = [armed]" "finditer (wrapped_load LOAD_MARK digest) (cp_data c) = [load]"
    "finditer (at_text MODE_LINE) (cp_data c) = [mode]" "\<forall>m\<in>set LAUNCH_FAILURES. \<not> bytes_in m (cp_data c)"
    "\<not> bytes_in ''LEANOS/'' (take (mstart mode) (cp_data c))"
    by (rule protected_launch_passes [OF l [unfolded n]])
  obtain m i where final: "final = Some m" "info = Some i" "finditer final_record (cp_data c) = [m]" "ti_status i = Some ''PASS''"
    by (rule read_terminal_passes [OF t [unfolded n]])
  obtain platform grant ready where recs: "pg_platform rs = Some platform" "pg_grant rs = Some grant" "pg_ready rs = Some ready"
    "finditer platform_record (cp_data c) = [platform]" "finditer grant_record (cp_data c) = [grant]"
    "finditer ready_record (cp_data c) = [ready]"
    by (rule scenario_records_pass [OF s [unfolded n]])
  obtain gs where gs: "fullmatch_parts (final_parts scenario (long \<noteq> None)) (slice (mstart m) (mend m) (cp_data c)) = Some gs"
    by (rule passing_final_passes [OF p [unfolded n final] final(4)])
  have "ln_armed lau = Some armed" using launch(1) by simp
  then obtain chain where chain: "find_from CHAIN_MARK (cp_data c) (mend m) = Some chain"
    "delay = Some (recovery_delay c chain armed)" "recovery_delay c chain armed \<le> timeout + slack"
    "after_run (cp_data c) (mend m) (Some chain) = []"
    using recovery_passes q n(5) final(1) by metis
  have "sorted (map mstart [armed, load, mode, platform, grant, ready, m])"
    using n(6) unfolding device_order_def launch(1) recs final(1)
    by (cases "pg_assign rs"; cases "pg_ends rs") (simp_all add: sorted_append)
  with digest c launch final recs gs chain r after_run_passes(2) [OF chain(4)] open_capture_fields(2) [OF c]
  show ?thesis by (auto simp: Let_def)
qed

end
