(* ===== verification/Lab_Program.thy ===== *)
theory Lab_Program
  imports Device_Program "HOL-Library.List_Lexorder" "HOL-Library.Char_ord"
begin

text \<open>
  \<^verbatim>\<open>lab_program_image\<close>, \<^verbatim>\<open>_rtl8168_arp\<close> and \<^verbatim>\<open>classify_lab_program\<close> of
  \<^verbatim>\<open>run-qotom-recovery-lab.py\<close>: a capture of one Lean device program that the lab kernel runs once.
  The value records of the program are triples of tag, value and position.
\<close>

unbundle bit_operations_syntax

subsection \<open>Text of numbers and lists\<close>

fun py_join :: "string \<Rightarrow> string list \<Rightarrow> string" where
  "py_join sep [] = []"
| "py_join sep [t] = t"
| "py_join sep (t # u # ts) = t @ sep @ py_join sep (u # ts)"

fun hex_text :: "nat \<Rightarrow> string" where
  \<comment> \<open>\<^verbatim>\<open>'%x'\<close>\<close>
  "hex_text n = (if n < 16 then [hex_char n] else hex_text (n div 16) @ [hex_char (n mod 16)])"

declare hex_text.simps [simp del]

definition hex_padded :: "nat \<Rightarrow> nat \<Rightarrow> string" where
  \<comment> \<open>\<^verbatim>\<open>'%0wx'\<close>\<close>
  "hex_padded w n = replicate (w - length (hex_text n)) CHR ''0'' @ hex_text n"

definition hex_number :: "bytes \<Rightarrow> nat" where
  \<comment> \<open>\<^verbatim>\<open>int(text, 16)\<close> of hexadecimal digits\<close>
  "hex_number ds = foldl (\<lambda>n c. 16 * n + hex_val c) 0 ds"

subsection \<open>The image\<close>

definition other_stages :: "manifest \<Rightarrow> string list" where
  "other_stages manifest = sort (map fst (filter (\<lambda>(k, v). v = JBool True \<and> k \<noteq> ''source_dirty'') manifest))"

definition lab_program_image :: "manifest \<Rightarrow> unit res" where
  "lab_program_image manifest =
     raise_if (\<not> (case mget manifest ''lab_program_sha256'' of JList [JStr d] \<Rightarrow> digest_ok d | _ \<Rightarrow> False))
       ''not a single --lab-program image''
     (raise_if (mget manifest ''wifi_program_sha256'' \<noteq> JNull) ''a --wifi-program image is not a plain lab-program image''
     (raise_if (mget manifest ''mode'' \<noteq> JStr ''completion'') ''lab-program image not built in completion mode''
     (raise_if (mget manifest ''long_session_seconds'' \<noteq> JNull \<or> mget manifest ''watchdog_kick_budget'' \<noteq> JNull)
       ''long-session flags in a plain lab-program image''
     (raise_if (other_stages manifest \<noteq> []) (''lab-program image with other stages: '' @ py_join '', '' (other_stages manifest))
     (Inr ())))))"

subsection \<open>The records of rtl8168-arp\<close>

type_synonym value_record = "nat \<times> nat \<times> nat"

definition RTL8168_DUMP :: "nat list" where
  "RTL8168_DUMP = [0x37, 0x3c, 0x3e, 0x40, 0x44, 0x4c, 0x50, 0x52, 0x54, 0x56, 0x58, 0x6c,
     0xda, 0xe0, 0xec, 0x10, 0x14, 0x20, 0x24, 0x28, 0x2c, 0xe4, 0xe8]"

definition in_dump :: "nat \<Rightarrow> value_record \<Rightarrow> bool" where
  "in_dump base v \<longleftrightarrow> fst v AND 0xff00 = base"

definition dump_detail :: "nat list \<Rightarrow> nat list \<Rightarrow> string" where
  "dump_detail tags expected =
     (let missing = filter (\<lambda>t. t \<notin> set tags) expected;
          extra = sort (remdups (filter (\<lambda>t. t \<notin> set expected \<or> 1 < count_list tags t) tags));
          parts = map (\<lambda>(what, which). what @ '' '' @ py_join '' '' (map (hex_padded 4) which))
            (filter (\<lambda>(what, which). which \<noteq> []) [(''missing'', missing), (''repeated or unexpected'', extra)])
      in py_join ''; '' (if parts = [] then [''out of order''] else parts))"

definition dump :: "value_record list \<Rightarrow> nat \<Rightarrow> string \<Rightarrow> (nat \<times> nat) list \<times> string list" where
  \<comment> \<open>the registers dumped once, by offset\<close>
  "dump values base check =
     (let got = filter (in_dump base) values; tags = map fst got;
          expected = map (\<lambda>off. base OR off) RTL8168_DUMP in
      (map (\<lambda>(t, v, _). (t AND 0xff, v)) (filter (\<lambda>(t, _). count_list tags t = 1) got),
       fail_if (tags \<noteq> expected) check (dump_detail tags expected)))"

definition single_value :: "value_record list \<Rightarrow> nat \<Rightarrow> string \<Rightarrow> (nat \<times> nat) option \<times> string list" where
  \<comment> \<open>value and position of the only record of a tag\<close>
  "single_value values tag check =
     (let found = map snd (filter (\<lambda>v. fst v = tag) values) in
      if length found \<noteq> 1 then
        (None, [failed check (hex_padded 4 tag @ '' '' @ (if found = [] then ''missing'' else ''repeated''))])
      else (Some (hd found), []))"

definition dump_start :: "value_record list \<Rightarrow> nat \<Rightarrow> nat option" where
  "dump_start values base = map_option (\<lambda>(_, _, p). p) (find (in_dump base) values)"

definition dump_stop :: "value_record list \<Rightarrow> nat \<Rightarrow> nat option" where
  "dump_stop values base = map_option (\<lambda>(_, _, p). p) (find (in_dump base) (rev values))"

definition mac_text :: "nat \<Rightarrow> nat \<Rightarrow> string" where
  "mac_text low high =
     py_join '':'' (map (\<lambda>i. hex_padded 2 (drop_bit (8 * i) (low OR push_bit 32 high) AND 0xff)) [0..<6])"

record arp_records =
  ar_before :: "(nat \<times> nat) list"
  ar_link :: "nat option"
  ar_transmit :: "nat list"
  ar_router :: "string option"
  ar_frames :: "nat option"
  ar_after :: "(nat \<times> nat) list"

definition transmit_checks :: "(nat \<times> nat) list \<Rightarrow> string list" where
  "transmit_checks transmit =
     fail_if (\<not> (1 \<le> length transmit \<and> length transmit \<le> 3)) ''transmit''
       (decimal (length transmit) @ '' 400c records, not 1 to 3'') @
     concat (map (\<lambda>(status, _). fail_if (status AND 0x80000000 \<noteq> 0) ''transmit''
       (''400c = 0x'' @ hex_padded 8 status @ '': the chip still owns the descriptor'')) transmit)"

definition router_address :: "(nat \<times> nat) option \<Rightarrow> (nat \<times> nat) option \<Rightarrow> string option \<times> string list" where
  "router_address low high =
     (case (low, high) of
        (Some (l, _), Some (h, _)) \<Rightarrow>
          if 0xffff < h then (None, [failed ''router-address'' (''4008 = 0x'' @ hex_padded 8 h @ '' is wider than 16 bits'')])
          else (Some (mac_text l h), [])
      | _ \<Rightarrow> (None, []))"

definition register_check :: "(nat \<times> nat) list \<Rightarrow> nat \<Rightarrow> (nat \<Rightarrow> bool) \<Rightarrow> string \<Rightarrow> (nat \<Rightarrow> string) \<Rightarrow> string list" where
  \<comment> \<open>a register that was dumped and holds a bad value\<close>
  "register_check after offset bad check detail =
     (case map_of after offset of None \<Rightarrow> [] | Some v \<Rightarrow> fail_if (bad v) check (detail v))"

definition quiesced_checks :: "(nat \<times> nat) list \<Rightarrow> string list" where
  "quiesced_checks after =
     register_check after 0x37 (\<lambda>v. v \<noteq> 0) ''after-command''
       (\<lambda>v. ''4237 = 0x'' @ hex_padded 2 v @ '', not 0: TE, RE or RST still set'') @
     register_check after 0x3c (\<lambda>v. v \<noteq> 0) ''after-imr''
       (\<lambda>v. ''423c = 0x'' @ hex_padded 4 v @ '', not 0: interrupts unmasked'') @
     register_check after 0x50 (\<lambda>v. v AND 0xc0 \<noteq> 0) ''after-9346cr''
       (\<lambda>v. ''4250 = 0x'' @ hex_padded 2 v @ '': EEM bits 7:6 set, configuration registers unlocked'')"

definition somes :: "'a option list \<Rightarrow> 'a list" where
  "somes xs = concat (map (\<lambda>x. case x of None \<Rightarrow> [] | Some y \<Rightarrow> [y]) xs)"

definition teardown_checks :: "value_record list \<Rightarrow> string list" where
  "teardown_checks values =
     fail_if (list_ex (\<lambda>v. fst v = 0x400d) values) ''teardown'' ''400d: the stop request timed out'' @
     fail_if (list_ex (\<lambda>v. fst v = 0x400e) values) ''teardown'' ''400e: the reset did not complete''"

definition rtl8168_arp :: "value_record list \<Rightarrow> arp_records \<times> nat list \<times> string list" where
  "rtl8168_arp values =
     (let (before, f1) = dump values 0x4100 ''before-dump'';
          (link, f2) = single_value values 0x4004 ''link'';
          f3 = (case link of None \<Rightarrow> [] | Some (v, _) \<Rightarrow>
                  fail_if (v AND 0x02 = 0) ''link'' (''4004 = 0x'' @ hex_padded 2 v @ '' without the link bit''));
          transmit = map snd (filter (\<lambda>v. fst v = 0x400c) values);
          (low, f4) = single_value values 0x4007 ''router-address'';
          (high, f5) = single_value values 0x4008 ''router-address'';
          (address, f6) = router_address low high;
          (frames, f7) = single_value values 0x4009 ''frames'';
          f8 = (case frames of None \<Rightarrow> [] | Some (v, _) \<Rightarrow> fail_if (v < 1) ''frames'' ''4009 = 0: no frame received'');
          (after, f9) = dump values 0x4200 ''after-dump'';
          (finished, f10) = single_value values 0x40ff ''done'';
          f11 = (case finished of None \<Rightarrow> [] | Some _ \<Rightarrow>
                   fail_if (fst (last values) \<noteq> 0x40ff) ''done'' ''40ff is not the last record'');
          place = map_option snd in
      (\<lparr>ar_before = before, ar_link = map_option fst link, ar_transmit = map fst transmit, ar_router = address,
        ar_frames = map_option fst frames, ar_after = after\<rparr>,
       somes [dump_start values 0x4100, dump_stop values 0x4100, place link,
         if transmit = [] then None else Some (snd (hd transmit)), if transmit = [] then None else Some (snd (last transmit)),
         place low, place high, place frames, dump_start values 0x4200, dump_stop values 0x4200, place finished],
       f1 @ f2 @ f3 @ transmit_checks transmit @ f4 @ f5 @ f6 @ f7 @ f8 @ teardown_checks values @ f9 @
         quiesced_checks after @ f10 @ f11))"

subsection \<open>The classification\<close>

definition boot_mark :: matcher where
  "boot_mark = match_parts [L ''LEANOS/'', Skip1 is_digit, L '' BOOT '']"

definition begin_record :: matcher where
  \<comment> \<open>the second group, of the base address, is not one of the source\<close>
  "begin_record = match_parts [L ''LEANOS-LAB/1 WIFI-BEGIN id=0x'', Item (Hex 8), L '' bar0=0x'', Item (Hex 8), Maybe CR, CHAR_NL]"

definition is_status_char :: "char \<Rightarrow> bool" where
  "is_status_char c \<longleftrightarrow> is_digit c \<or> (97 \<le> (of_char c :: nat) \<and> (of_char c :: nat) \<le> 122) \<or> c = CHR ''-''"

definition end_record :: matcher where
  "end_record = match_parts [L ''LEANOS-LAB/1 WIFI-END status='', Some1 is_status_char,
     Optional [L '' code=0x'', Item (Hex 8)], Maybe CR, CHAR_NL]"

definition value_line :: matcher where
  "value_line = match_parts [L ''WIFI '', Item (Hex 4), L '' 0x'', Item (Hex 8), Maybe CR, CHAR_NL]"

definition LAB_PROGRAMS :: "(nat \<times> string) list" where
  "LAB_PROGRAMS = [(0x816810ec, ''rtl8168-arp'')]"

definition LAB_PROGRAM_FINAL :: string where
  "LAB_PROGRAM_FINAL = ''status=FAIL reason=qotom-platform-pending''"

definition lab_terminal :: "bytes \<Rightarrow> found option \<times> string list" where
  "lab_terminal data =
     (case the_terminal data of
        (None, fails) \<Rightarrow> (None, fails)
      | (Some m, fails) \<Rightarrow> (Some m, fails @ fail_if (terminal_text m \<noteq> LAB_PROGRAM_FINAL) ''terminal''
          (''FINAL '' @ terminal_text m @ '', not the lab kernel'' @ [CHR 0x27] @ ''s '' @ LAB_PROGRAM_FINAL)))"

definition end_code :: "found \<Rightarrow> string option" where
  "end_code m = (if length (mgroups m) = 2 then Some (''0x'' @ mgroups m ! 1) else None)"

definition program_end :: "bytes \<Rightarrow> found option \<times> string list" where
  "program_end data =
     (let ends = finditer end_record data in
      if length ends = 1 \<and> bytes_count ''WIFI-END'' data = 1 then
        (Some (hd ends),
         fail_if (mgroups (hd ends) ! 0 \<noteq> ''0'') ''wifi-end''
           (''program ended with status='' @ mgroups (hd ends) ! 0 @ '' code='' @
            (case end_code (hd ends) of None \<Rightarrow> ''None'' | Some code \<Rightarrow> code)))
      else (None, [failed ''wifi-end'' (if ends = [] then ''missing or changed'' else ''repeated'')]))"

definition lab_program_of :: "found option \<Rightarrow> string option res" where
  "lab_program_of start =
     (case start of None \<Rightarrow> Inr None
      | Some m \<Rightarrow>
          let device = hex_number (mgroups m ! 0) in
          (case map_of LAB_PROGRAMS device of
             None \<Rightarrow> raise (''no classifier for the lab program on device 0x'' @ hex_padded 8 device)
           | Some name \<Rightarrow> Inr (Some name)))"

definition program_values :: "bytes \<Rightarrow> found \<Rightarrow> found option \<Rightarrow> found option \<Rightarrow> value_record list \<times> string list" where
  \<comment> \<open>the value records from WIFI-BEGIN to WIFI-END, to FINAL, or to the end of the capture\<close>
  "program_values data start stop final =
     (let bound = (case stop of Some m \<Rightarrow> mstart m
            | None \<Rightarrow> (case final of Some m \<Rightarrow> if mend start < mstart m then mstart m else length data
                | None \<Rightarrow> length data));
          body = slice (mend start) bound data;
          matches = finditer value_line body in
      (map (\<lambda>m. (hex_number (mgroups m ! 0), hex_number (mgroups m ! 1), mend start + mstart m)) matches,
       fail_if (length matches \<noteq> bytes_count ''WIFI '' body) ''records'' ''malformed WIFI value record''))"

definition program_part ::
  "bytes \<Rightarrow> found option \<Rightarrow> found option \<Rightarrow> found option \<Rightarrow> arp_records option \<times> nat list \<times> string list" where
  "program_part data start stop final =
     (case start of None \<Rightarrow> (None, [], [])
      | Some m \<Rightarrow>
          let (values, f1) = program_values data m stop final; (records, positions, f2) = rtl8168_arp values in
          (Some records, positions, f1 @ f2))"

record program_result =
  lb_scenario :: string
  lb_status :: string
  lb_failures :: "string list"
  lb_terminal :: "(string \<times> string) list option"
  lb_device :: "bytes option"
  lb_end :: "(bytes \<times> string option) option"
  lb_records :: "arp_records option"
  lb_quiet :: "rat option"
  lb_recovery :: "rat option"
  lb_protected :: bool
  lb_sha256 :: string

definition classify_lab_program ::
  "event list \<Rightarrow> bytes \<Rightarrow> manifest \<Rightarrow> rat \<Rightarrow> rat \<Rightarrow> program_result res" where
  "classify_lab_program events digest manifest timeout recovery_slack =
     bind (lab_program_image manifest) (\<lambda>_.
     raise_if (\<not> digest_ok digest) ''invalid protected image digest''
     (raise_if (\<not> digest_named manifest digest) ''lab manifest names a different ELF''
     (bind (open_capture events) (\<lambda>c.
      let data = cp_data c; (lau, f1) = protected_launch digest data;
          (boot, f2) = once data boot_mark ''boot'' None;
          f3 = fail_if (bytes_in ''WATCHDOG-KICK'' data) ''watchdog-kicks'' ''reload records in an image without a long session'';
          (start, f4) = once data begin_record ''wifi-begin'' (Some ''WIFI-BEGIN'') in
      bind (lab_program_of start) (\<lambda>program.
      let (stop, f5) = program_end data; (final, f6) = lab_terminal data;
          (records, positions, f7) = program_part data start stop final;
          places = starts_of [ln_accepted lau, ln_armed lau, ln_load lau, ln_mode lau, boot, start] @ positions @
            starts_of [stop, final];
          f8 = fail_if (\<not> sorted places) ''order'' ''records out of order'';
          (quiet, delay, f9) = recovery c final (ln_armed lau) timeout recovery_slack;
          failures = f1 @ f2 @ f3 @ f4 @ f5 @ f6 @ f7 @ f8 @ f9 in
      Inr \<lparr>lb_scenario = ''qotom-'' @ (case program of None \<Rightarrow> ''lab-program'' | Some name \<Rightarrow> name),
           lb_status = (if failures = [] then ''PASS'' else ''FAIL''), lb_failures = failures,
           lb_terminal = map_option (\<lambda>m. text_fields (terminal_text m)) final,
           lb_device = map_option (\<lambda>m. mgroups m ! 0) start,
           lb_end = map_option (\<lambda>m. (mgroups m ! 0, end_code m)) stop, lb_records = records, lb_quiet = quiet,
           lb_recovery = delay, lb_protected = (ln_armed lau \<noteq> None \<and> ln_load lau \<noteq> None),
           lb_sha256 = sha256_hex data\<rparr>)))))"

section \<open>Properties\<close>

lemma filter_counted: "distinct (map fst xs) \<Longrightarrow> filter (\<lambda>(t, _). count_list (map fst xs) t = 1) xs = xs"
proof -
  have once: "count_list ts t = Suc 0" if "distinct ts" "t \<in> set ts" for ts :: "'a list" and t
    using that by (induction ts) auto
  show "distinct (map fst xs) \<Longrightarrow> ?thesis"
    by (rule filter_True) (force intro!: once)
qed

lemma dump_passes:
  assumes "dump values base check = (regs, [])" "base \<in> {0x4100, 0x4200}"
  shows "map fst regs = RTL8168_DUMP"
proof -
  let ?got = "filter (in_dump base) values" and ?expected = "map (\<lambda>off. base OR off) RTL8168_DUMP"
  from assms have tags: "map fst ?got = ?expected" and regs: "regs = map (\<lambda>(t, v, _). (t AND 0xff, v))
      (filter (\<lambda>(t, _). count_list (map fst ?got) t = 1) ?got)"
    by (auto simp: dump_def Let_def)
  have "distinct ?expected" "map (\<lambda>t. t AND 0xff) ?expected = RTL8168_DUMP" using assms(2) by (auto simp: RTL8168_DUMP_def)
  then have "filter (\<lambda>(t, _). count_list (map fst ?got) t = 1) ?got = ?got"
    by (intro filter_counted) (simp only: tags)
  then have "map fst regs = map (\<lambda>t. t AND 0xff) (map fst ?got)" unfolding regs by (simp add: case_prod_beta' comp_def)
  with tags \<open>map (\<lambda>t. t AND 0xff) ?expected = RTL8168_DUMP\<close> show ?thesis by simp
qed

lemma single_value_none: "single_value values tag check = (found, []) \<Longrightarrow> \<exists>v. found = Some v"
  by (auto simp: single_value_def Let_def split: if_splits)

lemma register_check_passes:
  "register_check after off bad check detail = [] \<Longrightarrow> off \<in> set (map fst after) \<Longrightarrow> \<exists>v. map_of after off = Some v \<and> \<not> bad v"
  by (auto simp: register_check_def split: option.splits if_splits dest: weak_map_of_SomeI)

definition arp_accepted :: "arp_records \<Rightarrow> bool" where
  \<comment> \<open>what the records of a passing program show\<close>
  "arp_accepted a \<longleftrightarrow>
     map fst (ar_before a) = RTL8168_DUMP \<and> map fst (ar_after a) = RTL8168_DUMP \<and>
     (\<exists>link. ar_link a = Some link \<and> link AND 0x02 \<noteq> 0) \<and>
     1 \<le> length (ar_transmit a) \<and> length (ar_transmit a) \<le> 3 \<and> (\<forall>s\<in>set (ar_transmit a). s AND 0x80000000 = 0) \<and>
     ar_router a \<noteq> None \<and> (\<exists>n\<ge>1. ar_frames a = Some n) \<and>
     map_of (ar_after a) 0x37 = Some 0 \<and> map_of (ar_after a) 0x3c = Some 0 \<and>
     (\<exists>v. map_of (ar_after a) 0x50 = Some v \<and> v AND 0xc0 = 0)"

lemma rtl8168_arp_passes:
  assumes "rtl8168_arp values = (a, positions, [])"
  shows "arp_accepted a" "\<forall>v\<in>set values. fst v \<noteq> 0x400d \<and> fst v \<noteq> 0x400e" "fst (last values) = 0x40ff"
proof -
  obtain before f1 where 1: "dump values 0x4100 ''before-dump'' = (before, f1)" by fastforce
  obtain link f2 where 2: "single_value values 0x4004 ''link'' = (link, f2)" by fastforce
  obtain low f4 where 4: "single_value values 0x4007 ''router-address'' = (low, f4)" by fastforce
  obtain high f5 where 5: "single_value values 0x4008 ''router-address'' = (high, f5)" by fastforce
  obtain address f6 where 6: "router_address low high = (address, f6)" by fastforce
  obtain frames f7 where 7: "single_value values 0x4009 ''frames'' = (frames, f7)" by fastforce
  obtain after f9 where 9: "dump values 0x4200 ''after-dump'' = (after, f9)" by fastforce
  obtain finished f10 where 10: "single_value values 0x40ff ''done'' = (finished, f10)" by fastforce
  let ?transmit = "map snd (filter (\<lambda>v. fst v = 0x400c) values)"
  note un = rtl8168_arp_def Let_def 1 2 4 5 6 7 9 10 prod.case
  from assms have n: "f1 = []" "f2 = []" "f4 = []" "f5 = []" "f6 = []" "f7 = []" "f9 = []" "f10 = []"
    "transmit_checks ?transmit = []" "teardown_checks values = []" "quiesced_checks after = []"
    and a: "a = \<lparr>ar_before = before, ar_link = map_option fst link, ar_transmit = map fst ?transmit, ar_router = address,
        ar_frames = map_option fst frames, ar_after = after\<rparr>"
    and c: "\<And>v p. link = Some (v, p) \<Longrightarrow> v AND 0x02 \<noteq> 0" "\<And>v p. frames = Some (v, p) \<Longrightarrow> 1 \<le> v"
      "\<And>v. finished = Some v \<Longrightarrow> fst (last values) = 0x40ff"
    unfolding un by auto
  obtain l lp where link: "link = Some (l, lp)" using single_value_none [OF 2 [unfolded n]] by auto
  obtain fr fp where frames: "frames = Some (fr, fp)" using single_value_none [OF 7 [unfolded n]] by auto
  obtain fin where fin: "finished = Some fin" using single_value_none [OF 10 [unfolded n]] by auto
  have regs: "map fst before = RTL8168_DUMP" "map fst after = RTL8168_DUMP"
    using dump_passes [OF 1 [unfolded n]] dump_passes [OF 9 [unfolded n]] by simp_all
  have router: "address \<noteq> None"
    using 6 single_value_none [OF 4 [unfolded n]] single_value_none [OF 5 [unfolded n]] unfolding n
    by (auto simp: router_address_def split: if_splits)
  have q: "off \<in> set (map fst after)" if "off \<in> {0x37, 0x3c, 0x50}" for off
    using that unfolding regs by (auto simp: RTL8168_DUMP_def)
  have "map_of after 0x37 = Some 0" "map_of after 0x3c = Some 0" "\<exists>v. map_of after 0x50 = Some v \<and> v AND 0xc0 = 0"
    using n(11) register_check_passes [OF _ q] unfolding quiesced_checks_def by fastforce+
  then show "arp_accepted a"
    using regs router c(1) [OF link] c(2) [OF frames] n(9) link frames
    unfolding arp_accepted_def a transmit_checks_def by auto
  show "\<forall>v\<in>set values. fst v \<noteq> 0x400d \<and> fst v \<noteq> 0x400e" using n(10) by (auto simp: teardown_checks_def list_ex_iff)
  show "fst (last values) = 0x40ff" using c(3) [OF fin] .
qed

lemma program_end_passes:
  assumes "program_end data = (stop, [])"
  shows "\<exists>m. stop = Some m \<and> finditer end_record data = [m] \<and> mgroups m ! 0 = ''0''"
  using assms unfolding program_end_def Let_def
  by (cases "finditer end_record data") (auto split: if_splits)

lemma classify_lab_program_inv:
  assumes "classify_lab_program events digest manifest timeout slack = Inr r"
  obtains c lau f1 boot f2 start f4 program stop f5 final f6 records positions f7 quiet delay f9 where
    "digest_ok digest" "open_capture events = Inr c" "protected_launch digest (cp_data c) = (lau, f1)"
    "once (cp_data c) begin_record ''wifi-begin'' (Some ''WIFI-BEGIN'') = (start, f4)"
    "lab_program_of start = Inr program" "program_end (cp_data c) = (stop, f5)" "lab_terminal (cp_data c) = (final, f6)"
    "program_part (cp_data c) start stop final = (records, positions, f7)"
    "recovery c final (ln_armed lau) timeout slack = (quiet, delay, f9)"
    "lb_failures r = f1 @ f2 @
       fail_if (bytes_in ''WATCHDOG-KICK'' (cp_data c)) ''watchdog-kicks'' ''reload records in an image without a long session'' @
       f4 @ f5 @ f6 @ f7 @ fail_if (\<not> sorted (starts_of [ln_accepted lau, ln_armed lau, ln_load lau, ln_mode lau, boot, start]
         @ positions @ starts_of [stop, final])) ''order'' ''records out of order'' @ f9"
    "lb_status r = (if lb_failures r = [] then ''PASS'' else ''FAIL'')"
    "lb_device r = map_option (\<lambda>m. mgroups m ! 0) start" "lb_end r = map_option (\<lambda>m. (mgroups m ! 0, end_code m)) stop"
    "lb_records r = records"
  using assms unfolding classify_lab_program_def Let_def
  apply (elim res_elims)
  apply (drule returned, rule that)
  apply (assumption | erule notnotD | simp only: program_result.select_convs)+
  done

text \<open>
  A lab program capture passes only when the one program ran on the known network controller
  and ended with status 0, its records are complete (both register dumps in order, link up, one to three
  transmissions that the chip handed back, a router address, at least one frame), and the last dump shows
  the controller quiesced: engines stopped, interrupts masked, configuration locked; neither stop nor
  reset timed out, and the completion record is the last one.
\<close>

theorem lab_program_quiesced:
  assumes "classify_lab_program events digest manifest timeout slack = Inr r" "lb_status r = ''PASS''"
  shows "\<exists>start stop a. finditer begin_record (log_bytes events) = [start] \<and> hex_number (mgroups start ! 0) = 0x816810ec \<and>
    finditer end_record (log_bytes events) = [stop] \<and> mgroups stop ! 0 = ''0'' \<and> lb_records r = Some a \<and> arp_accepted a \<and>
    (let values = fst (program_values (log_bytes events) start (Some stop) None) in
     a = fst (rtl8168_arp values) \<and> (\<forall>v\<in>set values. fst v \<noteq> 0x400d \<and> fst v \<noteq> 0x400e) \<and> fst (last values) = 0x40ff)"
  using assms(1)
proof (rule classify_lab_program_inv)
  fix c lau f1 boot f2 start f4 program stop f5 final f6 records positions f7 quiet delay f9
  assume c: "open_capture events = Inr c" and b: "once (cp_data c) begin_record ''wifi-begin'' (Some ''WIFI-BEGIN'') = (start, f4)"
    and prog: "lab_program_of start = Inr program" and e: "program_end (cp_data c) = (stop, f5)"
    and p: "program_part (cp_data c) start stop final = (records, positions, f7)"
    and f: "lb_failures r = f1 @ f2 @
       fail_if (bytes_in ''WATCHDOG-KICK'' (cp_data c)) ''watchdog-kicks'' ''reload records in an image without a long session'' @
       f4 @ f5 @ f6 @ f7 @ fail_if (\<not> sorted (starts_of [ln_accepted lau, ln_armed lau, ln_load lau, ln_mode lau, boot, start]
         @ positions @ starts_of [stop, final])) ''order'' ''records out of order'' @ f9"
      "lb_status r = (if lb_failures r = [] then ''PASS'' else ''FAIL'')" and r: "lb_records r = records"
  from f assms(2) have n: "f4 = []" "f5 = []" "f7 = []" by (simp_all split: if_splits)
  from once_none [OF b [unfolded n]] obtain s where s: "start = Some s" "finditer begin_record (cp_data c) = [s]" by blast
  from program_end_passes [OF e [unfolded n]] obtain m where
    m: "stop = Some m" "finditer end_record (cp_data c) = [m]" "mgroups m ! 0 = ''0''" by blast
  have device: "hex_number (mgroups s ! 0) = 0x816810ec"
    using prog unfolding s(1) lab_program_of_def LAB_PROGRAMS_def Let_def
    by (auto simp: res_simps split: if_splits option.splits)
  let ?vals = "fst (program_values (cp_data c) s (Some m) None)"
  obtain a where a: "rtl8168_arp ?vals = (a, positions, [])" "records = Some a"
    using p unfolding n s(1) m(1) program_part_def program_values_def Let_def
    by (auto split: prod.splits)
  from rtl8168_arp_passes [OF a(1)] s m device a r show ?thesis
    using open_capture_fields(2) [OF c] by (auto simp: Let_def)
qed

end
