(* ===== verification/Part_Texts.thy ===== *)
theory Part_Texts
  imports Py_Search
begin

text \<open>
  The text that an expression of \<open>Py_Search\<close> matched.  Each rule splits a match at its first part; applied
  in turn they print the matched text from its groups, and say what each group consists of.
\<close>

named_theorems part_elims \<open>the text and the groups of the first part of a match\<close>

lemma match_parts_Nil [part_elims]:
  assumes "match_parts [] s = Some (gs, r)"
  obtains "gs = []" "r = s"
  using assms by simp

lemma match_parts_Lit [part_elims]:
  assumes "match_parts (L t # ps) s = Some (gs, r)"
  obtains s' where "s = t @ s'" "match_parts ps s' = Some (gs, r)"
  using assms by (auto split: if_splits option.splits dest: startswith_drop)

lemma match_parts_Digits [part_elims]:
  assumes "match_parts (DIGITS # ps) s = Some (gs, r)"
  obtains d s' gs' where "s = d @ s'" "gs = d # gs'" "digit_text d" "match_parts ps s' = Some (gs', r)"
proof -
  from assms obtain d s' gs' where m: "scan_item (DigitList 0) s = Some (d, s')" "gs = d # gs'" "match_parts ps s' = Some (gs', r)"
    by (auto simp del: scan_item.simps split: option.splits)
  moreover from scan_item_sound [OF m(1)] have "s = d @ s'" "digit_text d" by simp_all
  ultimately show ?thesis by (intro that)
qed

lemma match_parts_Skip1 [part_elims]:
  assumes "match_parts (Skip1 P # ps) s = Some (gs, r)"
  obtains t s' where "s = t @ s'" "t \<noteq> []" "list_all P t" "match_parts ps s' = Some (gs, r)"
  using assms by (intro that [of "takeWhile P s" "dropWhile P s"])
    (auto simp: scan_run_def list_all_iff dest: set_takeWhileD split: option.splits if_splits)

lemma octets_sound:
  "octets k s = Some (gs, r) \<Longrightarrow> \<exists>t. s = t @ r \<and> gs = [t] \<and> list_all (\<lambda>c. is_digit c \<or> c = CHR ''.'') t"
proof (induction k arbitrary: s gs r)
  case 0
  then show ?case
    by (auto simp: Let_def list_all_iff dest: set_takeWhileD split: if_splits)
next
  case (Suc k)
  let ?d = "takeWhile is_digit s"
  from Suc.prems obtain u gs' where u: "dropWhile is_digit s = CHR ''.'' # u" "octets k u = Some (gs', r)"
    "\<exists>t. gs' = [t] \<and> gs = [?d @ CHR ''.'' # t]"
    by (auto simp: Let_def split: if_splits list.splits option.splits)
  from Suc.IH [OF u(2)] u(3) obtain t where t: "u = t @ r" "list_all (\<lambda>c. is_digit c \<or> c = CHR ''.'') t" "gs = [?d @ CHR ''.'' # t]"
    by auto
  moreover have "s = (?d @ CHR ''.'' # t) @ r" using takeWhile_dropWhile_id [of is_digit s] u(1) t(1) by simp
  ultimately show ?case by (auto simp: list_all_iff dest: set_takeWhileD)
qed

lemma match_parts_Dotted4 [part_elims]:
  assumes "match_parts (Dotted4 # ps) s = Some (gs, r)"
  obtains t s' gs' where "s = t @ s'" "gs = t # gs'" "list_all (\<lambda>c. is_digit c \<or> c = CHR ''.'') t" "match_parts ps s' = Some (gs', r)"
proof -
  from assms obtain hs s' gs' where m: "octets 3 s = Some (hs, s')" "gs = hs @ gs'" "match_parts ps s' = Some (gs', r)"
    by (auto simp del: octets.simps split: option.splits)
  from octets_sound [OF m(1)] m(2,3) show ?thesis by (auto intro: that)
qed

end
