(* ===== verification/Production.thy ===== *)
theory Production
  imports Device_Program Part_Texts
begin

text \<open>
  \<^verbatim>\<open>classify_production\<close> of \<^verbatim>\<open>run-qotom-recovery-lab.py\<close>: a capture of the production network image, which
  boots from a one-shot request without a watchdog and halts after FINAL.
\<close>

subsection \<open>The expressions\<close>

definition select_record :: matcher where "select_record = at_text ''LEANOS-LAB/1 SELECT leanos consumed=1''"

definition production_mode :: matcher where
  "production_mode = at_text (''LEANOS-LAB/1 MODE qotom-production final=halt watchdog=none'' @ NL)"

definition windows_record :: matcher where
  "windows_record = at_text (''LEANOS-LAB/1 PRODUCTION-WINDOWS profile=qotom-network-v1 holders=1,3 '' @
     ''a-window-pages=2 c-window-pages=1 fetch-root=writable send-root=read-only '' @
     ''protected=8 roots=5 scan=exact operand=agree root-c=exact'' @ NL)"

definition production_ready :: matcher where
  "production_ready = at_text (''LEANOS-LAB/1 PRODUCTION-READY profile=qotom-network-v1 subjects=3 '' @
     ''address-spaces=3 frames=copy-window watchdog=none final=halt'' @ NL)"

definition production_handoff :: matcher where
  "production_handoff = match_parts [L ''LEANOS-LAB/1 NET event=handoff from=1 to=3 frame='', DIGITS, L '' lease='',
     Some1 is_lease_char, L '' route=echo address-spaces=separate model=accepted'', CHAR_NL]"

definition lease_signal :: matcher where
  "lease_signal = match_parts [L ''LEANOS-LAB/1 WIFI-LEASE signalled after-ms='', DIGITS, CHAR_NL]"

definition echo_delivery :: matcher where
  "echo_delivery = match_parts [L ''LEANOS-LAB/1 NET event=deliver frame='', DIGITS, L '' bytes='', Skip1 is_digit,
     L '' port=echo'', CHAR_NL]"

definition subject_event :: "bytes \<Rightarrow> matcher" where
  "subject_event event = match_parts [L (''LEANOS-LAB/1 NET event='' @ event @ '' subject=''), Char_In (\<lambda>c. c \<in> set ''13''), L '' '']"

definition PRODUCTION_FINAL :: "part list" where
  "PRODUCTION_FINAL =
     [L ''LEANOS/'', Skip1 is_digit,
      L '' FINAL status=PASS profile=qotom-network-v1 subjects=3 dhcp-subject=1 echo-subject=3 device-holder=2 address-spaces=3 lease='',
      Dotted4, L '' frames='', DIGITS, L '' dhcp-frames='', DIGITS, L '' echo-frames='', DIGITS, L '' fetches='', DIGITS,
      L '' sends='', DIGITS, L '' refusals='', DIGITS, L '' ipc-edges='', DIGITS, L '' window-copies='', DIGITS, CHAR_NL]"

definition PRODUCTION_REFUSALS :: int where "PRODUCTION_REFUSALS = 4"

subsection \<open>The counts of FINAL\<close>

record production_counts =
  pc_lease :: string
  pc_frames :: int
  pc_dhcp_frames :: int
  pc_echo_frames :: int
  pc_fetches :: int
  pc_sends :: int
  pc_refusals :: int
  pc_edges :: int
  pc_copies :: int

definition production_counts_of :: "bytes list \<Rightarrow> production_counts res" where
  "production_counts_of groups =
     bind (py_ints (tl groups)) (\<lambda>v.
     Inr \<lparr>pc_lease = hd groups, pc_frames = v ! 0, pc_dhcp_frames = v ! 1, pc_echo_frames = v ! 2, pc_fetches = v ! 3,
          pc_sends = v ! 4, pc_refusals = v ! 5, pc_edges = v ! 6, pc_copies = v ! 7\<rparr>)"

definition production_net :: "bytes \<Rightarrow> production_counts \<Rightarrow> string list res" where
  "production_net data n =
     bind (py_ints (map (\<lambda>m. mgroups m ! 0) (finditer deliver_record data))) (\<lambda>delivered.
     let fetched = length (finditer (subject_event ''fetch'') data);
         sent = length (finditer (subject_event ''send'') data);
         refused = length (finditer (at_text ''LEANOS-LAB/1 NET event=refuse '') data) in
     Inr (fail_if (pc_frames n < 1 \<or> delivered \<noteq> map int [1..<nat (pc_frames n) + 1] \<or> pc_fetches n \<noteq> pc_frames n \<or>
            int fetched \<noteq> pc_fetches n) ''net''
            (''FINAL frames='' @ decimal_int (pc_frames n) @ '' fetches='' @ decimal_int (pc_fetches n) @ '', '' @
             decimal (length delivered) @ '' delivery and '' @ decimal fetched @ '' fetch records'') @
          fail_if (pc_sends n \<noteq> int sent) ''net''
            (''FINAL sends='' @ decimal_int (pc_sends n) @ '', '' @ decimal sent @ '' send records'') @
          fail_if (pc_refusals n \<noteq> int refused \<or> pc_refusals n \<noteq> PRODUCTION_REFUSALS) ''net''
            (''FINAL refusals='' @ decimal_int (pc_refusals n) @ '', '' @ decimal refused @ '' refusal records'') @
          fail_if (pc_dhcp_frames n + pc_echo_frames n \<noteq> pc_frames n \<or> pc_copies n \<noteq> pc_fetches n + pc_sends n \<or>
            pc_edges n \<noteq> 4 * pc_frames n + 6) ''net'' ''FINAL counts disagree''))"

definition production_lease :: "bytes \<Rightarrow> production_counts \<Rightarrow> (found option \<times> string list) res" where
  "production_lease data n =
     (let (handoff, f1) = once data production_handoff ''net-handoff'' (Some ''NET event=handoff '') in
      bind (case handoff of None \<Rightarrow> Inr [] | Some m \<Rightarrow>
          bind (py_int (mgroups m ! 0)) (\<lambda>frame. Inr (fail_if (frame \<noteq> pc_dhcp_frames n \<or> mgroups m ! 1 \<noteq> pc_lease n)
            ''net-handoff'' ''handoff differs from FINAL dhcp-frames/lease''))) (\<lambda>f2.
      Inr (handoff, f1 @ f2 @ fail_if (pc_lease n = ''0.0.0.0'') ''net-handoff'' ''no lease'')))"

definition production_final ::
  "bytes \<Rightarrow> found option \<Rightarrow> (production_counts option \<times> found option \<times> string list) res" where
  \<comment> \<open>the counts and the hand-off of a FINAL that is the passing record\<close>
  "production_final data final =
     (case final of None \<Rightarrow> Inr (None, None, [])
      | Some m \<Rightarrow>
          (case fullmatch_parts PRODUCTION_FINAL (slice (mstart m) (mend m) data) of
             None \<Rightarrow> Inr (None, None, [])
           | Some groups \<Rightarrow>
               bind (production_counts_of groups) (\<lambda>n.
               bind (production_net data n) (\<lambda>f1.
               bind (production_lease data n) (\<lambda>(handoff, f2).
               Inr (Some n, handoff, f1 @ f2))))))"

definition production_terminal :: "bytes \<Rightarrow> found option \<times> string list" where
  "production_terminal data =
     (case the_terminal data of
        (None, fails) \<Rightarrow> (None, fails)
      | (Some m, fails) \<Rightarrow> (Some m, fails @
          fail_if (fullmatch_parts PRODUCTION_FINAL (slice (mstart m) (mend m) data) = None) ''terminal''
            (''FINAL '' @ terminal_text m)))"

subsection \<open>Launch, service end and lease window\<close>

record production_launch =
  pl_select :: "found option"
  pl_mode :: "found option"
  pl_windows :: "found option"
  pl_platform :: "found option"
  pl_assign :: "found option"
  pl_grant :: "found option"
  pl_ready :: "found option"
  pl_production :: "found option"

definition production_records :: "bytes \<Rightarrow> production_launch \<times> string list" where
  "production_records data =
     (let (select, f1) = once data select_record ''one-shot-launch'' None;
          f2 = fail_if (bytes_in ''WATCHDOG'' data) ''watchdog'' ''watchdog record in a production capture'';
          (mode, f3) = once data production_mode ''production-mode'' (Some ''LEANOS-LAB/1 MODE '');
          f4 = (case mode of None \<Rightarrow> [] | Some m \<Rightarrow>
                  fail_if (bytes_in ''LEANOS/'' (take (mstart m) data)) ''framing'' ''kernel output before the production mode record'');
          (windows, f5) = once data windows_record ''copy-windows'' (Some ''PRODUCTION-WINDOWS '');
          (platform, f6) = once data platform_record ''platform-admission'' (Some ''PLATFORM-ADMISSION '');
          (assign, f7) = once data assign_record ''broadcom-assign'' (Some ''BROADCOM-ASSIGN '');
          (grant, f8) = once data grant_record ''service-grant'' (Some ''SERVICE grant '');
          (ready, f9) = once data ready_record ''ipc-ready'' None;
          (production, f10) = once data production_ready ''production-ready'' (Some ''PRODUCTION-READY '')
      in (\<lparr>pl_select = select, pl_mode = mode, pl_windows = windows, pl_platform = platform, pl_assign = assign,
           pl_grant = grant, pl_ready = ready, pl_production = production\<rparr>,
          f1 @ f2 @ f3 @ f4 @ f5 @ f6 @ f7 @ f8 @ f9 @ f10))"

definition production_end :: "bytes \<Rightarrow> found option \<times> string list" where
  "production_end data =
     (let ends = finditer service_end_record data in
      (if ends = [] then None else Some (hd ends),
       if length ends \<noteq> 1 \<or> bytes_count ''SERVICE end '' data \<noteq> 1 then
         [failed ''service-end'' ''missing, repeated or changed service end'']
       else fail_if (mgroups (hd ends) ! 0 \<noteq> ''0'') ''service-end''
         (''device program ended with status='' @ mgroups (hd ends) ! 0 @ '' code=0x'' @ mgroups (hd ends) ! 1)))"

definition lease_window :: "bytes \<Rightarrow> found option \<Rightarrow> found list \<times> string list" where
  "lease_window data handoff =
     (let signalled = finditer lease_signal data in
      (signalled,
       fail_if (bytes_in ''WIFI-LEASE window-over'' data) ''lease-window'' ''the lease window ended without a lease'' @
       (if length signalled \<noteq> bytes_count ''WIFI-LEASE signalled'' data \<or> 1 < length signalled then
          [failed ''lease-window'' ''repeated or changed lease signal record'']
        else fail_if (signalled \<noteq> [] \<and>
            (case handoff of None \<Rightarrow> True | Some m \<Rightarrow> mstart (hd signalled) < mend m))
          ''lease-window'' ''lease signal record before the hand-off'')))"

subsection \<open>Service times\<close>

definition round_even :: "rat \<Rightarrow> int" where
  "round_even q =
     (let f = \<lfloor>q\<rfloor>; d = q - of_int f in
      if d < 1 / 2 \<or> (d = 1 / 2 \<and> even f) then f else f + 1)"

definition echo_reply :: "bytes \<Rightarrow> found \<Rightarrow> nat option" where
  \<comment> \<open>where the echo subject's reply to a delivered frame starts\<close>
  "echo_reply data m = find_from (''LEANOS-LAB/1 NET event=send subject=3 frame='' @ mgroups m ! 0 @ '' '') data (mend m)"

definition echo_service :: "capture \<Rightarrow> rat list" where
  \<comment> \<open>milliseconds from delivery to reply, rounded to tenths and sorted\<close>
  "echo_service c =
     sort (concat (map (\<lambda>m. case echo_reply (cp_data c) m of None \<Rightarrow> []
       | Some j \<Rightarrow> [of_int (round_even ((capture_time c j - capture_time c (mstart m)) * 1000 * 10)) / 10])
       (finditer echo_delivery (cp_data c))))"

subsection \<open>The classification\<close>

record production_result =
  pr_status :: string
  pr_failures :: "string list"
  pr_launch :: production_launch
  pr_counts :: "production_counts option"
  pr_signalled :: "int option"
  pr_service :: "rat list"
  pr_median :: "rat option"
  pr_max :: "rat option"
  pr_quiet :: "rat option"
  pr_sha256 :: string

definition production_manifest :: "manifest \<Rightarrow> bool" where
  "production_manifest manifest \<longleftrightarrow>
     mget manifest ''production_network'' = JBool True \<and> mget manifest ''evidence_class'' = JStr ''production-candidate''"

definition production_order :: "production_launch \<Rightarrow> found option \<Rightarrow> found option \<Rightarrow> found option \<Rightarrow> nat list" where
  "production_order p handoff service_end final =
     starts_of [pl_select p, pl_mode p, pl_windows p, pl_platform p, pl_assign p, pl_grant p, pl_ready p, pl_production p,
       handoff, service_end, final]"

definition production_recovery :: "capture \<Rightarrow> found option \<Rightarrow> rat option \<times> string list" where
  "production_recovery c final =
     (case final of None \<Rightarrow> (None, [])
      | Some m \<Rightarrow>
          let (quiet, f2) = quiet_after c final in
          (quiet, after_run (cp_data c) (mend m) (find_from CHAIN_MARK (cp_data c) (mend m)) @ f2))"

definition classify_production :: "event list \<Rightarrow> bytes \<Rightarrow> manifest \<Rightarrow> production_result res" where
  "classify_production events digest manifest =
     raise_if (\<not> production_manifest manifest) ''not a production network image manifest''
     (raise_if (\<not> digest_ok digest) ''invalid image digest''
     (raise_if (\<not> digest_named manifest digest) ''lab manifest names a different ELF''
     (bind (open_capture events) (\<lambda>c.
      let data = cp_data c; (launch, f1) = production_records data; (ended, f2) = production_end data;
          (final, f3) = production_terminal data in
      bind (production_final data final) (\<lambda>(counts, handoff, f4).
      let f5 = fail_if (\<not> sorted (production_order launch handoff ended final)) ''order'' ''records out of order'';
          (signalled, f6) = lease_window data handoff in
      bind (if length signalled = 1 then bind (py_int (mgroups (hd signalled) ! 0)) (\<lambda>n. Inr (Some n)) else Inr None)
        (\<lambda>after_ms.
      let service = echo_service c; (quiet, f7) = production_recovery c final;
          failures = f1 @ f2 @ f3 @ f4 @ f5 @ f6 @ f7 in
      Inr \<lparr>pr_status = (if failures = [] then ''PASS'' else ''FAIL''), pr_failures = failures, pr_launch = launch,
           pr_counts = counts, pr_signalled = after_ms, pr_service = service,
           pr_median = (if service = [] then None else Some (service ! (length service div 2))),
           pr_max = (if service = [] then None else Some (last service)), pr_quiet = quiet,
           pr_sha256 = sha256_hex data\<rparr>))))))"

section \<open>Properties\<close>

lemma classify_production_inv:
  assumes "classify_production events digest manifest = Inr r"
  obtains c launch f1 ended f2 final f3 counts handoff f4 signalled f6 quiet f7 where
    "production_manifest manifest" "digest_ok digest" "open_capture events = Inr c"
    "production_records (cp_data c) = (launch, f1)" "production_end (cp_data c) = (ended, f2)"
    "production_terminal (cp_data c) = (final, f3)" "production_final (cp_data c) final = Inr (counts, handoff, f4)"
    "lease_window (cp_data c) handoff = (signalled, f6)" "production_recovery c final = (quiet, f7)"
    "pr_failures r = f1 @ f2 @ f3 @ f4 @
       fail_if (\<not> sorted (production_order launch handoff ended final)) ''order'' ''records out of order'' @ f6 @ f7"
    "pr_status r = (if pr_failures r = [] then ''PASS'' else ''FAIL'')" "pr_launch r = launch" "pr_counts r = counts"
    "pr_quiet r = quiet"
  using assms unfolding classify_production_def Let_def
  apply (elim res_elims)
  apply (drule returned, rule that)
  apply (assumption | erule notnotD | simp only: production_result.select_convs)+
  done

lemma production_records_pass:
  assumes "production_records data = (launch, [])"
  shows "\<not> bytes_in ''WATCHDOG'' data" "\<exists>m. pl_select launch = Some m \<and> finditer select_record data = [m]"
    "\<exists>m. pl_mode launch = Some m \<and> finditer production_mode data = [m] \<and> \<not> bytes_in ''LEANOS/'' (take (mstart m) data)"
    "\<exists>m. pl_production launch = Some m \<and> finditer production_ready data = [m]"
  using assms unfolding production_records_def Let_def
  by (auto split: prod.splits dest!: once_none)

lemma production_terminal_passes:
  assumes "production_terminal data = (final, [])"
  obtains m groups where "final = Some m" "finditer final_record data = [m]"
    "fullmatch_parts PRODUCTION_FINAL (slice (mstart m) (mend m) data) = Some groups"
proof -
  obtain f fails where t: "the_terminal data = (f, fails)" by fastforce
  show ?thesis
  proof (cases f)
    case None
    with assms t have "fails = []" by (simp add: production_terminal_def)
    with t None the_terminal_none show ?thesis by fastforce
  next
    case (Some m)
    with t have "finditer final_record data = [m]" using the_terminal_Some by blast
    moreover obtain groups where "final = Some m" "fullmatch_parts PRODUCTION_FINAL (slice (mstart m) (mend m) data) = Some groups"
      using assms t Some by (auto simp: production_terminal_def)
    ultimately show ?thesis using that by blast
  qed
qed

text \<open>The passing FINAL, written out: the lease and the eight counts in the order of the record.\<close>

definition FINAL_COUNTS :: "string list" where
  "FINAL_COUNTS = [''frames'', ''dhcp-frames'', ''echo-frames'', ''fetches'', ''sends'', ''refusals'', ''ipc-edges'', ''window-copies'']"

definition production_final_text :: "bytes \<Rightarrow> bytes \<Rightarrow> bytes list \<Rightarrow> bytes" where
  "production_final_text version lease counts =
     ''LEANOS/'' @ version @ '' FINAL status=PASS profile=qotom-network-v1 subjects=3 dhcp-subject=1 echo-subject=3 '' @
     ''device-holder=2 address-spaces=3 lease='' @ lease @
     concat (map (\<lambda>(name, text). '' '' @ name @ ''='' @ text) (zip FINAL_COUNTS counts)) @ NL"

definition final_reports :: "bytes \<Rightarrow> production_counts \<Rightarrow> bool" where
  \<comment> \<open>the text is a passing FINAL with exactly these counts\<close>
  "final_reports text n \<longleftrightarrow>
     (\<exists>version counts. digit_text version \<and> list_all digit_text counts \<and>
        list_all (\<lambda>c. is_digit c \<or> c = CHR ''.'') (pc_lease n) \<and> text = production_final_text version (pc_lease n) counts \<and>
        map py_int counts = map Inr [pc_frames n, pc_dhcp_frames n, pc_echo_frames n, pc_fetches n, pc_sends n,
          pc_refusals n, pc_edges n, pc_copies n])"

lemma production_final_split:
  assumes "match_parts PRODUCTION_FINAL text = Some (groups, [])"
  obtains version lease a b c d e f g h where
    "text = ''LEANOS/'' @ version @
      '' FINAL status=PASS profile=qotom-network-v1 subjects=3 dhcp-subject=1 echo-subject=3 device-holder=2 address-spaces=3 lease='' @
      lease @ '' frames='' @ a @ '' dhcp-frames='' @ b @ '' echo-frames='' @ c @ '' fetches='' @ d @ '' sends='' @ e @
      '' refusals='' @ f @ '' ipc-edges='' @ g @ '' window-copies='' @ h @ NL @ []"
    "groups = [lease, a, b, c, d, e, f, g, h]" "version \<noteq> []" "list_all is_digit version"
    "list_all (\<lambda>c. is_digit c \<or> c = CHR ''.'') lease" "list_all digit_text [a, b, c, d, e, f, g, h]"
  using assms unfolding PRODUCTION_FINAL_def
  apply (elim part_elims)
  apply (rule that)
       apply (hypsubst, rule refl)+
     apply assumption+
  apply simp
  done

lemma production_final_sound:
  assumes "fullmatch_parts PRODUCTION_FINAL text = Some groups" "production_counts_of groups = Inr n"
  shows "final_reports text n"
proof -
  from assms(1) have m: "match_parts PRODUCTION_FINAL text = Some (groups, [])"
    by (auto simp: fullmatch_parts_def split: option.splits list.splits)
  obtain version lease a b c d e f g h where t:
    "text = ''LEANOS/'' @ version @
      '' FINAL status=PASS profile=qotom-network-v1 subjects=3 dhcp-subject=1 echo-subject=3 device-holder=2 address-spaces=3 lease='' @
      lease @ '' frames='' @ a @ '' dhcp-frames='' @ b @ '' echo-frames='' @ c @ '' fetches='' @ d @ '' sends='' @ e @
      '' refusals='' @ f @ '' ipc-edges='' @ g @ '' window-copies='' @ h @ NL @ []"
    and gs: "groups = [lease, a, b, c, d, e, f, g, h]" and ok: "digit_text version"
    "list_all (\<lambda>c. is_digit c \<or> c = CHR ''.'') lease" "list_all digit_text [a, b, c, d, e, f, g, h]"
    by (rule production_final_split [OF m]) (simp add: digit_text_def)
  have "pc_lease n = lease" "map py_int [a, b, c, d, e, f, g, h] =
      map Inr [pc_frames n, pc_dhcp_frames n, pc_echo_frames n, pc_fetches n, pc_sends n, pc_refusals n, pc_edges n, pc_copies n]"
    using assms(2) by (auto simp: production_counts_of_def gs res_simps)
  moreover have "text = production_final_text version lease [a, b, c, d, e, f, g, h]"
    by (simp add: t production_final_text_def FINAL_COUNTS_def)
  ultimately show ?thesis
    using ok unfolding final_reports_def by (intro exI [of _ version] exI [of _ "[a, b, c, d, e, f, g, h]"]) simp
qed

definition counts_agree :: "bytes \<Rightarrow> production_counts \<Rightarrow> bool" where
  \<comment> \<open>the counts of FINAL against the records, and among each other\<close>
  "counts_agree data n \<longleftrightarrow>
     1 \<le> pc_frames n \<and> py_ints (map (\<lambda>m. mgroups m ! 0) (finditer deliver_record data)) = Inr (map int [1..<nat (pc_frames n) + 1]) \<and>
     pc_fetches n = pc_frames n \<and> int (length (finditer (subject_event ''fetch'') data)) = pc_frames n \<and>
     int (length (finditer (subject_event ''send'') data)) = pc_sends n \<and>
     int (length (finditer (at_text ''LEANOS-LAB/1 NET event=refuse '') data)) = pc_refusals n \<and> pc_refusals n = 4 \<and>
     pc_dhcp_frames n + pc_echo_frames n = pc_frames n \<and> pc_copies n = pc_fetches n + pc_sends n \<and>
     pc_edges n = 4 * pc_frames n + 6"

lemma production_net_passes: "production_net data n = Inr [] \<Longrightarrow> counts_agree data n"
  unfolding production_net_def counts_agree_def Let_def
  by (auto simp: res_simps PRODUCTION_REFUSALS_def)

lemma production_lease_passes:
  assumes "production_lease data n = Inr (handoff, [])"
  shows "\<exists>m. handoff = Some m \<and> finditer production_handoff data = [m] \<and> py_int (mgroups m ! 0) = Inr (pc_dhcp_frames n) \<and>
    mgroups m ! 1 = pc_lease n" "pc_lease n \<noteq> ''0.0.0.0''"
  using assms unfolding production_lease_def Let_def
  by (auto simp: res_simps split: prod.splits dest!: once_none)

lemma production_passes:
  assumes "classify_production events digest manifest = Inr r" "pr_status r = ''PASS''"
  obtains n final handoff mode where "pr_counts r = Some n" "counts_agree (log_bytes events) n"
    "\<exists>select. finditer select_record (log_bytes events) = [select] \<and> mstart select \<le> mstart mode"
    "\<not> bytes_in ''WATCHDOG'' (log_bytes events)" "finditer final_record (log_bytes events) = [final]"
    "final_reports (slice (mstart final) (mend final) (log_bytes events)) n"
    "finditer production_handoff (log_bytes events) = [handoff]" "py_int (mgroups handoff ! 0) = Inr (pc_dhcp_frames n)"
    "mgroups handoff ! 1 = pc_lease n" "pc_lease n \<noteq> ''0.0.0.0''" "finditer production_mode (log_bytes events) = [mode]"
    "\<not> bytes_in ''LEANOS/'' (take (mstart mode) (log_bytes events))" "mstart mode \<le> mstart handoff" "mstart handoff \<le> mstart final"
    "\<not> bytes_in ''LEANOS/'' (drop (mend final) (log_bytes events))"
  using assms(1)
proof (rule classify_production_inv)
  fix c launch f1 ended f2 final f3 counts handoff f4 signalled f6 quiet f7
  assume c: "open_capture events = Inr c" and l: "production_records (cp_data c) = (launch, f1)"
    and t: "production_terminal (cp_data c) = (final, f3)" and pf: "production_final (cp_data c) final = Inr (counts, handoff, f4)"
    and q: "production_recovery c final = (quiet, f7)"
    and f: "pr_failures r = f1 @ f2 @ f3 @ f4 @
       fail_if (\<not> sorted (production_order launch handoff ended final)) ''order'' ''records out of order'' @ f6 @ f7"
      "pr_status r = (if pr_failures r = [] then ''PASS'' else ''FAIL'')" and r: "pr_counts r = counts"
  from f assms(2) have n: "f1 = []" "f3 = []" "f4 = []" "f7 = []" "sorted (production_order launch handoff ended final)"
    by (simp_all split: if_splits)
  note launch = production_records_pass [OF l [unfolded n]]
  obtain m groups where m: "final = Some m" "finditer final_record (cp_data c) = [m]"
    "fullmatch_parts PRODUCTION_FINAL (slice (mstart m) (mend m) (cp_data c)) = Some groups"
    by (rule production_terminal_passes [OF t [unfolded n]])
  obtain k where k: "counts = Some k" "production_net (cp_data c) k = Inr []" "production_lease (cp_data c) k = Inr (handoff, [])"
    "production_counts_of groups = Inr k"
    using pf unfolding m(1) n production_final_def by (auto simp: res_simps m(3))
  note reported = production_final_sound [OF m(3) k(4)]
  from production_lease_passes [OF k(3)] obtain h where h: "handoff = Some h" "finditer production_handoff (cp_data c) = [h]"
    "py_int (mgroups h ! 0) = Inr (pc_dhcp_frames k)" "mgroups h ! 1 = pc_lease k" "pc_lease k \<noteq> ''0.0.0.0''" by blast
  from launch(3) obtain mode where mode: "pl_mode launch = Some mode" "finditer production_mode (cp_data c) = [mode]"
    "\<not> bytes_in ''LEANOS/'' (take (mstart mode) (cp_data c))" by blast
  from launch(2) obtain select where select: "pl_select launch = Some select" "finditer select_record (cp_data c) = [select]" by blast
  have "mstart select \<le> mstart mode" "mstart mode \<le> mstart h" "mstart h \<le> mstart m"
    using n(5) unfolding production_order_def select(1) mode(1) h(1) m(1) starts_of_def
    by (auto simp: sorted_append split: option.splits)
  moreover have "after_run (cp_data c) (mend m) (find_from CHAIN_MARK (cp_data c) (mend m)) = []"
    using q unfolding m(1) n production_recovery_def Let_def by (auto split: prod.splits)
  then have "\<not> bytes_in ''LEANOS/'' (drop (mend m) (cp_data c))" by (rule after_run_passes(2))
  ultimately show ?thesis
    using production_net_passes [OF k(2)] k(1) r h m(2) reported select(2) mode launch(1) open_capture_fields(2) [OF c] by (intro that) auto
qed

text \<open>
  C13 (functional). A production capture passes only when the image was started once, without a watchdog,
  nothing of the kernel precedes the mode line or follows the only FINAL, and the bytes of FINAL, field by
  field, are the reported lease and counts.  These counts agree with the records: the deliveries are
  numbered 1 to the number of frames, there is a fetch record for each frame, a send record for each
  send and a refusal record for each of the four refusals, and the message edges and window copies follow from the
  frames and sends; the lease is the one handed to the echo subject after the counted DHCP frames, and start,
  mode, hand-off and FINAL are in this order.
\<close>

theorem production_counts_pass:
  assumes "classify_production events digest manifest = Inr r" "pr_status r = ''PASS''"
  shows "\<exists>n final handoff. pr_counts r = Some n \<and> counts_agree (log_bytes events) n \<and> \<not> bytes_in ''WATCHDOG'' (log_bytes events) \<and>
    finditer final_record (log_bytes events) = [final] \<and>
    final_reports (slice (mstart final) (mend final) (log_bytes events)) n \<and> finditer production_handoff (log_bytes events) = [handoff] \<and>
    py_int (mgroups handoff ! 0) = Inr (pc_dhcp_frames n) \<and> mgroups handoff ! 1 = pc_lease n \<and> pc_lease n \<noteq> ''0.0.0.0'' \<and>
    (\<exists>select mode. finditer select_record (log_bytes events) = [select] \<and> mstart select \<le> mstart mode \<and>
       finditer production_mode (log_bytes events) = [mode] \<and> \<not> bytes_in ''LEANOS/'' (take (mstart mode) (log_bytes events)) \<and>
       mstart mode \<le> mstart handoff \<and> mstart handoff \<le> mstart final) \<and>
    \<not> bytes_in ''LEANOS/'' (drop (mend final) (log_bytes events))"
  by (rule production_passes [OF assms]) blast

end
