(* ===== verification/Reference_Runs.thy ===== *)
theory Reference_Runs
  imports Line_Search Reference_Sessions Lab_Program Production
begin

text \<open>
  Sample captures for the device program and production classifiers, built from named lines; for every
  expression, the lines it matches and the lines it misses, and from these its matches in the captures.
\<close>

definition window_line :: bytes where
  "window_line = WINDOW_MARK @ NL"

definition armed_line :: bytes where
  "armed_line = ARMED_MARK @ NL"

definition load_line :: bytes where
  "load_line = LOAD_MARK @ '' sha256='' @ run_digest @ NL"

definition mode_line :: bytes where
  "mode_line = MODE_LINE"

definition platform_line :: bytes where
  "platform_line = ''LEANOS-LAB/1 PLATFORM-ADMISSION profile=qotom-j1900-clbtm210-v2 version=2 status=PASS ok'' @ NL"

definition grant_line :: bytes where
  "grant_line = ''LEANOS-LAB/1 SERVICE grant subject=1 device=2:0.0 bind=accepted policy=admitted'' @ NL"

definition ipc_ready_line :: bytes where
  "ipc_ready_line = ''LEANOS-LAB/1 QOTOM-IPC-READY profile=qotom-blocking-ipc-v1 ok'' @ NL"

definition ipc_line :: bytes where
  "ipc_line = ''LEANOS/7 IPC event=deliver receiver=2 ok'' @ NL"

definition end_line :: bytes where
  "end_line = ''LEANOS-LAB/1 SERVICE end subject=1 status=0 code=0x00000000'' @ NL"

definition device_final :: bytes where
  "device_final = ''LEANOS/3 FINAL status=PASS events=4 blocks=2 deliveries=1'' @ NL"

definition default_line :: bytes where
  "default_line = DEFAULT_MARK @ NL"

definition chain_line :: bytes where
  "chain_line = CHAIN_MARK @ ''ada0'' @ NL"

definition select_line :: bytes where
  "select_line = ''LEANOS-LAB/1 SELECT leanos consumed=1'' @ NL"

definition production_mode_line :: bytes where
  "production_mode_line = ''LEANOS-LAB/1 MODE qotom-production final=halt watchdog=none'' @ NL"

definition windows_line :: bytes where
  "windows_line = ''LEANOS-LAB/1 PRODUCTION-WINDOWS profile=qotom-network-v1 holders=1,3 a-window-pages=2 c-window-pages=1 fetch-root=writable send-root=read-only protected=8 roots=5 scan=exact operand=agree root-c=exact'' @ NL"

definition assign_line :: bytes where
  "assign_line = ''LEANOS-LAB/1 BROADCOM-ASSIGN profile=qotom-j1900-pci-trust-v1-bcm43224-assign-v1 device=2:0.0 status=0 x admitted=1'' @ NL"

definition production_line :: bytes where
  "production_line = ''LEANOS-LAB/1 PRODUCTION-READY profile=qotom-network-v1 subjects=3 address-spaces=3 frames=copy-window watchdog=none final=halt'' @ NL"

definition deliver_line :: bytes where
  "deliver_line = ''LEANOS-LAB/1 NET event=deliver frame=1 bytes=60 port=dhcp'' @ NL"

definition fetch_line :: bytes where
  "fetch_line = ''LEANOS-LAB/1 NET event=fetch subject=1 frame=1'' @ NL"

definition send_line :: bytes where
  "send_line = ''LEANOS-LAB/1 NET event=send subject=1 frame=1'' @ NL"

definition refuse_line :: bytes where
  "refuse_line = ''LEANOS-LAB/1 NET event=refuse subject=3'' @ NL"

definition handoff_line :: bytes where
  "handoff_line = ''LEANOS-LAB/1 NET event=handoff from=1 to=3 frame=1 lease=10.0.0.7 route=echo address-spaces=separate model=accepted'' @ NL"

definition production_final_line :: bytes where
  "production_final_line = ''LEANOS/3 FINAL status=PASS profile=qotom-network-v1 subjects=3 dhcp-subject=1 echo-subject=3 device-holder=2 address-spaces=3 lease=10.0.0.7 frames=1 dhcp-frames=1 echo-frames=0 fetches=1 sends=1 refusals=4 ipc-edges=10 window-copies=2'' @ NL"

lemmas line_defs = window_line_def armed_line_def load_line_def mode_line_def platform_line_def grant_line_def ipc_ready_line_def ipc_line_def end_line_def device_final_def default_line_def chain_line_def select_line_def production_mode_line_def windows_line_def assign_line_def production_line_def deliver_line_def fetch_line_def send_line_def refuse_line_def handoff_line_def production_final_line_def run_digest_def
  WINDOW_MARK_def ARMED_MARK_def LOAD_MARK_def MODE_LINE_def DEFAULT_MARK_def CHAIN_MARK_def

lemmas char_defs = is_digit_def is_hex_def scan_run_def is_break_def is_eol_def load_spaces_def digit_text_def
  is_lease_char_def is_status_char_def endswith_def

lemma line_lengths [simp]:
  "length window_line = 40"
  "length armed_line = 38"
  "length load_line = 106"
  "length mode_line = 53"
  "length platform_line = 89"
  "length grant_line = 80"
  "length ipc_ready_line = 62"
  "length ipc_line = 41"
  "length end_line = 60"
  "length device_final = 58"
  "length default_line = 34"
  "length chain_line = 37"
  "length select_line = 38"
  "length production_mode_line = 60"
  "length windows_line = 201"
  "length assign_line = 116"
  "length production_line = 127"
  "length deliver_line = 58"
  "length fetch_line = 47"
  "length send_line = 46"
  "length refuse_line = 40"
  "length handoff_line = 116"
  "length production_final_line = 236"
  by (simp_all add: line_defs)

lemma line_clear [simp]:
  "clear_of ''LEANOS-LAB/1'' (tl window_line)" "clear_of ''LEANOS/'' (tl window_line)"
  "clear_of ''LEANOS-LAB/1'' (tl armed_line)" "clear_of ''LEANOS/'' (tl armed_line)"
  "clear_of ''LEANOS-LAB/1'' (tl load_line)" "clear_of ''LEANOS/'' (tl load_line)"
  "clear_of ''LEANOS-LAB/1'' (tl mode_line)" "clear_of ''LEANOS/'' (tl mode_line)"
  "clear_of ''LEANOS-LAB/1'' (tl platform_line)" "clear_of ''LEANOS/'' (tl platform_line)"
  "clear_of ''LEANOS-LAB/1'' (tl grant_line)" "clear_of ''LEANOS/'' (tl grant_line)"
  "clear_of ''LEANOS-LAB/1'' (tl ipc_ready_line)" "clear_of ''LEANOS/'' (tl ipc_ready_line)"
  "clear_of ''LEANOS-LAB/1'' (tl ipc_line)" "clear_of ''LEANOS/'' (tl ipc_line)"
  "clear_of ''LEANOS-LAB/1'' (tl end_line)" "clear_of ''LEANOS/'' (tl end_line)"
  "clear_of ''LEANOS-LAB/1'' (tl device_final)" "clear_of ''LEANOS/'' (tl device_final)"
  "clear_of ''LEANOS-LAB/1'' (tl default_line)" "clear_of ''LEANOS/'' (tl default_line)"
  "clear_of ''LEANOS-LAB/1'' (tl chain_line)" "clear_of ''LEANOS/'' (tl chain_line)"
  "clear_of ''LEANOS-LAB/1'' (tl select_line)" "clear_of ''LEANOS/'' (tl select_line)"
  "clear_of ''LEANOS-LAB/1'' (tl production_mode_line)" "clear_of ''LEANOS/'' (tl production_mode_line)"
  "clear_of ''LEANOS-LAB/1'' (tl windows_line)" "clear_of ''LEANOS/'' (tl windows_line)"
  "clear_of ''LEANOS-LAB/1'' (tl assign_line)" "clear_of ''LEANOS/'' (tl assign_line)"
  "clear_of ''LEANOS-LAB/1'' (tl production_line)" "clear_of ''LEANOS/'' (tl production_line)"
  "clear_of ''LEANOS-LAB/1'' (tl deliver_line)" "clear_of ''LEANOS/'' (tl deliver_line)"
  "clear_of ''LEANOS-LAB/1'' (tl fetch_line)" "clear_of ''LEANOS/'' (tl fetch_line)"
  "clear_of ''LEANOS-LAB/1'' (tl send_line)" "clear_of ''LEANOS/'' (tl send_line)"
  "clear_of ''LEANOS-LAB/1'' (tl refuse_line)" "clear_of ''LEANOS/'' (tl refuse_line)"
  "clear_of ''LEANOS-LAB/1'' (tl handoff_line)" "clear_of ''LEANOS/'' (tl handoff_line)"
  "clear_of ''LEANOS-LAB/1'' (tl production_final_line)" "clear_of ''LEANOS/'' (tl production_final_line)"
  by (simp_all add: line_defs)

lemma line_nonempty [simp]:
  "window_line \<noteq> []"
  "armed_line \<noteq> []"
  "load_line \<noteq> []"
  "mode_line \<noteq> []"
  "platform_line \<noteq> []"
  "grant_line \<noteq> []"
  "ipc_ready_line \<noteq> []"
  "ipc_line \<noteq> []"
  "end_line \<noteq> []"
  "device_final \<noteq> []"
  "default_line \<noteq> []"
  "chain_line \<noteq> []"
  "select_line \<noteq> []"
  "production_mode_line \<noteq> []"
  "windows_line \<noteq> []"
  "assign_line \<noteq> []"
  "production_line \<noteq> []"
  "deliver_line \<noteq> []"
  "fetch_line \<noteq> []"
  "send_line \<noteq> []"
  "refuse_line \<noteq> []"
  "handoff_line \<noteq> []"
  "production_final_line \<noteq> []"
  by (simp_all add: line_defs)

lemma opens_at_text_WINDOW_MARK [simp]: "opens ''LEANOS-LAB/1'' (at_text WINDOW_MARK)"
  by (simp add: WINDOW_MARK_def opens_text opens_parts opens_load)

lemma miss_at_text_WINDOW_MARK [simp]:
  "at_text WINDOW_MARK (armed_line @ s) = None"
  "at_text WINDOW_MARK (load_line @ s) = None"
  "at_text WINDOW_MARK (mode_line @ s) = None"
  "at_text WINDOW_MARK (platform_line @ s) = None"
  "at_text WINDOW_MARK (grant_line @ s) = None"
  "at_text WINDOW_MARK (ipc_ready_line @ s) = None"
  "at_text WINDOW_MARK (ipc_line @ s) = None"
  "at_text WINDOW_MARK (end_line @ s) = None"
  "at_text WINDOW_MARK (device_final @ s) = None"
  "at_text WINDOW_MARK (default_line @ s) = None"
  "at_text WINDOW_MARK (chain_line @ s) = None"
  by (simp_all add: at_text_def WINDOW_MARK_def line_defs char_defs)

lemma hit_at_text_WINDOW_MARK_window_line [simp]:
  "search_from (at_text WINDOW_MARK) (window_line @ s) pos 0 = (pos, pos + 39, []) # search_from (at_text WINDOW_MARK) s (pos + 40) 0"
  by (subst search_hit [where h = "''LEANOS-LAB/1''" and t = "[LF]" and gs = "[]"]) (simp_all, simp add: at_text_def WINDOW_MARK_def line_defs char_defs)

lemma opens_at_text_ARMED_MARK [simp]: "opens ''LEANOS-LAB/1'' (at_text ARMED_MARK)"
  by (simp add: ARMED_MARK_def opens_text opens_parts opens_load)

lemma miss_at_text_ARMED_MARK [simp]:
  "at_text ARMED_MARK (window_line @ s) = None"
  "at_text ARMED_MARK (load_line @ s) = None"
  "at_text ARMED_MARK (mode_line @ s) = None"
  "at_text ARMED_MARK (platform_line @ s) = None"
  "at_text ARMED_MARK (grant_line @ s) = None"
  "at_text ARMED_MARK (ipc_ready_line @ s) = None"
  "at_text ARMED_MARK (ipc_line @ s) = None"
  "at_text ARMED_MARK (end_line @ s) = None"
  "at_text ARMED_MARK (device_final @ s) = None"
  "at_text ARMED_MARK (default_line @ s) = None"
  "at_text ARMED_MARK (chain_line @ s) = None"
  by (simp_all add: at_text_def ARMED_MARK_def line_defs char_defs)

lemma hit_at_text_ARMED_MARK_armed_line [simp]:
  "search_from (at_text ARMED_MARK) (armed_line @ s) pos 0 = (pos, pos + 37, []) # search_from (at_text ARMED_MARK) s (pos + 38) 0"
  by (subst search_hit [where h = "''LEANOS-LAB/1''" and t = "[LF]" and gs = "[]"]) (simp_all, simp add: at_text_def ARMED_MARK_def line_defs char_defs)

lemma opens_wrapped_load_LOAD_MARK_run_digest [simp]: "opens ''LEANOS-LAB/1'' (wrapped_load LOAD_MARK run_digest)"
  by (simp add: LOAD_MARK_def opens_text opens_parts opens_load)

lemma miss_wrapped_load_LOAD_MARK_run_digest [simp]:
  "wrapped_load LOAD_MARK run_digest (window_line @ s) = None"
  "wrapped_load LOAD_MARK run_digest (armed_line @ s) = None"
  "wrapped_load LOAD_MARK run_digest (mode_line @ s) = None"
  "wrapped_load LOAD_MARK run_digest (platform_line @ s) = None"
  "wrapped_load LOAD_MARK run_digest (grant_line @ s) = None"
  "wrapped_load LOAD_MARK run_digest (ipc_ready_line @ s) = None"
  "wrapped_load LOAD_MARK run_digest (ipc_line @ s) = None"
  "wrapped_load LOAD_MARK run_digest (end_line @ s) = None"
  "wrapped_load LOAD_MARK run_digest (device_final @ s) = None"
  "wrapped_load LOAD_MARK run_digest (default_line @ s) = None"
  "wrapped_load LOAD_MARK run_digest (chain_line @ s) = None"
  by (simp_all add: wrapped_load_def LOAD_MARK_def line_defs char_defs)

lemma hit_wrapped_load_LOAD_MARK_run_digest_load_line [simp]:
  "search_from (wrapped_load LOAD_MARK run_digest) (load_line @ s) pos 0 = (pos, pos + 105, []) # search_from (wrapped_load LOAD_MARK run_digest) s (pos + 106) 0"
  by (subst search_hit [where h = "''LEANOS-LAB/1''" and t = "[LF]" and gs = "[]"]) (simp_all, simp add: wrapped_load_def LOAD_MARK_def line_defs char_defs)

lemma opens_at_text_MODE_LINE [simp]: "opens ''LEANOS-LAB/1'' (at_text MODE_LINE)"
  by (simp add: MODE_LINE_def opens_text opens_parts opens_load)

lemma miss_at_text_MODE_LINE [simp]:
  "at_text MODE_LINE (window_line @ s) = None"
  "at_text MODE_LINE (armed_line @ s) = None"
  "at_text MODE_LINE (load_line @ s) = None"
  "at_text MODE_LINE (platform_line @ s) = None"
  "at_text MODE_LINE (grant_line @ s) = None"
  "at_text MODE_LINE (ipc_ready_line @ s) = None"
  "at_text MODE_LINE (ipc_line @ s) = None"
  "at_text MODE_LINE (end_line @ s) = None"
  "at_text MODE_LINE (device_final @ s) = None"
  "at_text MODE_LINE (default_line @ s) = None"
  "at_text MODE_LINE (chain_line @ s) = None"
  by (simp_all add: at_text_def MODE_LINE_def line_defs char_defs)

lemma hit_at_text_MODE_LINE_mode_line [simp]:
  "search_from (at_text MODE_LINE) (mode_line @ s) pos 0 = (pos, pos + 53, []) # search_from (at_text MODE_LINE) s (pos + 53) 0"
  by (subst search_hit [where h = "''LEANOS-LAB/1''" and t = "[]" and gs = "[]"]) (simp_all, simp add: at_text_def MODE_LINE_def line_defs char_defs)

lemma opens_platform_record [simp]: "opens ''LEANOS-LAB/1'' platform_record"
  by (simp add: platform_record_def opens_text opens_parts opens_load)

lemma miss_platform_record [simp]:
  "platform_record (window_line @ s) = None"
  "platform_record (armed_line @ s) = None"
  "platform_record (load_line @ s) = None"
  "platform_record (mode_line @ s) = None"
  "platform_record (grant_line @ s) = None"
  "platform_record (ipc_ready_line @ s) = None"
  "platform_record (ipc_line @ s) = None"
  "platform_record (end_line @ s) = None"
  "platform_record (device_final @ s) = None"
  "platform_record (default_line @ s) = None"
  "platform_record (chain_line @ s) = None"
  "platform_record (select_line @ s) = None"
  "platform_record (production_mode_line @ s) = None"
  "platform_record (windows_line @ s) = None"
  "platform_record (assign_line @ s) = None"
  "platform_record (production_line @ s) = None"
  "platform_record (deliver_line @ s) = None"
  "platform_record (fetch_line @ s) = None"
  "platform_record (send_line @ s) = None"
  "platform_record (refuse_line @ s) = None"
  "platform_record (handoff_line @ s) = None"
  "platform_record (production_final_line @ s) = None"
  by (simp_all add: platform_record_def at_text_def line_defs char_defs)

lemma hit_platform_record_platform_line [simp]:
  "search_from platform_record (platform_line @ s) pos 0 = (pos, pos + 86, []) # search_from platform_record s (pos + 89) 0"
  by (subst search_hit [where h = "''LEANOS-LAB/1''" and t = "''ok'' @ NL" and gs = "[]"]) (simp_all, simp add: platform_record_def at_text_def line_defs char_defs)

lemma opens_grant_record [simp]: "opens ''LEANOS-LAB/1'' grant_record"
  by (simp add: grant_record_def opens_text opens_parts opens_load)

lemma miss_grant_record [simp]:
  "grant_record (window_line @ s) = None"
  "grant_record (armed_line @ s) = None"
  "grant_record (load_line @ s) = None"
  "grant_record (mode_line @ s) = None"
  "grant_record (platform_line @ s) = None"
  "grant_record (ipc_ready_line @ s) = None"
  "grant_record (ipc_line @ s) = None"
  "grant_record (end_line @ s) = None"
  "grant_record (device_final @ s) = None"
  "grant_record (default_line @ s) = None"
  "grant_record (chain_line @ s) = None"
  "grant_record (select_line @ s) = None"
  "grant_record (production_mode_line @ s) = None"
  "grant_record (windows_line @ s) = None"
  "grant_record (assign_line @ s) = None"
  "grant_record (production_line @ s) = None"
  "grant_record (deliver_line @ s) = None"
  "grant_record (fetch_line @ s) = None"
  "grant_record (send_line @ s) = None"
  "grant_record (refuse_line @ s) = None"
  "grant_record (handoff_line @ s) = None"
  "grant_record (production_final_line @ s) = None"
  by (simp_all add: grant_record_def at_text_def line_defs char_defs)

lemma hit_grant_record_grant_line [simp]:
  "search_from grant_record (grant_line @ s) pos 0 = (pos, pos + 80, []) # search_from grant_record s (pos + 80) 0"
  by (subst search_hit [where h = "''LEANOS-LAB/1''" and t = "[]" and gs = "[]"]) (simp_all, simp add: grant_record_def at_text_def line_defs char_defs)

lemma opens_ready_record [simp]: "opens ''LEANOS-LAB/1'' ready_record"
  by (simp add: ready_record_def opens_text opens_parts opens_load)

lemma miss_ready_record [simp]:
  "ready_record (window_line @ s) = None"
  "ready_record (armed_line @ s) = None"
  "ready_record (load_line @ s) = None"
  "ready_record (mode_line @ s) = None"
  "ready_record (platform_line @ s) = None"
  "ready_record (grant_line @ s) = None"
  "ready_record (ipc_line @ s) = None"
  "ready_record (end_line @ s) = None"
  "ready_record (device_final @ s) = None"
  "ready_record (default_line @ s) = None"
  "ready_record (chain_line @ s) = None"
  "ready_record (select_line @ s) = None"
  "ready_record (production_mode_line @ s) = None"
  "ready_record (windows_line @ s) = None"
  "ready_record (assign_line @ s) = None"
  "ready_record (production_line @ s) = None"
  "ready_record (deliver_line @ s) = None"
  "ready_record (fetch_line @ s) = None"
  "ready_record (send_line @ s) = None"
  "ready_record (refuse_line @ s) = None"
  "ready_record (handoff_line @ s) = None"
  "ready_record (production_final_line @ s) = None"
  by (simp_all add: ready_record_def at_text_def line_defs char_defs)

lemma hit_ready_record_ready_line [simp]:
  "search_from ready_record (ipc_ready_line @ s) pos 0 = (pos, pos + 59, []) # search_from ready_record s (pos + 62) 0"
  by (subst search_hit [where h = "''LEANOS-LAB/1''" and t = "''ok'' @ NL" and gs = "[]"]) (simp_all, simp add: ready_record_def at_text_def line_defs char_defs)

lemma opens_service_end_record [simp]: "opens ''LEANOS-LAB/1'' service_end_record"
  by (simp add: service_end_record_def opens_text opens_parts opens_load)

lemma miss_service_end_record [simp]:
  "service_end_record (window_line @ s) = None"
  "service_end_record (armed_line @ s) = None"
  "service_end_record (load_line @ s) = None"
  "service_end_record (mode_line @ s) = None"
  "service_end_record (platform_line @ s) = None"
  "service_end_record (grant_line @ s) = None"
  "service_end_record (ipc_ready_line @ s) = None"
  "service_end_record (ipc_line @ s) = None"
  "service_end_record (device_final @ s) = None"
  "service_end_record (default_line @ s) = None"
  "service_end_record (chain_line @ s) = None"
  "service_end_record (select_line @ s) = None"
  "service_end_record (production_mode_line @ s) = None"
  "service_end_record (windows_line @ s) = None"
  "service_end_record (assign_line @ s) = None"
  "service_end_record (production_line @ s) = None"
  "service_end_record (deliver_line @ s) = None"
  "service_end_record (fetch_line @ s) = None"
  "service_end_record (send_line @ s) = None"
  "service_end_record (refuse_line @ s) = None"
  "service_end_record (handoff_line @ s) = None"
  "service_end_record (production_final_line @ s) = None"
  by (simp_all add: service_end_record_def at_text_def line_defs char_defs)

lemma hit_service_end_record_end_line [simp]:
  "search_from service_end_record (end_line @ s) pos 0 = (pos, pos + 60, [''0'', ''00000000'']) # search_from service_end_record s (pos + 60) 0"
  by (subst search_hit [where h = "''LEANOS-LAB/1''" and t = "[]" and gs = "[''0'', ''00000000'']"]) (simp_all, simp add: service_end_record_def at_text_def line_defs char_defs)

lemma opens_final_record [simp]: "opens ''LEANOS/'' final_record"
  by (simp add: final_record_def opens_text opens_parts opens_load)

lemma miss_final_record [simp]:
  "final_record (window_line @ s) = None"
  "final_record (armed_line @ s) = None"
  "final_record (load_line @ s) = None"
  "final_record (mode_line @ s) = None"
  "final_record (platform_line @ s) = None"
  "final_record (grant_line @ s) = None"
  "final_record (ipc_ready_line @ s) = None"
  "final_record (ipc_line @ s) = None"
  "final_record (end_line @ s) = None"
  "final_record (default_line @ s) = None"
  "final_record (chain_line @ s) = None"
  "final_record (select_line @ s) = None"
  "final_record (production_mode_line @ s) = None"
  "final_record (windows_line @ s) = None"
  "final_record (assign_line @ s) = None"
  "final_record (production_line @ s) = None"
  "final_record (deliver_line @ s) = None"
  "final_record (fetch_line @ s) = None"
  "final_record (send_line @ s) = None"
  "final_record (refuse_line @ s) = None"
  "final_record (handoff_line @ s) = None"
  by (simp_all add: final_record_def at_text_def line_defs char_defs)

lemma hit_final_record_device_final [simp]:
  "search_from final_record (device_final @ s) pos 0 = (pos, pos + 58, [''status=PASS events=4 blocks=2 deliveries=1'']) # search_from final_record s (pos + 58) 0"
  by (subst search_hit [where h = "''LEANOS/''" and t = "[]" and gs = "[''status=PASS events=4 blocks=2 deliveries=1'']"]) (simp_all, simp add: final_record_def at_text_def line_defs char_defs)

lemma hit_final_record_production_final_line [simp]:
  "search_from final_record (production_final_line @ s) pos 0 = (pos, pos + 236, [''status=PASS profile=qotom-network-v1 subjects=3 dhcp-subject=1 echo-subject=3 device-holder=2 address-spaces=3 lease=10.0.0.7 frames=1 dhcp-frames=1 echo-frames=0 fetches=1 sends=1 refusals=4 ipc-edges=10 window-copies=2'']) # search_from final_record s (pos + 236) 0"
  by (subst search_hit [where h = "''LEANOS/''" and t = "[]" and gs = "[''status=PASS profile=qotom-network-v1 subjects=3 dhcp-subject=1 echo-subject=3 device-holder=2 address-spaces=3 lease=10.0.0.7 frames=1 dhcp-frames=1 echo-frames=0 fetches=1 sends=1 refusals=4 ipc-edges=10 window-copies=2'']"]) (simp_all, simp add: final_record_def at_text_def line_defs char_defs)

lemma opens_at_text_DEFAULT_MARK [simp]: "opens ''LEANOS-LAB/1'' (at_text DEFAULT_MARK)"
  by (simp add: DEFAULT_MARK_def opens_text opens_parts opens_load)

lemma miss_at_text_DEFAULT_MARK [simp]:
  "at_text DEFAULT_MARK (window_line @ s) = None"
  "at_text DEFAULT_MARK (armed_line @ s) = None"
  "at_text DEFAULT_MARK (load_line @ s) = None"
  "at_text DEFAULT_MARK (mode_line @ s) = None"
  "at_text DEFAULT_MARK (platform_line @ s) = None"
  "at_text DEFAULT_MARK (grant_line @ s) = None"
  "at_text DEFAULT_MARK (ipc_ready_line @ s) = None"
  "at_text DEFAULT_MARK (ipc_line @ s) = None"
  "at_text DEFAULT_MARK (end_line @ s) = None"
  "at_text DEFAULT_MARK (device_final @ s) = None"
  "at_text DEFAULT_MARK (chain_line @ s) = None"
  "at_text DEFAULT_MARK (select_line @ s) = None"
  "at_text DEFAULT_MARK (production_mode_line @ s) = None"
  "at_text DEFAULT_MARK (windows_line @ s) = None"
  "at_text DEFAULT_MARK (assign_line @ s) = None"
  "at_text DEFAULT_MARK (production_line @ s) = None"
  "at_text DEFAULT_MARK (deliver_line @ s) = None"
  "at_text DEFAULT_MARK (fetch_line @ s) = None"
  "at_text DEFAULT_MARK (send_line @ s) = None"
  "at_text DEFAULT_MARK (refuse_line @ s) = None"
  "at_text DEFAULT_MARK (handoff_line @ s) = None"
  "at_text DEFAULT_MARK (production_final_line @ s) = None"
  by (simp_all add: at_text_def DEFAULT_MARK_def line_defs char_defs)

lemma hit_at_text_DEFAULT_MARK_default_line [simp]:
  "search_from (at_text DEFAULT_MARK) (default_line @ s) pos 0 = (pos, pos + 33, []) # search_from (at_text DEFAULT_MARK) s (pos + 34) 0"
  by (subst search_hit [where h = "''LEANOS-LAB/1''" and t = "[LF]" and gs = "[]"]) (simp_all, simp add: at_text_def DEFAULT_MARK_def line_defs char_defs)

lemma opens_ipc_delivery [simp]: "opens ''LEANOS/'' ipc_delivery"
  by (simp add: ipc_delivery_def opens_text opens_parts opens_load)

lemma miss_ipc_delivery [simp]:
  "ipc_delivery (window_line @ s) = None"
  "ipc_delivery (armed_line @ s) = None"
  "ipc_delivery (load_line @ s) = None"
  "ipc_delivery (mode_line @ s) = None"
  "ipc_delivery (platform_line @ s) = None"
  "ipc_delivery (grant_line @ s) = None"
  "ipc_delivery (ipc_ready_line @ s) = None"
  "ipc_delivery (end_line @ s) = None"
  "ipc_delivery (device_final @ s) = None"
  "ipc_delivery (default_line @ s) = None"
  "ipc_delivery (chain_line @ s) = None"
  by (simp_all add: ipc_delivery_def at_text_def line_defs char_defs)

lemma hit_ipc_delivery_ipc_line [simp]:
  "search_from ipc_delivery (ipc_line @ s) pos 0 = (pos, pos + 38, []) # search_from ipc_delivery s (pos + 41) 0"
  by (subst search_hit [where h = "''LEANOS/''" and t = "''ok'' @ NL" and gs = "[]"]) (simp_all, simp add: ipc_delivery_def at_text_def line_defs char_defs)

lemma opens_gtk_record [simp]: "opens ''LEANOS-LAB/1'' gtk_record"
  by (simp add: gtk_record_def opens_text opens_parts opens_load)

lemma miss_gtk_record [simp]:
  "gtk_record (window_line @ s) = None"
  "gtk_record (armed_line @ s) = None"
  "gtk_record (load_line @ s) = None"
  "gtk_record (mode_line @ s) = None"
  "gtk_record (platform_line @ s) = None"
  "gtk_record (grant_line @ s) = None"
  "gtk_record (ipc_ready_line @ s) = None"
  "gtk_record (ipc_line @ s) = None"
  "gtk_record (end_line @ s) = None"
  "gtk_record (device_final @ s) = None"
  "gtk_record (default_line @ s) = None"
  "gtk_record (chain_line @ s) = None"
  by (simp_all add: gtk_record_def at_text_def line_defs char_defs)

lemma opens_reload_mark [simp]: "opens ''LEANOS-LAB/1'' reload_mark"
  by (simp add: reload_mark_def opens_text opens_parts opens_load)

lemma miss_reload_mark [simp]:
  "reload_mark (window_line @ s) = None"
  "reload_mark (armed_line @ s) = None"
  "reload_mark (load_line @ s) = None"
  "reload_mark (mode_line @ s) = None"
  "reload_mark (platform_line @ s) = None"
  "reload_mark (grant_line @ s) = None"
  "reload_mark (ipc_ready_line @ s) = None"
  "reload_mark (ipc_line @ s) = None"
  "reload_mark (end_line @ s) = None"
  "reload_mark (device_final @ s) = None"
  "reload_mark (default_line @ s) = None"
  "reload_mark (chain_line @ s) = None"
  by (simp_all add: reload_mark_def at_text_def line_defs char_defs)

lemma opens_select_record [simp]: "opens ''LEANOS-LAB/1'' select_record"
  by (simp add: select_record_def opens_text opens_parts opens_load)

lemma miss_select_record [simp]:
  "select_record (production_mode_line @ s) = None"
  "select_record (windows_line @ s) = None"
  "select_record (platform_line @ s) = None"
  "select_record (assign_line @ s) = None"
  "select_record (grant_line @ s) = None"
  "select_record (ipc_ready_line @ s) = None"
  "select_record (production_line @ s) = None"
  "select_record (deliver_line @ s) = None"
  "select_record (fetch_line @ s) = None"
  "select_record (send_line @ s) = None"
  "select_record (refuse_line @ s) = None"
  "select_record (handoff_line @ s) = None"
  "select_record (end_line @ s) = None"
  "select_record (production_final_line @ s) = None"
  "select_record (default_line @ s) = None"
  "select_record (chain_line @ s) = None"
  by (simp_all add: select_record_def at_text_def line_defs char_defs)

lemma hit_select_record_select_line [simp]:
  "search_from select_record (select_line @ s) pos 0 = (pos, pos + 37, []) # search_from select_record s (pos + 38) 0"
  by (subst search_hit [where h = "''LEANOS-LAB/1''" and t = "[LF]" and gs = "[]"]) (simp_all, simp add: select_record_def at_text_def line_defs char_defs)

lemma opens_production_mode [simp]: "opens ''LEANOS-LAB/1'' production_mode"
  by (simp add: production_mode_def opens_text opens_parts opens_load)

lemma miss_production_mode [simp]:
  "production_mode (select_line @ s) = None"
  "production_mode (windows_line @ s) = None"
  "production_mode (platform_line @ s) = None"
  "production_mode (assign_line @ s) = None"
  "production_mode (grant_line @ s) = None"
  "production_mode (ipc_ready_line @ s) = None"
  "production_mode (production_line @ s) = None"
  "production_mode (deliver_line @ s) = None"
  "production_mode (fetch_line @ s) = None"
  "production_mode (send_line @ s) = None"
  "production_mode (refuse_line @ s) = None"
  "production_mode (handoff_line @ s) = None"
  "production_mode (end_line @ s) = None"
  "production_mode (production_final_line @ s) = None"
  "production_mode (default_line @ s) = None"
  "production_mode (chain_line @ s) = None"
  by (simp_all add: production_mode_def at_text_def line_defs char_defs)

lemma hit_production_mode_production_mode_line [simp]:
  "search_from production_mode (production_mode_line @ s) pos 0 = (pos, pos + 60, []) # search_from production_mode s (pos + 60) 0"
  by (subst search_hit [where h = "''LEANOS-LAB/1''" and t = "[]" and gs = "[]"]) (simp_all, simp add: production_mode_def at_text_def line_defs char_defs)

lemma opens_windows_record [simp]: "opens ''LEANOS-LAB/1'' windows_record"
  by (simp add: windows_record_def opens_text opens_parts opens_load)

lemma miss_windows_record [simp]:
  "windows_record (select_line @ s) = None"
  "windows_record (production_mode_line @ s) = None"
  "windows_record (platform_line @ s) = None"
  "windows_record (assign_line @ s) = None"
  "windows_record (grant_line @ s) = None"
  "windows_record (ipc_ready_line @ s) = None"
  "windows_record (production_line @ s) = None"
  "windows_record (deliver_line @ s) = None"
  "windows_record (fetch_line @ s) = None"
  "windows_record (send_line @ s) = None"
  "windows_record (refuse_line @ s) = None"
  "windows_record (handoff_line @ s) = None"
  "windows_record (end_line @ s) = None"
  "windows_record (production_final_line @ s) = None"
  "windows_record (default_line @ s) = None"
  "windows_record (chain_line @ s) = None"
  by (simp_all add: windows_record_def at_text_def line_defs char_defs)

lemma hit_windows_record_windows_line [simp]:
  "search_from windows_record (windows_line @ s) pos 0 = (pos, pos + 201, []) # search_from windows_record s (pos + 201) 0"
  by (subst search_hit [where h = "''LEANOS-LAB/1''" and t = "[]" and gs = "[]"]) (simp_all, simp add: windows_record_def at_text_def line_defs char_defs)

lemma opens_assign_record [simp]: "opens ''LEANOS-LAB/1'' assign_record"
  by (simp add: assign_record_def opens_text opens_parts opens_load)

lemma miss_assign_record [simp]:
  "assign_record (select_line @ s) = None"
  "assign_record (production_mode_line @ s) = None"
  "assign_record (windows_line @ s) = None"
  "assign_record (platform_line @ s) = None"
  "assign_record (grant_line @ s) = None"
  "assign_record (ipc_ready_line @ s) = None"
  "assign_record (production_line @ s) = None"
  "assign_record (deliver_line @ s) = None"
  "assign_record (fetch_line @ s) = None"
  "assign_record (send_line @ s) = None"
  "assign_record (refuse_line @ s) = None"
  "assign_record (handoff_line @ s) = None"
  "assign_record (end_line @ s) = None"
  "assign_record (production_final_line @ s) = None"
  "assign_record (default_line @ s) = None"
  "assign_record (chain_line @ s) = None"
  by (simp_all add: assign_record_def at_text_def line_defs char_defs)

lemma hit_assign_record_assign_line [simp]:
  "search_from assign_record (assign_line @ s) pos 0 = (pos, pos + 116, []) # search_from assign_record s (pos + 116) 0"
  by (subst search_hit [where h = "''LEANOS-LAB/1''" and t = "[]" and gs = "[]"]) (simp_all, simp add: assign_record_def at_text_def line_defs char_defs)

lemma opens_production_ready [simp]: "opens ''LEANOS-LAB/1'' production_ready"
  by (simp add: production_ready_def opens_text opens_parts opens_load)

lemma miss_production_ready [simp]:
  "production_ready (select_line @ s) = None"
  "production_ready (production_mode_line @ s) = None"
  "production_ready (windows_line @ s) = None"
  "production_ready (platform_line @ s) = None"
  "production_ready (assign_line @ s) = None"
  "production_ready (grant_line @ s) = None"
  "production_ready (ipc_ready_line @ s) = None"
  "production_ready (deliver_line @ s) = None"
  "production_ready (fetch_line @ s) = None"
  "production_ready (send_line @ s) = None"
  "production_ready (refuse_line @ s) = None"
  "production_ready (handoff_line @ s) = None"
  "production_ready (end_line @ s) = None"
  "production_ready (production_final_line @ s) = None"
  "production_ready (default_line @ s) = None"
  "production_ready (chain_line @ s) = None"
  by (simp_all add: production_ready_def at_text_def line_defs char_defs)

lemma hit_production_ready_production_line [simp]:
  "search_from production_ready (production_line @ s) pos 0 = (pos, pos + 127, []) # search_from production_ready s (pos + 127) 0"
  by (subst search_hit [where h = "''LEANOS-LAB/1''" and t = "[]" and gs = "[]"]) (simp_all, simp add: production_ready_def at_text_def line_defs char_defs)

lemma opens_deliver_record [simp]: "opens ''LEANOS-LAB/1'' deliver_record"
  by (simp add: deliver_record_def opens_text opens_parts opens_load)

lemma miss_deliver_record [simp]:
  "deliver_record (select_line @ s) = None"
  "deliver_record (production_mode_line @ s) = None"
  "deliver_record (windows_line @ s) = None"
  "deliver_record (platform_line @ s) = None"
  "deliver_record (assign_line @ s) = None"
  "deliver_record (grant_line @ s) = None"
  "deliver_record (ipc_ready_line @ s) = None"
  "deliver_record (production_line @ s) = None"
  "deliver_record (fetch_line @ s) = None"
  "deliver_record (send_line @ s) = None"
  "deliver_record (refuse_line @ s) = None"
  "deliver_record (handoff_line @ s) = None"
  "deliver_record (end_line @ s) = None"
  "deliver_record (production_final_line @ s) = None"
  "deliver_record (default_line @ s) = None"
  "deliver_record (chain_line @ s) = None"
  by (simp_all add: deliver_record_def at_text_def line_defs char_defs)

lemma hit_deliver_record_deliver_line [simp]:
  "search_from deliver_record (deliver_line @ s) pos 0 = (pos, pos + 39, [''1'']) # search_from deliver_record s (pos + 58) 0"
  by (subst search_hit [where h = "''LEANOS-LAB/1''" and t = "''bytes=60 port=dhcp'' @ NL" and gs = "[''1'']"]) (simp_all, simp add: deliver_record_def at_text_def line_defs char_defs)

lemma opens_subject_event_fetch [simp]: "opens ''LEANOS-LAB/1'' (subject_event ''fetch'')"
  by (simp add: subject_event_def opens_text opens_parts opens_load)

lemma miss_subject_event_fetch [simp]:
  "subject_event ''fetch'' (select_line @ s) = None"
  "subject_event ''fetch'' (production_mode_line @ s) = None"
  "subject_event ''fetch'' (windows_line @ s) = None"
  "subject_event ''fetch'' (platform_line @ s) = None"
  "subject_event ''fetch'' (assign_line @ s) = None"
  "subject_event ''fetch'' (grant_line @ s) = None"
  "subject_event ''fetch'' (ipc_ready_line @ s) = None"
  "subject_event ''fetch'' (production_line @ s) = None"
  "subject_event ''fetch'' (deliver_line @ s) = None"
  "subject_event ''fetch'' (send_line @ s) = None"
  "subject_event ''fetch'' (refuse_line @ s) = None"
  "subject_event ''fetch'' (handoff_line @ s) = None"
  "subject_event ''fetch'' (end_line @ s) = None"
  "subject_event ''fetch'' (production_final_line @ s) = None"
  "subject_event ''fetch'' (default_line @ s) = None"
  "subject_event ''fetch'' (chain_line @ s) = None"
  by (simp_all add: subject_event_def line_defs char_defs)

lemma hit_subject_event_fetch_fetch_line [simp]:
  "search_from (subject_event ''fetch'') (fetch_line @ s) pos 0 = (pos, pos + 39, []) # search_from (subject_event ''fetch'') s (pos + 47) 0"
  by (subst search_hit [where h = "''LEANOS-LAB/1''" and t = "''frame=1'' @ NL" and gs = "[]"]) (simp_all, simp add: subject_event_def line_defs char_defs)

lemma opens_subject_event_send [simp]: "opens ''LEANOS-LAB/1'' (subject_event ''send'')"
  by (simp add: subject_event_def opens_text opens_parts opens_load)

lemma miss_subject_event_send [simp]:
  "subject_event ''send'' (select_line @ s) = None"
  "subject_event ''send'' (production_mode_line @ s) = None"
  "subject_event ''send'' (windows_line @ s) = None"
  "subject_event ''send'' (platform_line @ s) = None"
  "subject_event ''send'' (assign_line @ s) = None"
  "subject_event ''send'' (grant_line @ s) = None"
  "subject_event ''send'' (ipc_ready_line @ s) = None"
  "subject_event ''send'' (production_line @ s) = None"
  "subject_event ''send'' (deliver_line @ s) = None"
  "subject_event ''send'' (fetch_line @ s) = None"
  "subject_event ''send'' (refuse_line @ s) = None"
  "subject_event ''send'' (handoff_line @ s) = None"
  "subject_event ''send'' (end_line @ s) = None"
  "subject_event ''send'' (production_final_line @ s) = None"
  "subject_event ''send'' (default_line @ s) = None"
  "subject_event ''send'' (chain_line @ s) = None"
  by (simp_all add: subject_event_def line_defs char_defs)

lemma hit_subject_event_send_send_line [simp]:
  "search_from (subject_event ''send'') (send_line @ s) pos 0 = (pos, pos + 38, []) # search_from (subject_event ''send'') s (pos + 46) 0"
  by (subst search_hit [where h = "''LEANOS-LAB/1''" and t = "''frame=1'' @ NL" and gs = "[]"]) (simp_all, simp add: subject_event_def line_defs char_defs)

lemma opens_at_text_LEANOS_LAB_1_NET_event_refuse [simp]: "opens ''LEANOS-LAB/1'' (at_text ''LEANOS-LAB/1 NET event=refuse '')"
  by (simp add:  opens_text opens_parts opens_load)

lemma miss_at_text_LEANOS_LAB_1_NET_event_refuse [simp]:
  "at_text ''LEANOS-LAB/1 NET event=refuse '' (select_line @ s) = None"
  "at_text ''LEANOS-LAB/1 NET event=refuse '' (production_mode_line @ s) = None"
  "at_text ''LEANOS-LAB/1 NET event=refuse '' (windows_line @ s) = None"
  "at_text ''LEANOS-LAB/1 NET event=refuse '' (platform_line @ s) = None"
  "at_text ''LEANOS-LAB/1 NET event=refuse '' (assign_line @ s) = None"
  "at_text ''LEANOS-LAB/1 NET event=refuse '' (grant_line @ s) = None"
  "at_text ''LEANOS-LAB/1 NET event=refuse '' (ipc_ready_line @ s) = None"
  "at_text ''LEANOS-LAB/1 NET event=refuse '' (production_line @ s) = None"
  "at_text ''LEANOS-LAB/1 NET event=refuse '' (deliver_line @ s) = None"
  "at_text ''LEANOS-LAB/1 NET event=refuse '' (fetch_line @ s) = None"
  "at_text ''LEANOS-LAB/1 NET event=refuse '' (send_line @ s) = None"
  "at_text ''LEANOS-LAB/1 NET event=refuse '' (handoff_line @ s) = None"
  "at_text ''LEANOS-LAB/1 NET event=refuse '' (end_line @ s) = None"
  "at_text ''LEANOS-LAB/1 NET event=refuse '' (production_final_line @ s) = None"
  "at_text ''LEANOS-LAB/1 NET event=refuse '' (default_line @ s) = None"
  "at_text ''LEANOS-LAB/1 NET event=refuse '' (chain_line @ s) = None"
  by (simp_all add: at_text_def line_defs char_defs)

lemma hit_at_text_LEANOS_LAB_1_NET_event_refuse_refuse_line [simp]:
  "search_from (at_text ''LEANOS-LAB/1 NET event=refuse '') (refuse_line @ s) pos 0 = (pos, pos + 30, []) # search_from (at_text ''LEANOS-LAB/1 NET event=refuse '') s (pos + 40) 0"
  by (subst search_hit [where h = "''LEANOS-LAB/1''" and t = "''subject=3'' @ NL" and gs = "[]"]) (simp_all, simp add: at_text_def line_defs char_defs)

lemma opens_production_handoff [simp]: "opens ''LEANOS-LAB/1'' production_handoff"
  by (simp add: production_handoff_def opens_text opens_parts opens_load)

lemma miss_production_handoff [simp]:
  "production_handoff (select_line @ s) = None"
  "production_handoff (production_mode_line @ s) = None"
  "production_handoff (windows_line @ s) = None"
  "production_handoff (platform_line @ s) = None"
  "production_handoff (assign_line @ s) = None"
  "production_handoff (grant_line @ s) = None"
  "production_handoff (ipc_ready_line @ s) = None"
  "production_handoff (production_line @ s) = None"
  "production_handoff (deliver_line @ s) = None"
  "production_handoff (fetch_line @ s) = None"
  "production_handoff (send_line @ s) = None"
  "production_handoff (refuse_line @ s) = None"
  "production_handoff (end_line @ s) = None"
  "production_handoff (production_final_line @ s) = None"
  "production_handoff (default_line @ s) = None"
  "production_handoff (chain_line @ s) = None"
  by (simp_all add: production_handoff_def at_text_def line_defs char_defs)

lemma hit_production_handoff_handoff_line [simp]:
  "search_from production_handoff (handoff_line @ s) pos 0 = (pos, pos + 116, [''1'', ''10.0.0.7'']) # search_from production_handoff s (pos + 116) 0"
  by (subst search_hit [where h = "''LEANOS-LAB/1''" and t = "[]" and gs = "[''1'', ''10.0.0.7'']"]) (simp_all, simp add: production_handoff_def at_text_def line_defs char_defs)

lemma opens_lease_signal [simp]: "opens ''LEANOS-LAB/1'' lease_signal"
  by (simp add: lease_signal_def opens_text opens_parts opens_load)

lemma miss_lease_signal [simp]:
  "lease_signal (select_line @ s) = None"
  "lease_signal (production_mode_line @ s) = None"
  "lease_signal (windows_line @ s) = None"
  "lease_signal (platform_line @ s) = None"
  "lease_signal (assign_line @ s) = None"
  "lease_signal (grant_line @ s) = None"
  "lease_signal (ipc_ready_line @ s) = None"
  "lease_signal (production_line @ s) = None"
  "lease_signal (deliver_line @ s) = None"
  "lease_signal (fetch_line @ s) = None"
  "lease_signal (send_line @ s) = None"
  "lease_signal (refuse_line @ s) = None"
  "lease_signal (handoff_line @ s) = None"
  "lease_signal (end_line @ s) = None"
  "lease_signal (production_final_line @ s) = None"
  "lease_signal (default_line @ s) = None"
  "lease_signal (chain_line @ s) = None"
  by (simp_all add: lease_signal_def at_text_def line_defs char_defs)

lemma opens_echo_delivery [simp]: "opens ''LEANOS-LAB/1'' echo_delivery"
  by (simp add: echo_delivery_def opens_text opens_parts opens_load)

lemma miss_echo_delivery [simp]:
  "echo_delivery (select_line @ s) = None"
  "echo_delivery (production_mode_line @ s) = None"
  "echo_delivery (windows_line @ s) = None"
  "echo_delivery (platform_line @ s) = None"
  "echo_delivery (assign_line @ s) = None"
  "echo_delivery (grant_line @ s) = None"
  "echo_delivery (ipc_ready_line @ s) = None"
  "echo_delivery (production_line @ s) = None"
  "echo_delivery (deliver_line @ s) = None"
  "echo_delivery (fetch_line @ s) = None"
  "echo_delivery (send_line @ s) = None"
  "echo_delivery (refuse_line @ s) = None"
  "echo_delivery (handoff_line @ s) = None"
  "echo_delivery (end_line @ s) = None"
  "echo_delivery (production_final_line @ s) = None"
  "echo_delivery (default_line @ s) = None"
  "echo_delivery (chain_line @ s) = None"
  by (simp_all add: echo_delivery_def at_text_def line_defs char_defs)

lemmas line_miss = search_miss [where h = "''LEANOS-LAB/1''"] search_miss [where h = "''LEANOS/''"]

definition device_text :: bytes where
  "device_text = window_line @ armed_line @ load_line @ mode_line @ platform_line @ grant_line @ ipc_ready_line @ ipc_line @ end_line @ device_final @ default_line @ chain_line"

lemma device_lines: "device_text = window_line @ armed_line @ load_line @ mode_line @ platform_line @ grant_line @ ipc_ready_line @ ipc_line @ end_line @ device_final @ default_line @ chain_line @ []"
  by (simp add: device_text_def)

lemma device_found [simp]:
  "finditer (at_text WINDOW_MARK) device_text = [(0, 39, [])]"
  "finditer (at_text ARMED_MARK) device_text = [(40, 77, [])]"
  "finditer (wrapped_load LOAD_MARK run_digest) device_text = [(78, 183, [])]"
  "finditer (at_text MODE_LINE) device_text = [(184, 237, [])]"
  "finditer platform_record device_text = [(237, 323, [])]"
  "finditer grant_record device_text = [(326, 406, [])]"
  "finditer ready_record device_text = [(406, 465, [])]"
  "finditer service_end_record device_text = [(509, 569, [''0'', ''00000000''])]"
  "finditer final_record device_text = [(569, 627, [''status=PASS events=4 blocks=2 deliveries=1''])]"
  "finditer (at_text DEFAULT_MARK) device_text = [(627, 660, [])]"
  "finditer ipc_delivery device_text = [(468, 506, [])]"
  "finditer gtk_record device_text = []"
  "finditer reload_mark device_text = []"
  unfolding finditer_def device_lines by (simp_all add: line_miss del: append_Nil2)

definition production_text :: bytes where
  "production_text = select_line @ production_mode_line @ windows_line @ platform_line @ assign_line @ grant_line @ ipc_ready_line @ production_line @ deliver_line @ fetch_line @ send_line @ refuse_line @ refuse_line @ refuse_line @ refuse_line @ handoff_line @ end_line @ production_final_line @ default_line @ chain_line"

lemma production_lines: "production_text = select_line @ production_mode_line @ windows_line @ platform_line @ assign_line @ grant_line @ ipc_ready_line @ production_line @ deliver_line @ fetch_line @ send_line @ refuse_line @ refuse_line @ refuse_line @ refuse_line @ handoff_line @ end_line @ production_final_line @ default_line @ chain_line @ []"
  by (simp add: production_text_def)

lemma production_found [simp]:
  "finditer select_record production_text = [(0, 37, [])]"
  "finditer production_mode production_text = [(38, 98, [])]"
  "finditer windows_record production_text = [(98, 299, [])]"
  "finditer platform_record production_text = [(299, 385, [])]"
  "finditer assign_record production_text = [(388, 504, [])]"
  "finditer grant_record production_text = [(504, 584, [])]"
  "finditer ready_record production_text = [(584, 643, [])]"
  "finditer production_ready production_text = [(646, 773, [])]"
  "finditer service_end_record production_text = [(1200, 1260, [''0'', ''00000000''])]"
  "finditer final_record production_text = [(1260, 1496, [''status=PASS profile=qotom-network-v1 subjects=3 dhcp-subject=1 echo-subject=3 device-holder=2 address-spaces=3 lease=10.0.0.7 frames=1 dhcp-frames=1 echo-frames=0 fetches=1 sends=1 refusals=4 ipc-edges=10 window-copies=2''])]"
  "finditer deliver_record production_text = [(773, 812, [''1''])]"
  "finditer (subject_event ''fetch'') production_text = [(831, 870, [])]"
  "finditer (subject_event ''send'') production_text = [(878, 916, [])]"
  "finditer (at_text ''LEANOS-LAB/1 NET event=refuse '') production_text = [(924, 954, []), (964, 994, []), (1004, 1034, []), (1044, 1074, [])]"
  "finditer production_handoff production_text = [(1084, 1200, [''1'', ''10.0.0.7''])]"
  "finditer lease_signal production_text = []"
  "finditer echo_delivery production_text = []"
  "finditer (at_text DEFAULT_MARK) production_text = [(1496, 1529, [])]"
  unfolding finditer_def production_lines by (simp_all add: line_miss del: append_Nil2)

lemma line_last [simp]:
  "last window_line = LF"
  "last armed_line = LF"
  "last load_line = LF"
  "last mode_line = LF"
  "last platform_line = LF"
  "last grant_line = LF"
  "last ipc_ready_line = LF"
  "last ipc_line = LF"
  "last end_line = LF"
  "last device_final = LF"
  "last default_line = LF"
  "last chain_line = LF"
  "last select_line = LF"
  "last production_mode_line = LF"
  "last windows_line = LF"
  "last assign_line = LF"
  "last production_line = LF"
  "last deliver_line = LF"
  "last fetch_line = LF"
  "last send_line = LF"
  "last refuse_line = LF"
  "last handoff_line = LF"
  "last production_final_line = LF"
  by (simp_all add: line_defs)

lemma lacks_M:
  "CHR ''M'' \<notin> set window_line"
  "CHR ''M'' \<notin> set load_line"
  "CHR ''M'' \<notin> set default_line"
  "CHR ''M'' \<notin> set windows_line"
  "CHR ''M'' \<notin> set production_line"
  by (simp_all add: line_defs)

lemma lacks_C:
  "CHR ''C'' \<notin> set mode_line"
  "CHR ''C'' \<notin> set platform_line"
  "CHR ''C'' \<notin> set device_final"
  "CHR ''C'' \<notin> set default_line"
  "CHR ''C'' \<notin> set production_mode_line"
  "CHR ''C'' \<notin> set deliver_line"
  "CHR ''C'' \<notin> set fetch_line"
  "CHR ''C'' \<notin> set send_line"
  "CHR ''C'' \<notin> set refuse_line"
  "CHR ''C'' \<notin> set handoff_line"
  "CHR ''C'' \<notin> set production_final_line"
  by (simp_all add: line_defs)

lemma lacks_D:
  "CHR ''D'' \<notin> set grant_line"
  "CHR ''D'' \<notin> set ipc_line"
  "CHR ''D'' \<notin> set end_line"
  "CHR ''D'' \<notin> set chain_line"
  "CHR ''D'' \<notin> set device_final"
  "CHR ''D'' \<notin> set select_line"
  "CHR ''D'' \<notin> set deliver_line"
  "CHR ''D'' \<notin> set fetch_line"
  "CHR ''D'' \<notin> set send_line"
  "CHR ''D'' \<notin> set refuse_line"
  "CHR ''D'' \<notin> set handoff_line"
  "CHR ''D'' \<notin> set production_final_line"
  by (simp_all add: line_defs)

lemma lacks_G:
  "CHR ''G'' \<notin> set ipc_ready_line"
  "CHR ''G'' \<notin> set windows_line"
  "CHR ''G'' \<notin> set production_line"
  "CHR ''G'' \<notin> set mode_line"
  "CHR ''G'' \<notin> set platform_line"
  "CHR ''G'' \<notin> set grant_line"
  "CHR ''G'' \<notin> set ipc_line"
  "CHR ''G'' \<notin> set end_line"
  "CHR ''G'' \<notin> set device_final"
  "CHR ''G'' \<notin> set default_line"
  "CHR ''G'' \<notin> set chain_line"
  by (simp_all add: line_defs)

lemma lacks_F:
  "CHR ''F'' \<notin> set window_line"
  "CHR ''F'' \<notin> set armed_line"
  "CHR ''F'' \<notin> set load_line"
  "CHR ''F'' \<notin> set mode_line"
  "CHR ''F'' \<notin> set ipc_ready_line"
  "CHR ''F'' \<notin> set production_mode_line"
  "CHR ''F'' \<notin> set windows_line"
  "CHR ''F'' \<notin> set assign_line"
  "CHR ''F'' \<notin> set production_line"
  "CHR ''F'' \<notin> set select_line"
  "CHR ''F'' \<notin> set grant_line"
  "CHR ''F'' \<notin> set deliver_line"
  "CHR ''F'' \<notin> set fetch_line"
  "CHR ''F'' \<notin> set send_line"
  "CHR ''F'' \<notin> set refuse_line"
  "CHR ''F'' \<notin> set handoff_line"
  "CHR ''F'' \<notin> set end_line"
  "CHR ''F'' \<notin> set chain_line"
  by (simp_all add: line_defs)

lemma lacks_V:
  "CHR ''V'' \<notin> set window_line"
  "CHR ''V'' \<notin> set armed_line"
  "CHR ''V'' \<notin> set load_line"
  "CHR ''V'' \<notin> set ipc_ready_line"
  "CHR ''V'' \<notin> set ipc_line"
  "CHR ''V'' \<notin> set chain_line"
  "CHR ''V'' \<notin> set select_line"
  "CHR ''V'' \<notin> set windows_line"
  "CHR ''V'' \<notin> set assign_line"
  "CHR ''V'' \<notin> set production_line"
  by (simp_all add: line_defs)

lemma lacks_g:
  "CHR ''g'' \<notin> set end_line"
  by (simp_all add: line_defs)

lemma lacks_T:
  "CHR ''T'' \<notin> set assign_line"
  "CHR ''T'' \<notin> set production_mode_line"
  "CHR ''T'' \<notin> set grant_line"
  "CHR ''T'' \<notin> set end_line"
  "CHR ''T'' \<notin> set production_final_line"
  "CHR ''T'' \<notin> set chain_line"
  by (simp_all add: line_defs)

lemma lacks_W:
  "CHR ''W'' \<notin> set ipc_ready_line"
  "CHR ''W'' \<notin> set production_line"
  "CHR ''W'' \<notin> set platform_line"
  "CHR ''W'' \<notin> set production_final_line"
  "CHR ''W'' \<notin> set default_line"
  by (simp_all add: line_defs)

lemma lacks_Y:
  "CHR ''Y'' \<notin> set windows_line"
  by (simp_all add: line_defs)

lemma lacks_U:
  "CHR ''U'' \<notin> set ipc_ready_line"
  by (simp_all add: line_defs)

lemma lacks_f:
  "CHR ''f'' \<notin> set select_line"
  by (simp_all add: line_defs)

lemma lacks_d:
  "CHR ''d'' \<notin> set platform_line"
  "CHR ''d'' \<notin> set fetch_line"
  by (simp_all add: line_defs)

lemma lacks_a:
  "CHR ''a'' \<notin> set ipc_ready_line"
  "CHR ''a'' \<notin> set refuse_line"
  "CHR ''a'' \<notin> set default_line"
  by (simp_all add: line_defs)

lemma lacks_h:
  "CHR ''h'' \<notin> set send_line"
  by (simp_all add: line_defs)

lemma lacks_R:
  "CHR ''R'' \<notin> set window_line"
  "CHR ''R'' \<notin> set load_line"
  by (simp_all add: line_defs)

lemma lacks_J:
  "CHR ''J'' \<notin> set armed_line"
  by (simp_all add: line_defs)

lemma lacks_K:
  "CHR ''K'' \<notin> set window_line"
  "CHR ''K'' \<notin> set armed_line"
  "CHR ''K'' \<notin> set load_line"
  by (simp_all add: line_defs)

lemma lacks_I:
  "CHR ''I'' \<notin> set armed_line"
  by (simp_all add: line_defs)

lemma lacks_H:
  "CHR ''H'' \<notin> set assign_line"
  by (simp_all add: line_defs)

lemma clearcount_WATCHDOG_ARMED_M [simp]:
  "clear_of ''WATCHDOG-ARMED'' window_line"
  "clear_of ''WATCHDOG-ARMED'' load_line"
  by (simp_all add: clear_by_char [where x = "CHR ''M''"] lacks_M)

lemma clearcount_WATCHDOG_ARMED_C [simp]:
  "clear_of ''WATCHDOG-ARMED'' mode_line"
  "clear_of ''WATCHDOG-ARMED'' platform_line"
  "clear_of ''WATCHDOG-ARMED'' device_final"
  "clear_of ''WATCHDOG-ARMED'' default_line"
  by (simp_all add: clear_by_char [where x = "CHR ''C''"] lacks_C)

lemma clearcount_WATCHDOG_ARMED_D [simp]:
  "clear_of ''WATCHDOG-ARMED'' grant_line"
  "clear_of ''WATCHDOG-ARMED'' ipc_line"
  "clear_of ''WATCHDOG-ARMED'' end_line"
  "clear_of ''WATCHDOG-ARMED'' chain_line"
  by (simp_all add: clear_by_char [where x = "CHR ''D''"] lacks_D)

lemma clearcount_WATCHDOG_ARMED_G [simp]:
  "clear_of ''WATCHDOG-ARMED'' ipc_ready_line"
  by (simp_all add: clear_by_char [where x = "CHR ''G''"] lacks_G)

lemma count_WATCHDOG_ARMED:
  "bytes_count ''WATCHDOG-ARMED'' (armed_line @ s) = Suc (bytes_count ''WATCHDOG-ARMED'' s)"
  by (simp_all add: line_defs bytes_count_step)

lemma clearcount_WATCHDOG_LEANOS_LOAD_0 [simp]:
  "clear_of ''WATCHDOG-LEANOS-LOAD'' window_line"
  "clear_of ''WATCHDOG-LEANOS-LOAD'' armed_line"
  by (simp_all add: line_defs)

lemma clearcount_WATCHDOG_LEANOS_LOAD_C [simp]:
  "clear_of ''WATCHDOG-LEANOS-LOAD'' mode_line"
  "clear_of ''WATCHDOG-LEANOS-LOAD'' platform_line"
  "clear_of ''WATCHDOG-LEANOS-LOAD'' device_final"
  "clear_of ''WATCHDOG-LEANOS-LOAD'' default_line"
  by (simp_all add: clear_by_char [where x = "CHR ''C''"] lacks_C)

lemma clearcount_WATCHDOG_LEANOS_LOAD_D [simp]:
  "clear_of ''WATCHDOG-LEANOS-LOAD'' grant_line"
  "clear_of ''WATCHDOG-LEANOS-LOAD'' ipc_line"
  "clear_of ''WATCHDOG-LEANOS-LOAD'' end_line"
  "clear_of ''WATCHDOG-LEANOS-LOAD'' chain_line"
  by (simp_all add: clear_by_char [where x = "CHR ''D''"] lacks_D)

lemma clearcount_WATCHDOG_LEANOS_LOAD_G [simp]:
  "clear_of ''WATCHDOG-LEANOS-LOAD'' ipc_ready_line"
  by (simp_all add: clear_by_char [where x = "CHR ''G''"] lacks_G)

lemma count_WATCHDOG_LEANOS_LOAD:
  "bytes_count ''WATCHDOG-LEANOS-LOAD'' (load_line @ s) = Suc (bytes_count ''WATCHDOG-LEANOS-LOAD'' s)"
  by (simp_all add: line_defs bytes_count_step)

lemma clearcount_PLATFORM_ADMISSION_F [simp]:
  "clear_of ''PLATFORM-ADMISSION '' window_line"
  "clear_of ''PLATFORM-ADMISSION '' armed_line"
  "clear_of ''PLATFORM-ADMISSION '' load_line"
  "clear_of ''PLATFORM-ADMISSION '' mode_line"
  "clear_of ''PLATFORM-ADMISSION '' ipc_ready_line"
  "clear_of ''PLATFORM-ADMISSION '' production_mode_line"
  "clear_of ''PLATFORM-ADMISSION '' windows_line"
  "clear_of ''PLATFORM-ADMISSION '' assign_line"
  "clear_of ''PLATFORM-ADMISSION '' production_line"
  by (simp_all add: clear_by_char [where x = "CHR ''F''"] lacks_F)

lemma clearcount_PLATFORM_ADMISSION_D [simp]:
  "clear_of ''PLATFORM-ADMISSION '' grant_line"
  "clear_of ''PLATFORM-ADMISSION '' ipc_line"
  "clear_of ''PLATFORM-ADMISSION '' end_line"
  "clear_of ''PLATFORM-ADMISSION '' device_final"
  "clear_of ''PLATFORM-ADMISSION '' chain_line"
  "clear_of ''PLATFORM-ADMISSION '' select_line"
  "clear_of ''PLATFORM-ADMISSION '' deliver_line"
  "clear_of ''PLATFORM-ADMISSION '' fetch_line"
  "clear_of ''PLATFORM-ADMISSION '' send_line"
  "clear_of ''PLATFORM-ADMISSION '' refuse_line"
  "clear_of ''PLATFORM-ADMISSION '' handoff_line"
  "clear_of ''PLATFORM-ADMISSION '' production_final_line"
  by (simp_all add: clear_by_char [where x = "CHR ''D''"] lacks_D)

lemma clearcount_PLATFORM_ADMISSION_M [simp]:
  "clear_of ''PLATFORM-ADMISSION '' default_line"
  by (simp_all add: clear_by_char [where x = "CHR ''M''"] lacks_M)

lemma count_PLATFORM_ADMISSION:
  "bytes_count ''PLATFORM-ADMISSION '' (platform_line @ s) = Suc (bytes_count ''PLATFORM-ADMISSION '' s)"
  by (simp_all add: line_defs bytes_count_step)

lemma clearcount_SERVICE_grant_V [simp]:
  "clear_of ''SERVICE grant '' window_line"
  "clear_of ''SERVICE grant '' armed_line"
  "clear_of ''SERVICE grant '' load_line"
  "clear_of ''SERVICE grant '' ipc_ready_line"
  "clear_of ''SERVICE grant '' ipc_line"
  "clear_of ''SERVICE grant '' chain_line"
  "clear_of ''SERVICE grant '' select_line"
  "clear_of ''SERVICE grant '' windows_line"
  "clear_of ''SERVICE grant '' assign_line"
  "clear_of ''SERVICE grant '' production_line"
  by (simp_all add: clear_by_char [where x = "CHR ''V''"] lacks_V)

lemma clearcount_SERVICE_grant_C [simp]:
  "clear_of ''SERVICE grant '' mode_line"
  "clear_of ''SERVICE grant '' platform_line"
  "clear_of ''SERVICE grant '' device_final"
  "clear_of ''SERVICE grant '' default_line"
  "clear_of ''SERVICE grant '' production_mode_line"
  "clear_of ''SERVICE grant '' deliver_line"
  "clear_of ''SERVICE grant '' fetch_line"
  "clear_of ''SERVICE grant '' send_line"
  "clear_of ''SERVICE grant '' refuse_line"
  "clear_of ''SERVICE grant '' handoff_line"
  "clear_of ''SERVICE grant '' production_final_line"
  by (simp_all add: clear_by_char [where x = "CHR ''C''"] lacks_C)

lemma clearcount_SERVICE_grant_g [simp]:
  "clear_of ''SERVICE grant '' end_line"
  by (simp_all add: clear_by_char [where x = "CHR ''g''"] lacks_g)

lemma count_SERVICE_grant:
  "bytes_count ''SERVICE grant '' (grant_line @ s) = Suc (bytes_count ''SERVICE grant '' s)"
  by (simp_all add: line_defs bytes_count_step)

lemma clearcount_SERVICE_end_V [simp]:
  "clear_of ''SERVICE end '' window_line"
  "clear_of ''SERVICE end '' armed_line"
  "clear_of ''SERVICE end '' load_line"
  "clear_of ''SERVICE end '' ipc_ready_line"
  "clear_of ''SERVICE end '' ipc_line"
  "clear_of ''SERVICE end '' chain_line"
  "clear_of ''SERVICE end '' select_line"
  "clear_of ''SERVICE end '' windows_line"
  "clear_of ''SERVICE end '' assign_line"
  "clear_of ''SERVICE end '' production_line"
  by (simp_all add: clear_by_char [where x = "CHR ''V''"] lacks_V)

lemma clearcount_SERVICE_end_C [simp]:
  "clear_of ''SERVICE end '' mode_line"
  "clear_of ''SERVICE end '' platform_line"
  "clear_of ''SERVICE end '' device_final"
  "clear_of ''SERVICE end '' default_line"
  "clear_of ''SERVICE end '' production_mode_line"
  "clear_of ''SERVICE end '' deliver_line"
  "clear_of ''SERVICE end '' fetch_line"
  "clear_of ''SERVICE end '' send_line"
  "clear_of ''SERVICE end '' refuse_line"
  "clear_of ''SERVICE end '' handoff_line"
  "clear_of ''SERVICE end '' production_final_line"
  by (simp_all add: clear_by_char [where x = "CHR ''C''"] lacks_C)

lemma clearcount_SERVICE_end_0 [simp]:
  "clear_of ''SERVICE end '' grant_line"
  by (simp_all add: line_defs)

lemma count_SERVICE_end:
  "bytes_count ''SERVICE end '' (end_line @ s) = Suc (bytes_count ''SERVICE end '' s)"
  by (simp_all add: line_defs bytes_count_step)

lemma clearcount_LEANOS_LAB_1_MODE_D [simp]:
  "clear_of ''LEANOS-LAB/1 MODE '' select_line"
  "clear_of ''LEANOS-LAB/1 MODE '' grant_line"
  "clear_of ''LEANOS-LAB/1 MODE '' deliver_line"
  "clear_of ''LEANOS-LAB/1 MODE '' fetch_line"
  "clear_of ''LEANOS-LAB/1 MODE '' send_line"
  "clear_of ''LEANOS-LAB/1 MODE '' refuse_line"
  "clear_of ''LEANOS-LAB/1 MODE '' handoff_line"
  "clear_of ''LEANOS-LAB/1 MODE '' end_line"
  "clear_of ''LEANOS-LAB/1 MODE '' production_final_line"
  "clear_of ''LEANOS-LAB/1 MODE '' chain_line"
  by (simp_all add: clear_by_char [where x = "CHR ''D''"] lacks_D)

lemma clearcount_LEANOS_LAB_1_MODE_M [simp]:
  "clear_of ''LEANOS-LAB/1 MODE '' windows_line"
  "clear_of ''LEANOS-LAB/1 MODE '' production_line"
  "clear_of ''LEANOS-LAB/1 MODE '' default_line"
  by (simp_all add: clear_by_char [where x = "CHR ''M''"] lacks_M)

lemma clearcount_LEANOS_LAB_1_MODE_0 [simp]:
  "clear_of ''LEANOS-LAB/1 MODE '' platform_line"
  "clear_of ''LEANOS-LAB/1 MODE '' assign_line"
  "clear_of ''LEANOS-LAB/1 MODE '' ipc_ready_line"
  by (simp_all add: line_defs)

lemma count_LEANOS_LAB_1_MODE:
  "bytes_count ''LEANOS-LAB/1 MODE '' (production_mode_line @ s) = Suc (bytes_count ''LEANOS-LAB/1 MODE '' s)"
  by (simp_all add: line_defs bytes_count_step)

lemma clearcount_PRODUCTION_WINDOWS_D [simp]:
  "clear_of ''PRODUCTION-WINDOWS '' select_line"
  "clear_of ''PRODUCTION-WINDOWS '' grant_line"
  "clear_of ''PRODUCTION-WINDOWS '' end_line"
  "clear_of ''PRODUCTION-WINDOWS '' chain_line"
  by (simp_all add: clear_by_char [where x = "CHR ''D''"] lacks_D)

lemma clearcount_PRODUCTION_WINDOWS_C [simp]:
  "clear_of ''PRODUCTION-WINDOWS '' production_mode_line"
  "clear_of ''PRODUCTION-WINDOWS '' platform_line"
  "clear_of ''PRODUCTION-WINDOWS '' deliver_line"
  "clear_of ''PRODUCTION-WINDOWS '' fetch_line"
  "clear_of ''PRODUCTION-WINDOWS '' send_line"
  "clear_of ''PRODUCTION-WINDOWS '' refuse_line"
  "clear_of ''PRODUCTION-WINDOWS '' handoff_line"
  "clear_of ''PRODUCTION-WINDOWS '' production_final_line"
  "clear_of ''PRODUCTION-WINDOWS '' default_line"
  by (simp_all add: clear_by_char [where x = "CHR ''C''"] lacks_C)

lemma clearcount_PRODUCTION_WINDOWS_T [simp]:
  "clear_of ''PRODUCTION-WINDOWS '' assign_line"
  by (simp_all add: clear_by_char [where x = "CHR ''T''"] lacks_T)

lemma clearcount_PRODUCTION_WINDOWS_W [simp]:
  "clear_of ''PRODUCTION-WINDOWS '' ipc_ready_line"
  "clear_of ''PRODUCTION-WINDOWS '' production_line"
  by (simp_all add: clear_by_char [where x = "CHR ''W''"] lacks_W)

lemma count_PRODUCTION_WINDOWS:
  "bytes_count ''PRODUCTION-WINDOWS '' (windows_line @ s) = Suc (bytes_count ''PRODUCTION-WINDOWS '' s)"
  by (simp_all add: line_defs bytes_count_step)

lemma clearcount_BROADCOM_ASSIGN_D [simp]:
  "clear_of ''BROADCOM-ASSIGN '' select_line"
  "clear_of ''BROADCOM-ASSIGN '' grant_line"
  "clear_of ''BROADCOM-ASSIGN '' end_line"
  "clear_of ''BROADCOM-ASSIGN '' chain_line"
  by (simp_all add: clear_by_char [where x = "CHR ''D''"] lacks_D)

lemma clearcount_BROADCOM_ASSIGN_C [simp]:
  "clear_of ''BROADCOM-ASSIGN '' production_mode_line"
  "clear_of ''BROADCOM-ASSIGN '' platform_line"
  "clear_of ''BROADCOM-ASSIGN '' deliver_line"
  "clear_of ''BROADCOM-ASSIGN '' fetch_line"
  "clear_of ''BROADCOM-ASSIGN '' send_line"
  "clear_of ''BROADCOM-ASSIGN '' refuse_line"
  "clear_of ''BROADCOM-ASSIGN '' handoff_line"
  "clear_of ''BROADCOM-ASSIGN '' production_final_line"
  "clear_of ''BROADCOM-ASSIGN '' default_line"
  by (simp_all add: clear_by_char [where x = "CHR ''C''"] lacks_C)

lemma clearcount_BROADCOM_ASSIGN_G [simp]:
  "clear_of ''BROADCOM-ASSIGN '' windows_line"
  "clear_of ''BROADCOM-ASSIGN '' ipc_ready_line"
  "clear_of ''BROADCOM-ASSIGN '' production_line"
  by (simp_all add: clear_by_char [where x = "CHR ''G''"] lacks_G)

lemma count_BROADCOM_ASSIGN:
  "bytes_count ''BROADCOM-ASSIGN '' (assign_line @ s) = Suc (bytes_count ''BROADCOM-ASSIGN '' s)"
  by (simp_all add: line_defs bytes_count_step)

lemma clearcount_PRODUCTION_READY_D [simp]:
  "clear_of ''PRODUCTION-READY '' select_line"
  "clear_of ''PRODUCTION-READY '' grant_line"
  "clear_of ''PRODUCTION-READY '' end_line"
  "clear_of ''PRODUCTION-READY '' chain_line"
  by (simp_all add: clear_by_char [where x = "CHR ''D''"] lacks_D)

lemma clearcount_PRODUCTION_READY_C [simp]:
  "clear_of ''PRODUCTION-READY '' production_mode_line"
  "clear_of ''PRODUCTION-READY '' platform_line"
  "clear_of ''PRODUCTION-READY '' deliver_line"
  "clear_of ''PRODUCTION-READY '' fetch_line"
  "clear_of ''PRODUCTION-READY '' send_line"
  "clear_of ''PRODUCTION-READY '' refuse_line"
  "clear_of ''PRODUCTION-READY '' handoff_line"
  "clear_of ''PRODUCTION-READY '' production_final_line"
  "clear_of ''PRODUCTION-READY '' default_line"
  by (simp_all add: clear_by_char [where x = "CHR ''C''"] lacks_C)

lemma clearcount_PRODUCTION_READY_Y [simp]:
  "clear_of ''PRODUCTION-READY '' windows_line"
  by (simp_all add: clear_by_char [where x = "CHR ''Y''"] lacks_Y)

lemma clearcount_PRODUCTION_READY_T [simp]:
  "clear_of ''PRODUCTION-READY '' assign_line"
  by (simp_all add: clear_by_char [where x = "CHR ''T''"] lacks_T)

lemma clearcount_PRODUCTION_READY_U [simp]:
  "clear_of ''PRODUCTION-READY '' ipc_ready_line"
  by (simp_all add: clear_by_char [where x = "CHR ''U''"] lacks_U)

lemma count_PRODUCTION_READY:
  "bytes_count ''PRODUCTION-READY '' (production_line @ s) = Suc (bytes_count ''PRODUCTION-READY '' s)"
  by (simp_all add: line_defs bytes_count_step)

lemma clearcount_NET_event_handoff_f [simp]:
  "clear_of ''NET event=handoff '' select_line"
  by (simp_all add: clear_by_char [where x = "CHR ''f''"] lacks_f)

lemma clearcount_NET_event_handoff_T [simp]:
  "clear_of ''NET event=handoff '' production_mode_line"
  "clear_of ''NET event=handoff '' assign_line"
  "clear_of ''NET event=handoff '' grant_line"
  "clear_of ''NET event=handoff '' end_line"
  "clear_of ''NET event=handoff '' production_final_line"
  "clear_of ''NET event=handoff '' chain_line"
  by (simp_all add: clear_by_char [where x = "CHR ''T''"] lacks_T)

lemma clearcount_NET_event_handoff_0 [simp]:
  "clear_of ''NET event=handoff '' windows_line"
  "clear_of ''NET event=handoff '' production_line"
  "clear_of ''NET event=handoff '' deliver_line"
  by (simp_all add: line_defs)

lemma clearcount_NET_event_handoff_d [simp]:
  "clear_of ''NET event=handoff '' platform_line"
  "clear_of ''NET event=handoff '' fetch_line"
  by (simp_all add: clear_by_char [where x = "CHR ''d''"] lacks_d)

lemma clearcount_NET_event_handoff_a [simp]:
  "clear_of ''NET event=handoff '' ipc_ready_line"
  "clear_of ''NET event=handoff '' refuse_line"
  "clear_of ''NET event=handoff '' default_line"
  by (simp_all add: clear_by_char [where x = "CHR ''a''"] lacks_a)

lemma clearcount_NET_event_handoff_h [simp]:
  "clear_of ''NET event=handoff '' send_line"
  by (simp_all add: clear_by_char [where x = "CHR ''h''"] lacks_h)

lemma count_NET_event_handoff:
  "bytes_count ''NET event=handoff '' (handoff_line @ s) = Suc (bytes_count ''NET event=handoff '' s)"
  by (simp_all add: line_defs bytes_count_step)

lemma clearcount_WIFI_LEASE_signalled_F [simp]:
  "clear_of ''WIFI-LEASE signalled'' select_line"
  "clear_of ''WIFI-LEASE signalled'' production_mode_line"
  "clear_of ''WIFI-LEASE signalled'' windows_line"
  "clear_of ''WIFI-LEASE signalled'' assign_line"
  "clear_of ''WIFI-LEASE signalled'' grant_line"
  "clear_of ''WIFI-LEASE signalled'' ipc_ready_line"
  "clear_of ''WIFI-LEASE signalled'' production_line"
  "clear_of ''WIFI-LEASE signalled'' deliver_line"
  "clear_of ''WIFI-LEASE signalled'' fetch_line"
  "clear_of ''WIFI-LEASE signalled'' send_line"
  "clear_of ''WIFI-LEASE signalled'' refuse_line"
  "clear_of ''WIFI-LEASE signalled'' handoff_line"
  "clear_of ''WIFI-LEASE signalled'' end_line"
  "clear_of ''WIFI-LEASE signalled'' chain_line"
  by (simp_all add: clear_by_char [where x = "CHR ''F''"] lacks_F)

lemma clearcount_WIFI_LEASE_signalled_W [simp]:
  "clear_of ''WIFI-LEASE signalled'' platform_line"
  "clear_of ''WIFI-LEASE signalled'' production_final_line"
  "clear_of ''WIFI-LEASE signalled'' default_line"
  by (simp_all add: clear_by_char [where x = "CHR ''W''"] lacks_W)

lemmas count_WIFI_LEASE_signalled = bytes_count_Nil

lemma clear_WATCHDOG_LOAD_FAILED_F [simp]:
  "clear_of ''WATCHDOG-LOAD-FAILED'' window_line"
  "clear_of ''WATCHDOG-LOAD-FAILED'' armed_line"
  "clear_of ''WATCHDOG-LOAD-FAILED'' load_line"
  "clear_of ''WATCHDOG-LOAD-FAILED'' ipc_ready_line"
  by (simp_all add: clear_by_char [where x = "CHR ''F''"] lacks_F)

lemma clear_WATCHDOG_LOAD_FAILED_C [simp]:
  "clear_of ''WATCHDOG-LOAD-FAILED'' mode_line"
  "clear_of ''WATCHDOG-LOAD-FAILED'' platform_line"
  "clear_of ''WATCHDOG-LOAD-FAILED'' device_final"
  "clear_of ''WATCHDOG-LOAD-FAILED'' default_line"
  by (simp_all add: clear_by_char [where x = "CHR ''C''"] lacks_C)

lemma clear_WATCHDOG_LOAD_FAILED_D [simp]:
  "clear_of ''WATCHDOG-LOAD-FAILED'' grant_line"
  "clear_of ''WATCHDOG-LOAD-FAILED'' ipc_line"
  "clear_of ''WATCHDOG-LOAD-FAILED'' end_line"
  "clear_of ''WATCHDOG-LOAD-FAILED'' chain_line"
  by (simp_all add: clear_by_char [where x = "CHR ''D''"] lacks_D)

lemma clear_WATCHDOG_STOP_FAILED_F [simp]:
  "clear_of ''WATCHDOG-STOP-FAILED'' window_line"
  "clear_of ''WATCHDOG-STOP-FAILED'' armed_line"
  "clear_of ''WATCHDOG-STOP-FAILED'' load_line"
  "clear_of ''WATCHDOG-STOP-FAILED'' ipc_ready_line"
  by (simp_all add: clear_by_char [where x = "CHR ''F''"] lacks_F)

lemma clear_WATCHDOG_STOP_FAILED_C [simp]:
  "clear_of ''WATCHDOG-STOP-FAILED'' mode_line"
  "clear_of ''WATCHDOG-STOP-FAILED'' platform_line"
  "clear_of ''WATCHDOG-STOP-FAILED'' device_final"
  "clear_of ''WATCHDOG-STOP-FAILED'' default_line"
  by (simp_all add: clear_by_char [where x = "CHR ''C''"] lacks_C)

lemma clear_WATCHDOG_STOP_FAILED_D [simp]:
  "clear_of ''WATCHDOG-STOP-FAILED'' grant_line"
  "clear_of ''WATCHDOG-STOP-FAILED'' ipc_line"
  "clear_of ''WATCHDOG-STOP-FAILED'' end_line"
  "clear_of ''WATCHDOG-STOP-FAILED'' chain_line"
  by (simp_all add: clear_by_char [where x = "CHR ''D''"] lacks_D)

lemma clear_WATCHDOG_NO_RESET_R [simp]:
  "clear_of ''WATCHDOG-NO-RESET'' window_line"
  "clear_of ''WATCHDOG-NO-RESET'' load_line"
  by (simp_all add: clear_by_char [where x = "CHR ''R''"] lacks_R)

lemma clear_WATCHDOG_NO_RESET_0 [simp]:
  "clear_of ''WATCHDOG-NO-RESET'' armed_line"
  by (simp_all add: line_defs)

lemma clear_WATCHDOG_NO_RESET_C [simp]:
  "clear_of ''WATCHDOG-NO-RESET'' mode_line"
  "clear_of ''WATCHDOG-NO-RESET'' platform_line"
  "clear_of ''WATCHDOG-NO-RESET'' device_final"
  "clear_of ''WATCHDOG-NO-RESET'' default_line"
  by (simp_all add: clear_by_char [where x = "CHR ''C''"] lacks_C)

lemma clear_WATCHDOG_NO_RESET_D [simp]:
  "clear_of ''WATCHDOG-NO-RESET'' grant_line"
  "clear_of ''WATCHDOG-NO-RESET'' ipc_line"
  "clear_of ''WATCHDOG-NO-RESET'' end_line"
  "clear_of ''WATCHDOG-NO-RESET'' chain_line"
  by (simp_all add: clear_by_char [where x = "CHR ''D''"] lacks_D)

lemma clear_WATCHDOG_NO_RESET_G [simp]:
  "clear_of ''WATCHDOG-NO-RESET'' ipc_ready_line"
  by (simp_all add: clear_by_char [where x = "CHR ''G''"] lacks_G)

lemma clear_WATCHDOG_ARM_REJECTED_M [simp]:
  "clear_of ''WATCHDOG-ARM-REJECTED'' window_line"
  "clear_of ''WATCHDOG-ARM-REJECTED'' load_line"
  by (simp_all add: clear_by_char [where x = "CHR ''M''"] lacks_M)

lemma clear_WATCHDOG_ARM_REJECTED_J [simp]:
  "clear_of ''WATCHDOG-ARM-REJECTED'' armed_line"
  by (simp_all add: clear_by_char [where x = "CHR ''J''"] lacks_J)

lemma clear_WATCHDOG_ARM_REJECTED_C [simp]:
  "clear_of ''WATCHDOG-ARM-REJECTED'' mode_line"
  "clear_of ''WATCHDOG-ARM-REJECTED'' platform_line"
  "clear_of ''WATCHDOG-ARM-REJECTED'' device_final"
  "clear_of ''WATCHDOG-ARM-REJECTED'' default_line"
  by (simp_all add: clear_by_char [where x = "CHR ''C''"] lacks_C)

lemma clear_WATCHDOG_ARM_REJECTED_D [simp]:
  "clear_of ''WATCHDOG-ARM-REJECTED'' grant_line"
  "clear_of ''WATCHDOG-ARM-REJECTED'' ipc_line"
  "clear_of ''WATCHDOG-ARM-REJECTED'' end_line"
  "clear_of ''WATCHDOG-ARM-REJECTED'' chain_line"
  by (simp_all add: clear_by_char [where x = "CHR ''D''"] lacks_D)

lemma clear_WATCHDOG_ARM_REJECTED_G [simp]:
  "clear_of ''WATCHDOG-ARM-REJECTED'' ipc_ready_line"
  by (simp_all add: clear_by_char [where x = "CHR ''G''"] lacks_G)

lemma clear_KERNEL_HANG_K [simp]:
  "clear_of ''KERNEL-HANG'' window_line"
  "clear_of ''KERNEL-HANG'' armed_line"
  "clear_of ''KERNEL-HANG'' load_line"
  by (simp_all add: clear_by_char [where x = "CHR ''K''"] lacks_K)

lemma clear_KERNEL_HANG_G [simp]:
  "clear_of ''KERNEL-HANG'' mode_line"
  "clear_of ''KERNEL-HANG'' platform_line"
  "clear_of ''KERNEL-HANG'' grant_line"
  "clear_of ''KERNEL-HANG'' ipc_ready_line"
  "clear_of ''KERNEL-HANG'' ipc_line"
  "clear_of ''KERNEL-HANG'' end_line"
  "clear_of ''KERNEL-HANG'' device_final"
  "clear_of ''KERNEL-HANG'' default_line"
  "clear_of ''KERNEL-HANG'' chain_line"
  by (simp_all add: clear_by_char [where x = "CHR ''G''"] lacks_G)

lemma clear_WATCHDOG_KERNEL_LOAD_K [simp]:
  "clear_of ''WATCHDOG-KERNEL-LOAD'' window_line"
  "clear_of ''WATCHDOG-KERNEL-LOAD'' armed_line"
  "clear_of ''WATCHDOG-KERNEL-LOAD'' load_line"
  by (simp_all add: clear_by_char [where x = "CHR ''K''"] lacks_K)

lemma clear_WATCHDOG_KERNEL_LOAD_C [simp]:
  "clear_of ''WATCHDOG-KERNEL-LOAD'' mode_line"
  "clear_of ''WATCHDOG-KERNEL-LOAD'' platform_line"
  "clear_of ''WATCHDOG-KERNEL-LOAD'' device_final"
  "clear_of ''WATCHDOG-KERNEL-LOAD'' default_line"
  by (simp_all add: clear_by_char [where x = "CHR ''C''"] lacks_C)

lemma clear_WATCHDOG_KERNEL_LOAD_D [simp]:
  "clear_of ''WATCHDOG-KERNEL-LOAD'' grant_line"
  "clear_of ''WATCHDOG-KERNEL-LOAD'' ipc_line"
  "clear_of ''WATCHDOG-KERNEL-LOAD'' end_line"
  "clear_of ''WATCHDOG-KERNEL-LOAD'' chain_line"
  by (simp_all add: clear_by_char [where x = "CHR ''D''"] lacks_D)

lemma clear_WATCHDOG_KERNEL_LOAD_G [simp]:
  "clear_of ''WATCHDOG-KERNEL-LOAD'' ipc_ready_line"
  by (simp_all add: clear_by_char [where x = "CHR ''G''"] lacks_G)

lemma clear_BROADCOM_ASSIGN_M [simp]:
  "clear_of ''BROADCOM-ASSIGN '' window_line"
  "clear_of ''BROADCOM-ASSIGN '' load_line"
  by (simp_all add: clear_by_char [where x = "CHR ''M''"] lacks_M)

lemma clear_BROADCOM_ASSIGN_I [simp]:
  "clear_of ''BROADCOM-ASSIGN '' armed_line"
  by (simp_all add: clear_by_char [where x = "CHR ''I''"] lacks_I)

lemma clear_BROADCOM_ASSIGN_C [simp]:
  "clear_of ''BROADCOM-ASSIGN '' mode_line"
  "clear_of ''BROADCOM-ASSIGN '' platform_line"
  "clear_of ''BROADCOM-ASSIGN '' device_final"
  "clear_of ''BROADCOM-ASSIGN '' default_line"
  by (simp_all add: clear_by_char [where x = "CHR ''C''"] lacks_C)

lemma clear_BROADCOM_ASSIGN_D [simp]:
  "clear_of ''BROADCOM-ASSIGN '' grant_line"
  "clear_of ''BROADCOM-ASSIGN '' ipc_line"
  "clear_of ''BROADCOM-ASSIGN '' end_line"
  "clear_of ''BROADCOM-ASSIGN '' chain_line"
  by (simp_all add: clear_by_char [where x = "CHR ''D''"] lacks_D)

lemma clear_BROADCOM_ASSIGN_G [simp]:
  "clear_of ''BROADCOM-ASSIGN '' ipc_ready_line"
  by (simp_all add: clear_by_char [where x = "CHR ''G''"] lacks_G)

lemma clear_WATCHDOG_KICK_K [simp]:
  "clear_of ''WATCHDOG-KICK'' window_line"
  "clear_of ''WATCHDOG-KICK'' armed_line"
  "clear_of ''WATCHDOG-KICK'' load_line"
  by (simp_all add: clear_by_char [where x = "CHR ''K''"] lacks_K)

lemma clear_WATCHDOG_KICK_C [simp]:
  "clear_of ''WATCHDOG-KICK'' mode_line"
  "clear_of ''WATCHDOG-KICK'' platform_line"
  "clear_of ''WATCHDOG-KICK'' device_final"
  "clear_of ''WATCHDOG-KICK'' default_line"
  by (simp_all add: clear_by_char [where x = "CHR ''C''"] lacks_C)

lemma clear_WATCHDOG_KICK_D [simp]:
  "clear_of ''WATCHDOG-KICK'' grant_line"
  "clear_of ''WATCHDOG-KICK'' ipc_line"
  "clear_of ''WATCHDOG-KICK'' end_line"
  "clear_of ''WATCHDOG-KICK'' chain_line"
  by (simp_all add: clear_by_char [where x = "CHR ''D''"] lacks_D)

lemma clear_WATCHDOG_KICK_G [simp]:
  "clear_of ''WATCHDOG-KICK'' ipc_ready_line"
  by (simp_all add: clear_by_char [where x = "CHR ''G''"] lacks_G)

lemma clear_WATCHDOG_D [simp]:
  "clear_of ''WATCHDOG'' select_line"
  "clear_of ''WATCHDOG'' grant_line"
  "clear_of ''WATCHDOG'' end_line"
  "clear_of ''WATCHDOG'' chain_line"
  by (simp_all add: clear_by_char [where x = "CHR ''D''"] lacks_D)

lemma clear_WATCHDOG_C [simp]:
  "clear_of ''WATCHDOG'' production_mode_line"
  "clear_of ''WATCHDOG'' platform_line"
  "clear_of ''WATCHDOG'' deliver_line"
  "clear_of ''WATCHDOG'' fetch_line"
  "clear_of ''WATCHDOG'' send_line"
  "clear_of ''WATCHDOG'' refuse_line"
  "clear_of ''WATCHDOG'' handoff_line"
  "clear_of ''WATCHDOG'' production_final_line"
  "clear_of ''WATCHDOG'' default_line"
  by (simp_all add: clear_by_char [where x = "CHR ''C''"] lacks_C)

lemma clear_WATCHDOG_G [simp]:
  "clear_of ''WATCHDOG'' windows_line"
  "clear_of ''WATCHDOG'' ipc_ready_line"
  "clear_of ''WATCHDOG'' production_line"
  by (simp_all add: clear_by_char [where x = "CHR ''G''"] lacks_G)

lemma clear_WATCHDOG_H [simp]:
  "clear_of ''WATCHDOG'' assign_line"
  by (simp_all add: clear_by_char [where x = "CHR ''H''"] lacks_H)

lemma clear_WIFI_LEASE_window_over_F [simp]:
  "clear_of ''WIFI-LEASE window-over'' select_line"
  "clear_of ''WIFI-LEASE window-over'' production_mode_line"
  "clear_of ''WIFI-LEASE window-over'' windows_line"
  "clear_of ''WIFI-LEASE window-over'' assign_line"
  "clear_of ''WIFI-LEASE window-over'' grant_line"
  "clear_of ''WIFI-LEASE window-over'' ipc_ready_line"
  "clear_of ''WIFI-LEASE window-over'' production_line"
  "clear_of ''WIFI-LEASE window-over'' deliver_line"
  "clear_of ''WIFI-LEASE window-over'' fetch_line"
  "clear_of ''WIFI-LEASE window-over'' send_line"
  "clear_of ''WIFI-LEASE window-over'' refuse_line"
  "clear_of ''WIFI-LEASE window-over'' handoff_line"
  "clear_of ''WIFI-LEASE window-over'' end_line"
  "clear_of ''WIFI-LEASE window-over'' chain_line"
  by (simp_all add: clear_by_char [where x = "CHR ''F''"] lacks_F)

lemma clear_WIFI_LEASE_window_over_W [simp]:
  "clear_of ''WIFI-LEASE window-over'' platform_line"
  "clear_of ''WIFI-LEASE window-over'' production_final_line"
  "clear_of ''WIFI-LEASE window-over'' default_line"
  by (simp_all add: clear_by_char [where x = "CHR ''W''"] lacks_W)

lemma device_counts [simp]:
  "bytes_count ''WATCHDOG-ARMED'' device_text = Suc 0"
  "bytes_count ''WATCHDOG-LEANOS-LOAD'' device_text = Suc 0"
  "bytes_count ''PLATFORM-ADMISSION '' device_text = Suc 0"
  "bytes_count ''SERVICE grant '' device_text = Suc 0"
  "bytes_count ''SERVICE end '' device_text = Suc 0"
  unfolding device_lines by (simp_all add: bytes_count_Nil bytes_count_clear count_WATCHDOG_ARMED count_WATCHDOG_LEANOS_LOAD count_PLATFORM_ADMISSION count_SERVICE_grant count_SERVICE_end del: append_Nil2)

lemma device_absent [simp]:
  "bytes_find ''WATCHDOG-LOAD-FAILED'' device_text = None"
  "bytes_find ''WATCHDOG-STOP-FAILED'' device_text = None"
  "bytes_find ''WATCHDOG-NO-RESET'' device_text = None"
  "bytes_find ''WATCHDOG-ARM-REJECTED'' device_text = None"
  "bytes_find ''KERNEL-HANG'' device_text = None"
  "bytes_find ''WATCHDOG-KERNEL-LOAD'' device_text = None"
  "bytes_find ''BROADCOM-ASSIGN '' device_text = None"
  "bytes_find ''WATCHDOG-KICK'' device_text = None"
  unfolding device_lines by (simp_all add: bytes_find_clear del: append_Nil2)

lemma production_counts [simp]:
  "bytes_count ''LEANOS-LAB/1 MODE '' production_text = Suc 0"
  "bytes_count ''PRODUCTION-WINDOWS '' production_text = Suc 0"
  "bytes_count ''PLATFORM-ADMISSION '' production_text = Suc 0"
  "bytes_count ''BROADCOM-ASSIGN '' production_text = Suc 0"
  "bytes_count ''SERVICE grant '' production_text = Suc 0"
  "bytes_count ''PRODUCTION-READY '' production_text = Suc 0"
  "bytes_count ''SERVICE end '' production_text = Suc 0"
  "bytes_count ''NET event=handoff '' production_text = Suc 0"
  "bytes_count ''WIFI-LEASE signalled'' production_text = 0"
  unfolding production_lines by (simp_all add: bytes_count_Nil bytes_count_clear count_LEANOS_LAB_1_MODE count_PRODUCTION_WINDOWS count_PLATFORM_ADMISSION count_BROADCOM_ASSIGN count_SERVICE_grant count_PRODUCTION_READY count_SERVICE_end count_NET_event_handoff count_WIFI_LEASE_signalled del: append_Nil2)

lemma production_absent [simp]:
  "bytes_find ''WATCHDOG'' production_text = None"
  "bytes_find ''WIFI-LEASE window-over'' production_text = None"
  unfolding production_lines by (simp_all add: bytes_find_clear del: append_Nil2)

lemma kernel_clear [simp]:
  "clear_of ''LEANOS/'' window_line" "clear_of ''LEANOS/'' armed_line" "clear_of ''LEANOS/'' load_line"
  "clear_of ''LEANOS/'' default_line" "clear_of ''LEANOS/'' chain_line" "clear_of ''LEANOS/'' select_line"
  "clear_of ''LEANOS-LAB/1 SELECT leanos'' default_line" "clear_of ''LEANOS-LAB/1 SELECT leanos'' chain_line"
  by (simp_all add: line_defs)

definition recovery_text :: bytes where "recovery_text = default_line @ chain_line @ []"

lemma recovery_clear [simp]:
  "bytes_find ''LEANOS/'' recovery_text = None" "bytes_find ''LEANOS-LAB/1 SELECT leanos'' recovery_text = None"
  unfolding recovery_text_def by (simp_all add: bytes_find_clear del: append_Nil2)

lemma recovery_chain [simp]: "bytes_find CHAIN_MARK recovery_text = Some 34"
  unfolding recovery_text_def line_defs by simp

definition device_log :: "event list" where
  "device_log = [\<lparr>ev_elapsed = Some 5, ev_data = take 627 device_text\<rparr>, \<lparr>ev_elapsed = Some 100, ev_data = recovery_text\<rparr>]"

definition device_manifest :: manifest where
  "device_manifest = [(''ipc_device_stream'', JBool True), (''mode'', JStr ''completion'')]"

lemma device_parts [simp]:
  "take 184 device_text = window_line @ armed_line @ load_line @ []" "drop 627 device_text = recovery_text"
  "take 627 device_text @ recovery_text = device_text" "slice 569 627 device_text = device_final"
  "length device_text = 698"
  by (simp_all add: device_text_def recovery_text_def slice_def)

lemma device_log_text [simp]: "log_bytes device_log = device_text"
  by (simp add: device_log_def log_bytes_def)

lemma device_chain [simp]: "find_from CHAIN_MARK device_text 627 = Some 661"
  using recovery_chain by (simp add: find_from_def)

lemma device_before_chain:
  "take 661 device_text = window_line @ armed_line @ load_line @ mode_line @ platform_line @ grant_line @ ipc_ready_line @ ipc_line @
     end_line @ device_final @ default_line @ []"
  by (simp add: device_text_def)

lemma device_reloads [simp]: "finditer reload_mark (take 661 device_text) = []"
  unfolding finditer_def device_before_chain by (simp_all add: line_miss del: append_Nil2)

definition device_capture :: capture where
  "device_capture = \<lparr>cp_events = device_log, cp_offsets = [0, 627], cp_data = device_text\<rparr>"

lemma device_open [simp]:
  "open_capture device_log = Inr device_capture"
  by (simp add: device_capture_def open_capture_def raise_if_def device_log_def bad_timestamp_def nonmonotonic_def log_bytes_def log_time_def
      device_text_def recovery_text_def)

lemma device_scenario [simp]: "device_program_scenario device_manifest = Inr (''qotom-device-stream'', None)"
  by (simp add: device_program_scenario_def device_manifest_def mget_def raise_if_def)

lemma device_digest [simp]: "digest_ok run_digest" "digest_named device_manifest run_digest"
  by (simp_all add: digest_named_def device_manifest_def mget_def digest_ok_def run_digest_def is_hex_def)

definition device_launched :: launch where
  "device_launched = \<lparr>ln_accepted = Some (0, 39, []), ln_armed = Some (40, 77, []), ln_load = Some (78, 183, []),
     ln_mode = Some (184, 237, [])\<rparr>"

lemma device_launch_quiet [simp]: "bytes_find ''LEANOS/'' (window_line @ armed_line @ load_line) = None"
proof -
  have "bytes_find ''LEANOS/'' (window_line @ armed_line @ load_line @ []) = None"
    by (simp add: bytes_find_clear del: append_Nil2)
  then show ?thesis by simp
qed

lemma device_launch [simp]: "protected_launch run_digest device_text = (device_launched, [])"
  unfolding protected_launch_def Let_def
  by (simp add: once_def LAUNCH_FAILURES_def fail_if_def device_launched_def)

definition device_info :: terminal_info where
  "device_info = \<lparr>ti_status = Some ''PASS'', ti_reason = None,
     ti_fields = [(''status'', Inr ''PASS''), (''events'', Inl 4), (''blocks'', Inl 2), (''deliveries'', Inl 1)]\<rparr>"

lemma device_info_of: "terminal_info_of (569, 627, [''status=PASS events=4 blocks=2 deliveries=1'']) = Inr device_info"
  by code_simp

lemma device_terminal [simp]:
  "read_terminal device_text = Inr (Some (569, 627, [''status=PASS events=4 blocks=2 deliveries=1'']), Some device_info, [])"
  unfolding read_terminal_def the_terminal_def
  by (simp add: device_info_of eval_simps device_info_def fail_if_def)

lemma device_final_groups:
  "fullmatch_parts (final_parts ''qotom-device-stream'' False) device_final = Some [''4'', ''2'', ''1'']"
  "field_value ''4'' = Inr (Inl 4)" "field_value ''2'' = Inr (Inl 2)" "field_value ''1'' = Inr (Inl 1)"
  by code_simp+

definition device_records :: program_records where
  "device_records = \<lparr>pg_assign = None, pg_grant = Some (326, 406, []), pg_ready = Some (406, 465, []),
     pg_platform = Some (237, 323, []), pg_ends = [(509, 569, [''0'', ''00000000''])]\<rparr>"

lemma device_scenario_records [simp]: "scenario_records device_text False = (device_records, [])"
  unfolding scenario_records_def service_ends_def Let_def
  by (simp add: once_def fail_if_def device_records_def)

lemma device_passing [simp]:
  "passing_final device_text ''qotom-device-stream'' False (pg_ends device_records)
     (Some (569, 627, [''status=PASS events=4 blocks=2 deliveries=1''])) (Some device_info) =
     Inr (no_counts\<lparr>nc_ipc_deliveries := Some 1\<rparr>, [], [])"
  unfolding passing_final_def count_checks_def Let_def
  by (simp add: device_final_groups device_info_def device_records_def fail_if_def field_int_def eval_simps)

lemma device_times [simp]: "capture_time device_capture 661 = 100" "capture_time device_capture 40 = 5"
  by (simp_all add: capture_time_def chunk_index_def bisect_right_def device_capture_def device_log_def log_time_def)

lemma device_delay [simp]: "recovery_delay device_capture 661 (40, 77, []) = 95"
  unfolding recovery_delay_def Let_def by (simp add: device_capture_def [THEN arg_cong, of cp_data])

lemma device_after [simp]: "after_run device_text 627 (Some 661) = []"
  unfolding after_run_def Let_def by (simp add: fail_if_def)

lemma device_quiet [simp]:
  "quiet_after device_capture (Some (569, 627, [''status=PASS events=4 blocks=2 deliveries=1''])) = (Some 95, [])"
  by (simp add: quiet_after_def Let_def chunk_index_def bisect_right_def device_capture_def device_log_def log_time_def fail_if_def)

lemma device_recovery [simp]:
  "recovery device_capture (Some (569, 627, [''status=PASS events=4 blocks=2 deliveries=1''])) (Some (40, 77, [])) 120 30 =
     (Some 95, Some 95, [])"
  unfolding recovery_def run_end_def Let_def
  by (simp add: device_capture_def [THEN arg_cong, of cp_data] fail_if_def)

lemma device_in_order [simp]:
  "sorted (device_order device_launched device_records [] (Some (569, 627, [''status=PASS events=4 blocks=2 deliveries=1''])))"
  by (simp add: device_order_def device_launched_def device_records_def)

lemma device_session [simp]: "session_kicks device_log None 120 30 = Inr (None, [])"
  by (simp add: session_kicks_def fail_if_def)

lemma device_classified:
  "\<exists>r. classify_device_program device_log run_digest device_manifest 120 30 = Inr r \<and> dv_status r = ''PASS'' \<and>
     dv_scenario r = ''qotom-device-stream'' \<and> dv_recovery r = Some 95"
  unfolding classify_device_program_def Let_def
  by (simp add: eval_simps device_launched_def [THEN arg_cong, of ln_armed] device_capture_def [THEN arg_cong, of cp_data])


theorem device_program_passes_witness:
  "\<exists>r final. classify_device_program device_log run_digest device_manifest 120 30 = Inr r \<and> dv_status r = ''PASS'' \<and>
     finditer final_record (log_bytes device_log) = [final]"
proof -
  obtain r where r: "classify_device_program device_log run_digest device_manifest 120 30 = Inr r" "dv_status r = ''PASS''"
    using device_classified by blast
  from device_program_passes [OF r] obtain final where "finditer final_record (log_bytes device_log) = [final]"
    unfolding Let_def by blast
  with r show ?thesis by blast
qed

definition production_log :: "event list" where
  "production_log = [\<lparr>ev_elapsed = Some 2, ev_data = take 1496 production_text\<rparr>, \<lparr>ev_elapsed = Some 60, ev_data = recovery_text\<rparr>]"

definition production_image :: manifest where
  "production_image = [(''production_network'', JBool True), (''evidence_class'', JStr ''production-candidate'')]"

lemma production_parts [simp]:
  "take 38 production_text = select_line" "drop 1496 production_text = recovery_text"
  "take 1496 production_text @ recovery_text = production_text" "slice 1260 1496 production_text = production_final_line"
  "length production_text = 1567"
  by (simp_all add: production_text_def recovery_text_def slice_def)

lemma production_log_text [simp]: "log_bytes production_log = production_text"
  by (simp add: production_log_def log_bytes_def)

lemma production_chain [simp]: "find_from CHAIN_MARK production_text 1496 = Some 1530"
  using recovery_chain by (simp add: find_from_def)

definition production_capture :: capture where
  "production_capture = \<lparr>cp_events = production_log, cp_offsets = [0, 1496], cp_data = production_text\<rparr>"

lemma production_open [simp]: "open_capture production_log = Inr production_capture"
  by (simp add: production_capture_def open_capture_def raise_if_def production_log_def bad_timestamp_def nonmonotonic_def
      log_bytes_def log_time_def production_text_def recovery_text_def)

lemma production_named [simp]:
  "production_manifest production_image" "digest_named production_image run_digest"
  by (simp_all add: production_manifest_def digest_named_def production_image_def mget_def)

lemma select_quiet [simp]: "bytes_find ''LEANOS/'' select_line = None"
  by (simp add: select_line_def)

definition production_launched :: production_launch where
  "production_launched = \<lparr>pl_select = Some (0, 37, []), pl_mode = Some (38, 98, []), pl_windows = Some (98, 299, []),
     pl_platform = Some (299, 385, []), pl_assign = Some (388, 504, []), pl_grant = Some (504, 584, []),
     pl_ready = Some (584, 643, []), pl_production = Some (646, 773, [])\<rparr>"

lemma production_launch [simp]: "production_records production_text = (production_launched, [])"
  unfolding production_records_def Let_def
  by (simp add: once_def fail_if_def production_launched_def)

lemma production_ended [simp]: "production_end production_text = (Some (1200, 1260, [''0'', ''00000000'']), [])"
  unfolding production_end_def Let_def by (simp add: fail_if_def)

lemma production_final_groups:
  "fullmatch_parts PRODUCTION_FINAL production_final_line =
     Some [''10.0.0.7'', ''1'', ''1'', ''0'', ''1'', ''1'', ''4'', ''10'', ''2'']"
  by code_simp

definition production_numbers :: production_counts where
  "production_numbers = \<lparr>pc_lease = ''10.0.0.7'', pc_frames = 1, pc_dhcp_frames = 1, pc_echo_frames = 0, pc_fetches = 1,
     pc_sends = 1, pc_refusals = 4, pc_edges = 10, pc_copies = 2\<rparr>"

lemma production_numbers_of:
  "production_counts_of [''10.0.0.7'', ''1'', ''1'', ''0'', ''1'', ''1'', ''4'', ''10'', ''2''] = Inr production_numbers"
  "py_int ''1'' = Inr 1" "py_ints [''1''] = Inr [1]"
  by code_simp+

definition production_last :: found where
  "production_last = hd (finditer final_record production_text)"

lemma production_last_at [simp]: "mstart production_last = 1260" "mend production_last = 1496"
  by (simp_all add: production_last_def)

lemma production_terminal_found [simp]: "production_terminal production_text = (Some production_last, [])"
  unfolding production_terminal_def the_terminal_def production_last_def by (simp add: production_final_groups fail_if_def)

lemma production_final_found [simp]:
  "production_final production_text (Some production_last) = Inr (Some production_numbers, Some (1084, 1200, [''1'', ''10.0.0.7'']), [])"
  unfolding production_final_def production_net_def production_lease_def Let_def
  by (simp add: production_final_groups production_numbers_of production_numbers_def once_def fail_if_def eval_simps
      PRODUCTION_REFUSALS_def)

lemma production_in_order [simp]:
  "sorted (production_order production_launched (Some (1084, 1200, [''1'', ''10.0.0.7'']))
     (Some (1200, 1260, [''0'', ''00000000''])) (Some production_last))"
  by (simp add: production_order_def production_launched_def)

lemma production_lease_window [simp]: "lease_window production_text handoff = ([], [])"
  unfolding lease_window_def Let_def by (simp add: fail_if_def)

lemma production_after [simp]: "after_run production_text 1496 (Some 1530) = []"
  unfolding after_run_def Let_def by (simp add: fail_if_def)

lemma production_quiet [simp]: "quiet_after production_capture (Some production_last) = (Some 58, [])"
  by (simp add: quiet_after_def Let_def chunk_index_def bisect_right_def production_capture_def production_log_def log_time_def fail_if_def)

lemma production_recovered [simp]: "production_recovery production_capture (Some production_last) = (Some 58, [])"
  unfolding production_recovery_def Let_def by (simp add: production_capture_def [THEN arg_cong, of cp_data])

lemma production_classified:
  "\<exists>r. classify_production production_log run_digest production_image = Inr r \<and> pr_status r = ''PASS''"
  unfolding classify_production_def Let_def
  by (simp add: eval_simps production_capture_def [THEN arg_cong, of cp_data])

theorem production_counts_pass_witness:
  "\<exists>r n final. classify_production production_log run_digest production_image = Inr r \<and> pr_status r = ''PASS'' \<and>
     pr_counts r = Some n \<and> counts_agree (log_bytes production_log) n \<and> finditer final_record (log_bytes production_log) = [final] \<and>
     final_reports (slice (mstart final) (mend final) (log_bytes production_log)) n"
proof -
  obtain r where r: "classify_production production_log run_digest production_image = Inr r" "pr_status r = ''PASS''"
    using production_classified by blast
  from production_counts_pass [OF r] r show ?thesis by auto
qed

end
