(* ===== verification/Redaction.thy ===== *)
theory Redaction
  imports Watchdog
begin

text \<open>
  \<^verbatim>\<open>scripts/redact-qotom-capture.py\<close>: every line that carries a decrypted payload, and for a fragment
  every record the classifiers are said not to read, is removed from the bytes and from the timed events
  of a capture.  Times are finite rationals.  Reading a capture back (\<^verbatim>\<open>load\<close>) and the command line are
  not modelled.
\<close>

subsection \<open>Lines\<close>

fun lf_lines :: "bytes \<Rightarrow> bytes list" where
  \<comment> \<open>\<^verbatim>\<open>lines\<close>: the lines with their line feeds; the last may lack it\<close>
  "lf_lines [] = []"
| "lf_lines (c # cs) =
     (if c = LF then [c] # lf_lines cs
      else (case lf_lines cs of [] \<Rightarrow> [[c]] | l # ls \<Rightarrow> (c # l) # ls))"

definition after_returns :: "bytes \<Rightarrow> bytes" where
  "after_returns line = dropWhile (\<lambda>c. c = CR) line"

definition payload_line :: "bytes \<Rightarrow> bool" where
  "payload_line line \<longleftrightarrow>
     startswith (after_returns line) ''WIFI 0e24 '' \<or> startswith (after_returns line) ''WIFI 0e26 ''"

definition value_dump :: matcher where
  \<comment> \<open>\<^verbatim>\<open>WIFI (?!4[0-2])[0-9a-f]{4} 0x[0-9a-f]{8}\r?\n\<close>, without the lookahead\<close>
  "value_dump = match_parts [L ''WIFI '', Item (Hex 4), L '' 0x'', Item (Hex 8), Maybe CR, CHAR_NL]"

definition kept_tag :: "bytes \<Rightarrow> bool" where
  \<comment> \<open>the lookahead: a tag 40xx to 42xx\<close>
  "kept_tag tag \<longleftrightarrow> tag ! 0 = CHR ''4'' \<and> tag ! 1 \<in> set ''012''"

definition is_record_char :: "char \<Rightarrow> bool" where
  "is_record_char c \<longleftrightarrow> (65 \<le> (of_char c :: nat) \<and> (of_char c :: nat) \<le> 90) \<or> is_digit c \<or> c = CHR ''-''"

definition hex_dump :: "bytes \<Rightarrow> bool" where
  \<comment> \<open>\<^verbatim>\<open>LEANOS-LAB/1 [A-Z0-9-]+ [^\n]* hex=[0-9a-f]*\r?\n\<close>; the hexadecimal digits are the longest run
    at the end, since \<^verbatim>\<open>=\<close> is none\<close>
  "hex_dump s =
     (case match_parts [L ''LEANOS-LAB/1 '', Skip1 is_record_char, L '' ''] s of None \<Rightarrow> False
      | Some (_, r) \<Rightarrow>
          (let t = takeWhile (\<lambda>c. c \<noteq> LF) r; u = (if t \<noteq> [] \<and> last t = CR then butlast t else t) in
           LF \<in> set r \<and> endswith (rev (dropWhile is_hex (rev u))) '' hex=''))"

definition matches :: "part list \<Rightarrow> bytes \<Rightarrow> bool" where
  "matches ps s \<longleftrightarrow> match_parts ps s \<noteq> None"

definition bulky_line :: "bytes \<Rightarrow> bool" where
  "bulky_line line =
     (let s = after_returns line in
      (case value_dump s of Some (gs, _) \<Rightarrow> \<not> kept_tag (gs ! 0) | None \<Rightarrow> False) \<or> hex_dump s \<or>
      matches [L ''LEANOS-LAB/1 '', Alt [''PCI-CAPS '', ''PCI-CAP '', ''PCI-AF '', ''PCIE-DEVICE '']] s \<or>
      matches [L ''LEANOS/'', Skip1 is_digit, L '' PCI-HEADER ''] s \<or>
      matches [L ''LEANOS/'', Skip1 is_digit, L '' IPC event='', Alt [''block '', ''send '', ''dispatch '']] s \<or>
      startswith s ''LEANOS-LAB/1 NET event=fetch '')"

definition dropped :: "bool \<Rightarrow> bytes \<Rightarrow> bool" where
  "dropped fragment line \<longleftrightarrow> payload_line line \<or> fragment \<and> bulky_line line"

subsection \<open>Events\<close>

record sample =
  sm_time :: rat
  sm_utc :: "string option"
  sm_data :: bytes

definition sample_bytes :: "sample list \<Rightarrow> bytes" where
  "sample_bytes events = concat (map sm_data events)"

definition keep_mask :: "bool \<Rightarrow> bytes \<Rightarrow> bool list" where
  \<comment> \<open>\<^verbatim>\<open>keep\<close>, after the loop over the lines\<close>
  "keep_mask fragment data = concat (map (\<lambda>l. replicate (length l) (\<not> dropped fragment l)) (lf_lines data))"

definition kept_bytes :: "bytes \<Rightarrow> bool list \<Rightarrow> bytes" where
  "kept_bytes chunk keep = map fst (filter snd (zip chunk keep))"

fun gather :: "bool \<Rightarrow> sample list \<Rightarrow> bool list \<Rightarrow> sample list \<Rightarrow> sample list" where
  \<comment> \<open>the loop over events and chunks; \<open>out\<close> has the last item first\<close>
  "gather fragment [] keep out = rev out"
| "gather fragment (e # es) keep out =
     (let n = length (sm_data e); kept = kept_bytes (sm_data e) (take n keep) in
      if kept = [] then gather fragment es (drop n keep) out
      else (case out of
          [] \<Rightarrow> gather fragment es (drop n keep) [e\<lparr>sm_data := kept\<rparr>]
        | item # items \<Rightarrow>
            if fragment \<and> sm_time e - sm_time item < 1 then
              gather fragment es (drop n keep) (item\<lparr>sm_data := sm_data item @ kept\<rparr> # items)
            else gather fragment es (drop n keep) (e\<lparr>sm_data := kept\<rparr> # out)))"

record redaction =
  rd_events :: "sample list"
  rd_bytes :: bytes
  rd_payload :: nat
  rd_fragment :: nat

definition redact :: "sample list \<Rightarrow> bool \<Rightarrow> redaction res" where
  "redact events fragment =
     (let data = sample_bytes events; out = gather fragment events (keep_mask fragment data) []; redacted = sample_bytes out in
      raise_if (list_ex payload_line (lf_lines redacted)) ''payload line survived redaction''
      (Inr \<lparr>rd_events = out, rd_bytes = redacted,
        rd_payload = length (filter payload_line (lf_lines data)),
        rd_fragment = length (filter (\<lambda>l. \<not> payload_line l \<and> fragment \<and> bulky_line l) (lf_lines data))\<rparr>))"

section \<open>Properties\<close>

subsection \<open>Lines of the rest\<close>

fun lines_ok :: "bytes list \<Rightarrow> bool" where
  "lines_ok [] = True"
| "lines_ok (l # ls) = (l \<noteq> [] \<and> LF \<notin> set (butlast l) \<and> (ls = [] \<or> last l = LF) \<and> lines_ok ls)"

lemma concat_lf_lines [simp]: "concat (lf_lines s) = s"
  by (induction s) (auto split: list.splits)

lemma lf_lines_ok: "lines_ok (lf_lines s)"
  by (induction s) (auto split: list.splits)

lemma lf_lines_line: "LF \<notin> set p \<Longrightarrow> lf_lines (p @ LF # s) = (p @ NL) # lf_lines s"
  by (induction p) auto

lemma lf_lines_last: "LF \<notin> set p \<Longrightarrow> p \<noteq> [] \<Longrightarrow> lf_lines p = [p]"
proof (induction p)
  case (Cons a p)
  then show ?case by (cases p) auto
qed simp

lemma lf_lines_concat: "lines_ok ls \<Longrightarrow> lf_lines (concat ls) = ls"
proof (induction ls)
  case (Cons l ls)
  then have l: "l = butlast l @ [last l]" "LF \<notin> set (butlast l)" by auto
  show ?case
  proof (cases "last l = LF")
    case True
    with l have "concat (l # ls) = butlast l @ LF # concat ls" by (metis append.assoc append_Cons append_Nil concat.simps(2))
    with l Cons True show ?thesis by (metis lf_lines_line lines_ok.simps(2))
  next
    case False
    with Cons.prems have "ls = []" "LF \<notin> set l" using l by (auto, metis Un_iff empty_iff empty_set set_ConsD set_append)
    with Cons.prems lf_lines_last show ?thesis by simp
  qed
qed simp

lemma lines_ok_filter: "lines_ok ls \<Longrightarrow> lines_ok (filter P ls)"
proof (induction ls)
  case (Cons l ls)
  then show ?case by (cases ls) auto
qed simp

subsection \<open>What is kept\<close>

lemma kept_bytes_append:
  "length a = length m \<Longrightarrow> kept_bytes (a @ b) (m @ n) = kept_bytes a m @ kept_bytes b n"
  by (simp add: kept_bytes_def)

lemma kept_bytes_replicate: "kept_bytes l (replicate (length l) b) = (if b then l else [])"
  by (induction l) (auto simp: kept_bytes_def)

lemma keep_mask_length [simp]: "length (keep_mask fragment data) = length data"
proof -
  have "length (concat (map (\<lambda>l. replicate (length l) (\<not> dropped fragment l)) ls)) = length (concat ls)" for ls
    by (induction ls) simp_all
  then show ?thesis unfolding keep_mask_def by simp
qed

lemma kept_lines: "kept_bytes data (keep_mask fragment data) = concat (filter (\<lambda>l. \<not> dropped fragment l) (lf_lines data))"
proof -
  have "kept_bytes (concat ls) (concat (map (\<lambda>l. replicate (length l) (\<not> dropped fragment l)) ls)) =
      concat (filter (\<lambda>l. \<not> dropped fragment l) ls)" for ls
  proof (induction ls)
    case (Cons l ls)
    then show ?case by (simp add: kept_bytes_append kept_bytes_replicate)
  qed (simp add: kept_bytes_def)
  from this [of "lf_lines data"] show ?thesis by (simp add: keep_mask_def)
qed

lemma gather_bytes:
  "length keep = length (sample_bytes es) \<Longrightarrow>
     sample_bytes (gather fragment es keep out) = sample_bytes (rev out) @ kept_bytes (sample_bytes es) keep"
proof (induction fragment es keep out rule: gather.induct)
  case (2 fragment e es keep out)
  let ?n = "length (sm_data e)"
  have k: "kept_bytes (sample_bytes (e # es)) keep =
      kept_bytes (sm_data e) (take ?n keep) @ kept_bytes (sample_bytes es) (drop ?n keep)"
    using 2(5) kept_bytes_append [of "sm_data e" "take ?n keep" "sample_bytes es" "drop ?n keep"]
    by (simp add: sample_bytes_def)
  have l: "length (drop ?n keep) = length (sample_bytes es)" using 2(5) by (simp add: sample_bytes_def)
  show ?case
    using 2(1-4) l unfolding k by (auto simp: Let_def sample_bytes_def split: list.splits)
qed (simp add: sample_bytes_def kept_bytes_def)

lemma redact_result:
  "\<exists>r. redact events fragment = Inr r \<and>
     lf_lines (rd_bytes r) = filter (\<lambda>l. \<not> dropped fragment l) (lf_lines (sample_bytes events)) \<and>
     sample_bytes (rd_events r) = rd_bytes r \<and> rd_payload r = length (filter payload_line (lf_lines (sample_bytes events))) \<and>
     rd_fragment r = length (filter (\<lambda>l. \<not> payload_line l \<and> fragment \<and> bulky_line l) (lf_lines (sample_bytes events)))"
proof -
  let ?data = "sample_bytes events"
  let ?out = "gather fragment events (keep_mask fragment ?data) []"
  let ?kept = "filter (\<lambda>l. \<not> dropped fragment l) (lf_lines ?data)"
  have b: "sample_bytes ?out = concat ?kept" using gather_bytes [of "keep_mask fragment ?data" events fragment "[]"]
    by (simp add: kept_lines sample_bytes_def [of "[]"])
  then have l: "lf_lines (sample_bytes ?out) = ?kept" by (simp add: lf_lines_concat lines_ok_filter lf_lines_ok)
  then have n: "\<not> list_ex payload_line (lf_lines (sample_bytes ?out))" by (auto simp: list_ex_iff dropped_def)
  have "redact events fragment = Inr \<lparr>rd_events = ?out, rd_bytes = sample_bytes ?out,
      rd_payload = length (filter payload_line (lf_lines ?data)),
      rd_fragment = length (filter (\<lambda>l. \<not> payload_line l \<and> fragment \<and> bulky_line l) (lf_lines ?data))\<rparr>"
    unfolding redact_def Let_def using n by (simp add: eval_simps)
  with l show ?thesis by simp
qed

text \<open>
  C18 (safety). Redaction always succeeds, its last check never fires: the bytes left are exactly the lines
  that were not to be removed, in order, and so no line of them is a payload line; the events carry
  these bytes.
\<close>

theorem redaction_removes_payload:
  "\<exists>r. redact events fragment = Inr r \<and>
     lf_lines (rd_bytes r) = filter (\<lambda>l. \<not> dropped fragment l) (lf_lines (sample_bytes events)) \<and>
     sample_bytes (rd_events r) = rd_bytes r \<and> \<not> list_ex payload_line (lf_lines (rd_bytes r)) \<and>
     length (lf_lines (sample_bytes events)) = length (lf_lines (rd_bytes r)) + rd_payload r + rd_fragment r"
proof -
  have count: "length ls = length (filter (\<lambda>l. \<not> dropped fragment l) ls) + length (filter payload_line ls) +
      length (filter (\<lambda>l. \<not> payload_line l \<and> fragment \<and> bulky_line l) ls)" for ls
    by (induction ls) (auto simp: dropped_def)
  obtain r where r: "redact events fragment = Inr r"
    "lf_lines (rd_bytes r) = filter (\<lambda>l. \<not> dropped fragment l) (lf_lines (sample_bytes events))"
    "sample_bytes (rd_events r) = rd_bytes r" "rd_payload r = length (filter payload_line (lf_lines (sample_bytes events)))"
    "rd_fragment r = length (filter (\<lambda>l. \<not> payload_line l \<and> fragment \<and> bulky_line l) (lf_lines (sample_bytes events)))"
    using redact_result by blast
  moreover have "\<not> list_ex payload_line (lf_lines (rd_bytes r))" unfolding r(2) by (auto simp: dropped_def list_ex_iff)
  ultimately show ?thesis using count [of "lf_lines (sample_bytes events)"] by simp
qed

text \<open>Every event left has the time of one of the events it came from, in order.\<close>

lemma gather_times: "sorted (map sm_time (rev out) @ map sm_time es) \<Longrightarrow> sorted (map sm_time (gather fragment es keep out))"
proof (induction fragment es keep out rule: gather.induct)
  case (2 fragment e es keep out)
  have s: "sorted (map sm_time (rev out) @ map sm_time es)" using 2(5) by (auto simp: sorted_append)
  show ?case
    using 2(1-5) s by (auto simp: Let_def split: list.splits)
qed simp

end
