(* ===== verification/Reference_Fragment.thy ===== *)
theory Reference_Fragment
  imports Reference_Runs Redaction
begin

text \<open>
  The sample production capture as \<^verbatim>\<open>redact-qotom-capture.py --fragment\<close> leaves it.
\<close>

definition redacted_log :: "sample list \<Rightarrow> event list" where
  "redacted_log samples = map (\<lambda>s. \<lparr>ev_elapsed = Some (sm_time s), ev_data = sm_data s\<rparr>) samples"

definition production_samples :: "sample list" where
  "production_samples = [\<lparr>sm_time = 2, sm_utc = None, sm_data = take 1496 production_text\<rparr>,
     \<lparr>sm_time = 60, sm_utc = None, sm_data = recovery_text\<rparr>]"

definition production_lf_lines :: "bytes list" where
  "production_lf_lines = [select_line, production_mode_line, windows_line, platform_line, assign_line, grant_line,
     ipc_ready_line, production_line, deliver_line, fetch_line, send_line, refuse_line, refuse_line, refuse_line, refuse_line,
     handoff_line, end_line, production_final_line, default_line, chain_line]"

lemma production_samples_bytes:
  "redacted_log production_samples = production_log" "sample_bytes production_samples = concat production_lf_lines"
  by (simp_all add: redacted_log_def production_samples_def production_log_def sample_bytes_def production_lf_lines_def)
    (simp add: production_text_def)

lemma production_lf_lines_ok: "lines_ok production_lf_lines"
  unfolding production_lf_lines_def by (simp add: line_defs)

lemma production_kept_line:
  "\<not> dropped True select_line" "\<not> dropped True production_mode_line" "\<not> dropped True windows_line" "\<not> dropped True platform_line"
  "\<not> dropped True assign_line" "\<not> dropped True grant_line" "\<not> dropped True ipc_ready_line" "\<not> dropped True production_line"
  "\<not> dropped True deliver_line" "\<not> dropped True send_line" "\<not> dropped True refuse_line"
  "\<not> dropped True handoff_line" "\<not> dropped True end_line" "\<not> dropped True production_final_line"
  "\<not> dropped True default_line" "\<not> dropped True chain_line" "dropped True fetch_line"
  by code_simp+

definition fragment_text :: bytes where
  "fragment_text = select_line @ production_mode_line @ windows_line @ platform_line @ assign_line @ grant_line @
     ipc_ready_line @ production_line @ deliver_line @ send_line @ refuse_line @ refuse_line @ refuse_line @ refuse_line @
     handoff_line @ end_line @ production_final_line @ default_line @ chain_line @ []"

lemma production_fragment_lines:
  "concat (filter (\<lambda>l. \<not> dropped True l) production_lf_lines) = fragment_text"
  unfolding production_lf_lines_def fragment_text_def by (simp add: production_kept_line)

lemma fragment_fetches: "finditer (subject_event ''fetch'') fragment_text = []"
  unfolding finditer_def fragment_text_def by (simp_all add: line_miss del: append_Nil2)

text \<open>
  C19 (error). A fragment need not classify as its capture does: a production capture that passes is left
  without its fetch records when it is redacted as a fragment, and then no digest or manifest lets it pass,
  since the classifier counts these records against FINAL.
\<close>

theorem production_fragment_rejected:
  "(\<exists>r. classify_production (redacted_log production_samples) run_digest production_image = Inr r \<and> pr_status r = ''PASS'') \<and>
   (\<exists>f. redact production_samples True = Inr f \<and>
     \<not> (\<exists>digest manifest r. classify_production (redacted_log (rd_events f)) digest manifest = Inr r \<and> pr_status r = ''PASS''))"
proof -
  obtain f where f: "redact production_samples True = Inr f"
    "lf_lines (rd_bytes f) = filter (\<lambda>l. \<not> dropped True l) (lf_lines (sample_bytes production_samples))"
    "sample_bytes (rd_events f) = rd_bytes f"
    using redact_result by blast
  have "rd_bytes f = fragment_text"
    using f(2) unfolding production_samples_bytes lf_lines_concat [OF production_lf_lines_ok]
    by (metis concat_lf_lines production_fragment_lines)
  then have "log_bytes (redacted_log (rd_events f)) = fragment_text"
    using f(3) by (simp add: redacted_log_def log_bytes_def sample_bytes_def comp_def)
  moreover have "\<not> counts_agree fragment_text n" for n
    by (simp add: counts_agree_def fragment_fetches)
  ultimately have "pr_status r \<noteq> ''PASS''" if "classify_production (redacted_log (rd_events f)) digest manifest = Inr r"
    for digest manifest r
    using production_passes [OF that] by metis
  with f(1) show ?thesis using production_classified by (auto simp: production_samples_bytes)
qed

end
