(* ===== verification/Spec2Isabelle.thy ===== *)
theory Spec2Isabelle
  imports Witnesses Reference_Fragment
begin

text \<open>
  Verification of the LeanOS Qotom lab: the Python programs under \<^verbatim>\<open>src/scripts\<close> that decide what a
  serial capture of a test run on the reviewed Qotom machine proves.  The kernel prints one line per
  observation; the runner \<^verbatim>\<open>run-qotom-recovery-lab.py\<close> cuts the diagnostic stream out of a timed log
  and sends it through a chain of decoders, one program \<^verbatim>\<open>check-qotom-*-capture.py\<close> per stage.  Each
  decoder validates its own record at the end of the stream, replaces it by the terminal line the
  stream would have had without it, and calls the decoder below; the lowest ones replay the CPU and PCI
  records with generated executables.  A defect here would let a run be reported as evidence that it is
  not.

  Theories and the code they model

    \<^item> Prelude, Py_Bytes, Py_Regex, Records, Csv, Py_Struct: the Python used by all programs.
      \<open>'a res\<close> is a result or an exception; bytes methods, \<^verbatim>\<open>int()\<close>, \<^verbatim>\<open>str\<close> of numbers, the regular
      expressions of the programs as lists of items with a matcher that is proved equal to their
      language, \<^verbatim>\<open>struct\<close> fields and SHA-256.
    \<^item> Transport, Handoff, Acpi: \<^verbatim>\<open>check-qotom-handoff-capture.py\<close> and \<^verbatim>\<open>check-qotom-acpi-capture.py\<close>.
    \<^item> Decoder, Stage_Shapes: the common shape of a stage program, \<open>run_decoder\<close>, and the shapes
      several stages share (legacy lists, ownership handoff, SMI disable, Bus Master Enable).  The locale
      of a stage states what its caller relies on; it is interpreted for every stage.
    \<^item> Pci_Caps, Pci_AF, Ehci, Xhci, Pcie_Device, Ahci, Hda, Ports, Graphics: the 31 stages, each with
      one group of definitions per program, in the order of the chain.
    \<^item> Checkpoints, Chain: the programs above the chain (final PCI observation, no-SMAP control, copy
      roots, user entry, exception and blocking IPC) and what an accepted final observation implies.
    \<^item> Diagnostics, Lab_Records: \<^verbatim>\<open>check-j1900-diagnostic.py\<close>, \<^verbatim>\<open>check-qotom-pci-diagnostic.py\<close> and the
      one-line records removed before them (PCI read trace, bootstrap, ECAM memory, native BSP, ECAM arm).
    \<^item> Capture_Log, Pipeline: \<open>classify_run\<close>, \<open>classify_protected\<close>, \<open>cpu_diagnostic_bytes\<close> and
      \<open>classify_cpu_protected\<close> of \<^verbatim>\<open>run-qotom-recovery-lab.py\<close>.
    \<^item> Py_Search, Part_Texts, Line_Search: \<^verbatim>\<open>re.finditer\<close> and \<^verbatim>\<open>re.search\<close> over a whole log, for
      expressions built from parts; Part_Texts prints the text of a match from its groups, and Line_Search
      decides a search line by line.
    \<^item> Watchdog, Lab_Capture, Device_Program, Lab_Program, Production, Bsp_Production: the other classifiers
      of \<^verbatim>\<open>run-qotom-recovery-lab.py\<close>.  Watchdog has \<open>classify_watchdog\<close> (a stalled run) and
      \<open>classify_watchdog_kicks\<close> (a session that reloads the watchdog); Lab_Capture is class \<^verbatim>\<open>_Capture\<close>, shared
      by \<open>classify_device_program\<close>, \<open>classify_lab_program\<close> and \<open>classify_production\<close>, which collect failed checks
      and pass when there is none; Bsp_Production has the local vector table records and
      \<open>classify_bsp_production\<close>.
    \<^item> Clock, Recovery_Wait: \<open>watchdog_request\<close> and \<open>classify_rtc\<close> with the calendar of \<^verbatim>\<open>datetime\<close>, and the
      polling loop \<open>wait_for_recovery\<close>, whose callbacks are a sequence of observations.
    \<^item> Redaction: \<^verbatim>\<open>redact-qotom-capture.py\<close>, the removal of payload lines from a capture.
    \<^item> Errors: which exceptions the decoders raise.
    \<^item> Transcripts, Segments and the theories named Reference: a complete capture of the reviewed machine and
      small logs, runs and firmware tables; every acceptance lemma is proved in the kernel.  Witnesses applies
      the properties to them.

  What the lemmas show.  For each decoder the inversion lemmas (\<open>_SomeE\<close>, \<open>_inv\<close>, \<open>_sound\<close>) give the
  conditions of an accepted record; the round trips show that acceptance is printing; the stage locale
  carries "a report exists below" down the chain.  The properties of this theory connect the components:
  an entry checkpoint implies all the others on the same stream.  For
  the classifiers of the lab an inversion lemma lists the checks, one lemma per part says what an empty
  list of failures means, and the property combines them.  Reference_Fragment shows that the fragment of
  a passing production capture no longer passes, which the redaction program says it does.

  Bounds.  All recursion is structural or has a measure, so no fuel is used, but for the polling loop, a
  partial function that is proved to end under a clock that runs on: the cursor loops consume
  lines, the tag walk at least eight bytes a step, the chunk reader extends its body.  Captures are
  bounded by the programs' own constants (131072 bytes for a stream, 65536 for handoff and tables).

  Parameters.  The replay executables are functions of their arguments, the reviewed firmware
  observation is a record of reads, the expectation template is a list of lines, and the options are a
  predicate on their names.  The identity of FINAL that the generated protocol gives is an argument of
  \<open>classify_bsp_production\<close>.  Times of log events are rational numbers where Python has floats.

  Not modelled.  The reading and writing of capture directories by the redaction program; the serial line, SSH, power and disk control of the runner, its argument parser and the
  writing of results; the hashes of the tools' own source files that are copied into the report; the
  command line wrappers of the decoders; image building, emulator evidence, corpus tools and tests; and
  the kernel itself, whose Lean and C sources the captures come from.
\<close>

unbundle bit_operations_syntax

text \<open>
  C1 (safety). A run that is classified with the user entry checkpoint has passed every checkpoint below
  it on the same stream: the entry and its return used the closed root that the publication record
  named, that root and the copy root were page-aligned, different and below 16 MiB, supervisor-mode
  execution prevention had been switched on, and the final PCI observation of the stream shows Bus Master
  Enable cleared on every function the kernel disables, each by a write whose record was accepted.
\<close>

theorem entry_after_admission:
  assumes "classify_stream on replay pci_replay rc template P acpi files bsp_rejected raw = Inr (reports, d)"
    and "check_options on has_pci has_bsp = Inr ()" "on ''entry_integration''"
  shows "\<exists>raw1 entry raw2 copy raw3 nosmap raw4 final.
    run_integration on P template raw = Inr (raw1, Some entry) \<and>
    extract_copy_root raw1 P ''base'' = Inr (raw2, copy) \<and>
    en_closed_root entry = cr_closed_root copy \<and> roots_valid (cr_copy_root copy) (cr_closed_root copy) (cr_active_root copy) \<and>
    extract_nosmap raw2 P = Inr (raw3, nosmap) \<and> bit (ns_after nosmap) 20 \<and>
    extract_pci_final raw3 P True = Inr (raw4, final) \<and> final_device P raw3 (pf_commands final)"
proof -
  from check_options_inv(1) [OF assms(2)] assms(3) have on: "on ''copy_root_publication''" "on ''nosmap_control''"
    "on ''pci_trust_contract''" "on ''pci_final_admission''"
    by (simp_all add: STAGE_REQUIREMENTS_def)
  from assms(1) obtain raw1 entry raw2 copy raw3 nosmap raw4 final where
    i: "run_integration on P template raw = Inr (raw1, entry)" and c: "run_copy_root on P entry raw1 = Inr (raw2, copy)"
    and n: "run_checkpoint (on ''nosmap_control'') extract_nosmap P raw2 = Inr (raw3, nosmap)"
    and f: "run_checkpoint (on ''pci_final_admission'')
       (\<lambda>raw P. extract_pci_final raw P (on ''pci_trust_contract'')) P raw3 = Inr (raw4, final)"
    by (rule classify_stream_inv)
  obtain e where e: "entry = Some e"
    using i assms(3) by (auto simp: run_integration_def res_simps split: if_splits)
  obtain cr where cr: "extract_copy_root raw1 P ''base'' = Inr (raw2, cr)" "en_closed_root e = cr_closed_root cr"
    using c on assms(3) e by (auto simp: run_copy_root_def res_simps)
  obtain ns where ns: "extract_nosmap raw2 P = Inr (raw3, ns)" using n on by (auto simp: run_checkpoint_def res_simps)
  obtain pf where pf: "extract_pci_final raw3 P True = Inr (raw4, pf)" using f on by (auto simp: run_checkpoint_def res_simps)
  have "roots_valid (cr_copy_root cr) (cr_closed_root cr) (cr_active_root cr)"
    using cr(1) by (rule extract_copy_root_SomeE)
  moreover have "bit (ns_after ns) 20"
    using ns by (rule extract_nosmap_SomeE) (simp add: control_bits(4))
  ultimately show ?thesis using i e cr ns pf final_device_accepted [OF pf] by blast
qed

theorem entry_after_admission_witness:
  "\<exists>raw1 entry raw2 copy raw3 nosmap raw4 final.
    run_integration ref_options ref_P [] (rcheck 49 ''qotom-exception-integration-pending'') = Inr (raw1, Some entry) \<and>
    extract_copy_root raw1 ref_P ''base'' = Inr (raw2, copy) \<and> en_closed_root entry = cr_closed_root copy \<and>
    extract_nosmap raw2 ref_P = Inr (raw3, nosmap) \<and> extract_pci_final raw3 ref_P True = Inr (raw4, final) \<and>
    final_device ref_P raw3 (pf_commands final)"
proof -
  obtain reports d where c: "classify_stream ref_options ref_cpu_run (Some ref_pci_run) ref_reviewed [] ref_P (Some ref_acpi) [] False
     (rcheck 49 ''qotom-exception-integration-pending'') = Inr (reports, d)" using ref_classify_stream by blast
  have "check_options ref_options True True = Inr ()" 
    by (simp add: check_options_def STAGE_REQUIREMENTS_def KERNEL_REQUIREMENTS_def SAMPLE_REQUIREMENTS_def ref_options_def eval_simps)
  moreover have "ref_options ''entry_integration''" by (simp add: ref_options_def)
  ultimately show ?thesis using entry_after_admission [OF c] by blast
qed

end
